(* ===== verification/Service_Prelude.thy ===== *)
theory Service_Prelude
  imports Main
begin

text \<open>
  Shared vocabulary of the development: time and identifiers, JSON values, the error monad the
  services are written in, and the table operations behind the database queries.

  Instants are JavaScript \<open>Date\<close> values: milliseconds since the epoch, as \<^typ>\<open>int\<close>.
  Identifiers (UUIDs) and all text columns are strings.  A service call that throws is a value
  \<open>Inl e\<close>; one that returns is \<open>Inr x\<close>.  A database transaction that throws rolls
  back, so its model returns the new world only on \<open>Inr\<close>.
\<close>

type_synonym time = int
type_synonym ident = string

text \<open>The \<open>i\<close>-th reading of the wall clock made by one call.\<close>

type_synonym clock = "nat \<Rightarrow> time"

definition monotone_clock :: "clock \<Rightarrow> bool" where
  "monotone_clock clk \<longleftrightarrow> (\<forall>i. clk i \<le> clk (Suc i))"

lemma monotone_clock_le: "monotone_clock clk \<Longrightarrow> i \<le> j \<Longrightarrow> clk i \<le> clk j"
  unfolding monotone_clock_def by (rule lift_Suc_mono_le) auto

text \<open>JSON values, as audit metadata and error details carry them.  \<open>JDate\<close> stands for the
  ISO string \<open>Date.toISOString\<close> renders.\<close>

datatype json =
    JNull
  | JBool bool
  | JInt int
  | JStr string
  | JDate time
  | JArr "json list"
  | JObj "(string \<times> json) list"

text \<open>Reading a key of a value that need not be an object.\<close>

definition json_field :: "string \<Rightarrow> json \<Rightarrow> json option" where
  "json_field k j = (case j of JObj entries \<Rightarrow> map_of entries k | _ \<Rightarrow> None)"

definition json_of_option :: "('a \<Rightarrow> json) \<Rightarrow> 'a option \<Rightarrow> json" where
  "json_of_option f x = (case x of None \<Rightarrow> JNull | Some v \<Rightarrow> f v)"

section \<open>The error monad\<close>

named_theorems svc \<open>unfolding and inversion rules for service calls\<close>

definition bindE :: "'e + 'a \<Rightarrow> ('a \<Rightarrow> 'e + 'b) \<Rightarrow> 'e + 'b" where
  "bindE m f = (case m of Inl e \<Rightarrow> Inl e | Inr x \<Rightarrow> f x)"

definition guardE :: "bool \<Rightarrow> 'e \<Rightarrow> 'e + unit" where
  "guardE b e = (if b then Inr () else Inl e)"

definition requireE :: "'a option \<Rightarrow> 'e \<Rightarrow> 'e + 'a" where
  "requireE x e = (case x of None \<Rightarrow> Inl e | Some v \<Rightarrow> Inr v)"

lemma bindE_simps [simp]:
  "bindE (Inl e) f = Inl e"
  "bindE (Inr x) f = f x"
  by (simp_all add: bindE_def)

lemma bindE_Inr_iff [svc]: "bindE m f = Inr y \<longleftrightarrow> (\<exists>x. m = Inr x \<and> f x = Inr y)"
  by (cases m) simp_all

lemma bindE_Inl_iff [svc]:
  "bindE m f = Inl e \<longleftrightarrow> m = Inl e \<or> (\<exists>x. m = Inr x \<and> f x = Inl e)"
  by (cases m) simp_all

lemma bindE_cong [fundef_cong]:
  "m = m' \<Longrightarrow> (\<And>x. m' = Inr x \<Longrightarrow> f x = g x) \<Longrightarrow> bindE m f = bindE m' g"
  by (cases m') auto

lemma guardE_simps [simp]:
  "guardE b e = Inr u \<longleftrightarrow> b"
  "guardE b e = Inl e' \<longleftrightarrow> \<not> b \<and> e' = e"
  by (auto simp: guardE_def)

lemma guardE_eval [simp]: "guardE True e = Inr ()" "guardE False e = Inl e"
  by (simp_all add: guardE_def)

lemma requireE_simps [simp]:
  "requireE x e = Inr v \<longleftrightarrow> x = Some v"
  "requireE x e = Inl e' \<longleftrightarrow> x = None \<and> e' = e"
  by (auto simp: requireE_def split: option.splits)

lemma requireE_eval [simp]: "requireE (Some v) e = Inr v" "requireE None e = Inl e"
  by (simp_all add: requireE_def)

text \<open>A transaction that returns took neither an early throw nor a failed check on its way.\<close>

lemma throw_Inr: "(if b then Inl e else m) = Inr y \<longleftrightarrow> \<not> b \<and> m = Inr y"
  by simp

lemma when_Inr: "(if b then m else Inr ()) = Inr u \<longleftrightarrow> (b \<longrightarrow> m = Inr ())"
  by (cases u) simp

lemmas transaction_Inr = bindE_Inr_iff throw_Inr when_Inr

section \<open>Tables\<close>

text \<open>
  A table is the list of its rows.  \<open>find\<close> is \<open>findFirst\<close>/\<open>findUnique\<close>,
  \<open>filter\<close> is \<open>findMany\<close>, and \<open>update_where\<close> is
  \<open>update\<close>/\<open>updateMany\<close>.
\<close>

definition update_where :: "('r \<Rightarrow> bool) \<Rightarrow> ('r \<Rightarrow> 'r) \<Rightarrow> 'r list \<Rightarrow> 'r list" where
  "update_where p f rows = map (\<lambda>r. if p r then f r else r) rows"

definition count_where :: "('r \<Rightarrow> bool) \<Rightarrow> 'r list \<Rightarrow> nat" where
  "count_where p rows = length (filter p rows)"

lemma set_update_where: "set (update_where p f rows) = (\<lambda>r. if p r then f r else r) ` set rows"
  by (simp add: update_where_def)

lemma update_where_Nil [simp]: "update_where p f [] = []"
  by (simp add: update_where_def)

lemma update_where_Cons [simp]:
  "update_where p f (r # rs) = (if p r then f r else r) # update_where p f rs"
  by (simp add: update_where_def)

lemma update_where_append [simp]:
  "update_where p f (xs @ ys) = update_where p f xs @ update_where p f ys"
  by (simp add: update_where_def)

lemma length_update_where [simp]: "length (update_where p f rows) = length rows"
  by (simp add: update_where_def)

lemma map_update_where:
  "(\<And>r. g (f r) = g r) \<Longrightarrow> map g (update_where p f rows) = map g rows"
  by (simp add: update_where_def)

lemma update_where_none: "(\<And>r. r \<in> set rows \<Longrightarrow> \<not> p r) \<Longrightarrow> update_where p f rows = rows"
  by (induction rows) auto

text \<open>A property of every row after an update: of the updated rows and of the others.\<close>

lemma update_where_elim:
  assumes "r \<in> set (update_where p f rows)"
    and "\<And>x. x \<in> set rows \<Longrightarrow> \<not> p x \<Longrightarrow> Q x"
    and "\<And>x. x \<in> set rows \<Longrightarrow> p x \<Longrightarrow> Q (f x)"
  shows "Q r"
  using assms unfolding set_update_where by auto

lemma count_where_0 [simp]: "count_where p rows = 0 \<longleftrightarrow> (\<forall>r \<in> set rows. \<not> p r)"
  by (auto simp: count_where_def filter_empty_conv)

lemma count_where_pos: "0 < count_where p rows \<longleftrightarrow> (\<exists>r \<in> set rows. p r)"
  by (metis count_where_0 neq0_conv)

lemma find_append: "find p (xs @ ys) = (case find p xs of None \<Rightarrow> find p ys | Some x \<Rightarrow> Some x)"
  by (induction xs) auto

text \<open>An update of columns the condition does not read commutes with the query.\<close>

lemma find_update_where:
  "(\<And>r. p (f r) = p r) \<Longrightarrow>
   find p (update_where q f rows) = map_option (\<lambda>r. if q r then f r else r) (find p rows)"
  by (induction rows) auto

lemma find_SomeD: "find p xs = Some x \<Longrightarrow> x \<in> set xs \<and> p x"
  by (induction xs) (auto split: if_splits)

lemma find_NoneD: "find p xs = None \<Longrightarrow> x \<in> set xs \<Longrightarrow> \<not> p x"
  by (induction xs) (auto split: if_splits)

text \<open>Two rows of a table with distinct keys that carry the same key are the same row.\<close>

lemma distinct_key:
  "distinct (map k rows) \<Longrightarrow> r \<in> set rows \<Longrightarrow> r' \<in> set rows \<Longrightarrow> k r = k r' \<Longrightarrow> r = r'"
  by (simp add: distinct_map inj_on_def)

lemma filter_single:
  "distinct xs \<Longrightarrow> x \<in> set xs \<Longrightarrow> (\<And>y. y \<in> set xs \<Longrightarrow> P y \<longleftrightarrow> y = x) \<Longrightarrow> filter P xs = [x]"
  by (induction xs) (auto simp: filter_empty_conv)

lemma find_key:
  "distinct (map k rows) \<Longrightarrow> r \<in> set rows \<Longrightarrow> find (\<lambda>x. k x = k r) rows = Some r"
  by (induction rows) (auto simp: image_iff)

lemma count_where_le_1:
  assumes "distinct (map k rows)" and "\<And>r. r \<in> set rows \<Longrightarrow> p r \<Longrightarrow> k r = a"
  shows "count_where p rows \<le> 1"
  using assms
proof (induction rows)
  case (Cons r rows)
  show ?case
  proof (cases "p r")
    case True
    with Cons.prems have "k r = a" by simp
    with Cons.prems have "\<forall>x \<in> set rows. \<not> p x"
      by (force simp: image_iff)
    with True show ?thesis by (simp add: count_where_def filter_empty_conv)
  next
    case False
    with Cons show ?thesis by (simp add: count_where_def)
  qed
qed (simp add: count_where_def)

section \<open>Machines\<close>

text \<open>
  A component with state is a set of initial states and a step relation.  The locale is the
  contract every such machine of the development discharges: an invariant that holds initially and
  that each step keeps, hence one that holds in every reachable state.
\<close>

inductive reachable :: "('s \<Rightarrow> bool) \<Rightarrow> ('s \<Rightarrow> 's \<Rightarrow> bool) \<Rightarrow> 's \<Rightarrow> bool"
  for init :: "'s \<Rightarrow> bool" and step :: "'s \<Rightarrow> 's \<Rightarrow> bool" where
  start: "init s \<Longrightarrow> reachable init step s"
| next_step: "reachable init step s \<Longrightarrow> step s t \<Longrightarrow> reachable init step t"

locale machine =
  fixes init :: "'s \<Rightarrow> bool"
    and step :: "'s \<Rightarrow> 's \<Rightarrow> bool"
    and inv :: "'s \<Rightarrow> bool"
  assumes inv_init: "init s \<Longrightarrow> inv s"
    and inv_step: "inv s \<Longrightarrow> step s t \<Longrightarrow> inv t"
begin

lemma inv_reachable: "reachable init step s \<Longrightarrow> inv s"
  by (induction rule: reachable.induct) (auto intro: inv_init inv_step)

lemma inv_steps: "step\<^sup>*\<^sup>* s t \<Longrightarrow> inv s \<Longrightarrow> inv t"
  by (induction rule: rtranclp_induct) (auto intro: inv_step)

lemma reachable_steps: "reachable init step s \<Longrightarrow> step\<^sup>*\<^sup>* s t \<Longrightarrow> reachable init step t"
  by (rotate_tac, induction rule: rtranclp_induct) (auto intro: reachable.next_step)

text \<open>A state property that, together with the invariant, every step keeps, is never lost.\<close>

lemma stable_steps:
  assumes stable: "\<And>s t. inv s \<Longrightarrow> P s \<Longrightarrow> step s t \<Longrightarrow> P t"
    and run: "step\<^sup>*\<^sup>* s t" and "inv s" and "P s"
  shows "P t"
proof -
  have "inv t \<and> P t"
    using run
  proof (induction rule: rtranclp_induct)
    case base
    then show ?case using \<open>inv s\<close> \<open>P s\<close> by simp
  next
    case (step t u)
    then show ?case using inv_step stable by blast
  qed
  then show ?thesis ..
qed

end

section \<open>Text\<close>

text \<open>\<open>String.prototype.toLowerCase\<close> on the characters the model's strings have.\<close>

definition lower_char :: "char \<Rightarrow> char" where
  "lower_char c = (let n = (of_char c :: nat) in if 65 \<le> n \<and> n \<le> 90 then char_of (n + 32) else c)"

definition to_lower_case :: "string \<Rightarrow> string" where
  "to_lower_case = map lower_char"

text \<open>\<open>indexOf\<close> of a character, \<open>split\<close> on one, and \<open>join\<close>.\<close>

definition first_index :: "char \<Rightarrow> string \<Rightarrow> nat option" where
  "first_index c s = (if c \<in> set s then Some (length (takeWhile (\<lambda>x. x \<noteq> c) s)) else None)"

lemma first_index_append: "c \<notin> set xs \<Longrightarrow> first_index c (xs @ c # ys) = Some (length xs)"
  by (induction xs) (auto simp: first_index_def)

fun split_on :: "char \<Rightarrow> string \<Rightarrow> string list" where
  "split_on c [] = [[]]"
| "split_on c (x # xs) =
     (if x = c then [] # split_on c xs
      else (case split_on c xs of [] \<Rightarrow> [[x]] | y # ys \<Rightarrow> (x # y) # ys))"

fun join_with :: "string \<Rightarrow> string list \<Rightarrow> string" where
  "join_with sep [] = []"
| "join_with sep [x] = x"
| "join_with sep (x # y # ys) = x @ sep @ join_with sep (y # ys)"

lemma split_on_not_Nil [simp]: "split_on c s \<noteq> []"
  by (cases s) (simp_all split: list.split)

lemma join_split: "join_with [c] (split_on c s) = s"
proof (induction s)
  case (Cons x s)
  obtain y ys where "split_on c s = y # ys" by (cases "split_on c s") simp_all
  with Cons show ?case by (cases ys) auto
qed simp

lemma split_on_piece: "p \<in> set (split_on c s) \<Longrightarrow> c \<notin> set p"
  by (induction s arbitrary: p) (auto split: if_splits list.splits)

lemma split_on_free: "c \<notin> set xs \<Longrightarrow> split_on c xs = [xs]"
  by (induction xs) auto

lemma split_on_append: "c \<notin> set xs \<Longrightarrow> split_on c (xs @ c # ys) = xs # split_on c ys"
  by (induction xs) auto

lemma split_join: "ps \<noteq> [] \<Longrightarrow> \<forall>p \<in> set ps. c \<notin> set p \<Longrightarrow> split_on c (join_with [c] ps) = ps"
  by (induction "[c]" ps rule: join_with.induct) (simp_all add: split_on_free split_on_append)

text \<open>\<open>trim\<close>, and the first character in upper case.\<close>

definition white_space :: "char \<Rightarrow> bool" where
  "white_space c \<longleftrightarrow> (let n = (of_char c :: nat) in 9 \<le> n \<and> n \<le> 13 \<or> n = 32 \<or> n = 160)"

definition trim :: "string \<Rightarrow> string" where
  "trim s = rev (dropWhile white_space (rev (dropWhile white_space s)))"

definition upper_char :: "char \<Rightarrow> char" where
  "upper_char c = (let n = (of_char c :: nat) in if 97 \<le> n \<and> n \<le> 122 then char_of (n - 32) else c)"

definition capitalized :: "string \<Rightarrow> string" where
  "capitalized s = (case s of [] \<Rightarrow> [] | c # cs \<Rightarrow> upper_char c # cs)"

text \<open>ASCII digits and letters, and the number a run of digits denotes.\<close>

definition digit :: "char \<Rightarrow> bool" where
  "digit c \<longleftrightarrow> (let n = (of_char c :: nat) in 48 \<le> n \<and> n \<le> 57)"

definition lower_letter :: "char \<Rightarrow> bool" where
  "lower_letter c \<longleftrightarrow> (let n = (of_char c :: nat) in 97 \<le> n \<and> n \<le> 122)"

definition digit_value :: "char \<Rightarrow> nat" where
  "digit_value c = of_char c - 48"

definition parse_decimal :: "string \<Rightarrow> nat" where
  "parse_decimal s = foldl (\<lambda>n c. n * 10 + digit_value c) 0 s"

end
