(* ===== verification/Errors.thy ===== *)
theory Errors
  imports Service_Prelude
begin

text \<open>
  The exceptions a service call may throw: the HTTP exceptions built by the \<open>Errors.*\<close>
  factories of \<open>src/src/common/errors/errors.ts\<close> (status, error code, message and details,
  \<open>JNull\<close> when the factory passes none), the known request errors of the database client
  by their code, and any other thrown \<open>Error\<close>.
\<close>

section \<open>Error codes and exceptions\<close>

datatype error_code =
    TOKEN_MISSING
  | TOKEN_INVALID
  | TOKEN_EXPIRED
  | TOKEN_REVOKED
  | SESSION_INVALIDATED
  | USER_INACTIVE
  | INVALID_CREDENTIALS
  | EMAIL_NOT_VERIFIED
  | CURRENT_PASSWORD_INCORRECT
  | REFRESH_TOKEN_INVALID
  | INSUFFICIENT_ROLE
  | ADMIN_SELF_TARGET_FORBIDDEN
  | PERMISSION_DENIED
  | PAYLOAD_TOO_LARGE
  | UNSUPPORTED_MEDIA_TYPE
  | VALIDATION_FAILED
  | INVALID_OTP
  | INVALID_LINK
  | TURNSTILE_TOKEN_MISSING
  | TURNSTILE_TOKEN_INVALID
  | EMAIL_DOMAIN_DISALLOWED
  | FK_REFERENCE_INVALID
  | WORKSPACE_CONTEXT_MISSING
  | RESOURCE_NOT_FOUND
  | UNIQUE_CONSTRAINT_VIOLATION
  | RESOURCE_CONFLICT
  | LAST_OWNER_PROTECTED
  | MEMBERSHIP_NOT_ACTIVE
  | ROLE_NOT_ASSIGNABLE
  | INVITATION_INVALID
  | INVITATION_EXPIRED
  | FILE_NOT_ATTACHABLE
  | FILE_NOT_RELEASABLE
  | FILE_CONTENT_INVALID
  | FILE_QUOTA_EXCEEDED
  | RATE_LIMITED
  | EXTERNAL_SERVICE_UNAVAILABLE
  | INTERNAL_ERROR

datatype exn =
    HttpException nat error_code string json
  | PrismaKnownRequestError string
  | JsError string

fun status_of :: "exn \<Rightarrow> nat option" where
  "status_of (HttpException s c m d) = Some s"
| "status_of (PrismaKnownRequestError c) = None"
| "status_of (JsError m) = None"

fun code_of :: "exn \<Rightarrow> error_code option" where
  "code_of (HttpException s c m d) = Some c"
| "code_of (PrismaKnownRequestError c) = None"
| "code_of (JsError m) = None"

text \<open>\<open>instanceof\<close> on the built-in exception classes the factories construct.\<close>

definition is_forbidden :: "exn \<Rightarrow> bool" where
  "is_forbidden e \<longleftrightarrow> status_of e = Some 403"

definition is_not_found :: "exn \<Rightarrow> bool" where
  "is_not_found e \<longleftrightarrow> status_of e = Some 404"

section \<open>The factories\<close>

definition tokenMissing :: exn where
  "tokenMissing = HttpException 401 TOKEN_MISSING ''Authentication required'' JNull"

definition tokenInvalid :: exn where
  "tokenInvalid = HttpException 401 TOKEN_INVALID ''Authentication token is invalid'' JNull"

definition tokenExpired :: exn where
  "tokenExpired = HttpException 401 TOKEN_EXPIRED ''Your session has expired. Please log in again.'' JNull"

definition tokenRevoked :: exn where
  "tokenRevoked = HttpException 401 TOKEN_REVOKED ''This session has been logged out'' JNull"

definition sessionInvalidated :: exn where
  "sessionInvalidated = HttpException 401 SESSION_INVALIDATED ''Session invalidated. Please log in again.'' JNull"

definition userInactive :: exn where
  "userInactive = HttpException 401 USER_INACTIVE ''Account is unavailable'' JNull"

definition invalidCredentials :: exn where
  "invalidCredentials = HttpException 401 INVALID_CREDENTIALS ''Invalid credentials'' JNull"

definition emailNotVerified :: exn where
  "emailNotVerified = HttpException 401 EMAIL_NOT_VERIFIED ''Please verify your email before logging in. Check your inbox or request a new verification link.'' JNull"

definition currentPasswordIncorrect :: exn where
  "currentPasswordIncorrect = HttpException 401 CURRENT_PASSWORD_INCORRECT ''Current password is incorrect'' JNull"

definition refreshTokenInvalid :: exn where
  "refreshTokenInvalid = HttpException 401 REFRESH_TOKEN_INVALID ''Your session has expired. Please sign in again.'' JNull"

definition insufficientRole :: exn where
  "insufficientRole = HttpException 403 INSUFFICIENT_ROLE ''You do not have permission to perform this action'' JNull"

definition adminSelfTargetForbidden :: "string \<Rightarrow> exn" where
  "adminSelfTargetForbidden message = HttpException 403 ADMIN_SELF_TARGET_FORBIDDEN message JNull"

definition permissionDenied :: "string \<Rightarrow> string option \<Rightarrow> exn" where
  "permissionDenied action subject =
     HttpException 403 PERMISSION_DENIED ''You do not have permission to perform this action''
       (case subject of
          None \<Rightarrow> JObj [(''action'', JStr action)]
        | Some s \<Rightarrow> JObj [(''action'', JStr action), (''subject'', JStr s)])"

definition lastOwnerProtected :: "(ident \<times> string) list \<Rightarrow> exn" where
  "lastOwnerProtected soleOwnedWorkspaces =
     (if soleOwnedWorkspaces \<noteq> [] then
        HttpException 409 LAST_OWNER_PROTECTED
          ''You are the only active owner of a workspace. Transfer ownership or delete the workspace before deleting this account.''
          (JObj [(''workspaces'',
             JArr (map (\<lambda>(i, n). JObj [(''id'', JStr i), (''name'', JStr n)]) soleOwnedWorkspaces))])
      else
        HttpException 409 LAST_OWNER_PROTECTED
          ''A workspace must always have at least one active owner. Appoint another owner first.''
          JNull)"

definition membershipNotActive :: "string \<Rightarrow> exn" where
  "membershipNotActive status =
     HttpException 409 MEMBERSHIP_NOT_ACTIVE
       ''That membership is not in a state that allows this operation''
       (JObj [(''status'', JStr status)])"

definition roleNotAssignable :: exn where
  "roleNotAssignable = HttpException 403 ROLE_NOT_ASSIGNABLE ''You may not assign that role here'' JNull"

definition invitationInvalid :: exn where
  "invitationInvalid = HttpException 400 INVITATION_INVALID ''This invitation is no longer valid'' JNull"

definition invitationExpired :: exn where
  "invitationExpired = HttpException 400 INVITATION_EXPIRED ''This invitation has expired. Ask for a new one.'' JNull"

definition validationFailed :: "(string \<times> string list) list \<Rightarrow> exn" where
  "validationFailed details =
     HttpException 400 VALIDATION_FAILED ''Validation failed''
       (JArr (map (\<lambda>(f, cs). JObj [(''field'', JStr f), (''constraints'', JArr (map JStr cs))]) details))"

definition invalidOtp :: exn where
  "invalidOtp = HttpException 400 INVALID_OTP ''Invalid or expired verification code'' JNull"

definition invalidLink :: exn where
  "invalidLink = HttpException 400 INVALID_LINK ''This link is invalid or has expired'' JNull"

definition turnstileTokenMissing :: exn where
  "turnstileTokenMissing = HttpException 400 TURNSTILE_TOKEN_MISSING ''A bot-check token is required.'' JNull"

definition turnstileTokenInvalid :: exn where
  "turnstileTokenInvalid = HttpException 400 TURNSTILE_TOKEN_INVALID ''The bot check failed or expired. Please try again.'' JNull"

definition emailDomainDisallowed :: "string \<Rightarrow> exn" where
  "emailDomainDisallowed domain =
     HttpException 400 EMAIL_DOMAIN_DISALLOWED ''This email provider is not allowed''
       (JObj [(''domain'', JStr domain)])"

definition badRequest :: "string \<Rightarrow> exn" where
  "badRequest message = HttpException 400 VALIDATION_FAILED message JNull"

definition workspaceContextMissing :: exn where
  "workspaceContextMissing = HttpException 400 WORKSPACE_CONTEXT_MISSING ''A workspace context is required for this action'' JNull"

definition resourceNotFound :: "string \<Rightarrow> string option \<Rightarrow> exn" where
  "resourceNotFound resource message =
     HttpException 404 RESOURCE_NOT_FOUND
       (case message of None \<Rightarrow> resource @ '' not found'' | Some m \<Rightarrow> m)
       (JObj [(''resource'', JStr resource)])"

definition uniqueConstraintViolation :: "string \<Rightarrow> exn" where
  "uniqueConstraintViolation field =
     HttpException 409 UNIQUE_CONSTRAINT_VIOLATION (field @ '' already in use'')
       (JObj [(''field'', JStr field)])"

definition resourceConflict :: "string \<Rightarrow> exn" where
  "resourceConflict message = HttpException 409 RESOURCE_CONFLICT message JNull"

definition fileNotAttachable :: exn where
  "fileNotAttachable = HttpException 409 FILE_NOT_ATTACHABLE ''This file can no longer be attached. It expired or was already used; upload it again.'' JNull"

definition fileNotReleasable :: exn where
  "fileNotReleasable = HttpException 409 FILE_NOT_RELEASABLE ''This file is in use, so it cannot be removed this way. Remove it from what shows it instead.'' JNull"

definition fileContentInvalid :: "string \<Rightarrow> exn" where
  "fileContentInvalid message = HttpException 422 FILE_CONTENT_INVALID message JNull"

definition rateLimited :: "string option \<Rightarrow> exn" where
  "rateLimited message =
     HttpException 429 RATE_LIMITED
       (case message of None \<Rightarrow> ''Too many requests. Please retry later.'' | Some m \<Rightarrow> m) JNull"

fun decimal :: "nat \<Rightarrow> string" where
  "decimal n = (if n < 10 then [char_of (n + 48)] else decimal (n div 10) @ [char_of (n mod 10 + 48)])"

declare decimal.simps [simp del]

definition fileQuotaExceeded :: "nat \<Rightarrow> exn" where
  "fileQuotaExceeded limit =
     HttpException 429 FILE_QUOTA_EXCEEDED
       (''You can hold at most '' @ decimal limit @ '' uploaded files that are not attached to anything. Attach one, or wait for unused uploads to expire.'')
       (JObj [(''limit'', JInt (int limit))])"

definition payloadTooLarge :: "string \<Rightarrow> exn" where
  "payloadTooLarge message = HttpException 413 PAYLOAD_TOO_LARGE message JNull"

definition unsupportedMediaType :: "string \<Rightarrow> exn" where
  "unsupportedMediaType message = HttpException 415 UNSUPPORTED_MEDIA_TYPE message JNull"

definition externalServiceUnavailable :: "string \<Rightarrow> exn" where
  "externalServiceUnavailable message = HttpException 503 EXTERNAL_SERVICE_UNAVAILABLE message JNull"

text \<open>An Express body-parser failure, as an \<open>http-errors\<close> object: the fields
  \<open>fromBodyParserError\<close> reads, each absent or present (and of the type read).\<close>

record http_errors_object =
  he_status :: "nat option"
  he_expose :: "bool option"
  he_message :: "string option"

definition fromBodyParserError :: "http_errors_object option \<Rightarrow> exn option" where
  "fromBodyParserError error =
     (case error of
        None \<Rightarrow> None
      | Some e \<Rightarrow>
          (if he_expose e \<noteq> Some True then None
           else case he_message e of
                  None \<Rightarrow> None
                | Some message \<Rightarrow>
                    (if he_status e = Some 413 then Some (payloadTooLarge message)
                     else if he_status e = Some 415 then Some (unsupportedMediaType message)
                     else if he_status e = Some 400 then Some (badRequest message)
                     else None)))"

lemmas errors_def =
  tokenMissing_def
  tokenInvalid_def
  tokenExpired_def
  tokenRevoked_def
  sessionInvalidated_def
  userInactive_def
  invalidCredentials_def
  emailNotVerified_def
  currentPasswordIncorrect_def
  refreshTokenInvalid_def
  insufficientRole_def
  adminSelfTargetForbidden_def
  permissionDenied_def
  lastOwnerProtected_def
  membershipNotActive_def
  roleNotAssignable_def
  invitationInvalid_def
  invitationExpired_def
  validationFailed_def
  invalidOtp_def
  invalidLink_def
  turnstileTokenMissing_def
  turnstileTokenInvalid_def
  emailDomainDisallowed_def
  badRequest_def
  workspaceContextMissing_def
  resourceNotFound_def
  uniqueConstraintViolation_def
  resourceConflict_def
  fileNotAttachable_def
  fileNotReleasable_def
  fileContentInvalid_def
  rateLimited_def
  fileQuotaExceeded_def
  payloadTooLarge_def
  unsupportedMediaType_def
  externalServiceUnavailable_def

text \<open>Status and code of every factory, for the proofs that look at them.\<close>

lemma error_codes [simp]:
  "code_of tokenMissing = Some TOKEN_MISSING"
  "code_of tokenInvalid = Some TOKEN_INVALID"
  "code_of tokenRevoked = Some TOKEN_REVOKED"
  "code_of sessionInvalidated = Some SESSION_INVALIDATED"
  "code_of userInactive = Some USER_INACTIVE"
  "code_of invalidCredentials = Some INVALID_CREDENTIALS"
  "code_of emailNotVerified = Some EMAIL_NOT_VERIFIED"
  "code_of currentPasswordIncorrect = Some CURRENT_PASSWORD_INCORRECT"
  "code_of refreshTokenInvalid = Some REFRESH_TOKEN_INVALID"
  "code_of roleNotAssignable = Some ROLE_NOT_ASSIGNABLE"
  "code_of invitationInvalid = Some INVITATION_INVALID"
  "code_of invitationExpired = Some INVITATION_EXPIRED"
  "code_of invalidLink = Some INVALID_LINK"
  "code_of workspaceContextMissing = Some WORKSPACE_CONTEXT_MISSING"
  "code_of (resourceConflict x) = Some RESOURCE_CONFLICT"
  "code_of (lastOwnerProtected ws) = Some LAST_OWNER_PROTECTED"
  "code_of (membershipNotActive x) = Some MEMBERSHIP_NOT_ACTIVE"
  "code_of (permissionDenied x y) = Some PERMISSION_DENIED"
  "code_of (resourceNotFound x y) = Some RESOURCE_NOT_FOUND"
  "code_of (uniqueConstraintViolation x) = Some UNIQUE_CONSTRAINT_VIOLATION"
  by (simp_all add: errors_def)

text \<open>
  A body-parser failure is answered as a client error only when the parser itself marked the
  message as safe to expose, and never as a server error.
\<close>

lemma fromBodyParserError_client_error:
  assumes "fromBodyParserError error = Some e"
  shows "status_of e \<in> {Some 400, Some 413, Some 415}"
    and "\<exists>o'. error = Some o' \<and> he_expose o' = Some True"
  using assms
  by (auto simp: fromBodyParserError_def errors_def split: option.splits if_splits)

end
