(* ===== verification/Catalog.thy ===== *)
theory Catalog
  imports Errors
begin

text \<open>
  The permission vocabulary and the role definitions of
  \<open>src/src/common/authorization/permission-catalog.ts\<close>: actions, subjects, the permission
  constants, the catalog, what every authenticated caller holds, and the role definitions with
  their ranks.  Permissions and role scopes are also read from untyped columns and from a cache, so
  the enums have an \<open>Other\<close> constructor for a value that is no member.
\<close>

section \<open>Vocabulary\<close>

datatype action =
    A_manage
  | A_create
  | A_read
  | A_update
  | A_delete
  | A_resetPassword
  | A_assignRole
  | A_suspend
  | A_transferOwnership
  | A_retry
  | A_cancel
  | A_readPayload
  | A_revokeSession
  | A_resendVerification

datatype subject =
    S_all
  | S_User
  | S_Workspace
  | S_WorkspaceMembership
  | S_WorkspaceInvitation
  | S_Role
  | S_Permission
  | S_AppVersion
  | S_DeviceToken
  | S_AuditLog
  | S_QueueJob

fun action_name :: "action \<Rightarrow> string" where
  "action_name A_manage = ''manage''"
| "action_name A_create = ''create''"
| "action_name A_read = ''read''"
| "action_name A_update = ''update''"
| "action_name A_delete = ''delete''"
| "action_name A_resetPassword = ''resetPassword''"
| "action_name A_assignRole = ''assignRole''"
| "action_name A_suspend = ''suspend''"
| "action_name A_transferOwnership = ''transferOwnership''"
| "action_name A_retry = ''retry''"
| "action_name A_cancel = ''cancel''"
| "action_name A_readPayload = ''readPayload''"
| "action_name A_revokeSession = ''revokeSession''"
| "action_name A_resendVerification = ''resendVerification''"

fun subject_name :: "subject \<Rightarrow> string" where
  "subject_name S_all = ''all''"
| "subject_name S_User = ''User''"
| "subject_name S_Workspace = ''Workspace''"
| "subject_name S_WorkspaceMembership = ''WorkspaceMembership''"
| "subject_name S_WorkspaceInvitation = ''WorkspaceInvitation''"
| "subject_name S_Role = ''Role''"
| "subject_name S_Permission = ''Permission''"
| "subject_name S_AppVersion = ''AppVersion''"
| "subject_name S_DeviceToken = ''DeviceToken''"
| "subject_name S_AuditLog = ''AuditLog''"
| "subject_name S_QueueJob = ''QueueJob''"

datatype role_scope = PLATFORM | WORKSPACE | OtherScope string

datatype ownership = OWN | ANY | OtherOwnership string

fun scope_value :: "role_scope \<Rightarrow> string" where
  "scope_value PLATFORM = ''platform''"
| "scope_value WORKSPACE = ''workspace''"
| "scope_value (OtherScope s) = s"

text \<open>The names of the seeded roles.\<close>

definition PLATFORM_ADMIN :: string where
  "PLATFORM_ADMIN = ''platform_admin''"

definition PLATFORM_ENGINEER :: string where
  "PLATFORM_ENGINEER = ''platform_engineer''"

definition PLATFORM_TECHNICAL_SUPPORT :: string where
  "PLATFORM_TECHNICAL_SUPPORT = ''platform_technical_support''"

definition PLATFORM_APP_SUPPORT :: string where
  "PLATFORM_APP_SUPPORT = ''platform_app_support''"

definition WORKSPACE_OWNER :: string where
  "WORKSPACE_OWNER = ''workspace_owner''"

definition WORKSPACE_ADMIN :: string where
  "WORKSPACE_ADMIN = ''workspace_admin''"

definition WORKSPACE_MANAGER :: string where
  "WORKSPACE_MANAGER = ''workspace_manager''"

definition WORKSPACE_STAFF :: string where
  "WORKSPACE_STAFF = ''workspace_staff''"

lemmas role_name_defs =
  PLATFORM_ADMIN_def
  PLATFORM_ENGINEER_def
  PLATFORM_TECHNICAL_SUPPORT_def
  PLATFORM_APP_SUPPORT_def
  WORKSPACE_OWNER_def
  WORKSPACE_ADMIN_def
  WORKSPACE_MANAGER_def
  WORKSPACE_STAFF_def

record permission_definition =
  pd_action :: action
  pd_subject :: subject
  pd_scope :: role_scope
  pd_ownership :: ownership
  pd_description :: string

text \<open>
  \<open>toSnakeCase\<close>: an underscore between a lower-case letter or digit and a capital, then one
  before the last capital of a run of capitals that a lower-case letter follows, then lower case.
\<close>

definition is_upper :: "char \<Rightarrow> bool" where
  "is_upper c \<longleftrightarrow> (of_char c :: nat) \<in> {65..90}"

definition is_lower :: "char \<Rightarrow> bool" where
  "is_lower c \<longleftrightarrow> (of_char c :: nat) \<in> {97..122}"

definition is_digit :: "char \<Rightarrow> bool" where
  "is_digit c \<longleftrightarrow> (of_char c :: nat) \<in> {48..57}"

fun split_word :: "string \<Rightarrow> string" where
  "split_word (x # y # r) =
     (if (is_lower x \<or> is_digit x) \<and> is_upper y then x # CHR ''_'' # split_word (y # r)
      else x # split_word (y # r))"
| "split_word s = s"

fun split_acronym :: "string \<Rightarrow> string" where
  "split_acronym (x # y # z # r) =
     (if is_upper x \<and> is_upper y \<and> is_lower z then x # CHR ''_'' # split_acronym (y # z # r)
      else x # split_acronym (y # z # r))"
| "split_acronym s = s"

definition toSnakeCase :: "string \<Rightarrow> string" where
  "toSnakeCase s = to_lower_case (split_acronym (split_word s))"

fun join_dots :: "string list \<Rightarrow> string" where
  "join_dots [] = []"
| "join_dots [s] = s"
| "join_dots (s # ss) = s @ ''.'' @ join_dots ss"

definition permissionName :: "permission_definition \<Rightarrow> string" where
  "permissionName d =
     join_dots ([scope_value (pd_scope d),
                 toSnakeCase (subject_name (pd_subject d)),
                 toSnakeCase (action_name (pd_action d))] @
                (if pd_ownership d = OWN then [''own''] else []))"

definition platform :: "action \<Rightarrow> subject \<Rightarrow> ownership \<Rightarrow> string \<Rightarrow> permission_definition" where
  "platform a s ow d =
     \<lparr>pd_action = a, pd_subject = s, pd_scope = PLATFORM, pd_ownership = ow, pd_description = d\<rparr>"

definition workspace :: "action \<Rightarrow> subject \<Rightarrow> string \<Rightarrow> permission_definition" where
  "workspace a s d =
     \<lparr>pd_action = a, pd_subject = s, pd_scope = WORKSPACE, pd_ownership = ANY, pd_description = d\<rparr>"

section \<open>The permission constants\<close>

definition MANAGE_EVERYTHING :: permission_definition where
  "MANAGE_EVERYTHING =
     platform A_manage S_all ANY (''Unrestricted control over every resource on the platform'')"

definition READ_ANY_USER :: permission_definition where
  "READ_ANY_USER =
     platform A_read S_User ANY (''View any user account'')"

definition CREATE_ANY_USER :: permission_definition where
  "CREATE_ANY_USER =
     platform A_create S_User ANY (''Create user accounts'')"

definition UPDATE_ANY_USER :: permission_definition where
  "UPDATE_ANY_USER =
     platform A_update S_User ANY (''Edit any user account'')"

definition DELETE_ANY_USER :: permission_definition where
  "DELETE_ANY_USER =
     platform A_delete S_User ANY (''Delete any user account'')"

definition RESET_ANY_USER_PASSWORD :: permission_definition where
  "RESET_ANY_USER_PASSWORD =
     platform A_resetPassword S_User ANY (''Reset another user'' @ [CHR 0x27] @ ''s password without their current password'')"

definition ASSIGN_PLATFORM_ROLE :: permission_definition where
  "ASSIGN_PLATFORM_ROLE =
     platform A_assignRole S_User ANY (''Grant or revoke a platform-scope role on a user account'')"

definition MANAGE_ANY_DEVICE_TOKEN :: permission_definition where
  "MANAGE_ANY_DEVICE_TOKEN =
     platform A_manage S_DeviceToken ANY (''Administer any user'' @ [CHR 0x27] @ ''s push-notification device tokens'')"

definition READ_ANY_AUDIT_LOG :: permission_definition where
  "READ_ANY_AUDIT_LOG =
     platform A_read S_AuditLog ANY (''View the platform audit trail'')"

definition READ_ANY_WORKSPACE :: permission_definition where
  "READ_ANY_WORKSPACE =
     platform A_read S_Workspace ANY (''View any workspace on the platform'')"

definition MANAGE_ANY_APP_VERSION :: permission_definition where
  "MANAGE_ANY_APP_VERSION =
     platform A_manage S_AppVersion ANY (''Publish and edit mobile app version records'')"

definition REVOKE_ANY_USER_SESSION :: permission_definition where
  "REVOKE_ANY_USER_SESSION =
     platform A_revokeSession S_User ANY (''Sign any account out of every device'')"

definition RESEND_ANY_USER_VERIFICATION :: permission_definition where
  "RESEND_ANY_USER_VERIFICATION =
     platform A_resendVerification S_User ANY (''Re-send an account'' @ [CHR 0x27] @ ''s email-verification link'')"

definition READ_ANY_QUEUE_JOB :: permission_definition where
  "READ_ANY_QUEUE_JOB =
     platform A_read S_QueueJob ANY (''Inspect background jobs and queue depth (payloads redacted)'')"

definition READ_ANY_QUEUE_JOB_PAYLOAD :: permission_definition where
  "READ_ANY_QUEUE_JOB_PAYLOAD =
     platform A_readPayload S_QueueJob ANY (''View a background job'' @ [CHR 0x27] @ ''s raw payload, which may contain user data'')"

definition RETRY_ANY_QUEUE_JOB :: permission_definition where
  "RETRY_ANY_QUEUE_JOB =
     platform A_retry S_QueueJob ANY (''Re-run a failed background job'')"

definition CANCEL_ANY_QUEUE_JOB :: permission_definition where
  "CANCEL_ANY_QUEUE_JOB =
     platform A_cancel S_QueueJob ANY (''Remove a pending background job'')"

definition READ_ROLE :: permission_definition where
  "READ_ROLE =
     platform A_read S_Role ANY (''List the available roles'')"

definition READ_PERMISSION :: permission_definition where
  "READ_PERMISSION =
     platform A_read S_Permission ANY (''List the permissions a role grants'')"

definition CREATE_WORKSPACE :: permission_definition where
  "CREATE_WORKSPACE =
     platform A_create S_Workspace ANY (''Create a new workspace (the creator becomes its owner)'')"

definition READ_ANY_WORKSPACE_MEMBERSHIP :: permission_definition where
  "READ_ANY_WORKSPACE_MEMBERSHIP =
     platform A_read S_WorkspaceMembership ANY (''View any workspace membership across every tenant'')"

definition READ_ANY_WORKSPACE_INVITATION :: permission_definition where
  "READ_ANY_WORKSPACE_INVITATION =
     platform A_read S_WorkspaceInvitation ANY (''View any workspace invitation across every tenant'')"

definition READ_OWN_USER :: permission_definition where
  "READ_OWN_USER =
     platform A_read S_User OWN (''View your own profile'')"

definition UPDATE_OWN_USER :: permission_definition where
  "UPDATE_OWN_USER =
     platform A_update S_User OWN (''Edit your own profile'')"

definition DELETE_OWN_USER :: permission_definition where
  "DELETE_OWN_USER =
     platform A_delete S_User OWN (''Delete your own account'')"

definition MANAGE_OWN_DEVICE_TOKEN :: permission_definition where
  "MANAGE_OWN_DEVICE_TOKEN =
     platform A_manage S_DeviceToken OWN (''Register and remove your own push-notification device tokens'')"

definition READ_OWN_WORKSPACE_MEMBERSHIP :: permission_definition where
  "READ_OWN_WORKSPACE_MEMBERSHIP =
     platform A_read S_WorkspaceMembership OWN (''See which workspaces you belong to, and in what capacity'')"

definition READ_WORKSPACE :: permission_definition where
  "READ_WORKSPACE =
     workspace A_read S_Workspace (''View the workspace'')"

definition UPDATE_WORKSPACE :: permission_definition where
  "UPDATE_WORKSPACE =
     workspace A_update S_Workspace (''Edit the workspace profile and settings'')"

definition DELETE_WORKSPACE :: permission_definition where
  "DELETE_WORKSPACE =
     workspace A_delete S_Workspace (''Delete the workspace'')"

definition TRANSFER_WORKSPACE_OWNERSHIP :: permission_definition where
  "TRANSFER_WORKSPACE_OWNERSHIP =
     workspace A_transferOwnership S_Workspace (''Hand ownership of the workspace to another active member'')"

definition READ_WORKSPACE_MEMBERSHIP :: permission_definition where
  "READ_WORKSPACE_MEMBERSHIP =
     workspace A_read S_WorkspaceMembership (''View the workspace roster'')"

definition CREATE_WORKSPACE_MEMBERSHIP :: permission_definition where
  "CREATE_WORKSPACE_MEMBERSHIP =
     workspace A_create S_WorkspaceMembership (''Add an existing user to the workspace roster'')"

definition UPDATE_WORKSPACE_MEMBERSHIP :: permission_definition where
  "UPDATE_WORKSPACE_MEMBERSHIP =
     workspace A_update S_WorkspaceMembership (''Edit a roster entry (staff notes)'')"

definition DELETE_WORKSPACE_MEMBERSHIP :: permission_definition where
  "DELETE_WORKSPACE_MEMBERSHIP =
     workspace A_delete S_WorkspaceMembership (''End a membership, removing the person from the workspace'')"

definition ASSIGN_ROLE_WORKSPACE_MEMBERSHIP :: permission_definition where
  "ASSIGN_ROLE_WORKSPACE_MEMBERSHIP =
     workspace A_assignRole S_WorkspaceMembership (''Change a member'' @ [CHR 0x27] @ ''s role within the workspace (bounded by the rank guard)'')"

definition SUSPEND_WORKSPACE_MEMBERSHIP :: permission_definition where
  "SUSPEND_WORKSPACE_MEMBERSHIP =
     workspace A_suspend S_WorkspaceMembership (''Suspend or reactivate a member'' @ [CHR 0x27] @ ''s access without ending the membership'')"

definition READ_WORKSPACE_INVITATION :: permission_definition where
  "READ_WORKSPACE_INVITATION =
     workspace A_read S_WorkspaceInvitation (''View pending invitations to the workspace'')"

definition CREATE_WORKSPACE_INVITATION :: permission_definition where
  "CREATE_WORKSPACE_INVITATION =
     workspace A_create S_WorkspaceInvitation (''Invite someone to join the workspace'')"

definition DELETE_WORKSPACE_INVITATION :: permission_definition where
  "DELETE_WORKSPACE_INVITATION =
     workspace A_delete S_WorkspaceInvitation (''Revoke a pending invitation'')"

lemmas permission_defs =
  MANAGE_EVERYTHING_def
  READ_ANY_USER_def
  CREATE_ANY_USER_def
  UPDATE_ANY_USER_def
  DELETE_ANY_USER_def
  RESET_ANY_USER_PASSWORD_def
  ASSIGN_PLATFORM_ROLE_def
  MANAGE_ANY_DEVICE_TOKEN_def
  READ_ANY_AUDIT_LOG_def
  READ_ANY_WORKSPACE_def
  MANAGE_ANY_APP_VERSION_def
  REVOKE_ANY_USER_SESSION_def
  RESEND_ANY_USER_VERIFICATION_def
  READ_ANY_QUEUE_JOB_def
  READ_ANY_QUEUE_JOB_PAYLOAD_def
  RETRY_ANY_QUEUE_JOB_def
  CANCEL_ANY_QUEUE_JOB_def
  READ_ROLE_def
  READ_PERMISSION_def
  CREATE_WORKSPACE_def
  READ_ANY_WORKSPACE_MEMBERSHIP_def
  READ_ANY_WORKSPACE_INVITATION_def
  READ_OWN_USER_def
  UPDATE_OWN_USER_def
  DELETE_OWN_USER_def
  MANAGE_OWN_DEVICE_TOKEN_def
  READ_OWN_WORKSPACE_MEMBERSHIP_def
  READ_WORKSPACE_def
  UPDATE_WORKSPACE_def
  DELETE_WORKSPACE_def
  TRANSFER_WORKSPACE_OWNERSHIP_def
  READ_WORKSPACE_MEMBERSHIP_def
  CREATE_WORKSPACE_MEMBERSHIP_def
  UPDATE_WORKSPACE_MEMBERSHIP_def
  DELETE_WORKSPACE_MEMBERSHIP_def
  ASSIGN_ROLE_WORKSPACE_MEMBERSHIP_def
  SUSPEND_WORKSPACE_MEMBERSHIP_def
  READ_WORKSPACE_INVITATION_def
  CREATE_WORKSPACE_INVITATION_def
  DELETE_WORKSPACE_INVITATION_def

section \<open>The catalog and the roles\<close>

definition PERMISSION_CATALOG :: "permission_definition list" where
  "PERMISSION_CATALOG = [
       MANAGE_EVERYTHING,
       READ_ANY_USER,
       CREATE_ANY_USER,
       UPDATE_ANY_USER,
       DELETE_ANY_USER,
       RESET_ANY_USER_PASSWORD,
       ASSIGN_PLATFORM_ROLE,
       MANAGE_ANY_DEVICE_TOKEN,
       READ_ANY_AUDIT_LOG,
       READ_ANY_WORKSPACE,
       MANAGE_ANY_APP_VERSION,
       REVOKE_ANY_USER_SESSION,
       RESEND_ANY_USER_VERIFICATION,
       READ_ANY_QUEUE_JOB,
       READ_ANY_QUEUE_JOB_PAYLOAD,
       RETRY_ANY_QUEUE_JOB,
       CANCEL_ANY_QUEUE_JOB,
       READ_ROLE,
       READ_PERMISSION,
       CREATE_WORKSPACE,
       READ_ANY_WORKSPACE_MEMBERSHIP,
       READ_ANY_WORKSPACE_INVITATION,
       READ_OWN_USER,
       UPDATE_OWN_USER,
       DELETE_OWN_USER,
       MANAGE_OWN_DEVICE_TOKEN,
       READ_OWN_WORKSPACE_MEMBERSHIP,
       READ_WORKSPACE,
       UPDATE_WORKSPACE,
       DELETE_WORKSPACE,
       TRANSFER_WORKSPACE_OWNERSHIP,
       READ_WORKSPACE_MEMBERSHIP,
       CREATE_WORKSPACE_MEMBERSHIP,
       UPDATE_WORKSPACE_MEMBERSHIP,
       DELETE_WORKSPACE_MEMBERSHIP,
       ASSIGN_ROLE_WORKSPACE_MEMBERSHIP,
       SUSPEND_WORKSPACE_MEMBERSHIP,
       READ_WORKSPACE_INVITATION,
       CREATE_WORKSPACE_INVITATION,
       DELETE_WORKSPACE_INVITATION]"

definition AUTHENTICATED_USER_PERMISSIONS :: "permission_definition list" where
  "AUTHENTICATED_USER_PERMISSIONS = [
       READ_OWN_USER,
       UPDATE_OWN_USER,
       DELETE_OWN_USER,
       MANAGE_OWN_DEVICE_TOKEN,
       READ_OWN_WORKSPACE_MEMBERSHIP,
       CREATE_WORKSPACE,
       READ_ROLE,
       READ_PERMISSION]"

record role_definition =
  rd_scope :: role_scope
  rd_rank :: int
  rd_description :: string
  rd_permissions :: "permission_definition list"

definition PLATFORM_ADMIN_definition :: role_definition where
  "PLATFORM_ADMIN_definition =
     \<lparr>rd_scope = PLATFORM, rd_rank = 100,
      rd_description = ''Platform governance: access control, user and workspace administration, audit'',
      rd_permissions = [
       MANAGE_EVERYTHING]\<rparr>"

definition PLATFORM_ENGINEER_definition :: role_definition where
  "PLATFORM_ENGINEER_definition =
     \<lparr>rd_scope = PLATFORM, rd_rank = 90,
      rd_description = ''Highest technical authority: diagnostics, queue and worker investigation, controlled recovery, release operations'',
      rd_permissions = [
       READ_ANY_USER,
       READ_ANY_WORKSPACE,
       READ_ANY_AUDIT_LOG,
       MANAGE_ANY_APP_VERSION,
       READ_ANY_QUEUE_JOB,
       READ_ANY_QUEUE_JOB_PAYLOAD,
       RETRY_ANY_QUEUE_JOB,
       CANCEL_ANY_QUEUE_JOB,
       READ_ANY_WORKSPACE_MEMBERSHIP,
       READ_ANY_WORKSPACE_INVITATION]\<rparr>"

definition PLATFORM_TECHNICAL_SUPPORT_definition :: role_definition where
  "PLATFORM_TECHNICAL_SUPPORT_definition =
     \<lparr>rd_scope = PLATFORM, rd_rank = 60,
      rd_description = ''Escalated technical support: incident investigation, sanitized diagnostics, approved retries'',
      rd_permissions = [
       READ_ANY_USER,
       READ_ANY_WORKSPACE,
       READ_ANY_QUEUE_JOB,
       RETRY_ANY_QUEUE_JOB,
       READ_ANY_WORKSPACE_MEMBERSHIP]\<rparr>"

definition PLATFORM_APP_SUPPORT_definition :: role_definition where
  "PLATFORM_APP_SUPPORT_definition =
     \<lparr>rd_scope = PLATFORM, rd_rank = 40,
      rd_description = ''Customer-facing support: account visibility, verification resends, session revocation'',
      rd_permissions = [
       READ_ANY_USER,
       READ_ANY_WORKSPACE,
       READ_ANY_WORKSPACE_MEMBERSHIP,
       REVOKE_ANY_USER_SESSION,
       RESEND_ANY_USER_VERIFICATION]\<rparr>"

definition WORKSPACE_OWNER_definition :: role_definition where
  "WORKSPACE_OWNER_definition =
     \<lparr>rd_scope = WORKSPACE, rd_rank = 100,
      rd_description = ''Owns the workspace. Every capability within it, named'',
      rd_permissions = [
       READ_WORKSPACE,
       UPDATE_WORKSPACE,
       DELETE_WORKSPACE,
       TRANSFER_WORKSPACE_OWNERSHIP,
       READ_WORKSPACE_MEMBERSHIP,
       CREATE_WORKSPACE_MEMBERSHIP,
       UPDATE_WORKSPACE_MEMBERSHIP,
       DELETE_WORKSPACE_MEMBERSHIP,
       ASSIGN_ROLE_WORKSPACE_MEMBERSHIP,
       SUSPEND_WORKSPACE_MEMBERSHIP,
       READ_WORKSPACE_INVITATION,
       CREATE_WORKSPACE_INVITATION,
       DELETE_WORKSPACE_INVITATION]\<rparr>"

definition WORKSPACE_ADMIN_definition :: role_definition where
  "WORKSPACE_ADMIN_definition =
     \<lparr>rd_scope = WORKSPACE, rd_rank = 70,
      rd_description = ''Administers the workspace and its roster, below the owner'',
      rd_permissions = [
       READ_WORKSPACE,
       UPDATE_WORKSPACE,
       READ_WORKSPACE_MEMBERSHIP,
       CREATE_WORKSPACE_MEMBERSHIP,
       UPDATE_WORKSPACE_MEMBERSHIP,
       DELETE_WORKSPACE_MEMBERSHIP,
       ASSIGN_ROLE_WORKSPACE_MEMBERSHIP,
       SUSPEND_WORKSPACE_MEMBERSHIP,
       READ_WORKSPACE_INVITATION,
       CREATE_WORKSPACE_INVITATION,
       DELETE_WORKSPACE_INVITATION]\<rparr>"

definition WORKSPACE_MANAGER_definition :: role_definition where
  "WORKSPACE_MANAGER_definition =
     \<lparr>rd_scope = WORKSPACE, rd_rank = 40,
      rd_description = ''Runs day-to-day operations; can grow the roster but not assign roles or suspend anyone'',
      rd_permissions = [
       READ_WORKSPACE,
       UPDATE_WORKSPACE,
       READ_WORKSPACE_MEMBERSHIP,
       CREATE_WORKSPACE_MEMBERSHIP,
       READ_WORKSPACE_INVITATION,
       CREATE_WORKSPACE_INVITATION]\<rparr>"

definition WORKSPACE_STAFF_definition :: role_definition where
  "WORKSPACE_STAFF_definition =
     \<lparr>rd_scope = WORKSPACE, rd_rank = 20,
      rd_description = ''Works here. Reads the workspace and its roster'',
      rd_permissions = [
       READ_WORKSPACE,
       READ_WORKSPACE_MEMBERSHIP]\<rparr>"

definition ROLE_DEFINITION_CATALOG :: "(string \<times> role_definition) list" where
  "ROLE_DEFINITION_CATALOG = [
     (PLATFORM_ADMIN, PLATFORM_ADMIN_definition),
     (PLATFORM_ENGINEER, PLATFORM_ENGINEER_definition),
     (PLATFORM_TECHNICAL_SUPPORT, PLATFORM_TECHNICAL_SUPPORT_definition),
     (PLATFORM_APP_SUPPORT, PLATFORM_APP_SUPPORT_definition),
     (WORKSPACE_OWNER, WORKSPACE_OWNER_definition),
     (WORKSPACE_ADMIN, WORKSPACE_ADMIN_definition),
     (WORKSPACE_MANAGER, WORKSPACE_MANAGER_definition),
     (WORKSPACE_STAFF, WORKSPACE_STAFF_definition)]"

lemmas role_definition_defs =
  PLATFORM_ADMIN_definition_def
  PLATFORM_ENGINEER_definition_def
  PLATFORM_TECHNICAL_SUPPORT_definition_def
  PLATFORM_APP_SUPPORT_definition_def
  WORKSPACE_OWNER_definition_def
  WORKSPACE_ADMIN_definition_def
  WORKSPACE_MANAGER_definition_def
  WORKSPACE_STAFF_definition_def

section \<open>Well-formedness of the catalog\<close>

text \<open>
  \<open>src/src/common/authorization/subject-key.ts\<close>: the column that ties a subject to the user
  who owns it, and the one that ties it to its workspace.
\<close>

fun SUBJECT_OWNER_KEY :: "subject \<Rightarrow> string option" where
  "SUBJECT_OWNER_KEY S_User = Some ''id''"
| "SUBJECT_OWNER_KEY S_DeviceToken = Some ''userId''"
| "SUBJECT_OWNER_KEY S_WorkspaceMembership = Some ''userId''"
| "SUBJECT_OWNER_KEY _ = None"

fun SUBJECT_TENANT_KEY :: "subject \<Rightarrow> string option" where
  "SUBJECT_TENANT_KEY S_Workspace = Some ''id''"
| "SUBJECT_TENANT_KEY S_WorkspaceMembership = Some ''workspaceId''"
| "SUBJECT_TENANT_KEY S_WorkspaceInvitation = Some ''workspaceId''"
| "SUBJECT_TENANT_KEY _ = None"

definition isOwnableSubject :: "subject \<Rightarrow> bool" where
  "isOwnableSubject s \<longleftrightarrow> SUBJECT_OWNER_KEY s \<noteq> None"

definition isTenantScopedSubject :: "subject \<Rightarrow> bool" where
  "isTenantScopedSubject s \<longleftrightarrow> SUBJECT_TENANT_KEY s \<noteq> None"

definition resolveOwnerKey :: "subject \<Rightarrow> exn + string" where
  "resolveOwnerKey s =
     requireE (SUBJECT_OWNER_KEY s)
       (JsError (''Subject has an ownership-scoped permission but no entry in SUBJECT_OWNER_KEY: '' @
          subject_name s))"

definition resolveTenantKey :: "subject \<Rightarrow> exn + string" where
  "resolveTenantKey s =
     requireE (SUBJECT_TENANT_KEY s)
       (JsError (''Subject has a workspace-scoped permission but no entry in SUBJECT_TENANT_KEY: '' @
          subject_name s))"

lemma resolveOwnerKey_Inr [svc]:
  "resolveOwnerKey s = Inr k \<longleftrightarrow> SUBJECT_OWNER_KEY s = Some k"
  by (simp add: resolveOwnerKey_def)

lemma resolveTenantKey_Inr [svc]:
  "resolveTenantKey s = Inr k \<longleftrightarrow> SUBJECT_TENANT_KEY s = Some k"
  by (simp add: resolveTenantKey_def)

text \<open>
  What the ability factory relies on: a workspace permission is always \<open>ANY\<close> and its subject
  has a tenant column; an \<open>OWN\<close> permission is a platform one and its subject has an owner
  column.
\<close>

definition well_scoped :: "permission_definition \<Rightarrow> bool" where
  "well_scoped d \<longleftrightarrow>
     (case pd_scope d of
        PLATFORM \<Rightarrow> (pd_ownership d = OWN \<and> isOwnableSubject (pd_subject d)) \<or> pd_ownership d = ANY
      | WORKSPACE \<Rightarrow> pd_ownership d = ANY \<and> isTenantScopedSubject (pd_subject d)
      | OtherScope _ \<Rightarrow> False)"

lemma catalog_well_scoped: "\<forall>d \<in> set PERMISSION_CATALOG. well_scoped d"
  by (simp add: PERMISSION_CATALOG_def permission_defs platform_def workspace_def well_scoped_def
      isOwnableSubject_def isTenantScopedSubject_def)

lemma role_permissions_in_catalog:
  "(n, rd) \<in> set ROLE_DEFINITION_CATALOG \<Longrightarrow> set (rd_permissions rd) \<subseteq> set PERMISSION_CATALOG"
  by (auto simp: ROLE_DEFINITION_CATALOG_def role_definition_defs PERMISSION_CATALOG_def)

lemma authenticated_in_catalog:
  "set AUTHENTICATED_USER_PERMISSIONS \<subseteq> set PERMISSION_CATALOG"
  by (auto simp: AUTHENTICATED_USER_PERMISSIONS_def PERMISSION_CATALOG_def)

end
