(* ===== verification/World.thy ===== *)
theory World
  imports Catalog
begin

text \<open>
  The state the services share: the database tables (row types after
  \<open>prisma/schema.prisma\<close>), the audit log, the Redis keys, the job queue, and whether Redis and
  the audit table accept writes.  Third-party code is a parameter: \<open>ext\<close> holds the digests and
  password hashes, \<open>casl\<close> the ability library.
\<close>

section \<open>Rows\<close>

datatype membership_status = ACTIVE | SUSPENDED | LEFT | OtherMembershipStatus string

fun membership_status_value :: "membership_status \<Rightarrow> string" where
  "membership_status_value ACTIVE = ''active''"
| "membership_status_value SUSPENDED = ''suspended''"
| "membership_status_value LEFT = ''left''"
| "membership_status_value (OtherMembershipStatus s) = s"

datatype invitation_status = PENDING | ACCEPTED | REVOKED | EXPIRED

record user_row =
  u_id :: ident
  u_email :: string
  u_username :: "string option"
  u_password :: string
  u_password_changed_at :: "time option"
  u_email_verified_at :: "time option"
  u_is_active :: bool
  u_deleted_at :: "time option"
  u_deleted_by :: "ident option"
  u_first_name :: string
  u_middle_name :: "string option"
  u_last_name :: string
  u_phone_number :: "string option"
  u_phone_verified_at :: "time option"
  u_gender :: "string option"
  u_birthday :: "time option"
  u_timezone :: "string option"
  u_profile_image :: "ident option"
  u_otp_hash :: "string option"
  u_otp_purpose :: "string option"
  u_otp_expires_at :: "time option"
  u_created_by :: "ident option"
  u_updated_by :: "ident option"

record refresh_row =
  rt_id :: ident
  rt_created_at :: time
  rt_user_id :: ident
  rt_token_hash :: string
  rt_family_id :: ident
  rt_expires_at :: time
  rt_consumed_at :: "time option"
  rt_revoked_at :: "time option"
  rt_user_agent :: "string option"
  rt_ip_address :: "string option"

record workspace_row =
  w_id :: ident
  w_name :: string
  w_slug :: string
  w_description :: "string option"
  w_is_active :: bool
  w_deleted_at :: "time option"
  w_deleted_by :: "ident option"
  w_created_by :: "ident option"
  w_updated_by :: "ident option"

text \<open>A permission as it reaches the ability factory: the identity columns only.\<close>

record permission_grant =
  pg_action :: action
  pg_subject :: subject
  pg_scope :: role_scope
  pg_ownership :: ownership

record role_row =
  r_id :: ident
  r_name :: string
  r_scope :: role_scope
  r_rank :: int
  r_description :: "string option"
  r_permissions :: "permission_grant list"

record membership_row =
  m_id :: ident
  m_workspace_id :: ident
  m_user_id :: ident
  m_role_id :: ident
  m_status :: membership_status
  m_joined_at :: time
  m_ended_at :: "time option"
  m_invited_by :: "ident option"
  m_notes :: "string option"
  m_created_by :: "ident option"
  m_updated_by :: "ident option"

record invitation_row =
  i_id :: ident
  i_workspace_id :: ident
  i_email :: string
  i_invited_user_id :: "ident option"
  i_role_id :: ident
  i_token_hash :: string
  i_status :: invitation_status
  i_invited_by :: "ident option"
  i_expires_at :: time
  i_accepted_at :: "time option"
  i_accepted_by :: "ident option"
  i_revoked_at :: "time option"
  i_revoked_by :: "ident option"
  i_created_by :: "ident option"
  i_updated_by :: "ident option"

record audit_entry =
  a_action :: string
  a_actor_id :: "ident option"
  a_target_user_id :: "ident option"
  a_metadata :: json

text \<open>A queued job: its name and its payload.\<close>

record queued_job =
  j_name :: string
  j_payload :: json

section \<open>The world\<close>

record world =
  users :: "user_row list"
  refresh_tokens :: "refresh_row list"
  workspaces :: "workspace_row list"
  roles :: "role_row list"
  user_roles :: "(ident \<times> ident) list"
  memberships :: "membership_row list"
  invitations :: "invitation_row list"
  audit_logs :: "audit_entry list"
  jobs :: "queued_job list"
  redis :: "string \<rightharpoonup> (string \<times> time option)"
  redis_up :: bool
  audit_up :: bool

text \<open>The claims of a verified access token; \<open>None\<close> is an absent claim.\<close>

record jwt_payload =
  jp_sub :: ident
  jp_iat :: "int option"
  jp_exp :: "int option"
  jp_jti :: "string option"
  jp_purpose :: "string option"

text \<open>
  Third-party code the services call: SHA-256 in hex (\<open>hashOpaqueToken\<close>), bcrypt, and the
  signer of access tokens.
\<close>

record ext =
  sha256_hex :: "string \<Rightarrow> string"
  bcrypt_compare :: "string \<Rightarrow> string \<Rightarrow> bool"
  bcrypt_hash :: "string \<Rightarrow> string"
  jwt_sign :: "jwt_payload \<Rightarrow> string \<Rightarrow> string"
  jwt_decode :: "string \<Rightarrow> jwt_payload"

section \<open>The primary-key and unique-index invariants of the tables\<close>

definition keys_ok :: "world \<Rightarrow> bool" where
  "keys_ok w \<longleftrightarrow>
     distinct (map u_id (users w)) \<and>
     distinct (map rt_id (refresh_tokens w)) \<and>
     distinct (map rt_token_hash (refresh_tokens w)) \<and>
     distinct (map w_id (workspaces w)) \<and>
     distinct (map r_id (roles w)) \<and>
     distinct (map r_name (roles w)) \<and>
     distinct (map m_id (memberships w)) \<and>
     distinct (map (\<lambda>m. (m_workspace_id m, m_user_id m)) (memberships w)) \<and>
     distinct (map i_id (invitations w)) \<and>
     distinct (map i_token_hash (invitations w))"

section \<open>Audit log, cache and queue\<close>

text \<open>\<open>AuditService.record\<close>: append-only and best-effort; a failed write returns
  \<open>null\<close> and is swallowed.  The request envelope it merges into the metadata is in theory \<open>Audit_Trail\<close>.\<close>

definition audit_record :: "audit_entry \<Rightarrow> world \<Rightarrow> world" where
  "audit_record e w = (if audit_up w then w\<lparr>audit_logs := audit_logs w @ [e]\<rparr> else w)"

definition audit :: "string \<Rightarrow> ident option \<Rightarrow> ident option \<Rightarrow> json \<Rightarrow> audit_entry" where
  "audit act actor target meta =
     \<lparr>a_action = act, a_actor_id = actor, a_target_user_id = target, a_metadata = meta\<rparr>"

text \<open>Redis \<open>GET\<close> and \<open>EXISTS\<close>: a key past its expiry is gone; \<open>Inl ()\<close> is an
  unreachable server.\<close>

definition redis_get :: "world \<Rightarrow> time \<Rightarrow> string \<Rightarrow> unit + string option" where
  "redis_get w now k =
     (if \<not> redis_up w then Inl ()
      else Inr (case redis w k of
                  None \<Rightarrow> None
                | Some (v, None) \<Rightarrow> Some v
                | Some (v, Some t) \<Rightarrow> (if now < t then Some v else None)))"

definition redis_exists :: "world \<Rightarrow> time \<Rightarrow> string \<Rightarrow> unit + bool" where
  "redis_exists w now k = bindE (redis_get w now k) (\<lambda>v. Inr (v \<noteq> None))"

text \<open>\<open>SET key value EX seconds\<close>.\<close>

definition redis_set_ex :: "string \<Rightarrow> string \<Rightarrow> int \<Rightarrow> time \<Rightarrow> world \<Rightarrow> world" where
  "redis_set_ex k v secs now w = w\<lparr>redis := (redis w)(k \<mapsto> (v, Some (now + secs * 1000)))\<rparr>"

text \<open>The scoped client's view of \<open>users\<close> and \<open>workspaces\<close>: live rows only.\<close>

definition live_users :: "world \<Rightarrow> user_row list" where
  "live_users w = filter (\<lambda>u. u_deleted_at u = None) (users w)"

definition live_workspaces :: "world \<Rightarrow> workspace_row list" where
  "live_workspaces w = filter (\<lambda>s. w_deleted_at s = None) (workspaces w)"

definition find_user :: "world \<Rightarrow> ident \<Rightarrow> user_row option" where
  "find_user w i = find (\<lambda>u. u_id u = i) (users w)"

definition find_live_user :: "world \<Rightarrow> ident \<Rightarrow> user_row option" where
  "find_live_user w i = find (\<lambda>u. u_id u = i) (live_users w)"

definition find_role :: "world \<Rightarrow> ident \<Rightarrow> role_row option" where
  "find_role w i = find (\<lambda>r. r_id r = i) (roles w)"

text \<open>The partial unique indexes on the live rows' email and username.\<close>

definition user_conflict :: "user_row \<Rightarrow> world \<Rightarrow> bool" where
  "user_conflict u w \<longleftrightarrow>
     u_deleted_at u = None \<and>
     (\<exists>x \<in> set (live_users w). u_id x \<noteq> u_id u \<and>
        (u_email x = u_email u \<or> u_username x \<noteq> None \<and> u_username x = u_username u))"

lemma find_filter: "find p (filter q xs) = find (\<lambda>x. q x \<and> p x) xs"
  by (induction xs) auto

lemma find_live_user_Some:
  "find_live_user w i = Some u \<Longrightarrow> u \<in> set (users w) \<and> u_id u = i \<and> u_deleted_at u = None"
  by (auto simp: find_live_user_def live_users_def find_filter dest: find_SomeD)

lemma find_user_Some: "find_user w i = Some u \<Longrightarrow> u \<in> set (users w) \<and> u_id u = i"
  by (auto simp: find_user_def dest: find_SomeD)

lemma find_role_Some: "find_role w i = Some r \<Longrightarrow> r \<in> set (roles w) \<and> r_id r = i"
  by (auto simp: find_role_def dest: find_SomeD)

lemma audit_record_simps [simp]:
  "users (audit_record e w) = users w"
  "refresh_tokens (audit_record e w) = refresh_tokens w"
  "workspaces (audit_record e w) = workspaces w"
  "roles (audit_record e w) = roles w"
  "user_roles (audit_record e w) = user_roles w"
  "memberships (audit_record e w) = memberships w"
  "invitations (audit_record e w) = invitations w"
  "jobs (audit_record e w) = jobs w"
  "redis (audit_record e w) = redis w"
  "redis_up (audit_record e w) = redis_up w"
  "audit_up (audit_record e w) = audit_up w"
  by (simp_all add: audit_record_def)

lemma redis_set_ex_simps [simp]:
  "users (redis_set_ex k v s t w) = users w"
  "refresh_tokens (redis_set_ex k v s t w) = refresh_tokens w"
  "workspaces (redis_set_ex k v s t w) = workspaces w"
  "roles (redis_set_ex k v s t w) = roles w"
  "user_roles (redis_set_ex k v s t w) = user_roles w"
  "memberships (redis_set_ex k v s t w) = memberships w"
  "invitations (redis_set_ex k v s t w) = invitations w"
  "redis_up (redis_set_ex k v s t w) = redis_up w"
  by (simp_all add: redis_set_ex_def)

end
