(* ===== verification/Sessions.thy ===== *)
theory Sessions
  imports World
begin

text \<open>
  \<open>src/src/modules/auth/refresh-token.service.ts\<close> and
  \<open>src/src/common/util/session-cutoff.util.ts\<close>: the session cutoff, the refresh-token rows, and
  the operations on them.  A database transaction is one function on the world; the reads made
  before it are arguments, so that a stale read can be passed to a later transaction.  Row locks
  make the transactions of one account atomic with respect to each other and are otherwise not
  visible here.
\<close>

section \<open>The session cutoff\<close>

text \<open>\<open>new Date(Math.ceil(from / 1000) * 1000)\<close>\<close>

definition nextWholeSecond :: "time \<Rightarrow> time" where
  "nextWholeSecond from = - ((- from) div 1000) * 1000"

text \<open>The milliseconds the caller sleeps.\<close>

definition waitForSessionCutoff :: "time option \<Rightarrow> time \<Rightarrow> int" where
  "waitForSessionCutoff cutoff now =
     (case cutoff of
        None \<Rightarrow> 0
      | Some c \<Rightarrow> (let remainingMs = c - now in if remainingMs \<le> 0 then 0 else remainingMs))"

section \<open>Data\<close>

record refresh_token_context =
  rc_user_agent :: "string option"
  rc_ip_address :: "string option"

record issued_refresh_token =
  it_token :: string
  it_expires_at :: time
  it_issued_at :: time

record session_tokens =
  st_access_token :: string
  st_refresh_token :: string
  st_expires_in :: int

text \<open>What one issue draws at random: the opaque token, and the row's id.\<close>

record fresh_token =
  f_token :: string
  f_row_id :: ident

definition sameInstant :: "time option \<Rightarrow> time option \<Rightarrow> bool" where
  "sameInstant left right =
     (case (left, right) of
        (Some l, Some r) \<Rightarrow> l = r
      | _ \<Rightarrow> left = None \<and> right = None)"

lemma sameInstant_eq [simp]: "sameInstant a b \<longleftrightarrow> a = b"
  by (auto simp: sameInstant_def split: option.splits)

section \<open>Operations inside a transaction\<close>

definition loadEligibleSessionOwner :: "ident \<Rightarrow> world \<Rightarrow> user_row option" where
  "loadEligibleSessionOwner userId w =
     (case find (\<lambda>u. u_id u = userId \<and> u_deleted_at u = None) (users w) of
        None \<Rightarrow> None
      | Some owner \<Rightarrow> (if \<not> u_is_active owner then None else Some owner))"

text \<open>
  \<open>persist\<close>: \<open>lifetimeDays\<close> is the service's configured lifetime.  The insert fails with the
  database's \<open>P2002\<close> on a duplicate digest or id.
\<close>

definition persist ::
  "ext \<Rightarrow> int \<Rightarrow> ident \<Rightarrow> ident \<Rightarrow> refresh_token_context \<Rightarrow> fresh_token \<Rightarrow> time \<Rightarrow> world
   \<Rightarrow> exn + issued_refresh_token \<times> world" where
  "persist ext lifetimeDays userId familyId context fresh issuedAt w =
     (let token = f_token fresh;
          expiresAt = issuedAt + lifetimeDays * 24 * 60 * 60 * 1000;
          row = \<lparr>rt_id = f_row_id fresh, rt_created_at = issuedAt, rt_user_id = userId,
                 rt_token_hash = sha256_hex ext token, rt_family_id = familyId,
                 rt_expires_at = expiresAt, rt_consumed_at = None, rt_revoked_at = None,
                 rt_user_agent = rc_user_agent context, rt_ip_address = rc_ip_address context\<rparr>
      in if \<exists>r \<in> set (refresh_tokens w).
              rt_id r = rt_id row \<or> rt_token_hash r = rt_token_hash row
         then Inl (PrismaKnownRequestError ''P2002'')
         else Inr (\<lparr>it_token = token, it_expires_at = expiresAt, it_issued_at = issuedAt\<rparr>,
                   w\<lparr>refresh_tokens := refresh_tokens w @ [row]\<rparr>))"

definition issueForNewSession ::
  "ext \<Rightarrow> int \<Rightarrow> ident \<Rightarrow> time option \<Rightarrow> refresh_token_context \<Rightarrow> ident \<Rightarrow> fresh_token \<Rightarrow> time
   \<Rightarrow> world \<Rightarrow> exn + issued_refresh_token \<times> world" where
  "issueForNewSession ext lifetimeDays userId expectedSessionCutoff context familyId fresh now w =
     (case loadEligibleSessionOwner userId w of
        None \<Rightarrow> Inl invalidCredentials
      | Some owner \<Rightarrow>
          (if \<not> sameInstant (u_password_changed_at owner) expectedSessionCutoff
           then Inl invalidCredentials
           else persist ext lifetimeDays userId familyId context fresh now w))"

definition revokeFamily :: "ident \<Rightarrow> time \<Rightarrow> world \<Rightarrow> world" where
  "revokeFamily familyId now w =
     (case find (\<lambda>r. rt_family_id r = familyId) (refresh_tokens w) of
        None \<Rightarrow> w
      | Some _ \<Rightarrow>
          w\<lparr>refresh_tokens :=
              update_where (\<lambda>r. rt_family_id r = familyId \<and> rt_revoked_at r = None)
                (\<lambda>r. r\<lparr>rt_revoked_at := Some now\<rparr>) (refresh_tokens w)\<rparr>)"

definition revokeByToken :: "ext \<Rightarrow> string \<Rightarrow> time \<Rightarrow> world \<Rightarrow> world" where
  "revokeByToken ext presentedToken now w =
     (case find (\<lambda>r. rt_token_hash r = sha256_hex ext presentedToken) (refresh_tokens w) of
        None \<Rightarrow> w
      | Some existing \<Rightarrow> revokeFamily (rt_family_id existing) now w)"

text \<open>
  \<open>userData\<close> is the update folded into the same row version.  \<open>update\<close> on a missing row is the
  database's \<open>P2025\<close>, one that takes a live row's email or username its \<open>P2002\<close>.  Two readings of
  the clock: the cutoff's and the revocation's.
\<close>

definition endAllSessionsInTransaction ::
  "ident \<Rightarrow> ident option \<Rightarrow> (user_row \<Rightarrow> user_row) \<Rightarrow> clock \<Rightarrow> world \<Rightarrow> exn + user_row \<times> world" where
  "endAllSessionsInTransaction userId actorId userData clk w =
     (case find_user w userId of
        None \<Rightarrow> Inl (PrismaKnownRequestError ''P2025'')
      | Some user \<Rightarrow>
          (let updated = (userData user)\<lparr>u_password_changed_at := Some (nextWholeSecond (clk 0)),
                                         u_updated_by := actorId\<rparr>
           in if user_conflict updated w then Inl (PrismaKnownRequestError ''P2002'')
              else Inr (updated,
                   w\<lparr>users := update_where (\<lambda>u. u_id u = userId) (\<lambda>_. updated) (users w),
                     refresh_tokens :=
                       update_where (\<lambda>r. rt_user_id r = userId \<and> rt_revoked_at r = None)
                         (\<lambda>r. r\<lparr>rt_revoked_at := Some (clk 1)\<rparr>) (refresh_tokens w)\<rparr>)))"

definition endAllSessions ::
  "ident \<Rightarrow> ident option \<Rightarrow> (user_row \<Rightarrow> user_row) \<Rightarrow> clock \<Rightarrow> world \<Rightarrow> exn + user_row \<times> world" where
  "endAllSessions userId actorId userData clk w =
     endAllSessionsInTransaction userId actorId userData clk w"

definition purgeExpired :: "time \<Rightarrow> world \<Rightarrow> nat \<times> world" where
  "purgeExpired now w =
     (count_where (\<lambda>r. rt_expires_at r < now) (refresh_tokens w),
      w\<lparr>refresh_tokens := filter (\<lambda>r. \<not> rt_expires_at r < now) (refresh_tokens w)\<rparr>)"

section \<open>Rotation\<close>

definition findByToken :: "ext \<Rightarrow> string \<Rightarrow> world \<Rightarrow> refresh_row option" where
  "findByToken ext presentedToken w =
     find (\<lambda>r. rt_token_hash r = sha256_hex ext presentedToken) (refresh_tokens w)"

text \<open>\<open>handleReplay\<close> always throws; what it leaves is the new world.\<close>

definition handleReplay ::
  "ident \<Rightarrow> ident \<Rightarrow> refresh_token_context \<Rightarrow> time \<Rightarrow> world \<Rightarrow> exn \<times> world" where
  "handleReplay userId familyId context now w =
     (refreshTokenInvalid,
      audit_record
        (audit ''auth.refresh_token.replay_detected'' (Some userId) (Some userId)
           (JObj [(''familyId'', JStr familyId),
                  (''userAgent'', json_of_option JStr (rc_user_agent context)),
                  (''ipAddress'', json_of_option JStr (rc_ip_address context))]))
        (revokeFamily familyId now w))"

datatype rotate_failure =
    ReplayDetectedError
  | SessionOwnerIneligibleError
  | SessionPredatesCutoffError
  | OtherFailure exn

definition consumable :: "refresh_row \<Rightarrow> time \<Rightarrow> refresh_row \<Rightarrow> bool" where
  "consumable existing now r \<longleftrightarrow>
     rt_id r = rt_id existing \<and> rt_consumed_at r = None \<and> rt_revoked_at r = None \<and>
     now < rt_expires_at r"

text \<open>
  The rotation transaction, on the row \<open>existing\<close> read before it.  Clock readings: 1 is the
  guard of the conditional update, 2 the time it stamps, 3 the issue of the new token.
\<close>

definition rotateTransaction ::
  "ext \<Rightarrow> int \<Rightarrow> refresh_row \<Rightarrow> refresh_token_context \<Rightarrow> fresh_token \<Rightarrow> clock \<Rightarrow> world
   \<Rightarrow> rotate_failure + user_row \<times> issued_refresh_token \<times> world" where
  "rotateTransaction ext lifetimeDays existing context fresh clk w =
     (case loadEligibleSessionOwner (rt_user_id existing) w of
        None \<Rightarrow> Inl SessionOwnerIneligibleError
      | Some owner \<Rightarrow>
          (if case u_password_changed_at owner of
                None \<Rightarrow> False
              | Some cutoff \<Rightarrow> rt_created_at existing < cutoff
           then Inl SessionPredatesCutoffError
           else if count_where (consumable existing (clk 1)) (refresh_tokens w) \<noteq> 1
           then Inl ReplayDetectedError
           else
             (case persist ext lifetimeDays (rt_user_id existing) (rt_family_id existing) context
                     fresh (clk 3)
                     (w\<lparr>refresh_tokens :=
                          update_where (consumable existing (clk 1))
                            (\<lambda>r. r\<lparr>rt_consumed_at := Some (clk 2)\<rparr>) (refresh_tokens w)\<rparr>)
              of Inl e \<Rightarrow> Inl (OtherFailure e)
               | Inr (refreshToken, w') \<Rightarrow> Inr (owner, refreshToken, w'))))"

text \<open>The \<open>catch\<close> block: what follows a rolled-back rotation transaction.\<close>

definition afterRotateFailure ::
  "refresh_row \<Rightarrow> refresh_token_context \<Rightarrow> clock \<Rightarrow> rotate_failure \<Rightarrow> world \<Rightarrow> exn \<times> world" where
  "afterRotateFailure existing context clk failure w =
     (case failure of
        ReplayDetectedError \<Rightarrow>
          handleReplay (rt_user_id existing) (rt_family_id existing) context (clk 4) w
      | SessionOwnerIneligibleError \<Rightarrow>
          (case endAllSessions (rt_user_id existing) None id (\<lambda>i. clk (4 + i)) w of
             Inl e \<Rightarrow> (e, w)
           | Inr (_, w') \<Rightarrow> (refreshTokenInvalid, w'))
      | SessionPredatesCutoffError \<Rightarrow> (refreshTokenInvalid, w)
      | OtherFailure e \<Rightarrow> (e, w))"

text \<open>
  \<open>rotate\<close> run on its own: no other transaction commits between its read and its transaction.
  An exception may leave a changed world behind, so the result pairs the outcome with the world.
\<close>

definition rotate ::
  "ext \<Rightarrow> int \<Rightarrow> string \<Rightarrow> refresh_token_context \<Rightarrow> fresh_token \<Rightarrow> clock \<Rightarrow> world
   \<Rightarrow> (exn + user_row \<times> issued_refresh_token) \<times> world" where
  "rotate ext lifetimeDays presentedToken context fresh clk w =
     (case findByToken ext presentedToken w of
        None \<Rightarrow> (Inl refreshTokenInvalid, w)
      | Some existing \<Rightarrow>
          (if rt_consumed_at existing \<noteq> None then
             (case handleReplay (rt_user_id existing) (rt_family_id existing) context (clk 0) w of
                (e, w') \<Rightarrow> (Inl e, w'))
           else if rt_revoked_at existing \<noteq> None \<or> rt_expires_at existing \<le> clk 0 then
             (Inl refreshTokenInvalid, w)
           else
             (case rotateTransaction ext lifetimeDays existing context fresh clk w of
                Inr (owner, refreshToken, w') \<Rightarrow> (Inr (owner, refreshToken), w')
              | Inl failure \<Rightarrow>
                  (case afterRotateFailure existing context clk failure w of
                     (e, w') \<Rightarrow> (Inl e, w')))))"

section \<open>Session tokens\<close>

text \<open>The access token is signed with the instant of the session decision as its \<open>iat\<close>.\<close>

definition accessTokenPayload :: "ident \<Rightarrow> issued_refresh_token \<Rightarrow> jwt_payload" where
  "accessTokenPayload userId refreshToken =
     \<lparr>jp_sub = userId, jp_iat = Some (it_issued_at refreshToken div 1000), jp_exp = None,
      jp_jti = None, jp_purpose = None\<rparr>"

definition toSessionTokens ::
  "ext \<Rightarrow> ident \<Rightarrow> string \<Rightarrow> issued_refresh_token \<Rightarrow> session_tokens" where
  "toSessionTokens ext userId jwtid refreshToken =
     (let accessToken = jwt_sign ext (accessTokenPayload userId refreshToken) jwtid;
          claims = jwt_decode ext accessToken
      in \<lparr>st_access_token = accessToken,
          st_refresh_token = it_token refreshToken,
          st_expires_in = (case jp_exp claims of None \<Rightarrow> 0 | Some e \<Rightarrow> e) -
                          (case jp_iat claims of None \<Rightarrow> 0 | Some i \<Rightarrow> i)\<rparr>)"

text \<open>\<open>now\<close> is the clock when the call arrives; the sleep ends at \<open>now\<close> plus the wait at the
  earliest, and \<open>later\<close> is how much after that the token is issued.\<close>

definition startSession ::
  "ext \<Rightarrow> int \<Rightarrow> ident \<Rightarrow> time option \<Rightarrow> refresh_token_context \<Rightarrow> ident \<Rightarrow> fresh_token \<Rightarrow> string
   \<Rightarrow> time \<Rightarrow> nat \<Rightarrow> world \<Rightarrow> exn + session_tokens \<times> world" where
  "startSession ext lifetimeDays userId expectedSessionCutoff context familyId fresh jwtid now later w =
     bindE (issueForNewSession ext lifetimeDays userId expectedSessionCutoff context familyId fresh
              (now + waitForSessionCutoff expectedSessionCutoff now + int later) w)
       (\<lambda>(refreshToken, w'). Inr (toSessionTokens ext userId jwtid refreshToken, w'))"

definition refreshSession ::
  "ext \<Rightarrow> int \<Rightarrow> string \<Rightarrow> refresh_token_context \<Rightarrow> fresh_token \<Rightarrow> string \<Rightarrow> clock \<Rightarrow> world
   \<Rightarrow> (exn + user_row \<times> session_tokens) \<times> world" where
  "refreshSession ext lifetimeDays presentedToken context fresh jwtid clk w =
     (case rotate ext lifetimeDays presentedToken context fresh clk w of
        (Inl e, w') \<Rightarrow> (Inl e, w')
      | (Inr (user, refreshToken), w') \<Rightarrow>
          (Inr (user, toSessionTokens ext (u_id user) jwtid refreshToken), w'))"

end
