(* ===== verification/Session_Machine.thy ===== *)
theory Session_Machine
  imports Sessions
begin

text \<open>
  Refresh-token rotation under concurrency.  Every request is a thread; its read before the
  transaction, its transaction, and the transaction its \<open>catch\<close> block runs are separate steps,
  interleaved with every other thread and with logins, logouts, revocations and the retention
  sweep.  The theorems are those of RFC 9700: a token is exchanged at most once, a family has at
  most one live token, and a family closed on a replay stays closed.
\<close>

section \<open>Facts about the operations\<close>

definition live_row :: "refresh_row \<Rightarrow> bool" where
  "live_row r \<longleftrightarrow> rt_consumed_at r = None \<and> rt_revoked_at r = None"

text \<open>The columns no operation rewrites.\<close>

definition row_key :: "refresh_row \<Rightarrow> ident \<times> ident \<times> ident \<times> string \<times> time" where
  "row_key r = (rt_id r, rt_family_id r, rt_user_id r, rt_token_hash r, rt_created_at r)"

text \<open>
  A table \<open>new\<close> is a successor of \<open>old\<close>: every row of it is an old row, possibly consumed or
  revoked since, and never the reverse.
\<close>

definition row_le :: "refresh_row \<Rightarrow> refresh_row \<Rightarrow> bool" where
  "row_le r r' \<longleftrightarrow>
     row_key r' = row_key r \<and>
     (rt_consumed_at r \<noteq> None \<longrightarrow> rt_consumed_at r' \<noteq> None) \<and>
     (rt_revoked_at r \<noteq> None \<longrightarrow> rt_revoked_at r' \<noteq> None)"

definition ages :: "refresh_row list \<Rightarrow> refresh_row list \<Rightarrow> bool" where
  "ages old new \<longleftrightarrow> (\<forall>r' \<in> set new. \<exists>r \<in> set old. row_le r r')"

lemma row_le_refl [simp]: "row_le r r"
  by (simp add: row_le_def)

lemma agesE:
  assumes "ages old new" and "r' \<in> set new"
  obtains r where "r \<in> set old" "row_le r r'"
  using assms by (auto simp: ages_def)

lemma row_le_trans: "row_le a b \<Longrightarrow> row_le b c \<Longrightarrow> row_le a c"
  by (auto simp: row_le_def)

lemma row_le_live: "row_le r r' \<Longrightarrow> live_row r' \<Longrightarrow> live_row r"
  by (auto simp: row_le_def live_row_def)

lemma row_le_revoke [simp]: "row_le r (r\<lparr>rt_revoked_at := Some t\<rparr>)"
  by (simp add: row_le_def row_key_def)

lemma row_le_consume [simp]: "row_le r (r\<lparr>rt_consumed_at := Some t\<rparr>)"
  by (simp add: row_le_def row_key_def)

lemma ages_update:
  "(\<And>r. row_le r (f r)) \<Longrightarrow> ages rows (update_where p f rows)"
  by (fastforce simp: ages_def set_update_where intro: row_le_refl)

lemma ages_refl [simp]: "ages rows rows"
  by (auto simp: ages_def intro: row_le_refl)

lemma ages_filter: "ages rows (filter p rows)"
  by (auto simp: ages_def intro: row_le_refl)

lemma update_where_keys:
  "(\<And>r. row_le r (f r)) \<Longrightarrow> map row_key (update_where p f rows) = map row_key rows"
  by (rule map_update_where) (simp add: row_le_def)

lemma ages_revokeFamily: "ages (refresh_tokens w) (refresh_tokens (revokeFamily fam now w))"
  by (auto simp: revokeFamily_def ages_update split: option.splits)

lemma revokeFamily_keys:
  "map row_key (refresh_tokens (revokeFamily fam now w)) = map row_key (refresh_tokens w)"
  by (auto simp: revokeFamily_def update_where_keys split: option.splits)

text \<open>Revoking a family leaves no unrevoked row in it.\<close>

lemma revokeFamily_closes:
  assumes "r \<in> set (refresh_tokens (revokeFamily fam now w))"
  shows "rt_family_id r = fam \<longrightarrow> rt_revoked_at r \<noteq> None"
proof (cases "find (\<lambda>r. rt_family_id r = fam) (refresh_tokens w)")
  case None
  with assms show ?thesis by (auto simp: revokeFamily_def find_None_iff)
next
  case (Some x)
  with assms have "r \<in> set (update_where (\<lambda>r. rt_family_id r = fam \<and> rt_revoked_at r = None)
      (\<lambda>r. r\<lparr>rt_revoked_at := Some now\<rparr>) (refresh_tokens w))"
    by (simp add: revokeFamily_def)
  then show ?thesis by (rule update_where_elim) auto
qed

lemma endAllSessions_rows:
  assumes "endAllSessions uid actor f clk w = Inr (u, w')"
  shows "ages (refresh_tokens w) (refresh_tokens w')"
    and "map row_key (refresh_tokens w') = map row_key (refresh_tokens w)"
    and "r \<in> set (refresh_tokens w') \<Longrightarrow> rt_user_id r = uid \<longrightarrow> rt_revoked_at r \<noteq> None"
proof -
  have w': "refresh_tokens w' =
      update_where (\<lambda>r. rt_user_id r = uid \<and> rt_revoked_at r = None)
        (\<lambda>r. r\<lparr>rt_revoked_at := Some (clk 1)\<rparr>) (refresh_tokens w)"
    using assms unfolding endAllSessions_def endAllSessionsInTransaction_def Let_def
    by (cases "find_user w uid") (auto split: if_splits)
  show "ages (refresh_tokens w) (refresh_tokens w')"
    unfolding w' by (rule ages_update) simp
  show "map row_key (refresh_tokens w') = map row_key (refresh_tokens w)"
    unfolding w' by (rule update_where_keys) simp
  show "r \<in> set (refresh_tokens w') \<Longrightarrow> rt_user_id r = uid \<longrightarrow> rt_revoked_at r \<noteq> None"
    unfolding w' by (erule update_where_elim) auto
qed

lemma persist_Inr:
  assumes "persist ext days uid fam ctx fresh now w = Inr (tok, w')"
  obtains row where
    "refresh_tokens w' = refresh_tokens w @ [row]"
    "row_key row = (f_row_id fresh, fam, uid, sha256_hex ext (f_token fresh), now)"
    "live_row row" "rt_expires_at row = now + days * 86400000"
    "users w' = users w"
    "it_token tok = f_token fresh" "it_issued_at tok = now"
    "\<forall>r \<in> set (refresh_tokens w). rt_id r \<noteq> f_row_id fresh \<and>
       rt_token_hash r \<noteq> sha256_hex ext (f_token fresh)"
proof -
  let ?row = "\<lparr>rt_id = f_row_id fresh, rt_created_at = now, rt_user_id = uid,
      rt_token_hash = sha256_hex ext (f_token fresh), rt_family_id = fam,
      rt_expires_at = now + days * 86400000, rt_consumed_at = None, rt_revoked_at = None,
      rt_user_agent = rc_user_agent ctx, rt_ip_address = rc_ip_address ctx\<rparr>"
  have "w' = w\<lparr>refresh_tokens := refresh_tokens w @ [?row]\<rparr>"
    and "it_token tok = f_token fresh" "it_issued_at tok = now"
    and "\<forall>r \<in> set (refresh_tokens w). rt_id r \<noteq> f_row_id fresh \<and>
       rt_token_hash r \<noteq> sha256_hex ext (f_token fresh)"
    using assms by (auto simp: persist_def Let_def split: if_splits)
  then show thesis
    by (intro that [of ?row]) (simp_all add: row_key_def live_row_def)
qed

text \<open>
  What a committed rotation did: exactly one row, the presented one, was live and unexpired; it is
  consumed now, and one live row of the same family and owner was added.
\<close>

lemma rotateTransaction_Inr:
  assumes "rotateTransaction ext days ex ctx fresh clk w = Inr (owner, tok, w')"
  obtains mid row where
    "loadEligibleSessionOwner (rt_user_id ex) w = Some owner"
    "\<forall>c. u_password_changed_at owner = Some c \<longrightarrow> c \<le> rt_created_at ex"
    "count_where (consumable ex (clk 1)) (refresh_tokens w) = 1"
    "mid = update_where (consumable ex (clk 1)) (\<lambda>r. r\<lparr>rt_consumed_at := Some (clk 2)\<rparr>)
             (refresh_tokens w)"
    "refresh_tokens w' = mid @ [row]"
    "row_key row = (f_row_id fresh, rt_family_id ex, rt_user_id ex,
       sha256_hex ext (f_token fresh), clk 3)"
    "live_row row"
    "\<forall>r \<in> set mid. rt_id r \<noteq> f_row_id fresh \<and> rt_token_hash r \<noteq> sha256_hex ext (f_token fresh)"
    "it_token tok = f_token fresh" "it_issued_at tok = clk 3" "users w' = users w"
proof -
  let ?p = "consumable ex (clk 1)"
  let ?mid = "update_where ?p (\<lambda>r. r\<lparr>rt_consumed_at := Some (clk 2)\<rparr>) (refresh_tokens w)"
  from assms have owner: "loadEligibleSessionOwner (rt_user_id ex) w = Some owner"
    and cut: "\<forall>c. u_password_changed_at owner = Some c \<longrightarrow> c \<le> rt_created_at ex"
    and one: "count_where ?p (refresh_tokens w) = 1"
    and p: "persist ext days (rt_user_id ex) (rt_family_id ex) ctx fresh (clk 3)
              (w\<lparr>refresh_tokens := ?mid\<rparr>) = Inr (tok, w')"
    by (auto simp: rotateTransaction_def split: option.splits if_splits sum.splits)
  show thesis
    by (rule persist_Inr [OF p]) (rule that [OF owner cut one refl]; simp)
qed

text \<open>A transaction on a row that is no longer live cannot issue anything.\<close>

lemma rotateTransaction_dead:
  assumes "\<And>r. r \<in> set (refresh_tokens w) \<Longrightarrow> rt_id r = rt_id ex \<Longrightarrow> \<not> live_row r"
  shows "rotateTransaction ext days ex ctx fresh clk w \<in>
    {Inl SessionOwnerIneligibleError, Inl SessionPredatesCutoffError, Inl ReplayDetectedError}"
proof -
  have "count_where (consumable ex (clk 1)) (refresh_tokens w) = 0"
    unfolding count_where_0 using assms by (auto simp: consumable_def live_row_def)
  then have "count_where (consumable ex (clk 1)) (refresh_tokens w) \<noteq> 1" by linarith
  then show ?thesis
    unfolding rotateTransaction_def
    by (simp only: if_True not_False_eq_True split: option.splits if_splits) simp
qed

section \<open>The machine\<close>

text \<open>
  Where a request to exchange a token stands: it holds the row it read (\<open>InFlight\<close>), owes the
  revocation its \<open>catch\<close> block runs, or has answered.  \<open>Exchanged\<close> records the id of the
  row that was consumed.
\<close>

datatype phase =
    Idle
  | InFlight refresh_row
  | Replaying ident ident
  | ClosingAll ident
  | Exchanged ident issued_refresh_token
  | Refused exn

definition readStep :: "ext \<Rightarrow> string \<Rightarrow> time \<Rightarrow> world \<Rightarrow> phase" where
  "readStep ext presentedToken now w =
     (case findByToken ext presentedToken w of
        None \<Rightarrow> Refused refreshTokenInvalid
      | Some existing \<Rightarrow>
          (if rt_consumed_at existing \<noteq> None
           then Replaying (rt_user_id existing) (rt_family_id existing)
           else if rt_revoked_at existing \<noteq> None \<or> rt_expires_at existing \<le> now
           then Refused refreshTokenInvalid
           else InFlight existing))"

definition transactionStep ::
  "ext \<Rightarrow> int \<Rightarrow> refresh_row \<Rightarrow> refresh_token_context \<Rightarrow> fresh_token \<Rightarrow> clock \<Rightarrow> world
   \<Rightarrow> phase \<times> world" where
  "transactionStep ext days existing context fresh clk w =
     (case rotateTransaction ext days existing context fresh clk w of
        Inr (owner, tok, w') \<Rightarrow> (Exchanged (rt_id existing) tok, w')
      | Inl ReplayDetectedError \<Rightarrow>
          (Replaying (rt_user_id existing) (rt_family_id existing), w)
      | Inl SessionOwnerIneligibleError \<Rightarrow> (ClosingAll (rt_user_id existing), w)
      | Inl SessionPredatesCutoffError \<Rightarrow> (Refused refreshTokenInvalid, w)
      | Inl (OtherFailure e) \<Rightarrow> (Refused e, w))"

fun catchStep :: "refresh_token_context \<Rightarrow> clock \<Rightarrow> phase \<Rightarrow> world \<Rightarrow> phase \<times> world" where
  "catchStep context clk (Replaying userId familyId) w =
     (case handleReplay userId familyId context (clk 0) w of (e, w') \<Rightarrow> (Refused e, w'))"
| "catchStep context clk (ClosingAll userId) w =
     (case endAllSessions userId None id clk w of
        Inl e \<Rightarrow> (Refused e, w)
      | Inr (_, w') \<Rightarrow> (Refused refreshTokenInvalid, w'))"
| "catchStep context clk ph w = (ph, w)"

text \<open>\<open>ss_used\<close> is the set of UUIDs drawn so far: \<open>randomUUID\<close> never draws one twice.\<close>

record session_sys =
  ss_world :: world
  ss_threads :: "nat \<Rightarrow> phase"
  ss_used :: "ident set"

definition session_init :: "session_sys \<Rightarrow> bool" where
  "session_init s \<longleftrightarrow> refresh_tokens (ss_world s) = [] \<and> ss_threads s = (\<lambda>_. Idle)"

inductive session_step :: "ext \<Rightarrow> int \<Rightarrow> session_sys \<Rightarrow> session_sys \<Rightarrow> bool" for ext days where
  present: "ss_threads s t = Idle \<Longrightarrow>
    session_step ext days s
      (s\<lparr>ss_threads := (ss_threads s)(t := readStep ext tok now (ss_world s))\<rparr>)"
| transact: "ss_threads s t = InFlight existing \<Longrightarrow> f_row_id fresh \<notin> ss_used s \<Longrightarrow>
    transactionStep ext days existing context fresh clk (ss_world s) = (ph, w') \<Longrightarrow>
    session_step ext days s
      (s\<lparr>ss_world := w', ss_threads := (ss_threads s)(t := ph),
         ss_used := insert (f_row_id fresh) (ss_used s)\<rparr>)"
| catch: "catchStep context clk (ss_threads s t) (ss_world s) = (ph, w') \<Longrightarrow>
    session_step ext days s (s\<lparr>ss_world := w', ss_threads := (ss_threads s)(t := ph)\<rparr>)"
| login: "issueForNewSession ext days userId cutoff context fam fresh now (ss_world s) = Inr (tok, w') \<Longrightarrow>
    fam \<notin> ss_used s \<Longrightarrow> f_row_id fresh \<notin> ss_used s \<Longrightarrow>
    session_step ext days s
      (s\<lparr>ss_world := w', ss_used := insert fam (insert (f_row_id fresh) (ss_used s))\<rparr>)"
| logout: "session_step ext days s (s\<lparr>ss_world := revokeByToken ext tok now (ss_world s)\<rparr>)"
| end_all: "endAllSessions userId actorId userData clk (ss_world s) = Inr (u, w') \<Longrightarrow>
    session_step ext days s (s\<lparr>ss_world := w'\<rparr>)"
| purge: "session_step ext days s (s\<lparr>ss_world := snd (purgeExpired now (ss_world s))\<rparr>)"
| elsewhere: "refresh_tokens w' = refresh_tokens (ss_world s) \<Longrightarrow>
    session_step ext days s (s\<lparr>ss_world := w'\<rparr>)"

section \<open>The invariant\<close>

definition one_live :: "refresh_row list \<Rightarrow> bool" where
  "one_live rows \<longleftrightarrow>
     (\<forall>r \<in> set rows. \<forall>r' \<in> set rows.
        live_row r \<longrightarrow> live_row r' \<longrightarrow> rt_family_id r = rt_family_id r' \<longrightarrow> r = r')"

definition rows_ok :: "refresh_row list \<Rightarrow> ident set \<Rightarrow> bool" where
  "rows_ok rows used \<longleftrightarrow>
     distinct (map rt_id rows) \<and>
     (\<forall>r \<in> set rows. rt_id r \<in> used \<and> rt_family_id r \<in> used) \<and>
     one_live rows"

fun phase_ok :: "refresh_row list \<Rightarrow> ident set \<Rightarrow> phase \<Rightarrow> bool" where
  "phase_ok rows used (InFlight ex) \<longleftrightarrow>
     rt_id ex \<in> used \<and> rt_family_id ex \<in> used \<and>
     (\<forall>r \<in> set rows. rt_id r = rt_id ex \<longrightarrow> row_le ex r)"
| "phase_ok rows used (Replaying uid fam) \<longleftrightarrow> fam \<in> used"
| "phase_ok rows used (Exchanged rid tok) \<longleftrightarrow>
     rid \<in> used \<and> (\<forall>r \<in> set rows. rt_id r = rid \<longrightarrow> rt_consumed_at r \<noteq> None)"
| "phase_ok rows used _ \<longleftrightarrow> True"

definition exchanged_once :: "(nat \<Rightarrow> phase) \<Rightarrow> bool" where
  "exchanged_once th \<longleftrightarrow>
     (\<forall>t t' rid tok tok'. th t = Exchanged rid tok \<longrightarrow> th t' = Exchanged rid tok' \<longrightarrow> t = t')"

definition session_inv :: "session_sys \<Rightarrow> bool" where
  "session_inv s \<longleftrightarrow>
     rows_ok (refresh_tokens (ss_world s)) (ss_used s) \<and>
     (\<forall>t. phase_ok (refresh_tokens (ss_world s)) (ss_used s) (ss_threads s t)) \<and>
     exchanged_once (ss_threads s)"

lemma rt_id_key: "map row_key rows = map row_key rows' \<Longrightarrow> map rt_id rows = map rt_id rows'"
proof -
  assume "map row_key rows = map row_key rows'"
  then have "map (fst \<circ> row_key) rows = map (fst \<circ> row_key) rows'"
    by (simp only: map_map [symmetric])
  then show ?thesis by (simp add: row_key_def comp_def)
qed

text \<open>Ageing rows, as every operation but an issue does, keeps what the invariant says of them.\<close>

lemma one_live_ages:
  assumes "one_live rows" and "ages rows rows'" and "distinct (map rt_id rows')"
  shows "one_live rows'"
  unfolding one_live_def
proof (intro ballI impI)
  fix a b
  assume ab: "a \<in> set rows'" "b \<in> set rows'" "live_row a" "live_row b"
    "rt_family_id a = rt_family_id b"
  obtain a0 where a0: "a0 \<in> set rows" "row_le a0 a" using assms(2) ab(1) by (rule agesE)
  obtain b0 where b0: "b0 \<in> set rows" "row_le b0 b" using assms(2) ab(2) by (rule agesE)
  have "live_row a0" "live_row b0"
    using a0 b0 ab(3,4) by (auto dest: row_le_live)
  moreover have "rt_family_id a0 = rt_family_id b0"
    using a0 b0 ab(5) by (simp add: row_le_def row_key_def)
  ultimately have "a0 = b0"
    using assms(1) a0(1) b0(1) by (simp add: one_live_def)
  then have "rt_id a = rt_id b"
    using a0 b0 by (simp add: row_le_def row_key_def)
  with ab assms(3) show "a = b" by (auto intro: distinct_key [where k = rt_id])
qed

lemma rows_ok_ages:
  assumes "rows_ok rows used" and "ages rows rows'" and "distinct (map rt_id rows')"
  shows "rows_ok rows' used"
proof -
  have "rt_id r \<in> used \<and> rt_family_id r \<in> used" if "r \<in> set rows'" for r
    using that assms(1,2) by (fastforce simp: ages_def rows_ok_def row_le_def row_key_def)
  then show ?thesis
    using assms one_live_ages by (auto simp: rows_ok_def)
qed

lemma phase_ok_ages:
  assumes "phase_ok rows used ph" and "ages rows rows'" and "used \<subseteq> used'"
  shows "phase_ok rows' used' ph"
proof (cases ph)
  case (InFlight ex)
  have "row_le ex r'" if new: "r' \<in> set rows'" "rt_id r' = rt_id ex" for r'
  proof -
    obtain r where r: "r \<in> set rows" "row_le r r'"
      using assms(2) new(1) by (rule agesE)
    moreover from this new have "rt_id r = rt_id ex" by (simp add: row_le_def row_key_def)
    ultimately show ?thesis
      using assms(1) InFlight by (auto intro: row_le_trans)
  qed
  then show ?thesis using InFlight assms by auto
next
  case (Exchanged rid tok)
  have "rt_consumed_at r' \<noteq> None" if new: "r' \<in> set rows'" "rt_id r' = rid" for r'
  proof -
    obtain r where r: "r \<in> set rows" "row_le r r'"
      using assms(2) new(1) by (rule agesE)
    moreover from this new have "rt_id r = rid" by (simp add: row_le_def row_key_def)
    ultimately show ?thesis
      using assms(1) Exchanged by (auto simp: row_le_def)
  qed
  then show ?thesis using Exchanged assms by auto
qed (use assms in auto)

text \<open>Adding a row whose id was never drawn before keeps what is known of the threads.\<close>

lemma phase_ok_append:
  "phase_ok rows used ph \<Longrightarrow> rt_id row \<notin> used \<Longrightarrow> used \<subseteq> used' \<Longrightarrow>
   phase_ok (rows @ [row]) used' ph"
  by (cases ph) (auto simp: subset_iff)

lemma rows_ok_append:
  assumes "rows_ok rows used" and "rt_id row \<notin> used"
    and "insert (rt_id row) (insert (rt_family_id row) used) \<subseteq> used'"
    and "\<And>r. r \<in> set rows \<Longrightarrow> rt_family_id r = rt_family_id row \<Longrightarrow> \<not> live_row r"
  shows "rows_ok (rows @ [row]) used'"
proof -
  have "one_live (rows @ [row])"
    using assms(1,4) by (auto simp: rows_ok_def one_live_def)
  then show ?thesis
    using assms by (auto simp: rows_ok_def)
qed

section \<open>Every step keeps the invariant\<close>

lemma session_inv_ages:
  assumes "session_inv s" and "ages (refresh_tokens (ss_world s)) (refresh_tokens w')"
    and "distinct (map rt_id (refresh_tokens w'))"
  shows "session_inv (s\<lparr>ss_world := w'\<rparr>)"
proof -
  have "phase_ok (refresh_tokens w') (ss_used s) (ss_threads s t)" for t
    using assms(1) by (intro phase_ok_ages [OF _ assms(2) subset_refl]) (simp add: session_inv_def)
  moreover have "rows_ok (refresh_tokens w') (ss_used s)"
    using rows_ok_ages [OF _ assms(2,3)] assms(1) by (simp add: session_inv_def)
  ultimately show ?thesis
    using assms(1) by (simp add: session_inv_def)
qed

lemma session_inv_thread:
  assumes "session_inv s"
    and "phase_ok (refresh_tokens (ss_world s)) (ss_used s) ph"
    and "\<And>rid tok. ph \<noteq> Exchanged rid tok"
  shows "session_inv (s\<lparr>ss_threads := (ss_threads s)(t := ph)\<rparr>)"
  using assms by (auto simp: session_inv_def exchanged_once_def split: if_splits)

lemma session_inv_distinct: "session_inv s \<Longrightarrow> distinct (map rt_id (refresh_tokens (ss_world s)))"
  by (simp add: session_inv_def rows_ok_def)

lemma keys_distinct:
  "map row_key rows' = map row_key rows \<Longrightarrow> distinct (map rt_id rows) \<Longrightarrow> distinct (map rt_id rows')"
  by (metis rt_id_key)

lemma inv_present:
  assumes "session_inv s"
  shows "session_inv (s\<lparr>ss_threads := (ss_threads s)(t := readStep ext tok now (ss_world s))\<rparr>)"
proof (rule session_inv_thread [OF assms])
  have rows: "rows_ok (refresh_tokens (ss_world s)) (ss_used s)"
    using assms by (simp add: session_inv_def)
  have "phase_ok (refresh_tokens (ss_world s)) (ss_used s) (InFlight ex)"
    if "findByToken ext tok (ss_world s) = Some ex" for ex
  proof -
    have ex: "ex \<in> set (refresh_tokens (ss_world s))"
      using that by (auto simp: findByToken_def dest: find_SomeD)
    then have "r = ex" if "r \<in> set (refresh_tokens (ss_world s))" "rt_id r = rt_id ex" for r
      using that rows distinct_key unfolding rows_ok_def by metis
    then have "\<forall>r \<in> set (refresh_tokens (ss_world s)). rt_id r = rt_id ex \<longrightarrow> row_le ex r"
      by (metis row_le_refl)
    with ex rows show ?thesis by (simp add: rows_ok_def)
  qed
  then show "phase_ok (refresh_tokens (ss_world s)) (ss_used s) (readStep ext tok now (ss_world s))"
    using rows by (auto simp: readStep_def findByToken_def rows_ok_def split: option.splits
        dest: find_SomeD)
  show "readStep ext tok now (ss_world s) \<noteq> Exchanged rid tok'" for rid tok'
    by (auto simp: readStep_def split: option.splits)
qed

lemma inv_catch:
  assumes "session_inv s" and "catchStep context clk (ss_threads s t) (ss_world s) = (ph, w')"
  shows "session_inv (s\<lparr>ss_world := w', ss_threads := (ss_threads s)(t := ph)\<rparr>)"
proof -
  note d = session_inv_distinct [OF assms(1)]
  have refused: "session_inv (s\<lparr>ss_world := w', ss_threads := (ss_threads s)(t := Refused e)\<rparr>)"
    if "ages (refresh_tokens (ss_world s)) (refresh_tokens w')"
      "map row_key (refresh_tokens w') = map row_key (refresh_tokens (ss_world s))" for e
    using session_inv_thread [OF session_inv_ages [OF assms(1) that(1) keys_distinct [OF that(2) d]],
        of "Refused e" t]
    by simp
  show ?thesis
  proof (cases "ss_threads s t")
    case (Replaying u f)
    with assms(2) have w': "refresh_tokens w' = refresh_tokens (revokeFamily f (clk 0) (ss_world s))"
      and "ph = Refused refreshTokenInvalid"
      by (auto simp: handleReplay_def)
    with refused show ?thesis by (simp add: ages_revokeFamily revokeFamily_keys)
  next
    case (ClosingAll u)
    show ?thesis
    proof (cases "endAllSessions u None id clk (ss_world s)")
      case (Inl e)
      with assms(2) ClosingAll have "ph = Refused e" "w' = ss_world s" by auto
      then show ?thesis using refused by simp
    next
      case (Inr r)
      then obtain v w'' where "endAllSessions u None id clk (ss_world s) = Inr (v, w'')"
        by (cases r) simp
      with assms(2) ClosingAll endAllSessions_rows [OF this] show ?thesis
        by (auto intro!: refused)
    qed
  qed (use assms in \<open>auto simp: fun_upd_idem\<close>)
qed

lemma inv_login:
  assumes inv: "session_inv s"
    and issue: "issueForNewSession ext days userId cutoff context fam fresh now (ss_world s) = Inr (tok, w')"
    and fresh: "fam \<notin> ss_used s" "f_row_id fresh \<notin> ss_used s"
  shows "session_inv (s\<lparr>ss_world := w', ss_used := insert fam (insert (f_row_id fresh) (ss_used s))\<rparr>)"
proof -
  from issue have "persist ext days userId fam context fresh now (ss_world s) = Inr (tok, w')"
    by (auto simp: issueForNewSession_def split: option.splits if_splits)
  then obtain row where rows: "refresh_tokens w' = refresh_tokens (ss_world s) @ [row]"
    and key: "row_key row = (f_row_id fresh, fam, userId, sha256_hex ext (f_token fresh), now)"
    by (rule persist_Inr)
  have row: "rt_id row = f_row_id fresh" "rt_family_id row = fam"
    using key by (simp_all add: row_key_def)
  have "rows_ok (refresh_tokens w') (insert fam (insert (f_row_id fresh) (ss_used s)))"
    unfolding rows using inv fresh row
    by (intro rows_ok_append [where used = "ss_used s"]) (auto simp: session_inv_def rows_ok_def)
  moreover have "phase_ok (refresh_tokens w') (insert fam (insert (f_row_id fresh) (ss_used s)))
      (ss_threads s t)" for t
    unfolding rows using inv fresh row
    by (intro phase_ok_append [where used = "ss_used s"]) (auto simp: session_inv_def)
  ultimately show ?thesis
    using inv by (simp add: session_inv_def)
qed

text \<open>
  The row a committed rotation consumed was live, is the one the thread had read, and had not been
  exchanged before; its replacement is the only live row of the family.
\<close>

lemma consumed_row:
  assumes "distinct (map rt_id rows)" and "count_where (consumable ex now) rows = 1"
  obtains r where "r \<in> set rows" "consumable ex now r"
    "\<And>x. x \<in> set rows \<Longrightarrow> rt_id x = rt_id ex \<Longrightarrow> x = r"
proof -
  from assms(2) have "0 < count_where (consumable ex now) rows" by simp
  then obtain r where r: "r \<in> set rows" "consumable ex now r"
    by (auto simp: count_where_pos)
  moreover have "x = r" if "x \<in> set rows" "rt_id x = rt_id ex" for x
    using distinct_key [OF assms(1) that(1) r(1)] that(2) r(2) by (simp add: consumable_def)
  ultimately show thesis by (rule that)
qed

lemma inv_exchanged:
  assumes inv: "session_inv s" and th: "ss_threads s t = InFlight ex"
    and fresh: "f_row_id fresh \<notin> ss_used s"
    and rot: "rotateTransaction ext days ex context fresh clk (ss_world s) = Inr (owner, tok, w')"
  shows "session_inv (s\<lparr>ss_world := w', ss_threads := (ss_threads s)(t := Exchanged (rt_id ex) tok),
           ss_used := insert (f_row_id fresh) (ss_used s)\<rparr>)"
proof -
  let ?rows = "refresh_tokens (ss_world s)" and ?used = "insert (f_row_id fresh) (ss_used s)"
  obtain mid row where count: "count_where (consumable ex (clk 1)) ?rows = 1"
    and mid: "mid = update_where (consumable ex (clk 1)) (\<lambda>r. r\<lparr>rt_consumed_at := Some (clk 2)\<rparr>) ?rows"
    and rows': "refresh_tokens w' = mid @ [row]"
    and key: "row_key row = (f_row_id fresh, rt_family_id ex, rt_user_id ex,
       sha256_hex ext (f_token fresh), clk 3)"
    by (rule rotateTransaction_Inr [OF rot])
  have row: "rt_id row = f_row_id fresh" "rt_family_id row = rt_family_id ex"
    using key by (simp_all add: row_key_def)
  obtain r where r: "r \<in> set ?rows" "consumable ex (clk 1) r"
    and only: "\<And>x. x \<in> set ?rows \<Longrightarrow> rt_id x = rt_id ex \<Longrightarrow> x = r"
    by (rule consumed_row [OF session_inv_distinct [OF inv] count]) blast
  have ex: "rt_id ex \<in> ss_used s" "row_le ex r"
    using inv th r by (auto simp: session_inv_def consumable_def dest!: spec [of _ t])
  have fam: "rt_family_id ex = rt_family_id r"
    using ex by (simp add: row_le_def row_key_def)
  have ages: "ages ?rows mid" unfolding mid by (rule ages_update) simp
  have dist: "distinct (map rt_id mid)"
    by (rule keys_distinct [OF _ session_inv_distinct [OF inv]])
      (simp add: mid update_where_keys)
  have mid_ok: "rows_ok mid (ss_used s)"
    using rows_ok_ages [OF _ ages dist] inv by (simp add: session_inv_def)
  have gone: "rt_consumed_at x \<noteq> None" if "x \<in> set mid" "rt_id x = rt_id ex" for x
  proof -
    have "rt_id x = rt_id ex \<longrightarrow> rt_consumed_at x \<noteq> None"
      using that(1) unfolding mid
      by (rule update_where_elim) (use r(2) only in auto)
    with that(2) show ?thesis by simp
  qed
  have dead: "\<not> live_row x" if x: "x \<in> set mid" "rt_family_id x = rt_family_id row" for x
  proof
    assume live: "live_row x"
    obtain x0 where x0: "x0 \<in> set ?rows" "row_le x0 x" using ages x(1) by (rule agesE)
    have "live_row x0" "live_row r"
      using x0 live r by (auto dest: row_le_live simp: consumable_def live_row_def)
    moreover have "rt_family_id x0 = rt_family_id r"
      using x0 x(2) row fam by (simp add: row_le_def row_key_def)
    ultimately have "x0 = r"
      using inv x0(1) r(1) by (simp add: session_inv_def rows_ok_def one_live_def)
    then have "rt_id x = rt_id ex"
      using x0 r(2) by (simp add: row_le_def row_key_def consumable_def)
    with gone [OF x(1)] live show False by (simp add: live_row_def)
  qed
  have rows_new: "rows_ok (refresh_tokens w') ?used"
    unfolding rows' using mid_ok fresh row ex r fam inv dead
    by (intro rows_ok_append [OF mid_ok]) (auto simp: session_inv_def rows_ok_def)
  have others: "phase_ok (refresh_tokens w') ?used (ss_threads s x)" for x
    unfolding rows' using inv fresh row phase_ok_ages [OF _ ages subset_refl]
    by (intro phase_ok_append [where used = "ss_used s"]) (auto simp: session_inv_def)
  have mine: "phase_ok (refresh_tokens w') ?used (Exchanged (rt_id ex) tok)"
    unfolding rows' using ex(1) fresh row gone by auto
  have "rt_id ex \<noteq> rid" if "ss_threads s x = Exchanged rid tok'" for x rid tok'
  proof
    assume "rt_id ex = rid"
    moreover have "phase_ok ?rows (ss_used s) (ss_threads s x)"
      using inv by (simp add: session_inv_def)
    ultimately have "rt_consumed_at r \<noteq> None"
      using that r by (force simp: consumable_def)
    with r(2) show False by (simp add: consumable_def)
  qed
  then have "exchanged_once ((ss_threads s)(t := Exchanged (rt_id ex) tok))"
    using inv unfolding session_inv_def exchanged_once_def by (simp split: if_split) metis
  with rows_new others mine show ?thesis
    by (simp add: session_inv_def)
qed

lemma inv_transact:
  assumes inv: "session_inv s" and th: "ss_threads s t = InFlight ex"
    and fresh: "f_row_id fresh \<notin> ss_used s"
    and step: "transactionStep ext days ex context fresh clk (ss_world s) = (ph, w')"
  shows "session_inv (s\<lparr>ss_world := w', ss_threads := (ss_threads s)(t := ph),
           ss_used := insert (f_row_id fresh) (ss_used s)\<rparr>)"
proof (cases "rotateTransaction ext days ex context fresh clk (ss_world s)")
  case (Inr x)
  then obtain owner tok w'' where
    "rotateTransaction ext days ex context fresh clk (ss_world s) = Inr (owner, tok, w'')"
    by (cases x) auto
  with inv_exchanged [OF inv th fresh this] step show ?thesis
    by (simp add: transactionStep_def)
next
  case (Inl f)
  then have w': "w' = ss_world s" and ph: "\<And>rid tok. ph \<noteq> Exchanged rid tok"
    and ok: "phase_ok (refresh_tokens w') (ss_used s) ph"
    using step inv th
    by (auto simp: transactionStep_def session_inv_def split: rotate_failure.splits
        dest!: spec [of _ t])
  have "session_inv (s\<lparr>ss_threads := (ss_threads s)(t := ph)\<rparr>)"
    using ok ph unfolding w' by (rule session_inv_thread [OF inv])
  then have "session_inv (s\<lparr>ss_threads := (ss_threads s)(t := ph),
      ss_used := insert (f_row_id fresh) (ss_used s)\<rparr>)"
    using phase_ok_ages [OF _ ages_refl subset_insertI]
    by (auto simp: session_inv_def rows_ok_def)
  then show ?thesis unfolding w' by simp
qed

lemma session_step_inv:
  assumes "session_inv s" and "session_step ext days s s'"
  shows "session_inv s'"
  using assms(2)
proof cases
  case (present t tok now)
  then show ?thesis using inv_present [OF assms(1)] by simp
next
  case (transact t ex fresh ctx clk ph w')
  then show ?thesis using inv_transact [OF assms(1)] by simp
next
  case (catch ctx clk t ph w')
  then show ?thesis using inv_catch [OF assms(1)] by simp
next
  case (login userId cutoff ctx fam fresh now tok w')
  then show ?thesis using inv_login [OF assms(1)] by simp
next
  case (logout tok now)
  have "ages (refresh_tokens (ss_world s)) (refresh_tokens (revokeByToken ext tok now (ss_world s)))"
    and "map row_key (refresh_tokens (revokeByToken ext tok now (ss_world s))) =
      map row_key (refresh_tokens (ss_world s))"
    by (auto simp: revokeByToken_def ages_revokeFamily revokeFamily_keys split: option.splits)
  then show ?thesis
    using logout session_inv_ages [OF assms(1)] keys_distinct session_inv_distinct [OF assms(1)]
    by blast
next
  case (end_all userId actorId userData clk u w')
  then show ?thesis
    using session_inv_ages [OF assms(1)] keys_distinct session_inv_distinct [OF assms(1)]
      endAllSessions_rows(1,2) by metis
next
  case (purge now)
  then show ?thesis
    using session_inv_ages [OF assms(1), of "snd (purgeExpired now (ss_world s))"]
      session_inv_distinct [OF assms(1)]
    by (simp add: purgeExpired_def ages_filter distinct_map_filter)
next
  case (elsewhere w')
  then show ?thesis
    using session_inv_ages [OF assms(1), of w'] session_inv_distinct [OF assms(1)] by simp
qed

lemma session_init_inv: "session_init s \<Longrightarrow> session_inv s"
  by (simp add: session_init_def session_inv_def rows_ok_def one_live_def exchanged_once_def)

interpretation sessions: machine session_init "session_step ext days" session_inv for ext days
  by unfold_locales (auto intro: session_init_inv session_step_inv)

section \<open>What the machine guarantees\<close>

lemmas session_reachable = sessions.inv_reachable [unfolded session_inv_def]

text \<open>C1: in every reachable state of the interleaved system, two requests that both exchanged the
  same refresh-token row are the same request: a token is exchanged at most once.\<close>

theorem token_exchanged_once:
  assumes "reachable session_init (session_step ext days) s"
    and "ss_threads s t = Exchanged rid tok" and "ss_threads s t' = Exchanged rid tok'"
  shows "t = t'"
  using session_reachable [OF assms(1)] assms(2,3) by (simp add: exchanged_once_def)

text \<open>C4: in every reachable state a family has at most one token that is neither consumed nor
  revoked.\<close>

theorem one_live_token_per_family:
  assumes "reachable session_init (session_step ext days) s"
    and "r \<in> set (refresh_tokens (ss_world s))" and "r' \<in> set (refresh_tokens (ss_world s))"
    and "live_row r" and "live_row r'" and "rt_family_id r = rt_family_id r'"
  shows "r = r'"
  using session_reachable [OF assms(1)] assms(2-) by (simp add: rows_ok_def one_live_def)

text \<open>A family is closed when it has been used and none of its rows is unrevoked.\<close>

definition family_closed :: "ident \<Rightarrow> session_sys \<Rightarrow> bool" where
  "family_closed fam s \<longleftrightarrow>
     fam \<in> ss_used s \<and>
     (\<forall>r \<in> set (refresh_tokens (ss_world s)). rt_family_id r = fam \<longrightarrow> rt_revoked_at r \<noteq> None)"

lemma family_closed_ages:
  assumes "family_closed fam s" and "ages (refresh_tokens (ss_world s)) (refresh_tokens w')"
  shows "family_closed fam (s\<lparr>ss_world := w'\<rparr>)"
proof -
  have "rt_revoked_at r' \<noteq> None"
    if r': "r' \<in> set (refresh_tokens w')" "rt_family_id r' = fam" for r'
  proof -
    obtain r where r: "r \<in> set (refresh_tokens (ss_world s))" "row_le r r'"
      using assms(2) r'(1) by (rule agesE)
    with r'(2) have "rt_family_id r = fam" by (simp add: row_le_def row_key_def)
    with r assms(1) show ?thesis by (simp add: family_closed_def row_le_def)
  qed
  with assms(1) show ?thesis by (simp add: family_closed_def)
qed

lemma family_closed_step:
  assumes inv: "session_inv s" and closed: "family_closed fam s"
    and step: "session_step ext days s s'"
  shows "family_closed fam s'"
  using step
proof cases
  case (transact t ex fresh ctx clk ph w')
  show ?thesis
  proof (cases "rotateTransaction ext days ex ctx fresh clk (ss_world s)")
    case (Inl f)
    then have "w' = ss_world s"
      using transact by (auto simp: transactionStep_def split: rotate_failure.splits)
    then show ?thesis using transact closed by (simp add: family_closed_def)
  next
    case (Inr x)
    then obtain owner tok w'' where
      rot: "rotateTransaction ext days ex ctx fresh clk (ss_world s) = Inr (owner, tok, w'')"
      by (cases x) auto
    then have w': "w' = w''" using transact by (simp add: transactionStep_def)
    let ?rows = "refresh_tokens (ss_world s)"
    obtain mid row where count: "count_where (consumable ex (clk 1)) ?rows = 1"
      and mid: "mid = update_where (consumable ex (clk 1)) (\<lambda>r. r\<lparr>rt_consumed_at := Some (clk 2)\<rparr>) ?rows"
      and rows': "refresh_tokens w'' = mid @ [row]"
      and key: "row_key row = (f_row_id fresh, rt_family_id ex, rt_user_id ex,
         sha256_hex ext (f_token fresh), clk 3)"
      by (rule rotateTransaction_Inr [OF rot])
    obtain r where r: "r \<in> set ?rows" "consumable ex (clk 1) r"
      by (rule consumed_row [OF session_inv_distinct [OF inv] count]) blast
    have "phase_ok ?rows (ss_used s) (InFlight ex)"
      using inv transact by (auto simp: session_inv_def dest: spec [of _ t])
    then have "rt_family_id ex = rt_family_id r"
      using r by (simp add: consumable_def row_le_def row_key_def)
    then have other: "rt_family_id row \<noteq> fam"
      using closed r key by (auto simp: family_closed_def consumable_def row_key_def)
    have "ages ?rows mid" unfolding mid by (rule ages_update) simp
    then have "family_closed fam (s\<lparr>ss_world := (ss_world s)\<lparr>refresh_tokens := mid\<rparr>\<rparr>)"
      by (intro family_closed_ages [OF closed]) simp
    with other show ?thesis
      using transact by (auto simp: family_closed_def w' rows')
  qed
next
  case (catch ctx clk t ph w')
  have "ages (refresh_tokens (ss_world s)) (refresh_tokens w')"
    using catch endAllSessions_rows(1)
    by (cases "ss_threads s t")
      (auto simp: handleReplay_def ages_revokeFamily split: sum.splits)
  from family_closed_ages [OF closed this] show ?thesis
    using catch by (simp add: family_closed_def)
next
  case (login userId cutoff ctx fam' fresh now tok w')
  then have "persist ext days userId fam' ctx fresh now (ss_world s) = Inr (tok, w')"
    by (auto simp: issueForNewSession_def split: option.splits if_splits)
  then obtain row where rows: "refresh_tokens w' = refresh_tokens (ss_world s) @ [row]"
    and key: "row_key row = (f_row_id fresh, fam', userId, sha256_hex ext (f_token fresh), now)"
    by (rule persist_Inr)
  then have "rt_family_id row \<noteq> fam"
    using closed login by (auto simp: family_closed_def row_key_def)
  then show ?thesis
    using closed login rows by (auto simp: family_closed_def)
next
  case (logout tok now)
  have "ages (refresh_tokens (ss_world s)) (refresh_tokens (revokeByToken ext tok now (ss_world s)))"
    by (auto simp: revokeByToken_def ages_revokeFamily split: option.splits)
  from family_closed_ages [OF closed this] show ?thesis using logout by simp
next
  case (end_all userId actorId userData clk u w')
  then show ?thesis
    using family_closed_ages [OF closed] endAllSessions_rows(1) by metis
next
  case (purge now)
  then show ?thesis
    using family_closed_ages [OF closed, of "snd (purgeExpired now (ss_world s))"]
    by (simp add: purgeExpired_def ages_filter)
qed (use closed in \<open>auto simp: family_closed_def\<close>)

text \<open>A thread that holds a row of a closed family can no longer exchange it.\<close>

lemma closed_family_no_exchange:
  assumes inv: "session_inv s" and "family_closed (rt_family_id ex) s"
    and th: "ss_threads s t = InFlight ex"
  shows "transactionStep ext days ex ctx fresh clk (ss_world s) \<noteq> (Exchanged rid tok, w)"
proof -
  have "phase_ok (refresh_tokens (ss_world s)) (ss_used s) (InFlight ex)"
    using inv th by (auto simp: session_inv_def dest: spec [of _ t])
  then have "rt_family_id r = rt_family_id ex"
    if "r \<in> set (refresh_tokens (ss_world s))" "rt_id r = rt_id ex" for r
    using that by (simp add: row_le_def row_key_def)
  then have "\<not> live_row r"
    if "r \<in> set (refresh_tokens (ss_world s))" "rt_id r = rt_id ex" for r
    using that assms(2) by (auto simp: family_closed_def live_row_def)
  then have "rotateTransaction ext days ex ctx fresh clk (ss_world s) \<in>
    {Inl SessionOwnerIneligibleError, Inl SessionPredatesCutoffError, Inl ReplayDetectedError}"
    by (rule rotateTransaction_dead)
  then show ?thesis by (auto simp: transactionStep_def)
qed

lemma replay_closes_family:
  assumes "session_inv s" and "ss_threads s t = Replaying uid fam"
  shows "family_closed fam
    (s\<lparr>ss_world := snd (catchStep ctx clk (Replaying uid fam) (ss_world s)),
       ss_threads := (ss_threads s)(t := ph)\<rparr>)"
proof -
  have "phase_ok (refresh_tokens (ss_world s)) (ss_used s) (Replaying uid fam)"
    using assms by (auto simp: session_inv_def dest: spec [of _ t])
  then show ?thesis
    using revokeFamily_closes by (auto simp: family_closed_def handleReplay_def)
qed

text \<open>C5: once the \<open>catch\<close> block of a replayed exchange has run, the family it names stays closed
  along every continuation of the run: no row of it is ever live again, and no request still in
  flight on a token of the family can exchange it.\<close>

theorem replayed_family_stays_closed:
  assumes "reachable session_init (session_step ext days) s"
    and "ss_threads s t = Replaying uid fam"
    and "catchStep ctx clk (ss_threads s t) (ss_world s) = (ph, w')"
    and "(session_step ext days)\<^sup>*\<^sup>* (s\<lparr>ss_world := w', ss_threads := (ss_threads s)(t := ph)\<rparr>) s'"
  shows "ph = Refused refreshTokenInvalid \<and>
    (\<forall>r \<in> set (refresh_tokens (ss_world s')). rt_family_id r = fam \<longrightarrow> \<not> live_row r) \<and>
    (\<forall>u ex ctx fresh clk rid tok w. ss_threads s' u = InFlight ex \<longrightarrow> rt_family_id ex = fam \<longrightarrow>
       transactionStep ext days ex ctx fresh clk (ss_world s') \<noteq> (Exchanged rid tok, w))"
proof -
  let ?s1 = "s\<lparr>ss_world := w', ss_threads := (ss_threads s)(t := ph)\<rparr>"
  have inv: "session_inv s" using assms(1) by (rule sessions.inv_reachable)
  then have inv1: "session_inv ?s1" using assms(3) by (rule inv_catch)
  have "family_closed fam ?s1"
    using replay_closes_family [OF inv assms(2)] assms(2,3) by (metis snd_conv)
  with family_closed_step assms(4) inv1 have "family_closed fam s'"
    by (rule sessions.stable_steps)
  moreover have "session_inv s'" using assms(4) inv1 by (rule sessions.inv_steps)
  moreover have "ph = Refused refreshTokenInvalid"
    using assms(2,3) by (simp add: handleReplay_def)
  ultimately show ?thesis
    using closed_family_no_exchange by (auto simp: family_closed_def live_row_def)
qed

text \<open>Of two requests that read the same live token, the one that commits second issues
  nothing and changes nothing; it is refused, or goes on to close the family (a replay) or every
  session of the account (its owner was deactivated in between).\<close>

theorem losing_exchange_refused:
  assumes "reachable session_init (session_step ext days) s"
    and "ss_threads s winner = Exchanged (rt_id ex) tok" and "ss_threads s loser = InFlight ex"
    and "transactionStep ext days ex ctx fresh clk (ss_world s) = (ph, w')"
  shows "w' = ss_world s \<and>
    ph \<in> {Replaying (rt_user_id ex) (rt_family_id ex), ClosingAll (rt_user_id ex),
          Refused refreshTokenInvalid}"
proof -
  have "phase_ok (refresh_tokens (ss_world s)) (ss_used s) (ss_threads s winner)"
    using session_reachable [OF assms(1)] by simp
  then have "\<not> live_row r"
    if "r \<in> set (refresh_tokens (ss_world s))" "rt_id r = rt_id ex" for r
    using that assms(2) by (auto simp: live_row_def)
  then have "rotateTransaction ext days ex ctx fresh clk (ss_world s) \<in>
    {Inl SessionOwnerIneligibleError, Inl SessionPredatesCutoffError, Inl ReplayDetectedError}"
    by (rule rotateTransaction_dead)
  with assms(4) show ?thesis by (auto simp: transactionStep_def)
qed

end
