(* ===== verification/Session_Properties.thy ===== *)
theory Session_Properties
  imports Session_Machine
begin

text \<open>
  What \<open>rotate\<close> does when nothing else commits in between: it is the machine's three steps run in
  a row, it succeeds in exactly one case, and a second presentation of an exchanged token ends the
  family its replacement belongs to.  The sample data of the session witnesses is here too.
\<close>

section \<open>The sequential call refines the steps\<close>

definition runRotate ::
  "ext \<Rightarrow> int \<Rightarrow> string \<Rightarrow> refresh_token_context \<Rightarrow> fresh_token \<Rightarrow> clock \<Rightarrow> world
   \<Rightarrow> phase \<times> world" where
  "runRotate ext days tok ctx fresh clk w =
     (case readStep ext tok (clk 0) w of
        InFlight ex \<Rightarrow>
          (case transactionStep ext days ex ctx fresh clk w of
             (ph, w') \<Rightarrow> catchStep ctx (\<lambda>i. clk (4 + i)) ph w')
      | ph \<Rightarrow> catchStep ctx clk ph w)"

fun answer_of :: "phase \<Rightarrow> (exn + issued_refresh_token) option" where
  "answer_of (Refused e) = Some (Inl e)"
| "answer_of (Exchanged _ tok) = Some (Inr tok)"
| "answer_of _ = None"

text \<open>The \<open>rotate\<close> of the service and the machine's read, transaction and \<open>catch\<close> steps, run one
  after the other, give the same answer and leave the same database.\<close>

lemma rotate_refines_steps:
  "case rotate ext days tok ctx fresh clk w of
     (outcome, w') \<Rightarrow>
       case runRotate ext days tok ctx fresh clk w of
         (ph, w'') \<Rightarrow> w'' = w' \<and> answer_of ph = Some (map_sum id snd outcome)"
  by (auto simp: rotate_def runRotate_def readStep_def transactionStep_def afterRotateFailure_def
      handleReplay_def split: option.splits sum.splits rotate_failure.splits)

section \<open>The functional behaviour of one exchange\<close>

definition exchangeable :: "ext \<Rightarrow> string \<Rightarrow> time \<Rightarrow> world \<Rightarrow> bool" where
  "exchangeable ext tok now w \<longleftrightarrow>
     (case findByToken ext tok w of
        None \<Rightarrow> False
      | Some ex \<Rightarrow>
          live_row ex \<and> now < rt_expires_at ex \<and>
          (case loadEligibleSessionOwner (rt_user_id ex) w of
             None \<Rightarrow> False
           | Some owner \<Rightarrow>
               (case u_password_changed_at owner of
                  None \<Rightarrow> True
                | Some cutoff \<Rightarrow> cutoff \<le> rt_created_at ex)))"

lemma consumable_count:
  assumes "keys_ok w" and "ex \<in> set (refresh_tokens w)"
  shows "count_where (consumable ex now) (refresh_tokens w) =
    (if live_row ex \<and> now < rt_expires_at ex then 1 else 0)"
proof -
  have same: "r = ex" if "r \<in> set (refresh_tokens w)" "rt_id r = rt_id ex" for r
    using assms that by (auto simp: keys_ok_def intro: distinct_key [where k = rt_id])
  show ?thesis
  proof (cases "live_row ex \<and> now < rt_expires_at ex")
    case True
    then have "0 < count_where (consumable ex now) (refresh_tokens w)"
      using assms(2) by (auto simp: count_where_pos consumable_def live_row_def)
    moreover have "count_where (consumable ex now) (refresh_tokens w) \<le> 1"
      using assms(1) unfolding keys_ok_def
      by (intro count_where_le_1 [where k = rt_id and a = "rt_id ex"]) (auto simp: consumable_def)
    ultimately show ?thesis using True by simp
  next
    case False
    then have "\<forall>r \<in> set (refresh_tokens w). \<not> consumable ex now r"
      using same by (auto simp: consumable_def live_row_def)
    then show ?thesis using False by (simp add: count_where_0 [THEN iffD2])
  qed
qed

lemma persist_fresh:
  assumes "\<And>r. r \<in> set (refresh_tokens w) \<Longrightarrow>
      rt_id r \<noteq> f_row_id fresh \<and> rt_token_hash r \<noteq> sha256_hex ext (f_token fresh)"
  shows "\<exists>tok w'. persist ext days uid fam ctx fresh now w = Inr (tok, w')"
  using assms by (auto simp: persist_def Let_def)

text \<open>C12: with a row id and a digest not in the table, an exchange succeeds if and only if the presented
  token is known, neither consumed nor revoked, unexpired when the conditional update runs, and its
  owner is active, not deleted, and has no session cutoff after the row's creation.\<close>

theorem rotate_succeeds_iff:
  assumes "keys_ok w" and "monotone_clock clk"
    and "\<forall>r \<in> set (refresh_tokens w).
      rt_id r \<noteq> f_row_id fresh \<and> rt_token_hash r \<noteq> sha256_hex ext (f_token fresh)"
  shows "(\<exists>x w'. rotate ext days tok ctx fresh clk w = (Inr x, w')) \<longleftrightarrow>
    exchangeable ext tok (clk 1) w"
proof (cases "findByToken ext tok w")
  case None
  then show ?thesis by (simp add: rotate_def exchangeable_def)
next
  case (Some ex)
  then have ex: "ex \<in> set (refresh_tokens w)"
    by (auto simp: findByToken_def dest: find_SomeD)
  have clk: "clk 0 \<le> clk 1" using assms(2) by (rule monotone_clock_le) simp
  let ?mid = "update_where (consumable ex (clk 1)) (\<lambda>r. r\<lparr>rt_consumed_at := Some (clk 2)\<rparr>)
    (refresh_tokens w)"
  obtain t w1 where fresh: "persist ext days (rt_user_id ex) (rt_family_id ex) ctx fresh (clk 3)
      (w\<lparr>refresh_tokens := ?mid\<rparr>) = Inr (t, w1)"
    using persist_fresh [of "w\<lparr>refresh_tokens := ?mid\<rparr>" fresh ext] assms(3)
    by (fastforce simp: set_update_where)
  note count = consumable_count [OF assms(1) ex, of "clk 1"]
  show ?thesis
  proof (cases "exchangeable ext tok (clk 1) w")
    case True
    then show ?thesis
      using Some clk count fresh
      by (auto simp: exchangeable_def rotate_def rotateTransaction_def live_row_def
          split: option.splits)
  next
    case False
    then have "\<nexists>x. rotateTransaction ext days ex ctx fresh clk w = Inr x"
      using Some count
      by (auto simp: exchangeable_def rotateTransaction_def split: option.splits if_splits)
    then show ?thesis
      using False Some unfolding rotate_def
      by (auto split: sum.splits prod.splits)
  qed
qed

lemma rotate_Inr:
  assumes "rotate ext days tok ctx fresh clk w = (Inr (owner, new), w')"
  obtains ex where "findByToken ext tok w = Some ex"
    "rotateTransaction ext days ex ctx fresh clk w = Inr (owner, new, w')"
  using assms by (auto simp: rotate_def split: option.splits if_splits sum.splits prod.splits)

lemma find_revokeFamily:
  assumes "find p (refresh_tokens w) = Some r"
    and "\<And>r t. p (r\<lparr>rt_revoked_at := t\<rparr>) = p r"
  shows "\<exists>r'. find p (refresh_tokens (revokeFamily (rt_family_id r) now w)) = Some r' \<and>
    rt_consumed_at r' = rt_consumed_at r \<and> rt_revoked_at r' \<noteq> None"
proof -
  have "\<exists>x \<in> set (refresh_tokens w). rt_family_id x = rt_family_id r"
    using assms(1) by (auto dest: find_SomeD)
  then obtain x where "find (\<lambda>x. rt_family_id x = rt_family_id r) (refresh_tokens w) = Some x"
    by (cases "find (\<lambda>x. rt_family_id x = rt_family_id r) (refresh_tokens w)")
      (auto simp: find_None_iff)
  with assms show ?thesis
    by (simp add: revokeFamily_def find_update_where)
qed

text \<open>After a successful exchange, presenting the old token again is refused and ends the family:
  whoever then presents the replacement, at any time, is refused too, and nothing is written.\<close>

theorem replay_kills_replacement:
  assumes "keys_ok w"
    and "rotate ext days tok ctx fresh clk w = (Inr (owner, new), w1)"
    and "rotate ext days tok ctx' fresh' clk' w1 = (again, w2)"
  shows "again = Inl refreshTokenInvalid \<and>
    (\<forall>ctx fresh clk. rotate ext days (it_token new) ctx fresh clk w2 = (Inl refreshTokenInvalid, w2))"
proof -
  let ?p = "\<lambda>t r. rt_token_hash r = sha256_hex ext t"
  obtain ex where ex: "findByToken ext tok w = Some ex"
    and rot: "rotateTransaction ext days ex ctx fresh clk w = Inr (owner, new, w1)"
    using assms(2) by (rule rotate_Inr)
  obtain mid row where one: "count_where (consumable ex (clk 1)) (refresh_tokens w) = 1"
    and mid: "mid = update_where (consumable ex (clk 1)) (\<lambda>r. r\<lparr>rt_consumed_at := Some (clk 2)\<rparr>)
             (refresh_tokens w)"
    and rows: "refresh_tokens w1 = mid @ [row]"
    and key: "row_key row = (f_row_id fresh, rt_family_id ex, rt_user_id ex,
       sha256_hex ext (f_token fresh), clk 3)"
    and live: "live_row row"
    and new: "\<forall>r \<in> set mid. rt_token_hash r \<noteq> sha256_hex ext (f_token fresh)"
    and tok: "it_token new = f_token fresh"
    by (rule rotateTransaction_Inr [OF rot]) blast
  have mem: "ex \<in> set (refresh_tokens w)" using ex by (auto simp: findByToken_def dest: find_SomeD)
  have "live_row ex \<and> clk 1 < rt_expires_at ex"
    using consumable_count [OF assms(1) mem, of "clk 1"] one by (metis zero_neq_one)
  then have "consumable ex (clk 1) ex" by (simp add: consumable_def live_row_def)
  then have found: "find (?p tok) (refresh_tokens w1) = Some (ex\<lparr>rt_consumed_at := Some (clk 2)\<rparr>)"
    using ex unfolding rows mid findByToken_def by (simp add: find_append find_update_where)
  have again: "again = Inl refreshTokenInvalid"
    and w2: "refresh_tokens w2 = refresh_tokens (revokeFamily (rt_family_id ex) (clk' 0) w1)"
    using assms(3) found by (auto simp: rotate_def findByToken_def handleReplay_def)
  have "find (?p (it_token new)) mid = None" and "?p (it_token new) row"
    using new key by (simp_all add: find_None_iff tok row_key_def)
  then have "find (?p (it_token new)) (refresh_tokens w1) = Some row"
    unfolding rows by (simp add: find_append)
  moreover have "rt_family_id row = rt_family_id ex" using key by (simp add: row_key_def)
  ultimately obtain r where "findByToken ext (it_token new) w2 = Some r"
    "rt_consumed_at r = None" "rt_revoked_at r \<noteq> None"
    using find_revokeFamily [of "?p (it_token new)" w1 row "clk' 0"] live
    unfolding findByToken_def w2 by (auto simp: live_row_def)
  then have "rotate ext days (it_token new) c f k w2 = (Inl refreshTokenInvalid, w2)" for c f k
    by (simp add: rotate_def)
  with again show ?thesis by blast
qed

text \<open>Whatever is wrong with a presented token, the caller learns the same error; only a database
  failure (a unique index, or an owner row that is gone) looks different.\<close>

theorem rotate_error_uniform:
  assumes "rotate ext days tok ctx fresh clk w = (Inl e, w')"
  shows "e \<in> {refreshTokenInvalid, PrismaKnownRequestError ''P2002'', PrismaKnownRequestError ''P2025''}"
proof -
  have persist: "e' = PrismaKnownRequestError ''P2002''"
    if "persist ext days u f c fr n v = Inl e'" for u f c fr n v e'
    using that by (auto simp: persist_def Let_def split: if_splits)
  have ends: "e' \<in> {PrismaKnownRequestError ''P2002'', PrismaKnownRequestError ''P2025''}"
    if "endAllSessions u a d k v = Inl e'" for u a d k v e'
    using that by (auto simp: endAllSessions_def endAllSessionsInTransaction_def Let_def
        split: option.splits if_splits)
  have after: "e' \<in> {refreshTokenInvalid, PrismaKnownRequestError ''P2002'',
      PrismaKnownRequestError ''P2025''} \<or> failure = OtherFailure e'"
    if "afterRotateFailure ex ctx clk failure w = (e', v)" for ex failure e' v
    using that by (auto dest!: ends simp: afterRotateFailure_def handleReplay_def
        split: rotate_failure.splits sum.splits)
  have "e' = PrismaKnownRequestError ''P2002''"
    if "rotateTransaction ext days ex ctx fresh clk w = Inl (OtherFailure e')" for ex e'
    using that persist by (auto simp: rotateTransaction_def split: option.splits if_splits sum.splits)
  then show ?thesis
    using assms
    by (auto dest!: after simp: rotate_def handleReplay_def split: option.splits if_splits sum.splits prod.splits)
qed

end
