(* ===== verification/Samples.thy ===== *)
theory Samples
  imports World
begin

text \<open>
  Concrete data for the witnesses: stand-ins for the digests, the password hash and the token
  signer, one account, and a database that holds it.
\<close>

definition sample_ext :: ext where
  "sample_ext =
     \<lparr>sha256_hex = (\<lambda>s. ''h'' @ s), bcrypt_compare = (\<lambda>p h. h = ''b'' @ p),
      bcrypt_hash = (\<lambda>p. ''b'' @ p), jwt_sign = (\<lambda>p j. jp_sub p @ j),
      jwt_decode = (\<lambda>t. \<lparr>jp_sub = t, jp_iat = Some 0, jp_exp = Some 900, jp_jti = None,
                          jp_purpose = None\<rparr>)\<rparr>"

definition sample_user :: "ident \<Rightarrow> user_row" where
  "sample_user i =
     \<lparr>u_id = i, u_email = i, u_username = None, u_password = ''b'' @ i,
      u_password_changed_at = None, u_email_verified_at = Some 0, u_is_active = True,
      u_deleted_at = None, u_deleted_by = None, u_first_name = ''F'', u_middle_name = None,
      u_last_name = ''L'', u_phone_number = None, u_phone_verified_at = None, u_gender = None,
      u_birthday = None, u_timezone = None, u_profile_image = None, u_otp_hash = None,
      u_otp_purpose = None, u_otp_expires_at = None, u_created_by = None, u_updated_by = None\<rparr>"

definition empty_world :: world where
  "empty_world =
     \<lparr>users = [], refresh_tokens = [], workspaces = [], roles = [], user_roles = [],
      memberships = [], invitations = [], audit_logs = [], jobs = [], redis = (\<lambda>_. None),
      redis_up = True, audit_up = True\<rparr>"

definition sample_world :: world where
  "sample_world = empty_world\<lparr>users := [sample_user ''u'']\<rparr>"

lemmas sample_defs = sample_ext_def sample_user_def empty_world_def sample_world_def

end
