(* ===== verification/Session_Witnesses.thy ===== *)
theory Session_Witnesses
  imports Session_Properties Samples
begin

text \<open>
  The witnesses of the session properties: one account logs in, two requests present its refresh
  token, the first exchanges it and the second is a replay.
\<close>

definition s_ctx :: refresh_token_context where
  "s_ctx = \<lparr>rc_user_agent = None, rc_ip_address = None\<rparr>"

definition s_fresh :: "string \<Rightarrow> fresh_token" where
  "s_fresh i = \<lparr>f_token = ''t'' @ i, f_row_id = i\<rparr>"

definition s_row :: "string \<Rightarrow> time \<Rightarrow> time option \<Rightarrow> time option \<Rightarrow> refresh_row" where
  "s_row i created consumed revoked =
     \<lparr>rt_id = i, rt_created_at = created, rt_user_id = ''u'', rt_token_hash = ''ht'' @ i,
      rt_family_id = ''f'', rt_expires_at = created + 86400000, rt_consumed_at = consumed,
      rt_revoked_at = revoked, rt_user_agent = None, rt_ip_address = None\<rparr>"

definition s_clock :: clock where
  "s_clock i = 10 + int i"

definition s_world :: "refresh_row list \<Rightarrow> world" where
  "s_world rows = sample_world\<lparr>refresh_tokens := rows\<rparr>"

definition s_live :: refresh_row where "s_live = s_row ''a'' 0 None None"

definition s_winner :: issued_refresh_token where
  "s_winner = \<lparr>it_token = ''tb'', it_expires_at = 86400013, it_issued_at = 13\<rparr>"

definition s_threads :: "phase \<Rightarrow> phase \<Rightarrow> nat \<Rightarrow> phase" where
  "s_threads p q = ((\<lambda>_. Idle)(0 := p))(1 := q)"

lemmas s_defs = sample_defs s_ctx_def s_fresh_def s_row_def s_clock_def s_world_def s_live_def
  s_winner_def

definition s0 :: session_sys where
  "s0 = \<lparr>ss_world = sample_world, ss_threads = (\<lambda>_. Idle), ss_used = {}\<rparr>"

definition s1 :: session_sys where
  "s1 = \<lparr>ss_world = s_world [s_live], ss_threads = (\<lambda>_. Idle), ss_used = {''f'', ''a''}\<rparr>"

definition s2 :: session_sys where
  "s2 = s1\<lparr>ss_threads := (\<lambda>_. Idle)(0 := InFlight s_live)\<rparr>"

definition s3 :: session_sys where
  "s3 = s1\<lparr>ss_threads := ((\<lambda>_. Idle)(0 := InFlight s_live))(1 := InFlight s_live)\<rparr>"

definition s4 :: session_sys where
  "s4 = \<lparr>ss_world = s_world [s_row ''a'' 0 (Some 12) None, s_row ''b'' 13 None None],
         ss_threads = ((\<lambda>_. Idle)(0 := Exchanged ''a'' s_winner))(1 := InFlight s_live),
         ss_used = {''b'', ''f'', ''a''}\<rparr>"

definition s5 :: session_sys where
  "s5 = s4\<lparr>ss_threads := ((\<lambda>_. Idle)(0 := Exchanged ''a'' s_winner))(1 := Replaying ''u'' ''f''),
           ss_used := {''c'', ''b'', ''f'', ''a''}\<rparr>"

lemma login_eq:
  "issueForNewSession sample_ext 1 ''u'' None s_ctx ''f'' (s_fresh ''a'') 0 sample_world =
     Inr (\<lparr>it_token = ''ta'', it_expires_at = 86400000, it_issued_at = 0\<rparr>, s_world [s_live])"
  by (simp add: issueForNewSession_def loadEligibleSessionOwner_def persist_def Let_def s_defs)

lemma read_eq: "readStep sample_ext ''ta'' 10 (s_world [s_live]) = InFlight s_live"
  by (simp add: readStep_def findByToken_def s_defs)

lemma win_eq:
  "transactionStep sample_ext 1 s_live s_ctx (s_fresh ''b'') s_clock (s_world [s_live]) =
     (Exchanged ''a'' s_winner, ss_world s4)"
  by (simp add: transactionStep_def rotateTransaction_def loadEligibleSessionOwner_def
      persist_def [unfolded Let_def] count_where_def consumable_def s4_def s_defs)

lemma lose_eq:
  "transactionStep sample_ext 1 s_live s_ctx (s_fresh ''c'') s_clock (ss_world s4) =
     (Replaying ''u'' ''f'', ss_world s4)"
  by (simp add: transactionStep_def rotateTransaction_def loadEligibleSessionOwner_def
      persist_def [unfolded Let_def] count_where_def consumable_def s4_def s_defs)

lemma reach1: "reachable session_init (session_step sample_ext 1) s1"
proof -
  have "reachable session_init (session_step sample_ext 1) s0"
    by (rule reachable.start) (simp add: session_init_def s0_def s_defs)
  moreover have "session_step sample_ext 1 s0 s1"
    using session_step.login [of sample_ext 1 "''u''" None s_ctx "''f''" "s_fresh ''a''" 0 s0]
      login_eq by (simp add: s0_def s1_def s_fresh_def)
  ultimately show ?thesis by (rule reachable.next_step)
qed

lemma reach3: "reachable session_init (session_step sample_ext 1) s3"
proof -
  have "session_step sample_ext 1 s1 s2"
    using session_step.present [of s1 0 sample_ext 1 "''ta''" 10] read_eq
    by (simp add: s1_def s2_def)
  moreover have "session_step sample_ext 1 s2 s3"
    using session_step.present [of s2 1 sample_ext 1 "''ta''" 10] read_eq
    by (simp add: s1_def s2_def s3_def)
  ultimately show ?thesis using reach1 by (blast intro: reachable.next_step)
qed

lemma reach4: "reachable session_init (session_step sample_ext 1) s4"
proof -
  have "session_step sample_ext 1 s3 s4"
    using session_step.transact [of s3 0 s_live "s_fresh ''b''" sample_ext 1 s_ctx s_clock] win_eq
    by (simp add: s1_def s3_def s4_def s_fresh_def fun_upd_twist)
  then show ?thesis using reach3 by (blast intro: reachable.next_step)
qed

lemma reach5: "reachable session_init (session_step sample_ext 1) s5"
proof -
  have "session_step sample_ext 1 s4 s5"
    using session_step.transact [of s4 1 s_live "s_fresh ''c''" sample_ext 1 s_ctx s_clock] lose_eq
    by (simp add: s4_def s5_def s_fresh_def)
  then show ?thesis using reach4 by (blast intro: reachable.next_step)
qed

lemma token_exchanged_once_witness:
  "ss_threads s4 0 = Exchanged ''a'' s_winner \<and> (0::nat) = 0"
proof
  show e: "ss_threads s4 0 = Exchanged ''a'' s_winner" by (simp add: s4_def)
  show "(0::nat) = 0" by (rule token_exchanged_once [OF reach4 e e])
qed

lemma one_live_token_per_family_witness:
  "live_row (s_row ''b'' 13 None None) \<and> s_row ''b'' 13 None None = s_row ''b'' 13 None None"
proof
  let ?r = "s_row ''b'' 13 None None"
  have m: "?r \<in> set (refresh_tokens (ss_world s4))" by (simp add: s4_def s_world_def)
  show l: "live_row ?r" by (simp add: live_row_def s_row_def)
  show "?r = ?r" by (rule one_live_token_per_family [OF reach4 m m l l refl])
qed

lemma losing_exchange_refused_witness:
  "Replaying ''u'' ''f'' \<in> {Replaying (rt_user_id s_live) (rt_family_id s_live),
     ClosingAll (rt_user_id s_live), Refused refreshTokenInvalid}"
proof -
  have "ss_threads s4 0 = Exchanged (rt_id s_live) s_winner" "ss_threads s4 1 = InFlight s_live"
    by (simp_all add: s4_def s_live_def s_row_def)
  from losing_exchange_refused [OF reach4 this lose_eq] show ?thesis by blast
qed

text \<open>The replay's \<open>catch\<close> revokes both tokens of the family.\<close>

definition s_closed :: world where
  "s_closed = snd (catchStep s_ctx s_clock (Replaying ''u'' ''f'') (ss_world s5))"

lemma replayed_family_stays_closed_witness:
  "filter (\<lambda>r. rt_family_id r = ''f'' \<and> live_row r) (refresh_tokens s_closed) = []"
proof -
  have th: "ss_threads s5 1 = Replaying ''u'' ''f''" by (simp add: s5_def)
  have c: "catchStep s_ctx s_clock (ss_threads s5 1) (ss_world s5) =
      (Refused refreshTokenInvalid, s_closed)"
    unfolding th by (simp add: s_closed_def handleReplay_def)
  from replayed_family_stays_closed [OF reach5 th c rtranclp.rtrancl_refl] show ?thesis
    by (simp add: filter_empty_conv)
qed

section \<open>The sequential calls\<close>

lemma rotate_eq:
  "rotate sample_ext 1 ''ta'' s_ctx (s_fresh ''b'') s_clock (s_world [s_live]) =
     (Inr (sample_user ''u'', s_winner), ss_world s4)"
  by (simp add: rotate_def findByToken_def rotateTransaction_def loadEligibleSessionOwner_def
      persist_def [unfolded Let_def] count_where_def consumable_def s4_def s_defs)

lemma s_keys: "keys_ok (s_world [s_live])"
  by (simp add: keys_ok_def s_defs)

lemma rotate_succeeds_iff_witness:
  "exchangeable sample_ext ''ta'' 11 (s_world [s_live])"
proof -
  have m: "monotone_clock s_clock" by (simp add: monotone_clock_def s_clock_def)
  have f: "\<forall>r \<in> set (refresh_tokens (s_world [s_live])). rt_id r \<noteq> f_row_id (s_fresh ''b'') \<and>
      rt_token_hash r \<noteq> sha256_hex sample_ext (f_token (s_fresh ''b''))"
    by (simp add: s_defs)
  from rotate_succeeds_iff [OF s_keys m f, of 1 "''ta''" s_ctx] rotate_eq show ?thesis
    by (simp add: s_clock_def)
qed

lemma replay_kills_replacement_witness:
  "fst (rotate sample_ext 1 ''ta'' s_ctx (s_fresh ''c'') s_clock (ss_world s4)) =
     Inl refreshTokenInvalid"
  using replay_kills_replacement [OF s_keys rotate_eq, of s_ctx "s_fresh ''c''" s_clock]
  by (metis prod.collapse)

lemma rotate_error_uniform_witness:
  "refreshTokenInvalid \<in>
     {refreshTokenInvalid, PrismaKnownRequestError ''P2002'', PrismaKnownRequestError ''P2025''}"
proof -
  have "rotate sample_ext 1 ''x'' s_ctx (s_fresh ''b'') s_clock (s_world []) =
      (Inl refreshTokenInvalid, s_world [])"
    by (simp add: rotate_def findByToken_def s_defs)
  from rotate_error_uniform [OF this] show ?thesis .
qed

end
