(* ===== verification/Access.thy ===== *)
theory Access
  imports Session_Machine
begin

text \<open>
  \<open>src/src/modules/auth/strategies/jwt.strategy.ts\<close>, \<open>src/src/common/util/access-token.util.ts\<close> and
  the sign-in half of \<open>src/src/modules/auth/auth.service.ts\<close>: what makes an access token acceptable,
  the password check, and the two logouts.  The signature, issuer, audience and expiry of a token are
  checked by the JWT library before \<open>validate\<close> runs; a theorem that depends on the expiry says so.
\<close>

section \<open>Access tokens\<close>

record authenticated_user =
  au_id :: ident
  au_email :: string
  au_jti :: "string option"
  au_exp :: "int option"

definition isAccessTokenPayload :: "jwt_payload \<Rightarrow> bool" where
  "isAccessTokenPayload payload \<longleftrightarrow> jp_purpose payload = None"

definition findByIdOrNull :: "ident \<Rightarrow> world \<Rightarrow> user_row option" where
  "findByIdOrNull i w = find_live_user w i"

definition LOGOUT_KEY_PREFIX :: string where
  "LOGOUT_KEY_PREFIX = ''logout:jti:''"

text \<open>A claim or an argument the code tests for truth: absent and empty are both false.\<close>

definition truthy :: "string option \<Rightarrow> bool" where
  "truthy s \<longleftrightarrow> s \<noteq> None \<and> s \<noteq> Some []"

text \<open>The blocklist lookup: an unreachable Redis lets the token through.\<close>

definition blocklisted :: "jwt_payload \<Rightarrow> time \<Rightarrow> world \<Rightarrow> bool" where
  "blocklisted payload now w \<longleftrightarrow>
     truthy (jp_jti payload) \<and>
     (case redis_exists w now (LOGOUT_KEY_PREFIX @ the (jp_jti payload)) of
        Inl _ \<Rightarrow> False
      | Inr revoked \<Rightarrow> revoked)"

definition validate :: "jwt_payload \<Rightarrow> time \<Rightarrow> world \<Rightarrow> exn + authenticated_user" where
  "validate payload now w =
     (if \<not> isAccessTokenPayload payload then Inl tokenInvalid
      else
        (case findByIdOrNull (jp_sub payload) w of
           None \<Rightarrow> Inl userInactive
         | Some user \<Rightarrow>
             (if \<not> u_is_active user then Inl userInactive
              else if (case (u_password_changed_at user, jp_iat payload) of
                         (Some changedAt, Some iat) \<Rightarrow> iat < changedAt div 1000
                       | _ \<Rightarrow> False)
              then Inl sessionInvalidated
              else if blocklisted payload now w then Inl tokenRevoked
              else Inr \<lparr>au_id = u_id user, au_email = u_email user, au_jti = jp_jti payload,
                        au_exp = jp_exp payload\<rparr>)))"

section \<open>The password check\<close>

definition findByEmail :: "string \<Rightarrow> world \<Rightarrow> user_row option" where
  "findByEmail email w = find (\<lambda>u. u_email u = to_lower_case email) (live_users w)"

definition findByEmailOrUsername :: "string \<Rightarrow> world \<Rightarrow> user_row option" where
  "findByEmailOrUsername identifier w =
     (let normalized = to_lower_case identifier
      in find (\<lambda>u. u_email u = normalized \<or> u_username u = Some normalized) (live_users w))"

definition hashPassword :: "ext \<Rightarrow> string \<Rightarrow> string" where
  "hashPassword ext plaintext = bcrypt_hash ext plaintext"

definition dummyHash :: "ext \<Rightarrow> string" where
  "dummyHash ext = hashPassword ext ''dummy-password-for-timing''"

definition verifyCredentials :: "ext \<Rightarrow> string \<Rightarrow> string \<Rightarrow> world \<Rightarrow> exn + user_row" where
  "verifyCredentials ext identifier password w =
     (let user = findByEmailOrUsername identifier w;
          passwordMatches = bcrypt_compare ext password
            (case user of None \<Rightarrow> dummyHash ext | Some u \<Rightarrow> u_password u)
      in case user of
           None \<Rightarrow> Inl invalidCredentials
         | Some u \<Rightarrow>
             (if \<not> u_is_active u \<or> \<not> passwordMatches then Inl invalidCredentials
              else if u_email_verified_at u = None then Inl emailNotVerified
              else Inr u))"

section \<open>Sign-in, refresh and logout\<close>

definition login ::
  "ext \<Rightarrow> int \<Rightarrow> string \<Rightarrow> string \<Rightarrow> refresh_token_context \<Rightarrow> ident \<Rightarrow> fresh_token \<Rightarrow> string
   \<Rightarrow> time \<Rightarrow> nat \<Rightarrow> world \<Rightarrow> exn + (session_tokens \<times> user_row) \<times> world" where
  "login ext lifetimeDays identifier password context familyId fresh jwtid now later w =
     bindE (verifyCredentials ext identifier password w) (\<lambda>user.
     bindE (startSession ext lifetimeDays (u_id user) (u_password_changed_at user) context familyId
              fresh jwtid now later w) (\<lambda>(tokens, w').
     Inr ((tokens, user), w')))"

definition refresh ::
  "ext \<Rightarrow> int \<Rightarrow> string \<Rightarrow> refresh_token_context \<Rightarrow> fresh_token \<Rightarrow> string \<Rightarrow> clock \<Rightarrow> world
   \<Rightarrow> (exn + session_tokens \<times> user_row) \<times> world" where
  "refresh ext lifetimeDays presentedToken context fresh jwtid clk w =
     (case refreshSession ext lifetimeDays presentedToken context fresh jwtid clk w of
        (outcome, w') \<Rightarrow> (map_sum id (\<lambda>(user, tokens). (tokens, user)) outcome, w'))"

text \<open>
  \<open>logout\<close>: an unreachable Redis makes the \<open>SET\<close> throw, after the refresh chain has been revoked,
  so the world is returned either way.  Clock readings: the revocation, the remaining lifetime, and
  Redis's own clock.
\<close>

definition logout ::
  "ext \<Rightarrow> authenticated_user \<Rightarrow> string option \<Rightarrow> clock \<Rightarrow> world \<Rightarrow> (exn + unit) \<times> world" where
  "logout ext currentUser presentedRefreshToken clk w =
     (let w1 = (if truthy presentedRefreshToken
                then revokeByToken ext (the presentedRefreshToken) (clk 0) w else w);
          uid = au_id currentUser
      in if \<not> truthy (au_jti currentUser) \<or> au_exp currentUser = None \<or> au_exp currentUser = Some 0
         then (Inr (), audit_record (audit ''auth.logout.no_jti'' (Some uid) (Some uid) JNull) w1)
         else
           (let jti = the (au_jti currentUser);
                ttlSeconds = max 1 (the (au_exp currentUser) - clk 1 div 1000)
            in if \<not> redis_up w1 then (Inl (JsError ''redis unavailable''), w1)
               else (Inr (),
                     audit_record
                       (audit ''auth.logout'' (Some uid) (Some uid) (JObj [(''jti'', JStr jti)]))
                       (redis_set_ex (LOGOUT_KEY_PREFIX @ jti) ''1'' ttlSeconds (clk 2) w1))))"

definition logoutAll :: "ident \<Rightarrow> clock \<Rightarrow> world \<Rightarrow> exn + world" where
  "logoutAll userId clk w =
     bindE (endAllSessions userId (Some userId) id clk w) (\<lambda>(_, w').
     Inr (audit_record (audit ''auth.logout_all'' (Some userId) (Some userId) JNull) w'))"

section \<open>The cutoff\<close>

lemma nextWholeSecond_round:
  obtains q where "nextWholeSecond t = q * 1000" "t \<le> q * 1000" "q * 1000 < t + 1000"
proof
  let ?q = "- ((- t) div 1000)"
  have "(- t) div 1000 * 1000 + (- t) mod 1000 = - t" by (rule div_mult_mod_eq)
  moreover have "0 \<le> (- t) mod 1000" "(- t) mod 1000 < 1000" by simp_all
  ultimately show "t \<le> ?q * 1000" "?q * 1000 < t + 1000" by linarith+
  show "nextWholeSecond t = ?q * 1000" by (simp add: nextWholeSecond_def)
qed

text \<open>A cutoff written at \<open>t\<close> is after the second \<open>i\<close> exactly when that second began before \<open>t\<close>.\<close>

lemma below_cutoff: "i < nextWholeSecond t div 1000 \<longleftrightarrow> i * 1000 < t"
proof -
  obtain q where q: "nextWholeSecond t = q * 1000" "t \<le> q * 1000" "q * 1000 < t + 1000"
    by (rule nextWholeSecond_round)
  then have "nextWholeSecond t div 1000 = q" by simp
  with q show ?thesis by linarith
qed

lemma div_1000_bounds: "t div 1000 * 1000 \<le> t" "t < t div 1000 * 1000 + 1000" for t :: int
proof -
  have "t div 1000 * 1000 + t mod 1000 = t" by (rule div_mult_mod_eq)
  moreover have "0 \<le> t mod 1000" "t mod 1000 < 1000" by simp_all
  ultimately show "t div 1000 * 1000 \<le> t" "t < t div 1000 * 1000 + 1000" by linarith+
qed

lemma endAllSessions_Inr:
  assumes "endAllSessions uid actor f clk w = Inr (u', w')"
  obtains u where "find_user w uid = Some u"
    "u' = (f u)\<lparr>u_password_changed_at := Some (nextWholeSecond (clk 0)), u_updated_by := actor\<rparr>"
    "users w' = update_where (\<lambda>u. u_id u = uid) (\<lambda>_. u') (users w)"
    "redis w' = redis w" "redis_up w' = redis_up w"
  using assms
  by (auto simp: endAllSessions_def endAllSessionsInTransaction_def Let_def
      split: option.splits if_splits)

lemma find_update_key:
  assumes "find (\<lambda>r. k r = i) rows = Some r" and "k r' = i"
  shows "find (\<lambda>r. k r = i) (update_where (\<lambda>r. k r = i) (\<lambda>_. r') rows) = Some r'"
  using assms by (induction rows) auto

lemma find_update_key_where:
  assumes "find (\<lambda>r. k r = i) rows = Some r" and "k r' = i" and "P r'"
  shows "find (\<lambda>r. k r = i \<and> P r) (update_where (\<lambda>r. k r = i) (\<lambda>_. r') rows) = Some r'"
  using assms by (induction rows) (auto split: if_splits)

lemma endAllSessions_find:
  assumes "endAllSessions uid actor f clk w = Inr (u', w')" and "\<And>u. u_id (f u) = u_id u"
  shows "find_user w' uid = Some u'" and "u_id u' = uid"
proof -
  obtain u where u: "find_user w uid = Some u"
    "u' = (f u)\<lparr>u_password_changed_at := Some (nextWholeSecond (clk 0)), u_updated_by := actor\<rparr>"
    "users w' = update_where (\<lambda>u. u_id u = uid) (\<lambda>_. u') (users w)"
    by (rule endAllSessions_Inr [OF assms(1)])
  show "u_id u' = uid" using u(1,2) assms(2) by (auto dest: find_user_Some)
  then show "find_user w' uid = Some u'"
    using u(1) find_update_key [of u_id uid "users w" u u'] by (simp add: find_user_def u(3))
qed

text \<open>With distinct ids, the live row of an id is its row, when that row is not deleted.\<close>

lemma find_live_user_iff:
  assumes "distinct (map u_id (users w))"
  shows "find_live_user w i = Some u \<longleftrightarrow> find_user w i = Some u \<and> u_deleted_at u = None"
proof
  assume "find_live_user w i = Some u"
  then have u: "u \<in> set (users w)" "u_id u = i" "u_deleted_at u = None"
    by (auto dest: find_live_user_Some)
  then show "find_user w i = Some u \<and> u_deleted_at u = None"
    using find_key [OF assms u(1)] by (simp add: find_user_def)
next
  assume u: "find_user w i = Some u \<and> u_deleted_at u = None"
  show "find_live_user w i = Some u"
  proof (cases "find_live_user w i")
    case None
    with u show ?thesis
      by (auto simp: find_live_user_def live_users_def find_filter find_None_iff dest: find_user_Some)
  next
    case (Some v)
    then have "v \<in> set (users w)" "u_id v = u_id u" using u
      by (auto dest: find_live_user_Some find_user_Some)
    with u Some show ?thesis
      using distinct_key [OF assms, of v u] by (auto dest: find_user_Some)
  qed
qed

lemma find_live_user_update_other:
  "i \<noteq> uid \<Longrightarrow> u_id u' = uid \<Longrightarrow>
   find (\<lambda>u. u_id u = i \<and> u_deleted_at u = None)
     (update_where (\<lambda>u. u_id u = uid) (\<lambda>_. u') rows) =
   find (\<lambda>u. u_id u = i \<and> u_deleted_at u = None) rows"
  by (induction rows) auto

section \<open>What the session cutoff guarantees\<close>

lemma validate_Inr_iff:
  "validate payload now w = Inr a \<longleftrightarrow>
     jp_purpose payload = None \<and>
     (\<exists>u. find_live_user w (jp_sub payload) = Some u \<and> u_is_active u \<and>
        (\<forall>c i. u_password_changed_at u = Some c \<longrightarrow> jp_iat payload = Some i \<longrightarrow> c div 1000 \<le> i) \<and>
        \<not> blocklisted payload now w \<and>
        a = \<lparr>au_id = u_id u, au_email = u_email u, au_jti = jp_jti payload,
             au_exp = jp_exp payload\<rparr>)"
  by (auto simp: validate_def isAccessTokenPayload_def findByIdOrNull_def
      split: option.splits if_splits)

lemma revocation_core:
  assumes "distinct (map u_id (users w))"
    and "endAllSessions uid actor id clk w = Inr (u', w')"
    and "jp_sub payload = uid" and "jp_iat payload = Some iat" and "jp_purpose payload = None"
  shows "(\<exists>a. validate payload now w' = Inr a) \<longleftrightarrow>
      u_is_active u' \<and> u_deleted_at u' = None \<and> clk 0 \<le> iat * 1000 \<and>
      \<not> blocklisted payload now w'"
proof -
  obtain u where u': "u' = u\<lparr>u_password_changed_at := Some (nextWholeSecond (clk 0)),
      u_updated_by := actor\<rparr>"
    and w': "users w' = update_where (\<lambda>u. u_id u = uid) (\<lambda>_. u') (users w)"
    by (rule endAllSessions_Inr [OF assms(2)]) simp
  have id': "u_id u' = uid" and find: "find_user w' uid = Some u'"
    using endAllSessions_find [OF assms(2)] by simp_all
  have "map u_id (users w') = map u_id (users w)"
    unfolding w' update_where_def using id' by (induction "users w") simp_all
  then have dist: "distinct (map u_id (users w'))" using assms(1) by (simp only:)
  have cut: "nextWholeSecond (clk 0) div 1000 \<le> iat \<longleftrightarrow> clk 0 \<le> iat * 1000"
    using below_cutoff [of iat "clk 0"] by linarith
  have changed: "u_password_changed_at u' = Some (nextWholeSecond (clk 0))"
    unfolding u' by simp
  show ?thesis
    unfolding validate_Inr_iff find_live_user_iff [OF dist] assms(3) find
    using changed cut assms(4,5) by (auto simp del: not_None_eq)
qed

text \<open>C13: after every session of an account was ended at instant \<open>clk 0\<close>, all its refresh rows are
  revoked, and an access token of the account is still accepted only if the second of its \<open>iat\<close> began
  at or after that instant (and the account is usable and the token not logged out).\<close>

theorem revocation_cuts_off_tokens:
  assumes "distinct (map u_id (users w))"
    and "endAllSessions uid actor id clk w = Inr (u', w')"
    and "jp_sub payload = uid" and "jp_iat payload = Some iat" and "jp_purpose payload = None"
  shows "(\<forall>r \<in> set (refresh_tokens w'). rt_user_id r = uid \<longrightarrow> rt_revoked_at r \<noteq> None) \<and>
    ((\<exists>a. validate payload now w' = Inr a) \<longleftrightarrow>
      u_is_active u' \<and> u_deleted_at u' = None \<and> clk 0 \<le> iat * 1000 \<and>
      \<not> blocklisted payload now w')"
  using revocation_core [OF assms] endAllSessions_rows(3) [OF assms(2)] by blast

text \<open>The cutoff has a one-millisecond hole.  A token issued in the very millisecond of the
  revocation, when that millisecond is a whole second, is still accepted afterwards; a token issued
  at any earlier instant is not.\<close>

theorem whole_second_token_survives:
  assumes "distinct (map u_id (users w))"
    and "endAllSessions uid actor id clk w = Inr (u', w')"
    and "u_is_active u'" and "u_deleted_at u' = None"
    and "it_issued_at tok \<le> clk 0"
  shows "(\<exists>a. validate (accessTokenPayload uid tok) now w' = Inr a) \<longleftrightarrow>
    it_issued_at tok = clk 0 \<and> clk 0 mod 1000 = 0"
proof -
  let ?p = "accessTokenPayload uid tok" and ?i = "it_issued_at tok"
  have p: "jp_sub ?p = uid" "jp_iat ?p = Some (?i div 1000)" "jp_purpose ?p = None"
    "\<not> blocklisted ?p now w'"
    by (simp_all add: accessTokenPayload_def blocklisted_def truthy_def)
  have "(\<exists>a. validate ?p now w' = Inr a) \<longleftrightarrow> clk 0 \<le> ?i div 1000 * 1000"
    using revocation_core [OF assms(1,2) p(1-3)] assms(3,4) p(4) by simp
  also have "\<dots> \<longleftrightarrow> ?i = clk 0 \<and> clk 0 mod 1000 = 0"
  proof
    assume "clk 0 \<le> ?i div 1000 * 1000"
    then have "clk 0 = ?i div 1000 * 1000" "?i = clk 0"
      using div_1000_bounds [of ?i] assms(5) by linarith+
    then show "?i = clk 0 \<and> clk 0 mod 1000 = 0" by (metis mod_mult_self2_is_0)
  next
    assume "?i = clk 0 \<and> clk 0 mod 1000 = 0"
    then show "clk 0 \<le> ?i div 1000 * 1000"
      using div_mult_mod_eq [of "clk 0" 1000] by simp
  qed
  finally show ?thesis .
qed

text \<open>A session started under a cutoff (a login, or the new session a password change returns)
  carries an access token that the same cutoff does not reject.\<close>

theorem new_session_passes_cutoff:
  assumes "distinct (map u_id (users w))"
    and "issueForNewSession ext days uid cutoff ctx fam fresh
           (now + waitForSessionCutoff cutoff now + int later) w = Inr (tok, w')"
    and "\<not> blocklisted (accessTokenPayload uid tok) t w'"
  shows "\<exists>a. validate (accessTokenPayload uid tok) t w' = Inr a \<and> au_id a = uid"
proof -
  let ?at = "now + waitForSessionCutoff cutoff now + int later"
  obtain owner where owner: "loadEligibleSessionOwner uid w = Some owner"
    and cut: "u_password_changed_at owner = cutoff"
    and p: "persist ext days uid fam ctx fresh ?at w = Inr (tok, w')"
    using assms(2) by (auto simp: issueForNewSession_def split: option.splits if_splits)
  have users: "users w' = users w" and at: "it_issued_at tok = ?at"
    by (rule persist_Inr [OF p], simp)+
  have live: "find_live_user w' uid = Some owner" "u_is_active owner"
    using owner unfolding find_live_user_def live_users_def find_filter users
    by (auto simp: loadEligibleSessionOwner_def conj_commute split: option.splits if_splits)
  have "c div 1000 \<le> it_issued_at tok div 1000" if "cutoff = Some c" for c
    unfolding at using that
    by (intro zdiv_mono1) (simp_all add: waitForSessionCutoff_def Let_def)
  then show ?thesis
    using live cut assms(3) find_live_user_Some [OF live(1)]
    by (auto simp: validate_Inr_iff accessTokenPayload_def)
qed

text \<open>A login whose password check read the account before a revocation gets no session after it,
  provided the revocation wrote a cutoff different from the one read.\<close>

theorem revocation_refuses_stale_login:
  assumes "endAllSessions uid actor id clk w = Inr (u', w')"
    and "cutoff \<noteq> Some (nextWholeSecond (clk 0))"
  shows "issueForNewSession ext days uid cutoff ctx fam fresh now w' = Inl invalidCredentials"
proof -
  obtain u where u': "u' = u\<lparr>u_password_changed_at := Some (nextWholeSecond (clk 0)),
      u_updated_by := actor\<rparr>"
    and w': "users w' = update_where (\<lambda>u. u_id u = uid) (\<lambda>_. u') (users w)"
    by (rule endAllSessions_Inr [OF assms(1)]) simp
  have "owner = u'" if "loadEligibleSessionOwner uid w' = Some owner" for owner
  proof -
    have "owner \<in> set (users w')" "u_id owner = uid"
      using that by (auto simp: loadEligibleSessionOwner_def split: option.splits if_splits
          dest: find_SomeD)
    then show ?thesis unfolding w' set_update_where by auto
  qed
  then show ?thesis
    using assms(2) by (auto simp: issueForNewSession_def u' split: option.splits)
qed

lemma redis_get_set_ex:
  "redis_up w \<Longrightarrow> t < at + secs * 1000 \<Longrightarrow> redis_get (redis_set_ex k v secs at w) t k = Inr (Some v)"
  by (simp add: redis_get_def redis_set_ex_def)

text \<open>A logout that answers has ended the presented refresh chain and blocklisted the access token
  for the whole rest of its life: while Redis answers and the key is untouched, no later request with
  that token is accepted before the token expires.\<close>

theorem logout_outlives_token:
  assumes "logout ext cu presented clk w = (Inr (), w')" and "monotone_clock clk"
    and "au_jti cu = Some jti" and "jti \<noteq> []" and "au_exp cu = Some exp" and "exp \<noteq> 0"
    and "redis v (LOGOUT_KEY_PREFIX @ jti) = redis w' (LOGOUT_KEY_PREFIX @ jti)" and "redis_up v"
    and "jp_jti payload = Some jti" and "t div 1000 < exp"
  shows "(\<exists>e. validate payload t v = Inl e) \<and>
    (\<forall>tok. presented = Some tok \<longrightarrow> tok \<noteq> [] \<longrightarrow>
       (\<forall>r. findByToken ext tok w = Some r \<longrightarrow>
          (\<forall>r' \<in> set (refresh_tokens w'). rt_family_id r' = rt_family_id r \<longrightarrow> \<not> live_row r')))"
proof
  let ?k = "LOGOUT_KEY_PREFIX @ jti" and ?ttl = "max 1 (exp - clk 1 div 1000)"
  let ?w1 = "if truthy presented then revokeByToken ext (the presented) (clk 0) w else w"
  have w': "w' = audit_record (audit ''auth.logout'' (Some (au_id cu)) (Some (au_id cu))
      (JObj [(''jti'', JStr jti)])) (redis_set_ex ?k ''1'' ?ttl (clk 2) ?w1)"
    using assms(1,3-6) by (auto simp: logout_def Let_def truthy_def split: if_splits)
  have "clk 1 \<le> clk 2" using assms(2) by (rule monotone_clock_le) simp
  moreover have "exp - clk 1 div 1000 \<le> ?ttl" by (rule max.cobounded2)
  ultimately have "t < clk 2 + ?ttl * 1000"
    using div_1000_bounds [of t] div_1000_bounds [of "clk 1"] assms(10) by linarith
  moreover have "redis v ?k = Some (''1'', Some (clk 2 + ?ttl * 1000))"
    unfolding assms(7) w' by (simp add: redis_set_ex_def)
  ultimately have "blocklisted payload t v"
    using assms(4,8,9) by (simp add: blocklisted_def truthy_def redis_exists_def redis_get_def)
  then have "validate payload t v \<noteq> Inr a" for a by (simp add: validate_Inr_iff)
  then show "\<exists>e. validate payload t v = Inl e" by (cases "validate payload t v") auto
  show "\<forall>tok. presented = Some tok \<longrightarrow> tok \<noteq> [] \<longrightarrow>
       (\<forall>r. findByToken ext tok w = Some r \<longrightarrow>
          (\<forall>r' \<in> set (refresh_tokens w'). rt_family_id r' = rt_family_id r \<longrightarrow> \<not> live_row r'))"
    unfolding w' using revokeFamily_closes
    by (fastforce simp: truthy_def revokeByToken_def findByToken_def live_row_def)
qed

text \<open>The password check admits exactly the holder of the password of a live, active, verified
  account; \<open>EMAIL_NOT_VERIFIED\<close> is told to the password holder only, and every other failure is the
  same \<open>INVALID_CREDENTIALS\<close>.\<close>

theorem credentials_answers:
  "case verifyCredentials ext identifier password w of
     Inr u \<Rightarrow> findByEmailOrUsername identifier w = Some u \<and> u_deleted_at u = None \<and>
       u_is_active u \<and> u_email_verified_at u \<noteq> None \<and> bcrypt_compare ext password (u_password u)
   | Inl e \<Rightarrow> e = invalidCredentials \<or>
       e = emailNotVerified \<and>
       (\<exists>u. findByEmailOrUsername identifier w = Some u \<and> u_is_active u \<and>
          u_email_verified_at u = None \<and> bcrypt_compare ext password (u_password u))"
  by (auto simp: verifyCredentials_def findByEmailOrUsername_def Let_def live_users_def find_filter
      split: option.splits sum.splits dest: find_SomeD)

text \<open>The converse of \<open>revocation_refuses_stale_login\<close> fails within one second.  Two revocations in
  the same second write the same cutoff, so a login that read the first one is given a session after
  the second.\<close>

theorem same_second_login_survives:
  assumes "endAllSessions uid actor id clk w = Inr (u1, w1)"
    and "endAllSessions uid actor' f clk' w1 = Inr (u2, w2)"
    and "nextWholeSecond (clk 0) = nextWholeSecond (clk' 0)"
    and "\<forall>u. u_id (f u) = u_id u" and "u_is_active u2" and "u_deleted_at u2 = None"
    and "\<forall>r \<in> set (refresh_tokens w2).
      rt_id r \<noteq> f_row_id fresh \<and> rt_token_hash r \<noteq> sha256_hex ext (f_token fresh)"
  shows "\<exists>tok w3. issueForNewSession ext days uid (u_password_changed_at u1) ctx fam fresh now w2 =
    Inr (tok, w3)"
proof -
  have c1: "u_password_changed_at u1 = Some (nextWholeSecond (clk 0))"
    by (rule endAllSessions_Inr [OF assms(1)]) simp
  obtain u where u2: "u2 = (f u)\<lparr>u_password_changed_at := Some (nextWholeSecond (clk' 0)),
      u_updated_by := actor'\<rparr>"
    and users: "users w2 = update_where (\<lambda>u. u_id u = uid) (\<lambda>_. u2) (users w1)"
    by (rule endAllSessions_Inr [OF assms(2)]) simp
  have "u_id u2 = uid" using endAllSessions_find(2) [OF assms(2)] assms(4) by blast
  moreover obtain x where "find_user w1 uid = Some x" by (rule endAllSessions_Inr [OF assms(2)])
  ultimately have "find (\<lambda>u. u_id u = uid \<and> u_deleted_at u = None) (users w2) = Some u2"
    using find_update_key_where [of u_id uid "users w1" x u2 "\<lambda>u. u_deleted_at u = None"] assms(6)
    by (simp add: users find_user_def)
  then have "loadEligibleSessionOwner uid w2 = Some u2"
    using assms(5) by (simp add: loadEligibleSessionOwner_def)
  moreover have "u_password_changed_at u2 = u_password_changed_at u1"
    unfolding c1 u2 using assms(3) by simp
  ultimately show ?thesis
    using assms(7) by (auto simp: issueForNewSession_def persist_def Let_def)
qed

end
