(* ===== verification/Ability.thy ===== *)
theory Ability
  imports World
begin

text \<open>
  \<open>src/src/modules/authorization/ability.factory.ts\<close>, \<open>ability-scoped-query.service.ts\<close>,
  \<open>permission-check.service.ts\<close> and \<open>guards/permissions.guard.ts\<close>: grants compiled into rules, rules
  turned into query filters, and the guard's decision.  The rule engine (CASL) is third-party code: a
  record of functions, whose documented behaviour on rules that only grant is \<open>casl_laws\<close>.
\<close>

section \<open>Rules and the rule engine\<close>

text \<open>One condition \<open>{column: value}\<close>; \<open>None\<close> is an unconditional rule.\<close>

record rule =
  ru_action :: action
  ru_subject :: subject
  ru_conditions :: "(string \<times> string) option"
  ru_inverted :: bool

type_synonym ability = "rule list"

text \<open>A record the ability is asked about: its columns, absent ones \<open>None\<close>.\<close>

type_synonym row = "string \<rightharpoonup> string"

datatype fragment = Unrestricted | AnyOf "(string \<times> string) list"

record casl =
  can_type :: "ability \<Rightarrow> action \<Rightarrow> subject \<Rightarrow> bool"
  can_on :: "ability \<Rightarrow> action \<Rightarrow> subject \<Rightarrow> row \<Rightarrow> bool"
  rules_for :: "ability \<Rightarrow> action \<Rightarrow> subject \<Rightarrow> rule list"
  accessible_by :: "ability \<Rightarrow> action \<Rightarrow> subject \<Rightarrow> fragment"

definition relevant :: "action \<Rightarrow> subject \<Rightarrow> rule \<Rightarrow> bool" where
  "relevant a s r \<longleftrightarrow>
     (ru_action r = a \<or> ru_action r = A_manage) \<and> (ru_subject r = s \<or> ru_subject r = S_all)"

definition condition_holds :: "row \<Rightarrow> rule \<Rightarrow> bool" where
  "condition_holds row r \<longleftrightarrow>
     (case ru_conditions r of None \<Rightarrow> True | Some (k, v) \<Rightarrow> row k = Some v)"

text \<open>
  What the code relies on, for a list of granting rules: \<open>manage\<close> is any action and \<open>all\<close> any subject;
  a check against a subject type ignores conditions; a check against a record tests them; and
  \<open>accessibleBy\<close> is unrestricted if some relevant rule is, else the disjunction of the conditions.
\<close>

definition casl_laws :: "casl \<Rightarrow> bool" where
  "casl_laws c \<longleftrightarrow>
     (\<forall>rs a s. (\<forall>r \<in> set rs. \<not> ru_inverted r) \<longrightarrow>
        can_type c rs a s = (\<exists>r \<in> set rs. relevant a s r) \<and>
        (\<forall>row. can_on c rs a s row = (\<exists>r \<in> set rs. relevant a s r \<and> condition_holds row r)) \<and>
        set (rules_for c rs a s) = {r \<in> set rs. relevant a s r} \<and>
        accessible_by c rs a s =
          (if \<exists>r \<in> set rs. relevant a s r \<and> ru_conditions r = None then Unrestricted
           else AnyOf (map (\<lambda>r. the (ru_conditions r)) (filter (relevant a s) rs))))"

section \<open>Grants\<close>

text \<open>Grants are deserialized from a cache, so a membership's workspace may be missing.\<close>

record membership_grant =
  mg_membership_id :: ident
  mg_workspace_id :: "ident option"
  mg_role_id :: ident
  mg_role_name :: string
  mg_status :: membership_status
  mg_permissions :: "permission_grant list"

record authorization_grants =
  ag_platform :: "permission_grant list"
  ag_memberships :: "membership_grant list"

definition definition_grant :: "permission_definition \<Rightarrow> permission_grant" where
  "definition_grant d =
     \<lparr>pg_action = pd_action d, pg_subject = pd_subject d, pg_scope = pd_scope d,
      pg_ownership = pd_ownership d\<rparr>"

definition can_rule :: "action \<Rightarrow> subject \<Rightarrow> (string \<times> string) option \<Rightarrow> rule" where
  "can_rule a s cond =
     \<lparr>ru_action = a, ru_subject = s, ru_conditions = cond, ru_inverted = False\<rparr>"

section \<open>The factory\<close>

definition grant :: "permission_grant \<Rightarrow> ident \<Rightarrow> exn + rule list" where
  "grant permission userId =
     (case pg_ownership permission of
        OWN \<Rightarrow>
          bindE (resolveOwnerKey (pg_subject permission)) (\<lambda>k.
          Inr [can_rule (pg_action permission) (pg_subject permission) (Some (k, userId))])
      | ANY \<Rightarrow> Inr [can_rule (pg_action permission) (pg_subject permission) None]
      | OtherOwnership _ \<Rightarrow> Inr [])"

fun platform_rules :: "ident \<Rightarrow> permission_grant list \<Rightarrow> exn + rule list" where
  "platform_rules userId [] = Inr []"
| "platform_rules userId (permission # ps) =
     (if pg_scope permission \<noteq> PLATFORM then platform_rules userId ps
      else bindE (grant permission userId) (\<lambda>rs.
           bindE (platform_rules userId ps) (\<lambda>rest. Inr (rs @ rest))))"

fun tenant_rules :: "ident \<Rightarrow> permission_grant list \<Rightarrow> exn + rule list" where
  "tenant_rules workspaceId [] = Inr []"
| "tenant_rules workspaceId (permission # ps) =
     (if pg_scope permission \<noteq> WORKSPACE then tenant_rules workspaceId ps
      else bindE (resolveTenantKey (pg_subject permission)) (\<lambda>k.
           bindE (tenant_rules workspaceId ps) (\<lambda>rest.
           Inr (can_rule (pg_action permission) (pg_subject permission) (Some (k, workspaceId)) # rest))))"

fun membership_rules :: "membership_grant list \<Rightarrow> exn + rule list" where
  "membership_rules [] = Inr []"
| "membership_rules (m # ms) =
     (if mg_status m \<noteq> ACTIVE then membership_rules ms
      else if mg_workspace_id m = None \<or> mg_workspace_id m = Some [] then membership_rules ms
      else bindE (tenant_rules (the (mg_workspace_id m)) (mg_permissions m)) (\<lambda>rs.
           bindE (membership_rules ms) (\<lambda>rest. Inr (rs @ rest))))"

definition createForUser :: "ident \<Rightarrow> authorization_grants \<Rightarrow> exn + ability" where
  "createForUser userId grants =
     bindE (platform_rules userId (map definition_grant AUTHENTICATED_USER_PERMISSIONS)) (\<lambda>own.
     bindE (platform_rules userId (ag_platform grants)) (\<lambda>staff.
     bindE (membership_rules (ag_memberships grants)) (\<lambda>tenant.
     Inr (own @ staff @ tenant))))"

section \<open>Queries\<close>

text \<open>
  A query filter: the fragment spread at the top level with the caller's filter under \<open>AND\<close>, or the
  filter that matches nothing.
\<close>

datatype where_input = Where fragment "row \<Rightarrow> bool" | MatchesNothing "row \<Rightarrow> bool"

fun fragment_selects :: "fragment \<Rightarrow> row \<Rightarrow> bool" where
  "fragment_selects Unrestricted row \<longleftrightarrow> True"
| "fragment_selects (AnyOf cs) row \<longleftrightarrow> (\<exists>(k, v) \<in> set cs. row k = Some v)"

fun selects :: "where_input \<Rightarrow> row \<Rightarrow> bool" where
  "selects (Where f callerWhere) row \<longleftrightarrow> fragment_selects f row \<and> callerWhere row"
| "selects (MatchesNothing callerWhere) row \<longleftrightarrow> False"

definition denied :: "action \<Rightarrow> subject \<Rightarrow> exn" where
  "denied a s = permissionDenied (action_name a) (Some (subject_name s))"

definition buildWhere ::
  "casl \<Rightarrow> ability \<Rightarrow> action \<Rightarrow> subject \<Rightarrow> (row \<Rightarrow> bool) \<Rightarrow> exn + where_input" where
  "buildWhere c ab a s callerWhere =
     (if \<not> can_type c ab a s then Inl (denied a s)
      else (case accessible_by c ab a s of
              AnyOf [] \<Rightarrow> Inl (denied a s)
            | fragment \<Rightarrow> Inr (Where fragment callerWhere)))"

definition buildWhereOrEmpty ::
  "casl \<Rightarrow> ability \<Rightarrow> action \<Rightarrow> subject \<Rightarrow> (row \<Rightarrow> bool) \<Rightarrow> exn + where_input" where
  "buildWhereOrEmpty c ab a s callerWhere =
     (if \<not> can_type c ab a s then Inr (MatchesNothing callerWhere)
      else buildWhere c ab a s callerWhere)"

definition assertWorkspaceReachable ::
  "casl \<Rightarrow> ability \<Rightarrow> action \<Rightarrow> subject \<Rightarrow> ident \<Rightarrow> exn + unit" where
  "assertWorkspaceReachable c ab a s workspaceId =
     bindE (resolveTenantKey s) (\<lambda>k.
     guardE (can_on c ab a s [k \<mapsto> workspaceId]) (resourceNotFound ''Workspace'' None))"

definition buildRecordWhereOrEmpty ::
  "casl \<Rightarrow> ability \<Rightarrow> action \<Rightarrow> subject \<Rightarrow> ident \<Rightarrow> exn + where_input" where
  "buildRecordWhereOrEmpty c ab a s recordId =
     buildWhereOrEmpty c ab a s (\<lambda>row. row ''id'' = Some recordId)"

definition buildRecordWhere ::
  "casl \<Rightarrow> ability \<Rightarrow> action \<Rightarrow> subject \<Rightarrow> ident \<Rightarrow> exn + where_input" where
  "buildRecordWhere c ab a s recordId =
     buildWhere c ab a s (\<lambda>row. row ''id'' = Some recordId)"

definition assertCan :: "casl \<Rightarrow> ability \<Rightarrow> action \<Rightarrow> subject \<Rightarrow> row \<Rightarrow> exn + unit" where
  "assertCan c ab a s row = guardE (can_on c ab a s row) (denied a s)"

section \<open>The guard\<close>

record required_permission =
  rp_action :: action
  rp_subject :: subject
  rp_is_administrative :: bool
  rp_is_denied_as_not_found :: bool

text \<open>What the handler declares, and what the guard reads of the request.\<close>

record handler_decl =
  hd_public :: bool
  hd_authenticated_only :: bool
  hd_required :: "required_permission option"

record guarded_request =
  gr_user :: "ident option"
  gr_param_workspace_id :: "string option"
  gr_body_workspace_id :: "string option"

definition buildTenantStub :: "subject \<Rightarrow> ident \<Rightarrow> ident \<Rightarrow> exn + row" where
  "buildTenantStub s workspaceId currentUserId =
     bindE (resolveTenantKey s) (\<lambda>k.
     if isOwnableSubject s
     then bindE (resolveOwnerKey s) (\<lambda>ok. Inr ([k \<mapsto> workspaceId](ok \<mapsto> currentUserId)))
     else Inr [k \<mapsto> workspaceId])"

definition hasNonOwnerScopedRule :: "casl \<Rightarrow> ability \<Rightarrow> action \<Rightarrow> subject \<Rightarrow> exn + bool" where
  "hasNonOwnerScopedRule c ab a s =
     (if \<not> isOwnableSubject s then Inr (can_type c ab a s)
      else bindE (resolveOwnerKey s) (\<lambda>ownerKey.
        Inr (\<exists>r \<in> set (rules_for c ab a s). \<not> ru_inverted r \<and>
               \<not> (case ru_conditions r of None \<Rightarrow> False | Some (k, _) \<Rightarrow> k = ownerKey))))"

definition resolveWorkspaceId :: "guarded_request \<Rightarrow> string option" where
  "resolveWorkspaceId req =
     (case gr_param_workspace_id req of
        Some (c # cs) \<Rightarrow> Some (c # cs)
      | _ \<Rightarrow> (case gr_body_workspace_id req of
               Some (c # cs) \<Rightarrow> Some (c # cs)
             | _ \<Rightarrow> None))"

text \<open>The decision once the caller's ability has been built.\<close>

definition decide ::
  "casl \<Rightarrow> ability \<Rightarrow> ident \<Rightarrow> required_permission \<Rightarrow> string option \<Rightarrow> exn + bool" where
  "decide c ab userId req workspaceId =
     (let a = rp_action req; s = rp_subject req in
      bindE (if rp_is_administrative req then hasNonOwnerScopedRule c ab a s else Inr True) (\<lambda>adm.
      bindE (guardE adm (denied a s)) (\<lambda>_.
      bindE (guardE (\<not> (isTenantScopedSubject s \<and> s \<noteq> S_Workspace \<and> workspaceId = None))
               workspaceContextMissing) (\<lambda>_.
      bindE (if workspaceId \<noteq> None \<and> isTenantScopedSubject s
             then bindE (buildTenantStub s (the workspaceId) userId) (\<lambda>stub. Inr (can_on c ab a s stub))
             else Inr (can_type c ab a s)) (\<lambda>allowed.
      if allowed \<or> rp_is_denied_as_not_found req then Inr True else Inl (denied a s))))))"

text \<open>\<open>loadGrants\<close> is the loader; the ability is what the guard attaches to the request.\<close>

definition canActivate ::
  "casl \<Rightarrow> (ident \<Rightarrow> authorization_grants) \<Rightarrow> handler_decl \<Rightarrow> guarded_request
   \<Rightarrow> exn + bool \<times> ability option" where
  "canActivate c loadGrants h req =
     (if hd_public h then Inr (True, None)
      else (case gr_user req of
              None \<Rightarrow> Inl tokenMissing
            | Some userId \<Rightarrow>
                bindE (createForUser userId (loadGrants userId)) (\<lambda>ab.
                if hd_authenticated_only h then Inr (True, Some ab)
                else (case hd_required h of
                        None \<Rightarrow> Inl (permissionDenied ''unknown'' None)
                      | Some r \<Rightarrow>
                          bindE (decide c ab userId r (resolveWorkspaceId req)) (\<lambda>ok.
                          Inr (ok, Some ab))))))"

end
