(* ===== verification/Grants_Cache.thy ===== *)
theory Grants_Cache
  imports Ability
begin

text \<open>
  \<open>src/src/modules/authorization/permission-loader.service.ts\<close>: the grants of an account, read from
  the database through a Redis cache.  Keys carry an epoch, so that one increment retires every cached
  grant set; an account's own key is deleted when its roles change.  The JSON codec is a parameter.
\<close>

record codec =
  gc_stringify :: "authorization_grants \<Rightarrow> string"
  gc_parse :: "string \<Rightarrow> authorization_grants option"

text \<open>What is written can be read back; no grant set is written as the empty string.\<close>

definition codec_ok :: "codec \<Rightarrow> authorization_grants \<Rightarrow> bool" where
  "codec_ok c g \<longleftrightarrow> gc_parse c (gc_stringify c g) = Some g \<and> gc_stringify c g \<noteq> []"

section \<open>The database read\<close>

definition role_permissions :: "world \<Rightarrow> ident \<Rightarrow> permission_grant list" where
  "role_permissions w roleId =
     (case find_role w roleId of None \<Rightarrow> [] | Some r \<Rightarrow> r_permissions r)"

definition role_name :: "world \<Rightarrow> ident \<Rightarrow> string" where
  "role_name w roleId = (case find_role w roleId of None \<Rightarrow> [] | Some r \<Rightarrow> r_name r)"

definition live_workspace :: "world \<Rightarrow> ident \<Rightarrow> bool" where
  "live_workspace w i \<longleftrightarrow> (\<exists>s \<in> set (live_workspaces w). w_id s = i)"

definition activeMembershipOfLiveWorkspace :: "world \<Rightarrow> membership_row \<Rightarrow> bool" where
  "activeMembershipOfLiveWorkspace w m \<longleftrightarrow>
     m_status m = ACTIVE \<and> live_workspace w (m_workspace_id m)"

definition loadGrantsFromDatabase :: "ident \<Rightarrow> world \<Rightarrow> authorization_grants" where
  "loadGrantsFromDatabase userId w =
     (case find_live_user w userId of
        None \<Rightarrow> \<lparr>ag_platform = [], ag_memberships = []\<rparr>
      | Some _ \<Rightarrow>
          \<lparr>ag_platform =
             concat (map (\<lambda>(_, r). role_permissions w r)
               (filter (\<lambda>(u, _). u = userId) (user_roles w))),
           ag_memberships =
             map (\<lambda>m. \<lparr>mg_membership_id = m_id m, mg_workspace_id = Some (m_workspace_id m),
                         mg_role_id = m_role_id m, mg_role_name = role_name w (m_role_id m),
                         mg_status = m_status m,
                         mg_permissions = role_permissions w (m_role_id m)\<rparr>)
               (filter (\<lambda>m. m_user_id m = userId \<and> activeMembershipOfLiveWorkspace w m)
                 (memberships w))\<rparr>)"

section \<open>The cache\<close>

definition GRANTS_KEY_PREFIX :: string where
  "GRANTS_KEY_PREFIX = ''authz:v1:grants''"

definition AUTHORIZATION_EPOCH_KEY :: string where
  "AUTHORIZATION_EPOCH_KEY = ''authz:epoch''"

definition buildCacheKey :: "string \<Rightarrow> ident \<Rightarrow> string" where
  "buildCacheKey epoch userId = GRANTS_KEY_PREFIX @ '':'' @ epoch @ '':'' @ userId"

definition readEpoch :: "time \<Rightarrow> world \<Rightarrow> string option" where
  "readEpoch now w =
     (case redis_get w now AUTHORIZATION_EPOCH_KEY of
        Inl _ \<Rightarrow> None
      | Inr None \<Rightarrow> Some ''0''
      | Inr (Some v) \<Rightarrow> Some v)"

definition readCachedGrants :: "codec \<Rightarrow> string \<Rightarrow> time \<Rightarrow> world \<Rightarrow> authorization_grants option" where
  "readCachedGrants c cacheKey now w =
     (case redis_get w now cacheKey of
        Inl _ \<Rightarrow> None
      | Inr None \<Rightarrow> None
      | Inr (Some raw) \<Rightarrow> (if raw = [] then None else gc_parse c raw))"

definition writeCachedGrants ::
  "codec \<Rightarrow> int \<Rightarrow> string \<Rightarrow> authorization_grants \<Rightarrow> time \<Rightarrow> world \<Rightarrow> world" where
  "writeCachedGrants c ttlSeconds cacheKey grants now w =
     (if redis_up w then redis_set_ex cacheKey (gc_stringify c grants) ttlSeconds now w else w)"

definition loadGrants ::
  "codec \<Rightarrow> int \<Rightarrow> ident \<Rightarrow> time \<Rightarrow> world \<Rightarrow> authorization_grants \<times> world" where
  "loadGrants c ttlSeconds userId now w =
     (case readEpoch now w of
        None \<Rightarrow> (loadGrantsFromDatabase userId w, w)
      | Some epoch \<Rightarrow>
          (let cacheKey = buildCacheKey epoch userId
           in case readCachedGrants c cacheKey now w of
                Some cached \<Rightarrow> (cached, w)
              | None \<Rightarrow>
                  (let grants = loadGrantsFromDatabase userId w
                   in (grants, writeCachedGrants c ttlSeconds cacheKey grants now w))))"

definition redis_del :: "string \<Rightarrow> world \<Rightarrow> world" where
  "redis_del k w = w\<lparr>redis := (redis w)(k := None)\<rparr>"

text \<open>A failed invalidation is logged and swallowed.\<close>

definition invalidateUser :: "ident \<Rightarrow> time \<Rightarrow> world \<Rightarrow> world" where
  "invalidateUser userId now w =
     (case readEpoch now w of
        None \<Rightarrow> w
      | Some epoch \<Rightarrow> (if redis_up w then redis_del (buildCacheKey epoch userId) w else w))"

fun invalidateUsers :: "ident list \<Rightarrow> time \<Rightarrow> world \<Rightarrow> world" where
  "invalidateUsers [] now w = w"
| "invalidateUsers (u # us) now w = invalidateUsers us now (invalidateUser u now w)"

text \<open>Redis \<open>INCR\<close>: an absent key counts as 0; a value that is no number is an error.\<close>

definition digit_value :: "char \<Rightarrow> nat option" where
  "digit_value c = (let n = (of_char c :: nat) in if 48 \<le> n \<and> n \<le> 57 then Some (n - 48) else None)"

fun parse_digits :: "nat \<Rightarrow> string \<Rightarrow> nat option" where
  "parse_digits acc [] = Some acc"
| "parse_digits acc (c # cs) =
     (case digit_value c of None \<Rightarrow> None | Some d \<Rightarrow> parse_digits (10 * acc + d) cs)"

definition redis_incr :: "string \<Rightarrow> time \<Rightarrow> world \<Rightarrow> world" where
  "redis_incr k now w =
     (case redis_get w now k of
        Inl _ \<Rightarrow> w
      | Inr v \<Rightarrow>
          (case parse_digits 0 (case v of None \<Rightarrow> ''0'' | Some s \<Rightarrow> s) of
             None \<Rightarrow> w
           | Some n \<Rightarrow>
               w\<lparr>redis := (redis w)(k \<mapsto> (decimal (n + 1),
                 if v = None then None
                 else (case redis w k of None \<Rightarrow> None | Some (_, t) \<Rightarrow> t)))\<rparr>))"

definition invalidateAllUsers :: "time \<Rightarrow> world \<Rightarrow> world" where
  "invalidateAllUsers now w = redis_incr AUTHORIZATION_EPOCH_KEY now w"

section \<open>Frames\<close>

lemma redis_del_simps [simp]:
  "users (redis_del k w) = users w"
  "refresh_tokens (redis_del k w) = refresh_tokens w"
  "workspaces (redis_del k w) = workspaces w"
  "roles (redis_del k w) = roles w"
  "user_roles (redis_del k w) = user_roles w"
  "memberships (redis_del k w) = memberships w"
  "invitations (redis_del k w) = invitations w"
  "audit_logs (redis_del k w) = audit_logs w"
  "jobs (redis_del k w) = jobs w"
  "redis_up (redis_del k w) = redis_up w"
  "audit_up (redis_del k w) = audit_up w"
  by (simp_all add: redis_del_def)

lemma invalidateUser_simps [simp]:
  "users (invalidateUser u t w) = users w"
  "refresh_tokens (invalidateUser u t w) = refresh_tokens w"
  "workspaces (invalidateUser u t w) = workspaces w"
  "roles (invalidateUser u t w) = roles w"
  "user_roles (invalidateUser u t w) = user_roles w"
  "memberships (invalidateUser u t w) = memberships w"
  "invitations (invalidateUser u t w) = invitations w"
  "audit_logs (invalidateUser u t w) = audit_logs w"
  "jobs (invalidateUser u t w) = jobs w"
  "redis_up (invalidateUser u t w) = redis_up w"
  "audit_up (invalidateUser u t w) = audit_up w"
  by (simp_all add: invalidateUser_def split: option.splits)

lemma invalidateUsers_simps [simp]:
  "users (invalidateUsers us t w) = users w"
  "workspaces (invalidateUsers us t w) = workspaces w"
  "roles (invalidateUsers us t w) = roles w"
  "user_roles (invalidateUsers us t w) = user_roles w"
  "memberships (invalidateUsers us t w) = memberships w"
  "invitations (invalidateUsers us t w) = invitations w"
  "refresh_tokens (invalidateUsers us t w) = refresh_tokens w"
  by (induction us arbitrary: w) simp_all

section \<open>What the cache guarantees\<close>

lemma epoch_key_not_grants [simp]: "buildCacheKey e u \<noteq> AUTHORIZATION_EPOCH_KEY"
  by (simp add: buildCacheKey_def GRANTS_KEY_PREFIX_def AUTHORIZATION_EPOCH_KEY_def)

lemma redis_get_del [simp]:
  "redis_get (redis_del k w) t k' =
     (if k' = k \<and> redis_up w then Inr None else redis_get w t k')"
  by (simp add: redis_get_def redis_del_def)

lemma redis_get_set_other:
  "k' \<noteq> k \<Longrightarrow> redis_get (redis_set_ex k v s now w) t k' = redis_get w t k'"
  by (simp add: redis_get_def redis_set_ex_def)

lemma redis_get_set_same:
  "redis_get (redis_set_ex k v s now w) t k =
     (if \<not> redis_up w then Inl () else Inr (if t < now + s * 1000 then Some v else None))"
  by (simp add: redis_get_def redis_set_ex_def)

lemma readEpoch_set [simp]:
  "k \<noteq> AUTHORIZATION_EPOCH_KEY \<Longrightarrow> readEpoch t (redis_set_ex k v s now w) = readEpoch t w"
  by (simp add: readEpoch_def redis_get_set_other)

lemma readEpoch_del [simp]:
  "k \<noteq> AUTHORIZATION_EPOCH_KEY \<Longrightarrow> readEpoch t (redis_del k w) = readEpoch t w"
  by (simp add: readEpoch_def)

text \<open>The epoch is a counter without an expiry, so it reads the same at any two instants.\<close>

definition epoch_persists :: "world \<Rightarrow> bool" where
  "epoch_persists w \<longleftrightarrow> (\<forall>v t. redis w AUTHORIZATION_EPOCH_KEY \<noteq> Some (v, Some t))"

lemma readEpoch_time: "epoch_persists w \<Longrightarrow> readEpoch t w = readEpoch t' w"
  by (auto simp: readEpoch_def redis_get_def epoch_persists_def split: option.splits)

lemma readEpoch_None: "readEpoch t w = None \<longleftrightarrow> \<not> redis_up w"
  by (auto simp: readEpoch_def redis_get_def split: option.splits)

lemma loadGrantsFromDatabase_redis:
  assumes "users v = users w" "workspaces v = workspaces w" "roles v = roles w"
    "user_roles v = user_roles w" "memberships v = memberships w"
  shows "loadGrantsFromDatabase u v = loadGrantsFromDatabase u w"
proof -
  have "find_live_user v = find_live_user w" "role_permissions v = role_permissions w"
    "role_name v = role_name w"
    "activeMembershipOfLiveWorkspace v = activeMembershipOfLiveWorkspace w"
    using assms
    by (simp_all add: fun_eq_iff find_live_user_def live_users_def role_permissions_def role_name_def
        find_role_def activeMembershipOfLiveWorkspace_def live_workspace_def live_workspaces_def)
  then show ?thesis by (simp add: loadGrantsFromDatabase_def assms split: option.split)
qed

text \<open>After an account's grants were invalidated, its next load is the database's current answer;
  and while Redis is unreachable every load is.\<close>

theorem load_after_invalidation:
  assumes "redis_up w \<longrightarrow> epoch_persists w"
  shows "fst (loadGrants c ttl userId now' (invalidateUser userId now w)) =
    loadGrantsFromDatabase userId w"
proof -
  have db: "loadGrantsFromDatabase userId (invalidateUser userId now w) = loadGrantsFromDatabase userId w"
    by (rule loadGrantsFromDatabase_redis) simp_all
  show ?thesis
  proof (cases "redis_up w")
    case True
    then obtain e where e: "readEpoch now w = Some e" "readEpoch now' w = Some e"
      using readEpoch_None readEpoch_time assms by (metis not_None_eq)
    then have "readCachedGrants c (buildCacheKey e userId) now' (invalidateUser userId now w) = None"
      using True by (simp add: invalidateUser_def readCachedGrants_def)
    then show ?thesis
      using e True db by (simp add: loadGrants_def invalidateUser_def Let_def)
  next
    case False
    then have "readEpoch t v = None" if "redis_up v = redis_up w" for t v
      using that by (simp add: readEpoch_None)
    then show ?thesis using db by (simp add: loadGrants_def)
  qed
qed

text \<open>Keys of different epochs or accounts differ, an epoch being a number.\<close>

lemma buildCacheKey_inj:
  assumes "CHR '':'' \<notin> set e" and "CHR '':'' \<notin> set e'" and "buildCacheKey e u = buildCacheKey e' u'"
  shows "e = e' \<and> u = u'"
proof -
  have key: "e @ CHR '':'' # u = e' @ CHR '':'' # u'" using assms(3) by (simp add: buildCacheKey_def)
  have before: "takeWhile (\<lambda>c. c \<noteq> CHR '':'') (x @ CHR '':'' # y) = x" if "CHR '':'' \<notin> set x" for x y
    using that by (induction x) auto
  have "e = e'" using before [OF assms(1), of u] before [OF assms(2), of u'] key by simp
  with key show ?thesis by simp
qed

lemma decimal_no_colon: "CHR '':'' \<notin> set (decimal n)"
proof (induction n rule: decimal.induct)
  case (1 n)
  have "char_of (d + 48) \<noteq> CHR '':''" if "d < 10" for d :: nat
  proof
    assume "char_of (d + 48) = CHR '':''"
    then have "of_char (char_of (d + 48) :: char) = (of_char (CHR '':'') :: nat)" by simp
    with that show False by simp
  qed
  from this [of n] this [of "n mod 10"] 1 show ?case
    by (subst decimal.simps) auto
qed

subsection \<open>How old served grants are\<close>

text \<open>
  The machine of the cache: the clock, the database and Redis, and what they were so far.  A load that
  missed fills the cache later, with the epoch and the database it read on the way; the read of the database
  is at most \<open>delay\<close> old when the entry lands.  Everything else may change the tables as it likes, and may
  lose entries of the cache, but writes none: the epoch and the grants are written here only.
\<close>

record grants_state =
  gs_now :: time
  gs_world :: world
  gs_past :: "(time \<times> world) list"

definition moved :: "grants_state \<Rightarrow> time \<Rightarrow> world \<Rightarrow> grants_state" where
  "moved s t w = \<lparr>gs_now = t, gs_world = w, gs_past = (t, w) # gs_past s\<rparr>"

inductive grants_step :: "codec \<Rightarrow> int \<Rightarrow> int \<Rightarrow> grants_state \<Rightarrow> grants_state \<Rightarrow> bool"
  for c :: codec and ttlSeconds delay :: int where
  waits: "gs_now s \<le> t \<Longrightarrow> grants_step c ttlSeconds delay s (moved s t (gs_world s))"
| fills:
    "(t1, w1) \<in> set (gs_past s) \<Longrightarrow> readEpoch t1 w1 = Some epoch \<Longrightarrow>
     (t0, w0) \<in> set (gs_past s) \<Longrightarrow> gs_now s \<le> t0 + delay \<Longrightarrow>
     grants_step c ttlSeconds delay s (moved s (gs_now s)
       (writeCachedGrants c ttlSeconds (buildCacheKey epoch userId) (loadGrantsFromDatabase userId w0)
          (gs_now s) (gs_world s)))"
| drops_user:
    "grants_step c ttlSeconds delay s (moved s (gs_now s) (invalidateUser userId (gs_now s) (gs_world s)))"
| drops_all:
    "grants_step c ttlSeconds delay s (moved s (gs_now s) (invalidateAllUsers (gs_now s) (gs_world s)))"
| elsewhere:
    "(\<And>k. k = AUTHORIZATION_EPOCH_KEY \<or> (\<exists>e u. k = buildCacheKey e u) \<Longrightarrow>
        redis w k = redis (gs_world s) k \<or> redis w k = None) \<Longrightarrow>
     grants_step c ttlSeconds delay s (moved s (gs_now s) w)"

definition nothing_cached :: "grants_state \<Rightarrow> bool" where
  "nothing_cached s \<longleftrightarrow> gs_past s = [(gs_now s, gs_world s)] \<and>
     redis (gs_world s) AUTHORIZATION_EPOCH_KEY = None \<and>
     (\<forall>e u. redis (gs_world s) (buildCacheKey e u) = None)"

definition epoch_plain :: "world \<Rightarrow> bool" where
  "epoch_plain w \<longleftrightarrow> (\<forall>v t. redis w AUTHORIZATION_EPOCH_KEY = Some (v, t) \<longrightarrow> CHR '':'' \<notin> set v)"

definition entry_fresh ::
  "codec \<Rightarrow> int \<Rightarrow> int \<Rightarrow> (time \<times> world) list \<Rightarrow> ident \<Rightarrow> string \<times> time option \<Rightarrow> bool" where
  "entry_fresh c ttlSeconds delay past u v \<longleftrightarrow>
     (\<exists>t0 w0 landed. (t0, w0) \<in> set past \<and> landed \<le> t0 + delay \<and>
        v = (gc_stringify c (loadGrantsFromDatabase u w0), Some (landed + ttlSeconds * 1000)))"

definition cache_fresh :: "codec \<Rightarrow> int \<Rightarrow> int \<Rightarrow> (time \<times> world) list \<Rightarrow> world \<Rightarrow> bool" where
  "cache_fresh c ttlSeconds delay past w \<longleftrightarrow> epoch_plain w \<and>
     (\<forall>e u v. CHR '':'' \<notin> set e \<longrightarrow> redis w (buildCacheKey e u) = Some v \<longrightarrow>
        entry_fresh c ttlSeconds delay past u v)"

definition grants_inv :: "codec \<Rightarrow> int \<Rightarrow> int \<Rightarrow> grants_state \<Rightarrow> bool" where
  "grants_inv c ttlSeconds delay s \<longleftrightarrow> (gs_now s, gs_world s) \<in> set (gs_past s) \<and>
     (\<forall>(t, w) \<in> set (gs_past s). epoch_plain w) \<and>
     cache_fresh c ttlSeconds delay (gs_past s) (gs_world s)"

lemma epoch_plain_read: "epoch_plain w \<Longrightarrow> readEpoch t w = Some e \<Longrightarrow> CHR '':'' \<notin> set e"
  by (auto simp: epoch_plain_def readEpoch_def redis_get_def split: if_splits option.splits)

lemma entry_fresh_mono:
  "entry_fresh c ttl delay past u v \<Longrightarrow> set past \<subseteq> set past' \<Longrightarrow> entry_fresh c ttl delay past' u v"
  unfolding entry_fresh_def by blast

text \<open>A write that loses entries, or changes only the epoch to a number, keeps the cache fresh.\<close>

lemma grants_inv_moved:
  assumes "grants_inv c ttl delay s" and "cache_fresh c ttl delay (gs_past s) w"
  shows "grants_inv c ttl delay (moved s t w)"
proof -
  have "cache_fresh c ttl delay ((t, w) # gs_past s) w"
    using assms(2) entry_fresh_mono [of c ttl delay "gs_past s" _ _ "(t, w) # gs_past s"]
    unfolding cache_fresh_def by (simp add: subset_insertI)
  then show ?thesis
    using assms by (auto simp: grants_inv_def moved_def cache_fresh_def)
qed

lemma cache_fresh_fewer:
  assumes "cache_fresh c ttl delay past w"
    and "\<And>k. k = AUTHORIZATION_EPOCH_KEY \<or> (\<exists>e u. k = buildCacheKey e u) \<Longrightarrow>
      redis v k = redis w k \<or> redis v k = None"
  shows "cache_fresh c ttl delay past v"
proof -
  have "redis v AUTHORIZATION_EPOCH_KEY = Some x \<Longrightarrow> redis w AUTHORIZATION_EPOCH_KEY = Some x" for x
    using assms(2) [of AUTHORIZATION_EPOCH_KEY] by auto
  moreover have "redis v (buildCacheKey e u) = Some x \<Longrightarrow> redis w (buildCacheKey e u) = Some x" for e u x
    using assms(2) [of "buildCacheKey e u"] by fastforce
  ultimately show ?thesis using assms(1) unfolding cache_fresh_def epoch_plain_def by blast
qed

lemma cache_fresh_incr:
  assumes "cache_fresh c ttl delay past w"
  shows "cache_fresh c ttl delay past (invalidateAllUsers now w)"
proof (cases "invalidateAllUsers now w = w")
  case True
  then show ?thesis using assms by simp
next
  case False
  then obtain n t where "invalidateAllUsers now w =
      w\<lparr>redis := (redis w)(AUTHORIZATION_EPOCH_KEY \<mapsto> (decimal (n + 1), t))\<rparr>"
  proof -
    assume found: "\<And>n t. invalidateAllUsers now w =
      w\<lparr>redis := (redis w)(AUTHORIZATION_EPOCH_KEY \<mapsto> (decimal (n + 1), t))\<rparr> \<Longrightarrow> thesis"
    obtain v where v: "redis_get w now AUTHORIZATION_EPOCH_KEY = Inr v"
      using False by (cases "redis_get w now AUTHORIZATION_EPOCH_KEY")
        (simp_all add: invalidateAllUsers_def redis_incr_def)
    obtain n where n: "parse_digits 0 (case v of None \<Rightarrow> ''0'' | Some s \<Rightarrow> s) = Some n"
      using False v by (cases "parse_digits 0 (case v of None \<Rightarrow> ''0'' | Some s \<Rightarrow> s)")
        (simp_all add: invalidateAllUsers_def redis_incr_def)
    show thesis
      by (rule found, simp only: invalidateAllUsers_def redis_incr_def v n sum.case option.case)
  qed
  then have w: "redis (invalidateAllUsers now w) =
      (redis w)(AUTHORIZATION_EPOCH_KEY \<mapsto> (decimal (n + 1), t))"
    by simp
  have "epoch_plain (invalidateAllUsers now w)"
    using decimal_no_colon [of "n + 1"] by (simp add: epoch_plain_def w)
  moreover have "redis (invalidateAllUsers now w) (buildCacheKey e u) = redis w (buildCacheKey e u)" for e u
    by (simp add: w)
  ultimately show ?thesis using assms unfolding cache_fresh_def by presburger
qed

lemma cache_fresh_fill:
  assumes "cache_fresh c ttl delay past w" and "(t0, w0) \<in> set past" and "now \<le> t0 + delay"
    and "CHR '':'' \<notin> set epoch"
  shows "cache_fresh c ttl delay past
    (writeCachedGrants c ttl (buildCacheKey epoch u0) (loadGrantsFromDatabase u0 w0) now w)"
    (is "cache_fresh c ttl delay past ?w")
proof (cases "redis_up w")
  case True
  let ?k = "buildCacheKey epoch u0"
  let ?v = "(gc_stringify c (loadGrantsFromDatabase u0 w0), Some (now + ttl * 1000))"
  have w: "redis ?w = (redis w)(?k \<mapsto> ?v)"
    using True by (simp add: writeCachedGrants_def redis_set_ex_def)
  have "entry_fresh c ttl delay past u v"
    if e: "CHR '':'' \<notin> set e" "redis ?w (buildCacheKey e u) = Some v" for e u v
  proof (cases "buildCacheKey e u = ?k")
    case True
    then have "u = u0" "v = ?v" using buildCacheKey_inj [OF e(1) assms(4)] e(2) by (auto simp: w)
    then show ?thesis using assms(2,3) unfolding entry_fresh_def by blast
  next
    case False
    then have "redis w (buildCacheKey e u) = Some v" using e(2) by (simp add: w)
    with assms(1) e(1) show ?thesis unfolding cache_fresh_def by blast
  qed
  moreover have "epoch_plain ?w"
    using assms(1) by (simp add: cache_fresh_def epoch_plain_def w epoch_key_not_grants [symmetric])
  ultimately show ?thesis unfolding cache_fresh_def by blast
next
  case False
  then show ?thesis using assms(1) by (simp add: writeCachedGrants_def)
qed

lemma grants_inv_step:
  assumes "grants_step c ttl delay s s'" and inv: "grants_inv c ttl delay s"
  shows "grants_inv c ttl delay s'"
proof -
  have fresh: "cache_fresh c ttl delay (gs_past s) (gs_world s)" using inv by (simp add: grants_inv_def)
  from assms(1) show ?thesis
  proof cases
    case (waits t)
    then show ?thesis using grants_inv_moved [OF inv fresh] by simp
  next
    case (fills t1 w1 epoch t0 w0 userId)
    have "CHR '':'' \<notin> set epoch"
      using inv fills(2,3) epoch_plain_read by (auto simp: grants_inv_def)
    from grants_inv_moved [OF inv cache_fresh_fill [OF fresh fills(4,5) this]] show ?thesis
      by (simp add: fills(1))
  next
    case (drops_user userId)
    have "cache_fresh c ttl delay (gs_past s) (invalidateUser userId (gs_now s) (gs_world s))"
      by (rule cache_fresh_fewer [OF fresh]) (auto simp: invalidateUser_def redis_del_def split: option.splits)
    from grants_inv_moved [OF inv this] show ?thesis by (simp add: drops_user)
  next
    case drops_all
    from grants_inv_moved [OF inv cache_fresh_incr [OF fresh]] show ?thesis by (simp add: drops_all)
  next
    case (elsewhere w)
    from grants_inv_moved [OF inv cache_fresh_fewer [OF fresh elsewhere(2)]] show ?thesis
      by (simp add: elsewhere(1))
  qed
qed

interpretation grants: machine nothing_cached "grants_step c ttlSeconds delay" "grants_inv c ttlSeconds delay"
  for c ttlSeconds delay
proof
  show "nothing_cached s \<Longrightarrow> grants_inv c ttlSeconds delay s" for s
    by (auto simp: nothing_cached_def grants_inv_def cache_fresh_def epoch_plain_def)
  show "grants_inv c ttlSeconds delay s \<Longrightarrow> grants_step c ttlSeconds delay s s' \<Longrightarrow>
      grants_inv c ttlSeconds delay s'" for s s'
    by (rule grants_inv_step)
qed

text \<open>\<open>JSON.parse\<close> gives back what \<open>JSON.stringify\<close> wrote.\<close>

definition codec_sound :: "codec \<Rightarrow> bool" where
  "codec_sound c \<longleftrightarrow> (\<forall>g g'. gc_parse c (gc_stringify c g) = Some g' \<longrightarrow> g' = g)"

lemma readCachedGrants_fresh:
  assumes "codec_sound c" and "cache_fresh c ttl delay past w" and "CHR '':'' \<notin> set e"
    and "readCachedGrants c (buildCacheKey e u) now w = Some g"
  shows "\<exists>(t0, w0) \<in> set past. now - (delay + ttl * 1000) < t0 \<and> g = loadGrantsFromDatabase u w0"
proof -
  obtain raw T where e: "redis w (buildCacheKey e u) = Some (raw, T)" and live: "\<forall>x. T = Some x \<longrightarrow> now < x"
    and g: "gc_parse c raw = Some g"
    using assms(4)
    by (auto simp: readCachedGrants_def redis_get_def split: sum.splits option.splits if_splits prod.splits)
  have "entry_fresh c ttl delay past u (raw, T)" using assms(2,3) e by (simp add: cache_fresh_def)
  then obtain t0 w0 landed where past: "(t0, w0) \<in> set past" "landed \<le> t0 + delay"
    and raw: "raw = gc_stringify c (loadGrantsFromDatabase u w0)" "T = Some (landed + ttl * 1000)"
    unfolding entry_fresh_def prod.inject by blast
  have "g = loadGrantsFromDatabase u w0" using assms(1) g unfolding raw(1) codec_sound_def by blast
  moreover have "now < landed + ttl * 1000" using live raw(2) by simp
  ultimately show ?thesis using past by (intro bexI [of _ "(t0, w0)"]) auto
qed

text \<open>C23: grants served through the cache are never older than the lifetime of an entry and the time its fill took,
  however loads, fills, invalidations, role changes and losses of cache entries interleave: they are the
  database's answer for that very account at some instant of that last stretch of the run.\<close>

theorem cached_grants_recent:
  assumes "codec_sound c" and "0 \<le> ttlSeconds" and "0 \<le> delay"
    and "reachable nothing_cached (grants_step c ttlSeconds delay) s"
  shows "\<exists>(t0, w0) \<in> set (gs_past s). gs_now s - (delay + ttlSeconds * 1000) \<le> t0 \<and>
    fst (loadGrants c ttlSeconds userId (gs_now s) (gs_world s)) = loadGrantsFromDatabase userId w0"
proof -
  have inv: "grants_inv c ttlSeconds delay s" by (rule grants.inv_reachable [OF assms(4)])
  have current: "\<exists>(t0, w0) \<in> set (gs_past s). gs_now s - (delay + ttlSeconds * 1000) \<le> t0 \<and>
      loadGrantsFromDatabase userId (gs_world s) = loadGrantsFromDatabase userId w0"
    using inv assms(2,3) by (intro bexI [of _ "(gs_now s, gs_world s)"]) (auto simp: grants_inv_def)
  show ?thesis
  proof (cases "readEpoch (gs_now s) (gs_world s)")
    case None
    with current show ?thesis by (simp add: loadGrants_def)
  next
    case (Some e)
    show ?thesis
    proof (cases "readCachedGrants c (buildCacheKey e userId) (gs_now s) (gs_world s)")
      case None
      with current Some show ?thesis by (simp add: loadGrants_def Let_def)
    next
      case cached: (Some g)
      have "CHR '':'' \<notin> set e"
        using inv epoch_plain_read [OF _ Some] unfolding grants_inv_def cache_fresh_def by blast
      from readCachedGrants_fresh [OF assms(1) _ this cached, of ttlSeconds delay "gs_past s"]
      have "\<exists>(t0, w0) \<in> set (gs_past s). gs_now s - (delay + ttlSeconds * 1000) < t0 \<and>
          g = loadGrantsFromDatabase userId w0"
        using inv by (simp add: grants_inv_def)
      with Some cached show ?thesis by (auto simp: loadGrants_def Let_def intro: less_imp_le)
    qed
  qed
qed

text \<open>Invalidation does not reach a load that is under way.  A request that read the database before
  a role change and fills the cache after the change's invalidation leaves the old grants in it, and
  they are served until the entry expires.\<close>

theorem stale_fill_survives_invalidation:
  assumes "codec_ok c old" and "redis_up w" and "epoch_persists w" and "readEpoch now w = Some e"
    and "now' < now + ttl * 1000"
  shows "fst (loadGrants c ttl userId now'
      (writeCachedGrants c ttl (buildCacheKey e userId) old now (invalidateUser userId now w))) = old"
proof -
  let ?w = "writeCachedGrants c ttl (buildCacheKey e userId) old now (invalidateUser userId now w)"
  have "readEpoch now' ?w = Some e"
    using assms readEpoch_time [OF assms(3), of now' now]
    by (simp add: writeCachedGrants_def invalidateUser_def)
  moreover have "readCachedGrants c (buildCacheKey e userId) now' ?w = Some old"
    using assms by (simp add: readCachedGrants_def writeCachedGrants_def redis_get_set_same codec_ok_def)
  ultimately show ?thesis by (simp add: loadGrants_def Let_def)
qed

end
