(* ===== verification/Access_Witnesses.thy ===== *)
theory Access_Witnesses
  imports Access Session_Witnesses Grants_Cache Samples
begin

text \<open>
  The witnesses of the access-token and sign-in properties, and those of the grants cache on the sample database.
\<close>

definition a_ended :: "time \<Rightarrow> user_row" where
  "a_ended t = (sample_user ''u'')\<lparr>u_password_changed_at := Some (nextWholeSecond t),
                                    u_updated_by := Some ''u''\<rparr>"

definition a_world :: "time \<Rightarrow> world" where
  "a_world t = sample_world\<lparr>users := [a_ended t],
                             refresh_tokens := [s_row ''a'' 0 None (Some t)]\<rparr>"

lemma a_end: "endAllSessions ''u'' (Some ''u'') id (\<lambda>_. t) (s_world [s_live]) =
    Inr (a_ended t, a_world t)"
  by (simp add: endAllSessions_def endAllSessionsInTransaction_def [unfolded Let_def] find_user_def user_conflict_def
      live_users_def a_ended_def a_world_def s_defs)

lemma a_dist: "distinct (map u_id (users (s_world rows)))"
  by (simp add: s_defs)

definition a_payload :: "int \<Rightarrow> jwt_payload" where
  "a_payload iat = \<lparr>jp_sub = ''u'', jp_iat = Some iat, jp_exp = Some (iat + 900),
                    jp_jti = None, jp_purpose = None\<rparr>"

lemma revocation_cuts_off_tokens_witness:
  "validate (a_payload 1) 1600 (a_world 1500) = Inl sessionInvalidated \<and>
   \<not> (\<exists>a. validate (a_payload 1) 1600 (a_world 1500) = Inr a)"
proof
  show "validate (a_payload 1) 1600 (a_world 1500) = Inl sessionInvalidated"
    by (simp add: validate_def isAccessTokenPayload_def findByIdOrNull_def find_live_user_def
        live_users_def a_payload_def a_world_def a_ended_def nextWholeSecond_def s_defs)
  have p: "jp_sub (a_payload 1) = ''u''" "jp_iat (a_payload 1) = Some 1"
    "jp_purpose (a_payload 1) = None"
    by (simp_all add: a_payload_def)
  from revocation_cuts_off_tokens [OF a_dist a_end p]
  show "\<not> (\<exists>a. validate (a_payload 1) 1600 (a_world 1500) = Inr a)" by simp
qed

lemma whole_second_token_survives_witness:
  "\<exists>a. validate (accessTokenPayload ''u'' \<lparr>it_token = ''x'', it_expires_at = 9, it_issued_at = 2000\<rparr>)
     2001 (a_world 2000) = Inr a"
proof -
  have "u_is_active (a_ended 2000)" "u_deleted_at (a_ended 2000) = None"
    by (simp_all add: a_ended_def sample_user_def)
  from whole_second_token_survives [OF a_dist a_end this,
      of "\<lparr>it_token = ''x'', it_expires_at = 9, it_issued_at = 2000\<rparr>" 2001]
  show ?thesis by simp
qed

lemma new_session_passes_cutoff_witness:
  "\<exists>a. validate (accessTokenPayload ''u'' \<lparr>it_token = ''tb'', it_expires_at = 86402000,
        it_issued_at = 2000\<rparr>) 2001
     (a_world 1500\<lparr>refresh_tokens := [s_row ''a'' 0 None (Some 1500), s_row ''b'' 2000 None None]\<rparr>) =
     Inr a \<and> au_id a = ''u''"
proof (rule new_session_passes_cutoff
    [where ext = sample_ext and days = 1 and cutoff = "Some 2000" and ctx = s_ctx and fam = "''f''"
      and fresh = "s_fresh ''b''" and now = 1600 and later = 0 and w = "a_world 1500"])
  show "distinct (map u_id (users (a_world 1500)))" by (simp add: a_world_def)
  show "issueForNewSession sample_ext 1 ''u'' (Some 2000) s_ctx ''f'' (s_fresh ''b'')
      (1600 + waitForSessionCutoff (Some 2000) 1600 + int 0) (a_world 1500) =
    Inr (\<lparr>it_token = ''tb'', it_expires_at = 86402000, it_issued_at = 2000\<rparr>,
      a_world 1500\<lparr>refresh_tokens := [s_row ''a'' 0 None (Some 1500), s_row ''b'' 2000 None None]\<rparr>)"
    by (simp add: issueForNewSession_def loadEligibleSessionOwner_def persist_def Let_def
        waitForSessionCutoff_def a_world_def a_ended_def nextWholeSecond_def s_defs)
  show "\<not> blocklisted (accessTokenPayload ''u'' \<lparr>it_token = ''tb'', it_expires_at = 86402000,
      it_issued_at = 2000\<rparr>) 2001
     (a_world 1500\<lparr>refresh_tokens := [s_row ''a'' 0 None (Some 1500), s_row ''b'' 2000 None None]\<rparr>)"
    by (simp add: blocklisted_def truthy_def accessTokenPayload_def)
qed

lemma revocation_refuses_stale_login_witness:
  "issueForNewSession sample_ext 1 ''u'' None s_ctx ''g'' (s_fresh ''b'') 1600 (a_world 1500) =
     Inl invalidCredentials"
  by (rule revocation_refuses_stale_login [OF a_end]) simp

lemma same_second_login_survives_witness:
  "\<exists>tok w3. issueForNewSession sample_ext 1 ''u'' (Some 2000) s_ctx ''g'' (s_fresh ''b'') 2100
     (a_world 1500) = Inr (tok, w3)"
proof -
  have again: "endAllSessions ''u'' (Some ''u'') id (\<lambda>_. 1600) (a_world 1500) =
      Inr (a_ended 1500, a_world 1500)"
    by (simp add: endAllSessions_def endAllSessionsInTransaction_def [unfolded Let_def] find_user_def user_conflict_def
        live_users_def a_ended_def a_world_def nextWholeSecond_def s_defs)
  have side: "nextWholeSecond ((\<lambda>_. 1500) (0::nat)) = nextWholeSecond ((\<lambda>_. 1600) (0::nat))"
    "\<forall>u::user_row. u_id (id u) = u_id u" "u_is_active (a_ended 1500)"
    "u_deleted_at (a_ended 1500) = None"
    "\<forall>r \<in> set (refresh_tokens (a_world 1500)). rt_id r \<noteq> f_row_id (s_fresh ''b'') \<and>
       rt_token_hash r \<noteq> sha256_hex sample_ext (f_token (s_fresh ''b''))"
    by (simp_all add: nextWholeSecond_def a_ended_def a_world_def s_defs)
  from same_second_login_survives [OF a_end again side, of 1 s_ctx "''g''" 2100]
  show ?thesis by (simp add: a_ended_def nextWholeSecond_def)
qed

section \<open>Logout\<close>

definition a_user :: authenticated_user where
  "a_user = \<lparr>au_id = ''u'', au_email = ''u'', au_jti = Some ''j'', au_exp = Some 900\<rparr>"

lemma logout_outlives_token_witness:
  "\<exists>e. validate ((a_payload 0)\<lparr>jp_jti := Some ''j''\<rparr>) 899999
     (snd (logout sample_ext a_user (Some ''ta'') s_clock (s_world [s_live]))) = Inl e"
proof -
  let ?r = "logout sample_ext a_user (Some ''ta'') s_clock (s_world [s_live])"
  have up: "redis_up (s_world [s_live])" "truthy (Some ''j'')" "truthy (Some ''ta'')"
    by (simp_all add: s_defs truthy_def)
  have ok: "redis_up (revokeByToken sample_ext ''ta'' 10 (s_world [s_live]))"
    by (simp add: revokeByToken_def revokeFamily_def s_defs)
  have l: "?r = (Inr (), snd ?r)"
    using up ok by (simp add: logout_def Let_def a_user_def s_clock_def)
  have upr: "redis_up (snd ?r)"
    using up ok by (simp add: logout_def Let_def a_user_def s_clock_def)
  have m: "monotone_clock s_clock" by (simp add: monotone_clock_def s_clock_def)
  have a: "au_jti a_user = Some ''j''" "''j'' \<noteq> []" "au_exp a_user = Some 900" "(900::int) \<noteq> 0"
    by (simp_all add: a_user_def)
  from logout_outlives_token [OF l m a refl upr, of "(a_payload 0)\<lparr>jp_jti := Some ''j''\<rparr>" 899999]
  show ?thesis by simp
qed

text \<open>The witnesses of the grants-cache properties, on the sample database.\<close>

definition no_grants :: authorization_grants where
  "no_grants = \<lparr>ag_platform = [], ag_memberships = []\<rparr>"

definition sample_codec :: codec where
  "sample_codec = \<lparr>gc_stringify = (\<lambda>g. if g = no_grants then ''{}'' else []),
     gc_parse = (\<lambda>v. if v = ''{}'' then Some no_grants else None)\<rparr>"

lemma sample_db: "loadGrantsFromDatabase ''u'' sample_world = no_grants"
  by (simp add: loadGrantsFromDatabase_def no_grants_def sample_defs split: option.split)

lemma sample_codec_ok: "codec_ok sample_codec no_grants"
  by (simp add: codec_ok_def sample_codec_def)

lemma sample_epoch: "epoch_persists sample_world" "redis_up sample_world"
  "readEpoch 5 sample_world = Some ''0''"
  by (simp_all add: epoch_persists_def readEpoch_def redis_get_def sample_defs)

lemma load_after_invalidation_witness:
  "fst (loadGrants sample_codec 60 ''u'' 9 (invalidateUser ''u'' 5 sample_world)) = no_grants"
  using load_after_invalidation [of sample_world sample_codec 60 "''u''" 9 5] sample_epoch sample_db
  by simp

lemma sample_codec_sound: "codec_sound sample_codec"
  by (simp add: codec_sound_def sample_codec_def)

text \<open>A load fills the cache, and 59 seconds later the entry is still served.\<close>

definition empty_cache :: grants_state where
  "empty_cache = \<lparr>gs_now = 5, gs_world = sample_world, gs_past = [(5, sample_world)]\<rparr>"

definition filled_world :: world where
  "filled_world = writeCachedGrants sample_codec 60 (buildCacheKey ''0'' ''u'') (loadGrantsFromDatabase ''u'' sample_world)
     5 sample_world"

definition filled_cache :: grants_state where
  "filled_cache = moved (moved empty_cache 5 filled_world) 59000 filled_world"

lemma filled_reachable: "reachable nothing_cached (grants_step sample_codec 60 0) filled_cache"
proof -
  have "reachable nothing_cached (grants_step sample_codec 60 0) empty_cache"
    by (rule reachable.start) (simp add: nothing_cached_def empty_cache_def sample_defs)
  moreover have "grants_step sample_codec 60 0 empty_cache (moved empty_cache 5 filled_world)"
    using grants_step.fills [of 5 sample_world empty_cache "''0''" 5 sample_world 0 sample_codec 60 "''u''"]
      sample_epoch(3)
    by (simp add: empty_cache_def filled_world_def)
  ultimately have "reachable nothing_cached (grants_step sample_codec 60 0) (moved empty_cache 5 filled_world)"
    by (rule reachable.next_step)
  moreover have "grants_step sample_codec 60 0 (moved empty_cache 5 filled_world) filled_cache"
    using grants_step.waits [of "moved empty_cache 5 filled_world" 59000 sample_codec 60 0]
    by (simp add: filled_cache_def moved_def)
  ultimately show ?thesis by (rule reachable.next_step)
qed

lemma cached_grants_recent_witness:
  "readCachedGrants sample_codec (buildCacheKey ''0'' ''u'') 59000 filled_world = Some no_grants \<and>
   (\<exists>(t0, w0) \<in> set (gs_past filled_cache). 59000 - 60000 \<le> t0 \<and>
      fst (loadGrants sample_codec 60 ''u'' 59000 filled_world) = loadGrantsFromDatabase ''u'' w0)"
proof
  show "readCachedGrants sample_codec (buildCacheKey ''0'' ''u'') 59000 filled_world = Some no_grants"
    using sample_epoch(2) unfolding filled_world_def sample_db
    by (simp add: readCachedGrants_def writeCachedGrants_def redis_get_set_same sample_codec_def)
  have "gs_now filled_cache = 59000" "gs_world filled_cache = filled_world"
    by (simp_all add: filled_cache_def moved_def)
  with cached_grants_recent [OF sample_codec_sound _ _ filled_reachable, of "''u''"]
  show "\<exists>(t0, w0) \<in> set (gs_past filled_cache). 59000 - 60000 \<le> t0 \<and>
      fst (loadGrants sample_codec 60 ''u'' 59000 filled_world) = loadGrantsFromDatabase ''u'' w0"
    by simp
qed

lemma stale_fill_survives_invalidation_witness:
  "fst (loadGrants sample_codec 60 ''u'' 59000
     (writeCachedGrants sample_codec 60 (buildCacheKey ''0'' ''u'') no_grants 5
       (invalidateUser ''u'' 5 sample_world))) = no_grants"
  by (rule stale_fill_survives_invalidation [OF sample_codec_ok sample_epoch(2,1,3)]) simp

end
