(* ===== verification/Ability_Properties.thy ===== *)
theory Ability_Properties
  imports Ability
begin

text \<open>
  What the factory compiles, rule by rule; that its rules keep a caller inside the tenants they are an
  active member of; that a query filter selects exactly the rows the ability allows; and what the guard
  admits.
\<close>

section \<open>The rules the factory makes\<close>

text \<open>The three ways a rule comes about.\<close>

definition staff_rule :: "permission_grant list \<Rightarrow> rule \<Rightarrow> bool" where
  "staff_rule ps r \<longleftrightarrow>
     (\<exists>p \<in> set ps. pg_scope p = PLATFORM \<and> pg_ownership p = ANY \<and>
        r = can_rule (pg_action p) (pg_subject p) None)"

definition own_rule :: "ident \<Rightarrow> permission_grant list \<Rightarrow> rule \<Rightarrow> bool" where
  "own_rule userId ps r \<longleftrightarrow>
     (\<exists>p \<in> set ps. \<exists>k. pg_scope p = PLATFORM \<and> pg_ownership p = OWN \<and>
        SUBJECT_OWNER_KEY (pg_subject p) = Some k \<and>
        r = can_rule (pg_action p) (pg_subject p) (Some (k, userId)))"

definition bound_rule :: "ident \<Rightarrow> permission_grant \<Rightarrow> rule \<Rightarrow> bool" where
  "bound_rule ws p r \<longleftrightarrow>
     (\<exists>k. pg_scope p = WORKSPACE \<and> SUBJECT_TENANT_KEY (pg_subject p) = Some k \<and>
        r = can_rule (pg_action p) (pg_subject p) (Some (k, ws)))"

definition member_rule :: "membership_grant \<Rightarrow> rule \<Rightarrow> bool" where
  "member_rule m r \<longleftrightarrow>
     mg_status m = ACTIVE \<and>
     (\<exists>ws. mg_workspace_id m = Some ws \<and> ws \<noteq> [] \<and> (\<exists>p \<in> set (mg_permissions m). bound_rule ws p r))"

definition tenant_rule :: "membership_grant list \<Rightarrow> rule \<Rightarrow> bool" where
  "tenant_rule ms r \<longleftrightarrow> (\<exists>m \<in> set ms. member_rule m r)"

lemma grant_rules:
  "grant p userId = Inr rs \<Longrightarrow> pg_scope p = PLATFORM \<Longrightarrow>
   r \<in> set rs \<longleftrightarrow> staff_rule [p] r \<or> own_rule userId [p] r"
  by (auto simp: grant_def staff_rule_def own_rule_def svc split: ownership.splits)

lemma staff_rule_Cons: "staff_rule (p # ps) r \<longleftrightarrow> staff_rule [p] r \<or> staff_rule ps r"
  by (auto simp: staff_rule_def)

lemma own_rule_Cons: "own_rule u (p # ps) r \<longleftrightarrow> own_rule u [p] r \<or> own_rule u ps r"
  by (auto simp: own_rule_def)

lemma platform_rules_set:
  "platform_rules userId ps = Inr rs \<Longrightarrow> r \<in> set rs \<longleftrightarrow> staff_rule ps r \<or> own_rule userId ps r"
proof (induction ps arbitrary: rs)
  case Nil
  then show ?case by (simp add: staff_rule_def own_rule_def)
next
  case (Cons p ps)
  show ?case
  proof (cases "pg_scope p = PLATFORM")
    case True
    with Cons.prems obtain xs ys where "grant p userId = Inr xs"
      "platform_rules userId ps = Inr ys" "rs = xs @ ys"
      by (auto simp: svc)
    with Cons.IH grant_rules True show ?thesis
      by (simp add: staff_rule_Cons [of p ps] own_rule_Cons [of userId p ps]) blast
  next
    case False
    then have "\<not> staff_rule [p] r" "\<not> own_rule userId [p] r"
      by (simp_all add: staff_rule_def own_rule_def)
    with Cons False show ?thesis by (simp add: staff_rule_Cons [of p ps] own_rule_Cons [of userId p ps])
  qed
qed

lemma tenant_rules_set:
  "tenant_rules ws ps = Inr rs \<Longrightarrow> r \<in> set rs \<longleftrightarrow> (\<exists>p \<in> set ps. bound_rule ws p r)"
proof (induction ps arbitrary: rs)
  case (Cons p ps)
  show ?case
  proof (cases "pg_scope p = WORKSPACE")
    case True
    with Cons.prems obtain k rest where "SUBJECT_TENANT_KEY (pg_subject p) = Some k"
      "tenant_rules ws ps = Inr rest"
      "rs = can_rule (pg_action p) (pg_subject p) (Some (k, ws)) # rest"
      by (auto simp: svc)
    with Cons.IH True show ?thesis by (simp add: bound_rule_def)
  next
    case False
    with Cons show ?thesis by (simp add: bound_rule_def)
  qed
qed simp

lemma membership_rules_set:
  "membership_rules ms = Inr rs \<Longrightarrow> r \<in> set rs \<longleftrightarrow> tenant_rule ms r"
proof (induction ms arbitrary: rs)
  case (Cons m ms)
  show ?case
  proof (cases "mg_status m \<noteq> ACTIVE \<or> mg_workspace_id m = None \<or> mg_workspace_id m = Some []")
    case True
    then have "\<not> member_rule m r" by (auto simp: member_rule_def)
    moreover have "membership_rules ms = Inr rs"
      using Cons.prems True by (auto split: if_splits)
    ultimately show ?thesis using Cons.IH by (simp add: tenant_rule_def)
  next
    case False
    then obtain ws where ws: "mg_workspace_id m = Some ws" "ws \<noteq> []" "mg_status m = ACTIVE" by auto
    with Cons.prems obtain xs ys where "tenant_rules ws (mg_permissions m) = Inr xs"
      "membership_rules ms = Inr ys" "rs = xs @ ys"
      by (auto simp: svc)
    with Cons.IH tenant_rules_set ws show ?thesis
      by (simp add: tenant_rule_def member_rule_def)
  qed
qed (simp add: tenant_rule_def)

definition user_rule :: "ident \<Rightarrow> authorization_grants \<Rightarrow> rule \<Rightarrow> bool" where
  "user_rule userId g r \<longleftrightarrow>
     (let ps = map definition_grant AUTHENTICATED_USER_PERMISSIONS @ ag_platform g
      in staff_rule ps r \<or> own_rule userId ps r \<or> tenant_rule (ag_memberships g) r)"

lemma ability_core:
  assumes "createForUser userId g = Inr ab"
  shows "r \<in> set ab \<longleftrightarrow> user_rule userId g r"
proof -
  let ?own = "map definition_grant AUTHENTICATED_USER_PERMISSIONS"
  obtain xs ys zs where "platform_rules userId ?own = Inr xs"
    "platform_rules userId (ag_platform g) = Inr ys"
    "membership_rules (ag_memberships g) = Inr zs" "ab = xs @ ys @ zs"
    using assms by (auto simp: createForUser_def svc)
  then show ?thesis
    using platform_rules_set membership_rules_set
    by (auto simp: user_rule_def Let_def staff_rule_def own_rule_def)
qed

text \<open>An ability holds exactly these rules: an unconditional one for each platform permission over
  any row, one bound to the caller's own column for each own-row permission, and one bound to the
  workspace for each workspace permission of an active membership that names its workspace.  Grants
  of another scope or ownership, suspended memberships and memberships without a workspace leave no
  rule.\<close>

theorem ability_rules:
  assumes "createForUser userId g = Inr ab"
  shows "r \<in> set ab \<longleftrightarrow> user_rule userId g r"
  using assms by (rule ability_core)

lemma ability_not_inverted: "createForUser userId g = Inr ab \<Longrightarrow> r \<in> set ab \<Longrightarrow> \<not> ru_inverted r"
proof -
  assume "createForUser userId g = Inr ab" and "r \<in> set ab"
  then obtain xs ys zs where
    "platform_rules userId (map definition_grant AUTHENTICATED_USER_PERMISSIONS) = Inr xs"
    "platform_rules userId (ag_platform g) = Inr ys"
    "membership_rules (ag_memberships g) = Inr zs" "r \<in> set xs \<union> set ys \<union> set zs"
    by (auto simp: createForUser_def svc)
  then show ?thesis
    using platform_rules_set membership_rules_set
    by (fastforce simp: staff_rule_def own_rule_def tenant_rule_def member_rule_def bound_rule_def
        can_rule_def)
qed

section \<open>Tenant isolation\<close>

text \<open>Platform authority over every row: a platform grant of ownership \<open>ANY\<close>.\<close>

definition staff_over :: "authorization_grants \<Rightarrow> action \<Rightarrow> subject \<Rightarrow> bool" where
  "staff_over g a s \<longleftrightarrow>
     (\<exists>p \<in> set (ag_platform g). pg_scope p = PLATFORM \<and> pg_ownership p = ANY \<and>
        (pg_action p = a \<or> pg_action p = A_manage) \<and> (pg_subject p = s \<or> pg_subject p = S_all))"

text \<open>Authority through an active membership of the workspace.\<close>

definition member_over :: "authorization_grants \<Rightarrow> ident option \<Rightarrow> action \<Rightarrow> subject \<Rightarrow> bool" where
  "member_over g ws a s \<longleftrightarrow>
     (\<exists>m \<in> set (ag_memberships g). mg_status m = ACTIVE \<and> mg_workspace_id m = ws \<and> ws \<noteq> None \<and>
        (\<exists>p \<in> set (mg_permissions m). pg_scope p = WORKSPACE \<and> pg_subject p = s \<and>
           (pg_action p = a \<or> pg_action p = A_manage)))"

lemma tenant_key_not_all: "SUBJECT_TENANT_KEY s = Some k \<Longrightarrow> s \<noteq> S_all"
  by (cases s) auto

lemma owner_key_not_all: "SUBJECT_OWNER_KEY s = Some k \<Longrightarrow> s \<noteq> S_all"
  by (cases s) auto

text \<open>The one tenant-scoped thing every account may do without a row: create a workspace.\<close>

lemma authenticated_staff_rule:
  assumes "staff_rule (map definition_grant AUTHENTICATED_USER_PERMISSIONS) r"
    and "relevant a s r" and "SUBJECT_TENANT_KEY s = Some k"
  shows "s = S_Workspace \<and> a = A_create"
  using assms
  by (cases s) (auto simp: staff_rule_def AUTHENTICATED_USER_PERMISSIONS_def permission_defs
      definition_grant_def platform_def workspace_def relevant_def can_rule_def)

lemma staff_rule_append: "staff_rule (xs @ ys) r \<longleftrightarrow> staff_rule xs r \<or> staff_rule ys r"
  by (auto simp: staff_rule_def)

lemma relevant_user_rule:
  assumes "user_rule userId g r" and "relevant a s r" and "SUBJECT_TENANT_KEY s = Some k"
    and "s = S_Workspace \<longrightarrow> a \<noteq> A_create"
  shows "staff_over g a s \<or>
    (\<exists>ok. SUBJECT_OWNER_KEY s = Some ok \<and> ru_conditions r = Some (ok, userId)) \<or>
    (\<exists>ws. ru_conditions r = Some (k, ws) \<and> member_over g (Some ws) a s)"
proof -
  let ?ps = "map definition_grant AUTHENTICATED_USER_PERMISSIONS @ ag_platform g"
  consider "staff_rule ?ps r" | "own_rule userId ?ps r" | "tenant_rule (ag_memberships g) r"
    using assms(1) by (auto simp: user_rule_def Let_def)
  then show ?thesis
  proof cases
    case 1
    then have "staff_rule (ag_platform g) r"
      using authenticated_staff_rule assms(2-4) by (auto simp: staff_rule_append)
    then show ?thesis
      using assms(2) by (auto simp: staff_rule_def staff_over_def relevant_def can_rule_def)
  next
    case 2
    then show ?thesis
      using assms(2) by (auto simp: own_rule_def relevant_def can_rule_def dest: owner_key_not_all)
  next
    case 3
    then obtain m ws p k' where m: "m \<in> set (ag_memberships g)" "mg_status m = ACTIVE"
      "mg_workspace_id m = Some ws" "p \<in> set (mg_permissions m)" "pg_scope p = WORKSPACE"
      "SUBJECT_TENANT_KEY (pg_subject p) = Some k'"
      "r = can_rule (pg_action p) (pg_subject p) (Some (k', ws))"
      by (auto simp: tenant_rule_def member_rule_def bound_rule_def)
    then have "pg_subject p = s" "pg_action p = a \<or> pg_action p = A_manage"
      using assms(2) tenant_key_not_all by (auto simp: relevant_def can_rule_def)
    with m assms(3) show ?thesis
      by (auto simp: member_over_def can_rule_def)
  qed
qed

text \<open>The laws, on the rules of a built ability.\<close>

lemma casl_ability:
  assumes "casl_laws c" and "createForUser userId g = Inr ab"
  shows "can_type c ab a s \<longleftrightarrow> (\<exists>r \<in> set ab. relevant a s r)"
    and "can_on c ab a s row \<longleftrightarrow> (\<exists>r \<in> set ab. relevant a s r \<and> condition_holds row r)"
    and "set (rules_for c ab a s) = {r \<in> set ab. relevant a s r}"
    and "accessible_by c ab a s =
      (if \<exists>r \<in> set ab. relevant a s r \<and> ru_conditions r = None then Unrestricted
       else AnyOf (map (\<lambda>r. the (ru_conditions r)) (filter (relevant a s) ab)))"
  using assms(1) [unfolded casl_laws_def, rule_format, OF ability_not_inverted [OF assms(2)]]
  by blast+

lemma authenticated_unscoped_rule:
  assumes "staff_rule (map definition_grant AUTHENTICATED_USER_PERMISSIONS) r"
    and "relevant a s r"
  shows "SUBJECT_OWNER_KEY s = None"
  using assms
  by (cases s) (auto simp: staff_rule_def AUTHENTICATED_USER_PERMISSIONS_def permission_defs
      definition_grant_def platform_def workspace_def relevant_def can_rule_def)

lemma relevant_unscoped_rule:
  assumes "user_rule userId g r" and "relevant a s r" and "SUBJECT_TENANT_KEY s = None"
    and "SUBJECT_OWNER_KEY s = Some ok"
  shows "staff_over g a s \<or> ru_conditions r = Some (ok, userId)"
proof -
  let ?ps = "map definition_grant AUTHENTICATED_USER_PERMISSIONS @ ag_platform g"
  consider "staff_rule ?ps r" | "own_rule userId ?ps r" | "tenant_rule (ag_memberships g) r"
    using assms(1) by (auto simp: user_rule_def Let_def)
  then show ?thesis
  proof cases
    case 1
    then have "staff_rule (ag_platform g) r"
      using authenticated_unscoped_rule assms(2,4) by (auto simp: staff_rule_append)
    then show ?thesis
      using assms(2) by (auto simp: staff_rule_def staff_over_def relevant_def can_rule_def)
  next
    case 2
    then show ?thesis
      using assms(2,4) by (auto simp: own_rule_def relevant_def can_rule_def dest: owner_key_not_all)
  next
    case 3
    then show ?thesis
      using assms(2,3) tenant_key_not_all
      by (auto simp: tenant_rule_def member_rule_def bound_rule_def relevant_def can_rule_def)
  qed
qed

lemma can_on_rule:
  assumes "casl_laws c" and "createForUser userId g = Inr ab"
  shows "can_on c ab a s row \<longleftrightarrow> (\<exists>r. user_rule userId g r \<and> relevant a s r \<and> condition_holds row r)"
  using casl_ability(2) [OF assms] ability_core [OF assms(2)] by blast

text \<open>C3: tenant isolation.  A caller without platform authority over a tenant-scoped subject is allowed
  an action on a record only if the record is the caller's own, or the caller is an active member of
  the workspace the record belongs to, with a role that grants that action on that subject.\<close>

theorem tenant_isolation:
  assumes "casl_laws c" and "createForUser userId g = Inr ab"
    and "SUBJECT_TENANT_KEY s = Some k" and "s = S_Workspace \<longrightarrow> a \<noteq> A_create"
    and "\<not> staff_over g a s" and "can_on c ab a s row"
  shows "(\<exists>ok. SUBJECT_OWNER_KEY s = Some ok \<and> row ok = Some userId) \<or> member_over g (row k) a s"
proof -
  obtain r where r: "user_rule userId g r" "relevant a s r" "condition_holds row r"
    using assms(6) can_on_rule [OF assms(1,2)] by blast
  from relevant_user_rule [OF r(1,2) assms(3,4)] assms(5) r(3) show ?thesis
    by (auto simp: condition_holds_def)
qed

section \<open>Totality\<close>

definition grant_ok :: "permission_grant \<Rightarrow> bool" where
  "grant_ok p \<longleftrightarrow>
     (pg_scope p = PLATFORM \<longrightarrow> pg_ownership p = OWN \<longrightarrow> isOwnableSubject (pg_subject p)) \<and>
     (pg_scope p = WORKSPACE \<longrightarrow> isTenantScopedSubject (pg_subject p))"

lemma platform_rules_total: "\<forall>p \<in> set ps. grant_ok p \<Longrightarrow> \<exists>rs. platform_rules userId ps = Inr rs"
proof (induction ps)
  case (Cons p ps)
  then obtain rest where rest: "platform_rules userId ps = Inr rest" by auto
  show ?case
  proof (cases "pg_scope p = PLATFORM")
    case True
    with Cons.prems have "\<exists>rs. grant p userId = Inr rs"
      by (auto simp: grant_ok_def grant_def isOwnableSubject_def resolveOwnerKey_def
          split: ownership.splits)
    with rest True show ?thesis by auto
  qed (simp add: rest)
qed simp

lemma tenant_rules_total: "\<forall>p \<in> set ps. grant_ok p \<Longrightarrow> \<exists>rs. tenant_rules ws ps = Inr rs"
proof (induction ps)
  case (Cons p ps)
  then obtain rest where rest: "tenant_rules ws ps = Inr rest" by auto
  show ?case
  proof (cases "pg_scope p = WORKSPACE")
    case True
    with Cons.prems have "\<exists>k. resolveTenantKey (pg_subject p) = Inr k"
      by (auto simp: grant_ok_def isTenantScopedSubject_def resolveTenantKey_def)
    with rest True show ?thesis by auto
  qed (simp add: rest)
qed simp

lemma membership_rules_total:
  "\<forall>m \<in> set ms. \<forall>p \<in> set (mg_permissions m). grant_ok p \<Longrightarrow> \<exists>rs. membership_rules ms = Inr rs"
proof (induction ms)
  case (Cons m ms)
  then obtain rest where rest: "membership_rules ms = Inr rest" by auto
  obtain xs where "tenant_rules (the (mg_workspace_id m)) (mg_permissions m) = Inr xs"
    using tenant_rules_total Cons.prems by (meson list.set_intros(1))
  with rest show ?case by simp
qed simp

lemma catalog_grant_ok: "d \<in> set PERMISSION_CATALOG \<Longrightarrow> grant_ok (definition_grant d)"
  using catalog_well_scoped
  by (fastforce simp: grant_ok_def definition_grant_def well_scoped_def split: role_scope.splits)

text \<open>Whatever roles a caller holds, if their permissions come from the catalog the factory returns
  an ability; it never fails a request.\<close>

theorem factory_total:
  assumes "set (ag_platform g) \<subseteq> definition_grant ` set PERMISSION_CATALOG"
    and "\<forall>m \<in> set (ag_memberships g).
      set (mg_permissions m) \<subseteq> definition_grant ` set PERMISSION_CATALOG"
  shows "\<exists>ab. createForUser userId g = Inr ab"
proof -
  have ok: "grant_ok p" if "p \<in> definition_grant ` set PERMISSION_CATALOG" for p
    using that catalog_grant_ok by blast
  obtain xs where "platform_rules userId (map definition_grant AUTHENTICATED_USER_PERMISSIONS) = Inr xs"
    using platform_rules_total [of "map definition_grant AUTHENTICATED_USER_PERMISSIONS"]
      authenticated_in_catalog ok by fastforce
  moreover obtain ys where "platform_rules userId (ag_platform g) = Inr ys"
    using platform_rules_total assms(1) ok by (meson subsetD)
  moreover obtain zs where "membership_rules (ag_memberships g) = Inr zs"
    using membership_rules_total assms(2) ok by (meson subsetD)
  ultimately show ?thesis by (simp add: createForUser_def)
qed

section \<open>Queries\<close>

lemma buildWhere_exact:
  assumes "casl_laws c" and "createForUser userId g = Inr ab" and "can_type c ab a s"
  obtains q where "buildWhere c ab a s callerWhere = Inr q"
    "\<And>row. selects q row \<longleftrightarrow> callerWhere row \<and> can_on c ab a s row"
proof -
  note type = casl_ability(1) [OF assms(1,2)] and on = casl_ability(2) [OF assms(1,2)]
    and by_rule = casl_ability(4) [OF assms(1,2)]
  show thesis
  proof (cases "\<exists>r \<in> set ab. relevant a s r \<and> ru_conditions r = None")
    case True
    then have "buildWhere c ab a s callerWhere = Inr (Where Unrestricted callerWhere)"
      using type by_rule by (auto simp: buildWhere_def)
    moreover have "can_on c ab a s row" for row
      using True unfolding on by (force simp: condition_holds_def)
    ultimately show thesis using that by fastforce
  next
    case False
    let ?f = "AnyOf (map (\<lambda>r. the (ru_conditions r)) (filter (relevant a s) ab))"
    have sel: "fragment_selects ?f row \<longleftrightarrow> can_on c ab a s row" for row
      using False unfolding on
      by (fastforce simp: condition_holds_def split: option.splits prod.splits)
    have "filter (relevant a s) ab \<noteq> []" using assms(3) type by (auto simp: filter_empty_conv)
    then have built: "buildWhere c ab a s callerWhere = Inr (Where ?f callerWhere)"
      using assms(3) False by_rule by (auto simp: buildWhere_def neq_Nil_conv)
    show thesis
      by (rule that [OF built]) (simp only: selects.simps sel conj_commute)
  qed
qed

text \<open>C22: the query filter of a list or a lookup selects exactly the caller-filtered rows the ability
  allows the action on; a caller with no relevant rule gets the filter that selects none.\<close>

theorem scoped_query_exact:
  assumes "casl_laws c" and "createForUser userId g = Inr ab"
  shows "\<exists>q. buildWhereOrEmpty c ab a s callerWhere = Inr q \<and>
    (\<forall>row. selects q row \<longleftrightarrow> callerWhere row \<and> can_on c ab a s row)"
proof (cases "can_type c ab a s")
  case True
  then show ?thesis using buildWhere_exact [OF assms True] by (metis buildWhereOrEmpty_def)
next
  case False
  then have "\<not> can_on c ab a s row" for row using casl_ability(1,2) [OF assms] by blast
  with False show ?thesis by (simp add: buildWhereOrEmpty_def)
qed

text \<open>Independently of how the rule engine behaves, a filter is never built from an empty
  disjunction, the shape the database layer would drop.\<close>

theorem filter_never_empty_disjunction:
  "case buildWhere c ab a s callerWhere of
     Inl e \<Rightarrow> e = denied a s
   | Inr q \<Rightarrow> can_type c ab a s \<and> (\<exists>f. q = Where f callerWhere \<and> f \<noteq> AnyOf [])"
  by (auto simp: buildWhere_def split: fragment.splits list.splits sum.splits)

section \<open>The guard\<close>

text \<open>An administrative route of a subject accounts can own is not opened by owning the record: the
  caller is platform staff over the subject, or an active member of some workspace whose role grants
  the action.\<close>

theorem administrative_route_guard:
  assumes "casl_laws c" and "createForUser userId g = Inr ab"
    and "rp_is_administrative req" and "SUBJECT_OWNER_KEY (rp_subject req) = Some ok"
    and "decide c ab userId req ws = Inr d"
  shows "staff_over g (rp_action req) (rp_subject req) \<or>
    (\<exists>w. member_over g (Some w) (rp_action req) (rp_subject req))"
proof -
  let ?a = "rp_action req" and ?s = "rp_subject req"
  have "hasNonOwnerScopedRule c ab ?a ?s = Inr True"
    using assms(3,5) by (auto simp: decide_def Let_def svc)
  then obtain r where "r \<in> set (rules_for c ab ?a ?s)"
    and notown: "\<forall>v. ru_conditions r \<noteq> Some (ok, v)"
    using assms(4)
    by (auto simp: hasNonOwnerScopedRule_def isOwnableSubject_def resolveOwnerKey_def
        split: option.splits)
  then have r: "user_rule userId g r" "relevant ?a ?s r"
    using casl_ability(3) [OF assms(1,2)] ability_core [OF assms(2)] by auto
  show ?thesis
  proof (cases "SUBJECT_TENANT_KEY ?s")
    case (Some k)
    from relevant_user_rule [OF r Some] assms(4) notown show ?thesis by (cases ?s) auto
  next
    case None
    from relevant_unscoped_rule [OF r None assms(4)] notown show ?thesis by auto
  qed
qed

text \<open>A route on records inside a workspace is refused to an outsider.  When the guard admits the
  caller to it, the request named a workspace, and the caller is platform staff, an active member of
  that workspace with a granting role, or acting on a record of their own.\<close>

theorem workspace_route_guard:
  assumes "casl_laws c" and "createForUser userId g = Inr ab"
    and "SUBJECT_TENANT_KEY (rp_subject req) = Some k" and "rp_subject req \<noteq> S_Workspace"
    and "\<not> rp_is_denied_as_not_found req" and "decide c ab userId req ws = Inr d"
  shows "ws \<noteq> None \<and>
    (staff_over g (rp_action req) (rp_subject req) \<or>
     isOwnableSubject (rp_subject req) \<or>
     member_over g ws (rp_action req) (rp_subject req))"
proof -
  let ?a = "rp_action req" and ?s = "rp_subject req"
  obtain w stub where ws: "ws = Some w" and stub: "buildTenantStub ?s w userId = Inr stub"
    and can: "can_on c ab ?a ?s stub"
    using assms(3-6)
    by (auto simp: decide_def Let_def svc isTenantScopedSubject_def split: if_splits)
  have "stub k = Some w"
    using stub assms(3,4)
    by (cases ?s) (auto simp: buildTenantStub_def resolveTenantKey_def resolveOwnerKey_def
        isOwnableSubject_def)
  moreover obtain r where r: "user_rule userId g r" "relevant ?a ?s r" "condition_holds stub r"
    using can can_on_rule [OF assms(1,2)] by blast
  ultimately show ?thesis
    using relevant_user_rule [OF r(1,2) assms(3)] assms(4) ws
    by (auto simp: condition_holds_def isOwnableSubject_def)
qed

end
