(* ===== verification/Ability_Witnesses.thy ===== *)
theory Ability_Witnesses
  imports Ability_Properties
begin

text \<open>
  The witnesses of the authorization properties: a rule engine with the documented behaviour, and a
  caller who is an active member of one workspace and a suspended member of another.
\<close>

definition sample_casl :: casl where
  "sample_casl =
     \<lparr>can_type = (\<lambda>rs a s. list_ex (relevant a s) rs),
      can_on = (\<lambda>rs a s row. list_ex (\<lambda>r. relevant a s r \<and> condition_holds row r) rs),
      rules_for = (\<lambda>rs a s. filter (relevant a s) rs),
      accessible_by = (\<lambda>rs a s.
        if list_ex (\<lambda>r. relevant a s r \<and> ru_conditions r = None) rs then Unrestricted
        else AnyOf (map (\<lambda>r. the (ru_conditions r)) (filter (relevant a s) rs)))\<rparr>"

lemma sample_casl_laws: "casl_laws sample_casl"
  by (auto simp: casl_laws_def sample_casl_def list_ex_iff)

definition sample_member :: "ident \<Rightarrow> membership_status \<Rightarrow> membership_grant" where
  "sample_member ws st =
     \<lparr>mg_membership_id = ''m'' @ ws, mg_workspace_id = Some ws, mg_role_id = ''r'',
      mg_role_name = WORKSPACE_STAFF, mg_status = st,
      mg_permissions = [definition_grant READ_WORKSPACE, definition_grant READ_WORKSPACE_MEMBERSHIP]\<rparr>"

definition sample_grants :: authorization_grants where
  "sample_grants =
     \<lparr>ag_platform = [], ag_memberships = [sample_member ''w'' ACTIVE, sample_member ''x'' SUSPENDED]\<rparr>"

definition sample_ability :: ability where
  "sample_ability =
     (case createForUser ''u'' sample_grants of Inr ab \<Rightarrow> ab | Inl _ \<Rightarrow> [])"

lemmas sample_ability_defs = sample_grants_def sample_member_def definition_grant_def
  READ_WORKSPACE_def READ_WORKSPACE_MEMBERSHIP_def workspace_def

lemma sample_catalog:
  "set (ag_platform sample_grants) \<subseteq> definition_grant ` set PERMISSION_CATALOG"
  "\<forall>m \<in> set (ag_memberships sample_grants).
     set (mg_permissions m) \<subseteq> definition_grant ` set PERMISSION_CATALOG"
  by (auto simp: sample_grants_def sample_member_def PERMISSION_CATALOG_def)

lemma factory_total_witness: "\<exists>ab. createForUser ''u'' sample_grants = Inr ab"
  by (rule factory_total [OF sample_catalog])

lemma sample_created: "createForUser ''u'' sample_grants = Inr sample_ability"
proof -
  have "\<exists>xs. platform_rules ''u'' (map definition_grant AUTHENTICATED_USER_PERMISSIONS) = Inr xs"
    using authenticated_in_catalog catalog_grant_ok by (intro platform_rules_total) fastforce
  then have "\<exists>ab. createForUser ''u'' sample_grants = Inr ab"
    by (auto simp: createForUser_def sample_ability_defs resolveTenantKey_def)
  then show ?thesis by (auto simp: sample_ability_def)
qed

lemma sample_tenant_rule:
  "user_rule ''u'' sample_grants
     (can_rule A_read S_WorkspaceMembership (Some (''workspaceId'', ''w'')))"
  by (simp add: user_rule_def Let_def tenant_rule_def member_rule_def bound_rule_def
      sample_ability_defs can_rule_def)

lemma ability_rules_witness:
  "can_rule A_read S_WorkspaceMembership (Some (''workspaceId'', ''w'')) \<in> set sample_ability"
  using ability_rules [OF sample_created] sample_tenant_rule by blast

lemma tenant_isolation_witness:
  "member_over sample_grants (Some ''w'') A_read S_WorkspaceMembership"
proof -
  let ?row = "[''workspaceId'' \<mapsto> ''w'', ''userId'' \<mapsto> ''other'']"
  have no: "\<not> staff_over sample_grants A_read S_WorkspaceMembership"
    by (simp add: staff_over_def sample_grants_def)
  have "condition_holds ?row (can_rule A_read S_WorkspaceMembership (Some (''workspaceId'', ''w'')))"
    "relevant A_read S_WorkspaceMembership
       (can_rule A_read S_WorkspaceMembership (Some (''workspaceId'', ''w'')))"
    by (simp_all add: condition_holds_def can_rule_def relevant_def)
  then have on: "can_on sample_casl sample_ability A_read S_WorkspaceMembership ?row"
    using sample_tenant_rule can_on_rule [OF sample_casl_laws sample_created] by blast
  have k: "SUBJECT_TENANT_KEY S_WorkspaceMembership = Some ''workspaceId''"
    "S_WorkspaceMembership = S_Workspace \<longrightarrow> A_read \<noteq> A_create" by simp_all
  from tenant_isolation [OF sample_casl_laws sample_created k no on] show ?thesis by simp
qed

lemma scoped_query_exact_witness:
  "\<exists>q. buildWhereOrEmpty sample_casl sample_ability A_read S_WorkspaceInvitation (\<lambda>_. True) = Inr q \<and>
    (\<forall>row. selects q row \<longleftrightarrow> can_on sample_casl sample_ability A_read S_WorkspaceInvitation row)"
  using scoped_query_exact [OF sample_casl_laws sample_created, of A_read S_WorkspaceInvitation
      "\<lambda>_. True"] by simp

definition admin_req :: required_permission where
  "admin_req = \<lparr>rp_action = A_read, rp_subject = S_WorkspaceMembership,
     rp_is_administrative = True, rp_is_denied_as_not_found = False\<rparr>"

lemma sample_decide: "decide sample_casl sample_ability ''u'' admin_req (Some ''w'') = Inr True"
proof -
  let ?r = "can_rule A_read S_WorkspaceMembership (Some (''workspaceId'', ''w''))"
  have r: "?r \<in> set sample_ability"
    using ability_core [OF sample_created] sample_tenant_rule by blast
  have rel: "relevant A_read S_WorkspaceMembership ?r" by (simp add: relevant_def can_rule_def)
  have adm: "hasNonOwnerScopedRule sample_casl sample_ability A_read S_WorkspaceMembership = Inr True"
    using casl_ability(3) [OF sample_casl_laws sample_created, of A_read S_WorkspaceMembership] r rel
    by (force simp: hasNonOwnerScopedRule_def isOwnableSubject_def resolveOwnerKey_def can_rule_def)
  have "can_on sample_casl sample_ability A_read S_WorkspaceMembership
      ([''workspaceId'' \<mapsto> ''w''](''userId'' \<mapsto> ''u''))"
    using casl_ability(2) [OF sample_casl_laws sample_created] r rel
    by (force simp: condition_holds_def can_rule_def)
  with adm show ?thesis
    by (simp add: decide_def Let_def admin_req_def buildTenantStub_def resolveTenantKey_def
        resolveOwnerKey_def isOwnableSubject_def isTenantScopedSubject_def)
qed

lemma sample_not_staff: "\<not> staff_over sample_grants A_read S_WorkspaceMembership"
  by (simp add: staff_over_def sample_grants_def)

lemma administrative_route_guard_witness:
  "\<exists>w. member_over sample_grants (Some w) A_read S_WorkspaceMembership"
  using administrative_route_guard [OF sample_casl_laws sample_created _ _ sample_decide]
    sample_not_staff by (simp add: admin_req_def)

lemma workspace_route_guard_witness:
  "Some ''w'' \<noteq> (None :: ident option) \<and>
   (staff_over sample_grants A_read S_WorkspaceMembership \<or> isOwnableSubject S_WorkspaceMembership \<or>
    member_over sample_grants (Some ''w'') A_read S_WorkspaceMembership)"
  using workspace_route_guard [OF sample_casl_laws sample_created _ _ _ sample_decide]
  by (simp add: admin_req_def)

end
