(* ===== verification/Catalog_Properties.thy ===== *)
theory Catalog_Properties
  imports Catalog
begin

text \<open>
  What the permission catalog promises: names identify permissions, each role's permissions have the
  role's scope, and the workspace roles form a ladder.
\<close>

text \<open>The words a name is made of.\<close>

lemma lower_capitals:
  "lower_char CHR ''A'' = CHR ''a''"
  "lower_char CHR ''D'' = CHR ''d''"
  "lower_char CHR ''I'' = CHR ''i''"
  "lower_char CHR ''J'' = CHR ''j''"
  "lower_char CHR ''L'' = CHR ''l''"
  "lower_char CHR ''M'' = CHR ''m''"
  "lower_char CHR ''O'' = CHR ''o''"
  "lower_char CHR ''P'' = CHR ''p''"
  "lower_char CHR ''Q'' = CHR ''q''"
  "lower_char CHR ''R'' = CHR ''r''"
  "lower_char CHR ''S'' = CHR ''s''"
  "lower_char CHR ''T'' = CHR ''t''"
  "lower_char CHR ''U'' = CHR ''u''"
  "lower_char CHR ''V'' = CHR ''v''"
  "lower_char CHR ''W'' = CHR ''w''"
  by (simp_all add: lower_char_def char_of_def bit_Suc_0_iff)

lemma lower_small:
  "lower_char CHR ''a'' = CHR ''a''"
  "lower_char CHR ''b'' = CHR ''b''"
  "lower_char CHR ''c'' = CHR ''c''"
  "lower_char CHR ''d'' = CHR ''d''"
  "lower_char CHR ''e'' = CHR ''e''"
  "lower_char CHR ''f'' = CHR ''f''"
  "lower_char CHR ''g'' = CHR ''g''"
  "lower_char CHR ''h'' = CHR ''h''"
  "lower_char CHR ''i'' = CHR ''i''"
  "lower_char CHR ''j'' = CHR ''j''"
  "lower_char CHR ''k'' = CHR ''k''"
  "lower_char CHR ''l'' = CHR ''l''"
  "lower_char CHR ''m'' = CHR ''m''"
  "lower_char CHR ''n'' = CHR ''n''"
  "lower_char CHR ''o'' = CHR ''o''"
  "lower_char CHR ''p'' = CHR ''p''"
  "lower_char CHR ''q'' = CHR ''q''"
  "lower_char CHR ''r'' = CHR ''r''"
  "lower_char CHR ''s'' = CHR ''s''"
  "lower_char CHR ''t'' = CHR ''t''"
  "lower_char CHR ''u'' = CHR ''u''"
  "lower_char CHR ''v'' = CHR ''v''"
  "lower_char CHR ''w'' = CHR ''w''"
  "lower_char CHR ''x'' = CHR ''x''"
  "lower_char CHR ''y'' = CHR ''y''"
  "lower_char CHR ''z'' = CHR ''z''"
  "lower_char CHR ''_'' = CHR ''_''"
  by (simp_all add: lower_char_def)

lemma snake_actions:
  "toSnakeCase (action_name A_manage) = ''manage''"
  "toSnakeCase (action_name A_create) = ''create''"
  "toSnakeCase (action_name A_read) = ''read''"
  "toSnakeCase (action_name A_update) = ''update''"
  "toSnakeCase (action_name A_delete) = ''delete''"
  "toSnakeCase (action_name A_resetPassword) = ''reset_password''"
  "toSnakeCase (action_name A_assignRole) = ''assign_role''"
  "toSnakeCase (action_name A_suspend) = ''suspend''"
  "toSnakeCase (action_name A_transferOwnership) = ''transfer_ownership''"
  "toSnakeCase (action_name A_retry) = ''retry''"
  "toSnakeCase (action_name A_cancel) = ''cancel''"
  "toSnakeCase (action_name A_readPayload) = ''read_payload''"
  "toSnakeCase (action_name A_revokeSession) = ''revoke_session''"
  "toSnakeCase (action_name A_resendVerification) = ''resend_verification''"
  by (simp_all add: toSnakeCase_def is_lower_def is_upper_def is_digit_def to_lower_case_def
      lower_capitals lower_small)

lemma snake_subjects:
  "toSnakeCase (subject_name S_all) = ''all''"
  "toSnakeCase (subject_name S_User) = ''user''"
  "toSnakeCase (subject_name S_Workspace) = ''workspace''"
  "toSnakeCase (subject_name S_WorkspaceMembership) = ''workspace_membership''"
  "toSnakeCase (subject_name S_WorkspaceInvitation) = ''workspace_invitation''"
  "toSnakeCase (subject_name S_Role) = ''role''"
  "toSnakeCase (subject_name S_Permission) = ''permission''"
  "toSnakeCase (subject_name S_AppVersion) = ''app_version''"
  "toSnakeCase (subject_name S_DeviceToken) = ''device_token''"
  "toSnakeCase (subject_name S_AuditLog) = ''audit_log''"
  "toSnakeCase (subject_name S_QueueJob) = ''queue_job''"
  by (simp_all add: toSnakeCase_def is_lower_def is_upper_def is_digit_def to_lower_case_def
      lower_capitals lower_small)

text \<open>Dot-free segments can be read back from the joined name.\<close>

lemma append_dot_inj:
  "CHR ''.'' \<notin> set s \<Longrightarrow> CHR ''.'' \<notin> set s' \<Longrightarrow>
   s @ ''.'' @ r = s' @ ''.'' @ r' \<longleftrightarrow> s = s' \<and> r = r'"
proof (induction s arbitrary: s')
  case Nil
  then show ?case by (cases s') auto
next
  case (Cons c s)
  then show ?case by (cases s') auto
qed

definition no_dot :: "string list \<Rightarrow> bool" where
  "no_dot xs \<longleftrightarrow> (\<forall>s \<in> set xs. CHR ''.'' \<notin> set s)"

lemma join_dots_free: "no_dot [s] \<Longrightarrow> join_dots (t # u # xs) \<noteq> s"
  by (auto simp: no_dot_def)

lemma join_dots_inj:
  "no_dot xs \<Longrightarrow> no_dot ys \<Longrightarrow> xs \<noteq> [] \<Longrightarrow> ys \<noteq> [] \<Longrightarrow> join_dots xs = join_dots ys \<Longrightarrow> xs = ys"
proof (induction xs arbitrary: ys rule: join_dots.induct)
  case (2 s)
  then show ?case
    by (cases ys rule: join_dots.cases) (auto simp: no_dot_def)
next
  case (3 s t ss)
  then show ?case
  proof (cases ys rule: join_dots.cases)
    case (2 s')
    with 3 show ?thesis using join_dots_free [of s' s t ss] by (simp add: no_dot_def)
  next
    case ys: (3 s' t' ss')
    with "3.prems" have "s = s'" "join_dots (t # ss) = join_dots (t' # ss')"
      using append_dot_inj [of s s'] by (auto simp: no_dot_def)
    with "3.IH" [of "t' # ss'"] "3.prems" ys show ?thesis by (simp add: no_dot_def)
  qed simp
qed simp

definition name_segments :: "permission_definition \<Rightarrow> string list" where
  "name_segments d =
     [scope_value (pd_scope d), toSnakeCase (subject_name (pd_subject d)),
      toSnakeCase (action_name (pd_action d))] @ (if pd_ownership d = OWN then [''own''] else [])"

definition name_key :: "permission_definition \<Rightarrow> role_scope \<times> subject \<times> action \<times> bool" where
  "name_key d = (pd_scope d, pd_subject d, pd_action d, pd_ownership d = OWN)"

lemma permission_keys:
  "name_key MANAGE_EVERYTHING = (PLATFORM, S_all, A_manage, False)"
  "name_key READ_ANY_USER = (PLATFORM, S_User, A_read, False)"
  "name_key CREATE_ANY_USER = (PLATFORM, S_User, A_create, False)"
  "name_key UPDATE_ANY_USER = (PLATFORM, S_User, A_update, False)"
  "name_key DELETE_ANY_USER = (PLATFORM, S_User, A_delete, False)"
  "name_key RESET_ANY_USER_PASSWORD = (PLATFORM, S_User, A_resetPassword, False)"
  "name_key ASSIGN_PLATFORM_ROLE = (PLATFORM, S_User, A_assignRole, False)"
  "name_key MANAGE_ANY_DEVICE_TOKEN = (PLATFORM, S_DeviceToken, A_manage, False)"
  "name_key READ_ANY_AUDIT_LOG = (PLATFORM, S_AuditLog, A_read, False)"
  "name_key READ_ANY_WORKSPACE = (PLATFORM, S_Workspace, A_read, False)"
  "name_key MANAGE_ANY_APP_VERSION = (PLATFORM, S_AppVersion, A_manage, False)"
  "name_key REVOKE_ANY_USER_SESSION = (PLATFORM, S_User, A_revokeSession, False)"
  "name_key RESEND_ANY_USER_VERIFICATION = (PLATFORM, S_User, A_resendVerification, False)"
  "name_key READ_ANY_QUEUE_JOB = (PLATFORM, S_QueueJob, A_read, False)"
  "name_key READ_ANY_QUEUE_JOB_PAYLOAD = (PLATFORM, S_QueueJob, A_readPayload, False)"
  "name_key RETRY_ANY_QUEUE_JOB = (PLATFORM, S_QueueJob, A_retry, False)"
  "name_key CANCEL_ANY_QUEUE_JOB = (PLATFORM, S_QueueJob, A_cancel, False)"
  "name_key READ_ROLE = (PLATFORM, S_Role, A_read, False)"
  "name_key READ_PERMISSION = (PLATFORM, S_Permission, A_read, False)"
  "name_key CREATE_WORKSPACE = (PLATFORM, S_Workspace, A_create, False)"
  "name_key READ_ANY_WORKSPACE_MEMBERSHIP = (PLATFORM, S_WorkspaceMembership, A_read, False)"
  "name_key READ_ANY_WORKSPACE_INVITATION = (PLATFORM, S_WorkspaceInvitation, A_read, False)"
  "name_key READ_OWN_USER = (PLATFORM, S_User, A_read, True)"
  "name_key UPDATE_OWN_USER = (PLATFORM, S_User, A_update, True)"
  "name_key DELETE_OWN_USER = (PLATFORM, S_User, A_delete, True)"
  "name_key MANAGE_OWN_DEVICE_TOKEN = (PLATFORM, S_DeviceToken, A_manage, True)"
  "name_key READ_OWN_WORKSPACE_MEMBERSHIP = (PLATFORM, S_WorkspaceMembership, A_read, True)"
  "name_key READ_WORKSPACE = (WORKSPACE, S_Workspace, A_read, False)"
  "name_key UPDATE_WORKSPACE = (WORKSPACE, S_Workspace, A_update, False)"
  "name_key DELETE_WORKSPACE = (WORKSPACE, S_Workspace, A_delete, False)"
  "name_key TRANSFER_WORKSPACE_OWNERSHIP = (WORKSPACE, S_Workspace, A_transferOwnership, False)"
  "name_key READ_WORKSPACE_MEMBERSHIP = (WORKSPACE, S_WorkspaceMembership, A_read, False)"
  "name_key CREATE_WORKSPACE_MEMBERSHIP = (WORKSPACE, S_WorkspaceMembership, A_create, False)"
  "name_key UPDATE_WORKSPACE_MEMBERSHIP = (WORKSPACE, S_WorkspaceMembership, A_update, False)"
  "name_key DELETE_WORKSPACE_MEMBERSHIP = (WORKSPACE, S_WorkspaceMembership, A_delete, False)"
  "name_key ASSIGN_ROLE_WORKSPACE_MEMBERSHIP = (WORKSPACE, S_WorkspaceMembership, A_assignRole, False)"
  "name_key SUSPEND_WORKSPACE_MEMBERSHIP = (WORKSPACE, S_WorkspaceMembership, A_suspend, False)"
  "name_key READ_WORKSPACE_INVITATION = (WORKSPACE, S_WorkspaceInvitation, A_read, False)"
  "name_key CREATE_WORKSPACE_INVITATION = (WORKSPACE, S_WorkspaceInvitation, A_create, False)"
  "name_key DELETE_WORKSPACE_INVITATION = (WORKSPACE, S_WorkspaceInvitation, A_delete, False)"
  by (simp_all add: permission_defs platform_def workspace_def name_key_def)

lemma snake_subject_inj: "toSnakeCase (subject_name s) = toSnakeCase (subject_name t) \<longleftrightarrow> s = t"
  by (cases s; cases t) (simp_all add: snake_subjects del: subject_name.simps)

lemma snake_action_inj: "toSnakeCase (action_name s) = toSnakeCase (action_name t) \<longleftrightarrow> s = t"
  by (cases s; cases t) (simp_all add: snake_actions del: action_name.simps)

lemma snake_no_dot:
  "CHR ''.'' \<notin> set (toSnakeCase (subject_name s))" "CHR ''.'' \<notin> set (toSnakeCase (action_name a))"
  by (cases s; simp add: snake_subjects del: subject_name.simps)
    (cases a; simp add: snake_actions del: action_name.simps)

lemma permissionName_inj:
  assumes "pd_scope d \<in> {PLATFORM, WORKSPACE}" and "pd_scope e \<in> {PLATFORM, WORKSPACE}"
    and "permissionName d = permissionName e"
  shows "name_key d = name_key e"
proof -
  have "no_dot (name_segments x)" if "pd_scope x \<in> {PLATFORM, WORKSPACE}" for x
    using that snake_no_dot by (auto simp: no_dot_def name_segments_def)
  with assms have "name_segments d = name_segments e"
    using join_dots_inj [of "name_segments d" "name_segments e"]
    by (simp add: permissionName_def name_segments_def)
  then show ?thesis
    using assms(1,2)
    by (auto simp: name_segments_def name_key_def snake_subject_inj snake_action_inj split: if_splits)
qed

text \<open>No two permissions of the catalog have the same name, so a name identifies a permission in
  the database the seeder writes.\<close>

theorem permission_names_distinct:
  "distinct (map permissionName PERMISSION_CATALOG)"
proof -
  have "distinct (map name_key PERMISSION_CATALOG)"
    by (simp add: PERMISSION_CATALOG_def permission_keys)
  moreover have "pd_scope d \<in> {PLATFORM, WORKSPACE}" if "d \<in> set PERMISSION_CATALOG" for d
    using that catalog_well_scoped by (fastforce simp: well_scoped_def split: role_scope.splits)
  ultimately show ?thesis
    using permissionName_inj by (auto simp: distinct_map inj_on_def)
qed

definition ladder :: "role_definition \<Rightarrow> role_definition \<Rightarrow> bool" where
  "ladder low high \<longleftrightarrow>
     rd_rank low < rd_rank high \<and>
     (\<forall>p \<in> set (rd_permissions low). p \<in> set (rd_permissions high)) \<and>
     (\<exists>p \<in> set (rd_permissions high). p \<notin> set (rd_permissions low))"

text \<open>Permissions are told apart by their keys.\<close>

lemma not_in_by_key: "name_key p \<notin> name_key ` set ps \<Longrightarrow> p \<notin> set ps"
  by blast

text \<open>The workspace roles form a ladder: from staff over manager and admin to owner the rank rises
  and the permissions strictly grow; only the owner may transfer ownership or delete the workspace, and
  neither manager nor staff may assign roles.\<close>

theorem workspace_role_ladder:
  "ladder WORKSPACE_STAFF_definition WORKSPACE_MANAGER_definition \<and>
   ladder WORKSPACE_MANAGER_definition WORKSPACE_ADMIN_definition \<and>
   ladder WORKSPACE_ADMIN_definition WORKSPACE_OWNER_definition \<and>
   {TRANSFER_WORKSPACE_OWNERSHIP, DELETE_WORKSPACE} \<subseteq> set (rd_permissions WORKSPACE_OWNER_definition) \<and>
   {TRANSFER_WORKSPACE_OWNERSHIP, DELETE_WORKSPACE} \<inter> set (rd_permissions WORKSPACE_ADMIN_definition) = {} \<and>
   ASSIGN_ROLE_WORKSPACE_MEMBERSHIP \<in> set (rd_permissions WORKSPACE_ADMIN_definition) \<and>
   ASSIGN_ROLE_WORKSPACE_MEMBERSHIP \<notin> set (rd_permissions WORKSPACE_MANAGER_definition)"
proof -
  have "UPDATE_WORKSPACE \<notin> set (rd_permissions WORKSPACE_STAFF_definition)"
    "ASSIGN_ROLE_WORKSPACE_MEMBERSHIP \<notin> set (rd_permissions WORKSPACE_MANAGER_definition)"
    "DELETE_WORKSPACE \<notin> set (rd_permissions WORKSPACE_ADMIN_definition)"
    "TRANSFER_WORKSPACE_OWNERSHIP \<notin> set (rd_permissions WORKSPACE_ADMIN_definition)"
    by (rule not_in_by_key, simp add: role_definition_defs permission_keys)+
  then show ?thesis
    by (auto simp: ladder_def role_definition_defs)
qed

end
