(* ===== verification/Ownership.thy ===== *)
theory Ownership
  imports Grants_Cache Access "HOL-Library.List_Lexorder" "HOL-Library.Char_ord"
begin

text \<open>
  \<open>src/src/modules/workspaces/workspace-ownership.policy.ts\<close> and
  \<open>workspace-role-assignment.policy.ts\<close>: who owns a workspace, when an operation would leave it
  without an owner, and which roles a caller may hand out.  Row locks serialise the transactions that
  use these checks; each such transaction is one function on the world, and the locks themselves are
  not modelled here.
\<close>

section \<open>The ownership policy\<close>

definition active_owner :: "world \<Rightarrow> membership_row \<Rightarrow> bool" where
  "active_owner w m \<longleftrightarrow> m_status m = ACTIVE \<and> role_name w (m_role_id m) = WORKSPACE_OWNER"

definition usable_account :: "world \<Rightarrow> ident \<Rightarrow> bool" where
  "usable_account w uid \<longleftrightarrow>
     (\<exists>u \<in> set (users w). u_id u = uid \<and> u_deleted_at u = None \<and> u_is_active u)"

definition active_owner_of_usable_account :: "world \<Rightarrow> membership_row \<Rightarrow> bool" where
  "active_owner_of_usable_account w m \<longleftrightarrow> active_owner w m \<and> usable_account w (m_user_id m)"

definition assertUserMayHoldActiveMembership :: "ident \<Rightarrow> world \<Rightarrow> exn + unit" where
  "assertUserMayHoldActiveMembership userId w =
     guardE (usable_account w userId) (resourceNotFound ''User'' None)"

definition assertAnotherActiveOwnerExists :: "ident \<Rightarrow> ident \<Rightarrow> world \<Rightarrow> exn + unit" where
  "assertAnotherActiveOwnerExists workspaceId excludingMembershipId w =
     (let remainingOwners = count_where
            (\<lambda>m. m_workspace_id m = workspaceId \<and> m_id m \<noteq> excludingMembershipId \<and>
                 active_owner_of_usable_account w m)
            (memberships w)
      in guardE (remainingOwners \<noteq> 0) (lastOwnerProtected []))"

definition find_workspace :: "world \<Rightarrow> ident \<Rightarrow> workspace_row option" where
  "find_workspace w i = find (\<lambda>s. w_id s = i) (workspaces w)"

definition findSolelyOwnedLiveWorkspaces :: "ident \<Rightarrow> world \<Rightarrow> (ident \<times> string) list" where
  "findSolelyOwnedLiveWorkspaces userId w =
     (let ownedWorkspaces =
            sort_key m_workspace_id
              (filter (\<lambda>m. m_user_id m = userId \<and> live_workspace w (m_workspace_id m) \<and>
                           active_owner w m)
                (memberships w));
          stillOwnedByAnother =
            (\<lambda>i. \<exists>m \<in> set (memberships w). m_workspace_id m = i \<and> m_user_id m \<noteq> userId \<and>
                    active_owner_of_usable_account w m)
      in map (\<lambda>m. (m_workspace_id m,
                    case find_workspace w (m_workspace_id m) of None \<Rightarrow> [] | Some s \<Rightarrow> w_name s))
           (filter (\<lambda>m. \<not> stillOwnedByAnother (m_workspace_id m)) ownedWorkspaces))"

definition assertUserIsNotASoleOwner :: "ident \<Rightarrow> world \<Rightarrow> exn + unit" where
  "assertUserIsNotASoleOwner userId w =
     (let blockingWorkspaces = findSolelyOwnedLiveWorkspaces userId w
      in guardE (blockingWorkspaces = []) (lastOwnerProtected blockingWorkspaces))"

text \<open>The closed workspaces, the accounts whose grants are now stale, and the new world.\<close>

definition closeSolelyOwnedWorkspaces ::
  "ident \<Rightarrow> ident \<Rightarrow> time \<Rightarrow> world \<Rightarrow> (ident \<times> string) list \<times> ident list \<times> world" where
  "closeSolelyOwnedWorkspaces userId actorId now w =
     (let closed = findSolelyOwnedLiveWorkspaces userId w;
          workspaceIds = map fst closed
      in if closed = [] then ([], [], w)
         else (closed,
               remdups (map m_user_id
                 (filter (\<lambda>m. m_workspace_id m \<in> set workspaceIds) (memberships w))),
               w\<lparr>workspaces :=
                   update_where (\<lambda>s. w_id s \<in> set workspaceIds)
                     (\<lambda>s. s\<lparr>w_deleted_at := Some now, w_deleted_by := Some actorId\<rparr>)
                     (workspaces w)\<rparr>))"

section \<open>The role-assignment policy\<close>

definition NON_PRIVILEGED_WORKSPACE_ROLES :: "string list" where
  "NON_PRIVILEGED_WORKSPACE_ROLES = [WORKSPACE_STAFF]"

text \<open>\<open>None\<close> is the unbounded rank of a platform admin.\<close>

type_synonym assignment_ceiling = "int option"

definition loadAssignableRole :: "ident \<Rightarrow> world \<Rightarrow> exn + role_row" where
  "loadAssignableRole roleId w =
     (case find_role w roleId of
        None \<Rightarrow> Inl (resourceNotFound ''Role'' None)
      | Some role \<Rightarrow>
          (if r_scope role \<noteq> WORKSPACE then Inl roleNotAssignable else Inr role))"

definition find_membership :: "ident \<Rightarrow> ident \<Rightarrow> world \<Rightarrow> membership_row option" where
  "find_membership workspaceId userId w =
     find (\<lambda>m. m_workspace_id m = workspaceId \<and> m_user_id m = userId) (memberships w)"

definition role_rank :: "world \<Rightarrow> ident \<Rightarrow> int" where
  "role_rank w roleId = (case find_role w roleId of None \<Rightarrow> 0 | Some r \<Rightarrow> r_rank r)"

definition resolveActorRank ::
  "casl \<Rightarrow> ident \<Rightarrow> ident \<Rightarrow> ability \<Rightarrow> world \<Rightarrow> exn + assignment_ceiling" where
  "resolveActorRank c workspaceId actorId ab w =
     (if can_type c ab A_manage S_all then Inr None
      else (case find_membership workspaceId actorId w of
              None \<Rightarrow> Inl roleNotAssignable
            | Some m \<Rightarrow>
                (if m_status m \<noteq> ACTIVE then Inl roleNotAssignable
                 else Inr (Some (role_rank w (m_role_id m))))))"

definition assertRankPermits :: "assignment_ceiling \<Rightarrow> int \<Rightarrow> exn + unit" where
  "assertRankPermits actorRank targetRank =
     (case actorRank of
        None \<Rightarrow> Inr ()
      | Some rank \<Rightarrow> (if targetRank > rank then Inl roleNotAssignable else Inr ()))"

definition assertMayAssign ::
  "casl \<Rightarrow> ident \<Rightarrow> ident \<Rightarrow> role_row \<Rightarrow> ability \<Rightarrow> ident option \<Rightarrow> world \<Rightarrow> exn + assignment_ceiling" where
  "assertMayAssign c workspaceId actorId role ab targetUserId w =
     (let record = (case targetUserId of
                      Some (x # xs) \<Rightarrow> [''workspaceId'' \<mapsto> workspaceId, ''userId'' \<mapsto> x # xs]
                    | _ \<Rightarrow> [''workspaceId'' \<mapsto> workspaceId]);
          mayAssignRoles = can_on c ab A_assignRole S_WorkspaceMembership record
      in if \<not> mayAssignRoles \<and> r_name role \<notin> set NON_PRIVILEGED_WORKSPACE_ROLES
         then Inl roleNotAssignable
         else bindE (resolveActorRank c workspaceId actorId ab w) (\<lambda>actorRank.
              bindE (assertRankPermits actorRank (r_rank role)) (\<lambda>_. Inr actorRank)))"

lemma assertRankPermits_Inr [svc]:
  "assertRankPermits rank t = Inr u \<longleftrightarrow> (\<forall>r. rank = Some r \<longrightarrow> t \<le> r)"
  by (auto simp: assertRankPermits_def split: option.splits)

lemma loadAssignableRole_Inr [svc]:
  "loadAssignableRole i w = Inr r \<longleftrightarrow> find_role w i = Some r \<and> r_scope r = WORKSPACE"
  by (auto simp: loadAssignableRole_def split: option.splits)

lemma assertUserMayHold_Inr [svc]:
  "assertUserMayHoldActiveMembership i w = Inr u \<longleftrightarrow> usable_account w i"
  by (simp add: assertUserMayHoldActiveMembership_def)

end
