(* ===== verification/Memberships.thy ===== *)
theory Memberships
  imports Ownership
begin

text \<open>
  \<open>src/src/modules/workspaces/memberships/workspace-memberships.service.ts\<close>: the roster.  Each
  operation is split the way the service is: the checks before the transaction (on the world as it was
  read then), the transaction on the world it commits to, and what follows the commit (cache
  invalidation, audit).  The composed operation runs all of them on one world.
\<close>

section \<open>Data\<close>

definition membership_columns :: "membership_row \<Rightarrow> row" where
  "membership_columns m =
     [''id'' \<mapsto> m_id m, ''workspaceId'' \<mapsto> m_workspace_id m, ''userId'' \<mapsto> m_user_id m]"

definition describeTenure :: "world \<Rightarrow> membership_row \<Rightarrow> json" where
  "describeTenure w previous =
     JObj [(''status'', JStr (membership_status_value (m_status previous))),
           (''roleName'', JStr (role_name w (m_role_id previous))),
           (''joinedAt'', JDate (m_joined_at previous)),
           (''endedAt'', json_of_option JDate (m_ended_at previous))]"

definition REDACTED_COLUMNS :: "string list" where
  "REDACTED_COLUMNS = [''password'', ''otpHash'', ''otpPurpose'', ''otpExpiresAt'', ''token'']"

definition buildAuditSnapshot :: "(string \<times> json) list \<Rightarrow> json" where
  "buildAuditSnapshot r = JObj (filter (\<lambda>(column, _). column \<notin> set REDACTED_COLUMNS) r)"

text \<open>The columns of a membership a snapshot freezes.\<close>

definition membership_json :: "membership_row \<Rightarrow> (string \<times> json) list" where
  "membership_json m =
     [(''id'', JStr (m_id m)), (''workspaceId'', JStr (m_workspace_id m)),
      (''userId'', JStr (m_user_id m)), (''roleId'', JStr (m_role_id m)),
      (''status'', JStr (membership_status_value (m_status m))),
      (''joinedAt'', JDate (m_joined_at m)), (''endedAt'', json_of_option JDate (m_ended_at m)),
      (''invitedBy'', json_of_option JStr (m_invited_by m)),
      (''notes'', json_of_option JStr (m_notes m))]"

definition membershipOfLiveUser :: "world \<Rightarrow> membership_row \<Rightarrow> bool" where
  "membershipOfLiveUser w m \<longleftrightarrow> find_live_user w (m_user_id m) \<noteq> None"

section \<open>Checks and helpers\<close>

definition findMembership ::
  "casl \<Rightarrow> ident \<Rightarrow> ident \<Rightarrow> ability \<Rightarrow> world \<Rightarrow> exn + membership_row" where
  "findMembership c workspaceId membershipId ab w =
     bindE (buildWhereOrEmpty c ab A_read S_WorkspaceMembership
              (\<lambda>r. r ''id'' = Some membershipId \<and> r ''workspaceId'' = Some workspaceId)) (\<lambda>q.
     requireE (find (\<lambda>m. selects q (membership_columns m) \<and> membershipOfLiveUser w m \<and>
                         live_workspace w (m_workspace_id m)) (memberships w))
       (resourceNotFound ''Workspace membership'' None))"

definition assertMayActOn :: "casl \<Rightarrow> ability \<Rightarrow> action \<Rightarrow> membership_row \<Rightarrow> exn + unit" where
  "assertMayActOn c ab a m = assertCan c ab a S_WorkspaceMembership (membership_columns m)"

definition loadSeededWorkspaceRole :: "string \<Rightarrow> world \<Rightarrow> exn + role_row" where
  "loadSeededWorkspaceRole n w =
     requireE (find (\<lambda>r. r_name r = n) (roles w)) (PrismaKnownRequestError ''P2025'')"

definition set_membership ::
  "ident \<Rightarrow> (membership_row \<Rightarrow> membership_row) \<Rightarrow> world \<Rightarrow> exn + membership_row \<times> world" where
  "set_membership membershipId f w =
     (case find (\<lambda>m. m_id m = membershipId) (memberships w) of
        None \<Rightarrow> Inl (PrismaKnownRequestError ''P2025'')
      | Some m \<Rightarrow>
          Inr (f m, w\<lparr>memberships := update_where (\<lambda>m. m_id m = membershipId) f (memberships w)\<rparr>))"

definition revokePendingInvitations :: "ident \<Rightarrow> ident \<Rightarrow> ident \<Rightarrow> time \<Rightarrow> world \<Rightarrow> world" where
  "revokePendingInvitations workspaceId userId actorId now w =
     (let byAddress = (case find_user w userId of
                         None \<Rightarrow> None
                       | Some user \<Rightarrow>
                           (if u_email user \<noteq> [] \<and> u_email_verified_at user \<noteq> None
                            then Some (to_lower_case (u_email user)) else None))
      in w\<lparr>invitations :=
             update_where
               (\<lambda>i. i_workspace_id i = workspaceId \<and> i_status i = PENDING \<and>
                    (i_invited_user_id i = Some userId \<or>
                     (i_invited_user_id i = None \<and> byAddress = Some (i_email i))))
               (\<lambda>i. i\<lparr>i_status := REVOKED, i_revoked_at := Some now, i_revoked_by := Some actorId,
                       i_updated_by := Some actorId\<rparr>)
               (invitations w)\<rparr>)"

section \<open>Adding a member\<close>

definition may_annotate :: "casl \<Rightarrow> ability \<Rightarrow> ident \<Rightarrow> ident \<Rightarrow> bool" where
  "may_annotate c ab workspaceId userId \<longleftrightarrow>
     can_on c ab A_update S_WorkspaceMembership [''workspaceId'' \<mapsto> workspaceId, ''userId'' \<mapsto> userId]"

definition addChecks ::
  "casl \<Rightarrow> ident \<Rightarrow> string \<Rightarrow> ident \<Rightarrow> string option \<Rightarrow> ability \<Rightarrow> ident \<Rightarrow> world
   \<Rightarrow> exn + user_row \<times> role_row \<times> bool" where
  "addChecks c workspaceId email roleId notes ab actorId w =
     bindE (requireE (find (\<lambda>u. u_email u = email) (live_users w)) (resourceNotFound ''User'' None))
       (\<lambda>targetUser.
     bindE (loadAssignableRole roleId w) (\<lambda>targetRole.
     bindE (assertMayAssign c workspaceId actorId targetRole ab (Some (u_id targetUser)) w) (\<lambda>_.
     (let mayAnnotate = may_annotate c ab workspaceId (u_id targetUser)
      in if notes \<noteq> None \<and> \<not> mayAnnotate then Inl (denied A_update S_WorkspaceMembership)
         else Inr (targetUser, targetRole, mayAnnotate)))))"

definition addTransaction ::
  "ident \<Rightarrow> ident \<Rightarrow> role_row \<Rightarrow> bool \<Rightarrow> string option \<Rightarrow> ident \<Rightarrow> time \<Rightarrow> ident \<Rightarrow> world
   \<Rightarrow> exn + (membership_row \<times> json option) \<times> world" where
  "addTransaction workspaceId userId targetRole mayAnnotate notes actorId now newId w =
     bindE (assertUserMayHoldActiveMembership userId w) (\<lambda>_.
     (case find_membership workspaceId userId w of
        Some existing \<Rightarrow>
          (if m_status existing \<noteq> LEFT
           then Inl (resourceConflict ''That person already has a membership in this workspace'')
           else bindE (set_membership (m_id existing)
                  (\<lambda>m. m\<lparr>m_role_id := r_id targetRole, m_status := ACTIVE, m_joined_at := now,
                          m_ended_at := None,
                          m_notes := (if mayAnnotate \<and> notes \<noteq> None then notes else m_notes m),
                          m_updated_by := Some actorId\<rparr>) w) (\<lambda>(rejoined, w').
                Inr ((rejoined, Some (describeTenure w existing)), w')))
      | None \<Rightarrow>
          (let created = \<lparr>m_id = newId, m_workspace_id = workspaceId, m_user_id = userId,
                 m_role_id = r_id targetRole, m_status = ACTIVE, m_joined_at = now,
                 m_ended_at = None, m_invited_by = Some actorId,
                 m_notes = (if mayAnnotate then notes else None),
                 m_created_by = Some actorId, m_updated_by = Some actorId\<rparr>
           in Inr ((created, None), w\<lparr>memberships := memberships w @ [created]\<rparr>))))"

definition addMember ::
  "casl \<Rightarrow> ident \<Rightarrow> string \<Rightarrow> ident \<Rightarrow> string option \<Rightarrow> ability \<Rightarrow> ident \<Rightarrow> time \<Rightarrow> ident \<Rightarrow> world
   \<Rightarrow> exn + membership_row \<times> world" where
  "addMember c workspaceId email roleId notes ab actorId now newId w =
     bindE (addChecks c workspaceId email roleId notes ab actorId w)
       (\<lambda>(targetUser, targetRole, mayAnnotate).
     bindE (addTransaction workspaceId (u_id targetUser) targetRole mayAnnotate notes actorId now newId w)
       (\<lambda>((membership, previousTenure), w').
     Inr (membership,
       audit_record
         (audit ''workspace_membership.added'' (Some actorId) (Some (u_id targetUser))
            (JObj [(''workspaceId'', JStr workspaceId), (''membershipId'', JStr (m_id membership)),
                   (''roleId'', JStr (r_id targetRole)), (''roleName'', JStr (r_name targetRole)),
                   (''isRejoin'', JBool (previousTenure \<noteq> None)),
                   (''previousTenure'', json_of_option id previousTenure)]))
         (invalidateUser (u_id targetUser) now w'))))"

section \<open>Annotating and changing the role\<close>

definition updateMember ::
  "casl \<Rightarrow> ident \<Rightarrow> ident \<Rightarrow> string option \<Rightarrow> ability \<Rightarrow> ident \<Rightarrow> world
   \<Rightarrow> exn + membership_row \<times> world" where
  "updateMember c workspaceId membershipId notes ab actorId w =
     bindE (findMembership c workspaceId membershipId ab w) (\<lambda>existing.
     bindE (assertMayActOn c ab A_update existing) (\<lambda>_.
     bindE (set_membership membershipId
              (\<lambda>m. m\<lparr>m_notes := (if notes = None then m_notes m else notes),
                      m_updated_by := Some actorId\<rparr>) w) (\<lambda>(membership, w').
     Inr (membership,
       audit_record
         (audit ''workspace_membership.updated'' (Some actorId) (Some (m_user_id membership))
            (JObj [(''workspaceId'', JStr workspaceId), (''membershipId'', JStr membershipId)])) w'))))"

definition changeRoleChecks ::
  "casl \<Rightarrow> ident \<Rightarrow> ident \<Rightarrow> ident \<Rightarrow> ability \<Rightarrow> ident \<Rightarrow> world
   \<Rightarrow> exn + membership_row \<times> role_row \<times> assignment_ceiling" where
  "changeRoleChecks c workspaceId membershipId roleId ab actorId w =
     bindE (findMembership c workspaceId membershipId ab w) (\<lambda>visible.
     bindE (assertMayActOn c ab A_assignRole visible) (\<lambda>_.
     bindE (loadAssignableRole roleId w) (\<lambda>targetRole.
     bindE (assertMayAssign c workspaceId actorId targetRole ab None w) (\<lambda>actorRank.
     Inr (visible, targetRole, actorRank)))))"

definition find_in_workspace :: "ident \<Rightarrow> ident \<Rightarrow> world \<Rightarrow> exn + membership_row" where
  "find_in_workspace workspaceId membershipId w =
     requireE (find (\<lambda>m. m_id m = membershipId \<and> m_workspace_id m = workspaceId) (memberships w))
       (resourceNotFound ''Workspace membership'' None)"

definition changeRoleTransaction ::
  "ident \<Rightarrow> ident \<Rightarrow> ident \<Rightarrow> role_row \<Rightarrow> assignment_ceiling \<Rightarrow> ident \<Rightarrow> world
   \<Rightarrow> exn + membership_row \<times> world" where
  "changeRoleTransaction workspaceId membershipId userId targetRole actorRank actorId w =
     bindE (assertUserMayHoldActiveMembership userId w) (\<lambda>_.
     bindE (find_in_workspace workspaceId membershipId w) (\<lambda>existing.
     bindE (assertRankPermits actorRank (role_rank w (m_role_id existing))) (\<lambda>_.
     (let isDemotingAnOwner = role_name w (m_role_id existing) = WORKSPACE_OWNER \<and>
                              r_name targetRole \<noteq> WORKSPACE_OWNER
      in bindE (if isDemotingAnOwner
                then assertAnotherActiveOwnerExists workspaceId membershipId w else Inr ()) (\<lambda>_.
         set_membership membershipId
           (\<lambda>m. m\<lparr>m_role_id := r_id targetRole, m_updated_by := Some actorId\<rparr>) w)))))"

definition changeRole ::
  "casl \<Rightarrow> ident \<Rightarrow> ident \<Rightarrow> ident \<Rightarrow> ability \<Rightarrow> ident \<Rightarrow> time \<Rightarrow> world
   \<Rightarrow> exn + membership_row \<times> world" where
  "changeRole c workspaceId membershipId roleId ab actorId now w =
     bindE (changeRoleChecks c workspaceId membershipId roleId ab actorId w)
       (\<lambda>(visible, targetRole, actorRank).
     bindE (changeRoleTransaction workspaceId membershipId (m_user_id visible) targetRole actorRank
              actorId w) (\<lambda>(membership, w').
     Inr (membership,
       audit_record
         (audit ''workspace_membership.role_changed'' (Some actorId) (Some (m_user_id membership))
            (JObj [(''workspaceId'', JStr workspaceId), (''membershipId'', JStr membershipId),
                   (''roleId'', JStr (r_id targetRole)), (''roleName'', JStr (r_name targetRole))]))
         (invalidateUser (m_user_id membership) now w'))))"

section \<open>Status changes\<close>

record transition_options =
  to_audit_action :: string
  to_required_action :: action
  to_from :: "membership_status option"
  to_to :: membership_status
  to_is_last_owner_protected :: bool
  to_ended_at :: "time option"

definition transitionChecks ::
  "casl \<Rightarrow> ident \<Rightarrow> ident \<Rightarrow> ability \<Rightarrow> ident \<Rightarrow> transition_options \<Rightarrow> world
   \<Rightarrow> exn + membership_row \<times> assignment_ceiling" where
  "transitionChecks c workspaceId membershipId ab actorId options w =
     bindE (findMembership c workspaceId membershipId ab w) (\<lambda>visible.
     bindE (assertMayActOn c ab (to_required_action options) visible) (\<lambda>_.
     bindE (resolveActorRank c workspaceId actorId ab w) (\<lambda>actorRank.
     Inr (visible, actorRank))))"

definition transitionTransaction ::
  "ident \<Rightarrow> ident \<Rightarrow> ident \<Rightarrow> assignment_ceiling \<Rightarrow> ident \<Rightarrow> transition_options \<Rightarrow> time \<Rightarrow> world
   \<Rightarrow> exn + membership_row \<times> world" where
  "transitionTransaction workspaceId membershipId userId actorRank actorId options now w =
     bindE (if to_to options = ACTIVE then assertUserMayHoldActiveMembership userId w else Inr ()) (\<lambda>_.
     bindE (find_in_workspace workspaceId membershipId w) (\<lambda>existing.
     bindE (assertRankPermits actorRank (role_rank w (m_role_id existing))) (\<lambda>_.
     (let currentStatus = m_status existing in
      if currentStatus = to_to options
      then Inl (resourceConflict (''That membership is already '' @ [CHR 0x22] @
             membership_status_value currentStatus @ [CHR 0x22]))
      else if to_from options \<noteq> None \<and> Some currentStatus \<noteq> to_from options
      then Inl (membershipNotActive (membership_status_value currentStatus))
      else
        (let isActiveOwner = role_name w (m_role_id existing) = WORKSPACE_OWNER \<and>
                             currentStatus = ACTIVE
         in bindE (if to_is_last_owner_protected options \<and> isActiveOwner
                   then assertAnotherActiveOwnerExists workspaceId membershipId w else Inr ()) (\<lambda>_.
            (let w1 = (if to_to options \<noteq> ACTIVE
                       then revokePendingInvitations workspaceId (m_user_id existing) actorId now w
                       else w)
             in set_membership membershipId
                  (\<lambda>m. m\<lparr>m_status := to_to options,
                          m_ended_at := (if to_ended_at options = None then m_ended_at m
                                         else to_ended_at options),
                          m_updated_by := Some actorId\<rparr>) w1)))))))"

definition transition ::
  "casl \<Rightarrow> ident \<Rightarrow> ident \<Rightarrow> ability \<Rightarrow> ident \<Rightarrow> transition_options \<Rightarrow> time \<Rightarrow> world
   \<Rightarrow> exn + membership_row \<times> world" where
  "transition c workspaceId membershipId ab actorId options now w =
     bindE (transitionChecks c workspaceId membershipId ab actorId options w)
       (\<lambda>(visible, actorRank).
     bindE (transitionTransaction workspaceId membershipId (m_user_id visible) actorRank actorId
              options now w) (\<lambda>(membership, w').
     Inr (membership,
       audit_record
         (audit (to_audit_action options) (Some actorId) (Some (m_user_id membership))
            (JObj [(''workspaceId'', JStr workspaceId), (''membershipId'', JStr membershipId),
                   (''snapshot'', buildAuditSnapshot (membership_json membership))]))
         (invalidateUser (m_user_id membership) now w'))))"

definition suspend_options :: transition_options where
  "suspend_options =
     \<lparr>to_audit_action = ''workspace_membership.suspended'', to_required_action = A_suspend,
      to_from = Some ACTIVE, to_to = SUSPENDED, to_is_last_owner_protected = True,
      to_ended_at = None\<rparr>"

definition reactivate_options :: transition_options where
  "reactivate_options =
     \<lparr>to_audit_action = ''workspace_membership.reactivated'', to_required_action = A_suspend,
      to_from = Some SUSPENDED, to_to = ACTIVE, to_is_last_owner_protected = False,
      to_ended_at = None\<rparr>"

definition end_options :: "time \<Rightarrow> transition_options" where
  "end_options now =
     \<lparr>to_audit_action = ''workspace_membership.ended'', to_required_action = A_delete,
      to_from = None, to_to = LEFT, to_is_last_owner_protected = True, to_ended_at = Some now\<rparr>"

definition suspendMember ::
  "casl \<Rightarrow> ident \<Rightarrow> ident \<Rightarrow> ability \<Rightarrow> ident \<Rightarrow> time \<Rightarrow> world \<Rightarrow> exn + membership_row \<times> world" where
  "suspendMember c workspaceId membershipId ab actorId now w =
     transition c workspaceId membershipId ab actorId suspend_options now w"

definition reactivateMember ::
  "casl \<Rightarrow> ident \<Rightarrow> ident \<Rightarrow> ability \<Rightarrow> ident \<Rightarrow> time \<Rightarrow> world \<Rightarrow> exn + membership_row \<times> world" where
  "reactivateMember c workspaceId membershipId ab actorId now w =
     transition c workspaceId membershipId ab actorId reactivate_options now w"

definition removeMember ::
  "casl \<Rightarrow> ident \<Rightarrow> ident \<Rightarrow> ability \<Rightarrow> ident \<Rightarrow> time \<Rightarrow> world \<Rightarrow> exn + world" where
  "removeMember c workspaceId membershipId ab actorId now w =
     bindE (findMembership c workspaceId membershipId ab w) (\<lambda>existing.
     bindE (assertMayActOn c ab A_delete existing) (\<lambda>_.
     bindE (transition c workspaceId membershipId ab actorId (end_options now) now w) (\<lambda>(_, w').
     Inr w')))"

section \<open>Handing the workspace over\<close>

definition transferTransaction ::
  "ident \<Rightarrow> ident \<Rightarrow> ident \<Rightarrow> role_row \<Rightarrow> role_row \<Rightarrow> ident \<Rightarrow> world
   \<Rightarrow> exn + (membership_row \<times> ident list) \<times> world" where
  "transferTransaction workspaceId membershipId incomingOwnerUserId ownerRole adminRole actorId w =
     bindE (assertUserMayHoldActiveMembership incomingOwnerUserId w) (\<lambda>_.
     bindE (requireE (find (\<lambda>m. m_id m = membershipId \<and> m_workspace_id m = workspaceId \<and>
                               membershipOfLiveUser w m \<and> live_workspace w (m_workspace_id m))
                        (memberships w))
              (resourceNotFound ''Workspace membership'' None)) (\<lambda>target.
     if m_status target \<noteq> ACTIVE
     then Inl (membershipNotActive (membership_status_value (m_status target)))
     else if m_user_id target = actorId
     then Inl (resourceConflict ''You already own this workspace; transfer it to somebody else'')
     else
       (let outgoing = (\<lambda>m. m_workspace_id m = workspaceId \<and> m_status m = ACTIVE \<and>
                            m_role_id m = r_id ownerRole \<and> m_id m \<noteq> m_id target);
            outgoingOwners = filter outgoing (memberships w);
            w1 = w\<lparr>memberships :=
                     update_where outgoing
                       (\<lambda>m. m\<lparr>m_role_id := r_id adminRole, m_updated_by := Some actorId\<rparr>)
                       (memberships w)\<rparr>
        in bindE (set_membership (m_id target)
                    (\<lambda>m. m\<lparr>m_role_id := r_id ownerRole, m_updated_by := Some actorId\<rparr>) w1)
             (\<lambda>(promoted, w'). Inr ((promoted, map m_user_id outgoingOwners), w')))))"

definition transferOwnership ::
  "casl \<Rightarrow> ident \<Rightarrow> ident \<Rightarrow> ability \<Rightarrow> ident \<Rightarrow> time \<Rightarrow> world \<Rightarrow> exn + membership_row \<times> world" where
  "transferOwnership c workspaceId membershipId ab actorId now w =
     bindE (loadSeededWorkspaceRole WORKSPACE_OWNER w) (\<lambda>ownerRole.
     bindE (loadSeededWorkspaceRole WORKSPACE_ADMIN w) (\<lambda>adminRole.
     bindE (findMembership c workspaceId membershipId ab w) (\<lambda>visibleTarget.
     bindE (transferTransaction workspaceId membershipId (m_user_id visibleTarget) ownerRole adminRole
              actorId w) (\<lambda>((promoted, demotedUserIds), w').
     Inr (promoted,
       audit_record
         (audit ''workspace_membership.ownership_transferred'' (Some actorId)
            (Some (m_user_id promoted))
            (JObj [(''workspaceId'', JStr workspaceId), (''membershipId'', JStr membershipId),
                   (''demotedUserIds'', JArr (map JStr demotedUserIds))]))
         (invalidateUsers (remdups ([m_user_id promoted, actorId] @ demotedUserIds)) now w'))))))"

end
