(* ===== verification/Workspaces.thy ===== *)
theory Workspaces
  imports Memberships
begin

text \<open>\<open>src/src/modules/workspaces/workspaces.service.ts\<close>: creating a workspace together with its
  owner, editing it, and closing it.\<close>

definition workspace_columns :: "workspace_row \<Rightarrow> row" where
  "workspace_columns s = [''id'' \<mapsto> w_id s]"

definition slugTaken :: "string \<Rightarrow> ident option \<Rightarrow> world \<Rightarrow> bool" where
  "slugTaken slug except w \<longleftrightarrow> (\<exists>s \<in> set (live_workspaces w). w_slug s = slug \<and> Some (w_id s) \<noteq> except)"

text \<open>The fields of a create or an update; \<open>None\<close> is an absent field.\<close>

record workspace_dto =
  wd_name :: "string option"
  wd_slug :: "string option"
  wd_description :: "string option"
  wd_is_active :: "bool option"

definition createWorkspaceTransaction ::
  "workspace_dto \<Rightarrow> ident \<Rightarrow> time \<Rightarrow> ident \<Rightarrow> ident \<Rightarrow> world
   \<Rightarrow> exn + (workspace_row \<times> membership_row) \<times> world" where
  "createWorkspaceTransaction dto actorId now newId newMembershipId w =
     bindE (assertUserMayHoldActiveMembership actorId w) (\<lambda>_.
     bindE (guardE (\<not> slugTaken (case wd_slug dto of None \<Rightarrow> [] | Some x \<Rightarrow> x) None w)
              (PrismaKnownRequestError ''P2002'')) (\<lambda>_.
     bindE (loadSeededWorkspaceRole WORKSPACE_OWNER w) (\<lambda>ownerRole.
     (let created = \<lparr>w_id = newId, w_name = (case wd_name dto of None \<Rightarrow> [] | Some x \<Rightarrow> x),
            w_slug = (case wd_slug dto of None \<Rightarrow> [] | Some x \<Rightarrow> x),
            w_description = wd_description dto,
            w_is_active = (case wd_is_active dto of None \<Rightarrow> True | Some b \<Rightarrow> b),
            w_deleted_at = None, w_deleted_by = None,
            w_created_by = Some actorId, w_updated_by = Some actorId\<rparr>;
          owner = \<lparr>m_id = newMembershipId, m_workspace_id = newId, m_user_id = actorId,
            m_role_id = r_id ownerRole, m_status = ACTIVE, m_joined_at = now, m_ended_at = None,
            m_invited_by = None, m_notes = None,
            m_created_by = Some actorId, m_updated_by = Some actorId\<rparr>
      in Inr ((created, owner),
              w\<lparr>workspaces := workspaces w @ [created], memberships := memberships w @ [owner]\<rparr>)))))"

definition createWorkspace ::
  "workspace_dto \<Rightarrow> ident \<Rightarrow> time \<Rightarrow> ident \<Rightarrow> ident \<Rightarrow> world \<Rightarrow> exn + workspace_row \<times> world" where
  "createWorkspace dto actorId now newId newMembershipId w =
     bindE (guardE (\<not> slugTaken (case wd_slug dto of None \<Rightarrow> [] | Some x \<Rightarrow> x) None w)
              (uniqueConstraintViolation ''slug'')) (\<lambda>_.
     bindE (createWorkspaceTransaction dto actorId now newId newMembershipId w)
       (\<lambda>((workspace, membership), w').
     Inr (workspace,
       audit_record
         (audit ''workspace_membership.added'' (Some actorId) (Some actorId)
            (JObj [(''workspaceId'', JStr (w_id workspace)), (''membershipId'', JStr (m_id membership)),
                   (''roleName'', JStr WORKSPACE_OWNER), (''isFoundingOwner'', JBool True),
                   (''isRejoin'', JBool False)]))
         (audit_record
            (audit ''workspace.created'' (Some actorId) None
               (JObj [(''workspaceId'', JStr (w_id workspace)), (''slug'', JStr (w_slug workspace))]))
            (invalidateUser actorId now w')))))"

definition findWorkspace :: "casl \<Rightarrow> ident \<Rightarrow> ability \<Rightarrow> world \<Rightarrow> exn + workspace_row" where
  "findWorkspace c i ab w =
     bindE (buildRecordWhereOrEmpty c ab A_read S_Workspace i) (\<lambda>q.
     requireE (find (\<lambda>s. selects q (workspace_columns s)) (live_workspaces w))
       (resourceNotFound ''Workspace'' None))"

definition assertMayAct :: "casl \<Rightarrow> ability \<Rightarrow> action \<Rightarrow> workspace_row \<Rightarrow> exn + unit" where
  "assertMayAct c ab a s = assertCan c ab a S_Workspace [''id'' \<mapsto> w_id s]"

definition updateWorkspace ::
  "casl \<Rightarrow> ident \<Rightarrow> workspace_dto \<Rightarrow> ability \<Rightarrow> ident \<Rightarrow> world \<Rightarrow> exn + workspace_row \<times> world" where
  "updateWorkspace c i dto ab actorId w =
     bindE (findWorkspace c i ab w) (\<lambda>existing.
     bindE (assertMayAct c ab A_update existing) (\<lambda>_.
     bindE (guardE (\<not> (truthy (wd_slug dto) \<and> slugTaken (the (wd_slug dto)) (Some i) w))
              (uniqueConstraintViolation ''slug'')) (\<lambda>_.
     (let f = (\<lambda>s. s\<lparr>w_name := (case wd_name dto of None \<Rightarrow> w_name s | Some x \<Rightarrow> x),
                      w_slug := (case wd_slug dto of None \<Rightarrow> w_slug s | Some x \<Rightarrow> x),
                      w_description := (if wd_description dto = None then w_description s
                                        else wd_description dto),
                      w_is_active := (case wd_is_active dto of None \<Rightarrow> w_is_active s | Some b \<Rightarrow> b),
                      w_updated_by := Some actorId\<rparr>)
      in Inr (f existing,
           audit_record
             (audit ''workspace.updated'' (Some actorId) None (JObj [(''workspaceId'', JStr i)]))
             (w\<lparr>workspaces := update_where (\<lambda>s. w_id s = i) f (workspaces w)\<rparr>))))))"

definition workspace_json :: "workspace_row \<Rightarrow> (string \<times> json) list" where
  "workspace_json s =
     [(''id'', JStr (w_id s)), (''name'', JStr (w_name s)), (''slug'', JStr (w_slug s)),
      (''description'', json_of_option JStr (w_description s)), (''isActive'', JBool (w_is_active s)),
      (''deletedAt'', json_of_option JDate (w_deleted_at s)),
      (''deletedBy'', json_of_option JStr (w_deleted_by s))]"

definition removeWorkspace ::
  "casl \<Rightarrow> ident \<Rightarrow> ability \<Rightarrow> ident \<Rightarrow> time \<Rightarrow> world \<Rightarrow> exn + world" where
  "removeWorkspace c i ab actorId now w =
     bindE (findWorkspace c i ab w) (\<lambda>existing.
     bindE (assertMayAct c ab A_delete existing) (\<lambda>_.
     (let roster = map m_user_id (filter (\<lambda>m. m_workspace_id m = i) (memberships w));
          w1 = w\<lparr>workspaces := update_where (\<lambda>s. w_id s = i)
                   (\<lambda>s. s\<lparr>w_deleted_at := Some now, w_deleted_by := Some actorId\<rparr>) (workspaces w)\<rparr>
      in Inr (audit_record
                (audit ''workspace.soft_deleted'' (Some actorId) None
                   (JObj [(''workspaceId'', JStr i),
                          (''snapshot'', buildAuditSnapshot (workspace_json existing))]))
                (invalidateUsers roster now w1)))))"

end
