(* ===== verification/Invitations.thy ===== *)
theory Invitations
  imports Workspaces
begin

text \<open>
  \<open>src/src/modules/workspaces/invitations/workspace-invitations.service.ts\<close>: inviting an address,
  withdrawing, re-sending and redeeming an invitation.  Delivery of the email is a queued job; whether
  the destination has send budget left is an argument of \<open>resend\<close>.
\<close>

definition invitation_columns :: "invitation_row \<Rightarrow> row" where
  "invitation_columns i = [''id'' \<mapsto> i_id i, ''workspaceId'' \<mapsto> i_workspace_id i]"

definition expiryFromNow :: "int \<Rightarrow> time \<Rightarrow> time" where
  "expiryFromNow expiresInDays now = now + expiresInDays * 24 * 60 * 60 * 1000"

definition queueInvitationEmail :: "ident \<Rightarrow> string \<Rightarrow> ident \<Rightarrow> world \<Rightarrow> world" where
  "queueInvitationEmail invitationId token inviterId w =
     w\<lparr>jobs := jobs w @ [\<lparr>j_name = ''workspace.invitation-email.v1'',
          j_payload = JObj [(''payloadVersion'', JInt 1), (''invitationId'', JStr invitationId),
                            (''token'', JStr token), (''inviterId'', JStr inviterId)]\<rparr>]\<rparr>"

definition pending_for :: "ident \<Rightarrow> string \<Rightarrow> invitation_row \<Rightarrow> bool" where
  "pending_for workspaceId email i \<longleftrightarrow>
     i_workspace_id i = workspaceId \<and> i_email i = email \<and> i_status i = PENDING"

section \<open>Inviting\<close>

definition inviteChecks ::
  "casl \<Rightarrow> ident \<Rightarrow> string \<Rightarrow> ident \<Rightarrow> ability \<Rightarrow> ident \<Rightarrow> world \<Rightarrow> exn + role_row \<times> user_row option" where
  "inviteChecks c workspaceId email roleId ab actorId w =
     bindE (loadAssignableRole roleId w) (\<lambda>role.
     bindE (assertMayAssign c workspaceId actorId role ab None w) (\<lambda>_.
     bindE (guardE (live_workspace w workspaceId) (resourceNotFound ''Workspace'' None)) (\<lambda>_.
     Inr (role, find (\<lambda>u. u_email u = email) (live_users w)))))"

text \<open>The partial unique index on the pending invitations and the one on the digest refuse the insert;
  the service translates the refusal.\<close>

definition inviteTransaction ::
  "ext \<Rightarrow> ident \<Rightarrow> string \<Rightarrow> role_row \<Rightarrow> user_row option \<Rightarrow> string \<Rightarrow> time \<Rightarrow> ident \<Rightarrow> time \<Rightarrow> ident \<Rightarrow> world
   \<Rightarrow> exn + (invitation_row \<times> nat) \<times> world" where
  "inviteTransaction ext workspaceId email role existingUser token expiresAt actorId now newId w =
     (let lapsed = (\<lambda>i. pending_for workspaceId email i \<and> i_expires_at i \<le> now);
          supersededCount = count_where lapsed (invitations w);
          rows = update_where lapsed
                   (\<lambda>i. i\<lparr>i_status := EXPIRED, i_updated_by := Some actorId\<rparr>) (invitations w);
          member = (case existingUser of None \<Rightarrow> None
                    | Some u \<Rightarrow> find_membership workspaceId (u_id u) w)
      in if (case member of None \<Rightarrow> False | Some m \<Rightarrow> m_status m \<noteq> LEFT)
         then Inl (resourceConflict ''That person already has a membership in this workspace'')
         else if \<exists>i \<in> set rows. pending_for workspaceId email i \<or> i_token_hash i = sha256_hex ext token
         then Inl (resourceConflict
                ''That address already has a pending invitation to this workspace'')
         else
           (let created = \<lparr>i_id = newId, i_workspace_id = workspaceId, i_email = email,
                  i_invited_user_id = map_option u_id existingUser, i_role_id = r_id role,
                  i_token_hash = sha256_hex ext token, i_status = PENDING,
                  i_invited_by = Some actorId, i_expires_at = expiresAt, i_accepted_at = None,
                  i_accepted_by = None, i_revoked_at = None, i_revoked_by = None,
                  i_created_by = Some actorId, i_updated_by = Some actorId\<rparr>
            in Inr ((created, supersededCount), w\<lparr>invitations := rows @ [created]\<rparr>)))"

definition createInvitation ::
  "casl \<Rightarrow> ext \<Rightarrow> int \<Rightarrow> ident \<Rightarrow> string \<Rightarrow> ident \<Rightarrow> ability \<Rightarrow> ident \<Rightarrow> string \<Rightarrow> time \<Rightarrow> ident \<Rightarrow> world
   \<Rightarrow> exn + (invitation_row \<times> string) \<times> world" where
  "createInvitation c ext expiresInDays workspaceId email roleId ab actorId token now newId w =
     bindE (inviteChecks c workspaceId email roleId ab actorId w) (\<lambda>(role, existingUser).
     bindE (inviteTransaction ext workspaceId email role existingUser token
              (expiryFromNow expiresInDays now) actorId now newId w)
       (\<lambda>((invitation, supersededCount), w').
     Inr ((invitation, token),
       audit_record
         (audit ''workspace_invitation.created'' (Some actorId) (map_option u_id existingUser)
            (JObj [(''workspaceId'', JStr workspaceId), (''invitationId'', JStr (i_id invitation)),
                   (''roleId'', JStr (r_id role)), (''roleName'', JStr (r_name role)),
                   (''supersededExpiredInvitations'', JInt (int supersededCount))]))
         (queueInvitationEmail (i_id invitation) token actorId w'))))"

section \<open>Withdrawing and re-sending\<close>

definition findVisibleInvitation ::
  "casl \<Rightarrow> ident \<Rightarrow> ident \<Rightarrow> ability \<Rightarrow> world \<Rightarrow> exn + invitation_row" where
  "findVisibleInvitation c workspaceId invitationId ab w =
     bindE (buildWhereOrEmpty c ab A_read S_WorkspaceInvitation
              (\<lambda>r. r ''id'' = Some invitationId \<and> r ''workspaceId'' = Some workspaceId)) (\<lambda>q.
     requireE (find (\<lambda>i. selects q (invitation_columns i)) (invitations w))
       (resourceNotFound ''Workspace invitation'' None))"

text \<open>\<open>updateMany\<close> on the pending row of an id: the number of rows changed, and the new world.\<close>

definition update_pending ::
  "ident \<Rightarrow> (invitation_row \<Rightarrow> invitation_row) \<Rightarrow> world \<Rightarrow> nat \<times> world" where
  "update_pending invitationId f w =
     (count_where (\<lambda>i. i_id i = invitationId \<and> i_status i = PENDING) (invitations w),
      w\<lparr>invitations := update_where (\<lambda>i. i_id i = invitationId \<and> i_status i = PENDING) f
          (invitations w)\<rparr>)"

definition revokeInvitation ::
  "casl \<Rightarrow> ident \<Rightarrow> ident \<Rightarrow> ability \<Rightarrow> ident \<Rightarrow> time \<Rightarrow> world \<Rightarrow> exn + world" where
  "revokeInvitation c workspaceId invitationId ab actorId now w =
     bindE (findVisibleInvitation c workspaceId invitationId ab w) (\<lambda>existing.
     (case update_pending invitationId
             (\<lambda>i. i\<lparr>i_status := REVOKED, i_revoked_at := Some now, i_revoked_by := Some actorId,
                     i_updated_by := Some actorId\<rparr>) w of
        (n, w') \<Rightarrow>
          (if n \<noteq> 1
           then Inl (resourceConflict ''That invitation is no longer pending and cannot be revoked'')
           else Inr (audit_record
             (audit ''workspace_invitation.revoked'' (Some actorId) (i_invited_user_id existing)
                (JObj [(''workspaceId'', JStr workspaceId), (''invitationId'', JStr invitationId)]))
             w'))))"

definition find_invitation :: "ident \<Rightarrow> world \<Rightarrow> exn + invitation_row" where
  "find_invitation i w =
     requireE (find (\<lambda>x. i_id x = i) (invitations w)) (PrismaKnownRequestError ''P2025'')"

definition resendInvitation ::
  "casl \<Rightarrow> ext \<Rightarrow> int \<Rightarrow> ident \<Rightarrow> ident \<Rightarrow> ability \<Rightarrow> ident \<Rightarrow> bool \<Rightarrow> string \<Rightarrow> time \<Rightarrow> world
   \<Rightarrow> exn + invitation_row \<times> world" where
  "resendInvitation c ext expiresInDays workspaceId invitationId ab actorId hasBudget token now w =
     bindE (findVisibleInvitation c workspaceId invitationId ab w) (\<lambda>existing.
     bindE (requireE (find_role w (i_role_id existing)) (PrismaKnownRequestError ''P2025'')) (\<lambda>role.
     bindE (assertMayAssign c workspaceId actorId role ab None w) (\<lambda>_.
     bindE (guardE (live_workspace w workspaceId) (resourceNotFound ''Workspace'' None)) (\<lambda>_.
     if \<not> hasBudget then bindE (find_invitation invitationId w) (\<lambda>i. Inr (i, w))
     else
       (case update_pending invitationId
               (\<lambda>i. i\<lparr>i_token_hash := sha256_hex ext token,
                       i_expires_at := expiryFromNow expiresInDays now,
                       i_updated_by := Some actorId\<rparr>) w of
          (n, w') \<Rightarrow>
            (if n \<noteq> 1
             then Inl (resourceConflict ''That invitation is no longer pending and cannot be resent'')
             else
               (let w2 = audit_record
                      (audit ''workspace_invitation.resent'' (Some actorId) (i_invited_user_id existing)
                         (JObj [(''workspaceId'', JStr workspaceId),
                                (''invitationId'', JStr invitationId)]))
                      (queueInvitationEmail (i_id existing) token actorId w')
                in bindE (find_invitation invitationId w2) (\<lambda>i. Inr (i, w2)))))))))"

section \<open>Redeeming\<close>

definition assertIsInvitee :: "invitation_row \<Rightarrow> ident \<Rightarrow> string \<Rightarrow> world \<Rightarrow> exn + unit" where
  "assertIsInvitee invitation actorId actorEmail w =
     (if truthy (i_invited_user_id invitation)
      then guardE (i_invited_user_id invitation = Some actorId) invitationInvalid
      else if i_email invitation \<noteq> to_lower_case actorEmail then Inl invitationInvalid
      else (case find_live_user w actorId of
              None \<Rightarrow> Inl invitationInvalid
            | Some caller \<Rightarrow> guardE (u_email_verified_at caller \<noteq> None) invitationInvalid))"

text \<open>\<open>loadAbility\<close> is \<open>createAbilityForUser\<close>: the inviter's ability as the cache or the database has it.\<close>

definition assertInviterMayStillAssign ::
  "casl \<Rightarrow> (ident \<Rightarrow> exn + ability) \<Rightarrow> invitation_row \<Rightarrow> world \<Rightarrow> exn + unit" where
  "assertInviterMayStillAssign c loadAbility invitation w =
     (case (if truthy (i_invited_by invitation)
            then find (\<lambda>u. u_id u = the (i_invited_by invitation) \<and> u_is_active u) (live_users w)
            else None) of
        None \<Rightarrow> Inl invitationInvalid
      | Some inviter \<Rightarrow>
          bindE (loadAbility (u_id inviter)) (\<lambda>inviterAbility.
          (case bindE (loadAssignableRole (i_role_id invitation) w) (\<lambda>role.
                assertMayAssign c (i_workspace_id invitation) (u_id inviter) role inviterAbility None w) of
             Inr _ \<Rightarrow> Inr ()
           | Inl e \<Rightarrow> (if is_forbidden e \<or> is_not_found e then Inl invitationInvalid else Inl e))))"

definition acceptChecks ::
  "ext \<Rightarrow> string \<Rightarrow> ident \<Rightarrow> string \<Rightarrow> time \<Rightarrow> world \<Rightarrow> exn + invitation_row" where
  "acceptChecks ext token actorId actorEmail now w =
     (case find (\<lambda>i. i_token_hash i = sha256_hex ext token) (invitations w) of
        None \<Rightarrow> Inl invitationInvalid
      | Some invitation \<Rightarrow>
          (if i_status invitation \<noteq> PENDING \<and> i_status invitation \<noteq> EXPIRED then Inl invitationInvalid
           else if \<not> live_workspace w (i_workspace_id invitation) then Inl invitationInvalid
           else bindE (assertIsInvitee invitation actorId actorEmail w) (\<lambda>_.
             if i_status invitation = EXPIRED \<or> i_expires_at invitation \<le> now
             then Inl invitationExpired else Inr invitation)))"

definition acceptTransaction ::
  "casl \<Rightarrow> (ident \<Rightarrow> exn + ability) \<Rightarrow> invitation_row \<Rightarrow> ident \<Rightarrow> time \<Rightarrow> ident \<Rightarrow> world
   \<Rightarrow> exn + (membership_row \<times> json option) \<times> world" where
  "acceptTransaction c loadAbility invitation actorId now newId w =
     bindE (assertUserMayHoldActiveMembership actorId w) (\<lambda>_.
     bindE (assertInviterMayStillAssign c loadAbility invitation w) (\<lambda>_.
     (let live = (\<lambda>i. i_id i = i_id invitation \<and> i_status i = PENDING \<and> now < i_expires_at i);
          w1 = w\<lparr>invitations := update_where live
                   (\<lambda>i. i\<lparr>i_status := ACCEPTED, i_accepted_at := Some now,
                           i_accepted_by := Some actorId, i_updated_by := Some actorId\<rparr>)
                   (invitations w)\<rparr>;
          workspaceId = i_workspace_id invitation
      in if count_where live (invitations w) \<noteq> 1 then Inl invitationInvalid
         else (case find_membership workspaceId actorId w of
                 Some previous \<Rightarrow>
                   (if m_status previous \<noteq> LEFT
                    then Inl (resourceConflict ''You already have a membership in this workspace'')
                    else bindE (set_membership (m_id previous)
                           (\<lambda>m. m\<lparr>m_role_id := i_role_id invitation, m_status := ACTIVE,
                                   m_joined_at := now, m_ended_at := None,
                                   m_updated_by := Some actorId\<rparr>) w1) (\<lambda>(m, w').
                         Inr ((m, Some (describeTenure w previous)), w')))
               | None \<Rightarrow>
                   (let created = \<lparr>m_id = newId, m_workspace_id = workspaceId, m_user_id = actorId,
                          m_role_id = i_role_id invitation, m_status = ACTIVE, m_joined_at = now,
                          m_ended_at = None, m_invited_by = i_invited_by invitation, m_notes = None,
                          m_created_by = Some actorId, m_updated_by = Some actorId\<rparr>
                    in Inr ((created, None), w1\<lparr>memberships := memberships w1 @ [created]\<rparr>))))))"

definition acceptInvitation ::
  "casl \<Rightarrow> ext \<Rightarrow> (ident \<Rightarrow> exn + ability) \<Rightarrow> string \<Rightarrow> ident \<Rightarrow> string \<Rightarrow> time \<Rightarrow> ident \<Rightarrow> world
   \<Rightarrow> exn + (ident \<times> ident) \<times> world" where
  "acceptInvitation c ext loadAbility token actorId actorEmail now newId w =
     bindE (acceptChecks ext token actorId actorEmail now w) (\<lambda>invitation.
     bindE (acceptTransaction c loadAbility invitation actorId now newId w)
       (\<lambda>((membership, previousTenure), w').
     Inr ((i_workspace_id invitation, m_id membership),
       audit_record
         (audit ''workspace_invitation.accepted'' (Some actorId) (Some actorId)
            (JObj [(''workspaceId'', JStr (i_workspace_id invitation)),
                   (''invitationId'', JStr (i_id invitation)),
                   (''membershipId'', JStr (m_id membership)),
                   (''roleId'', JStr (i_role_id invitation)),
                   (''isRejoin'', JBool (previousTenure \<noteq> None)),
                   (''previousTenure'', json_of_option id previousTenure)]))
         (invalidateUser actorId now w'))))"

end
