(* ===== verification/Accounts.thy ===== *)
theory Accounts
  imports Ownership
begin

text \<open>
  \<open>src/src/modules/users/users.service.ts\<close> and \<open>AuthService.register\<close>: the life of an account, its
  credentials and its verified addresses.  Uploaded files (profile pictures) are not in the world: what
  \<open>gdprErase\<close> does to them and \<open>setProfileImage\<close> are in theory \<open>Account_Mail\<close>.
\<close>

section \<open>Helpers\<close>

definition enqueue :: "string \<Rightarrow> (string \<times> json) list \<Rightarrow> world \<Rightarrow> world" where
  "enqueue n payload w =
     w\<lparr>jobs := jobs w @ [\<lparr>j_name = n, j_payload = JObj ((''payloadVersion'', JInt 1) # payload)\<rparr>]\<rparr>"

definition queueEmailVerification :: "ident \<Rightarrow> world \<Rightarrow> world" where
  "queueEmailVerification userId w =
     enqueue ''user.email-verification.v1'' [(''userId'', JStr userId)] w"

definition queueSignUpAccountExistsNotice :: "ident \<Rightarrow> world \<Rightarrow> world" where
  "queueSignUpAccountExistsNotice userId w =
     enqueue ''user.sign-up-account-exists.v1'' [(''userId'', JStr userId)] w"

definition queuePasswordChangedNotice :: "ident \<Rightarrow> time \<Rightarrow> world \<Rightarrow> world" where
  "queuePasswordChangedNotice userId now w =
     enqueue ''user.password-changed-notice.v1''
       [(''userId'', JStr userId), (''occurredAt'', JDate now)] w"

text \<open>\<open>auditLogId\<close> is the id of the audit row; a failed audit write returns none, and then no notice
  is queued.\<close>

definition recordEmailChange ::
  "user_row \<Rightarrow> string \<Rightarrow> ident option \<Rightarrow> string \<Rightarrow> world \<Rightarrow> world" where
  "recordEmailChange user newEmail actorId auditLogId w =
     (let w1 = audit_record
            (audit ''user.email_changed'' actorId (Some (u_id user))
               (JObj [(''previousEmail'', JStr (u_email user)), (''newEmail'', JStr newEmail)])) w
      in if u_email_verified_at user = None then w1
         else if \<not> audit_up w then w1
         else enqueue ''user.email-changed-notice.v1''
                [(''userId'', JStr (u_id user)), (''auditLogId'', JStr auditLogId)] w1)"

text \<open>\<open>prisma.user.update\<close>.\<close>

definition user_update :: "ident \<Rightarrow> (user_row \<Rightarrow> user_row) \<Rightarrow> world \<Rightarrow> exn + user_row \<times> world" where
  "user_update userId f w =
     (case find_user w userId of
        None \<Rightarrow> Inl (PrismaKnownRequestError ''P2025'')
      | Some user \<Rightarrow>
          (if user_conflict (f user) w then Inl (PrismaKnownRequestError ''P2002'')
           else Inr (f user, w\<lparr>users := update_where (\<lambda>u. u_id u = userId) f (users w)\<rparr>)))"

definition findUserById :: "ident \<Rightarrow> world \<Rightarrow> exn + user_row" where
  "findUserById i w = requireE (find_user w i) (resourceNotFound ''User'' None)"

section \<open>Creation and registration\<close>

record user_dto =
  ud_email :: "string option"
  ud_username :: "string option"
  ud_password :: "string option"
  ud_first_name :: "string option"
  ud_middle_name :: "string option"
  ud_last_name :: "string option"
  ud_phone_number :: "string option"
  ud_gender :: "string option"
  ud_birthday :: "time option"
  ud_timezone :: "string option"
  ud_is_active :: "bool option"

definition text_of :: "string option \<Rightarrow> string" where
  "text_of x = (case x of None \<Rightarrow> [] | Some s \<Rightarrow> s)"

definition createUser ::
  "ext \<Rightarrow> user_dto \<Rightarrow> ident option \<Rightarrow> time \<Rightarrow> ident \<Rightarrow> world \<Rightarrow> exn + user_row \<times> world" where
  "createUser ext dto actorId now newId w =
     (let user = \<lparr>u_id = newId, u_email = to_lower_case (text_of (ud_email dto)),
            u_username = map_option to_lower_case (ud_username dto),
            u_password = hashPassword ext (text_of (ud_password dto)),
            u_password_changed_at = Some now, u_email_verified_at = None, u_is_active = True,
            u_deleted_at = None, u_deleted_by = None, u_first_name = text_of (ud_first_name dto),
            u_middle_name = ud_middle_name dto, u_last_name = text_of (ud_last_name dto),
            u_phone_number = ud_phone_number dto, u_phone_verified_at = None,
            u_gender = ud_gender dto, u_birthday = ud_birthday dto, u_timezone = ud_timezone dto,
            u_profile_image = None, u_otp_hash = None, u_otp_purpose = None, u_otp_expires_at = None,
            u_created_by = actorId, u_updated_by = actorId\<rparr>
      in if user_conflict user w then Inl (PrismaKnownRequestError ''P2002'')
         else
           (let w1 = w\<lparr>users := users w @ [user]\<rparr>;
                w2 = (if truthy actorId
                      then audit_record (audit ''user.created.by_admin'' actorId (Some newId)
                             (JObj [(''email'', JStr (u_email user))])) w1
                      else w1)
            in Inr (user, queueEmailVerification newId w2)))"

definition resendEmailVerification :: "string \<Rightarrow> world \<Rightarrow> world" where
  "resendEmailVerification email w =
     (case findByEmail email w of
        None \<Rightarrow> w
      | Some user \<Rightarrow>
          (if u_email_verified_at user \<noteq> None then w else queueEmailVerification (u_id user) w))"

definition REGISTERED_MESSAGE :: string where
  "REGISTERED_MESSAGE = ''Check your email to verify your account before logging in.''"

text \<open>\<open>disposable\<close> is the third-party list of disposable domains, as \<open>isDisposableEmail\<close> answers;
  \<open>domain\<close> is the address's domain.\<close>

definition register ::
  "ext \<Rightarrow> bool \<Rightarrow> string \<Rightarrow> user_dto \<Rightarrow> time \<Rightarrow> ident \<Rightarrow> world \<Rightarrow> exn + string \<times> world" where
  "register ext disposable domain dto now newId w =
     (if disposable then Inl (emailDomainDisallowed domain)
      else (case findByEmail (text_of (ud_email dto)) w of
              Some existing \<Rightarrow>
                (let w1 = (if u_email_verified_at existing \<noteq> None
                           then queueSignUpAccountExistsNotice (u_id existing) w
                           else resendEmailVerification (u_email existing) w)
                 in Inr (REGISTERED_MESSAGE,
                      audit_record (audit ''user.registration_attempted_existing'' None
                        (Some (u_id existing)) JNull) w1))
            | None \<Rightarrow>
                bindE (createUser ext dto None now newId w) (\<lambda>(user, w').
                Inr (REGISTERED_MESSAGE,
                  audit_record (audit ''user.registered'' None (Some (u_id user)) JNull) w'))))"

section \<open>Deactivation, deletion and erasure\<close>

definition deactivateTransaction ::
  "ident \<Rightarrow> (user_row \<Rightarrow> user_row) \<Rightarrow> ident option \<Rightarrow> clock \<Rightarrow> world \<Rightarrow> exn + user_row \<times> world" where
  "deactivateTransaction userId updateData actorId clk w =
     bindE (assertUserIsNotASoleOwner userId w) (\<lambda>_.
     endAllSessionsInTransaction userId actorId updateData clk w)"

definition deactivate ::
  "ident \<Rightarrow> (user_row \<Rightarrow> user_row) \<Rightarrow> ident option \<Rightarrow> clock \<Rightarrow> world \<Rightarrow> exn + user_row \<times> world" where
  "deactivate userId updateData actorId clk w =
     bindE (deactivateTransaction userId updateData actorId clk w) (\<lambda>(u, w').
     Inr (u, invalidateUsers [userId] (clk 2) w'))"

definition update_data :: "user_dto \<Rightarrow> bool \<Rightarrow> ident option \<Rightarrow> user_row \<Rightarrow> user_row" where
  "update_data dto isEmailChanged actorId u =
     u\<lparr>u_email := (case ud_email dto of None \<Rightarrow> u_email u | Some e \<Rightarrow> to_lower_case e),
        u_email_verified_at := (if isEmailChanged then None else u_email_verified_at u),
        u_username := (case ud_username dto of None \<Rightarrow> u_username u | Some n \<Rightarrow> Some (to_lower_case n)),
        u_first_name := (case ud_first_name dto of None \<Rightarrow> u_first_name u | Some x \<Rightarrow> x),
        u_middle_name := (if ud_middle_name dto = None then u_middle_name u else ud_middle_name dto),
        u_last_name := (case ud_last_name dto of None \<Rightarrow> u_last_name u | Some x \<Rightarrow> x),
        u_phone_number := (if ud_phone_number dto = None then u_phone_number u else ud_phone_number dto),
        u_gender := (if ud_gender dto = None then u_gender u else ud_gender dto),
        u_birthday := (if ud_birthday dto = None then u_birthday u else ud_birthday dto),
        u_timezone := (if ud_timezone dto = None then u_timezone u else ud_timezone dto),
        u_is_active := (case ud_is_active dto of None \<Rightarrow> u_is_active u | Some b \<Rightarrow> b),
        u_updated_by := actorId\<rparr>"

text \<open>The write of \<open>update\<close>, on the row \<open>existing\<close> it read before: only an account that was active then
  goes through \<open>deactivate\<close>.\<close>

definition updateUserWrite ::
  "ident \<Rightarrow> user_dto \<Rightarrow> user_row \<Rightarrow> ident option \<Rightarrow> clock \<Rightarrow> world \<Rightarrow> exn + user_row \<times> world" where
  "updateUserWrite i dto existing actorId clk w =
     (let isEmailChanged = (case ud_email dto of
                              None \<Rightarrow> False
                            | Some e \<Rightarrow> to_lower_case e \<noteq> u_email existing);
          updateData = update_data dto isEmailChanged actorId
      in if ud_is_active dto = Some False \<and> u_is_active existing
         then deactivate i updateData actorId clk w
         else user_update i updateData w)"

definition updateUser ::
  "ident \<Rightarrow> user_dto \<Rightarrow> ident option \<Rightarrow> clock \<Rightarrow> string \<Rightarrow> world \<Rightarrow> exn + user_row \<times> world" where
  "updateUser i dto actorId clk auditLogId w =
     bindE (findUserById i w) (\<lambda>existing.
     bindE (updateUserWrite i dto existing actorId clk w) (\<lambda>(updated, w1).
     (let isEmailChanged = (case ud_email dto of
                              None \<Rightarrow> False
                            | Some e \<Rightarrow> to_lower_case e \<noteq> u_email existing);
          w2 = (if truthy actorId \<and> actorId \<noteq> Some i
                then audit_record (audit ''user.updated.by_admin'' actorId (Some i)
                       (JObj [(''isActiveChanged'', JBool (ud_is_active dto \<noteq> None)),
                              (''isEmailChanged'', JBool isEmailChanged)])) w1
                else w1);
          w3 = (if isEmailChanged
                then queueEmailVerification i
                       (recordEmailChange existing (to_lower_case (text_of (ud_email dto))) actorId
                          auditLogId w2)
                else w2)
      in Inr (updated, w3))))"

definition deleteAccountTransaction ::
  "ident \<Rightarrow> ident option \<Rightarrow> clock \<Rightarrow> world \<Rightarrow> exn + user_row \<times> world" where
  "deleteAccountTransaction userId actorId clk w =
     bindE (assertUserIsNotASoleOwner userId w) (\<lambda>_.
     endAllSessionsInTransaction userId actorId
       (\<lambda>u. u\<lparr>u_deleted_at := Some (clk 2), u_deleted_by := actorId\<rparr>) clk w)"

definition deleteAccount :: "ident \<Rightarrow> ident option \<Rightarrow> clock \<Rightarrow> world \<Rightarrow> exn + world" where
  "deleteAccount userId actorId clk w =
     bindE (deleteAccountTransaction userId actorId clk w) (\<lambda>(_, w').
     Inr (invalidateUsers [userId] (clk 3) w'))"

definition removeUser :: "ident \<Rightarrow> ident option \<Rightarrow> clock \<Rightarrow> world \<Rightarrow> exn + world" where
  "removeUser i actorId clk w =
     bindE (findUserById i w) (\<lambda>_.
     bindE (deleteAccount i actorId clk w) (\<lambda>w'.
     Inr (if truthy actorId
          then audit_record (audit ''user.soft_deleted.by_admin'' actorId (Some i) JNull) w' else w')))"

definition softDelete :: "ident \<Rightarrow> ident \<Rightarrow> clock \<Rightarrow> world \<Rightarrow> exn + world" where
  "softDelete userId actorId clk w =
     bindE (findUserById userId w) (\<lambda>_.
     bindE (deleteAccount userId (Some actorId) clk w) (\<lambda>w'.
     Inr (audit_record (audit ''user.self_deleted'' (Some actorId) (Some userId) JNull) w')))"

definition erased_row :: "ident \<Rightarrow> string \<Rightarrow> time \<Rightarrow> user_row \<Rightarrow> user_row" where
  "erased_row userId erasedPasswordHash now u =
     u\<lparr>u_email := ''deleted-'' @ userId @ ''@deleted.invalid'', u_username := None,
        u_password := erasedPasswordHash, u_first_name := ''Deleted'', u_middle_name := None,
        u_last_name := ''User'', u_phone_number := None, u_gender := None, u_birthday := None,
        u_timezone := None, u_profile_image := None, u_otp_hash := None, u_otp_purpose := None,
        u_otp_expires_at := None, u_email_verified_at := None, u_deleted_at := Some now,
        u_deleted_by := Some userId\<rparr>"

definition gdprEraseTransaction ::
  "ident \<Rightarrow> string \<Rightarrow> time \<Rightarrow> clock \<Rightarrow> world \<Rightarrow> exn + ((ident \<times> string) list \<times> ident list) \<times> world" where
  "gdprEraseTransaction userId erasedPasswordHash now clk w =
     (case closeSolelyOwnedWorkspaces userId userId (clk 2) w of
        (closed, affected, w1) \<Rightarrow>
          bindE (requireE (find_user w1 userId) (PrismaKnownRequestError ''P2025'')) (\<lambda>_.
          bindE (endAllSessionsInTransaction userId (Some userId)
                   (erased_row userId erasedPasswordHash now) clk w1) (\<lambda>(_, w2).
          Inr ((closed, affected), w2))))"

text \<open>\<open>stamp\<close> is the text of the erasure instant in the erased password.\<close>

definition gdprErase ::
  "ext \<Rightarrow> ident \<Rightarrow> string \<Rightarrow> time \<Rightarrow> string \<Rightarrow> clock \<Rightarrow> world \<Rightarrow> exn + world" where
  "gdprErase ext userId currentPassword now stamp clk w =
     bindE (findUserById userId w) (\<lambda>user.
     bindE (guardE (bcrypt_compare ext currentPassword (u_password user)) currentPasswordIncorrect) (\<lambda>_.
     bindE (gdprEraseTransaction userId (hashPassword ext (''erased-'' @ userId @ ''-'' @ stamp)) now
              clk w) (\<lambda>((closed, affected), w').
     Inr (audit_record
            (audit ''user.gdpr_erased'' (Some userId) (Some userId)
               (JObj [(''closedWorkspaceIds'', JArr (map (JStr \<circ> fst) closed))]))
            (invalidateUsers (remdups (userId # affected)) (clk 3) w')))))"

end
