(* ===== verification/Ownership_Machine.thy ===== *)
theory Ownership_Machine
  imports Invitations Accounts
begin

text \<open>
  The invariant the ownership policy exists for: every live workspace has an active owner whose account
  can sign in.  Every transaction that changes memberships, workspaces or accounts is a step; the checks
  a service makes before its transaction are not premises, so a step may follow a read that has gone
  stale.
\<close>

section \<open>The invariant\<close>

definition owner_of :: "world \<Rightarrow> ident \<Rightarrow> bool" where
  "owner_of w i \<longleftrightarrow>
     (\<exists>m \<in> set (memberships w). m_workspace_id m = i \<and> active_owner_of_usable_account w m)"

definition owned :: "world \<Rightarrow> bool" where
  "owned w \<longleftrightarrow> (\<forall>s \<in> set (live_workspaces w). owner_of w (w_id s))"

definition member_key :: "membership_row \<Rightarrow> ident \<times> ident \<times> ident" where
  "member_key m = (m_id m, m_workspace_id m, m_user_id m)"

definition tables_ok :: "world \<Rightarrow> bool" where
  "tables_ok w \<longleftrightarrow>
     distinct (map r_id (roles w)) \<and> distinct (map r_name (roles w)) \<and>
     distinct (map u_id (users w)) \<and> distinct (map m_id (memberships w)) \<and>
     distinct (map (\<lambda>m. (m_workspace_id m, m_user_id m)) (memberships w))"

definition ownership_inv :: "world \<Rightarrow> bool" where
  "ownership_inv w \<longleftrightarrow> tables_ok w \<and> owned w"

section \<open>Frames\<close>

lemma role_name_cong: "roles v = roles w \<Longrightarrow> role_name v = role_name w"
  by (simp add: fun_eq_iff role_name_def find_role_def)

lemma usable_account_cong: "users v = users w \<Longrightarrow> usable_account v = usable_account w"
  by (simp add: fun_eq_iff usable_account_def)

lemma owner_cong:
  assumes "roles v = roles w" and "users v = users w"
  shows "active_owner_of_usable_account v = active_owner_of_usable_account w"
  using role_name_cong [OF assms(1)] usable_account_cong [OF assms(2)]
  by (simp add: fun_eq_iff active_owner_of_usable_account_def active_owner_def)

lemma live_workspaces_cong: "workspaces v = workspaces w \<Longrightarrow> live_workspaces v = live_workspaces w"
  by (simp add: live_workspaces_def)

lemma owned_mono:
  assumes "owned w" and "live_workspaces v = live_workspaces w"
    and "\<And>i. owner_of w i \<Longrightarrow> owner_of v i"
  shows "owned v"
  using assms by (simp add: owned_def)

lemma role_name_row:
  "distinct (map r_id (roles w)) \<Longrightarrow> r \<in> set (roles w) \<Longrightarrow> role_name w (r_id r) = r_name r"
  by (simp add: role_name_def find_role_def find_key)

text \<open>Updating one membership keeps every owner but that row, and that row too if it stays one.\<close>

lemma set_membership_Inr:
  assumes "set_membership mid f w = Inr (m', w')"
  obtains m where "m \<in> set (memberships w)" "m_id m = mid" "m' = f m"
    "w' = w\<lparr>memberships := update_where (\<lambda>m. m_id m = mid) f (memberships w)\<rparr>"
  using assms by (auto simp: set_membership_def split: option.splits dest: find_SomeD)

lemma owner_of_update:
  assumes "owner_of w i" and "\<And>m. m_workspace_id (f m) = m_workspace_id m"
    and "\<And>m. m \<in> set (memberships w) \<Longrightarrow> p m \<Longrightarrow> m_workspace_id m = i \<Longrightarrow>
      active_owner_of_usable_account w m \<Longrightarrow>
      active_owner_of_usable_account w (f m) \<or>
      (\<exists>x \<in> set (memberships w). m_workspace_id x = i \<and> \<not> p x \<and> active_owner_of_usable_account w x)"
  shows "\<exists>m \<in> set (update_where p f (memberships w)).
    m_workspace_id m = i \<and> active_owner_of_usable_account w m"
proof -
  obtain m where m: "m \<in> set (memberships w)" "m_workspace_id m = i"
    "active_owner_of_usable_account w m"
    using assms(1) by (auto simp: owner_of_def)
  have keep: "x \<in> set (update_where p f (memberships w))" if "x \<in> set (memberships w)" "\<not> p x" for x
    using that by (force simp: set_update_where)
  have upd: "f x \<in> set (update_where p f (memberships w))" if "x \<in> set (memberships w)" "p x" for x
    using that by (force simp: set_update_where)
  show ?thesis
  proof (cases "p m")
    case True
    from assms(3) [OF m(1) True m(2,3)] show ?thesis
      using upd [OF m(1) True] keep assms(2) m(2) by metis
  next
    case False
    with keep m show ?thesis by blast
  qed
qed

lemma update_where_member_keys:
  "(\<And>m. member_key (f m) = member_key m) \<Longrightarrow>
   map member_key (update_where p f ms) = map member_key ms"
  by (rule map_update_where) simp

lemma member_keys_ok:
  assumes "map member_key ms' = map member_key ms"
  shows "map m_id ms' = map m_id ms"
    and "map (\<lambda>m. (m_workspace_id m, m_user_id m)) ms' = map (\<lambda>m. (m_workspace_id m, m_user_id m)) ms"
proof -
  have "map (fst \<circ> member_key) ms' = map (fst \<circ> member_key) ms"
    and "map (snd \<circ> member_key) ms' = map (snd \<circ> member_key) ms"
    using assms by (simp_all only: map_map [symmetric])
  then show "map m_id ms' = map m_id ms"
    and "map (\<lambda>m. (m_workspace_id m, m_user_id m)) ms' = map (\<lambda>m. (m_workspace_id m, m_user_id m)) ms"
    by (simp_all add: member_key_def comp_def)
qed

lemma tables_ok_keys:
  "tables_ok w \<Longrightarrow> roles v = roles w \<Longrightarrow> map u_id (users v) = map u_id (users w) \<Longrightarrow>
   map member_key (memberships v) = map member_key (memberships w) \<Longrightarrow>
   tables_ok v"
  using member_keys_ok [of "memberships v" "memberships w"] by (simp add: tables_ok_def)

lemma tables_ok_add:
  assumes "tables_ok w" and "roles v = roles w" and "users v = users w"
    and "map member_key (memberships v) = map member_key (memberships w @ [m])"
    and "m_id m \<notin> m_id ` set (memberships w)"
    and "find_membership (m_workspace_id m) (m_user_id m) w = None"
  shows "tables_ok v"
  using assms(1-3,5,6) member_keys_ok [OF assms(4)]
  by (auto simp: tables_ok_def find_membership_def find_None_iff)

text \<open>The common shape of the membership transactions.\<close>

lemma ownership_inv_memberships:
  assumes "ownership_inv w" and "roles v = roles w" and "users v = users w"
    and "workspaces v = workspaces w" and "tables_ok v"
    and "\<And>i. owner_of w i \<Longrightarrow> owner_of v i"
  shows "ownership_inv v"
  using assms owned_mono [OF _ live_workspaces_cong] by (auto simp: ownership_inv_def)

lemma owner_of_other_tables:
  assumes "roles v = roles w" and "users v = users w"
  shows "owner_of v i \<longleftrightarrow>
    (\<exists>m \<in> set (memberships v). m_workspace_id m = i \<and> active_owner_of_usable_account w m)"
  using owner_cong [OF assms] by (simp add: owner_of_def)

section \<open>The roster keeps the invariant\<close>

text \<open>One membership is rewritten, and it was not the workspace's last usable owner, or stays an owner.\<close>

lemma inv_set_membership:
  assumes inv: "ownership_inv w" and set: "set_membership mid f v = Inr (m', w')"
    and v: "roles v = roles w" "users v = users w" "workspaces v = workspaces w"
      "memberships v = memberships w"
    and key: "\<And>m. member_key (f m) = member_key m"
    and keep: "\<And>m. m \<in> set (memberships w) \<Longrightarrow> m_id m = mid \<Longrightarrow>
      active_owner_of_usable_account w m \<Longrightarrow>
      active_owner_of_usable_account w (f m) \<or>
      (\<exists>x \<in> set (memberships w). m_workspace_id x = m_workspace_id m \<and> m_id x \<noteq> mid \<and>
         active_owner_of_usable_account w x)"
  shows "ownership_inv w'"
proof -
  have w': "w' = v\<lparr>memberships := update_where (\<lambda>m. m_id m = mid) f (memberships w)\<rparr>"
    by (rule set_membership_Inr [OF set]) (simp add: v)
  have same: "roles w' = roles w" "users w' = users w" "workspaces w' = workspaces w"
    by (simp_all add: w' v)
  have keys: "map member_key (memberships w') = map member_key (memberships w)"
    using update_where_member_keys [OF key] by (simp add: w')
  have "owner_of w' i" if "owner_of w i" for i
    unfolding owner_of_other_tables [OF same(1,2)]
    using owner_of_update [OF that, of f "\<lambda>m. m_id m = mid"] key keep
    by (simp add: w' member_key_def) blast
  then show ?thesis
    using inv same tables_ok_keys [OF _ same(1) _ keys]
    by (intro ownership_inv_memberships [OF inv]) (auto simp: ownership_inv_def)
qed

lemma assertAnother_Inr:
  "assertAnotherActiveOwnerExists ws mid w = Inr u \<longleftrightarrow>
     (\<exists>x \<in> set (memberships w). m_workspace_id x = ws \<and> m_id x \<noteq> mid \<and>
        active_owner_of_usable_account w x)"
  using count_where_pos [of "\<lambda>m. m_workspace_id m = ws \<and> m_id m \<noteq> mid \<and>
      active_owner_of_usable_account w m" "memberships w"]
  by (auto simp: assertAnotherActiveOwnerExists_def Let_def simp del: count_where_0)

lemma find_in_workspace_Inr:
  assumes "find_in_workspace ws mid w = Inr x" and "tables_ok w"
  shows "x \<in> set (memberships w)" and "m_id x = mid" and "m_workspace_id x = ws"
    and "m \<in> set (memberships w) \<Longrightarrow> m_id m = mid \<Longrightarrow> m = x"
proof -
  show x: "x \<in> set (memberships w)" "m_id x = mid" "m_workspace_id x = ws"
    using assms(1) by (auto simp: find_in_workspace_def dest: find_SomeD)
  show "m \<in> set (memberships w) \<Longrightarrow> m_id m = mid \<Longrightarrow> m = x"
    using assms(2) x distinct_key [of m_id "memberships w" m x] by (simp add: tables_ok_def)
qed

lemma inv_changeRole:
  assumes inv: "ownership_inv w" and role: "targetRole \<in> set (roles w)"
    and tx: "changeRoleTransaction ws mid uid targetRole rank actor w = Inr (m, w')"
  shows "ownership_inv w'"
proof -
  let ?f = "\<lambda>m. m\<lparr>m_role_id := r_id targetRole, m_updated_by := Some actor\<rparr>"
  have tables: "tables_ok w" using inv by (simp add: ownership_inv_def)
  obtain x where x: "find_in_workspace ws mid w = Inr x"
    and demote: "role_name w (m_role_id x) = WORKSPACE_OWNER \<Longrightarrow> r_name targetRole \<noteq> WORKSPACE_OWNER \<Longrightarrow>
        assertAnotherActiveOwnerExists ws mid w = Inr ()"
    and set: "set_membership mid ?f w = Inr (m, w')"
    using tx by (auto simp: changeRoleTransaction_def Let_def svc split: if_splits)
  note row = find_in_workspace_Inr [OF x tables]
  have new: "role_name w (r_id targetRole) = r_name targetRole"
    using role_name_row role tables by (simp add: tables_ok_def)
  show ?thesis
  proof (rule inv_set_membership [OF inv set refl refl refl refl])
    show "member_key (?f m) = member_key m" for m by (simp add: member_key_def)
    fix y assume y: "y \<in> set (memberships w)" "m_id y = mid" "active_owner_of_usable_account w y"
    then have "y = x" by (simp add: row)
    show "active_owner_of_usable_account w (?f y) \<or>
      (\<exists>x \<in> set (memberships w). m_workspace_id x = m_workspace_id y \<and> m_id x \<noteq> mid \<and>
         active_owner_of_usable_account w x)"
    proof (cases "r_name targetRole = WORKSPACE_OWNER")
      case True
      then show ?thesis
        using y(3) new by (simp add: active_owner_of_usable_account_def active_owner_def)
    next
      case False
      then have "assertAnotherActiveOwnerExists ws mid w = Inr ()"
        using demote y(3) \<open>y = x\<close>
        by (simp add: active_owner_of_usable_account_def active_owner_def)
      then show ?thesis
        using row(3) \<open>y = x\<close> by (simp add: assertAnother_Inr)
    qed
  qed
qed

lemma revokePendingInvitations_simps [simp]:
  "users (revokePendingInvitations ws u a t w) = users w"
  "roles (revokePendingInvitations ws u a t w) = roles w"
  "workspaces (revokePendingInvitations ws u a t w) = workspaces w"
  "memberships (revokePendingInvitations ws u a t w) = memberships w"
  by (simp_all add: revokePendingInvitations_def Let_def)

lemma transition_Inr:
  assumes "transitionTransaction ws mid uid rank actor options now w = Inr (m, w')"
  obtains x where "find_in_workspace ws mid w = Inr x" and "m_status x \<noteq> to_to options"
    and "\<not> (to_from options \<noteq> None \<and> Some (m_status x) \<noteq> to_from options)"
    and "to_is_last_owner_protected options \<and> role_name w (m_role_id x) = WORKSPACE_OWNER \<and>
        m_status x = ACTIVE \<longrightarrow>
        assertAnotherActiveOwnerExists ws mid w = Inr ()"
    and "\<forall>r. rank = Some r \<longrightarrow> role_rank w (m_role_id x) \<le> r"
    and "to_to options = ACTIVE \<longrightarrow> usable_account w uid"
    and "set_membership mid
       (\<lambda>m. m\<lparr>m_status := to_to options,
          m_ended_at := (if to_ended_at options = None then m_ended_at m else to_ended_at options),
          m_updated_by := Some actor\<rparr>)
       (if to_to options \<noteq> ACTIVE then revokePendingInvitations ws (m_user_id x) actor now w else w)
       = Inr (m, w')"
  using assms unfolding transitionTransaction_def Let_def transaction_Inr assertUserMayHold_Inr
    assertRankPermits_Inr
  by (elim exE conjE) (rule that, assumption+)

lemma inv_transition:
  assumes inv: "ownership_inv w" and opts: "options \<in> {suspend_options, reactivate_options, end_options t}"
    and tx: "transitionTransaction ws mid uid rank actor options now w = Inr (m, w')"
  shows "ownership_inv w'"
proof -
  have tables: "tables_ok w" using inv by (simp add: ownership_inv_def)
  obtain x where x: "find_in_workspace ws mid w = Inr x"
    and other: "m_status x \<noteq> to_to options"
    and source: "\<not> (to_from options \<noteq> None \<and> Some (m_status x) \<noteq> to_from options)"
    and last: "to_is_last_owner_protected options \<and> role_name w (m_role_id x) = WORKSPACE_OWNER \<and>
        m_status x = ACTIVE \<longrightarrow>
        assertAnotherActiveOwnerExists ws mid w = Inr ()"
    and set: "set_membership mid
       (\<lambda>m. m\<lparr>m_status := to_to options,
          m_ended_at := (if to_ended_at options = None then m_ended_at m else to_ended_at options),
          m_updated_by := Some actor\<rparr>)
       (if to_to options \<noteq> ACTIVE then revokePendingInvitations ws (m_user_id x) actor now w else w)
       = Inr (m, w')"
    by (rule transition_Inr [OF tx]) (rule that, assumption+)
  note row = find_in_workspace_Inr [OF x tables]
  have "\<exists>z \<in> set (memberships w). m_workspace_id z = m_workspace_id y \<and> m_id z \<noteq> mid \<and>
      active_owner_of_usable_account w z"
    if y: "y \<in> set (memberships w)" "m_id y = mid" "active_owner_of_usable_account w y" for y
  proof -
    have "y = x" using y by (simp add: row)
    then have owner: "active_owner w x" using y(3) by (simp add: active_owner_of_usable_account_def)
    then have "options \<noteq> reactivate_options"
      using source other by (auto simp: reactivate_options_def active_owner_def)
    then have "to_is_last_owner_protected options"
      using opts by (auto simp: suspend_options_def end_options_def)
    then have "assertAnotherActiveOwnerExists ws mid w = Inr ()" using last owner by (simp add: active_owner_def)
    then show ?thesis using row(3) \<open>y = x\<close> by (simp add: assertAnother_Inr)
  qed
  then show ?thesis
    by (intro inv_set_membership [OF inv set]) (simp_all add: member_key_def)
qed

lemma inv_add_row:
  assumes inv: "ownership_inv w" and v: "roles v = roles w" "users v = users w"
    "workspaces v = workspaces w" "memberships v = memberships w @ [m]"
    and fresh: "m_id m \<notin> m_id ` set (memberships w)"
    and none: "find_membership (m_workspace_id m) (m_user_id m) w = None"
  shows "ownership_inv v"
proof (rule ownership_inv_memberships [OF inv v(1-3)])
  show "tables_ok v"
    using inv fresh none by (intro tables_ok_add [OF _ v(1,2), where m = m]) (auto simp: ownership_inv_def v)
  show "owner_of v i" if "owner_of w i" for i
    using that unfolding owner_of_other_tables [OF v(1,2)] unfolding owner_of_def v(4) by auto
qed

text \<open>A membership that had ended was nobody's ownership, so a return may take any role.\<close>

lemma inv_rejoin:
  assumes inv: "ownership_inv w" and set: "set_membership (m_id x) f v = Inr (m', w')"
    and v: "roles v = roles w" "users v = users w" "workspaces v = workspaces w"
      "memberships v = memberships w"
    and key: "\<And>m. member_key (f m) = member_key m"
    and x: "find_membership ws uid w = Some x" "m_status x = LEFT"
  shows "ownership_inv w'"
proof (rule inv_set_membership [OF inv set v key])
  fix m assume m: "m \<in> set (memberships w)" "m_id m = m_id x" "active_owner_of_usable_account w m"
  have "x \<in> set (memberships w)" using x(1) by (auto simp: find_membership_def dest: find_SomeD)
  then have "m = x"
    using inv m(1,2) distinct_key [of m_id "memberships w" m x]
    by (simp add: ownership_inv_def tables_ok_def)
  then show "active_owner_of_usable_account w (f m) \<or>
      (\<exists>z \<in> set (memberships w). m_workspace_id z = m_workspace_id m \<and> m_id z \<noteq> m_id x \<and>
         active_owner_of_usable_account w z)"
    using m(3) x(2) by (simp add: active_owner_of_usable_account_def active_owner_def)
qed

text \<open>The row of a first membership.\<close>

definition enrolled :: "ident \<Rightarrow> ident \<Rightarrow> ident \<Rightarrow> world \<Rightarrow> membership_row \<Rightarrow> world \<Rightarrow> bool" where
  "enrolled newId ws uid w m w' \<longleftrightarrow>
     m_id m = newId \<and> m_workspace_id m = ws \<and> m_user_id m = uid \<and> m_status m = ACTIVE \<and>
     roles w' = roles w \<and> users w' = users w \<and> workspaces w' = workspaces w \<and>
     memberships w' = memberships w @ [m]"

lemma add_enrolled:
  assumes "addTransaction ws uid role annotate notes actor now newId w = Inr ((m, j), w')"
    and "find_membership ws uid w = None"
  shows "enrolled newId ws uid w m w'"
  using assms by (auto simp: addTransaction_def Let_def svc enrolled_def)

lemma accept_enrolled:
  assumes "acceptTransaction c loadAbility invitation actor now newId w = Inr ((m, j), w')"
    and "find_membership (i_workspace_id invitation) actor w = None"
  shows "enrolled newId (i_workspace_id invitation) actor w m w'"
  using assms by (auto simp: acceptTransaction_def Let_def transaction_Inr enrolled_def)

lemma inv_enrolled:
  assumes "ownership_inv w" and "newId \<notin> m_id ` set (memberships w)"
    and "find_membership ws uid w = None" and "enrolled newId ws uid w m w'"
  shows "ownership_inv w'"
  using assms by (intro inv_add_row [OF assms(1), where m = m]) (auto simp: enrolled_def)

lemma inv_add:
  assumes inv: "ownership_inv w" and fresh: "newId \<notin> m_id ` set (memberships w)"
    and tx: "addTransaction ws uid role annotate notes actor now newId w = Inr ((m, j), w')"
  shows "ownership_inv w'"
proof (cases "find_membership ws uid w")
  case None
  show ?thesis by (rule inv_enrolled [OF inv fresh None add_enrolled [OF tx None]])
next
  case (Some x)
  with tx have left: "m_status x = LEFT" by (auto simp: addTransaction_def svc split: if_split_asm)
  with Some tx have "set_membership (m_id x)
      (\<lambda>m. m\<lparr>m_role_id := r_id role, m_status := ACTIVE, m_joined_at := now, m_ended_at := None,
              m_notes := (if annotate \<and> notes \<noteq> None then notes else m_notes m),
              m_updated_by := Some actor\<rparr>) w = Inr (m, w')"
    by (auto simp: addTransaction_def svc)
  from inv_rejoin [OF inv this refl refl refl refl _ Some left] show ?thesis
    by (simp add: member_key_def)
qed

lemma inv_accept:
  assumes inv: "ownership_inv w" and fresh: "newId \<notin> m_id ` set (memberships w)"
    and tx: "acceptTransaction c loadAbility invitation actor now newId w = Inr ((m, j), w')"
  shows "ownership_inv w'"
proof (cases "find_membership (i_workspace_id invitation) actor w")
  case None
  show ?thesis by (rule inv_enrolled [OF inv fresh None accept_enrolled [OF tx None]])
next
  case (Some x)
  with tx have left: "m_status x = LEFT"
    by (auto simp: acceptTransaction_def Let_def transaction_Inr)
  obtain v where set: "set_membership (m_id x)
      (\<lambda>m. m\<lparr>m_role_id := i_role_id invitation, m_status := ACTIVE, m_joined_at := now,
              m_ended_at := None, m_updated_by := Some actor\<rparr>) v = Inr (m, w')"
    and v: "roles v = roles w" "users v = users w" "workspaces v = workspaces w"
      "memberships v = memberships w"
    using Some tx left by (auto simp: acceptTransaction_def Let_def transaction_Inr intro: that)
  from inv_rejoin [OF inv set v _ Some left] show ?thesis by (simp add: member_key_def)
qed

section \<open>The hand-over\<close>

lemma update_whereD:
  "r \<in> set (update_where p f rows) \<Longrightarrow> r \<in> set rows \<and> \<not> p r \<or> (\<exists>x \<in> set rows. p x \<and> r = f x)"
  by (auto simp: set_update_where)

lemma transfer_Inr:
  assumes "transferTransaction ws mid uid ownerRole adminRole actor w = Inr ((promoted, demoted), w')"
  obtains target where "target \<in> set (memberships w)" "m_id target = mid" "m_workspace_id target = ws"
    "m_status target = ACTIVE" "usable_account w uid"
    "w' = w\<lparr>memberships :=
       update_where (\<lambda>m. m_id m = mid) (\<lambda>m. m\<lparr>m_role_id := r_id ownerRole, m_updated_by := Some actor\<rparr>)
         (update_where (\<lambda>m. m_workspace_id m = ws \<and> m_status m = ACTIVE \<and>
                             m_role_id m = r_id ownerRole \<and> m_id m \<noteq> mid)
            (\<lambda>m. m\<lparr>m_role_id := r_id adminRole, m_updated_by := Some actor\<rparr>) (memberships w))\<rparr>"
proof -
  let ?out = "\<lambda>m. m_workspace_id m = ws \<and> m_status m = ACTIVE \<and> m_role_id m = r_id ownerRole \<and> m_id m \<noteq> mid"
  let ?h = "\<lambda>m. m\<lparr>m_role_id := r_id adminRole, m_updated_by := Some actor\<rparr>"
  let ?g = "\<lambda>m. m\<lparr>m_role_id := r_id ownerRole, m_updated_by := Some actor\<rparr>"
  obtain target where usable: "usable_account w uid"
    and found: "find (\<lambda>m. m_id m = mid \<and> m_workspace_id m = ws \<and> membershipOfLiveUser w m \<and>
        live_workspace w (m_workspace_id m)) (memberships w) = Some target"
    and active: "m_status target = ACTIVE"
    and set: "set_membership (m_id target) ?g
        (w\<lparr>memberships := update_where (\<lambda>m. m_workspace_id m = ws \<and> m_status m = ACTIVE \<and>
             m_role_id m = r_id ownerRole \<and> m_id m \<noteq> m_id target) ?h (memberships w)\<rparr>) = Inr (promoted, w')"
    using assms by (auto simp: transferTransaction_def Let_def transaction_Inr svc split: if_split_asm)
  from find_SomeD [OF found] have t: "target \<in> set (memberships w)" "m_id target = mid" "m_workspace_id target = ws"
    by simp_all
  have "w' = w\<lparr>memberships := update_where (\<lambda>m. m_id m = mid) ?g (update_where ?out ?h (memberships w))\<rparr>"
    by (rule set_membership_Inr [OF set]) (simp add: t(2))
  then show ?thesis by (rule that [OF t active usable])
qed

lemma inv_transfer:
  assumes inv: "ownership_inv w" and role: "ownerRole \<in> set (roles w)" "r_name ownerRole = WORKSPACE_OWNER"
    and user: "\<And>m. m \<in> set (memberships w) \<Longrightarrow> m_id m = mid \<Longrightarrow> m_user_id m = uid"
    and tx: "transferTransaction ws mid uid ownerRole adminRole actor w = Inr ((promoted, demoted), w')"
  shows "ownership_inv w'"
proof -
  let ?out = "\<lambda>m. m_workspace_id m = ws \<and> m_status m = ACTIVE \<and> m_role_id m = r_id ownerRole \<and> m_id m \<noteq> mid"
  let ?h = "\<lambda>m. m\<lparr>m_role_id := r_id adminRole, m_updated_by := Some actor\<rparr>"
  let ?g = "\<lambda>m. m\<lparr>m_role_id := r_id ownerRole, m_updated_by := Some actor\<rparr>"
  let ?ms = "update_where ?out ?h (memberships w)"
  obtain t where t: "t \<in> set (memberships w)" "m_id t = mid" "m_workspace_id t = ws"
      "m_status t = ACTIVE" "usable_account w uid"
    and w': "w' = w\<lparr>memberships := update_where (\<lambda>m. m_id m = mid) ?g ?ms\<rparr>"
    by (rule transfer_Inr [OF tx]) (rule that, assumption+)
  have same: "roles w' = roles w" "users w' = users w" "workspaces w' = workspaces w"
    by (simp_all add: w')
  have key: "member_key (?g m) = member_key m" "member_key (?h m) = member_key m" for m
    by (simp_all add: member_key_def)
  have "map member_key (memberships w') = map member_key (memberships w)"
    by (simp add: w' update_where_member_keys key del: member_key_def)
  then have tables: "tables_ok w'"
    using inv same by (intro tables_ok_keys [OF _ same(1)]) (auto simp: ownership_inv_def)
  have role': "role_name w (r_id ownerRole) = WORKSPACE_OWNER"
    using role_name_row role inv by (simp add: ownership_inv_def tables_ok_def)
  have member: "?g t \<in> set (memberships w')"
    using t by (force simp: w' set_update_where)
  have owner: "active_owner_of_usable_account w (?g t)"
    using t user role' by (simp add: active_owner_of_usable_account_def active_owner_def)
  have other: "m \<in> set (memberships w')" if "m \<in> set (memberships w)" "m_workspace_id m \<noteq> ws" for m
    using that t inv distinct_key [of m_id "memberships w" m t]
    by (force simp: w' set_update_where ownership_inv_def tables_ok_def)
  show ?thesis
  proof (rule ownership_inv_memberships [OF inv same tables])
    show "owner_of w' i" if "owner_of w i" for i
    proof (cases "i = ws")
      case True
      with member owner t(3) show ?thesis
        unfolding owner_of_other_tables [OF same(1,2)] by (intro bexI [OF _ member]) simp
    next
      case False
      with that other show ?thesis
        unfolding owner_of_other_tables [OF same(1,2)] unfolding owner_of_def by blast
    qed
  qed
qed

text \<open>After it the incoming owner is the only active owner.\<close>

lemma transfer_sole_owner:
  assumes tables: "tables_ok w"
    and role: "ownerRole \<in> set (roles w)" "r_name ownerRole = WORKSPACE_OWNER"
    and admin: "adminRole \<in> set (roles w)" "r_name adminRole \<noteq> WORKSPACE_OWNER"
    and tx: "transferTransaction ws mid uid ownerRole adminRole actor w = Inr ((promoted, demoted), w')"
    and m: "m \<in> set (memberships w')" "m_workspace_id m = ws" "active_owner w' m"
  shows "m_id m = mid"
proof (rule ccontr)
  assume ne: "m_id m \<noteq> mid"
  let ?out = "\<lambda>m. m_workspace_id m = ws \<and> m_status m = ACTIVE \<and> m_role_id m = r_id ownerRole \<and> m_id m \<noteq> mid"
  let ?h = "\<lambda>m. m\<lparr>m_role_id := r_id adminRole, m_updated_by := Some actor\<rparr>"
  have w': "w' = w\<lparr>memberships := update_where (\<lambda>m. m_id m = mid)
      (\<lambda>m. m\<lparr>m_role_id := r_id ownerRole, m_updated_by := Some actor\<rparr>)
      (update_where ?out ?h (memberships w))\<rparr>"
    by (rule transfer_Inr [OF tx])
  have name: "role_name w' = role_name w" by (rule role_name_cong) (simp add: w')
  have admin': "role_name w (r_id adminRole) \<noteq> WORKSPACE_OWNER"
    using admin role_name_row tables by (simp add: tables_ok_def)
  have "m \<in> set (update_where (\<lambda>m. m_id m = mid)
      (\<lambda>m. m\<lparr>m_role_id := r_id ownerRole, m_updated_by := Some actor\<rparr>)
      (update_where ?out ?h (memberships w)))"
    using m(1) unfolding w' by simp
  from update_whereD [OF this] have "m \<in> set (update_where ?out ?h (memberships w))"
    using ne by (elim disjE bexE conjE) (assumption, simp)
  then obtain x where x: "m = (if ?out x then ?h x else x)"
    unfolding set_update_where by blast
  show False
  proof (cases "?out x")
    case True
    then show ?thesis using x m(3) admin' by (simp add: active_owner_def name)
  next
    case False
    with x have "m = x" by (simp only: if_False)
    then have "m_role_id m \<noteq> r_id ownerRole" using False m ne by (auto simp: active_owner_def)
    moreover have "m_role_id m = r_id ownerRole"
    proof -
      have "role_name w (m_role_id m) = WORKSPACE_OWNER" using m(3) by (simp add: active_owner_def name)
      moreover have "WORKSPACE_OWNER \<noteq> []" by (simp add: WORKSPACE_OWNER_def)
      ultimately obtain r where "r \<in> set (roles w)" "r_id r = m_role_id m" "r_name r = WORKSPACE_OWNER"
        by (auto simp: role_name_def split: option.splits dest: find_role_Some)
      then show ?thesis
        using role tables distinct_key [of r_name "roles w" r ownerRole] by (simp add: tables_ok_def)
    qed
    ultimately show ?thesis by simp
  qed
qed

section \<open>Workspaces and accounts\<close>

lemma inv_create_workspace:
  assumes inv: "ownership_inv w"
    and fresh: "newId \<notin> m_workspace_id ` set (memberships w)" "newMember \<notin> m_id ` set (memberships w)"
    and tx: "createWorkspaceTransaction dto actor now newId newMember w = Inr ((s, m), w')"
  shows "ownership_inv w'"
proof -
  have usable: "usable_account w actor" using tx by (auto simp: createWorkspaceTransaction_def svc)
  obtain r where r: "r \<in> set (roles w)" "r_name r = WORKSPACE_OWNER"
    and m: "m_id m = newMember" "m_workspace_id m = newId" "m_user_id m = actor"
      "m_role_id m = r_id r" "m_status m = ACTIVE"
    and s: "w_id s = newId" "w_deleted_at s = None"
    and w': "w' = w\<lparr>workspaces := workspaces w @ [s], memberships := memberships w @ [m]\<rparr>"
    using tx by (auto simp: createWorkspaceTransaction_def loadSeededWorkspaceRole_def Let_def svc
        dest!: find_SomeD)
  have same: "roles w' = roles w" "users w' = users w" by (simp_all add: w')
  have "find_membership newId actor w = None"
    using fresh(1) by (auto simp: find_membership_def find_None_iff)
  then have tables: "tables_ok w'"
    using inv fresh m by (intro tables_ok_add [OF _ same, where m = m]) (auto simp: w' ownership_inv_def)
  have "role_name w (m_role_id m) = WORKSPACE_OWNER"
    using role_name_row r m inv by (simp add: ownership_inv_def tables_ok_def)
  then have owner: "active_owner_of_usable_account w m"
    using m usable by (simp add: active_owner_of_usable_account_def active_owner_def)
  have "owner_of w' i" if "owner_of w i \<or> i = newId" for i
    using that owner m unfolding owner_of_other_tables [OF same] unfolding owner_of_def by (auto simp: w')
  then show ?thesis
    using inv tables s by (auto simp: ownership_inv_def owned_def live_workspaces_def w')
qed

text \<open>Closing or renaming workspaces, and changes to accounts that stay usable.\<close>

lemma inv_workspaces:
  assumes inv: "ownership_inv w" and v: "roles v = roles w" "users v = users w"
    "memberships v = memberships w" and live: "\<And>i. live_workspace v i \<Longrightarrow> live_workspace w i"
  shows "ownership_inv v"
  using inv live owner_cong [OF v(1,2)] v
  by (fastforce simp: ownership_inv_def owned_def tables_ok_def owner_of_def live_workspace_def)

lemma inv_users:
  assumes inv: "ownership_inv w" and v: "roles v = roles w" "workspaces v = workspaces w"
    "memberships v = memberships w" and ids: "distinct (map u_id (users v))"
    and usable: "\<And>m. m \<in> set (memberships w) \<Longrightarrow> live_workspace w (m_workspace_id m) \<Longrightarrow>
      active_owner w m \<Longrightarrow> usable_account w (m_user_id m) \<Longrightarrow>
      \<exists>x \<in> set (memberships w). m_workspace_id x = m_workspace_id m \<and> active_owner w x \<and>
        usable_account v (m_user_id x)"
  shows "ownership_inv v"
proof -
  have owner: "active_owner v = active_owner w"
    using role_name_cong [OF v(1)] by (simp add: fun_eq_iff active_owner_def)
  have "owner_of v (w_id s)" if s: "s \<in> set (live_workspaces w)" for s
  proof -
    obtain m where m: "m \<in> set (memberships w)" "m_workspace_id m = w_id s" "active_owner w m"
      "usable_account w (m_user_id m)"
      using inv s by (auto simp: ownership_inv_def owned_def owner_of_def active_owner_of_usable_account_def)
    have "live_workspace w (m_workspace_id m)" using s m(2) by (auto simp: live_workspace_def)
    from usable [OF m(1) this m(3,4)] show ?thesis
      by (auto simp: owner_of_def active_owner_of_usable_account_def owner v m(2))
  qed
  then show ?thesis
    using inv v ids by (auto simp: ownership_inv_def owned_def tables_ok_def live_workspaces_cong [OF v(2)])
qed

lemma notASoleOwner_another:
  assumes "assertUserIsNotASoleOwner uid w = Inr u" and "m \<in> set (memberships w)"
    and "live_workspace w (m_workspace_id m)" and "active_owner w m" and "m_user_id m = uid"
  shows "\<exists>x \<in> set (memberships w). m_workspace_id x = m_workspace_id m \<and> m_user_id x \<noteq> uid \<and>
    active_owner_of_usable_account w x"
  using assms by (auto simp: assertUserIsNotASoleOwner_def findSolelyOwnedLiveWorkspaces_def Let_def
      filter_empty_conv)

text \<open>An account stops being usable once it is no workspace's sole owner.\<close>

lemma inv_not_sole_owner:
  assumes inv: "ownership_inv w" and v: "roles v = roles w" "workspaces v = workspaces w"
    "memberships v = memberships w" "map u_id (users v) = map u_id (users w)"
    and check: "assertUserIsNotASoleOwner uid w = Inr u"
    and others: "\<And>i. i \<noteq> uid \<Longrightarrow> usable_account w i \<Longrightarrow> usable_account v i"
  shows "ownership_inv v"
proof (rule inv_users [OF inv v(1-3)])
  show "distinct (map u_id (users v))" using inv v(4) by (simp add: ownership_inv_def tables_ok_def)
  fix m assume m: "m \<in> set (memberships w)" "live_workspace w (m_workspace_id m)" "active_owner w m"
    "usable_account w (m_user_id m)"
  show "\<exists>x \<in> set (memberships w). m_workspace_id x = m_workspace_id m \<and> active_owner w x \<and>
      usable_account v (m_user_id x)"
  proof (cases "m_user_id m = uid")
    case True
    from notASoleOwner_another [OF check m(1-3) True] show ?thesis
      using others by (auto simp: active_owner_of_usable_account_def)
  next
    case False
    then show ?thesis using m others by blast
  qed
qed

end
