(* ===== verification/Credentials.thy ===== *)
theory Credentials
  imports Accounts
begin

text \<open>
  The credential half of \<open>src/src/modules/users/users.service.ts\<close>: password, email and phone changes,
  password-reset links, verification links and codes.  Where the service checks a row it read before
  the transaction, the check and the write are separate definitions, so that a change committed in
  between can be put between them.  The bcrypt and SHA-256 digests and the signed verification link are
  third-party: \<open>ext\<close>, and the link's verified payload as an argument.
\<close>

section \<open>Profile and phone\<close>

definition set_profile :: "user_dto \<Rightarrow> ident \<Rightarrow> user_row \<Rightarrow> user_row" where
  "set_profile dto actorId u =
     u\<lparr>u_first_name := (case ud_first_name dto of None \<Rightarrow> u_first_name u | Some x \<Rightarrow> x),
        u_middle_name := (if ud_middle_name dto = None then u_middle_name u else ud_middle_name dto),
        u_last_name := (case ud_last_name dto of None \<Rightarrow> u_last_name u | Some x \<Rightarrow> x),
        u_phone_number := (if ud_phone_number dto = None then u_phone_number u else ud_phone_number dto),
        u_gender := (if ud_gender dto = None then u_gender u else ud_gender dto),
        u_birthday := (if ud_birthday dto = None then u_birthday u else ud_birthday dto),
        u_timezone := (if ud_timezone dto = None then u_timezone u else ud_timezone dto),
        u_updated_by := Some actorId\<rparr>"

definition updateInfo :: "ident \<Rightarrow> user_dto \<Rightarrow> ident \<Rightarrow> world \<Rightarrow> exn + user_row \<times> world" where
  "updateInfo userId dto actorId w =
     bindE (findUserById userId w) (\<lambda>_.
     bindE (guardE (find_live_user w userId \<noteq> None) (resourceNotFound ''User'' None)) (\<lambda>_.
     user_update userId (set_profile dto actorId) w))"

definition updateUsername :: "ident \<Rightarrow> string \<Rightarrow> ident \<Rightarrow> world \<Rightarrow> exn + user_row \<times> world" where
  "updateUsername userId username actorId w =
     bindE (findUserById userId w) (\<lambda>_.
     user_update userId
       (\<lambda>u. u\<lparr>u_username := Some (to_lower_case username), u_updated_by := Some actorId\<rparr>) w)"

definition updatePhoneNumber :: "ident \<Rightarrow> string \<Rightarrow> ident \<Rightarrow> world \<Rightarrow> exn + user_row \<times> world" where
  "updatePhoneNumber userId phoneNumber actorId w =
     bindE (findUserById userId w) (\<lambda>_.
     user_update userId
       (\<lambda>u. u\<lparr>u_phone_number := Some phoneNumber, u_phone_verified_at := None,
               u_updated_by := Some actorId\<rparr>) w)"

definition PHONE_VERIFY :: string where
  "PHONE_VERIFY = ''phone_verify''"

definition PASSWORD_RESET :: string where
  "PASSWORD_RESET = ''password_reset''"

definition OTP_EXPIRY_MS :: int where
  "OTP_EXPIRY_MS = 15 * 60 * 1000"

definition PASSWORD_RESET_EXPIRY_MINUTES :: int where
  "PASSWORD_RESET_EXPIRY_MINUTES = 60"

text \<open>What the destination's send limit answers.  The message itself goes to a provider; a provider that
  refuses it, after the code was stored, is not modelled.\<close>

datatype reservation_outcome = Reserved | NoBudget | LimiterUnavailable

definition requestPhoneVerification ::
  "ext \<Rightarrow> ident \<Rightarrow> string \<Rightarrow> string \<Rightarrow> reservation_outcome \<Rightarrow> string \<Rightarrow> time \<Rightarrow> world \<Rightarrow> exn + world" where
  "requestPhoneVerification ext userId currentPassword phoneNumber reservation otp now w =
     bindE (findUserById userId w) (\<lambda>user.
     bindE (guardE (bcrypt_compare ext currentPassword (u_password user)) currentPasswordIncorrect) (\<lambda>_.
     (case reservation of
        LimiterUnavailable \<Rightarrow>
          Inl (externalServiceUnavailable ''Phone verification is temporarily unavailable.'')
      | NoBudget \<Rightarrow> Inr w
      | Reserved \<Rightarrow>
          bindE (user_update userId
                   (\<lambda>u. u\<lparr>u_otp_hash := Some (bcrypt_hash ext (otp @ '':'' @ phoneNumber)),
                           u_otp_purpose := Some PHONE_VERIFY,
                           u_otp_expires_at := Some (now + OTP_EXPIRY_MS)\<rparr>) w)
            (\<lambda>(_, w'). Inr w'))))"

definition phoneOtpAccepted :: "ext \<Rightarrow> user_row \<Rightarrow> string \<Rightarrow> string \<Rightarrow> time \<Rightarrow> bool" where
  "phoneOtpAccepted ext user otp phoneNumber now \<longleftrightarrow>
     truthy (u_otp_hash user) \<and> u_otp_purpose user = Some PHONE_VERIFY \<and>
     (case u_otp_expires_at user of None \<Rightarrow> False | Some t \<Rightarrow> \<not> t < now) \<and>
     bcrypt_compare ext (otp @ '':'' @ phoneNumber) (the (u_otp_hash user))"

definition verifyAndUpdatePhoneNumber ::
  "ext \<Rightarrow> ident \<Rightarrow> string \<Rightarrow> string \<Rightarrow> ident \<Rightarrow> time \<Rightarrow> world \<Rightarrow> exn + user_row \<times> world" where
  "verifyAndUpdatePhoneNumber ext userId otp phoneNumber actorId now w =
     bindE (findUserById userId w) (\<lambda>user.
     bindE (guardE (phoneOtpAccepted ext user otp phoneNumber now) invalidOtp) (\<lambda>_.
     user_update userId
       (\<lambda>u. u\<lparr>u_phone_number := Some phoneNumber, u_phone_verified_at := Some now,
               u_otp_hash := None, u_otp_purpose := None, u_otp_expires_at := None,
               u_updated_by := Some actorId\<rparr>) w))"

section \<open>Email\<close>

text \<open>A fresh session follows the change; its own token and row id come from \<open>fresh\<close>.\<close>

definition updateEmail ::
  "ext \<Rightarrow> int \<Rightarrow> ident \<Rightarrow> string \<Rightarrow> string \<Rightarrow> refresh_token_context \<Rightarrow> ident \<Rightarrow> fresh_token \<Rightarrow> string
   \<Rightarrow> string \<Rightarrow> clock \<Rightarrow> nat \<Rightarrow> world \<Rightarrow> exn + (user_row \<times> session_tokens) \<times> world" where
  "updateEmail ext days userId currentPassword newEmailGiven context fam fresh jwtid auditLogId clk later w =
     bindE (findUserById userId w) (\<lambda>user.
     bindE (guardE (bcrypt_compare ext currentPassword (u_password user)) currentPasswordIncorrect) (\<lambda>_.
     (let newEmail = to_lower_case newEmailGiven in
      bindE (endAllSessions userId (Some userId)
               (\<lambda>u. u\<lparr>u_email := newEmail, u_email_verified_at := None\<rparr>) clk w) (\<lambda>(updated, w1).
      (let w2 = (if newEmail \<noteq> u_email user
                 then recordEmailChange user newEmail (Some userId) auditLogId w1 else w1);
           w3 = queueEmailVerification userId w2
       in bindE (startSession ext days userId (u_password_changed_at updated) context fam fresh jwtid
                   (clk 2) later w3) (\<lambda>(tokens, w4).
          Inr ((updated, tokens), w4)))))))"

text \<open>The verified payload of a link; \<open>None\<close> is a link that fails verification.\<close>

record verify_payload =
  vp_sub :: "ident option"
  vp_purpose :: "string option"
  vp_email :: "string option"

datatype link_read = LinkDone | LinkPending user_row

definition readVerification :: "verify_payload option \<Rightarrow> world \<Rightarrow> exn + link_read" where
  "readVerification link w =
     (case link of
        None \<Rightarrow> Inl invalidLink
      | Some payload \<Rightarrow>
          (if vp_purpose payload \<noteq> Some ''email_verify'' \<or> vp_sub payload = None then Inl invalidLink
           else (case findByIdOrNull (the (vp_sub payload)) w of
                   None \<Rightarrow> Inl invalidLink
                 | Some user \<Rightarrow>
                     (if vp_email payload \<noteq> Some (u_email user) then Inl invalidLink
                      else if u_email_verified_at user \<noteq> None then Inr LinkDone
                      else Inr (LinkPending user)))))"

definition commitVerification :: "user_row \<Rightarrow> string \<Rightarrow> time \<Rightarrow> world \<Rightarrow> exn + world" where
  "commitVerification user email now w =
     (let redeemable = (\<lambda>u. u_id u = u_id user \<and> u_email u = email \<and> u_email_verified_at u = None \<and>
                            u_deleted_at u = None)
      in if count_where redeemable (users w) \<noteq> 1
         then (case findByIdOrNull (u_id user) w of
                 None \<Rightarrow> Inl invalidLink
               | Some current \<Rightarrow>
                   (if u_email current = email \<and> u_email_verified_at current \<noteq> None then Inr w
                    else Inl invalidLink))
         else Inr (audit_record (audit ''user.email_verified'' (Some (u_id user)) (Some (u_id user)) JNull)
                (w\<lparr>users := update_where redeemable
                     (\<lambda>u. u\<lparr>u_email_verified_at := Some now, u_updated_by := Some (u_id user)\<rparr>)
                     (users w)\<rparr>)))"

definition verifyEmailByToken :: "verify_payload option \<Rightarrow> time \<Rightarrow> world \<Rightarrow> exn + world" where
  "verifyEmailByToken link now w =
     bindE (readVerification link w) (\<lambda>r.
     (case r of
        LinkDone \<Rightarrow> Inr w
      | LinkPending user \<Rightarrow> commitVerification user (u_email user) now w))"

section \<open>Passwords\<close>

definition applyPasswordChange ::
  "ext \<Rightarrow> ident \<Rightarrow> string \<Rightarrow> ident option \<Rightarrow> (user_row \<Rightarrow> user_row) \<Rightarrow> clock \<Rightarrow> world
   \<Rightarrow> exn + user_row \<times> world" where
  "applyPasswordChange ext userId plaintextPassword actorId extraData clk w =
     (let passwordHash = hashPassword ext plaintextPassword
      in endAllSessionsInTransaction userId actorId
           (\<lambda>u. (extraData u)\<lparr>u_password := passwordHash\<rparr>) clk w)"

definition updateOwnPassword ::
  "ext \<Rightarrow> int \<Rightarrow> ident \<Rightarrow> string \<Rightarrow> string \<Rightarrow> refresh_token_context \<Rightarrow> ident \<Rightarrow> fresh_token \<Rightarrow> string
   \<Rightarrow> clock \<Rightarrow> nat \<Rightarrow> world \<Rightarrow> exn + (user_row \<times> session_tokens) \<times> world" where
  "updateOwnPassword ext days userId currentPassword newPassword context fam fresh jwtid clk later w =
     bindE (findUserById userId w) (\<lambda>user.
     bindE (guardE (bcrypt_compare ext currentPassword (u_password user)) currentPasswordIncorrect) (\<lambda>_.
     bindE (applyPasswordChange ext userId newPassword (Some userId) id clk w) (\<lambda>(updated, w1).
     (let w2 = queuePasswordChangedNotice userId (clk 2) w1
      in bindE (startSession ext days userId (u_password_changed_at updated) context fam fresh jwtid
                  (clk 3) later w2) (\<lambda>(tokens, w3).
         Inr ((updated, tokens), w3))))))"

definition updatePasswordAsAdmin ::
  "ext \<Rightarrow> ident \<Rightarrow> string \<Rightarrow> ident \<Rightarrow> clock \<Rightarrow> world \<Rightarrow> exn + user_row \<times> world" where
  "updatePasswordAsAdmin ext userId newPassword actorId clk w =
     bindE (guardE (userId \<noteq> actorId)
              (adminSelfTargetForbidden ''Use /users/me/password to change your own password'')) (\<lambda>_.
     bindE (findUserById userId w) (\<lambda>_.
     bindE (applyPasswordChange ext userId newPassword (Some actorId) id clk w) (\<lambda>(updated, w1).
     Inr (updated, queuePasswordChangedNotice userId (clk 2)
       (audit_record (audit ''password.reset.by_admin'' (Some actorId) (Some userId) JNull) w1)))))"

definition requestPasswordReset :: "string \<Rightarrow> world \<Rightarrow> world" where
  "requestPasswordReset email w =
     (case findByEmail email w of
        None \<Rightarrow> w
      | Some user \<Rightarrow>
          (if \<not> u_is_active user then w
           else enqueue ''user.password-reset.v1'' [(''userId'', JStr (u_id user))] w))"

definition mintPasswordReset :: "ext \<Rightarrow> ident \<Rightarrow> string \<Rightarrow> time \<Rightarrow> world \<Rightarrow> exn + world" where
  "mintPasswordReset ext userId token now w =
     bindE (user_update userId
              (\<lambda>u. u\<lparr>u_otp_hash := Some (sha256_hex ext token), u_otp_purpose := Some PASSWORD_RESET,
                      u_otp_expires_at := Some (now + PASSWORD_RESET_EXPIRY_MINUTES * 60 * 1000)\<rparr>) w)
       (\<lambda>(_, w'). Inr w')"

text \<open>The check of a reset link, on the row read before the transaction.  Both digests are the hex
  text of a SHA-256, so the constant-time comparison is equality.\<close>

definition resetChecks :: "ext \<Rightarrow> string \<Rightarrow> string \<Rightarrow> time \<Rightarrow> world \<Rightarrow> exn + user_row" where
  "resetChecks ext email token now w =
     (case findByEmail email w of
        None \<Rightarrow> Inl invalidLink
      | Some user \<Rightarrow>
          (if \<not> u_is_active user \<or> \<not> truthy (u_otp_hash user) \<or>
              u_otp_purpose user \<noteq> Some PASSWORD_RESET \<or>
              (case u_otp_expires_at user of None \<Rightarrow> True | Some t \<Rightarrow> t < now) \<or>
              sha256_hex ext token \<noteq> the (u_otp_hash user)
           then Inl invalidLink else Inr user))"

definition resetWrite ::
  "ext \<Rightarrow> user_row \<Rightarrow> string \<Rightarrow> clock \<Rightarrow> world \<Rightarrow> exn + world" where
  "resetWrite ext user newPassword clk w =
     bindE (applyPasswordChange ext (u_id user) newPassword (Some (u_id user))
              (\<lambda>u. u\<lparr>u_otp_hash := None, u_otp_purpose := None, u_otp_expires_at := None\<rparr>) clk w)
       (\<lambda>(_, w1).
     Inr (queuePasswordChangedNotice (u_id user) (clk 2)
       (audit_record (audit ''password.reset.completed'' (Some (u_id user)) (Some (u_id user)) JNull) w1)))"

definition resetPassword ::
  "ext \<Rightarrow> string \<Rightarrow> string \<Rightarrow> string \<Rightarrow> clock \<Rightarrow> world \<Rightarrow> exn + world" where
  "resetPassword ext email token newPassword clk w =
     bindE (resetChecks ext email token (clk 0) w) (\<lambda>user.
     resetWrite ext user newPassword (\<lambda>i. clk (1 + i)) w)"

section \<open>Support operations\<close>

definition revokeAllSessions :: "ident \<Rightarrow> ident \<Rightarrow> clock \<Rightarrow> world \<Rightarrow> exn + world" where
  "revokeAllSessions userId actorId clk w =
     bindE (findUserById userId w) (\<lambda>user.
     bindE (endAllSessions (u_id user) (Some actorId) id clk w) (\<lambda>(_, w').
     Inr (audit_record
       (audit ''user.sessions_revoked_by_support'' (Some actorId) (Some (u_id user)) JNull) w')))"

definition resendVerificationForUser :: "ident \<Rightarrow> ident \<Rightarrow> world \<Rightarrow> exn + world" where
  "resendVerificationForUser userId actorId w =
     bindE (findUserById userId w) (\<lambda>user.
     bindE (guardE (u_email_verified_at user = None)
              (resourceConflict ''That account is already verified'')) (\<lambda>_.
     Inr (audit_record
       (audit ''user.verification_resent_by_support'' (Some actorId) (Some (u_id user)) JNull)
       (queueEmailVerification (u_id user) w))))"

end
