(* ===== verification/Ownership_Steps.thy ===== *)
theory Ownership_Steps
  imports Ownership_Machine Credentials
begin

text \<open>
  The transitions of the ownership machine: every transaction that writes memberships, workspaces or
  accounts, and the interpretation of the machine contract on them.
\<close>

section \<open>Accounts\<close>

lemma endAll_Inr:
  assumes "endAllSessionsInTransaction uid actor f clk w = Inr (u, w')"
  obtains user where "find_user w uid = Some user"
    "u = (f user)\<lparr>u_password_changed_at := Some (nextWholeSecond (clk 0)), u_updated_by := actor\<rparr>"
    "roles w' = roles w" "workspaces w' = workspaces w" "memberships w' = memberships w"
    "invitations w' = invitations w" "users w' = update_where (\<lambda>x. u_id x = uid) (\<lambda>_. u) (users w)"
    "refresh_tokens w' = update_where (\<lambda>r. rt_user_id r = uid \<and> rt_revoked_at r = None)
       (\<lambda>r. r\<lparr>rt_revoked_at := Some (clk 1)\<rparr>) (refresh_tokens w)"
  using assms by (auto simp: endAllSessionsInTransaction_def Let_def throw_Inr split: option.splits)

lemma user_update_Inr:
  assumes "user_update uid f w = Inr (u, w')"
  obtains user where "find_user w uid = Some user" "u = f user"
    "w' = w\<lparr>users := update_where (\<lambda>x. u_id x = uid) f (users w)\<rparr>"
  using assms by (auto simp: user_update_def throw_Inr split: option.splits)

lemma usable_update_other:
  assumes "users v = update_where (\<lambda>x. u_id x = uid) f (users w)" and "i \<noteq> uid" and "usable_account w i"
  shows "usable_account v i"
proof -
  obtain u where u: "u \<in> set (users w)" "u_id u = i" "u_deleted_at u = None" "u_is_active u"
    using assms(3) by (auto simp: usable_account_def)
  have "(if u_id u = uid then f u else u) \<in> set (users v)"
    unfolding assms(1) set_update_where using u(1) by (rule imageI)
  then have "u \<in> set (users v)" using u(2) assms(2) by simp
  then show ?thesis using u by (auto simp: usable_account_def)
qed

lemma user_ids_update:
  assumes "\<And>x. x \<in> set us \<Longrightarrow> u_id x = uid \<Longrightarrow> u_id (f x) = uid"
  shows "map u_id (update_where (\<lambda>x. u_id x = uid) f us) = map u_id us"
  using assms by (induction us) auto

lemma find_user_unique:
  "tables_ok w \<Longrightarrow> find_user w uid = Some user \<Longrightarrow> x \<in> set (users w) \<Longrightarrow> u_id x = uid \<Longrightarrow> x = user"
  using distinct_key [of u_id "users w" x user] find_user_Some [of w uid user]
  by (simp add: tables_ok_def)

text \<open>A write that leaves an account as usable as it was.\<close>

definition keeps_usable :: "(user_row \<Rightarrow> user_row) \<Rightarrow> bool" where
  "keeps_usable f \<longleftrightarrow> (\<forall>u. u_id (f u) = u_id u \<and>
     (u_deleted_at u = None \<and> u_is_active u \<longrightarrow> u_deleted_at (f u) = None \<and> u_is_active (f u)))"

lemma inv_user_rewrite:
  assumes inv: "ownership_inv w" and v: "roles v = roles w" "workspaces v = workspaces w"
    "memberships v = memberships w" "users v = update_where (\<lambda>x. u_id x = uid) f (users w)"
    and f: "\<And>x. x \<in> set (users w) \<Longrightarrow> u_id x = uid \<Longrightarrow> u_id (f x) = uid \<and>
      (u_deleted_at x = None \<and> u_is_active x \<longrightarrow> u_deleted_at (f x) = None \<and> u_is_active (f x))"
  shows "ownership_inv v"
proof (rule inv_users [OF inv v(1-3)])
  have "map u_id (users v) = map u_id (users w)"
    unfolding v(4) by (rule user_ids_update) (simp add: f)
  then show "distinct (map u_id (users v))" using inv by (simp add: ownership_inv_def tables_ok_def)
  have usable: "usable_account v i" if i: "usable_account w i" for i
  proof (cases "i = uid")
    case True
    obtain u where u: "u \<in> set (users w)" "u_id u = uid" "u_deleted_at u = None" "u_is_active u"
      using i True by (auto simp: usable_account_def)
    have "(if u_id u = uid then f u else u) \<in> set (users v)"
      unfolding v(4) set_update_where using u(1) by (rule imageI)
    then show ?thesis using u f [OF u(1,2)] True by (auto simp: usable_account_def)
  next
    case False
    show ?thesis by (rule usable_update_other [OF v(4) False i])
  qed
  fix m assume "m \<in> set (memberships w)" "active_owner w m" "usable_account w (m_user_id m)"
  then show "\<exists>x \<in> set (memberships w). m_workspace_id x = m_workspace_id m \<and> active_owner w x \<and>
      usable_account v (m_user_id x)"
    using usable by blast
qed

lemma inv_user_update:
  assumes "ownership_inv w" and "keeps_usable f" and "user_update uid f w = Inr (u, w')"
  shows "ownership_inv w'"
  by (rule user_update_Inr [OF assms(3)], rule inv_user_rewrite [OF assms(1)])
    (use assms(2) in \<open>auto simp: keeps_usable_def\<close>)

lemma inv_end_sessions:
  assumes inv: "ownership_inv w" and keep: "keeps_usable f"
    and tx: "endAllSessionsInTransaction uid actor f clk w = Inr (u, w')"
  shows "ownership_inv w'"
proof -
  obtain user where user: "find_user w uid = Some user"
    and u: "u = (f user)\<lparr>u_password_changed_at := Some (nextWholeSecond (clk 0)), u_updated_by := actor\<rparr>"
    and w': "roles w' = roles w" "workspaces w' = workspaces w" "memberships w' = memberships w"
      "users w' = update_where (\<lambda>x. u_id x = uid) (\<lambda>_. u) (users w)"
    by (rule endAll_Inr [OF tx]) (rule that, assumption+)
  show ?thesis
  proof (rule inv_user_rewrite [OF inv w'])
    fix x assume "x \<in> set (users w)" "u_id x = uid"
    then have "x = user" using inv find_user_unique [OF _ user, of x] by (simp add: ownership_inv_def)
    then show "u_id u = uid \<and>
        (u_deleted_at x = None \<and> u_is_active x \<longrightarrow> u_deleted_at u = None \<and> u_is_active u)"
      using keep \<open>u_id x = uid\<close> by (auto simp: keeps_usable_def u)
  qed
qed

text \<open>Ending the sessions of an account that is no workspace's sole owner, whatever becomes of it.\<close>

lemma inv_end_not_sole_owner:
  assumes inv: "ownership_inv w" and ids: "\<And>u. u_id (f u) = u_id u"
    and check: "assertUserIsNotASoleOwner uid w = Inr z"
    and tx: "endAllSessionsInTransaction uid actor f clk w = Inr (u, w')"
  shows "ownership_inv w'"
proof -
  obtain user where user: "find_user w uid = Some user"
    and u: "u = (f user)\<lparr>u_password_changed_at := Some (nextWholeSecond (clk 0)), u_updated_by := actor\<rparr>"
    and w': "roles w' = roles w" "workspaces w' = workspaces w" "memberships w' = memberships w"
      "users w' = update_where (\<lambda>x. u_id x = uid) (\<lambda>_. u) (users w)"
    by (rule endAll_Inr [OF tx]) (rule that, assumption+)
  have "u_id u = uid" using find_user_Some [OF user] ids by (simp add: u)
  then have "map u_id (users w') = map u_id (users w)"
    unfolding w'(4) by (intro user_ids_update) simp
  from inv_not_sole_owner [OF inv w'(1-3) this check usable_update_other [OF w'(4)]]
  show ?thesis .
qed

lemma update_data_simps [simp]:
  "u_id (update_data dto b a u) = u_id u"
  "u_deleted_at (update_data dto b a u) = u_deleted_at u"
  "u_is_active (update_data dto b a u) = (case ud_is_active dto of None \<Rightarrow> u_is_active u | Some x \<Rightarrow> x)"
  by (simp_all add: update_data_def)

lemma inv_deactivate:
  assumes inv: "ownership_inv w" and ids: "\<And>u. u_id (f u) = u_id u"
    and tx: "deactivateTransaction uid f actor clk w = Inr (u, w')"
  shows "ownership_inv w'"
  using tx inv_end_not_sole_owner [OF inv ids] by (auto simp: deactivateTransaction_def bindE_Inr_iff)

text \<open>Only the tables matter to the invariant.\<close>

lemma inv_same_tables:
  assumes "ownership_inv w" and "roles v = roles w" "users v = users w" "workspaces v = workspaces w"
    "memberships v = memberships w"
  shows "ownership_inv v"
  by (rule inv_workspaces [OF assms(1-3,5)]) (simp add: live_workspace_def live_workspaces_cong [OF assms(4)])

text \<open>
  An update that deactivates an active account although the request had read it as inactive: the read
  of \<open>UsersService.update\<close> comes before any lock, and another request has reactivated the account
  since.
\<close>

definition stale_deactivation :: "world \<Rightarrow> world \<Rightarrow> bool" where
  "stale_deactivation w w' \<longleftrightarrow>
     (\<exists>uid dto existing actorId clk u cur.
        updateUserWrite uid dto existing actorId clk w = Inr (u, w') \<and> ud_is_active dto = Some False \<and>
        \<not> u_is_active existing \<and> find_user w uid = Some cur \<and> u_is_active cur)"

lemma inv_update_user:
  assumes inv: "ownership_inv w"
    and current: "\<And>x. find_user w uid = Some x \<Longrightarrow> u_is_active x \<Longrightarrow>
      ud_is_active dto = Some False \<Longrightarrow> u_is_active existing"
    and tx: "updateUserWrite uid dto existing actor clk w = Inr (u, w')"
  shows "ownership_inv w'"
proof -
  obtain b where cases: "(if ud_is_active dto = Some False \<and> u_is_active existing
      then deactivate uid (update_data dto b actor) actor clk w
      else user_update uid (update_data dto b actor) w) = Inr (u, w')"
    using tx unfolding updateUserWrite_def Let_def by (rule that)
  show ?thesis
  proof (cases "ud_is_active dto = Some False \<and> u_is_active existing")
    case True
    with cases obtain v where v: "deactivateTransaction uid (update_data dto b actor) actor clk w = Inr (u, v)"
      and w': "w' = invalidateUsers [uid] (clk 2) v"
      by (auto simp: deactivate_def bindE_Inr_iff simp del: invalidateUsers.simps)
    have "ownership_inv v" by (rule inv_deactivate [OF inv _ v]) simp
    then show ?thesis by (rule inv_same_tables) (simp_all add: w' del: invalidateUsers.simps)
  next
    case False
    with cases have "user_update uid (update_data dto b actor) w = Inr (u, w')" by simp
    then obtain cur where cur: "find_user w uid = Some cur"
      and w': "w' = w\<lparr>users := update_where (\<lambda>x. u_id x = uid) (update_data dto b actor) (users w)\<rparr>"
      by (rule user_update_Inr)
    show ?thesis
    proof (rule inv_user_rewrite [OF inv])
      show "users w' = update_where (\<lambda>x. u_id x = uid) (update_data dto b actor) (users w)"
        by (simp add: w')
      fix x assume x: "x \<in> set (users w)" "u_id x = uid"
      then have "x = cur" using inv find_user_unique [OF _ cur, of x] by (simp add: ownership_inv_def)
      then have "\<not> (u_is_active x \<and> ud_is_active dto = Some False \<and> \<not> u_is_active existing)"
        using current cur by blast
      then show "u_id (update_data dto b actor x) = uid \<and>
          (u_deleted_at x = None \<and> u_is_active x \<longrightarrow>
           u_deleted_at (update_data dto b actor x) = None \<and> u_is_active (update_data dto b actor x))"
        using False x(2) by (auto split: option.splits)
    qed (simp_all add: w')
  qed
qed

text \<open>An erasure first closes what the account alone owns.\<close>

lemma close_solely_owned_live:
  assumes "closeSolelyOwnedWorkspaces uid actor now w = (closed, affected, v)"
  shows "live_workspace v i \<longleftrightarrow>
    live_workspace w i \<and> i \<notin> set (map fst (findSolelyOwnedLiveWorkspaces uid w))"
  using assms by (auto simp: closeSolelyOwnedWorkspaces_def Let_def live_workspace_def
      live_workspaces_def set_update_where split: if_splits) (force simp: image_iff)+

lemma close_solely_owned:
  assumes inv: "ownership_inv w" and close: "closeSolelyOwnedWorkspaces uid actor now w = (closed, affected, v)"
  shows "ownership_inv v" and "assertUserIsNotASoleOwner uid v = Inr ()"
    and "roles v = roles w" "users v = users w" "memberships v = memberships w"
proof -
  have v: "roles v = roles w" "users v = users w" "memberships v = memberships w"
    using close by (auto simp: closeSolelyOwnedWorkspaces_def Let_def split: if_splits)
  show "roles v = roles w" "users v = users w" "memberships v = memberships w" by fact+
  note live = close_solely_owned_live [OF close]
  show "ownership_inv v" by (rule inv_workspaces [OF inv v]) (simp add: live)
  have "active_owner v = active_owner w"
    using role_name_cong [OF v(1)] by (simp add: fun_eq_iff active_owner_def)
  then show "assertUserIsNotASoleOwner uid v = Inr ()"
    using owner_cong [OF v(1,2)]
    by (auto simp: assertUserIsNotASoleOwner_def findSolelyOwnedLiveWorkspaces_def live v(3) Let_def
        filter_empty_conv image_iff)
qed

lemma inv_erase:
  assumes inv: "ownership_inv w" and tx: "gdprEraseTransaction uid hash now clk w = Inr (r, w')"
  shows "ownership_inv w'"
proof -
  obtain closed affected v where close: "closeSolelyOwnedWorkspaces uid uid (clk 2) w = (closed, affected, v)"
    by (cases "closeSolelyOwnedWorkspaces uid uid (clk 2) w") auto
  obtain u where "endAllSessionsInTransaction uid (Some uid) (erased_row uid hash now) clk v = Inr (u, w')"
    using tx by (auto simp: gdprEraseTransaction_def close bindE_Inr_iff)
  from inv_end_not_sole_owner [OF close_solely_owned(1) [OF inv close] _
      close_solely_owned(2) [OF inv close] this]
  show ?thesis by (simp add: erased_row_def)
qed

section \<open>The machine\<close>

text \<open>
  The identifiers of new rows are fresh and a transfer names its target's own account.  The rows a
  request read before its transaction may be stale, the account read by \<open>UsersService.update\<close>
  included.
\<close>

inductive ownership_step :: "world \<Rightarrow> world \<Rightarrow> bool" where
  create_workspace:
    "createWorkspaceTransaction dto actor now newId newMember w = Inr ((s, m), w') \<Longrightarrow>
     newId \<notin> m_workspace_id ` set (memberships w) \<Longrightarrow> newMember \<notin> m_id ` set (memberships w) \<Longrightarrow>
     ownership_step w w'"
| edit_workspace: "updateWorkspace c i dto ab actor w = Inr (s, w') \<Longrightarrow> ownership_step w w'"
| close_workspace: "removeWorkspace c i ab actor now w = Inr w' \<Longrightarrow> ownership_step w w'"
| add_member:
    "addTransaction ws uid role annotate notes actor now newId w = Inr ((m, j), w') \<Longrightarrow>
     newId \<notin> m_id ` set (memberships w) \<Longrightarrow> ownership_step w w'"
| annotate_member: "updateMember c ws mid notes ab actor w = Inr (m, w') \<Longrightarrow> ownership_step w w'"
| change_role:
    "changeRoleTransaction ws mid uid role rank actor w = Inr (m, w') \<Longrightarrow> role \<in> set (roles w) \<Longrightarrow>
     ownership_step w w'"
| change_status:
    "transitionTransaction ws mid uid rank actor options now w = Inr (m, w') \<Longrightarrow>
     options \<in> {suspend_options, reactivate_options, end_options t} \<Longrightarrow> ownership_step w w'"
| transfer:
    "transferTransaction ws mid uid ownerRole adminRole actor w = Inr ((promoted, demoted), w') \<Longrightarrow>
     loadSeededWorkspaceRole WORKSPACE_OWNER w = Inr ownerRole \<Longrightarrow>
     (\<And>m. m \<in> set (memberships w) \<Longrightarrow> m_id m = mid \<Longrightarrow> m_user_id m = uid) \<Longrightarrow> ownership_step w w'"
| accept_invitation:
    "acceptTransaction c loadAbility invitation actor now newId w = Inr ((m, j), w') \<Longrightarrow>
     newId \<notin> m_id ` set (memberships w) \<Longrightarrow> ownership_step w w'"
| create_user:
    "createUser ext user_dto actorId now newId w = Inr (u, w') \<Longrightarrow> newId \<notin> u_id ` set (users w) \<Longrightarrow>
     ownership_step w w'"
| update_user:
    "updateUserWrite uid user_dto existing actorId clk w = Inr (u, w') \<Longrightarrow> ownership_step w w'"
| delete_account: "deleteAccountTransaction uid actorId clk w = Inr (u, w') \<Longrightarrow> ownership_step w w'"
| erase_account: "gdprEraseTransaction uid hash now clk w = Inr (r, w') \<Longrightarrow> ownership_step w w'"
| write_account: "user_update uid f w = Inr (u, w') \<Longrightarrow> keeps_usable f \<Longrightarrow> ownership_step w w'"
| end_sessions:
    "endAllSessionsInTransaction uid actorId f clk w = Inr (u, w') \<Longrightarrow> keeps_usable f \<Longrightarrow>
     ownership_step w w'"
| elsewhere:
    "roles w' = roles w \<Longrightarrow> users w' = users w \<Longrightarrow> workspaces w' = workspaces w \<Longrightarrow>
     memberships w' = memberships w \<Longrightarrow> ownership_step w w'"

text \<open>A database that holds no live workspace yet.\<close>

definition without_workspaces :: "world \<Rightarrow> bool" where
  "without_workspaces w \<longleftrightarrow> tables_ok w \<and> live_workspaces w = []"

lemma inv_edit_workspace:
  assumes inv: "ownership_inv w" and tx: "updateWorkspace c i dto ab actor w = Inr (s, w')"
  shows "ownership_inv w'"
proof -
  let ?f = "\<lambda>s. s\<lparr>w_name := (case wd_name dto of None \<Rightarrow> w_name s | Some x \<Rightarrow> x),
      w_slug := (case wd_slug dto of None \<Rightarrow> w_slug s | Some x \<Rightarrow> x),
      w_description := (if wd_description dto = None then w_description s else wd_description dto),
      w_is_active := (case wd_is_active dto of None \<Rightarrow> w_is_active s | Some b \<Rightarrow> b),
      w_updated_by := Some actor\<rparr>"
  have w': "roles w' = roles w" "users w' = users w" "memberships w' = memberships w"
      "workspaces w' = update_where (\<lambda>s. w_id s = i) ?f (workspaces w)"
    using tx by (auto simp: updateWorkspace_def Let_def bindE_Inr_iff)
  show ?thesis
    by (rule inv_workspaces [OF inv w'(1-3)])
      (auto simp: live_workspace_def live_workspaces_def w'(4) set_update_where split: if_splits)
qed

lemma inv_close_workspace:
  assumes inv: "ownership_inv w" and tx: "removeWorkspace c i ab actor now w = Inr w'"
  shows "ownership_inv w'"
proof -
  have w': "roles w' = roles w" "users w' = users w" "memberships w' = memberships w"
    "workspaces w' = update_where (\<lambda>s. w_id s = i)
       (\<lambda>s. s\<lparr>w_deleted_at := Some now, w_deleted_by := Some actor\<rparr>) (workspaces w)"
    using tx by (auto simp: removeWorkspace_def Let_def bindE_Inr_iff)
  show ?thesis
    by (rule inv_workspaces [OF inv w'(1-3)])
      (auto simp: live_workspace_def live_workspaces_def w'(4) set_update_where split: if_splits)
qed

lemma inv_annotate:
  assumes inv: "ownership_inv w" and tx: "updateMember c ws mid notes ab actor w = Inr (m, w')"
  shows "ownership_inv w'"
proof -
  obtain v where set: "set_membership mid
      (\<lambda>m. m\<lparr>m_notes := (if notes = None then m_notes m else notes), m_updated_by := Some actor\<rparr>) w
      = Inr (m, v)"
    and w': "roles w' = roles v" "users w' = users v" "workspaces w' = workspaces v"
      "memberships w' = memberships v"
    using tx by (auto simp: updateMember_def bindE_Inr_iff intro: that)
  have "ownership_inv v"
    by (rule inv_set_membership [OF inv set])
      (auto simp: member_key_def active_owner_of_usable_account_def active_owner_def)
  then show ?thesis by (rule inv_same_tables) (simp_all add: w')
qed

lemma inv_create_user:
  assumes inv: "ownership_inv w" and fresh: "newId \<notin> u_id ` set (users w)"
    and tx: "createUser ext dto actorId now newId w = Inr (u, w')"
  shows "ownership_inv w'"
proof -
  have w': "roles w' = roles w" "workspaces w' = workspaces w" "memberships w' = memberships w"
    "users w' = users w @ [u]" and u: "u_id u = newId"
    using tx by (auto simp: createUser_def Let_def throw_Inr queueEmailVerification_def enqueue_def)
  show ?thesis
  proof (rule inv_users [OF inv w'(1-3)])
    show "distinct (map u_id (users w'))"
      using inv fresh by (auto simp: w'(4) u ownership_inv_def tables_ok_def)
    fix m assume "m \<in> set (memberships w)" "active_owner w m" "usable_account w (m_user_id m)"
    then show "\<exists>x \<in> set (memberships w). m_workspace_id x = m_workspace_id m \<and> active_owner w x \<and>
        usable_account w' (m_user_id x)"
      by (intro bexI [of _ m]) (auto simp: usable_account_def w'(4))
  qed
qed

lemma inv_delete_account:
  assumes inv: "ownership_inv w" and tx: "deleteAccountTransaction uid actorId clk w = Inr (u, w')"
  shows "ownership_inv w'"
  using tx inv_end_not_sole_owner [OF inv, of "\<lambda>u. u\<lparr>u_deleted_at := Some (clk 2), u_deleted_by := actorId\<rparr>"]
  by (auto simp: deleteAccountTransaction_def bindE_Inr_iff)

lemma loadSeededWorkspaceRole_Inr:
  "loadSeededWorkspaceRole n w = Inr r \<Longrightarrow> r \<in> set (roles w) \<and> r_name r = n"
  by (auto simp: loadSeededWorkspaceRole_def dest: find_SomeD)

text \<open>Every step but a stale deactivation keeps the invariant.\<close>

definition careful_step :: "world \<Rightarrow> world \<Rightarrow> bool" where
  "careful_step w w' \<longleftrightarrow> ownership_step w w' \<and> \<not> stale_deactivation w w'"

lemma inv_ownership_step:
  "ownership_step w w' \<Longrightarrow> \<not> stale_deactivation w w' \<Longrightarrow> ownership_inv w \<Longrightarrow> ownership_inv w'"
proof (induction rule: ownership_step.induct)
  case create_workspace
  then show ?case by (blast intro: inv_create_workspace)
next
  case edit_workspace
  then show ?case by (blast intro: inv_edit_workspace)
next
  case close_workspace
  then show ?case by (blast intro: inv_close_workspace)
next
  case add_member
  then show ?case by (blast intro: inv_add)
next
  case annotate_member
  then show ?case by (blast intro: inv_annotate)
next
  case change_role
  then show ?case by (blast intro: inv_changeRole)
next
  case change_status
  show ?case by (rule inv_transition [OF change_status.prems(2) change_status.hyps(2,1)])
next
  case (transfer ws mid uid ownerRole adminRole actor w promoted demoted w')
  note role = loadSeededWorkspaceRole_Inr [OF transfer.hyps(2)]
  show ?case
    by (rule inv_transfer [OF transfer.prems(2) conjunct1 [OF role] conjunct2 [OF role]
          transfer.hyps(3) transfer.hyps(1)])
next
  case accept_invitation
  then show ?case by (blast intro: inv_accept)
next
  case create_user
  then show ?case by (blast intro: inv_create_user)
next
  case (update_user uid dto existing actorId clk w u w')
  show ?case
  proof (rule inv_update_user [OF update_user.prems(2) _ update_user.hyps])
    fix x assume "find_user w uid = Some x" "u_is_active x" "ud_is_active dto = Some False"
    then show "u_is_active existing"
      using update_user.hyps update_user.prems(1) unfolding stale_deactivation_def by blast
  qed
next
  case delete_account
  then show ?case by (blast intro: inv_delete_account)
next
  case erase_account
  then show ?case by (blast intro: inv_erase)
next
  case write_account
  then show ?case by (blast intro: inv_user_update)
next
  case end_sessions
  then show ?case by (blast intro: inv_end_sessions)
next
  case elsewhere
  then show ?case by (blast intro: inv_same_tables)
qed

interpretation ownership: machine without_workspaces careful_step ownership_inv
proof
  show "without_workspaces w \<Longrightarrow> ownership_inv w" for w
    by (simp add: without_workspaces_def ownership_inv_def owned_def)
  show "ownership_inv w \<Longrightarrow> careful_step w w' \<Longrightarrow> ownership_inv w'" for w w'
    unfolding careful_step_def by (blast intro: inv_ownership_step)
qed

text \<open>A run either stays careful or contains a stale deactivation.\<close>

lemma reachable_careful:
  assumes "reachable without_workspaces ownership_step w"
  shows "reachable without_workspaces careful_step w \<or>
    (\<exists>v v'. reachable without_workspaces careful_step v \<and> stale_deactivation v v' \<and> ownership_step\<^sup>*\<^sup>* v' w)"
  using assms
proof (induction rule: reachable.induct)
  case (start w)
  then show ?case by (simp add: reachable.start)
next
  case (next_step w w')
  from next_step.IH show ?case
  proof
    assume w: "reachable without_workspaces careful_step w"
    show ?thesis
    proof (cases "stale_deactivation w w'")
      case True
      with w show ?thesis by blast
    next
      case False
      with next_step.hyps(2) have "careful_step w w'" by (simp add: careful_step_def)
      with w show ?thesis by (blast intro: reachable.next_step)
    qed
  next
    assume "\<exists>v v'. reachable without_workspaces careful_step v \<and> stale_deactivation v v' \<and>
      ownership_step\<^sup>*\<^sup>* v' w"
    then show ?thesis using next_step.hyps(2) by (blast intro: rtranclp.rtrancl_into_rtrancl)
  qed
qed

end
