(* ===== verification/Ownership_Properties.thy ===== *)
theory Ownership_Properties
  imports Ownership_Steps
begin

text \<open>
  What the workspaces promise: an owner who can sign in, one owner after a hand-over, refusals that
  protect the last one, an erasure that closes exactly what would be left ownerless, roles handed out
  below the actor's own, and a departure that also withdraws invitations.
\<close>

lemma findMembership_Inr:
  assumes "findMembership c ws mid ab w = Inr x"
  shows "x \<in> set (memberships w)" and "m_id x = mid" and "m_workspace_id x = ws"
proof -
  obtain q where q: "buildWhereOrEmpty c ab A_read S_WorkspaceMembership
        (\<lambda>r. r ''id'' = Some mid \<and> r ''workspaceId'' = Some ws) = Inr q"
    and x: "x \<in> set (memberships w)" "selects q (membership_columns x)"
    using assms by (auto simp: findMembership_def bindE_Inr_iff dest!: find_SomeD)
  have "r ''id'' = Some mid \<and> r ''workspaceId'' = Some ws" if "selects q r" for r
    using q that by (auto simp: buildWhereOrEmpty_def buildWhere_def split: if_splits fragment.splits list.splits)
  from this [OF x(2)] have "m_id x = mid \<and> m_workspace_id x = ws"
    by (simp add: membership_columns_def)
  then show "x \<in> set (memberships w)" "m_id x = mid" "m_workspace_id x = ws" using x(1) by simp_all
qed

section \<open>Ownership\<close>


text \<open>C18: after a hand-over the workspace's only active owner is the member it was handed to, and that
  member's account can sign in.\<close>

theorem transfer_leaves_one_owner:
  assumes "ownership_inv w" and "transferOwnership c ws mid ab actor now w = Inr (p, w')"
  shows "\<exists>m \<in> set (memberships w'). m_id m = mid \<and> active_owner_of_usable_account w' m \<and>
    (\<forall>x \<in> set (memberships w'). m_workspace_id x = ws \<and> active_owner w' x \<longrightarrow> x = m)"
proof -
  obtain ownerRole adminRole t demoted v
    where roles: "loadSeededWorkspaceRole WORKSPACE_OWNER w = Inr ownerRole"
      "loadSeededWorkspaceRole WORKSPACE_ADMIN w = Inr adminRole"
    and t: "findMembership c ws mid ab w = Inr t"
    and tx: "transferTransaction ws mid (m_user_id t) ownerRole adminRole actor w = Inr ((p, demoted), v)"
    and w': "roles w' = roles v" "users w' = users v" "memberships w' = memberships v"
    using assms(2) by (auto simp: transferOwnership_def bindE_Inr_iff simp del: invalidateUsers.simps)
  note owner = loadSeededWorkspaceRole_Inr [OF roles(1)]
    and admin = loadSeededWorkspaceRole_Inr [OF roles(2)]
  have tables: "tables_ok w" using assms(1) by (simp add: ownership_inv_def)
  have user: "m_user_id m = m_user_id t" if "m \<in> set (memberships w)" "m_id m = mid" for m
    using that tables findMembership_Inr [OF t] distinct_key [of m_id "memberships w" m t]
    by (simp add: tables_ok_def)
  have sole: "m_id x = mid" if "x \<in> set (memberships v)" "m_workspace_id x = ws" "active_owner v x" for x
    by (rule transfer_sole_owner [OF tables _ _ _ _ tx that])
      (use owner admin in \<open>simp_all add: WORKSPACE_OWNER_def WORKSPACE_ADMIN_def\<close>)
  have inv: "ownership_inv v"
    by (rule inv_transfer [OF assms(1) conjunct1 [OF owner] conjunct2 [OF owner] user tx])
  obtain x where x: "x \<in> set (memberships w)" "m_id x = mid" "m_workspace_id x = ws" "m_status x = ACTIVE"
      "usable_account w (m_user_id t)"
    and v: "roles v = roles w" "users v = users w"
      "x\<lparr>m_role_id := r_id ownerRole, m_updated_by := Some actor\<rparr> \<in> set (memberships v)"
    by (rule transfer_Inr [OF tx]) (rule that, assumption+, (force simp: set_update_where)+)
  let ?m = "x\<lparr>m_role_id := r_id ownerRole, m_updated_by := Some actor\<rparr>"
  have "role_name w (r_id ownerRole) = WORKSPACE_OWNER"
    using owner role_name_row tables by (simp add: tables_ok_def)
  then have m: "active_owner_of_usable_account w ?m"
    using x user by (simp add: active_owner_of_usable_account_def active_owner_def)
  have cong: "active_owner_of_usable_account w' = active_owner_of_usable_account w"
    "active_owner w' = active_owner v"
    using owner_cong [of w' w] role_name_cong [of w' v] w' v
    by (simp_all add: fun_eq_iff active_owner_def)
  show ?thesis
  proof (intro bexI [of _ ?m] conjI ballI impI)
    fix y assume y: "y \<in> set (memberships w')" "m_workspace_id y = ws \<and> active_owner w' y"
    then have "m_id y = mid" using sole by (simp add: w' cong)
    then show "y = ?m"
      using inv y(1) v(3) x(2) distinct_key [of m_id "memberships v" y ?m]
      by (simp add: w' ownership_inv_def tables_ok_def)
  qed (use x v m w' cong in simp_all)
qed

text \<open>C19: the last usable owner cannot be demoted, suspended or removed, whoever asks: with no other
  active owner whose account can sign in, an actor of the owner's rank or above, or one no rank binds, is
  answered that the last owner is protected, and any other actor that the role is not theirs to touch.\<close>

theorem last_owner_is_protected:
  assumes "tables_ok w" and "m \<in> set (memberships w)" and "active_owner w m"
    and "\<forall>x \<in> set (memberships w). m_workspace_id x = m_workspace_id m \<and>
      active_owner_of_usable_account w x \<longrightarrow> x = m"
    and "r_name role \<noteq> WORKSPACE_OWNER" and "usable_account w (m_user_id m)"
    and "options \<in> {suspend_options, end_options t}"
  shows "changeRoleTransaction (m_workspace_id m) (m_id m) (m_user_id m) role rank actor w =
      Inl (case rank of
             None \<Rightarrow> lastOwnerProtected []
           | Some k \<Rightarrow> (if role_rank w (m_role_id m) \<le> k then lastOwnerProtected [] else roleNotAssignable)) \<and>
    transitionTransaction (m_workspace_id m) (m_id m) (m_user_id m) rank actor options now w =
      Inl (case rank of
             None \<Rightarrow> lastOwnerProtected []
           | Some k \<Rightarrow> (if role_rank w (m_role_id m) \<le> k then lastOwnerProtected [] else roleNotAssignable))"
proof -
  have found: "find_in_workspace (m_workspace_id m) (m_id m) w = Inr m"
  proof -
    have "find (\<lambda>x. m_id x = m_id m \<and> m_workspace_id x = m_workspace_id m) (memberships w) \<noteq> None"
      using assms(2) by (auto simp: find_None_iff)
    then obtain x where x: "find (\<lambda>x. m_id x = m_id m \<and> m_workspace_id x = m_workspace_id m) (memberships w) = Some x"
      by blast
    with find_SomeD [OF x] assms(1,2) have "x = m"
      using distinct_key [of m_id "memberships w" x m] by (simp add: tables_ok_def)
    with x show ?thesis by (simp add: find_in_workspace_def)
  qed
  have "assertAnotherActiveOwnerExists (m_workspace_id m) (m_id m) w \<noteq> Inr ()"
    using assms(4) by (auto simp: assertAnother_Inr)
  then have last: "assertAnotherActiveOwnerExists (m_workspace_id m) (m_id m) w = Inl (lastOwnerProtected [])"
    by (auto simp: assertAnotherActiveOwnerExists_def Let_def guardE_def simp del: count_where_0
        split: if_splits)
  have usable: "assertUserMayHoldActiveMembership (m_user_id m) w = Inr ()"
    using assms(6) by (simp add: svc)
  show ?thesis
    using assms(3,5,7)
    by (cases rank) (auto simp: changeRoleTransaction_def transitionTransaction_def found last usable
        assertRankPermits_def guardE_def Let_def active_owner_def suspend_options_def end_options_def)
qed

lemma erased_row_simps [simp]:
  "u_id (erased_row uid hash now u) = u_id u"
  "u_deleted_at (erased_row uid hash now u) = Some now"
  by (simp_all add: erased_row_def)

text \<open>C21: an erasure goes through for an account whatever it owns, deletes the account, and closes exactly
  the live workspaces in which it was an active owner and nobody else with a usable account was.\<close>

theorem erasure_closes_exactly_sole_ownerships:
  assumes "gdprEraseTransaction uid hash now clk w = Inr ((closed, affected), w')"
  shows "(live_workspace w' i \<longleftrightarrow> live_workspace w i \<and>
      \<not> ((\<exists>m \<in> set (memberships w). m_workspace_id m = i \<and> m_user_id m = uid \<and> active_owner w m) \<and>
         \<not> (\<exists>m \<in> set (memberships w). m_workspace_id m = i \<and> m_user_id m \<noteq> uid \<and>
              active_owner_of_usable_account w m))) \<and>
    \<not> usable_account w' uid"
proof -
  obtain v where close: "closeSolelyOwnedWorkspaces uid uid (clk 2) w = (closed, affected, v)"
    and ends: "\<exists>u. endAllSessionsInTransaction uid (Some uid) (erased_row uid hash now) clk v = Inr (u, w')"
    using assms by (auto simp: gdprEraseTransaction_def bindE_Inr_iff split: prod.splits)
  then obtain u where u: "endAllSessionsInTransaction uid (Some uid) (erased_row uid hash now) clk v = Inr (u, w')"
    by blast
  obtain user where user: "find_user v uid = Some user"
    and u': "u = (erased_row uid hash now user)
        \<lparr>u_password_changed_at := Some (nextWholeSecond (clk 0)), u_updated_by := Some uid\<rparr>"
    and w': "workspaces w' = workspaces v" "users w' = update_where (\<lambda>x. u_id x = uid) (\<lambda>_. u) (users v)"
    by (rule endAll_Inr [OF u]) (rule that, assumption+)
  have "u_deleted_at u = Some now" "u_id u = uid"
    using find_user_Some [OF user] by (simp_all add: u')
  then have "\<not> usable_account w' uid"
    by (auto simp: usable_account_def w'(2) set_update_where split: if_splits)
  moreover have "live_workspace v i \<longleftrightarrow>
      live_workspace w i \<and> i \<notin> fst ` set (findSolelyOwnedLiveWorkspaces uid w)"
    using close_solely_owned_live [OF close] by simp
  moreover have "i \<in> fst ` set (findSolelyOwnedLiveWorkspaces uid w) \<longleftrightarrow> live_workspace w i \<and>
      (\<exists>m \<in> set (memberships w). m_workspace_id m = i \<and> m_user_id m = uid \<and> active_owner w m) \<and>
      \<not> (\<exists>m \<in> set (memberships w). m_workspace_id m = i \<and> m_user_id m \<noteq> uid \<and>
           active_owner_of_usable_account w m)"
    by (force simp: findSolelyOwnedLiveWorkspaces_def Let_def image_iff)
  ultimately show ?thesis
    using w'(1) by (auto simp: live_workspace_def live_workspaces_def)
qed

section \<open>Handing out roles\<close>

lemma resolveActorRank_Inr:
  assumes "resolveActorRank c ws actor ab w = Inr rank" and "\<not> can_type c ab A_manage S_all"
  obtains own where "own \<in> set (memberships w)" "m_workspace_id own = ws" "m_user_id own = actor"
    "m_status own = ACTIVE" "rank = Some (role_rank w (m_role_id own))"
  using assms by (auto simp: resolveActorRank_def find_membership_def split: option.splits if_splits
      dest!: find_SomeD)

lemma role_rank_row: "find_role w i = Some r \<Longrightarrow> role_rank w (r_id r) = r_rank r"
  using find_role_Some [of w i r] by (auto simp: role_rank_def)

text \<open>C20: nobody short of a platform administrator changes a role above their own.  A role change that
  goes through was made by an active member of that workspace whose rank is at least that of the
  member's former role and at least that of the new one, and a privileged role was given only by a
  caller allowed to assign roles.\<close>

theorem role_change_rank_ceiling:
  assumes "tables_ok w" and "\<not> can_type c ab A_manage S_all"
    and "changeRole c ws mid roleId ab actor now w = Inr (m, w')"
  shows "\<exists>own \<in> set (memberships w). \<exists>before \<in> set (memberships w).
    m_workspace_id own = ws \<and> m_user_id own = actor \<and> m_status own = ACTIVE \<and>
    m_workspace_id before = ws \<and> m_id before = mid \<and>
    role_rank w (m_role_id before) \<le> role_rank w (m_role_id own) \<and>
    role_rank w' (m_role_id m) \<le> role_rank w (m_role_id own) \<and>
    can_on c ab A_assignRole S_WorkspaceMembership (membership_columns before)"
proof -
  obtain visible role rank v where checks: "changeRoleChecks c ws mid roleId ab actor w = Inr (visible, role, rank)"
    and tx: "changeRoleTransaction ws mid (m_user_id visible) role rank actor w = Inr (m, v)"
    and w': "roles w' = roles v"
    using assms(3) by (auto simp: changeRole_def bindE_Inr_iff)
  have vis: "findMembership c ws mid ab w = Inr visible"
    and act: "can_on c ab A_assignRole S_WorkspaceMembership (membership_columns visible)"
    and role: "find_role w roleId = Some role"
    and actor: "resolveActorRank c ws actor ab w = Inr rank" "assertRankPermits rank (r_rank role) = Inr ()"
    using checks
    by (auto simp: changeRoleChecks_def assertMayActOn_def assertCan_def assertMayAssign_def Let_def svc
        split: if_splits)
  obtain own where own: "own \<in> set (memberships w)" "m_workspace_id own = ws" "m_user_id own = actor"
    "m_status own = ACTIVE" "rank = Some (role_rank w (m_role_id own))"
    by (rule resolveActorRank_Inr [OF actor(1) assms(2)])
  obtain x where x: "find_in_workspace ws mid w = Inr x"
    "assertRankPermits rank (role_rank w (m_role_id x)) = Inr ()"
    and set: "set_membership mid (\<lambda>m. m\<lparr>m_role_id := r_id role, m_updated_by := Some actor\<rparr>) w = Inr (m, v)"
    using tx by (auto simp: changeRoleTransaction_def Let_def bindE_Inr_iff)
  have "x = visible"
    using find_in_workspace_Inr [OF x(1) assms(1)] findMembership_Inr [OF vis] by blast
  have "m_role_id m = r_id role" "roles v = roles w"
    by (rule set_membership_Inr [OF set], simp)+
  then have "role_rank w' (m_role_id m) = r_rank role"
    using role_rank_row [OF role] by (simp add: role_rank_def find_role_def w')
  then show ?thesis
    using own x(2) actor(2) act findMembership_Inr [OF vis] \<open>x = visible\<close>
    by (intro bexI [of _ own] bexI [of _ visible]) (simp_all add: svc)
qed

section \<open>Leaving\<close>

lemma revokePendingInvitations_none_left:
  assumes "i \<in> set (invitations (revokePendingInvitations ws uid actor now w))"
    and "i_workspace_id i = ws \<and> i_status i = PENDING"
  shows "i_invited_user_id i \<noteq> Some uid \<and>
    (i_invited_user_id i = None \<longrightarrow>
      (\<forall>u. find_user w uid = Some u \<and> u_email_verified_at u \<noteq> None \<and> u_email u \<noteq> [] \<longrightarrow>
        i_email i \<noteq> to_lower_case (u_email u)))"
proof -
  define addr where "addr = (case find_user w uid of None \<Rightarrow> None
    | Some user \<Rightarrow> (if u_email user \<noteq> [] \<and> u_email_verified_at user \<noteq> None
                    then Some (to_lower_case (u_email user)) else None))"
  have "i_workspace_id i = ws \<and> i_status i = PENDING \<longrightarrow>
      \<not> (i_invited_user_id i = Some uid \<or> i_invited_user_id i = None \<and> addr = Some (i_email i))"
    using assms(1) unfolding revokePendingInvitations_def Let_def addr_def [symmetric]
    by simp (erule update_where_elim, auto)
  with assms(2) show ?thesis by (auto simp: addr_def)
qed

text \<open>C11: suspending or ending a membership withdraws, in the same transaction, every pending invitation to
  that workspace addressed to the person, by account or by verified email; the member is no longer
  active and every other membership is as it was.\<close>

theorem departure_withdraws_invitations:
  assumes "tables_ok w" and "options \<in> {suspend_options, end_options t}"
    and "transitionTransaction ws mid uid rank actor options now w = Inr (m, w')"
  shows "m_status m = to_to options \<and>
    (\<forall>i \<in> set (invitations w'). i_workspace_id i = ws \<and> i_status i = PENDING \<longrightarrow>
      i_invited_user_id i \<noteq> Some (m_user_id m) \<and>
      (i_invited_user_id i = None \<longrightarrow>
        (\<forall>u. find_user w (m_user_id m) = Some u \<and> u_email_verified_at u \<noteq> None \<and> u_email u \<noteq> [] \<longrightarrow>
          i_email i \<noteq> to_lower_case (u_email u)))) \<and>
    filter (\<lambda>x. m_id x \<noteq> mid) (memberships w') = filter (\<lambda>x. m_id x \<noteq> mid) (memberships w)"
proof -
  obtain x where x: "find_in_workspace ws mid w = Inr x"
    and set: "set_membership mid
       (\<lambda>m. m\<lparr>m_status := to_to options,
          m_ended_at := (if to_ended_at options = None then m_ended_at m else to_ended_at options),
          m_updated_by := Some actor\<rparr>)
       (if to_to options \<noteq> ACTIVE then revokePendingInvitations ws (m_user_id x) actor now w else w)
       = Inr (m, w')"
    by (rule transition_Inr [OF assms(3)]) (rule that, assumption+)
  have left: "to_to options \<noteq> ACTIVE" using assms(2) by (auto simp: suspend_options_def end_options_def)
  note row = find_in_workspace_Inr [OF x assms(1)]
  let ?f = "\<lambda>m. m\<lparr>m_status := to_to options,
      m_ended_at := (if to_ended_at options = None then m_ended_at m else to_ended_at options),
      m_updated_by := Some actor\<rparr>"
  let ?v = "revokePendingInvitations ws (m_user_id x) actor now w"
  obtain y where y': "y \<in> set (memberships ?v)" "m_id y = mid" and m': "m = ?f y"
    and w': "w' = ?v\<lparr>memberships := update_where (\<lambda>m. m_id m = mid) ?f (memberships ?v)\<rparr>"
    by (rule set_membership_Inr [OF set [unfolded if_P [OF left]]]) (rule that, assumption+)
  have y: "y \<in> set (memberships w)" "m_id y = mid" using y' by simp_all
  have m: "m_user_id m = m_user_id y" "m_status m = to_to options" by (simp_all add: m')
  have inv: "invitations w' = invitations ?v" and ms: "memberships w' = update_where (\<lambda>m. m_id m = mid) ?f (memberships w)"
    by (simp_all add: w')
  have user: "m_user_id m = m_user_id x" using m(1) row(4) [OF y] by simp
  have "filter (\<lambda>x. m_id x \<noteq> mid) (update_where (\<lambda>m. m_id m = mid) ?f xs) = filter (\<lambda>x. m_id x \<noteq> mid) xs" for xs
    by (induction xs) auto
  then have "filter (\<lambda>x. m_id x \<noteq> mid) (memberships w') = filter (\<lambda>x. m_id x \<noteq> mid) (memberships w)"
    unfolding ms .
  moreover have "\<forall>i \<in> set (invitations w'). i_workspace_id i = ws \<and> i_status i = PENDING \<longrightarrow>
      i_invited_user_id i \<noteq> Some (m_user_id x) \<and>
      (i_invited_user_id i = None \<longrightarrow>
        (\<forall>u. find_user w (m_user_id x) = Some u \<and> u_email_verified_at u \<noteq> None \<and> u_email u \<noteq> [] \<longrightarrow>
          i_email i \<noteq> to_lower_case (u_email u)))"
    unfolding inv using revokePendingInvitations_none_left by blast
  ultimately show ?thesis using m(2) user by simp
qed

section \<open>A stale read\<close>

lemma user_conflict_update_data:
  "ud_email dto = None \<Longrightarrow> ud_username dto = None \<Longrightarrow>
   user_conflict (update_data dto b actor u) w = user_conflict u w"
  by (simp add: user_conflict_def update_data_def)

lemma deactivated_rows:
  "u \<in> set (update_where (\<lambda>u. u_id u = uid) f us) \<Longrightarrow>
   (\<And>x. u_id (f x) = u_id x \<and> \<not> u_is_active (f x)) \<Longrightarrow>
   u_id u = uid \<and> \<not> u_is_active u \<or> u_id u \<noteq> uid \<and> u \<in> set us"
  by (induction us) (auto split: if_splits)

text \<open>The account update reads whether the account is active before it locks anything.  When that
  read is stale, an update that deactivates the account is written without the sole-owner check: a
  workspace it alone owns is left without a usable owner, where the same update on a fresh read is
  refused.\<close>

theorem stale_update_strands_workspace:
  assumes "tables_ok w" and "find_user w uid = Some cur" and "u_is_active cur" and "\<not> user_conflict cur w"
    and "ud_is_active dto = Some False" and "ud_email dto = None" and "ud_username dto = None"
    and "\<not> u_is_active existing"
    and "m \<in> set (memberships w)" and "m_user_id m = uid" and "active_owner w m"
    and "live_workspace w (m_workspace_id m)"
    and "\<forall>x \<in> set (memberships w). m_workspace_id x = m_workspace_id m \<and>
      active_owner_of_usable_account w x \<longrightarrow> m_user_id x = uid"
  shows "(\<exists>u w'. updateUserWrite uid dto existing actor clk w = Inr (u, w') \<and>
      live_workspace w' (m_workspace_id m) \<and> \<not> owner_of w' (m_workspace_id m)) \<and>
    (\<exists>blocking. updateUserWrite uid dto cur actor clk w = Inl (lastOwnerProtected blocking))"
proof
  let ?f = "update_data dto False actor"
  have written: "updateUserWrite uid dto existing actor clk w =
      Inr (?f cur, w\<lparr>users := update_where (\<lambda>u. u_id u = uid) ?f (users w)\<rparr>)"
    using assms(2,4-8) by (simp add: updateUserWrite_def user_update_def user_conflict_update_data Let_def)
  let ?w' = "w\<lparr>users := update_where (\<lambda>u. u_id u = uid) ?f (users w)\<rparr>"
  have rows: "u_id u = uid \<and> \<not> u_is_active u \<or> u_id u \<noteq> uid \<and> u \<in> set (users w)"
    if "u \<in> set (users ?w')" for u
    by (rule deactivated_rows [of u uid ?f]) (use that assms(5) in simp_all)
  have gone: "\<not> usable_account ?w' uid"
    using rows unfolding usable_account_def by blast
  have same: "usable_account ?w' i \<longrightarrow> usable_account w i" if "i \<noteq> uid" for i
    using rows that unfolding usable_account_def by blast
  have name: "active_owner ?w' = active_owner w"
    using role_name_cong [of ?w' w] by (simp add: fun_eq_iff active_owner_def)
  have "\<not> owner_of ?w' (m_workspace_id m)"
  proof
    assume "owner_of ?w' (m_workspace_id m)"
    then obtain x where x: "x \<in> set (memberships w)" "m_workspace_id x = m_workspace_id m"
      "active_owner w x" "usable_account ?w' (m_user_id x)"
      by (simp add: owner_of_def active_owner_of_usable_account_def name) blast
    then have "m_user_id x \<noteq> uid" using gone by blast
    with x same assms(13) show False
      unfolding active_owner_of_usable_account_def by blast
  qed
  moreover have "live_workspace ?w' (m_workspace_id m)"
    using assms(12) by (simp add: live_workspace_def live_workspaces_def)
  ultimately show "\<exists>u w'. updateUserWrite uid dto existing actor clk w = Inr (u, w') \<and>
      live_workspace w' (m_workspace_id m) \<and> \<not> owner_of w' (m_workspace_id m)"
    using written by blast
  have "assertUserIsNotASoleOwner uid w \<noteq> Inr ()"
    using notASoleOwner_another [OF _ assms(9,12,11,10)] assms(13) by blast
  then have "\<exists>blocking. assertUserIsNotASoleOwner uid w = Inl (lastOwnerProtected blocking)"
    by (auto simp: assertUserIsNotASoleOwner_def Let_def guardE_def split: if_splits)
  then show "\<exists>blocking. updateUserWrite uid dto cur actor clk w = Inl (lastOwnerProtected blocking)"
    using assms(3,5,6) by (auto simp: updateUserWrite_def deactivate_def deactivateTransaction_def)
qed

end
