(* ===== verification/Ownership_Witnesses.thy ===== *)
theory Ownership_Witnesses
  imports Ownership_Properties Ability_Witnesses Samples
begin

text \<open>
  Witnesses of the ownership properties: one workspace with its owner and a staff member, and a
  platform administrator's ability.
\<close>

definition sample_role :: "ident \<Rightarrow> string \<Rightarrow> int \<Rightarrow> role_row" where
  "sample_role i n rank =
     \<lparr>r_id = i, r_name = n, r_scope = WORKSPACE, r_rank = rank, r_description = None, r_permissions = []\<rparr>"

definition sample_workspace :: workspace_row where
  "sample_workspace =
     \<lparr>w_id = ''s'', w_name = ''S'', w_slug = ''s'', w_description = None, w_is_active = True,
      w_deleted_at = None, w_deleted_by = None, w_created_by = None, w_updated_by = None\<rparr>"

definition sample_membership :: "ident \<Rightarrow> ident \<Rightarrow> ident \<Rightarrow> membership_row" where
  "sample_membership i uid rid =
     \<lparr>m_id = i, m_workspace_id = ''s'', m_user_id = uid, m_role_id = rid, m_status = ACTIVE,
      m_joined_at = 0, m_ended_at = None, m_invited_by = None, m_notes = None,
      m_created_by = None, m_updated_by = None\<rparr>"

definition roster_world :: world where
  "roster_world = empty_world
     \<lparr>users := [sample_user ''u'', sample_user ''v''],
      roles := [sample_role ''ro'' WORKSPACE_OWNER 30, sample_role ''ra'' WORKSPACE_ADMIN 20,
                sample_role ''rs'' WORKSPACE_STAFF 10],
      workspaces := [sample_workspace],
      memberships := [sample_membership ''mu'' ''u'' ''ro'', sample_membership ''mv'' ''v'' ''rs'']\<rparr>"

definition admin_ability :: ability where
  "admin_ability = [can_rule A_manage S_all None]"

lemmas roster_defs = roster_world_def sample_role_def sample_workspace_def sample_membership_def
  empty_world_def sample_user_def WORKSPACE_OWNER_def WORKSPACE_ADMIN_def WORKSPACE_STAFF_def

lemma roster_tables: "tables_ok roster_world"
  by (simp add: tables_ok_def roster_defs)

lemma roster_owner [simp]:
  "active_owner roster_world m \<longleftrightarrow> m_status m = ACTIVE \<and> m_role_id m = ''ro''"
  by (auto simp: active_owner_def role_name_def find_role_def roster_defs)

lemma roster_usable [simp]: "usable_account roster_world i \<longleftrightarrow> i = ''u'' \<or> i = ''v''"
  by (auto simp: usable_account_def roster_defs)

lemma roster_members [simp]:
  "memberships roster_world = [sample_membership ''mu'' ''u'' ''ro'', sample_membership ''mv'' ''v'' ''rs'']"
  by (simp add: roster_world_def)

lemma roster_live [simp]: "live_workspaces roster_world = [sample_workspace]"
  by (simp add: live_workspaces_def roster_world_def sample_workspace_def)

lemma roster_inv: "ownership_inv roster_world"
  using roster_tables
  by (simp add: ownership_inv_def owned_def owner_of_def active_owner_of_usable_account_def
      sample_membership_def sample_workspace_def)

lemma sample_can_everything [simp]:
  "can_type sample_casl admin_ability a s" "can_on sample_casl admin_ability a s row"
  "accessible_by sample_casl admin_ability a s = Unrestricted"
  by (simp_all add: sample_casl_def admin_ability_def relevant_def can_rule_def condition_holds_def)

text \<open>A workspace founded in an empty database.\<close>

definition founding_world :: world where
  "founding_world = roster_world\<lparr>workspaces := [], memberships := []\<rparr>"

definition founding_dto :: workspace_dto where
  "founding_dto = \<lparr>wd_name = Some ''S'', wd_slug = Some ''s'', wd_description = None, wd_is_active = None\<rparr>"

definition founded_world :: world where
  "founded_world = snd (the (case createWorkspaceTransaction founding_dto ''u'' 5 ''s'' ''mu'' founding_world of
     Inr r \<Rightarrow> Some r | Inl _ \<Rightarrow> None))"

lemma founded:
  "\<exists>s m. createWorkspaceTransaction founding_dto ''u'' 5 ''s'' ''mu'' founding_world = Inr ((s, m), founded_world) \<and>
     s \<in> set (live_workspaces founded_world)"
  by (simp add: founded_world_def createWorkspaceTransaction_def founding_world_def founding_dto_def
      assertUserMayHoldActiveMembership_def usable_account_def slugTaken_def live_workspaces_def
      loadSeededWorkspaceRole_def Let_def roster_defs)


lemma transferred:
  "\<exists>p w'. transferOwnership sample_casl ''s'' ''mv'' admin_ability ''u'' 5 roster_world = Inr (p, w')"
  by (simp add: transferOwnership_def loadSeededWorkspaceRole_def findMembership_def buildWhereOrEmpty_def
      buildWhere_def membership_columns_def membershipOfLiveUser_def find_live_user_def live_users_def
      live_workspace_def transferTransaction_def assertUserMayHoldActiveMembership_def usable_account_def
      live_workspaces_def set_membership_def Let_def roster_defs split: prod.split)

lemma transfer_leaves_one_owner_witness:
  "\<exists>p w'. transferOwnership sample_casl ''s'' ''mv'' admin_ability ''u'' 5 roster_world = Inr (p, w') \<and>
    (\<exists>m \<in> set (memberships w'). m_id m = ''mv'' \<and> active_owner_of_usable_account w' m)"
proof -
  obtain p w' where tx: "transferOwnership sample_casl ''s'' ''mv'' admin_ability ''u'' 5 roster_world = Inr (p, w')"
    using transferred by blast
  from transfer_leaves_one_owner [OF roster_inv tx] tx show ?thesis by blast
qed

lemma roster_owner_rank: "role_rank roster_world ''ro'' = 30"
  by (simp add: role_rank_def find_role_def roster_defs)

lemma last_owner_is_protected_witness:
  "changeRoleTransaction ''s'' ''mu'' ''u'' (sample_role ''rs'' WORKSPACE_STAFF 10) (Some 100) ''v''
     roster_world = Inl (lastOwnerProtected []) \<and>
   transitionTransaction ''s'' ''mu'' ''u'' (Some 10) ''v'' suspend_options 5 roster_world =
     Inl roleNotAssignable"
  using last_owner_is_protected [OF roster_tables, of "sample_membership ''mu'' ''u'' ''ro''"
      "sample_role ''rs'' WORKSPACE_STAFF 10" suspend_options 0 "Some 100" "''v''" 5]
    last_owner_is_protected [OF roster_tables, of "sample_membership ''mu'' ''u'' ''ro''"
      "sample_role ''rs'' WORKSPACE_STAFF 10" suspend_options 0 "Some 10" "''v''" 5]
  by (simp add: roster_owner_rank active_owner_of_usable_account_def sample_membership_def sample_role_def
      WORKSPACE_STAFF_def WORKSPACE_OWNER_def)

lemma erased:
  "\<exists>r w'. gdprEraseTransaction ''u'' ''x'' 5 (\<lambda>_. 5) roster_world = Inr (r, w')"
  by (simp add: gdprEraseTransaction_def closeSolelyOwnedWorkspaces_def Let_def find_user_def
      endAllSessionsInTransaction_def [unfolded Let_def] user_conflict_def live_users_def
      erased_row_def roster_world_def empty_world_def sample_user_def split: prod.split)

lemma erasure_closes_exactly_sole_ownerships_witness:
  "\<exists>w'. \<not> live_workspace w' ''s'' \<and> \<not> usable_account w' ''u''"
proof -
  obtain closed affected w' where "gdprEraseTransaction ''u'' ''x'' 5 (\<lambda>_. 5) roster_world = Inr ((closed, affected), w')"
    using erased by auto
  from erasure_closes_exactly_sole_ownerships [OF this, of "''s''"] show ?thesis
    by (intro exI [of _ w']) (auto simp: sample_membership_def active_owner_of_usable_account_def)
qed

text \<open>The owner, without platform authority, promotes the staff member to administrator.\<close>

definition owner_ability :: ability where
  "owner_ability =
     [can_rule A_read S_WorkspaceMembership (Some (''workspaceId'', ''s'')),
      can_rule A_assignRole S_WorkspaceMembership (Some (''workspaceId'', ''s''))]"

lemma owner_cannot_everything: "\<not> can_type sample_casl owner_ability A_manage S_all"
  by (simp add: sample_casl_def owner_ability_def relevant_def can_rule_def)

lemma promoted:
  "\<exists>m w'. changeRole sample_casl ''s'' ''mv'' ''ra'' owner_ability ''u'' 5 roster_world = Inr (m, w')"
  by (simp add: changeRole_def changeRoleChecks_def findMembership_def buildWhereOrEmpty_def buildWhere_def
      sample_casl_def owner_ability_def relevant_def can_rule_def condition_holds_def
      membership_columns_def membershipOfLiveUser_def find_live_user_def live_users_def live_workspace_def
      assertMayActOn_def assertCan_def loadAssignableRole_def find_role_def assertMayAssign_def Let_def
      resolveActorRank_def find_membership_def assertRankPermits_def role_rank_def
      changeRoleTransaction_def assertUserMayHoldActiveMembership_def usable_account_def
      find_in_workspace_def role_name_def set_membership_def live_workspaces_def roster_defs)

lemma role_change_rank_ceiling_witness:
  "\<exists>m w'. changeRole sample_casl ''s'' ''mv'' ''ra'' owner_ability ''u'' 5 roster_world = Inr (m, w') \<and>
     (\<exists>own \<in> set (memberships roster_world). m_user_id own = ''u'' \<and>
        role_rank w' (m_role_id m) \<le> role_rank roster_world (m_role_id own))"
  using promoted role_change_rank_ceiling [OF roster_tables owner_cannot_everything] by blast

lemma departed:
  "\<exists>m w'. transitionTransaction ''s'' ''mv'' ''v'' None ''u'' suspend_options 5 roster_world = Inr (m, w')"
  by (simp add: transitionTransaction_def suspend_options_def find_in_workspace_def assertRankPermits_def
      Let_def role_name_def find_role_def set_membership_def revokePendingInvitations_def roster_defs)

lemma departure_withdraws_invitations_witness:
  "\<exists>m w'. transitionTransaction ''s'' ''mv'' ''v'' None ''u'' suspend_options 5 roster_world = Inr (m, w') \<and>
     m_status m = to_to suspend_options"
proof -
  obtain m w' where tx: "transitionTransaction ''s'' ''mv'' ''v'' None ''u'' suspend_options 5 roster_world = Inr (m, w')"
    using departed by blast
  from departure_withdraws_invitations [OF roster_tables _ tx, of 0] tx show ?thesis by auto
qed

definition deactivating_dto :: user_dto where
  "deactivating_dto =
     \<lparr>ud_email = None, ud_username = None, ud_password = None, ud_first_name = None, ud_middle_name = None,
      ud_last_name = None, ud_phone_number = None, ud_gender = None, ud_birthday = None,
      ud_timezone = None, ud_is_active = Some False\<rparr>"

lemma stale_update_strands_workspace_witness:
  "\<exists>u w'. updateUserWrite ''u'' deactivating_dto ((sample_user ''u'')\<lparr>u_is_active := False\<rparr>) None (\<lambda>_. 5)
      roster_world = Inr (u, w') \<and> live_workspace w' ''s'' \<and> \<not> owner_of w' ''s''"
proof -
  let ?m = "sample_membership ''mu'' ''u'' ''ro''"
  have found: "find_user roster_world ''u'' = Some (sample_user ''u'')"
    by (simp add: find_user_def roster_world_def sample_user_def)
  have "\<not> user_conflict (sample_user ''u'') roster_world"
    by (simp add: user_conflict_def live_users_def roster_world_def sample_user_def)
  moreover have "live_workspace roster_world (m_workspace_id ?m)"
    by (simp add: live_workspace_def sample_workspace_def sample_membership_def)
  moreover have "\<forall>x \<in> set (memberships roster_world). m_workspace_id x = m_workspace_id ?m \<and>
      active_owner_of_usable_account roster_world x \<longrightarrow> m_user_id x = ''u''"
    by (simp add: active_owner_of_usable_account_def sample_membership_def)
  ultimately have "\<exists>u w'. updateUserWrite ''u'' deactivating_dto ((sample_user ''u'')\<lparr>u_is_active := False\<rparr>)
        None (\<lambda>_. 5) roster_world = Inr (u, w') \<and> live_workspace w' (m_workspace_id ?m) \<and>
        \<not> owner_of w' (m_workspace_id ?m)"
    using stale_update_strands_workspace [OF roster_tables found, of deactivating_dto
        "(sample_user ''u'')\<lparr>u_is_active := False\<rparr>" ?m None "\<lambda>_. 5"]
    by (simp add: deactivating_dto_def sample_membership_def sample_user_def)
  then show ?thesis by (simp add: sample_membership_def)
qed

end
