(* ===== verification/Invitation_Machine.thy ===== *)
theory Invitation_Machine
  imports Ownership_Properties
begin

text \<open>
  Invitations over time.  A step is a transaction that writes the invitations table: inviting, re-sending,
  withdrawing, redeeming, and the withdrawal that comes with a departure.  A row leaves \<open>pending\<close> once
  and never changes after that; at most one row is pending for an address in a workspace.
\<close>

section \<open>The steps\<close>

inductive invitation_step :: "world \<Rightarrow> world \<Rightarrow> bool" where
  invite:
    "inviteTransaction ext ws email role existingUser token expiresAt actor now newId w = Inr (r, w') \<Longrightarrow>
     newId \<notin> i_id ` set (invitations w) \<Longrightarrow> invitation_step w w'"
| revoke: "revokeInvitation c ws iid ab actor now w = Inr w' \<Longrightarrow> invitation_step w w'"
| resend:
    "resendInvitation c ext days ws iid ab actor budget token now w = Inr (i, w') \<Longrightarrow> invitation_step w w'"
| accept:
    "acceptTransaction c loadAbility invitation actor now newId w = Inr (r, w') \<Longrightarrow> invitation_step w w'"
| depart:
    "transitionTransaction ws mid uid rank actor options now w = Inr (m, w') \<Longrightarrow> invitation_step w w'"
| elsewhere: "invitations w' = invitations w \<Longrightarrow> invitation_step w w'"

section \<open>What a step does to the rows\<close>

text \<open>Only pending rows are rewritten; a rewrite keeps the id, the workspace, the address, the role and the
  invitee.\<close>

definition invitation_key :: "invitation_row \<Rightarrow> ident \<times> ident \<times> string \<times> ident option \<times> ident" where
  "invitation_key i = (i_id i, i_workspace_id i, i_email i, i_invited_user_id i, i_role_id i)"

definition settles :: "invitation_row \<Rightarrow> invitation_row \<Rightarrow> bool" where
  "settles i j \<longleftrightarrow> i = j \<or> i_status i = PENDING \<and> invitation_key j = invitation_key i"

definition settled_rows :: "invitation_row list \<Rightarrow> invitation_row list \<Rightarrow> bool" where
  "settled_rows is js \<longleftrightarrow> list_all2 settles is js"

lemma settles_refl [simp]: "settles i i"
  by (simp add: settles_def)

lemma settled_refl [simp]: "settled_rows is is"
  by (simp add: settled_rows_def list_all2_conv_all_nth)

lemma settled_update_where:
  assumes "\<And>i. p i \<Longrightarrow> i_status i = PENDING" and "\<And>i. invitation_key (f i) = invitation_key i"
  shows "settled_rows is (update_where p f is)"
  using assms by (induction "is") (auto simp: settled_rows_def settles_def)

lemma settled_keys: "settled_rows is js \<Longrightarrow> map invitation_key js = map invitation_key is"
  by (unfold settled_rows_def, induction rule: list_all2_induct) (auto simp: settles_def)

lemma settled_final:
  "settled_rows is js \<Longrightarrow> i \<in> set is \<Longrightarrow> i_status i \<noteq> PENDING \<Longrightarrow> i \<in> set js"
  by (unfold settled_rows_def, induction rule: list_all2_induct) (auto simp: settles_def)

lemma settled_pending:
  "settled_rows is js \<Longrightarrow> j \<in> set js \<Longrightarrow> i_status j = PENDING \<Longrightarrow>
   \<exists>i \<in> set is. i_status i = PENDING \<and> invitation_key i = invitation_key j"
  by (unfold settled_rows_def, induction rule: list_all2_induct) (auto simp: settles_def)

lemma settled_revokePending:
  "settled_rows (invitations w) (invitations (revokePendingInvitations ws uid actor now w))"
  unfolding revokePendingInvitations_def Let_def
  by (simp, rule settled_update_where) (auto simp: invitation_key_def)

lemma settled_update_pending:
  assumes "\<And>i. invitation_key (f i) = invitation_key i"
  shows "settled_rows (invitations w) (invitations (snd (update_pending iid f w)))"
  unfolding update_pending_def by (simp, rule settled_update_where) (auto simp: assms)

lemma settled_transition:
  assumes "transitionTransaction ws mid uid rank actor options now w = Inr (m, w')"
  shows "settled_rows (invitations w) (invitations w')"
proof -
  obtain x :: membership_row where set: "set_membership mid
       (\<lambda>m. m\<lparr>m_status := to_to options,
          m_ended_at := (if to_ended_at options = None then m_ended_at m else to_ended_at options),
          m_updated_by := Some actor\<rparr>)
       (if to_to options \<noteq> ACTIVE then revokePendingInvitations ws (m_user_id x) actor now w else w)
       = Inr (m, w')"
    by (rule transition_Inr [OF assms]) (rule that, assumption)
  have "invitations w' = invitations
      (if to_to options \<noteq> ACTIVE then revokePendingInvitations ws (m_user_id x) actor now w else w)"
    by (rule set_membership_Inr [OF set]) simp
  then show ?thesis using settled_revokePending by simp
qed

lemma settled_revoke:
  assumes "revokeInvitation c ws iid ab actor now w = Inr w'"
  shows "settled_rows (invitations w) (invitations w')"
proof -
  have "invitations w' = invitations (snd (update_pending iid
      (\<lambda>i. i\<lparr>i_status := REVOKED, i_revoked_at := Some now, i_revoked_by := Some actor,
              i_updated_by := Some actor\<rparr>) w))"
    using assms by (auto simp: revokeInvitation_def update_pending_def bindE_Inr_iff throw_Inr)
  then show ?thesis by (simp add: settled_update_pending invitation_key_def)
qed

lemma settled_resend:
  assumes "resendInvitation c ext days ws iid ab actor budget token now w = Inr (i, w')"
  shows "settled_rows (invitations w) (invitations w')"
proof -
  have "invitations w' = invitations w \<or> invitations w' = invitations (snd (update_pending iid
      (\<lambda>i. i\<lparr>i_token_hash := sha256_hex ext token, i_expires_at := expiryFromNow days now,
              i_updated_by := Some actor\<rparr>) w))"
    using assms
    by (auto simp: resendInvitation_def update_pending_def queueInvitationEmail_def Let_def
        bindE_Inr_iff throw_Inr split: if_splits)
  then show ?thesis by (auto simp: settled_update_pending invitation_key_def)
qed

lemma accept_Inr:
  assumes "acceptTransaction c loadAbility invitation actor now newId w = Inr ((m, j), w')"
  defines "live \<equiv> (\<lambda>i. i_id i = i_id invitation \<and> i_status i = PENDING \<and> now < i_expires_at i)"
  shows "usable_account w actor" and "assertInviterMayStillAssign c loadAbility invitation w = Inr ()"
    and "count_where live (invitations w) = 1"
    and "invitations w' = update_where live
      (\<lambda>i. i\<lparr>i_status := ACCEPTED, i_accepted_at := Some now, i_accepted_by := Some actor,
              i_updated_by := Some actor\<rparr>) (invitations w)"
proof -
  show "usable_account w actor" "assertInviterMayStillAssign c loadAbility invitation w = Inr ()"
    "count_where live (invitations w) = 1"
    using assms(1) by (auto simp: acceptTransaction_def Let_def bindE_Inr_iff throw_Inr svc live_def)
  show "invitations w' = update_where live
      (\<lambda>i. i\<lparr>i_status := ACCEPTED, i_accepted_at := Some now, i_accepted_by := Some actor,
              i_updated_by := Some actor\<rparr>) (invitations w)"
  proof (cases "find_membership (i_workspace_id invitation) actor w")
    case None
    then show ?thesis
      using assms(1) by (auto simp: acceptTransaction_def Let_def bindE_Inr_iff throw_Inr live_def)
  next
    case (Some x)
    then show ?thesis
      using assms(1)
      by (auto simp: acceptTransaction_def Let_def bindE_Inr_iff throw_Inr live_def
          elim!: set_membership_Inr)
  qed
qed

section \<open>The machine\<close>

definition one_pending :: "invitation_row list \<Rightarrow> bool" where
  "one_pending is \<longleftrightarrow>
     (\<forall>i \<in> set is. \<forall>j \<in> set is. i_status i = PENDING \<longrightarrow> i_status j = PENDING \<longrightarrow>
        i_workspace_id i = i_workspace_id j \<longrightarrow> i_email i = i_email j \<longrightarrow> i_id i = i_id j)"

definition invitation_inv :: "world \<Rightarrow> bool" where
  "invitation_inv w \<longleftrightarrow> distinct (map i_id (invitations w)) \<and> one_pending (invitations w)"

definition no_invitations :: "world \<Rightarrow> bool" where
  "no_invitations w \<longleftrightarrow> invitations w = []"

lemma settled_ids: "settled_rows is js \<Longrightarrow> map i_id js = map i_id is"
proof -
  assume "settled_rows is js"
  then have "map (fst \<circ> invitation_key) js = map (fst \<circ> invitation_key) is"
    by (simp only: map_map [symmetric] settled_keys)
  then show ?thesis by (simp add: invitation_key_def comp_def)
qed

lemma settled_one_pending: "settled_rows is js \<Longrightarrow> one_pending is \<Longrightarrow> one_pending js"
  unfolding one_pending_def
proof (intro ballI impI)
  fix j k assume rows: "settled_rows is js" "j \<in> set js" "k \<in> set js" "i_status j = PENDING" "i_status k = PENDING"
    and same: "i_workspace_id j = i_workspace_id k" "i_email j = i_email k"
    and one: "\<forall>i \<in> set is. \<forall>j \<in> set is. i_status i = PENDING \<longrightarrow> i_status j = PENDING \<longrightarrow>
        i_workspace_id i = i_workspace_id j \<longrightarrow> i_email i = i_email j \<longrightarrow> i_id i = i_id j"
  obtain a b where "a \<in> set is" "b \<in> set is" "i_status a = PENDING" "i_status b = PENDING"
    "invitation_key a = invitation_key j" "invitation_key b = invitation_key k"
    using settled_pending [OF rows(1)] rows(2-5) by metis
  with one same show "i_id j = i_id k" unfolding invitation_key_def by (metis Pair_inject)
qed

lemma settled_inv: "settled_rows (invitations w) (invitations v) \<Longrightarrow> invitation_inv w \<Longrightarrow> invitation_inv v"
  using settled_ids settled_one_pending unfolding invitation_inv_def by metis

text \<open>An invitation that goes out is appended to the rows it may have retired first.\<close>

lemma invite_Inr:
  assumes "inviteTransaction ext ws email role existingUser token expiresAt actor now newId w = Inr ((i, n), w')"
  obtains rows where "settled_rows (invitations w) rows" "invitations w' = rows @ [i]"
    "i_id i = newId" "i_workspace_id i = ws" "i_email i = email" "i_status i = PENDING"
    "\<forall>j \<in> set rows. \<not> pending_for ws email j"
proof (rule that)
  let ?lapsed = "\<lambda>i. pending_for ws email i \<and> i_expires_at i \<le> now"
  let ?rows = "update_where ?lapsed (\<lambda>i. i\<lparr>i_status := EXPIRED, i_updated_by := Some actor\<rparr>) (invitations w)"
  show "settled_rows (invitations w) ?rows"
    by (rule settled_update_where) (auto simp: pending_for_def invitation_key_def)
  show "invitations w' = ?rows @ [i]" "i_id i = newId" "i_workspace_id i = ws" "i_email i = email"
    "i_status i = PENDING" "\<forall>j \<in> set ?rows. \<not> pending_for ws email j"
    using assms unfolding inviteTransaction_def Let_def throw_Inr by auto
qed

lemma one_pending_snoc:
  "one_pending is \<Longrightarrow> \<forall>j \<in> set is. \<not> pending_for (i_workspace_id i) (i_email i) j \<Longrightarrow>
   one_pending (is @ [i])"
proof -
  assume one: "one_pending is" and none: "\<forall>j \<in> set is. \<not> pending_for (i_workspace_id i) (i_email i) j"
  have "i_id a = i_id b"
    if ab: "a \<in> set (is @ [i])" "b \<in> set (is @ [i])" "i_status a = PENDING" "i_status b = PENDING"
      "i_workspace_id a = i_workspace_id b" "i_email a = i_email b" for a b
  proof -
    consider "a \<in> set is" "b \<in> set is" | "a = i" "b = i" | "a = i" "b \<in> set is" | "a \<in> set is" "b = i"
      using ab(1,2) by auto
    then show ?thesis
    proof cases
      case 1
      with one ab(3-6) show ?thesis unfolding one_pending_def by blast
    next
      case 2
      then show ?thesis by simp
    next
      case 3
      with none ab show ?thesis unfolding pending_for_def by metis
    next
      case 4
      with none ab show ?thesis unfolding pending_for_def by metis
    qed
  qed
  then show ?thesis unfolding one_pending_def by blast
qed

lemma inv_invite:
  assumes inv: "invitation_inv w" and fresh: "newId \<notin> i_id ` set (invitations w)"
    and tx: "inviteTransaction ext ws email role existingUser token expiresAt actor now newId w = Inr ((i, n), w')"
  shows "invitation_inv w'"
proof -
  obtain rows where rows: "settled_rows (invitations w) rows" "invitations w' = rows @ [i]"
    and i: "i_id i = newId" "i_workspace_id i = ws" "i_email i = email" "i_status i = PENDING"
    and none: "\<forall>j \<in> set rows. \<not> pending_for ws email j"
    by (rule invite_Inr [OF tx]) (rule that, assumption+)
  have ids: "map i_id rows = map i_id (invitations w)" by (rule settled_ids [OF rows(1)])
  then have "i_id ` set rows = i_id ` set (invitations w)" by (metis set_map)
  then have "distinct (map i_id (invitations w'))"
    using inv fresh ids i(1) by (auto simp: rows(2) invitation_inv_def)
  moreover have "one_pending rows"
    using settled_one_pending [OF rows(1)] inv by (simp add: invitation_inv_def)
  then have "one_pending (invitations w')"
    using none i one_pending_snoc by (simp add: rows(2))
  ultimately show ?thesis by (simp add: invitation_inv_def)
qed

lemma settled_accept:
  "acceptTransaction c loadAbility invitation actor now newId w = Inr ((m, j), w') \<Longrightarrow>
   settled_rows (invitations w) (invitations w')"
  by (simp add: accept_Inr(4), rule settled_update_where) (auto simp: invitation_key_def)

lemma invitation_step_cases_settled:
  assumes "invitation_step w w'"
  shows "settled_rows (invitations w) (invitations w') \<or>
    (\<exists>ext ws email role existingUser token expiresAt actor now newId i n.
       inviteTransaction ext ws email role existingUser token expiresAt actor now newId w = Inr ((i, n), w') \<and>
       newId \<notin> i_id ` set (invitations w))"
  using assms
proof cases
  case (invite ext ws email role existingUser token expiresAt actor now newId r)
  then show ?thesis by (cases r) blast
next
  case (revoke c ws iid ab actor now)
  from settled_revoke [OF this] show ?thesis ..
next
  case (resend c ext days ws iid ab actor budget token now i)
  from settled_resend [OF this] show ?thesis ..
next
  case (accept c loadAbility invitation actor now newId r)
  then have "acceptTransaction c loadAbility invitation actor now newId w = Inr ((fst r, snd r), w')"
    by simp
  from settled_accept [OF this] show ?thesis ..
next
  case (depart ws mid uid rank actor options now m)
  from settled_transition [OF this] show ?thesis ..
next
  case elsewhere
  then show ?thesis by simp
qed

interpretation invitation: machine no_invitations invitation_step invitation_inv
proof
  show "no_invitations w \<Longrightarrow> invitation_inv w" for w
    by (simp add: no_invitations_def invitation_inv_def one_pending_def)
  show "invitation_inv w \<Longrightarrow> invitation_step w w' \<Longrightarrow> invitation_inv w'" for w w'
    using invitation_step_cases_settled settled_inv inv_invite by blast
qed

text \<open>A row that is no longer pending stays exactly as it is.\<close>

lemma step_keeps_final:
  assumes "invitation_step w w'" and "i \<in> set (invitations w)" and "i_status i \<noteq> PENDING"
  shows "i \<in> set (invitations w')"
  using invitation_step_cases_settled [OF assms(1)]
proof
  assume "settled_rows (invitations w) (invitations w')"
  then show ?thesis using settled_final assms(2,3) by blast
next
  assume "\<exists>ext ws email role existingUser token expiresAt actor now newId i n.
       inviteTransaction ext ws email role existingUser token expiresAt actor now newId w = Inr ((i, n), w') \<and>
       newId \<notin> i_id ` set (invitations w)"
  then obtain ext ws email role existingUser token expiresAt actor now newId j n
    where "inviteTransaction ext ws email role existingUser token expiresAt actor now newId w = Inr ((j, n), w')"
    by blast
  from invite_Inr [OF this] obtain rows where
    "settled_rows (invitations w) rows" "invitations w' = rows @ [j]"
    by metis
  then show ?thesis using settled_final assms(2,3) by auto
qed

end
