(* ===== verification/Invitation_Properties.thy ===== *)
theory Invitation_Properties
  imports Invitation_Machine
begin

text \<open>
  What the invitations promise: one outstanding invitation per address, one redemption, by the invitee,
  under the inviter's present authority, and one answer for everybody else.
\<close>

text \<open>C24: at any time an address has at most one pending invitation to a workspace.\<close>

theorem one_pending_invitation_per_address:
  assumes "reachable no_invitations invitation_step w"
    and "i \<in> set (invitations w)" and "j \<in> set (invitations w)"
    and "i_status i = PENDING" and "i_status j = PENDING"
    and "i_workspace_id i = i_workspace_id j" and "i_email i = i_email j"
  shows "i = j"
proof -
  have inv: "invitation_inv w" by (rule invitation.inv_reachable [OF assms(1)])
  then have "i_id i = i_id j" using assms(2-) unfolding invitation_inv_def one_pending_def by blast
  then show ?thesis
    using inv assms(2,3) distinct_key [of i_id "invitations w" i j] by (simp add: invitation_inv_def)
qed

lemma accept_pending_row:
  assumes "acceptTransaction c loadAbility invitation actor now newId w = Inr ((m, j), w')"
  obtains i where "i \<in> set (invitations w)" "i_id i = i_id invitation" "i_status i = PENDING"
    "now < i_expires_at i"
proof -
  have "0 < count_where (\<lambda>i. i_id i = i_id invitation \<and> i_status i = PENDING \<and> now < i_expires_at i)
      (invitations w)"
    using accept_Inr(3) [OF assms] by simp
  then show ?thesis using that unfolding count_where_pos by blast
qed

lemma accepted_row:
  assumes "acceptTransaction c loadAbility invitation actor now newId w = Inr ((m, j), w')"
  shows "\<exists>i \<in> set (invitations w'). i_id i = i_id invitation \<and> i_status i = ACCEPTED \<and>
    i_accepted_by i = Some actor"
proof -
  let ?live = "\<lambda>i. i_id i = i_id invitation \<and> i_status i = PENDING \<and> now < i_expires_at i"
  obtain i where i: "i \<in> set (invitations w)" "?live i"
    by (rule accept_pending_row [OF assms]) (rule that, auto)
  have "(if ?live i then i\<lparr>i_status := ACCEPTED, i_accepted_at := Some now, i_accepted_by := Some actor,
      i_updated_by := Some actor\<rparr> else i) \<in> set (invitations w')"
    unfolding accept_Inr(4) [OF assms] set_update_where using i(1) by (rule imageI)
  then show ?thesis using i(2) by (intro bexI) auto
qed

text \<open>C25: an invitation is redeemed at most once.  After an acceptance has committed, and whatever happens
  to invitations and memberships after it, no acceptance of the same invitation commits again, by
  anybody, at any time, whatever row of it was read before.\<close>

theorem invitation_redeemed_once:
  assumes "reachable no_invitations invitation_step w"
    and "acceptTransaction c loadAbility invitation actor now newId w = Inr ((m, j), w1)"
    and "invitation_step\<^sup>*\<^sup>* w1 w2" and "i_id invitation' = i_id invitation"
  shows "acceptTransaction c' loadAbility' invitation' actor' now' newId' w2 \<noteq> Inr (r, w3)"
proof
  assume again: "acceptTransaction c' loadAbility' invitation' actor' now' newId' w2 = Inr (r, w3)"
  then obtain m' j' where again': "acceptTransaction c' loadAbility' invitation' actor' now' newId' w2 = Inr ((m', j'), w3)"
    by (cases r) blast
  have step: "invitation_step w w1" by (rule invitation_step.accept [OF assms(2)])
  have w1: "reachable no_invitations invitation_step w1" by (rule reachable.next_step [OF assms(1) step])
  have inv: "invitation_inv w2"
    by (rule invitation.inv_reachable [OF invitation.reachable_steps [OF w1 assms(3)]])
  obtain i where i: "i \<in> set (invitations w1)" "i_id i = i_id invitation" "i_status i = ACCEPTED"
    using accepted_row [OF assms(2)] by blast
  have "i \<in> set (invitations w2)"
    using step_keeps_final i(1,3)
    by (intro invitation.stable_steps [where P = "\<lambda>v. i \<in> set (invitations v)", OF _ assms(3)
          invitation.inv_reachable [OF w1]]) auto
  moreover obtain k where k: "k \<in> set (invitations w2)" "i_id k = i_id invitation'" "i_status k = PENDING"
    by (rule accept_pending_row [OF again']) (rule that, assumption+)
  ultimately have "i = k"
    using inv i(2) assms(4) distinct_key [of i_id "invitations w2" i k] by (simp add: invitation_inv_def)
  then show False using i(3) k(3) by simp
qed

section \<open>Who may redeem\<close>

definition invitee :: "world \<Rightarrow> invitation_row \<Rightarrow> ident \<Rightarrow> string \<Rightarrow> bool" where
  "invitee w i actor email \<longleftrightarrow>
     (if truthy (i_invited_user_id i) then i_invited_user_id i = Some actor
      else i_email i = to_lower_case email \<and>
           (\<exists>u. find_live_user w actor = Some u \<and> u_email_verified_at u \<noteq> None))"

lemma assertIsInvitee_iff:
  "assertIsInvitee i actor email w = (if invitee w i actor email then Inr () else Inl invitationInvalid)"
  by (auto simp: assertIsInvitee_def invitee_def guardE_def split: option.splits)

lemma accept_membership:
  assumes tables: "tables_ok w" and "acceptTransaction c loadAbility invitation actor now newId w = Inr ((m, j), w')"
  shows "m \<in> set (memberships w') \<and> m_workspace_id m = i_workspace_id invitation \<and> m_user_id m = actor \<and>
    m_role_id m = i_role_id invitation \<and> m_status m = ACTIVE \<and>
    (\<forall>x. find_membership (i_workspace_id invitation) actor w = Some x \<longrightarrow> m_status x = LEFT)"
proof (cases "find_membership (i_workspace_id invitation) actor w")
  case None
  then show ?thesis using assms(2) by (auto simp: acceptTransaction_def Let_def transaction_Inr)
next
  case (Some x)
  let ?f = "\<lambda>m. m\<lparr>m_role_id := i_role_id invitation, m_status := ACTIVE, m_joined_at := now,
      m_ended_at := None, m_updated_by := Some actor\<rparr>"
  have x: "x \<in> set (memberships w)" "m_workspace_id x = i_workspace_id invitation" "m_user_id x = actor"
    using Some by (auto simp: find_membership_def dest: find_SomeD)
  obtain v where set: "set_membership (m_id x) ?f v = Inr (m, w')" and v: "memberships v = memberships w"
    and left: "m_status x = LEFT"
    using Some assms(2) by (auto simp: acceptTransaction_def Let_def transaction_Inr intro: that)
  obtain y where y: "find (\<lambda>m. m_id m = m_id x) (memberships w) = Some y" and m: "m = ?f y"
    and w': "memberships w' = update_where (\<lambda>m. m_id m = m_id x) ?f (memberships w)"
    using set by (auto simp: set_membership_def v split: option.splits)
  have "y = x"
    using find_SomeD [OF y] x(1) tables distinct_key [of m_id "memberships w" y x]
    by (simp add: tables_ok_def)
  moreover have "?f x \<in> set (memberships w')"
    unfolding w' set_update_where using x(1) by (intro image_eqI [of _ _ x]) simp_all
  ultimately show ?thesis using m x left Some by simp
qed

text \<open>C26: an acceptance that goes through redeemed a pending, unexpired invitation to a live workspace whose
  token the caller presented; the caller is the invitee, by account or by verified email, and had no
  membership there but a former one; afterwards they are an active member with the invited role.\<close>

theorem acceptance_grants_invited_role:
  assumes "tables_ok w"
    and "acceptInvitation c ext loadAbility token actor email now newId w = Inr ((ws, mid), w')"
  shows "\<exists>i \<in> set (invitations w). i_token_hash i = sha256_hex ext token \<and> i_status i = PENDING \<and>
    now < i_expires_at i \<and> i_workspace_id i = ws \<and> live_workspace w ws \<and> invitee w i actor email \<and>
    (\<forall>x. find_membership ws actor w = Some x \<longrightarrow> m_status x = LEFT) \<and>
    (\<exists>m \<in> set (memberships w'). m_id m = mid \<and> m_workspace_id m = ws \<and> m_user_id m = actor \<and>
       m_role_id m = i_role_id i \<and> m_status m = ACTIVE)"
proof -
  obtain i m j v where check: "acceptChecks ext token actor email now w = Inr i"
    and tx: "acceptTransaction c loadAbility i actor now newId w = Inr ((m, j), v)"
    and r: "ws = i_workspace_id i" "mid = m_id m" "memberships w' = memberships v"
    using assms(2) by (auto simp: acceptInvitation_def bindE_Inr_iff)
  have i: "i \<in> set (invitations w)" "i_token_hash i = sha256_hex ext token" "i_status i = PENDING"
    "live_workspace w (i_workspace_id i)" "invitee w i actor email" "now < i_expires_at i"
    using check
    by (auto simp: acceptChecks_def assertIsInvitee_iff throw_Inr bindE_Inr_iff
        split: option.splits if_splits dest!: find_SomeD)
  show ?thesis
    using i r accept_membership [OF assms(1) tx] by (intro bexI [of _ i]) auto
qed

text \<open>An invitation is worth no more than its inviter's authority at the redemption.  When one goes
  through, the inviter's account is live and active, the role is a workspace role, and, unless the
  inviter then holds platform authority over everything, the inviter is an active member of the
  workspace with a rank of at least the invited role's.\<close>

theorem acceptance_needs_inviter_authority:
  assumes "acceptTransaction c loadAbility invitation actor now newId w = Inr ((m, j), w')"
  shows "\<exists>inviter ab role. i_invited_by invitation = Some inviter \<and> usable_account w inviter \<and>
    loadAbility inviter = Inr ab \<and> find_role w (i_role_id invitation) = Some role \<and>
    r_scope role = WORKSPACE \<and>
    (\<not> can_type c ab A_manage S_all \<longrightarrow>
      (\<exists>own \<in> set (memberships w). m_workspace_id own = i_workspace_id invitation \<and>
         m_user_id own = inviter \<and> m_status own = ACTIVE \<and>
         r_rank role \<le> role_rank w (m_role_id own)))"
proof -
  obtain u ab role rank where u: "truthy (i_invited_by invitation)"
      "find (\<lambda>u. u_id u = the (i_invited_by invitation) \<and> u_is_active u) (live_users w) = Some u"
    and ab: "loadAbility (u_id u) = Inr ab"
    and role: "loadAssignableRole (i_role_id invitation) w = Inr role"
    and assign: "assertMayAssign c (i_workspace_id invitation) (u_id u) role ab None w = Inr rank"
    using accept_Inr(2) [OF assms]
    by (auto simp: assertInviterMayStillAssign_def bindE_Inr_iff split: option.splits if_splits sum.splits)
  have "i_invited_by invitation = Some (u_id u)" "usable_account w (u_id u)"
    using u find_SomeD [OF u(2)]
    by (auto simp: truthy_def usable_account_def live_users_def split: option.splits)
  moreover have "\<exists>own \<in> set (memberships w). m_workspace_id own = i_workspace_id invitation \<and>
      m_user_id own = u_id u \<and> m_status own = ACTIVE \<and> r_rank role \<le> role_rank w (m_role_id own)"
    if "\<not> can_type c ab A_manage S_all"
  proof -
    have rank: "resolveActorRank c (i_workspace_id invitation) (u_id u) ab w = Inr rank"
      "assertRankPermits rank (r_rank role) = Inr ()"
      using assign by (auto simp: assertMayAssign_def Let_def throw_Inr bindE_Inr_iff)
    from resolveActorRank_Inr [OF rank(1) that] rank(2) show ?thesis
      by (metis assertRankPermits_Inr)
  qed
  ultimately show ?thesis using ab role by (auto simp: svc)
qed

text \<open>Whoever holds a token that is not theirs learns nothing from presenting it.  Unless the token
  belongs to an invitation of a live workspace whose invitee the caller is, the answer is the same
  error and nothing changes, whether the token is unknown, spent, withdrawn, expired or somebody
  else's.\<close>

theorem non_invitee_learns_nothing:
  assumes "\<forall>i \<in> set (invitations w). i_token_hash i = sha256_hex ext token \<and>
      live_workspace w (i_workspace_id i) \<longrightarrow> \<not> invitee w i actor email"
  shows "acceptInvitation c ext loadAbility token actor email now newId w = Inl invitationInvalid"
  using assms
  by (auto simp: acceptInvitation_def acceptChecks_def assertIsInvitee_iff split: option.splits
      dest!: find_SomeD)

end
