(* ===== verification/Invitation_Witnesses.thy ===== *)
theory Invitation_Witnesses
  imports Invitation_Properties Ownership_Witnesses
begin

text \<open>Witnesses of the invitation properties: the owner of the sample workspace invites an account, which
  accepts.\<close>

definition lobby_world :: world where
  "lobby_world = roster_world\<lparr>users := [sample_user ''u'', sample_user ''v'', sample_user ''x'']\<rparr>"

definition sample_invitation :: invitation_row where
  "sample_invitation =
     \<lparr>i_id = ''i'', i_workspace_id = ''s'', i_email = ''x'', i_invited_user_id = Some ''x'',
      i_role_id = ''rs'', i_token_hash = ''ht'', i_status = PENDING, i_invited_by = Some ''u'',
      i_expires_at = 100, i_accepted_at = None, i_accepted_by = None, i_revoked_at = None,
      i_revoked_by = None, i_created_by = Some ''u'', i_updated_by = Some ''u''\<rparr>"

definition invited_world :: world where
  "invited_world = lobby_world\<lparr>invitations := [sample_invitation]\<rparr>"

lemma invited:
  "inviteTransaction sample_ext ''s'' ''x'' (sample_role ''rs'' WORKSPACE_STAFF 10) (Some (sample_user ''x''))
     ''t'' 100 ''u'' 5 ''i'' lobby_world = Inr ((sample_invitation, 0), invited_world)"
  by (simp add: inviteTransaction_def lobby_world_def invited_world_def sample_invitation_def
      find_membership_def count_where_def sample_ext_def pending_for_def roster_defs Let_def)

lemma invited_reachable: "reachable no_invitations invitation_step invited_world"
proof (rule reachable.next_step)
  show "reachable no_invitations invitation_step lobby_world"
    by (rule reachable.start) (simp add: no_invitations_def lobby_world_def roster_defs)
  show "invitation_step lobby_world invited_world"
    by (rule invitation_step.invite [OF invited]) (simp add: lobby_world_def roster_defs)
qed

lemma one_pending_invitation_per_address_witness:
  "sample_invitation = sample_invitation \<and> i_status sample_invitation = PENDING"
  using one_pending_invitation_per_address [OF invited_reachable, of sample_invitation sample_invitation]
  by (simp add: invited_world_def sample_invitation_def)

lemma invited_tables: "tables_ok invited_world"
  by (simp add: tables_ok_def invited_world_def lobby_world_def roster_defs)

definition sample_load :: "ident \<Rightarrow> exn + ability" where
  "sample_load i = Inr admin_ability"

lemmas accept_defs = acceptTransaction_def assertUserMayHoldActiveMembership_def usable_account_def
  assertInviterMayStillAssign_def truthy_def live_users_def sample_load_def loadAssignableRole_def
  find_role_def assertMayAssign_def resolveActorRank_def assertRankPermits_def count_where_def
  find_membership_def invited_world_def lobby_world_def sample_invitation_def roster_defs

lemma accept_once:
  "\<exists>m j w'. acceptTransaction sample_casl sample_load sample_invitation ''x'' 5 ''mx'' invited_world = Inr ((m, j), w')"
  by (simp add: accept_defs Let_def)

lemma invitation_redeemed_once_witness:
  "\<exists>m j w'. acceptTransaction sample_casl sample_load sample_invitation ''x'' 5 ''mx'' invited_world = Inr ((m, j), w') \<and>
     acceptTransaction sample_casl sample_load sample_invitation ''v'' 6 ''my'' w' \<noteq> Inr ((m, j), w')"
proof -
  obtain m j w' where tx: "acceptTransaction sample_casl sample_load sample_invitation ''x'' 5 ''mx'' invited_world = Inr ((m, j), w')"
    using accept_once by blast
  from invitation_redeemed_once [OF invited_reachable tx rtranclp.rtrancl_refl refl] tx
  show ?thesis by blast
qed

lemma accepted:
  "\<exists>r w'. acceptInvitation sample_casl sample_ext sample_load ''t'' ''x'' ''x'' 5 ''mx'' invited_world = Inr (r, w')"
  by (simp add: acceptInvitation_def acceptChecks_def sample_ext_def assertIsInvitee_def live_workspace_def
      live_workspaces_def accept_defs Let_def)

lemma acceptance_grants_invited_role_witness:
  "\<exists>ws mid w'. acceptInvitation sample_casl sample_ext sample_load ''t'' ''x'' ''x'' 5 ''mx'' invited_world =
       Inr ((ws, mid), w') \<and>
     (\<exists>m \<in> set (memberships w'). m_id m = mid \<and> m_user_id m = ''x'' \<and> m_status m = ACTIVE)"
proof -
  obtain ws mid w' where tx: "acceptInvitation sample_casl sample_ext sample_load ''t'' ''x'' ''x'' 5 ''mx'' invited_world =
      Inr ((ws, mid), w')"
    using accepted by auto
  from acceptance_grants_invited_role [OF invited_tables tx] tx show ?thesis by blast
qed

lemma acceptance_needs_inviter_authority_witness:
  "\<exists>inviter. i_invited_by sample_invitation = Some inviter \<and> usable_account invited_world inviter"
proof -
  obtain m j w' where tx: "acceptTransaction sample_casl sample_load sample_invitation ''x'' 5 ''mx'' invited_world = Inr ((m, j), w')"
    using accept_once by blast
  from acceptance_needs_inviter_authority [OF tx] show ?thesis by blast
qed

lemma non_invitee_learns_nothing_witness:
  "acceptInvitation sample_casl sample_ext sample_load ''t'' ''v'' ''v'' 5 ''mv2'' invited_world = Inl invitationInvalid"
  by (rule non_invitee_learns_nothing) (simp add: invited_world_def sample_invitation_def invitee_def truthy_def)

end
