(* ===== verification/Credential_Properties.thy ===== *)
theory Credential_Properties
  imports Ownership_Steps
begin

text \<open>
  What the credential operations promise: a reset link works once when requests follow one another, changes
  the password and ends the sessions; a verification link proves the address it was mailed to and no other;
  a phone code proves the number it was sent to.  Where the check of a link runs outside the transaction
  that spends it, two concurrent requests both redeem it.
\<close>

lemma find_update_where_in:
  "(\<And>r. r \<in> set rows \<Longrightarrow> q r \<Longrightarrow> p (f r) = p r) \<Longrightarrow>
   find p (update_where q f rows) = map_option (\<lambda>r. if q r then f r else r) (find p rows)"
  by (induction rows) auto

lemma enqueue_simps [simp]:
  "users (enqueue n p w) = users w" "refresh_tokens (enqueue n p w) = refresh_tokens w"
  "roles (enqueue n p w) = roles w" "workspaces (enqueue n p w) = workspaces w"
  "memberships (enqueue n p w) = memberships w" "invitations (enqueue n p w) = invitations w"
  by (simp_all add: enqueue_def)

section \<open>Reset links\<close>

text \<open>What a redeemed link leaves: the account's row and its refresh tokens.\<close>

lemma resetWrite_Inr:
  assumes "resetWrite ext user newPassword clk w = Inr w'"
  obtains old u where "find_user w (u_id user) = Some old"
    "u = old\<lparr>u_otp_hash := None, u_otp_purpose := None, u_otp_expires_at := None,
       u_password := hashPassword ext newPassword,
       u_password_changed_at := Some (nextWholeSecond (clk 0)), u_updated_by := Some (u_id user)\<rparr>"
    "users w' = update_where (\<lambda>x. u_id x = u_id user) (\<lambda>_. u) (users w)"
    "refresh_tokens w' = update_where (\<lambda>r. rt_user_id r = u_id user \<and> rt_revoked_at r = None)
       (\<lambda>r. r\<lparr>rt_revoked_at := Some (clk 1)\<rparr>) (refresh_tokens w)"
proof -
  obtain u v where tx: "endAllSessionsInTransaction (u_id user) (Some (u_id user))
      (\<lambda>u. u\<lparr>u_otp_hash := None, u_otp_purpose := None, u_otp_expires_at := None,
             u_password := hashPassword ext newPassword\<rparr>) clk w = Inr (u, v)"
    and w': "users w' = users v" "refresh_tokens w' = refresh_tokens v"
    using assms by (auto simp: resetWrite_def applyPasswordChange_def Let_def bindE_Inr_iff
        queuePasswordChangedNotice_def)
  show ?thesis
    by (rule endAll_Inr [OF tx], rule that) (simp_all add: w')
qed

lemma resetChecks_Inr:
  assumes "resetChecks ext email token now w = Inr user"
  shows "findByEmail email w = Some user" and "u_is_active user"
    and "u_otp_hash user = Some (sha256_hex ext token)" and "u_otp_purpose user = Some PASSWORD_RESET"
    and "\<exists>t. u_otp_expires_at user = Some t \<and> now \<le> t"
  using assms
  by (auto simp: resetChecks_def truthy_def throw_Inr split: option.splits)

lemma findByEmail_Some:
  "findByEmail email w = Some user \<Longrightarrow>
   user \<in> set (users w) \<and> u_deleted_at user = None \<and> u_email user = to_lower_case email"
  by (auto simp: findByEmail_def live_users_def find_filter dest: find_SomeD)

text \<open>The row an address finds is the same account after its credentials changed.\<close>

lemma findByEmail_after:
  assumes tables: "tables_ok w" and found: "findByEmail email w = Some user"
    and v: "users v = update_where (\<lambda>x. u_id x = u_id user) (\<lambda>_. u) (users w)"
    and same: "u_email u = u_email user" "u_deleted_at u = None"
  shows "findByEmail email v = Some u"
proof -
  note user = findByEmail_Some [OF found]
  have only: "x = user" if "x \<in> set (users w)" "u_id x = u_id user" for x
    using tables that user distinct_key [of u_id "users w" x user] by (simp add: tables_ok_def)
  have "find (\<lambda>x. u_deleted_at x = None \<and> u_email x = to_lower_case email) (users v) =
      map_option (\<lambda>r. if u_id r = u_id user then u else r)
        (find (\<lambda>x. u_deleted_at x = None \<and> u_email x = to_lower_case email) (users w))"
    unfolding v
  proof (rule find_update_where_in)
    fix r assume "r \<in> set (users w)" "u_id r = u_id user"
    then have "r = user" by (rule only)
    then show "(u_deleted_at u = None \<and> u_email u = to_lower_case email) =
        (u_deleted_at r = None \<and> u_email r = to_lower_case email)"
      using user same by simp
  qed
  then show ?thesis using found by (simp add: findByEmail_def live_users_def find_filter)
qed

text \<open>C27: a password-reset link works once.  Redeeming it takes a live, active account of that address whose
  stored digest is the token's and has not expired; it sets the new password, moves the session cutoff and
  revokes every refresh token of the account; and a later request with that address is refused as an
  invalid link, whatever token it carries, until a new link is minted.\<close>

theorem reset_link_works_once:
  assumes "tables_ok w" and "resetPassword ext email token newPassword clk w = Inr w'"
  shows "\<exists>user u. findByEmail email w = Some user \<and> u_is_active user \<and>
      u_otp_hash user = Some (sha256_hex ext token) \<and> u_otp_purpose user = Some PASSWORD_RESET \<and>
      (\<exists>expiry. u_otp_expires_at user = Some expiry \<and> clk 0 \<le> expiry) \<and>
      findByEmail email w' = Some u \<and> u_id u = u_id user \<and>
      u_password u = hashPassword ext newPassword \<and>
      u_password_changed_at u = Some (nextWholeSecond (clk 1)) \<and>
      (\<forall>r \<in> set (refresh_tokens w'). rt_user_id r = u_id user \<longrightarrow> rt_revoked_at r \<noteq> None) \<and>
      resetPassword ext email token' newPassword' clk' w' = Inl invalidLink"
proof -
  obtain user where check: "resetChecks ext email token (clk 0) w = Inr user"
    and tx: "resetWrite ext user newPassword (\<lambda>i. clk (1 + i)) w = Inr w'"
    using assms(2) by (auto simp: resetPassword_def bindE_Inr_iff)
  note c = resetChecks_Inr [OF check]
  note user = findByEmail_Some [OF c(1)]
  obtain old u where old: "find_user w (u_id user) = Some old"
    and u: "u = old\<lparr>u_otp_hash := None, u_otp_purpose := None, u_otp_expires_at := None,
       u_password := hashPassword ext newPassword,
       u_password_changed_at := Some (nextWholeSecond (clk (1 + 0))), u_updated_by := Some (u_id user)\<rparr>"
    and w': "users w' = update_where (\<lambda>x. u_id x = u_id user) (\<lambda>_. u) (users w)"
      "refresh_tokens w' = update_where (\<lambda>r. rt_user_id r = u_id user \<and> rt_revoked_at r = None)
         (\<lambda>r. r\<lparr>rt_revoked_at := Some (clk (1 + 1))\<rparr>) (refresh_tokens w)"
    by (rule resetWrite_Inr [OF tx]) (rule that, assumption+)
  have "old = user" using find_user_unique [OF assms(1) old, of user] user by simp
  then have found: "findByEmail email w' = Some u"
    using user by (intro findByEmail_after [OF assms(1) c(1) w'(1)]) (simp_all add: u)
  moreover have "resetChecks ext email token' (clk' 0) w' = Inl invalidLink"
    unfolding resetChecks_def found by (simp add: u truthy_def)
  then have "resetPassword ext email token' newPassword' clk' w' = Inl invalidLink"
    by (simp add: resetPassword_def)
  moreover have "\<forall>r \<in> set (refresh_tokens w'). rt_user_id r = u_id user \<longrightarrow> rt_revoked_at r \<noteq> None"
    unfolding w'(2) by (auto simp: set_update_where)
  ultimately show ?thesis using c \<open>old = user\<close> by (intro exI [of _ user] exI [of _ u]) (simp add: u)
qed

lemma user_conflict_cong:
  "u_id u = u_id v \<Longrightarrow> u_email u = u_email v \<Longrightarrow> u_username u = u_username v \<Longrightarrow>
   u_deleted_at u = u_deleted_at v \<Longrightarrow> user_conflict u w = user_conflict v w"
  by (simp add: user_conflict_def)

lemma resetWrite_succeeds:
  assumes "find_user w (u_id user) = Some old" and "\<not> user_conflict old w"
  shows "\<exists>w'. resetWrite ext user newPassword clk w = Inr w'"
proof -
  have "\<not> user_conflict (old\<lparr>u_otp_hash := None, u_otp_purpose := None, u_otp_expires_at := None,
      u_password := hashPassword ext newPassword,
      u_password_changed_at := Some (nextWholeSecond (clk 0)), u_updated_by := Some (u_id user)\<rparr>) w"
    using assms(2) by (subst user_conflict_cong [where v = old]) simp_all
  then show ?thesis
    using assms(1) by (simp add: resetWrite_def applyPasswordChange_def [unfolded Let_def]
        endAllSessionsInTransaction_def [unfolded Let_def])
qed

text \<open>The other live rows, and with them the unique indexes, do not see the change.\<close>

lemma conflict_after:
  assumes "\<not> user_conflict old w" and "users v = update_where (\<lambda>x. u_id x = uid) (\<lambda>_. u) (users w)"
    and "u_id old = uid" "u_id u = uid" "u_email u = u_email old" "u_username u = u_username old"
      "u_deleted_at u = u_deleted_at old"
  shows "\<not> user_conflict u v"
proof -
  have "x \<in> set (live_users w)" if "x \<in> set (live_users v)" "u_id x \<noteq> uid" for x
    using that assms(2,4) by (auto simp: live_users_def dest!: update_whereD)
  then show ?thesis using assms(1,3-) unfolding user_conflict_def by metis
qed

text \<open>The check of a reset link runs before the transaction that spends it and is not repeated in it.
  Two requests that present the same link and are both checked before either writes both succeed; the
  password is the second one's, although the link is documented to work once.\<close>

theorem reset_link_redeemed_twice:
  assumes "tables_ok w" and "resetChecks ext email token now w = Inr user"
    and "\<not> user_conflict user w"
  shows "\<exists>w1 w2 u. resetWrite ext user first clk w = Inr w1 \<and>
    resetWrite ext user second clk' w1 = Inr w2 \<and>
    findByEmail email w2 = Some u \<and> u_id u = u_id user \<and> u_password u = hashPassword ext second"
proof -
  note c = resetChecks_Inr(1) [OF assms(2)]
  note user = findByEmail_Some [OF c]
  have found: "find_user w (u_id user) = Some user"
    using find_key [of u_id "users w" user] assms(1) user by (simp add: find_user_def tables_ok_def)
  obtain w1 where w1: "resetWrite ext user first clk w = Inr w1"
    using resetWrite_succeeds [OF found assms(3)] by blast
  obtain u where u: "u = user\<lparr>u_otp_hash := None, u_otp_purpose := None, u_otp_expires_at := None,
       u_password := hashPassword ext first,
       u_password_changed_at := Some (nextWholeSecond (clk 0)), u_updated_by := Some (u_id user)\<rparr>"
    and us: "users w1 = update_where (\<lambda>x. u_id x = u_id user) (\<lambda>_. u) (users w)"
    by (rule resetWrite_Inr [OF w1]) (rule that, simp_all add: found)
  have tables: "distinct (map u_id (users w1))"
    using assms(1) user_ids_update [of "users w" "u_id user" "\<lambda>_. u"]
    by (simp add: us u tables_ok_def)
  have "(if u_id user = u_id user then u else user) \<in> set (users w1)"
    unfolding us set_update_where using user by (intro imageI) blast
  then have "u \<in> set (users w1)" by simp
  then have found1: "find_user w1 (u_id user) = Some u"
    using find_key [OF tables] by (force simp: find_user_def u)
  have "\<not> user_conflict u w1" by (rule conflict_after [OF assms(3) us]) (simp_all add: u)
  then obtain w2 where w2: "resetWrite ext user second clk' w1 = Inr w2"
    using resetWrite_succeeds [OF found1] by blast
  obtain u' where u': "u' = u\<lparr>u_otp_hash := None, u_otp_purpose := None, u_otp_expires_at := None,
       u_password := hashPassword ext second,
       u_password_changed_at := Some (nextWholeSecond (clk' 0)), u_updated_by := Some (u_id user)\<rparr>"
    and us': "users w2 = update_where (\<lambda>x. u_id x = u_id user) (\<lambda>_. u') (users w1)"
    by (rule resetWrite_Inr [OF w2]) (rule that, simp_all add: found1)
  have "users w2 = update_where (\<lambda>x. u_id x = u_id user) (\<lambda>_. u') (users w)"
    by (simp add: us us' update_where_def u comp_def)
  then have "findByEmail email w2 = Some u'"
    using user by (intro findByEmail_after [OF assms(1) c]) (simp_all add: u u')
  then show ?thesis using w1 w2 by (intro exI conjI) (assumption+, simp_all add: u u')
qed

section \<open>Verification links\<close>

text \<open>A verification link proves control of the address it was mailed to and of no other.  Its check
  reads the account without a lock; whatever has been committed by the time it writes, an account that
  becomes verified by it is the one the link names, and its address then is the one in the link.\<close>

theorem verification_binds_address:
  assumes "readVerification (Some payload) w = Inr (LinkPending user)"
    and "commitVerification user (u_email user) now v = Inr v'"
    and "u \<in> set (users v')" and "u_email_verified_at u \<noteq> None"
  shows "u \<in> set (users v) \<or>
    vp_purpose payload = Some ''email_verify'' \<and> vp_sub payload = Some (u_id u) \<and>
    vp_email payload = Some (u_email u) \<and> u_deleted_at u = None"
proof -
  have link: "vp_purpose payload = Some ''email_verify''" "vp_sub payload = Some (u_id user)"
    "vp_email payload = Some (u_email user)"
    using assms(1)
    by (auto simp: readVerification_def findByIdOrNull_def throw_Inr split: option.splits if_splits
        dest: find_live_user_Some)
  let ?redeemable = "\<lambda>u. u_id u = u_id user \<and> u_email u = u_email user \<and> u_email_verified_at u = None \<and>
      u_deleted_at u = None"
  have "users v' = users v \<or> users v' = update_where ?redeemable
      (\<lambda>u. u\<lparr>u_email_verified_at := Some now, u_updated_by := Some (u_id user)\<rparr>) (users v)"
    using assms(2) by (auto simp: commitVerification_def Let_def split: if_splits option.splits)
  then show ?thesis
  proof
    assume "users v' = users v"
    then show ?thesis using assms(3) by simp
  next
    assume us: "users v' = update_where ?redeemable
      (\<lambda>u. u\<lparr>u_email_verified_at := Some now, u_updated_by := Some (u_id user)\<rparr>) (users v)"
    from update_whereD [OF assms(3) [unfolded us]] link show ?thesis by auto
  qed
qed

section \<open>Phone codes\<close>

text \<open>What is documented of bcrypt: a password compares equal to the digest of itself and, up to
  collisions, of nothing else.\<close>

definition bcrypt_law :: "ext \<Rightarrow> bool" where
  "bcrypt_law ext \<longleftrightarrow> (\<forall>p q. bcrypt_compare ext p (bcrypt_hash ext q) \<longleftrightarrow> p = q) \<and>
     (\<forall>p. bcrypt_hash ext p \<noteq> [])"

text \<open>A phone code proves the number it was sent to.  After a code has gone out, an attempt is accepted
  exactly within the code's quarter of an hour and when code and number are together the ones it was
  minted for; it verifies that number, and the code is gone.\<close>

theorem phone_code_roundtrip:
  assumes "bcrypt_law ext" and "find_user w userId = Some user" and "\<not> user_conflict user w"
    and "tables_ok w"
    and "requestPhoneVerification ext userId currentPassword phone Reserved otp now w = Inr w1"
  shows "case verifyAndUpdatePhoneNumber ext userId otp' phone' actorId later w1 of
      Inl e \<Rightarrow> e = invalidOtp \<and>
        \<not> (later \<le> now + OTP_EXPIRY_MS \<and> otp' @ '':'' @ phone' = otp @ '':'' @ phone)
    | Inr (u, w2) \<Rightarrow>
        later \<le> now + OTP_EXPIRY_MS \<and> otp' @ '':'' @ phone' = otp @ '':'' @ phone \<and>
        u_phone_number u = Some phone' \<and> u_phone_verified_at u = Some later \<and> u_otp_hash u = None"
proof -
  let ?minted = "\<lambda>u. u\<lparr>u_otp_hash := Some (bcrypt_hash ext (otp @ '':'' @ phone)),
      u_otp_purpose := Some PHONE_VERIFY, u_otp_expires_at := Some (now + OTP_EXPIRY_MS)\<rparr>"
  have w1: "w1 = w\<lparr>users := update_where (\<lambda>u. u_id u = userId) ?minted (users w)\<rparr>"
    using assms(5) by (auto simp: requestPhoneVerification_def bindE_Inr_iff elim!: user_update_Inr)
  have id: "u_id user = userId" using find_user_Some [OF assms(2)] by simp
  have found: "find_user w1 userId = Some (?minted user)"
    using assms(2) by (simp add: find_user_def w1 find_update_where id)
  let ?spent = "\<lambda>u. u\<lparr>u_phone_number := Some phone', u_phone_verified_at := Some later,
      u_otp_hash := None, u_otp_purpose := None, u_otp_expires_at := None, u_updated_by := Some actorId\<rparr>"
  have "\<not> user_conflict (?minted user) w"
    using assms(3) by (subst user_conflict_cong [where v = user]) simp_all
  have "user_conflict (?spent (?minted user)) w1 = user_conflict user w"
  proof -
    have rows: "(\<exists>x \<in> set (live_users w1). u_id x \<noteq> userId \<and> P (u_email x) (u_username x)) \<longleftrightarrow>
        (\<exists>x \<in> set (live_users w). u_id x \<noteq> userId \<and> P (u_email x) (u_username x))" for P
      by (auto simp: live_users_def w1 set_update_where)
    show ?thesis
      using rows [of "\<lambda>e n. e = u_email user \<or> n \<noteq> None \<and> n = u_username user"]
      by (simp add: user_conflict_def id)
  qed
  then have conflict: "\<not> user_conflict (?spent (?minted user)) w1" using assms(3) by simp
  have accepted: "phoneOtpAccepted ext (?minted user) otp' phone' later \<longleftrightarrow>
      later \<le> now + OTP_EXPIRY_MS \<and> otp' @ '':'' @ phone' = otp @ '':'' @ phone"
    using assms(1) by (auto simp: phoneOtpAccepted_def truthy_def bcrypt_law_def)
  show ?thesis
    unfolding verifyAndUpdatePhoneNumber_def findUserById_def found requireE_eval bindE_simps accepted
    using found conflict by (auto simp: guardE_def user_update_def)
qed

end
