(* ===== verification/Credential_Witnesses.thy ===== *)
theory Credential_Witnesses
  imports Credential_Properties Samples
begin

text \<open>Witnesses of the credential properties: one account with an unspent reset link, and one that is
  verifying its address or its phone.\<close>

definition reset_user :: user_row where
  "reset_user = (sample_user ''u'')\<lparr>u_otp_hash := Some ''ht'', u_otp_purpose := Some ''password_reset'',
     u_otp_expires_at := Some 100\<rparr>"

definition reset_world :: world where
  "reset_world = empty_world\<lparr>users := [reset_user]\<rparr>"

lemma u_lower [simp]: "to_lower_case ''u'' = ''u''"
  by (simp add: to_lower_case_def lower_char_def)

lemma reset_tables: "tables_ok reset_world"
  by (simp add: tables_ok_def reset_world_def empty_world_def)

lemma reset_checked: "resetChecks sample_ext ''u'' ''t'' 5 reset_world = Inr reset_user"
  by (simp add: resetChecks_def findByEmail_def live_users_def reset_world_def reset_user_def truthy_def
      PASSWORD_RESET_def sample_defs)

lemma reset_no_conflict: "\<not> user_conflict reset_user reset_world"
  by (simp add: user_conflict_def live_users_def reset_world_def reset_user_def sample_defs)

lemma reset_found: "find_user reset_world (u_id reset_user) = Some reset_user"
  by (simp add: find_user_def reset_world_def empty_world_def)

lemma reset_link_works_once_witness:
  "\<exists>w'. resetPassword sample_ext ''u'' ''t'' ''n'' (\<lambda>_. 5) reset_world = Inr w' \<and>
     resetPassword sample_ext ''u'' ''t'' ''m'' (\<lambda>_. 6) w' = Inl invalidLink"
proof -
  obtain w' where "resetWrite sample_ext reset_user ''n'' (\<lambda>_. 5) reset_world = Inr w'"
    using resetWrite_succeeds [OF reset_found reset_no_conflict] by blast
  then have tx: "resetPassword sample_ext ''u'' ''t'' ''n'' (\<lambda>_. 5) reset_world = Inr w'"
    by (simp add: resetPassword_def reset_checked)
  from reset_link_works_once [OF reset_tables tx, of "''t''" "''m''" "\<lambda>_. 6"] tx show ?thesis by blast
qed

lemma reset_link_redeemed_twice_witness:
  "\<exists>w1 w2 u. resetWrite sample_ext reset_user ''n'' (\<lambda>_. 5) reset_world = Inr w1 \<and>
     resetWrite sample_ext reset_user ''m'' (\<lambda>_. 6) w1 = Inr w2 \<and> findByEmail ''u'' w2 = Some u \<and>
     u_password u = hashPassword sample_ext ''m''"
  using reset_link_redeemed_twice [OF reset_tables reset_checked reset_no_conflict] by blast

definition unverified_user :: user_row where
  "unverified_user = (sample_user ''u'')\<lparr>u_email_verified_at := None\<rparr>"

definition unverified_world :: world where
  "unverified_world = empty_world\<lparr>users := [unverified_user]\<rparr>"

definition sample_link :: verify_payload where
  "sample_link = \<lparr>vp_sub = Some ''u'', vp_purpose = Some ''email_verify'', vp_email = Some ''u''\<rparr>"

lemma link_read: "readVerification (Some sample_link) unverified_world = Inr (LinkPending unverified_user)"
  by (simp add: readVerification_def sample_link_def findByIdOrNull_def find_live_user_def live_users_def
      unverified_world_def unverified_user_def sample_defs)

lemma link_committed:
  "\<exists>v'. commitVerification unverified_user (u_email unverified_user) 5 unverified_world = Inr v' \<and>
     unverified_user\<lparr>u_email_verified_at := Some 5, u_updated_by := Some ''u''\<rparr> \<in> set (users v')"
  by (simp add: commitVerification_def Let_def count_where_def unverified_world_def unverified_user_def
      sample_defs)

lemma verification_binds_address_witness:
  "unverified_user\<lparr>u_email_verified_at := Some 5, u_updated_by := Some ''u''\<rparr> \<in> set (users unverified_world) \<or>
   vp_email sample_link = Some ''u''"
proof -
  obtain v' where v': "commitVerification unverified_user (u_email unverified_user) 5 unverified_world = Inr v'"
    and u: "unverified_user\<lparr>u_email_verified_at := Some 5, u_updated_by := Some ''u''\<rparr> \<in> set (users v')"
    using link_committed by blast
  from verification_binds_address [OF link_read v' u] show ?thesis
    by (auto simp: unverified_user_def sample_user_def)
qed

definition otp_ext :: ext where
  "otp_ext = sample_ext"

lemma otp_law: "bcrypt_law otp_ext"
  by (auto simp: bcrypt_law_def otp_ext_def sample_ext_def)

lemma otp_requested:
  "\<exists>w1. requestPhoneVerification otp_ext ''u'' ''u'' ''9'' Reserved ''1'' 5 unverified_world = Inr w1"
  by (simp add: requestPhoneVerification_def findUserById_def user_update_def find_user_def user_conflict_def
      live_users_def otp_ext_def unverified_world_def unverified_user_def sample_defs Let_def)

lemma phone_code_roundtrip_witness:
  "\<exists>w1. requestPhoneVerification otp_ext ''u'' ''u'' ''9'' Reserved ''1'' 5 unverified_world = Inr w1 \<and>
     verifyAndUpdatePhoneNumber otp_ext ''u'' ''1'' ''8'' ''u'' 6 w1 = Inl invalidOtp"
proof -
  obtain w1 where w1: "requestPhoneVerification otp_ext ''u'' ''u'' ''9'' Reserved ''1'' 5 unverified_world = Inr w1"
    using otp_requested by blast
  have "find_user unverified_world ''u'' = Some unverified_user" "\<not> user_conflict unverified_user unverified_world"
    "tables_ok unverified_world"
    by (simp_all add: find_user_def user_conflict_def live_users_def tables_ok_def unverified_world_def
        unverified_user_def sample_defs)
  from phone_code_roundtrip [OF otp_law this w1, where otp' = "''1''" and phone' = "''8''" and actorId = "''u''" and later = 6] w1 show ?thesis
    by (auto split: sum.splits prod.splits)
qed

end
