(* ===== verification/File_Names.thy ===== *)
theory File_Names
  imports Complex_Main Errors
begin

text \<open>
  Names of stored files: \<open>file-name.util.ts\<close>, \<open>content-disposition.util.ts\<close>,
  \<open>storage-object-name.util.ts\<close> and \<open>signed-url-ttl.util.ts\<close> under \<open>src/src/common/util\<close>.
  A file name is user content in any script, so it is a list of Unicode code points; the Unicode
  normalisation \<open>normalize('NFC')\<close> needs the Unicode tables and is the argument \<open>nfc\<close>.
\<close>

type_synonym utext = "nat list"

definition code_points :: "string \<Rightarrow> utext" where
  "code_points = map of_char"

section \<open>Display names\<close>

definition MAXIMUM_BASE_NAME_LENGTH :: nat where
  "MAXIMUM_BASE_NAME_LENGTH = 200"

text \<open>The class \<open>\p{Cc}\<close> (C0, DEL and C1) and the bidirectional overrides and isolates.\<close>

definition UNSAFE_CHARACTERS :: "nat \<Rightarrow> bool" where
  "UNSAFE_CHARACTERS c \<longleftrightarrow>
     c \<le> 31 \<or> 127 \<le> c \<and> c \<le> 159 \<or> 0x202a \<le> c \<and> c \<le> 0x202e \<or> 0x2066 \<le> c \<and> c \<le> 0x2069"

definition path_separator :: "nat \<Rightarrow> bool" where
  "path_separator c \<longleftrightarrow> c = 47 \<or> c = 92"

text \<open>The white space and line terminators \<open>String.prototype.trim\<close> removes.\<close>

definition js_space :: "nat \<Rightarrow> bool" where
  "js_space c \<longleftrightarrow>
     9 \<le> c \<and> c \<le> 13 \<or> c = 32 \<or> c = 0xa0 \<or> c = 0x1680 \<or> 0x2000 \<le> c \<and> c \<le> 0x200a \<or>
     c = 0x2028 \<or> c = 0x2029 \<or> c = 0x202f \<or> c = 0x205f \<or> c = 0x3000 \<or> c = 0xfeff"

definition js_trim :: "utext \<Rightarrow> utext" where
  "js_trim xs = rev (dropWhile js_space (rev (dropWhile js_space xs)))"

definition last_segment :: "utext \<Rightarrow> utext" where
  "last_segment xs = rev (takeWhile (\<lambda>c. \<not> path_separator c) (rev xs))"

definition last_index_of :: "nat \<Rightarrow> utext \<Rightarrow> nat option" where
  "last_index_of c xs =
     (if c \<in> set xs then Some (length xs - 1 - length (takeWhile (\<lambda>x. x \<noteq> c) (rev xs))) else None)"

definition sanitizeFileName :: "(utext \<Rightarrow> utext) \<Rightarrow> utext option \<Rightarrow> utext \<Rightarrow> utext" where
  "sanitizeFileName nfc originalName extension =
     (let lastSegment = last_segment (case originalName of None \<Rightarrow> [] | Some x \<Rightarrow> x);
          cleaned = js_trim (filter (\<lambda>c. \<not> UNSAFE_CHARACTERS c) (nfc lastSegment));
          stem = (case last_index_of 46 cleaned of
                    None \<Rightarrow> cleaned
                  | Some dotIndex \<Rightarrow> (if dotIndex > 0 then take dotIndex cleaned else cleaned));
          baseName = js_trim (take MAXIMUM_BASE_NAME_LENGTH stem)
      in (if baseName = [] then code_points ''file'' else baseName) @ [46] @ extension)"

section \<open>The Content-Disposition header\<close>

datatype disposition_type = INLINE | ATTACHMENT

fun disposition_value :: "disposition_type \<Rightarrow> string" where
  "disposition_value INLINE = ''inline''"
| "disposition_value ATTACHMENT = ''attachment''"

definition surrogate :: "nat \<Rightarrow> bool" where
  "surrogate c \<longleftrightarrow> 0xd800 \<le> c \<and> c \<le> 0xdfff"

definition utf8 :: "nat \<Rightarrow> nat list" where
  "utf8 c =
     (if c < 0x80 then [c]
      else if c < 0x800 then [192 + c div 64, 128 + c mod 64]
      else if c < 0x10000 then [224 + c div 4096, 128 + c div 64 mod 64, 128 + c mod 64]
      else [240 + c div 262144, 128 + c div 4096 mod 64, 128 + c div 64 mod 64, 128 + c mod 64])"

definition hex_digit :: "nat \<Rightarrow> nat" where
  "hex_digit n = (if n < 10 then 48 + n else 55 + n)"

definition percent :: "nat \<Rightarrow> utext" where
  "percent b = [37, hex_digit (b div 16), hex_digit (b mod 16)]"

definition alphanumeric :: "nat \<Rightarrow> bool" where
  "alphanumeric c \<longleftrightarrow> 48 \<le> c \<and> c \<le> 57 \<or> 65 \<le> c \<and> c \<le> 90 \<or> 97 \<le> c \<and> c \<le> 122"

text \<open>What \<open>encodeURIComponent\<close> leaves as it is: letters, digits and \<open>- _ . ! ~ * ' ( )\<close>.\<close>

definition uri_unescaped :: "nat \<Rightarrow> bool" where
  "uri_unescaped c \<longleftrightarrow> alphanumeric c \<or> c \<in> {45, 95, 46, 33, 126, 42, 39, 40, 41}"

definition encodeURIComponent :: "utext \<Rightarrow> exn + utext" where
  "encodeURIComponent xs =
     (if \<exists>c \<in> set xs. surrogate c then Inl (JsError ''URI malformed'')
      else Inr (concat (map (\<lambda>c. if uri_unescaped c then [c] else concat (map percent (utf8 c))) xs)))"

text \<open>A regular expression without the \<open>u\<close> flag reads UTF-16 units, so a code point beyond the basic
  plane is replaced by two underscores.\<close>

definition ascii_fallback :: "utext \<Rightarrow> utext" where
  "ascii_fallback fileName =
     (let printable = concat (map (\<lambda>c. if 0x20 \<le> c \<and> c \<le> 0x7e then [c]
                                       else if c < 0x10000 then [95] else [95, 95]) fileName);
          safe = map (\<lambda>c. if c = 34 \<or> c = 92 then 95 else c) printable
      in if safe = [] then code_points ''file'' else safe)"

text \<open>\<open>' ( ) * !\<close> are no RFC 5987 \<open>attr-char\<close>, so they are escaped by hand.\<close>

definition attr_escape :: "nat \<Rightarrow> utext" where
  "attr_escape c = (if c \<in> {39, 40, 41, 42, 33} then percent c else [c])"

definition buildContentDisposition :: "disposition_type \<Rightarrow> utext \<Rightarrow> exn + utext" where
  "buildContentDisposition dispositionType fileName =
     bindE (encodeURIComponent fileName) (\<lambda>component.
     (let encoded = concat (map attr_escape component)
      in Inr (code_points (disposition_value dispositionType) @ code_points ''; filename='' @ [34] @
              ascii_fallback fileName @ [34] @ code_points ''; filename*=UTF-8'' @ [39, 39] @ encoded)))"

section \<open>Object names and lifetimes of signed links\<close>

definition lower_or_digit :: "char \<Rightarrow> bool" where
  "lower_or_digit c \<longleftrightarrow>
     (let n = (of_char c :: nat) in 97 \<le> n \<and> n \<le> 122 \<or> 48 \<le> n \<and> n \<le> 57)"

definition SAFE_SUBDIRECTORY_PATTERN :: "string \<Rightarrow> bool" where
  "SAFE_SUBDIRECTORY_PATTERN s \<longleftrightarrow>
     (case s of [] \<Rightarrow> False
      | c # cs \<Rightarrow> lower_or_digit c \<and>
          list_all (\<lambda>c. lower_or_digit c \<or> c = CHR ''/'' \<or> c = CHR ''_'' \<or> c = CHR ''-'') cs)"

definition sanitizeFileExtension :: "string \<Rightarrow> string" where
  "sanitizeFileExtension ext =
     (if (case ext of [] \<Rightarrow> False
          | c # cs \<Rightarrow> c = CHR ''.'' \<and> list_all lower_or_digit cs \<and> 1 \<le> length cs \<and> length cs \<le> 10)
      then ext else [])"

fun string_includes :: "string \<Rightarrow> string \<Rightarrow> bool" where
  "string_includes [] needle = (needle = [])"
| "string_includes (c # cs) needle = (take (length needle) (c # cs) = needle \<or> string_includes cs needle)"

definition trim_slashes :: "string \<Rightarrow> string" where
  "trim_slashes s =
     rev (dropWhile (\<lambda>c. c = CHR ''/'') (rev (dropWhile (\<lambda>c. c = CHR ''/'') s)))"

text \<open>\<open>randomUUID()\<close> is the argument \<open>uuid\<close>.\<close>

definition buildObjectName :: "string \<Rightarrow> string \<Rightarrow> string \<Rightarrow> exn + string" where
  "buildObjectName uuid subdirectory fileExtension =
     (let trimmedSubdirectory = trim_slashes subdirectory;
          safeExtension = sanitizeFileExtension fileExtension
      in if trimmedSubdirectory = [] then Inr (uuid @ safeExtension)
         else if \<not> SAFE_SUBDIRECTORY_PATTERN trimmedSubdirectory \<or>
                 string_includes trimmedSubdirectory ''..'' \<or> string_includes trimmedSubdirectory ''//''
         then Inl (JsError (''Unsafe storage subdirectory '' @ subdirectory))
         else Inr (trimmedSubdirectory @ ''/'' @ uuid @ safeExtension))"

definition MINIMUM_SIGNED_URL_TTL_SECONDS :: int where
  "MINIMUM_SIGNED_URL_TTL_SECONDS = 30"

definition MAXIMUM_SIGNED_URL_TTL_SECONDS :: int where
  "MAXIMUM_SIGNED_URL_TTL_SECONDS = 3600"

text \<open>A requested lifetime in seconds as JavaScript has it: absent, finite, or not finite.\<close>

datatype js_number = Finite rat | NotFinite

definition resolveSignedUrlTtlSeconds :: "js_number option \<Rightarrow> rat \<Rightarrow> int" where
  "resolveSignedUrlTtlSeconds requested defaultTtl =
     (let candidate = (case requested of
                         Some (Finite n) \<Rightarrow> (if 0 < n then n else defaultTtl)
                       | _ \<Rightarrow> defaultTtl)
      in min (max \<lfloor>candidate\<rfloor> MINIMUM_SIGNED_URL_TTL_SECONDS) MAXIMUM_SIGNED_URL_TTL_SECONDS)"

end
