(* ===== verification/Files.thy ===== *)
theory Files
  imports File_Names
begin

text \<open>
  \<open>src/src/modules/files\<close>: what each purpose accepts (\<open>file-purpose.policy.ts\<close>), the processor
  (\<open>file-processor.ts\<close>) and the file service (\<open>files.service.ts\<close>).  Third-party code is a parameter:
  the type detector's answer, the image encoder \<open>sharp\<close>, and what the storage provider answers to each
  call.  The objects of the bucket are a map from key to content.
\<close>

section \<open>Purposes and policies\<close>

datatype file_kind = IMAGE_KIND | DOCUMENT_KIND

datatype file_purpose = PROFILE_IMAGE | DOCUMENT

datatype file_status = PROCESSING | READY | ATTACHED | DELETING

record accepted_type =
  at_content_type :: string
  at_kind :: file_kind
  at_extension :: string

record purpose_policy =
  pp_max_bytes :: int
  pp_image_max_dimension :: nat
  pp_storage_subdirectory :: string
  pp_cache_control :: string
  pp_accepted :: "accepted_type list"

definition MEBIBYTE :: int where
  "MEBIBYTE = 1024 * 1024"

definition MAX_UNATTACHED_FILES_PER_USER :: nat where
  "MAX_UNATTACHED_FILES_PER_USER = 20"

definition JPEG :: accepted_type where
  "JPEG = \<lparr>at_content_type = ''image/jpeg'', at_kind = IMAGE_KIND, at_extension = ''jpg''\<rparr>"

definition PNG :: accepted_type where
  "PNG = \<lparr>at_content_type = ''image/png'', at_kind = IMAGE_KIND, at_extension = ''png''\<rparr>"

definition WEBP :: accepted_type where
  "WEBP = \<lparr>at_content_type = ''image/webp'', at_kind = IMAGE_KIND, at_extension = ''webp''\<rparr>"

definition PDF :: accepted_type where
  "PDF = \<lparr>at_content_type = ''application/pdf'', at_kind = DOCUMENT_KIND, at_extension = ''pdf''\<rparr>"

definition DOCX :: accepted_type where
  "DOCX = \<lparr>at_content_type =
       ''application/vnd.openxmlformats-officedocument.wordprocessingml.document'',
     at_kind = DOCUMENT_KIND, at_extension = ''docx''\<rparr>"

definition XLSX :: accepted_type where
  "XLSX = \<lparr>at_content_type = ''application/vnd.openxmlformats-officedocument.spreadsheetml.sheet'',
     at_kind = DOCUMENT_KIND, at_extension = ''xlsx''\<rparr>"

definition PPTX :: accepted_type where
  "PPTX = \<lparr>at_content_type =
       ''application/vnd.openxmlformats-officedocument.presentationml.presentation'',
     at_kind = DOCUMENT_KIND, at_extension = ''pptx''\<rparr>"

definition PRIVATE_OBJECT_CACHE_CONTROL :: string where
  "PRIVATE_OBJECT_CACHE_CONTROL = ''private, max-age=3600''"

fun FILE_PURPOSE_POLICIES :: "file_purpose \<Rightarrow> purpose_policy" where
  "FILE_PURPOSE_POLICIES PROFILE_IMAGE =
     \<lparr>pp_max_bytes = 10 * MEBIBYTE, pp_image_max_dimension = 1024,
       pp_storage_subdirectory = ''files/profile-images'',
       pp_cache_control = PRIVATE_OBJECT_CACHE_CONTROL, pp_accepted = [JPEG, PNG, WEBP]\<rparr>"
| "FILE_PURPOSE_POLICIES DOCUMENT =
     \<lparr>pp_max_bytes = 25 * MEBIBYTE, pp_image_max_dimension = 4096,
       pp_storage_subdirectory = ''files/documents'',
       pp_cache_control = PRIVATE_OBJECT_CACHE_CONTROL,
       pp_accepted = [JPEG, PNG, WEBP, PDF, DOCX, XLSX, PPTX]\<rparr>"

section \<open>The processor\<close>

fun comma_separated :: "string list \<Rightarrow> string" where
  "comma_separated [] = []"
| "comma_separated [x] = x"
| "comma_separated (x # xs) = x @ '', '' @ comma_separated xs"

text \<open>\<open>detected\<close> is the type \<open>fileTypeFromBuffer\<close> reads off the bytes.\<close>

definition identify :: "string option \<Rightarrow> purpose_policy \<Rightarrow> exn + accepted_type" where
  "identify detected policy =
     (case (case detected of None \<Rightarrow> None
            | Some mime \<Rightarrow> find (\<lambda>t. at_content_type t = mime) (pp_accepted policy)) of
        None \<Rightarrow> Inl (unsupportedMediaType
          (''This file type is not accepted here. Accepted: '' @
           comma_separated (map at_extension (pp_accepted policy)) @ ''.''))
      | Some accepted \<Rightarrow> Inr accepted)"

datatype encoder = JpegEncoder | PngEncoder | WebpEncoder

definition encoderFor :: "string \<Rightarrow> exn + encoder" where
  "encoderFor contentType =
     (if contentType = ''image/jpeg'' then Inr JpegEncoder
      else if contentType = ''image/png'' then Inr PngEncoder
      else if contentType = ''image/webp'' then Inr WebpEncoder
      else Inl (JsError (''No image encoder for '' @ contentType)))"

record processed_file =
  pf_body :: string
  pf_width :: "nat option"
  pf_height :: "nat option"

text \<open>The encoder on the bytes, scaled to fit a square: the new bytes with their width and height, or
  nothing when it refuses them.\<close>

type_synonym sharp = "encoder \<Rightarrow> nat \<Rightarrow> string \<Rightarrow> (string \<times> nat \<times> nat) option"

definition reencodeImage :: "sharp \<Rightarrow> string \<Rightarrow> accepted_type \<Rightarrow> purpose_policy \<Rightarrow> exn + processed_file" where
  "reencodeImage sharp body accepted policy =
     bindE (encoderFor (at_content_type accepted)) (\<lambda>encode.
     (case sharp encode (pp_image_max_dimension policy) body of
        None \<Rightarrow> Inl (fileContentInvalid
          ''The image could not be processed. It may be damaged, or larger than allowed.'')
      | Some (data, width, height) \<Rightarrow>
          Inr \<lparr>pf_body = data, pf_width = Some width, pf_height = Some height\<rparr>))"

definition process_file :: "sharp \<Rightarrow> string \<Rightarrow> accepted_type \<Rightarrow> purpose_policy \<Rightarrow> exn + processed_file" where
  "process_file sharp body accepted policy =
     (if at_kind accepted = DOCUMENT_KIND
      then Inr \<lparr>pf_body = body, pf_width = None, pf_height = None\<rparr>
      else reencodeImage sharp body accepted policy)"

section \<open>The file table and the bucket\<close>

record file_row =
  fa_id :: ident
  fa_created_at :: time
  fa_updated_at :: time
  fa_uploaded_by :: ident
  fa_purpose :: file_purpose
  fa_status :: file_status
  fa_storage_key :: string
  fa_kind :: file_kind
  fa_content_type :: string
  fa_size_bytes :: "nat option"
  fa_width :: "nat option"
  fa_height :: "nat option"
  fa_file_name :: utext
  fa_expires_at :: "time option"
  fa_attached_at :: "time option"
  fa_delete_attempts :: nat

record stored_object =
  so_body :: string
  so_content_type :: string
  so_content_disposition :: utext
  so_cache_control :: string

record file_world =
  file_assets :: "file_row list"
  objects :: "string \<rightharpoonup> stored_object"

record file_config =
  fc_max_upload_bytes :: int
  fc_upload_ttl_seconds :: int

text \<open>\<open>updateMany\<close>: the number of rows that matched, and the new table; every update writes
  \<open>updatedAt\<close>.\<close>

definition update_files ::
  "(file_row \<Rightarrow> bool) \<Rightarrow> (file_row \<Rightarrow> file_row) \<Rightarrow> time \<Rightarrow> file_world \<Rightarrow> nat \<times> file_world" where
  "update_files p f now w =
     (count_where p (file_assets w),
      w\<lparr>file_assets := update_where p (\<lambda>r. (f r)\<lparr>fa_updated_at := now\<rparr>) (file_assets w)\<rparr>)"

definition STALE_PROCESSING_MILLISECONDS :: int where
  "STALE_PROCESSING_MILLISECONDS = 15 * 60 * 1000"

definition CLEANUP_BATCH_SIZE :: nat where
  "CLEANUP_BATCH_SIZE = 200"

definition CLEANUP_TIME_BUDGET_MILLISECONDS :: int where
  "CLEANUP_TIME_BUDGET_MILLISECONDS = 2 * 60 * 1000"

definition CLEANUP_CONSECUTIVE_FAILURE_LIMIT :: nat where
  "CLEANUP_CONSECUTIVE_FAILURE_LIMIT = 5"

definition RELEASED_FILE_QUOTA_WINDOW_MILLISECONDS :: int where
  "RELEASED_FILE_QUOTA_WINDOW_MILLISECONDS = 60 * 60 * 1000"

definition unattached :: "file_row \<Rightarrow> bool" where
  "unattached r \<longleftrightarrow> fa_status r = PROCESSING \<or> fa_status r = READY"

definition quotaWhere :: "ident \<Rightarrow> time \<Rightarrow> file_row \<Rightarrow> bool" where
  "quotaWhere actorId now r \<longleftrightarrow>
     fa_uploaded_by r = actorId \<and> (unattached r \<or> fa_status r = DELETING) \<and>
     (unattached r \<or>
      fa_status r = DELETING \<and> fa_size_bytes r \<noteq> None \<and> fa_attached_at r = None \<and>
      now - RELEASED_FILE_QUOTA_WINDOW_MILLISECONDS < fa_created_at r)"

section \<open>Uploading\<close>

record uploaded_file =
  uf_buffer :: string
  uf_size :: int
  uf_originalname :: "utext option"

record upload_begun =
  ub_row :: file_row
  ub_accepted :: accepted_type
  ub_policy :: purpose_policy

text \<open>An upload up to the row that names its object.  The primary key and the unique index on the storage
  key refuse a duplicate.\<close>

definition beginUpload ::
  "file_config \<Rightarrow> (utext \<Rightarrow> utext) \<Rightarrow> uploaded_file \<Rightarrow> string option \<Rightarrow> file_purpose \<Rightarrow> ident \<Rightarrow> ident \<Rightarrow> string
   \<Rightarrow> clock \<Rightarrow> file_world \<Rightarrow> exn + upload_begun \<times> file_world" where
  "beginUpload cfg nfc file detected purpose actorId newId uuid clk w =
     (let policy = FILE_PURPOSE_POLICIES purpose;
          maxBytes = min (pp_max_bytes policy) (fc_max_upload_bytes cfg)
      in if uf_size file > maxBytes
         then Inl (payloadTooLarge
                (''This file is larger than the '' @ decimal (nat maxBytes) @ '' bytes allowed here.''))
         else if count_where (quotaWhere actorId (clk 0)) (file_assets w) \<ge> MAX_UNATTACHED_FILES_PER_USER
         then Inl (fileQuotaExceeded MAX_UNATTACHED_FILES_PER_USER)
         else
           bindE (identify detected policy) (\<lambda>accepted.
           bindE (buildObjectName uuid (pp_storage_subdirectory policy) (''.'' @ at_extension accepted))
             (\<lambda>storageKey.
           (let row = \<lparr>fa_id = newId, fa_created_at = clk 1, fa_updated_at = clk 1,
                  fa_uploaded_by = actorId, fa_purpose = purpose, fa_status = PROCESSING,
                  fa_storage_key = storageKey, fa_kind = at_kind accepted,
                  fa_content_type = at_content_type accepted, fa_size_bytes = None,
                  fa_width = None, fa_height = None,
                  fa_file_name = sanitizeFileName nfc (uf_originalname file)
                     (code_points (at_extension accepted)),
                  fa_expires_at = None, fa_attached_at = None, fa_delete_attempts = 0\<rparr>
            in if \<exists>r \<in> set (file_assets w). fa_id r = newId \<or> fa_storage_key r = storageKey
               then Inl (PrismaKnownRequestError ''P2002'')
               else Inr (\<lparr>ub_row = row, ub_accepted = accepted, ub_policy = policy\<rparr>,
                         w\<lparr>file_assets := file_assets w @ [row]\<rparr>)))))"

definition releaseFailedUpload :: "ident \<Rightarrow> time \<Rightarrow> file_world \<Rightarrow> file_world" where
  "releaseFailedUpload fileId now w =
     snd (update_files (\<lambda>r. fa_id r = fileId \<and> fa_status r = PROCESSING)
            (\<lambda>r. r\<lparr>fa_status := DELETING\<rparr>) now w)"

definition uploadContent :: "upload_begun \<Rightarrow> processed_file \<Rightarrow> exn + stored_object" where
  "uploadContent begun processed =
     bindE (buildContentDisposition
              (if at_kind (ub_accepted begun) = IMAGE_KIND then INLINE else ATTACHMENT)
              (fa_file_name (ub_row begun))) (\<lambda>contentDisposition.
     Inr \<lparr>so_body = pf_body processed, so_content_type = at_content_type (ub_accepted begun),
          so_content_disposition = contentDisposition,
          so_cache_control = pp_cache_control (ub_policy begun)\<rparr>)"

text \<open>What the provider does with a write: it stores it, or it fails, having stored it or not.\<close>

datatype put_outcome = Stored | NotStored bool

definition putObject :: "string \<Rightarrow> stored_object \<Rightarrow> put_outcome \<Rightarrow> file_world \<Rightarrow> bool \<times> file_world" where
  "putObject storageKey content outcome w =
     (case outcome of
        Stored \<Rightarrow> (True, w\<lparr>objects := (objects w)(storageKey \<mapsto> content)\<rparr>)
      | NotStored written \<Rightarrow>
          (False, if written then w\<lparr>objects := (objects w)(storageKey \<mapsto> content)\<rparr> else w))"

definition deleteObject :: "string \<Rightarrow> file_world \<Rightarrow> file_world" where
  "deleteObject storageKey w = w\<lparr>objects := (objects w)(storageKey := None)\<rparr>"

text \<open>The last step: the row becomes ready if nothing released it meanwhile; an upload that lost its row
  removes the object it wrote, when the provider lets it (\<open>removed\<close>).\<close>

definition finishUpdate ::
  "file_config \<Rightarrow> file_row \<Rightarrow> processed_file \<Rightarrow> clock \<Rightarrow> file_world \<Rightarrow> nat \<times> file_world" where
  "finishUpdate cfg row processed clk w =
     (let expiresAt = clk 0 + fc_upload_ttl_seconds cfg * 1000
      in update_files (\<lambda>r. fa_id r = fa_id row \<and> fa_status r = PROCESSING)
           (\<lambda>r. r\<lparr>fa_status := READY, fa_size_bytes := Some (length (pf_body processed)),
                   fa_width := pf_width processed, fa_height := pf_height processed,
                   fa_expires_at := Some expiresAt\<rparr>) (clk 1) w)"

definition finishUpload ::
  "file_config \<Rightarrow> file_row \<Rightarrow> processed_file \<Rightarrow> bool \<Rightarrow> clock \<Rightarrow> file_world \<Rightarrow> (exn + file_row) \<times> file_world" where
  "finishUpload cfg row processed removed clk w =
     (case finishUpdate cfg row processed clk w of
        (n, w') \<Rightarrow>
          (if n \<noteq> 1
           then (Inl (externalServiceUnavailable ''The upload took too long. Please try again.''),
                 if removed then deleteObject (fa_storage_key row) w' else w')
           else (requireE (find (\<lambda>r. fa_id r = fa_id row) (file_assets w'))
                   (PrismaKnownRequestError ''P2025''), w')))"

text \<open>The steps of one upload with nothing in between.  \<open>sharp\<close>, \<open>put\<close> and \<open>removed\<close> are what the
  image encoder and the storage provider do.\<close>

definition storeAndFinish ::
  "file_config \<Rightarrow> upload_begun \<Rightarrow> processed_file \<Rightarrow> put_outcome \<Rightarrow> bool \<Rightarrow> clock \<Rightarrow> file_world
   \<Rightarrow> (exn + file_row) \<times> file_world" where
  "storeAndFinish cfg begun processed put removed clk w =
     (let row = ub_row begun;
          unavailable = externalServiceUnavailable ''File storage is unavailable. Please try again.''
      in (case uploadContent begun processed of
            Inl _ \<Rightarrow> (Inl unavailable, releaseFailedUpload (fa_id row) (clk 0) w)
          | Inr content \<Rightarrow>
              (case putObject (fa_storage_key row) content put w of
                 (False, w') \<Rightarrow> (Inl unavailable, releaseFailedUpload (fa_id row) (clk 0) w')
               | (True, w') \<Rightarrow> finishUpload cfg row processed removed (\<lambda>i. clk (1 + i)) w')))"

definition upload ::
  "file_config \<Rightarrow> (utext \<Rightarrow> utext) \<Rightarrow> sharp \<Rightarrow> uploaded_file \<Rightarrow> string option \<Rightarrow> file_purpose \<Rightarrow> ident \<Rightarrow> ident
   \<Rightarrow> string \<Rightarrow> put_outcome \<Rightarrow> bool \<Rightarrow> clock \<Rightarrow> file_world \<Rightarrow> (exn + file_row) \<times> file_world" where
  "upload cfg nfc sharp file detected purpose actorId newId uuid put removed clk w =
     (case beginUpload cfg nfc file detected purpose actorId newId uuid clk w of
        Inl e \<Rightarrow> (Inl e, w)
      | Inr (begun, w') \<Rightarrow>
          (case process_file sharp (uf_buffer file) (ub_accepted begun) (ub_policy begun) of
             Inl e \<Rightarrow>
               (Inl (if status_of e \<noteq> None then e
                     else fileContentInvalid ''The file could not be processed.''),
                releaseFailedUpload (fa_id (ub_row begun)) (clk 2) w')
           | Inr processed \<Rightarrow>
               storeAndFinish cfg begun processed put removed (\<lambda>i. clk (3 + i)) w'))"

section \<open>Attaching and releasing\<close>

definition claimForAttachment ::
  "ident \<Rightarrow> ident \<Rightarrow> file_purpose \<Rightarrow> time \<Rightarrow> file_world \<Rightarrow> exn + file_row \<times> file_world" where
  "claimForAttachment fileId actorId purpose now w =
     (case update_files
             (\<lambda>r. fa_id r = fileId \<and> fa_uploaded_by r = actorId \<and> fa_purpose r = purpose \<and>
                  fa_status r = READY \<and> (case fa_expires_at r of None \<Rightarrow> False | Some t \<Rightarrow> now < t))
             (\<lambda>r. r\<lparr>fa_status := ATTACHED, fa_attached_at := Some now, fa_expires_at := None\<rparr>) now w of
        (n, w') \<Rightarrow>
          (if n = 1
           then bindE (requireE (find (\<lambda>r. fa_id r = fileId) (file_assets w'))
                         (PrismaKnownRequestError ''P2025'')) (\<lambda>r. Inr (r, w'))
           else (case find (\<lambda>r. fa_id r = fileId \<and> fa_uploaded_by r = actorId \<and> fa_purpose r = purpose)
                        (file_assets w') of
                   None \<Rightarrow> Inl (resourceNotFound ''File'' None)
                 | Some _ \<Rightarrow> Inl fileNotAttachable)))"

definition releaseUnattached :: "ident \<Rightarrow> ident \<Rightarrow> time \<Rightarrow> file_world \<Rightarrow> exn + file_world" where
  "releaseUnattached fileId actorId now w =
     (case update_files (\<lambda>r. fa_id r = fileId \<and> fa_uploaded_by r = actorId \<and> fa_status r = READY)
             (\<lambda>r. r\<lparr>fa_status := DELETING, fa_expires_at := None\<rparr>) now w of
        (n, w') \<Rightarrow>
          (if n = 1 then Inr w'
           else (case find (\<lambda>r. fa_id r = fileId \<and> fa_uploaded_by r = actorId) (file_assets w') of
                   None \<Rightarrow> Inl (resourceNotFound ''File'' None)
                 | Some ownFile \<Rightarrow>
                     (if fa_status ownFile = DELETING then Inr w' else Inl fileNotReleasable))))"

definition markDeleting :: "ident list \<Rightarrow> time \<Rightarrow> file_world \<Rightarrow> file_world" where
  "markDeleting fileIds now w =
     (if fileIds = [] then w
      else snd (update_files (\<lambda>r. fa_id r \<in> set fileIds \<and> fa_status r \<noteq> DELETING)
                  (\<lambda>r. r\<lparr>fa_status := DELETING, fa_expires_at := None\<rparr>) now w))"

definition markUnattachedDeleting :: "ident \<Rightarrow> time \<Rightarrow> file_world \<Rightarrow> file_world" where
  "markUnattachedDeleting uploaderId now w =
     snd (update_files (\<lambda>r. fa_uploaded_by r = uploaderId \<and> unattached r)
            (\<lambda>r. r\<lparr>fa_status := DELETING, fa_expires_at := None\<rparr>) now w)"

section \<open>The cleanup job\<close>

definition claimable :: "time \<Rightarrow> file_row \<Rightarrow> bool" where
  "claimable now r \<longleftrightarrow>
     fa_status r = READY \<and> (case fa_expires_at r of None \<Rightarrow> False | Some t \<Rightarrow> t \<le> now) \<or>
     fa_status r = PROCESSING \<and> fa_created_at r < now - STALE_PROCESSING_MILLISECONDS"

definition claimExpired :: "time \<Rightarrow> time \<Rightarrow> file_world \<Rightarrow> nat \<times> file_world" where
  "claimExpired now writtenAt w =
     update_files (claimable now) (\<lambda>r. r\<lparr>fa_status := DELETING, fa_expires_at := None\<rparr>) writtenAt w"

text \<open>Fewest attempts first, then longest untouched: two stable sorts.\<close>

definition cleanupBatch :: "file_world \<Rightarrow> file_row list" where
  "cleanupBatch w =
     take CLEANUP_BATCH_SIZE
       (sort_key fa_delete_attempts (sort_key fa_updated_at
          (filter (\<lambda>r. fa_status r = DELETING) (file_assets w))))"

definition removeRow :: "ident \<Rightarrow> file_world \<Rightarrow> nat \<times> file_world" where
  "removeRow fileId w =
     (let gone = (\<lambda>r. fa_id r = fileId \<and> fa_status r = DELETING)
      in (count_where gone (file_assets w),
          w\<lparr>file_assets := filter (\<lambda>r. \<not> gone r) (file_assets w)\<rparr>))"

definition recordFailedDelete :: "ident \<Rightarrow> time \<Rightarrow> file_world \<Rightarrow> file_world" where
  "recordFailedDelete fileId now w =
     snd (update_files (\<lambda>r. fa_id r = fileId \<and> fa_status r = DELETING)
            (\<lambda>r. r\<lparr>fa_delete_attempts := Suc (fa_delete_attempts r)\<rparr>) now w)"

text \<open>What the \<open>i\<close>-th delete of a run meets: the provider answers or fails, and the database takes the
  row's removal or refuses it because something still references the file.\<close>

datatype delete_outcome = Deleted | StorageFailed | StillReferenced

fun cleanLoop ::
  "clock \<Rightarrow> time \<Rightarrow> (nat \<Rightarrow> delete_outcome) \<Rightarrow> nat \<Rightarrow> nat \<Rightarrow> nat \<Rightarrow> nat \<Rightarrow> file_row list \<Rightarrow> file_world
   \<Rightarrow> (nat \<times> nat) \<times> file_world" where
  "cleanLoop clk startedAt outcome i deleted failed consecutive [] w = ((deleted, failed), w)"
| "cleanLoop clk startedAt outcome i deleted failed consecutive (r # rs) w =
     (if clk i - startedAt > CLEANUP_TIME_BUDGET_MILLISECONDS \<or>
         consecutive \<ge> CLEANUP_CONSECUTIVE_FAILURE_LIMIT
      then ((deleted, failed), w)
      else (case outcome i of
              Deleted \<Rightarrow>
                (case removeRow (fa_id r) (deleteObject (fa_storage_key r) w) of
                   (n, w') \<Rightarrow> cleanLoop clk startedAt outcome (Suc i) (deleted + n) failed 0 rs w')
            | StillReferenced \<Rightarrow>
                cleanLoop clk startedAt outcome (Suc i) deleted (Suc failed) (Suc consecutive) rs
                  (recordFailedDelete (fa_id r) (clk i) (deleteObject (fa_storage_key r) w))
            | StorageFailed \<Rightarrow>
                cleanLoop clk startedAt outcome (Suc i) deleted (Suc failed) (Suc consecutive) rs
                  (recordFailedDelete (fa_id r) (clk i) w)))"

record cleanup_result =
  cr_released :: nat
  cr_deleted :: nat
  cr_failed :: nat

definition cleanUp ::
  "time \<Rightarrow> clock \<Rightarrow> (nat \<Rightarrow> delete_outcome) \<Rightarrow> file_world \<Rightarrow> cleanup_result \<times> file_world" where
  "cleanUp now clk outcome w =
     (case claimExpired now (clk 0) w of
        (claimed, w') \<Rightarrow>
          (case cleanLoop (\<lambda>i. clk (2 + i)) (clk 1) outcome 0 0 0 0 (cleanupBatch w') w' of
             ((deleted, failed), w'') \<Rightarrow>
               (\<lparr>cr_released = claimed, cr_deleted = deleted, cr_failed = failed\<rparr>, w'')))"

text \<open>The rows a response may sign a link for.\<close>

definition attachedFiles :: "ident list \<Rightarrow> file_world \<Rightarrow> file_row list" where
  "attachedFiles fileIds w =
     (if fileIds = [] then []
      else filter (\<lambda>r. fa_id r \<in> set fileIds \<and> fa_status r = ATTACHED) (file_assets w))"

end
