(* ===== verification/File_Machine.thy ===== *)
theory File_Machine
  imports Files
begin

text \<open>
  Files over time.  Uploads, attaches, releases and cleanup runs interleave freely: a request's
  transaction, its call to the storage provider and its next transaction are separate steps, and any
  request may die between two of them.  The state adds to the table and the bucket what the running
  requests hold: the row and key an upload has yet to store (\<open>putting\<close>) or has stored and not finished
  (\<open>written\<close>), and the ones a cleanup run or a beaten upload is about to delete (\<open>doomed\<close>).
  \<open>issued\<close> records every pair of row id and storage key handed out; both are fresh UUIDs.
\<close>

section \<open>The steps\<close>

type_synonym file_pair = "ident \<times> string"

record file_machine =
  fm_world :: file_world
  issued :: "file_pair set"
  putting :: "file_pair set"
  written :: "file_pair set"
  doomed :: "file_pair set"

definition pair_of :: "file_row \<Rightarrow> file_pair" where
  "pair_of r = (fa_id r, fa_storage_key r)"

inductive file_step :: "file_machine \<Rightarrow> file_machine \<Rightarrow> bool" where
  begun:
    "beginUpload cfg nfc upl detected purpose actor newId uuid clk (fm_world m) = Inr (b, w') \<Longrightarrow>
     fa_id (ub_row b) \<notin> fst ` issued m \<Longrightarrow> fa_storage_key (ub_row b) \<notin> snd ` issued m \<Longrightarrow>
     file_step m (m\<lparr>fm_world := w', issued := insert (pair_of (ub_row b)) (issued m),
       putting := insert (pair_of (ub_row b)) (putting m)\<rparr>)"
| upload_failed:
    "(i, k) \<in> putting m \<Longrightarrow>
     file_step m (m\<lparr>fm_world := releaseFailedUpload i now (fm_world m), putting := putting m - {(i, k)}\<rparr>)"
| put_done:
    "(i, k) \<in> putting m \<Longrightarrow> putObject k content Stored (fm_world m) = (ok, w') \<Longrightarrow>
     file_step m (m\<lparr>fm_world := w', putting := putting m - {(i, k)}, written := insert (i, k) (written m)\<rparr>)"
| put_failed:
    "(i, k) \<in> putting m \<Longrightarrow> putObject k content (NotStored partly) (fm_world m) = (ok, w') \<Longrightarrow>
     file_step m (m\<lparr>fm_world := w'\<rparr>)"
| finished:
    "pair_of row \<in> written m \<Longrightarrow> finishUpdate cfg row processed clk (fm_world m) = (n, w') \<Longrightarrow> n = 1 \<Longrightarrow>
     file_step m (m\<lparr>fm_world := w', written := written m - {pair_of row}\<rparr>)"
| beaten:
    "pair_of row \<in> written m \<Longrightarrow> finishUpdate cfg row processed clk (fm_world m) = (n, w') \<Longrightarrow> n \<noteq> 1 \<Longrightarrow>
     file_step m (m\<lparr>fm_world := w', written := written m - {pair_of row},
       doomed := insert (pair_of row) (doomed m)\<rparr>)"
| died:
    "p \<subseteq> putting m \<Longrightarrow> u \<subseteq> written m \<Longrightarrow> d \<subseteq> doomed m \<Longrightarrow>
     file_step m (m\<lparr>putting := p, written := u, doomed := d\<rparr>)"
| attached:
    "claimForAttachment fileId actor purpose now (fm_world m) = Inr (r, w') \<Longrightarrow>
     file_step m (m\<lparr>fm_world := w'\<rparr>)"
| released:
    "releaseUnattached fileId actor now (fm_world m) = Inr w' \<Longrightarrow> file_step m (m\<lparr>fm_world := w'\<rparr>)"
| marked: "file_step m (m\<lparr>fm_world := markDeleting fileIds now (fm_world m)\<rparr>)"
| erased: "file_step m (m\<lparr>fm_world := markUnattachedDeleting uploader now (fm_world m)\<rparr>)"
| expired:
    "claimExpired now writtenAt (fm_world m) = (n, w') \<Longrightarrow> file_step m (m\<lparr>fm_world := w'\<rparr>)"
| selected:
    "r \<in> set (cleanupBatch (fm_world m)) \<Longrightarrow> file_step m (m\<lparr>doomed := insert (pair_of r) (doomed m)\<rparr>)"
| object_deleted:
    "(i, k) \<in> doomed m \<Longrightarrow> file_step m (m\<lparr>fm_world := deleteObject k (fm_world m)\<rparr>)"
| row_removed:
    "(i, k) \<in> doomed m \<Longrightarrow> removeRow i (fm_world m) = (n, w') \<Longrightarrow> file_step m (m\<lparr>fm_world := w'\<rparr>)"
| delete_failed:
    "(i, k) \<in> doomed m \<Longrightarrow>
     file_step m (m\<lparr>fm_world := recordFailedDelete i now (fm_world m)\<rparr>)"

section \<open>What a step does to a row\<close>

text \<open>Every update keeps a row's id and key; it keeps its status, dooms it, or attaches a ready file.\<close>

definition row_moves :: "file_row \<Rightarrow> file_row \<Rightarrow> bool" where
  "row_moves r r' \<longleftrightarrow>
     pair_of r' = pair_of r \<and>
     (fa_status r' = fa_status r \<or> fa_status r' = DELETING \<or>
      fa_status r = READY \<and> fa_status r' = ATTACHED)"

definition table_moves :: "file_row list \<Rightarrow> file_row list \<Rightarrow> bool" where
  "table_moves rows rows' \<longleftrightarrow> list_all2 row_moves rows rows'"

lemma row_moves_refl [simp]: "row_moves r r"
  by (simp add: row_moves_def)

lemma table_moves_refl [simp]: "table_moves rows rows"
  by (simp add: table_moves_def list_all2_conv_all_nth)

lemma table_moves_update:
  assumes "\<And>r. p r \<Longrightarrow> row_moves r ((f r)\<lparr>fa_updated_at := now\<rparr>)"
  shows "table_moves (file_assets w) (file_assets (snd (update_files p f now w)))"
    and "objects (snd (update_files p f now w)) = objects w"
proof -
  have "list_all2 row_moves rows (update_where p (\<lambda>r. (f r)\<lparr>fa_updated_at := now\<rparr>) rows)" for rows
    using assms by (induction rows) simp_all
  then show "table_moves (file_assets w) (file_assets (snd (update_files p f now w)))"
    by (simp add: table_moves_def update_files_def)
  show "objects (snd (update_files p f now w)) = objects w" by (simp add: update_files_def)
qed

lemma table_moves_ids: "table_moves rows rows' \<Longrightarrow> map fa_id rows' = map fa_id rows"
  by (unfold table_moves_def, induction rule: list_all2_induct) (auto simp: row_moves_def pair_of_def)

lemma table_moves_row:
  "table_moves rows rows' \<Longrightarrow> r' \<in> set rows' \<Longrightarrow> \<exists>r \<in> set rows. row_moves r r'"
  by (unfold table_moves_def, induction rule: list_all2_induct) auto

lemma table_moves_forward:
  "table_moves rows rows' \<Longrightarrow> r \<in> set rows \<Longrightarrow> \<exists>r' \<in> set rows'. row_moves r r'"
  by (unfold table_moves_def, induction rule: list_all2_induct) auto

text \<open>The transactions that only move rows.\<close>

definition moves_only :: "file_world \<Rightarrow> file_world \<Rightarrow> bool" where
  "moves_only w w' \<longleftrightarrow> table_moves (file_assets w) (file_assets w') \<and> objects w' = objects w"

lemma moves_only_update:
  assumes "\<And>r. p r \<Longrightarrow> row_moves r ((f r)\<lparr>fa_updated_at := now\<rparr>)"
  shows "moves_only w (snd (update_files p f now w))"
  using table_moves_update [where w = w, OF assms] by (simp add: moves_only_def)

lemma moves_only_refl [simp]: "moves_only w w"
  by (simp add: moves_only_def)

lemma moves_releaseFailedUpload: "moves_only w (releaseFailedUpload i now w)"
  unfolding releaseFailedUpload_def by (rule moves_only_update) (simp add: row_moves_def pair_of_def)

lemma moves_markDeleting: "moves_only w (markDeleting ids now w)"
  unfolding markDeleting_def
  by (simp, intro impI, rule moves_only_update) (simp add: row_moves_def pair_of_def)

lemma moves_markUnattachedDeleting: "moves_only w (markUnattachedDeleting uploader now w)"
  unfolding markUnattachedDeleting_def by (rule moves_only_update) (simp add: row_moves_def pair_of_def)

lemma moves_recordFailedDelete: "moves_only w (recordFailedDelete i now w)"
  unfolding recordFailedDelete_def by (rule moves_only_update) (simp add: row_moves_def pair_of_def)

lemma moves_claimExpired: "moves_only w (snd (claimExpired now writtenAt w))"
  unfolding claimExpired_def by (rule moves_only_update) (simp add: row_moves_def pair_of_def)

lemma claim_Inr:
  assumes "claimForAttachment fileId actor purpose now w = Inr (r, w')"
  defines "mine \<equiv> (\<lambda>r. fa_id r = fileId \<and> fa_uploaded_by r = actor \<and> fa_purpose r = purpose \<and>
      fa_status r = READY \<and> (case fa_expires_at r of None \<Rightarrow> False | Some t \<Rightarrow> now < t))"
  shows "count_where mine (file_assets w) = 1"
    and "w' = snd (update_files mine
      (\<lambda>r. r\<lparr>fa_status := ATTACHED, fa_attached_at := Some now, fa_expires_at := None\<rparr>) now w)"
    and "find (\<lambda>r. fa_id r = fileId) (file_assets w') = Some r"
  using assms(1)
  by (auto simp: claimForAttachment_def update_files_def bindE_Inr_iff mine_def split: if_splits option.splits)

lemma moves_claim: "claimForAttachment fileId actor purpose now w = Inr (r, w') \<Longrightarrow> moves_only w w'"
  by (drule claim_Inr(2), hypsubst, rule moves_only_update) (simp add: row_moves_def pair_of_def)

lemma release_Inr:
  assumes "releaseUnattached fileId actor now w = Inr w'"
  shows "w' = snd (update_files (\<lambda>r. fa_id r = fileId \<and> fa_uploaded_by r = actor \<and> fa_status r = READY)
      (\<lambda>r. r\<lparr>fa_status := DELETING, fa_expires_at := None\<rparr>) now w)"
  using assms by (auto simp: releaseUnattached_def update_files_def split: if_splits option.splits)

lemma moves_release: "releaseUnattached fileId actor now w = Inr w' \<Longrightarrow> moves_only w w'"
  by (drule release_Inr, hypsubst, rule moves_only_update) (simp add: row_moves_def pair_of_def)

section \<open>The invariant\<close>

definition row_ok :: "file_pair set \<Rightarrow> file_pair set \<Rightarrow> file_pair set \<Rightarrow> string set \<Rightarrow> file_row \<Rightarrow> bool" where
  "row_ok p u d keys r \<longleftrightarrow>
     (pair_of r \<in> p \<union> u \<longrightarrow> fa_status r = PROCESSING \<or> fa_status r = DELETING) \<and>
     (pair_of r \<in> d \<longrightarrow> fa_status r = DELETING) \<and>
     (fa_status r = READY \<or> fa_status r = ATTACHED \<or> pair_of r \<in> u \<and> fa_status r = PROCESSING \<longrightarrow>
      fa_storage_key r \<in> keys)"

definition file_inv :: "file_machine \<Rightarrow> bool" where
  "file_inv m \<longleftrightarrow>
     inj_on fst (issued m) \<and> inj_on snd (issued m) \<and>
     putting m \<union> written m \<union> doomed m \<subseteq> issued m \<and> putting m \<inter> written m = {} \<and>
     distinct (map fa_id (file_assets (fm_world m))) \<and>
     (\<forall>r \<in> set (file_assets (fm_world m)). pair_of r \<in> issued m \<and>
        row_ok (putting m) (written m) (doomed m) (dom (objects (fm_world m))) r)"

definition no_files :: "file_machine \<Rightarrow> bool" where
  "no_files m \<longleftrightarrow> file_assets (fm_world m) = [] \<and> issued m = {} \<and> putting m = {} \<and> written m = {} \<and>
     doomed m = {}"

lemma row_ok_moves: "row_ok p u d keys r \<Longrightarrow> row_moves r r' \<Longrightarrow> row_ok p u d keys r'"
  by (auto simp: row_ok_def row_moves_def pair_of_def)

lemma row_ok_mono:
  "row_ok p u d keys r \<Longrightarrow> p' \<subseteq> p \<Longrightarrow> u' \<subseteq> u \<Longrightarrow> d' \<subseteq> d \<Longrightarrow> keys \<subseteq> keys' \<Longrightarrow> row_ok p' u' d' keys' r"
  by (auto simp: row_ok_def)

lemma file_inv_moves:
  assumes "file_inv m" and "moves_only (fm_world m) w'"
  shows "file_inv (m\<lparr>fm_world := w'\<rparr>)"
proof -
  have rows: "table_moves (file_assets (fm_world m)) (file_assets w')"
    and objs: "objects w' = objects (fm_world m)"
    using assms(2) by (auto simp: moves_only_def)
  have "pair_of r' \<in> issued m \<and> row_ok (putting m) (written m) (doomed m) (dom (objects (fm_world m))) r'"
    if r': "r' \<in> set (file_assets w')" for r'
  proof -
    obtain r where r: "r \<in> set (file_assets (fm_world m))" "row_moves r r'"
      using table_moves_row [OF rows r'] by blast
    have "pair_of r' = pair_of r" using r(2) by (simp add: row_moves_def)
    then show ?thesis using assms(1) r row_ok_moves unfolding file_inv_def by metis
  qed
  then show ?thesis
    using assms(1) table_moves_ids [OF rows] by (simp add: file_inv_def objs)
qed

lemma file_inv_shrink:
  assumes "file_inv m" and "p \<subseteq> putting m" and "u \<subseteq> written m" and "d \<subseteq> doomed m"
  shows "file_inv (m\<lparr>putting := p, written := u, doomed := d\<rparr>)"
  using assms unfolding file_inv_def by (auto elim!: row_ok_mono)

lemma file_inv_put:
  assumes "file_inv m"
  shows "file_inv (m\<lparr>fm_world := (fm_world m)\<lparr>objects := (objects (fm_world m))(k \<mapsto> content)\<rparr>\<rparr>)"
  using assms unfolding file_inv_def by (auto elim!: row_ok_mono)

text \<open>A stored object's row is still being processed, or no longer wanted.\<close>

lemma file_inv_put_done:
  assumes inv: "file_inv m" and mine: "(i, k) \<in> putting m"
  shows "file_inv (m\<lparr>fm_world := (fm_world m)\<lparr>objects := (objects (fm_world m))(k \<mapsto> content)\<rparr>,
    putting := putting m - {(i, k)}, written := insert (i, k) (written m)\<rparr>)"
proof -
  have "row_ok (putting m - {(i, k)}) (insert (i, k) (written m)) (doomed m)
      (dom ((objects (fm_world m))(k \<mapsto> content))) r"
    if "row_ok (putting m) (written m) (doomed m) (dom (objects (fm_world m))) r" for r
    using that mine by (auto simp: row_ok_def pair_of_def)
  then show ?thesis using inv mine by (auto simp: file_inv_def)
qed

text \<open>An object that nothing relies on: that of a doomed row.\<close>

lemma file_inv_delete:
  assumes inv: "file_inv m" and "(i, k) \<in> doomed m"
  shows "file_inv (m\<lparr>fm_world := deleteObject k (fm_world m)\<rparr>)"
proof -
  have issued: "(i, k) \<in> issued m" "inj_on snd (issued m)"
    using assms by (auto simp: file_inv_def)
  have "row_ok (putting m) (written m) (doomed m) (dom ((objects (fm_world m))(k := None))) r"
    if "r \<in> set (file_assets (fm_world m))" for r
  proof (cases "fa_storage_key r = k")
    case True
    have "pair_of r \<in> issued m" using inv that by (simp add: file_inv_def)
    then have "pair_of r = (i, k)"
      using issued True inj_onD [of snd "issued m" "pair_of r" "(i, k)"] by (simp add: pair_of_def)
    with assms that have "fa_status r = DELETING" by (simp add: file_inv_def row_ok_def)
    then show ?thesis by (simp add: row_ok_def)
  next
    case False
    with inv that show ?thesis by (auto simp: file_inv_def row_ok_def)
  qed
  then show ?thesis using inv by (simp add: file_inv_def deleteObject_def)
qed

lemma file_inv_remove:
  assumes "file_inv m" and "removeRow i (fm_world m) = (n, w')"
  shows "file_inv (m\<lparr>fm_world := w'\<rparr>)"
  using assms by (auto simp: file_inv_def removeRow_def Let_def distinct_map_filter)

text \<open>The row of an upload is the last of the table, and no other has its id.\<close>

lemma begin_row:
  assumes "beginUpload cfg nfc upl detected purpose actor newId uuid clk w = Inr (b, w')"
  shows "w' = w\<lparr>file_assets := file_assets w @ [ub_row b]\<rparr>" and "fa_status (ub_row b) = PROCESSING"
    and "fa_id (ub_row b) = newId" and "fa_uploaded_by (ub_row b) = actor" and "fa_purpose (ub_row b) = purpose"
    and "ub_policy b = FILE_PURPOSE_POLICIES purpose"
    and "identify detected (ub_policy b) = Inr (ub_accepted b)"
    and "fa_kind (ub_row b) = at_kind (ub_accepted b)"
    and "fa_content_type (ub_row b) = at_content_type (ub_accepted b)"
    and "uf_size upl \<le> min (pp_max_bytes (FILE_PURPOSE_POLICIES purpose)) (fc_max_upload_bytes cfg)"
    and "count_where (quotaWhere actor (clk 0)) (file_assets w) < MAX_UNATTACHED_FILES_PER_USER"
    and "\<forall>r \<in> set (file_assets w). fa_id r \<noteq> newId \<and> fa_storage_key r \<noteq> fa_storage_key (ub_row b)"
proof -
  obtain accepted key where parts:
    "uf_size upl \<le> min (pp_max_bytes (FILE_PURPOSE_POLICIES purpose)) (fc_max_upload_bytes cfg)"
    "count_where (quotaWhere actor (clk 0)) (file_assets w) < MAX_UNATTACHED_FILES_PER_USER"
    "identify detected (FILE_PURPOSE_POLICIES purpose) = Inr accepted"
    "\<forall>r \<in> set (file_assets w). fa_id r \<noteq> newId \<and> fa_storage_key r \<noteq> key"
    "b = \<lparr>ub_row = \<lparr>fa_id = newId, fa_created_at = clk 1, fa_updated_at = clk 1,
        fa_uploaded_by = actor, fa_purpose = purpose, fa_status = PROCESSING,
        fa_storage_key = key, fa_kind = at_kind accepted,
        fa_content_type = at_content_type accepted, fa_size_bytes = None,
        fa_width = None, fa_height = None,
        fa_file_name = sanitizeFileName nfc (uf_originalname upl) (code_points (at_extension accepted)),
        fa_expires_at = None, fa_attached_at = None, fa_delete_attempts = 0\<rparr>,
        ub_accepted = accepted, ub_policy = FILE_PURPOSE_POLICIES purpose\<rparr>"
    "w' = w\<lparr>file_assets := file_assets w @ [ub_row b]\<rparr>"
    using assms unfolding beginUpload_def Let_def throw_Inr bindE_Inr_iff by (clarsimp simp: not_less not_le) blast
  show "w' = w\<lparr>file_assets := file_assets w @ [ub_row b]\<rparr>"
    "uf_size upl \<le> min (pp_max_bytes (FILE_PURPOSE_POLICIES purpose)) (fc_max_upload_bytes cfg)"
    "count_where (quotaWhere actor (clk 0)) (file_assets w) < MAX_UNATTACHED_FILES_PER_USER"
    by (rule parts)+
  show "fa_status (ub_row b) = PROCESSING" "fa_id (ub_row b) = newId" "fa_uploaded_by (ub_row b) = actor"
    "fa_purpose (ub_row b) = purpose" "ub_policy b = FILE_PURPOSE_POLICIES purpose"
    "fa_kind (ub_row b) = at_kind (ub_accepted b)"
    "fa_content_type (ub_row b) = at_content_type (ub_accepted b)"
    by (simp_all only: parts(5) upload_begun.simps file_row.simps)
  show "identify detected (ub_policy b) = Inr (ub_accepted b)"
    using parts(3) by (simp only: parts(5) upload_begun.simps)
  show "\<forall>r \<in> set (file_assets w). fa_id r \<noteq> newId \<and> fa_storage_key r \<noteq> fa_storage_key (ub_row b)"
    using parts(4) by (simp only: parts(5) upload_begun.simps file_row.simps)
qed

lemma file_inv_begun:
  assumes inv: "file_inv m"
    and tx: "beginUpload cfg nfc upl detected purpose actor newId uuid clk (fm_world m) = Inr (b, w')"
    and fresh: "fa_id (ub_row b) \<notin> fst ` issued m" "fa_storage_key (ub_row b) \<notin> snd ` issued m"
  shows "file_inv (m\<lparr>fm_world := w', issued := insert (pair_of (ub_row b)) (issued m),
    putting := insert (pair_of (ub_row b)) (putting m)\<rparr>)"
proof -
  let ?row = "ub_row b"
  note w' = begin_row(1) [OF tx] and status = begin_row(2) [OF tx]
  have unissued: "pair_of ?row \<notin> issued m" using fresh(1) imageI [of "pair_of ?row" "issued m" fst] by (auto simp: pair_of_def)
  have apart: "fa_id ?row \<noteq> fa_id r" if "r \<in> set (file_assets (fm_world m))" for r
  proof -
    have "pair_of r \<in> issued m" using inv that by (simp add: file_inv_def)
    from imageI [OF this, of fst] show ?thesis using fresh(1) by (metis pair_of_def fst_conv)
  qed
  then have "fa_id ?row \<notin> set (map fa_id (file_assets (fm_world m)))" by auto
  then have ids: "distinct (map fa_id (file_assets w'))"
    using inv by (simp add: w' file_inv_def)
  have row: "row_ok (insert (pair_of ?row) (putting m)) (written m) (doomed m) keys ?row" for keys
    using unissued inv status by (auto simp: row_ok_def file_inv_def)
  have old: "row_ok (insert (pair_of ?row) (putting m)) (written m) (doomed m) keys r"
    if "pair_of r \<in> issued m" "row_ok (putting m) (written m) (doomed m) keys r" for keys r
    using that unissued by (auto simp: row_ok_def)
  have pairs: "inj_on fst (insert (pair_of ?row) (issued m))" "inj_on snd (insert (pair_of ?row) (issued m))"
    "insert (pair_of ?row) (putting m) \<union> written m \<union> doomed m \<subseteq> insert (pair_of ?row) (issued m)"
    "insert (pair_of ?row) (putting m) \<inter> written m = {}"
    using inv fresh unissued by (auto simp: file_inv_def inj_on_insert pair_of_def)
  have "pair_of r \<in> insert (pair_of ?row) (issued m) \<and>
      row_ok (insert (pair_of ?row) (putting m)) (written m) (doomed m) (dom (objects (fm_world m))) r"
    if "r \<in> set (file_assets w')" for r
  proof (cases "r = ?row")
    case True
    then show ?thesis using row by simp
  next
    case False
    then have "r \<in> set (file_assets (fm_world m))" using that by (simp add: w')
    then show ?thesis using inv old unfolding file_inv_def by blast
  qed
  then show ?thesis using pairs ids by (simp add: file_inv_def w')
qed

text \<open>The conditional update of a finished upload finds at most its own row.\<close>

lemma finish_rows:
  assumes "finishUpdate cfg row processed clk w = (n, w')" and "distinct (map fa_id (file_assets w))"
  defines "mine \<equiv> \<lambda>r. fa_id r = fa_id row \<and> fa_status r = PROCESSING"
  shows "n = count_where mine (file_assets w)" and "n \<le> 1" and "objects w' = objects w"
    and "map fa_id (file_assets w') = map fa_id (file_assets w)"
    and "r' \<in> set (file_assets w') \<Longrightarrow> \<exists>r \<in> set (file_assets w). pair_of r' = pair_of r \<and>
       (if mine r then fa_status r' = READY else r' = r)"
proof -
  have w': "n = count_where mine (file_assets w)"
    "\<exists>f. file_assets w' = update_where mine f (file_assets w) \<and>
       (\<forall>r. fa_status (f r) = READY \<and> pair_of (f r) = pair_of r)"
    "objects w' = objects w"
    using assms(1) by (auto simp: finishUpdate_def update_files_def mine_def Let_def pair_of_def)
  show "n = count_where mine (file_assets w)" "objects w' = objects w" using w' by simp_all
  show "n \<le> 1"
    unfolding w'(1) by (rule count_where_le_1 [OF assms(2), where a = "fa_id row"]) (simp add: mine_def)
  obtain f where f: "file_assets w' = update_where mine f (file_assets w)"
    "\<And>r. fa_status (f r) = READY" "\<And>r. pair_of (f r) = pair_of r"
    using w'(2) by blast
  show "map fa_id (file_assets w') = map fa_id (file_assets w)"
    unfolding f(1) by (rule map_update_where) (use f(3) in \<open>simp add: pair_of_def\<close>)
  show "r' \<in> set (file_assets w') \<Longrightarrow> \<exists>r \<in> set (file_assets w). pair_of r' = pair_of r \<and>
       (if mine r then fa_status r' = READY else r' = r)"
    unfolding f(1) by (erule update_where_elim) (use f(2,3) in auto)
qed

lemma file_inv_finished:
  assumes inv: "file_inv m" and mine: "pair_of row \<in> written m"
    and tx: "finishUpdate cfg row processed clk (fm_world m) = (n, w')"
  shows "file_inv (m\<lparr>fm_world := w', written := written m - {pair_of row}\<rparr>)"
proof -
  have ids: "distinct (map fa_id (file_assets (fm_world m)))" using inv by (simp add: file_inv_def)
  have "pair_of r' \<in> issued m \<and> row_ok (putting m) (written m - {pair_of row}) (doomed m)
      (dom (objects (fm_world m))) r'" if r': "r' \<in> set (file_assets w')" for r'
  proof -
    obtain r where r: "r \<in> set (file_assets (fm_world m))" "pair_of r' = pair_of r"
      "if fa_id r = fa_id row \<and> fa_status r = PROCESSING then fa_status r' = READY else r' = r"
      using finish_rows(5) [OF tx ids r'] by blast
    have ok: "pair_of r \<in> issued m" "row_ok (putting m) (written m) (doomed m) (dom (objects (fm_world m))) r"
      using inv r(1) by (auto simp: file_inv_def)
    show ?thesis
    proof (cases "fa_id r = fa_id row \<and> fa_status r = PROCESSING")
      case True
      then have "pair_of r = pair_of row"
        using inv ok(1) mine inj_onD [of fst "issued m" "pair_of r" "pair_of row"]
        by (auto simp: file_inv_def pair_of_def)
      then have "pair_of r \<in> written m" "pair_of r \<notin> putting m"
        using mine inv by (auto simp: file_inv_def)
      then show ?thesis using ok r(2,3) True \<open>pair_of r = pair_of row\<close>
        by (auto simp: row_ok_def pair_of_def)
    next
      case False
      with r(3) have "r' = r" by simp
      moreover have "row_ok (putting m) (written m - {pair_of row}) (doomed m) (dom (objects (fm_world m))) r"
        by (rule row_ok_mono [OF ok(2)]) auto
      ultimately show ?thesis using ok(1) by simp
    qed
  qed
  then show ?thesis
    using inv finish_rows(3,4) [OF tx ids] by (auto simp: file_inv_def)
qed

text \<open>An upload that lost its row: whatever row still has its key is being deleted.\<close>

lemma file_inv_beaten:
  assumes inv: "file_inv m" and mine: "pair_of row \<in> written m"
    and tx: "finishUpdate cfg row processed clk (fm_world m) = (n, w')" and "n \<noteq> 1"
  shows "file_inv (m\<lparr>fm_world := w', written := written m - {pair_of row},
    doomed := insert (pair_of row) (doomed m)\<rparr>)"
proof -
  have ids: "distinct (map fa_id (file_assets (fm_world m)))" using inv by (simp add: file_inv_def)
  have none: "\<not> (fa_id r = fa_id row \<and> fa_status r = PROCESSING)" if "r \<in> set (file_assets (fm_world m))" for r
    using finish_rows(1,2) [OF tx ids] \<open>n \<noteq> 1\<close> that by (auto simp: le_less)
  have "pair_of r' \<in> issued m \<and> row_ok (putting m) (written m - {pair_of row})
      (insert (pair_of row) (doomed m)) (dom (objects (fm_world m))) r'" if r': "r' \<in> set (file_assets w')" for r'
  proof -
    obtain r where r: "r \<in> set (file_assets (fm_world m))" "r' = r"
      using finish_rows(5) [OF tx ids r'] none by metis
    have ok: "pair_of r \<in> issued m" "row_ok (putting m) (written m) (doomed m) (dom (objects (fm_world m))) r"
      using inv r(1) by (auto simp: file_inv_def)
    have "pair_of r = pair_of row \<longrightarrow> fa_status r = DELETING"
      using none [OF r(1)] ok(2) mine by (auto simp: row_ok_def pair_of_def)
    then show ?thesis using ok r(2) by (auto simp: row_ok_def)
  qed
  then show ?thesis
    using inv finish_rows(3,4) [OF tx ids] mine by (auto simp: file_inv_def)
qed

lemma cleanupBatch_doomed: "r \<in> set (cleanupBatch w) \<Longrightarrow> r \<in> set (file_assets w) \<and> fa_status r = DELETING"
  by (auto simp: cleanupBatch_def dest: in_set_takeD)

lemma file_inv_selected:
  assumes inv: "file_inv m" and r: "r \<in> set (cleanupBatch (fm_world m))"
  shows "file_inv (m\<lparr>doomed := insert (pair_of r) (doomed m)\<rparr>)"
proof -
  have row: "r \<in> set (file_assets (fm_world m))" "fa_status r = DELETING"
    using cleanupBatch_doomed [OF r] by auto
  have "x = r" if "x \<in> set (file_assets (fm_world m))" "pair_of x = pair_of r" for x
    using inv row(1) that distinct_key [of fa_id "file_assets (fm_world m)" x r]
    by (simp add: file_inv_def pair_of_def)
  then show ?thesis
    using inv row unfolding file_inv_def by (auto simp: row_ok_def)
qed

lemma file_inv_step: "file_inv m \<Longrightarrow> file_step m m' \<Longrightarrow> file_inv m'"
proof -
  assume inv: "file_inv m" and step: "file_step m m'"
  have shrink: "file_inv (m\<lparr>fm_world := w', putting := p, written := u\<rparr>)"
    if "moves_only (fm_world m) w'" "p \<subseteq> putting m" "u \<subseteq> written m" for w' p u
    using file_inv_shrink [OF file_inv_moves [OF inv that(1)], of p u "doomed m"] that(2,3) by simp
  from step show ?thesis
  proof cases
    case begun
    then show ?thesis using file_inv_begun [OF inv] by simp
  next
    case (upload_failed i k now)
    then show ?thesis
      using shrink [OF moves_releaseFailedUpload, of "putting m - {(i, k)}" "written m"] by simp
  next
    case (put_done i k content ok w')
    then show ?thesis using file_inv_put_done [OF inv] by (auto simp: putObject_def)
  next
    case (put_failed i k content partly ok w')
    then show ?thesis using file_inv_put [OF inv] inv by (auto simp: putObject_def)
  next
    case finished
    then show ?thesis using file_inv_finished [OF inv] by simp
  next
    case beaten
    then show ?thesis using file_inv_beaten [OF inv] by simp
  next
    case died
    then show ?thesis using file_inv_shrink [OF inv] by simp
  next
    case attached
    then show ?thesis using file_inv_moves [OF inv] moves_claim by blast
  next
    case released
    then show ?thesis using file_inv_moves [OF inv] moves_release by blast
  next
    case marked
    then show ?thesis using file_inv_moves [OF inv moves_markDeleting] by simp
  next
    case erased
    then show ?thesis using file_inv_moves [OF inv moves_markUnattachedDeleting] by simp
  next
    case (expired now writtenAt n w')
    then show ?thesis
      using file_inv_moves [OF inv moves_claimExpired, of now writtenAt] by simp
  next
    case selected
    then show ?thesis using file_inv_selected [OF inv] by simp
  next
    case object_deleted
    then show ?thesis using file_inv_delete [OF inv] by simp
  next
    case row_removed
    then show ?thesis using file_inv_remove [OF inv] by blast
  next
    case delete_failed
    then show ?thesis using file_inv_moves [OF inv moves_recordFailedDelete] by simp
  qed
qed

interpretation files: machine no_files file_step file_inv
proof
  show "no_files m \<Longrightarrow> file_inv m" for m by (simp add: no_files_def file_inv_def)
qed (rule file_inv_step)

end
