(* ===== verification/File_Properties.thy ===== *)
theory File_Properties
  imports File_Machine
begin

text \<open>
  What the file capability promises: a file that can be or is attached has its bytes, it is attached once,
  only its resource lets go of it, an upload that fails leaves nothing to attach, and a cleanup run removes
  exactly what expired.
\<close>

section \<open>What a step does\<close>

lemma moves_rows:
  assumes "moves_only w w'" and "r' \<in> set (file_assets w')"
  shows "\<exists>r \<in> set (file_assets w). row_moves r r'"
  using assms table_moves_row by (auto simp: moves_only_def)

lemma step_rows:
  assumes "file_step m m'" and "file_inv m" and "r' \<in> set (file_assets (fm_world m'))"
  shows "(\<exists>r \<in> set (file_assets (fm_world m)). row_moves r r' \<or>
      pair_of r' = pair_of r \<and> fa_status r = PROCESSING \<and> fa_status r' = READY) \<or>
    fa_id r' \<notin> fst ` issued m"
proof -
  have moved: ?thesis if "moves_only (fm_world m) (fm_world m')"
    using moves_rows [OF that assms(3)] by blast
  have kept: ?thesis if "set (file_assets (fm_world m')) \<subseteq> set (file_assets (fm_world m))"
    using that assms(3) row_moves_refl by blast
  have finishing: ?thesis if fin: "finishUpdate cfg row processed clk (fm_world m) = (n, fm_world m')" for cfg row processed clk n
  proof -
    have ids: "distinct (map fa_id (file_assets (fm_world m)))" using assms(2) by (simp add: file_inv_def)
    obtain r where "r \<in> set (file_assets (fm_world m))" "pair_of r' = pair_of r"
      "if fa_id r = fa_id row \<and> fa_status r = PROCESSING then fa_status r' = READY else r' = r"
      using finish_rows(5) [OF fin ids assms(3)] by blast
    then show ?thesis using row_moves_refl by (metis (full_types))
  qed
  from assms(1) show ?thesis
  proof cases
    case (begun cfg nfc upl detected purpose actor newId uuid clk b w')
    then show ?thesis using assms(3) begin_row(1) [OF begun(2)] kept by auto
  next
    case upload_failed
    then show ?thesis using moved moves_releaseFailedUpload by simp
  next
    case put_done
    then show ?thesis by (intro kept) (auto simp: putObject_def)
  next
    case put_failed
    then show ?thesis by (intro kept) (auto simp: putObject_def split: if_splits)
  next
    case finished
    then show ?thesis using finishing by simp
  next
    case beaten
    then show ?thesis using finishing by simp
  next
    case died
    then show ?thesis by (intro kept) simp
  next
    case attached
    then show ?thesis using moved moves_claim by simp
  next
    case released
    then show ?thesis using moved moves_release by simp
  next
    case marked
    then show ?thesis using moved moves_markDeleting by simp
  next
    case erased
    then show ?thesis using moved moves_markUnattachedDeleting by simp
  next
    case (expired now writtenAt n w')
    then show ?thesis using moved moves_claimExpired [of "fm_world m" now writtenAt] by simp
  next
    case selected
    then show ?thesis by (intro kept) simp
  next
    case object_deleted
    then show ?thesis by (intro kept) (simp add: deleteObject_def)
  next
    case row_removed
    then show ?thesis by (intro kept) (auto simp: removeRow_def Let_def)
  next
    case delete_failed
    then show ?thesis using moved moves_recordFailedDelete by simp
  qed
qed

lemma step_issued: "file_step m m' \<Longrightarrow> issued m \<subseteq> issued m'"
  by (erule file_step.cases) auto

section \<open>The bytes are there\<close>

text \<open>C30: however uploads, attaches, releases and cleanup runs interleave, and whichever of them die half
  way, a file that can be attached or is attached has its object in the bucket, under a key no other
  file has.\<close>

theorem attachable_file_is_stored:
  assumes "reachable no_files file_step m" and "r \<in> set (file_assets (fm_world m))"
    and "fa_status r = READY \<or> fa_status r = ATTACHED"
  shows "objects (fm_world m) (fa_storage_key r) \<noteq> None \<and>
    filter (\<lambda>x. fa_storage_key x = fa_storage_key r) (file_assets (fm_world m)) = [r]"
proof
  have inv: "file_inv m" by (rule files.inv_reachable [OF assms(1)])
  show "objects (fm_world m) (fa_storage_key r) \<noteq> None"
    using inv assms(2,3) by (auto simp: file_inv_def row_ok_def)
  have key: "fa_storage_key x = fa_storage_key r \<longleftrightarrow> fa_id x = fa_id r"
    if "x \<in> set (file_assets (fm_world m))" for x
    using inv that assms(2) inj_onD [of fst "issued m" "pair_of x" "pair_of r"]
      inj_onD [of snd "issued m" "pair_of x" "pair_of r"]
    by (auto simp: file_inv_def pair_of_def)
  have "filter (\<lambda>x. fa_id x = fa_id r) rows = [r]" if "distinct (map fa_id rows)" "r \<in> set rows" for rows
    using that by (induction rows) (auto simp: filter_empty_conv image_iff)
  then show "filter (\<lambda>x. fa_storage_key x = fa_storage_key r) (file_assets (fm_world m)) = [r]"
    using inv assms(2) key by (simp add: file_inv_def cong: filter_cong)
qed

section \<open>A file is attached once\<close>

definition spent :: "ident \<Rightarrow> file_machine \<Rightarrow> bool" where
  "spent i m \<longleftrightarrow> i \<in> fst ` issued m \<and>
     (\<forall>r \<in> set (file_assets (fm_world m)). fa_id r = i \<longrightarrow> fa_status r = ATTACHED \<or> fa_status r = DELETING)"

lemma spent_step: "file_inv m \<Longrightarrow> spent i m \<Longrightarrow> file_step m m' \<Longrightarrow> spent i m'"
proof -
  assume inv: "file_inv m" and spent: "spent i m" and step: "file_step m m'"
  have "fa_status r' = ATTACHED \<or> fa_status r' = DELETING"
    if r': "r' \<in> set (file_assets (fm_world m'))" "fa_id r' = i" for r'
  proof -
    obtain r where r: "r \<in> set (file_assets (fm_world m))"
      "row_moves r r' \<or> pair_of r' = pair_of r \<and> fa_status r = PROCESSING \<and> fa_status r' = READY"
      using step_rows [OF step inv r'(1)] spent r'(2) by (auto simp: spent_def)
    then have "fa_id r = i" using r'(2) by (auto simp: row_moves_def pair_of_def)
    then have "fa_status r = ATTACHED \<or> fa_status r = DELETING" using spent r(1) by (simp add: spent_def)
    then show ?thesis using r(2) by (auto simp: row_moves_def)
  qed
  then show ?thesis using spent step_issued [OF step] by (auto simp: spent_def)
qed

lemma claim_row:
  assumes "claimForAttachment i actor purpose now w = Inr (r, w')"
  obtains x where "x \<in> set (file_assets w)" "fa_id x = i" "fa_uploaded_by x = actor" "fa_purpose x = purpose"
    "fa_status x = READY" "case fa_expires_at x of None \<Rightarrow> False | Some t \<Rightarrow> now < t"
proof -
  have "0 < count_where (\<lambda>r. fa_id r = i \<and> fa_uploaded_by r = actor \<and> fa_purpose r = purpose \<and>
      fa_status r = READY \<and> (case fa_expires_at r of None \<Rightarrow> False | Some t \<Rightarrow> now < t)) (file_assets w)"
    by (simp add: claim_Inr(1) [OF assms])
  then show thesis unfolding count_where_pos by (elim bexE conjE) (rule that)
qed

lemma claim_spent:
  assumes inv: "file_inv m" and tx: "claimForAttachment i actor purpose now (fm_world m) = Inr (r, w')"
  shows "spent i (m\<lparr>fm_world := w'\<rparr>)"
proof -
  let ?mine = "\<lambda>r. fa_id r = i \<and> fa_uploaded_by r = actor \<and> fa_purpose r = purpose \<and>
      fa_status r = READY \<and> (case fa_expires_at r of None \<Rightarrow> False | Some t \<Rightarrow> now < t)"
  obtain x where "x \<in> set (file_assets (fm_world m))" "fa_id x = i" "fa_uploaded_by x = actor"
    "fa_purpose x = purpose" "fa_status x = READY" "case fa_expires_at x of None \<Rightarrow> False | Some t \<Rightarrow> now < t"
    by (rule claim_row [OF tx])
  then have x: "x \<in> set (file_assets (fm_world m))" "?mine x" by simp_all
  have same: "y = x" if "y \<in> set (file_assets (fm_world m))" "fa_id y = i" for y
    using inv x that distinct_key [of fa_id "file_assets (fm_world m)" y x] by (simp add: file_inv_def)
  let ?attach = "\<lambda>r. (r\<lparr>fa_status := ATTACHED, fa_attached_at := Some now, fa_expires_at := None\<rparr>)
      \<lparr>fa_updated_at := now\<rparr>"
  have rows: "file_assets w' = update_where ?mine ?attach (file_assets (fm_world m))"
    by (simp add: claim_Inr(2) [OF tx] update_files_def)
  have "fa_id r' = i \<longrightarrow> fa_status r' = ATTACHED \<or> fa_status r' = DELETING" if "r' \<in> set (file_assets w')" for r'
    using that unfolding rows
    by (rule update_where_elim [where Q = "\<lambda>r'. fa_id r' = i \<longrightarrow> fa_status r' = ATTACHED \<or> fa_status r' = DELETING"])
      (use x same in auto)
  moreover have "i \<in> fst ` issued m"
  proof -
    have "pair_of x \<in> issued m" using inv x(1) by (simp add: file_inv_def)
    from imageI [OF this, of fst] show ?thesis using x(2) by (simp add: pair_of_def)
  qed
  ultimately show ?thesis by (simp add: spent_def)
qed

text \<open>A file is attached at most once.  After an attach has committed, and whatever runs after it, no
  attach of the same file commits again, by anybody or for any purpose.\<close>

theorem file_attached_once:
  assumes "reachable no_files file_step m"
    and "claimForAttachment i actor purpose now (fm_world m) = Inr (r, w1)"
    and "file_step\<^sup>*\<^sup>* (m\<lparr>fm_world := w1\<rparr>) m2"
  shows "claimForAttachment i actor' purpose' now' (fm_world m2) \<noteq> Inr (r', w3)"
proof
  assume again: "claimForAttachment i actor' purpose' now' (fm_world m2) = Inr (r', w3)"
  have inv: "file_inv m" by (rule files.inv_reachable [OF assms(1)])
  have inv1: "file_inv (m\<lparr>fm_world := w1\<rparr>)" by (rule file_inv_moves [OF inv moves_claim [OF assms(2)]])
  have "spent i m2"
    using files.stable_steps [where P = "spent i", OF spent_step assms(3) inv1 claim_spent [OF inv assms(2)]] .
  moreover obtain x where "x \<in> set (file_assets (fm_world m2))" "fa_id x = i" "fa_status x = READY"
    by (rule claim_row [OF again])
  ultimately show False by (auto simp: spent_def)
qed

section \<open>Who lets go of a file\<close>

text \<open>Nothing but the release of the resource that shows it ends an attachment.  An attached file stays
  attached, its row and its bytes in place, through every step that is not a \<open>markDeleting\<close> naming it:
  its uploader's release, an account erasure, an expiry and a cleanup run all pass it by.\<close>

theorem attachment_ends_by_release_only:
  assumes "reachable no_files file_step m" and "r \<in> set (file_assets (fm_world m))"
    and "fa_status r = ATTACHED" and "file_step m m'"
    and "\<And>ids now. fa_id r \<in> set ids \<Longrightarrow> m' \<noteq> m\<lparr>fm_world := markDeleting ids now (fm_world m)\<rparr>"
  shows "r \<in> set (file_assets (fm_world m')) \<and> objects (fm_world m') (fa_storage_key r) \<noteq> None"
proof
  have inv: "file_inv m" by (rule files.inv_reachable [OF assms(1)])
  then have inv': "file_inv m'" using file_inv_step assms(4) by blast
  have updated: "r \<in> set (file_assets (snd (update_files p f now (fm_world m))))" if "\<not> p r" for p f now
    using that assms(2) by (force simp: update_files_def set_update_where)
  show stays: "r \<in> set (file_assets (fm_world m'))"
    using assms(4)
  proof cases
    case (begun cfg nfc upl detected purpose actor newId uuid clk b w')
    then show ?thesis using assms(2) begin_row(1) [OF begun(2)] by simp
  next
    case upload_failed
    then show ?thesis using updated assms(3) by (simp add: releaseFailedUpload_def)
  next
    case put_done
    then show ?thesis using assms(2) by (auto simp: putObject_def)
  next
    case put_failed
    then show ?thesis using assms(2) by (auto simp: putObject_def split: if_splits)
  next
    case (finished row cfg processed clk n w')
    then have "w' = snd (finishUpdate cfg row processed clk (fm_world m))" by simp
    with finished show ?thesis using updated assms(3) by (simp add: finishUpdate_def Let_def)
  next
    case (beaten row cfg processed clk n w')
    then have "w' = snd (finishUpdate cfg row processed clk (fm_world m))" by simp
    with beaten show ?thesis using updated assms(3) by (simp add: finishUpdate_def Let_def)
  next
    case died
    then show ?thesis using assms(2) by simp
  next
    case (attached i actor purpose now x w')
    then show ?thesis using updated assms(3) by (simp add: claim_Inr(2) [OF attached(2)])
  next
    case (released i actor now w')
    then show ?thesis using updated assms(3) by (simp add: release_Inr [OF released(2)])
  next
    case (marked ids now)
    then have "fa_id r \<notin> set ids" using assms(5) by blast
    then show ?thesis using marked updated assms(2) by (simp add: markDeleting_def)
  next
    case erased
    then show ?thesis using updated assms(3) by (simp add: markUnattachedDeleting_def unattached_def)
  next
    case (expired now writtenAt n w')
    then have "w' = snd (claimExpired now writtenAt (fm_world m))" by simp
    with expired show ?thesis using updated assms(3) by (simp add: claimExpired_def claimable_def)
  next
    case selected
    then show ?thesis using assms(2) by simp
  next
    case object_deleted
    then show ?thesis using assms(2) by (simp add: deleteObject_def)
  next
    case row_removed
    then show ?thesis using assms(2,3) by (auto simp: removeRow_def Let_def)
  next
    case delete_failed
    then show ?thesis using updated assms(3) by (simp add: recordFailedDelete_def)
  qed
  show "objects (fm_world m') (fa_storage_key r) \<noteq> None"
    using inv' stays assms(3) by (auto simp: file_inv_def row_ok_def)
qed

end
