(* ===== verification/File_Outcomes.thy ===== *)
theory File_Outcomes
  imports File_Machine
begin

text \<open>What each operation of the file service answers and leaves behind, on every branch.\<close>

section \<open>Uploading\<close>

lemma update_own_row:
  assumes "\<forall>r \<in> set rows. fa_id r \<noteq> fa_id row" and "fa_status row = PROCESSING"
  shows "update_where (\<lambda>r. fa_id r = fa_id row \<and> fa_status r = PROCESSING) f (rows @ [row]) = rows @ [f row]"
    and "count_where (\<lambda>r. fa_id r = fa_id row \<and> fa_status r = PROCESSING) (rows @ [row]) = 1"
  using assms by (auto simp: update_where_none count_where_def filter_empty_conv)

lemma finish_own_row:
  assumes "\<forall>r \<in> set rows. fa_id r \<noteq> fa_id row" and "fa_status row = PROCESSING"
    and "file_assets w = rows @ [row]"
  obtains r where "finishUpload cfg row processed removed clk w = (Inr r, w\<lparr>file_assets := rows @ [r]\<rparr>)"
    "fa_status r = READY" "pair_of r = pair_of row" "fa_uploaded_by r = fa_uploaded_by row"
    "fa_purpose r = fa_purpose row" "fa_kind r = fa_kind row" "fa_content_type r = fa_content_type row"
    "fa_expires_at r = Some (clk 0 + fc_upload_ttl_seconds cfg * 1000)"
proof -
  let ?r = "row\<lparr>fa_status := READY, fa_size_bytes := Some (length (pf_body processed)),
      fa_width := pf_width processed, fa_height := pf_height processed,
      fa_expires_at := Some (clk 0 + fc_upload_ttl_seconds cfg * 1000), fa_updated_at := clk 1\<rparr>"
  have rows: "find (\<lambda>r. fa_id r = fa_id row) (rows @ [?r]) = Some ?r"
    using assms(1) by (auto simp: find_append find_None_iff split: option.splits dest: find_SomeD)
  have "finishUpload cfg row processed removed clk w = (Inr ?r, w\<lparr>file_assets := rows @ [?r]\<rparr>)"
    using rows update_own_row [OF assms(1,2)] assms(2)
    by (simp add: finishUpload_def finishUpdate_def update_files_def assms(3) Let_def)
  then show thesis by (rule that) (simp_all add: pair_of_def)
qed

text \<open>The three ways an upload that has its row can go.\<close>

lemma storeAndFinish_cases:
  assumes "\<forall>r \<in> set rows. fa_id r \<noteq> fa_id (ub_row b)" and "fa_status (ub_row b) = PROCESSING"
    and "file_assets w = rows @ [ub_row b]"
  obtains (failed) x objs where
      "storeAndFinish cfg b processed put removed clk w =
         (Inl (externalServiceUnavailable ''File storage is unavailable. Please try again.''),
          w\<lparr>file_assets := rows @ [x], objects := objs\<rparr>)"
      "fa_status x = DELETING" "pair_of x = pair_of (ub_row b)"
      "\<forall>k. k \<noteq> fa_storage_key x \<longrightarrow> objs k = objects w k"
  | (stored) r content where
      "storeAndFinish cfg b processed put removed clk w =
         (Inr r, w\<lparr>file_assets := rows @ [r], objects := (objects w)(fa_storage_key r \<mapsto> content)\<rparr>)"
      "uploadContent b processed = Inr content"
      "fa_status r = READY" "pair_of r = pair_of (ub_row b)" "fa_uploaded_by r = fa_uploaded_by (ub_row b)"
      "fa_purpose r = fa_purpose (ub_row b)" "fa_kind r = fa_kind (ub_row b)"
      "fa_content_type r = fa_content_type (ub_row b)"
proof -
  let ?key = "fa_storage_key (ub_row b)"
  let ?x = "(ub_row b)\<lparr>fa_status := DELETING, fa_updated_at := clk 0\<rparr>"
  have lost: "releaseFailedUpload (fa_id (ub_row b)) (clk 0) (w\<lparr>objects := objs\<rparr>) =
      w\<lparr>file_assets := rows @ [?x], objects := objs\<rparr>" for objs
    using update_own_row(1) [OF assms(1,2)] assms(2) by (simp add: releaseFailedUpload_def update_files_def assms(3))
  note defs = storeAndFinish_def Let_def putObject_def
  show thesis
  proof (cases "uploadContent b processed")
    case (Inl e)
    then show thesis
      using lost [of "objects w"] by (intro failed [where x = ?x and objs = "objects w"]) (simp_all add: defs pair_of_def)
  next
    case content: (Inr content)
    show thesis
    proof (cases put)
      case (NotStored partly)
      then show thesis
        using content lost [of "objects w"] lost [of "(objects w)(?key \<mapsto> content)"]
        by (intro failed [where x = ?x and objs = "if partly then (objects w)(?key \<mapsto> content) else objects w"])
          (cases partly; simp add: defs pair_of_def)+
    next
      case Stored
      have rows: "file_assets (w\<lparr>objects := (objects w)(?key \<mapsto> content)\<rparr>) = rows @ [ub_row b]"
        by (simp add: assms(3))
      obtain r where r: "finishUpload cfg (ub_row b) processed removed (\<lambda>i. clk (1 + i))
          (w\<lparr>objects := (objects w)(?key \<mapsto> content)\<rparr>) =
          (Inr r, w\<lparr>objects := (objects w)(?key \<mapsto> content), file_assets := rows @ [r]\<rparr>)"
        "fa_status r = READY" "pair_of r = pair_of (ub_row b)" "fa_uploaded_by r = fa_uploaded_by (ub_row b)"
        "fa_purpose r = fa_purpose (ub_row b)" "fa_kind r = fa_kind (ub_row b)"
        "fa_content_type r = fa_content_type (ub_row b)"
        by (rule finish_own_row [OF assms(1,2) rows, of cfg processed removed "\<lambda>i. clk (1 + i)"])
          (rule that, assumption+)
      have "w\<lparr>objects := objs, file_assets := rows'\<rparr> = w\<lparr>file_assets := rows', objects := objs\<rparr>" for objs rows'
        by simp
      then show thesis
        using r(1) r(3) by (intro stored [OF _ content r(2-7)]) (simp add: defs content Stored pair_of_def)
    qed
  qed
qed

lemma upload_content:
  assumes "uploadContent b processed = Inr content"
  shows "so_content_type content = at_content_type (ub_accepted b)" and "so_body content = pf_body processed"
    and "\<exists>rest. so_content_disposition content = code_points (disposition_value
      (if at_kind (ub_accepted b) = IMAGE_KIND then INLINE else ATTACHMENT)) @ rest"
  using assms by (auto simp: uploadContent_def bindE_Inr_iff buildContentDisposition_def Let_def)

lemma identify_Inr:
  "identify detected policy = Inr t \<Longrightarrow> t \<in> set (pp_accepted policy) \<and> detected = Some (at_content_type t)"
  by (auto simp: identify_def split: option.splits dest!: find_SomeD)

text \<open>C31: an upload that succeeds took a file within the size limits of an uploader below the quota, of a type
  the purpose accepts as its bytes were detected, whatever the client called it; its ready row is
  the caller's and is the only change to the table, and the object stored under its key has that type.
  A document is stored byte for byte and is served as a download only.\<close>

theorem upload_stores_accepted_file:
  assumes "upload cfg nfc sharp upl detected purpose actor newId uuid put removed clk w = (Inr r, w')"
  shows "uf_size upl \<le> min (pp_max_bytes (FILE_PURPOSE_POLICIES purpose)) (fc_max_upload_bytes cfg) \<and>
    count_where (quotaWhere actor (clk 0)) (file_assets w) < MAX_UNATTACHED_FILES_PER_USER \<and>
    file_assets w' = file_assets w @ [r] \<and> fa_status r = READY \<and> fa_uploaded_by r = actor \<and>
    fa_purpose r = purpose \<and> detected = Some (fa_content_type r) \<and>
    (\<exists>t \<in> set (pp_accepted (FILE_PURPOSE_POLICIES purpose)).
       fa_content_type r = at_content_type t \<and> fa_kind r = at_kind t) \<and>
    (\<exists>content rest. objects w' = (objects w)(fa_storage_key r \<mapsto> content) \<and>
       so_content_type content = fa_content_type r \<and>
       (fa_kind r = DOCUMENT_KIND \<longrightarrow> so_body content = uf_buffer upl \<and>
          so_content_disposition content = code_points ''attachment'' @ rest))"
proof -
  obtain b w1 processed where begun: "beginUpload cfg nfc upl detected purpose actor newId uuid clk w = Inr (b, w1)"
    and processed: "process_file sharp (uf_buffer upl) (ub_accepted b) (ub_policy b) = Inr processed"
    and rest: "storeAndFinish cfg b processed put removed (\<lambda>i. clk (3 + i)) w1 = (Inr r, w')"
    using assms by (auto simp: upload_def split: sum.splits)
  note b = begin_row [OF begun]
  have rows: "\<forall>r \<in> set (file_assets w). fa_id r \<noteq> fa_id (ub_row b)" "file_assets w1 = file_assets w @ [ub_row b]"
    using b(1,3,12) by simp_all
  obtain content where w': "w' = w1\<lparr>file_assets := file_assets w @ [r], objects := (objects w1)(fa_storage_key r \<mapsto> content)\<rparr>"
    and content: "uploadContent b processed = Inr content"
    and r: "fa_status r = READY" "fa_uploaded_by r = actor" "fa_purpose r = purpose"
      "fa_kind r = at_kind (ub_accepted b)" "fa_content_type r = at_content_type (ub_accepted b)"
    by (rule storeAndFinish_cases [OF rows(1) b(2) rows(2), of cfg processed put removed "\<lambda>i. clk (3 + i)"])
      (use rest b in \<open>auto simp: rest\<close>)
  have body: "at_kind (ub_accepted b) = DOCUMENT_KIND \<longrightarrow> pf_body processed = uf_buffer upl"
    using processed by (auto simp: process_file_def)
  obtain tail where "so_content_disposition content = code_points (disposition_value
      (if at_kind (ub_accepted b) = IMAGE_KIND then INLINE else ATTACHMENT)) @ tail"
    using upload_content(3) [OF content] by blast
  then have served: "fa_kind r = DOCUMENT_KIND \<longrightarrow> so_body content = uf_buffer upl \<and>
      so_content_disposition content = code_points ''attachment'' @ tail"
    using body upload_content(2) [OF content] r(4) by auto
  have "detected = Some (fa_content_type r)" "\<exists>t \<in> set (pp_accepted (FILE_PURPOSE_POLICIES purpose)).
       fa_content_type r = at_content_type t \<and> fa_kind r = at_kind t"
    using identify_Inr [OF b(7)] b(6) r(4,5) by auto
  then show ?thesis
    using b(1,10,11) r served upload_content(1) [OF content] w' by auto
qed

text \<open>C32: an upload that fails leaves nothing to attach.  Refused before its row, it changes nothing; refused
  after, its row is on its way out and no object but its own was touched.\<close>

theorem failed_upload_leaves_nothing:
  assumes "upload cfg nfc sharp upl detected purpose actor newId uuid put removed clk w = (Inl e, w')"
  shows "w' = w \<or> (\<exists>x objs. w' = w\<lparr>file_assets := file_assets w @ [x], objects := objs\<rparr> \<and>
    fa_id x = newId \<and> fa_status x = DELETING \<and> (\<forall>k. k \<noteq> fa_storage_key x \<longrightarrow> objs k = objects w k))"
proof (cases "beginUpload cfg nfc upl detected purpose actor newId uuid clk w")
  case (Inl e')
  then show ?thesis using assms by (simp add: upload_def)
next
  case (Inr p)
  then obtain b w1 where begun: "beginUpload cfg nfc upl detected purpose actor newId uuid clk w = Inr (b, w1)"
    by (cases p) simp
  note b = begin_row [OF begun]
  have rows: "\<forall>r \<in> set (file_assets w). fa_id r \<noteq> fa_id (ub_row b)" "file_assets w1 = file_assets w @ [ub_row b]"
    using b(1,3,12) by simp_all
  show ?thesis
  proof (cases "process_file sharp (uf_buffer upl) (ub_accepted b) (ub_policy b)")
    case (Inl e')
    let ?x = "(ub_row b)\<lparr>fa_status := DELETING, fa_updated_at := clk 2\<rparr>"
    have "w' = w\<lparr>file_assets := file_assets w @ [?x]\<rparr>"
      using assms begun Inl b(1) update_own_row(1) [OF rows(1) b(2)] b(2)
      by (auto simp: upload_def releaseFailedUpload_def update_files_def)
    then have "w' = w\<lparr>file_assets := file_assets w @ [?x], objects := objects w\<rparr>" by simp
    then show ?thesis using b(3) by (intro disjI2 exI [of _ ?x] exI [of _ "objects w"]) simp
  next
    case (Inr processed)
    then have rest: "storeAndFinish cfg b processed put removed (\<lambda>i. clk (3 + i)) w1 = (Inl e, w')"
      using assms begun by (simp add: upload_def)
    show ?thesis
    proof (rule storeAndFinish_cases [OF rows(1) b(2) rows(2), of cfg processed put removed "\<lambda>i. clk (3 + i)"])
      fix x objs assume x: "storeAndFinish cfg b processed put removed (\<lambda>i. clk (3 + i)) w1 =
          (Inl (externalServiceUnavailable ''File storage is unavailable. Please try again.''),
           w1\<lparr>file_assets := file_assets w @ [x], objects := objs\<rparr>)"
        "fa_status x = DELETING" "pair_of x = pair_of (ub_row b)"
        "\<forall>k. k \<noteq> fa_storage_key x \<longrightarrow> objs k = objects w1 k"
      then show ?thesis
        using rest b(1,3) by (intro disjI2 exI [of _ x] exI [of _ objs]) (simp add: pair_of_def)
    qed (use rest in simp)
  qed
qed

section \<open>Attaching\<close>

text \<open>An attach succeeds exactly for the caller's own file of the asked purpose that is ready and
  unexpired, and then it is attached as of that moment.  For a file of somebody else, of another purpose or
  of no existence the answer is the same not-found; for the caller's own it is that it cannot be
  attached any more.\<close>

theorem claim_answers:
  fixes i :: ident and actor :: ident and purpose :: file_purpose and now :: time
  assumes "distinct (map fa_id (file_assets w))"
  defines "own \<equiv> \<lambda>r. fa_id r = i \<and> fa_uploaded_by r = actor \<and> fa_purpose r = purpose"
  defines "fresh \<equiv> \<lambda>r. fa_status r = READY \<and> (case fa_expires_at r of None \<Rightarrow> False | Some t \<Rightarrow> now < t)"
  shows "case claimForAttachment i actor purpose now w of
      Inl e \<Rightarrow> \<not> (\<exists>r \<in> set (file_assets w). own r \<and> fresh r) \<and>
        e = (if \<exists>r \<in> set (file_assets w). own r then fileNotAttachable else resourceNotFound ''File'' None)
    | Inr (r, w') \<Rightarrow> \<exists>x \<in> set (file_assets w). own x \<and> fresh x \<and>
        r = x\<lparr>fa_status := ATTACHED, fa_attached_at := Some now, fa_expires_at := None, fa_updated_at := now\<rparr> \<and>
        file_assets w' = update_where (\<lambda>r. own r \<and> fresh r) (\<lambda>_. r) (file_assets w)"
proof -
  let ?attach = "\<lambda>x. x\<lparr>fa_status := ATTACHED, fa_attached_at := Some now, fa_expires_at := None, fa_updated_at := now\<rparr>"
  have mine: "(\<lambda>r. fa_id r = i \<and> fa_uploaded_by r = actor \<and> fa_purpose r = purpose \<and>
      fa_status r = READY \<and> (case fa_expires_at r of None \<Rightarrow> False | Some t \<Rightarrow> now < t)) = (\<lambda>r. own r \<and> fresh r)"
    by (auto simp: own_def fresh_def)
  have own_eq: "(\<lambda>r. fa_id r = i \<and> fa_uploaded_by r = actor \<and> fa_purpose r = purpose) = own"
    by (simp add: own_def)
  have one: "x = y" if "x \<in> set (file_assets w)" "y \<in> set (file_assets w)" "own x" "own y" for x y
    using distinct_key [OF assms(1) that(1,2)] that(3,4) by (simp add: own_def)
  show ?thesis
  proof (cases "\<exists>r \<in> set (file_assets w). own r \<and> fresh r")
    case True
    then obtain x where x: "x \<in> set (file_assets w)" "own x" "fresh x" by blast
    have "count_where (\<lambda>r. own r \<and> fresh r) (file_assets w) \<le> 1"
      by (rule count_where_le_1 [OF assms(1), where a = i]) (simp add: own_def)
    moreover have "0 < count_where (\<lambda>r. own r \<and> fresh r) (file_assets w)"
      using x by (auto simp: count_where_pos)
    ultimately have count: "count_where (\<lambda>r. own r \<and> fresh r) (file_assets w) = 1" by simp
    have rows: "update_where (\<lambda>r. own r \<and> fresh r) ?attach (file_assets w) =
        update_where (\<lambda>r. own r \<and> fresh r) (\<lambda>_. ?attach x) (file_assets w)"
      using one x by (auto simp: update_where_def)
    have "find (\<lambda>r. fa_id r = i) (update_where (\<lambda>r. own r \<and> fresh r) ?attach (file_assets w)) = Some (?attach x)"
      using find_key [OF assms(1) x(1)] x(2,3) by (subst find_update_where) (simp_all add: own_def)
    then have "claimForAttachment i actor purpose now w =
        Inr (?attach x, w\<lparr>file_assets := update_where (\<lambda>r. own r \<and> fresh r) ?attach (file_assets w)\<rparr>)"
      unfolding claimForAttachment_def mine by (simp add: update_files_def count)
    then show ?thesis using x rows by auto
  next
    case False
    then have "count_where (\<lambda>r. own r \<and> fresh r) (file_assets w) = 0" by simp
    moreover have "update_where (\<lambda>r. own r \<and> fresh r) f (file_assets w) = file_assets w" for f
      using False by (intro update_where_none) blast
    ultimately have "claimForAttachment i actor purpose now w =
        (case find own (file_assets w) of None \<Rightarrow> Inl (resourceNotFound ''File'' None)
         | Some _ \<Rightarrow> Inl fileNotAttachable)"
      unfolding claimForAttachment_def mine unfolding own_eq
      by (simp add: update_files_def del: count_where_0)
    then show ?thesis using False by (auto split: option.splits dest: find_SomeD find_NoneD)
  qed
qed

end
