(* ===== verification/File_Cleanup.thy ===== *)
theory File_Cleanup
  imports File_Machine
begin

text \<open>
  A cleanup run: whatever the provider and the database answer, it touches only files that are expired,
  abandoned or already released; when they answer, it removes all of those that fit one batch; and when the
  provider is down it gives up after five calls.
\<close>

section \<open>The delete loop\<close>

definition in_use :: "file_row \<Rightarrow> bool" where
  "in_use r \<longleftrightarrow> fa_status r \<noteq> DELETING"

lemma removeRow_simps:
  "file_assets (snd (removeRow i w)) = filter (\<lambda>r. \<not> (fa_id r = i \<and> fa_status r = DELETING)) (file_assets w)"
  "objects (snd (removeRow i w)) = objects w"
  "fst (removeRow i w) = count_where (\<lambda>r. fa_id r = i \<and> fa_status r = DELETING) (file_assets w)"
  by (simp_all add: removeRow_def Let_def)

lemma in_use_removeRow: "filter in_use (file_assets (snd (removeRow i w))) = filter in_use (file_assets w)"
  by (auto simp: removeRow_simps in_use_def intro!: filter_cong)

lemma in_use_recordFailedDelete:
  "filter in_use (file_assets (recordFailedDelete i now w)) = filter in_use (file_assets w)"
proof -
  have "filter in_use (update_where (\<lambda>r. fa_id r = i \<and> fa_status r = DELETING)
      (\<lambda>r. r\<lparr>fa_delete_attempts := Suc (fa_delete_attempts r), fa_updated_at := now\<rparr>) rows) =
      filter in_use rows" for rows
    by (induction rows) (simp_all add: in_use_def)
  then show ?thesis by (simp add: recordFailedDelete_def update_files_def)
qed

lemma deleteObject_simps [simp]:
  "file_assets (deleteObject k w) = file_assets w" "objects (deleteObject k w) = (objects w)(k := None)"
  by (simp_all add: deleteObject_def)

lemma recordFailedDelete_objects [simp]: "objects (recordFailedDelete i now w) = objects w"
  by (simp add: recordFailedDelete_def update_files_def)

lemma cleanLoop_spares:
  "cleanLoop clk s outcome i d f c rs w = (counts, w') \<Longrightarrow>
   filter in_use (file_assets w') = filter in_use (file_assets w) \<and>
   (\<forall>k. k \<notin> fa_storage_key ` set rs \<longrightarrow> objects w' k = objects w k)"
proof (induction rs arbitrary: i d f c w)
  case (Cons r rs)
  show ?case
  proof (cases "clk i - s > CLEANUP_TIME_BUDGET_MILLISECONDS \<or> c \<ge> CLEANUP_CONSECUTIVE_FAILURE_LIMIT")
    case True
    then show ?thesis using Cons.prems by simp
  next
    case go: False
    show ?thesis
    proof (cases "outcome i")
      case Deleted
      obtain n v where v: "removeRow (fa_id r) (deleteObject (fa_storage_key r) w) = (n, v)"
        by (cases "removeRow (fa_id r) (deleteObject (fa_storage_key r) w)")
      have "filter in_use (file_assets v) = filter in_use (file_assets w)"
        "objects v = (objects w)(fa_storage_key r := None)"
        using in_use_removeRow [of "fa_id r" "deleteObject (fa_storage_key r) w"]
          removeRow_simps(2) [of "fa_id r" "deleteObject (fa_storage_key r) w"] by (simp_all add: v)
      then show ?thesis using Cons.IH [of "Suc i" "d + n" f 0 v] Cons.prems go Deleted v by simp
    next
      case StorageFailed
      then show ?thesis
        using Cons.IH [of "Suc i" d "Suc f" "Suc c" "recordFailedDelete (fa_id r) (clk i) w"] Cons.prems go
        by (simp add: in_use_recordFailedDelete)
    next
      case StillReferenced
      then show ?thesis
        using Cons.IH [of "Suc i" d "Suc f" "Suc c"
            "recordFailedDelete (fa_id r) (clk i) (deleteObject (fa_storage_key r) w)"] Cons.prems go
        by (simp add: in_use_recordFailedDelete)
    qed
  qed
qed simp

lemma claimExpired_rows:
  assumes "claimExpired now writtenAt w = (n, w')"
  shows "n = count_where (claimable now) (file_assets w)" and "objects w' = objects w"
    and "filter in_use (file_assets w') = filter (\<lambda>r. in_use r \<and> \<not> claimable now r) (file_assets w)"
    and "map pair_of (filter (\<lambda>r. \<not> in_use r) (file_assets w')) =
      map pair_of (filter (\<lambda>r. \<not> in_use r \<or> claimable now r) (file_assets w))"
    and "map pair_of (file_assets w') = map pair_of (file_assets w)"
proof -
  let ?f = "\<lambda>r. r\<lparr>fa_status := DELETING, fa_expires_at := None, fa_updated_at := writtenAt\<rparr>"
  have w': "n = count_where (claimable now) (file_assets w)"
    "w' = w\<lparr>file_assets := update_where (claimable now) ?f (file_assets w)\<rparr>"
    using assms by (auto simp: claimExpired_def update_files_def)
  have "filter in_use (update_where (claimable now) ?f rows) = filter (\<lambda>r. in_use r \<and> \<not> claimable now r) rows"
    "map pair_of (filter (\<lambda>r. \<not> in_use r) (update_where (claimable now) ?f rows)) =
      map pair_of (filter (\<lambda>r. \<not> in_use r \<or> claimable now r) rows)"
    "map pair_of (update_where (claimable now) ?f rows) = map pair_of rows" for rows
    by (induction rows) (auto simp: in_use_def pair_of_def)
  then show "n = count_where (claimable now) (file_assets w)" "objects w' = objects w"
    "filter in_use (file_assets w') = filter (\<lambda>r. in_use r \<and> \<not> claimable now r) (file_assets w)"
    "map pair_of (filter (\<lambda>r. \<not> in_use r) (file_assets w')) =
      map pair_of (filter (\<lambda>r. \<not> in_use r \<or> claimable now r) (file_assets w))"
    "map pair_of (file_assets w') = map pair_of (file_assets w)"
    using w' by simp_all
qed

section \<open>Safety\<close>

text \<open>C33: a cleanup run leaves every file alone that is attached, ready and unexpired, or being uploaded by a
  request that may still be alive: whatever the provider and the database answer, those rows are the ones
  in use afterwards, and no object but those of expired, abandoned and released files is touched.\<close>

theorem cleanup_spares_files_in_use:
  assumes "cleanUp now clk outcome w = (result, w')"
  shows "filter in_use (file_assets w') = filter (\<lambda>r. in_use r \<and> \<not> claimable now r) (file_assets w) \<and>
    (\<forall>k. objects w' k \<noteq> objects w k \<longrightarrow>
       (\<exists>r \<in> set (file_assets w). fa_storage_key r = k \<and> (\<not> in_use r \<or> claimable now r)))"
proof -
  obtain n w1 where claim: "claimExpired now (clk 0) w = (n, w1)" by (cases "claimExpired now (clk 0) w")
  obtain counts where loop: "cleanLoop (\<lambda>i. clk (2 + i)) (clk 1) outcome 0 0 0 0 (cleanupBatch w1) w1 = (counts, w')"
    using assms claim by (auto simp: cleanUp_def split: prod.splits)
  note c = claimExpired_rows [OF claim]
  have "\<exists>r \<in> set (file_assets w). fa_storage_key r = k \<and> (\<not> in_use r \<or> claimable now r)"
    if k: "objects w' k \<noteq> objects w k" for k
  proof -
    obtain r where r: "r \<in> set (cleanupBatch w1)" "fa_storage_key r = k"
      using cleanLoop_spares [OF loop] k c(2) by force
    have "pair_of r \<in> set (map pair_of (filter (\<lambda>r. \<not> in_use r) (file_assets w1)))"
      using cleanupBatch_doomed [OF r(1)] by (auto simp: in_use_def)
    then have "pair_of r \<in> set (map pair_of (filter (\<lambda>r. \<not> in_use r \<or> claimable now r) (file_assets w)))"
      unfolding c(4) .
    then show ?thesis using r(2) by (auto simp: pair_of_def)
  qed
  then show ?thesis using cleanLoop_spares [OF loop] c(3) by simp
qed

section \<open>Progress\<close>

lemma cleanLoop_all:
  assumes "\<And>j. clk j - s \<le> CLEANUP_TIME_BUDGET_MILLISECONDS" and "\<And>j. outcome j = Deleted"
  shows "snd (cleanLoop clk s outcome i d f 0 rs w) =
    w\<lparr>file_assets := filter (\<lambda>r. \<not> (fa_id r \<in> fa_id ` set rs \<and> fa_status r = DELETING)) (file_assets w),
      objects := (\<lambda>k. if k \<in> fa_storage_key ` set rs then None else objects w k)\<rparr>"
proof (induction rs arbitrary: i d w)
  case Nil
  then show ?case by simp
next
  case (Cons r rs)
  let ?v = "snd (removeRow (fa_id r) (deleteObject (fa_storage_key r) w))"
  have v: "?v = w\<lparr>file_assets := filter (\<lambda>x. \<not> (fa_id x = fa_id r \<and> fa_status x = DELETING)) (file_assets w),
      objects := (objects w)(fa_storage_key r := None)\<rparr>"
    by (simp add: removeRow_def Let_def deleteObject_def)
  have filters: "filter (\<lambda>x. \<not> (fa_id x \<in> fa_id ` set rs \<and> fa_status x = DELETING))
      (filter (\<lambda>x. \<not> (fa_id x = fa_id r \<and> fa_status x = DELETING)) rows) =
      filter (\<lambda>x. \<not> (fa_id x \<in> fa_id ` set (r # rs) \<and> fa_status x = DELETING)) rows" for rows
    by (induction rows) auto
  have "snd (cleanLoop clk s outcome i d f 0 (r # rs) w) =
      snd (cleanLoop clk s outcome (Suc i)
        (d + fst (removeRow (fa_id r) (deleteObject (fa_storage_key r) w))) f 0 rs ?v)"
    using assms(1) [of i] assms(2)
    by (simp add: not_less [symmetric] CLEANUP_CONSECUTIVE_FAILURE_LIMIT_def split: prod.splits)
  also have "\<dots> = ?v\<lparr>file_assets := filter (\<lambda>x. \<not> (fa_id x \<in> fa_id ` set rs \<and> fa_status x = DELETING)) (file_assets ?v),
      objects := (\<lambda>k. if k \<in> fa_storage_key ` set rs then None else objects ?v k)\<rparr>"
    by (rule Cons.IH)
  also have "\<dots> = w\<lparr>file_assets := filter (\<lambda>x. \<not> (fa_id x \<in> fa_id ` set (r # rs) \<and> fa_status x = DELETING)) (file_assets w),
      objects := (\<lambda>k. if k \<in> fa_storage_key ` set (r # rs) then None else objects w k)\<rparr>"
    unfolding v by (intro file_world.equality) (use filters in \<open>simp_all add: fun_eq_iff\<close>)
  finally show ?case .
qed

lemma set_cleanupBatch:
  assumes "count_where (\<lambda>r. \<not> in_use r) (file_assets w) \<le> CLEANUP_BATCH_SIZE"
  shows "set (cleanupBatch w) = {r \<in> set (file_assets w). \<not> in_use r}"
  using assms by (simp add: cleanupBatch_def count_where_def in_use_def)

text \<open>C34: a run that gets its answers finishes the work that fits one batch.  With at most 200 files to go and
  the provider and the database answering in time, every expired, abandoned and released row is gone
  with its object, and the rest is as it was.\<close>

theorem cleanup_removes_expired:
  assumes "\<And>i. clk (2 + i) - clk 1 \<le> CLEANUP_TIME_BUDGET_MILLISECONDS" and "\<And>i. outcome i = Deleted"
    and "count_where (\<lambda>r. \<not> in_use r \<or> claimable now r) (file_assets w) \<le> CLEANUP_BATCH_SIZE"
  shows "file_assets (snd (cleanUp now clk outcome w)) =
      filter (\<lambda>r. in_use r \<and> \<not> claimable now r) (file_assets w) \<and>
    objects (snd (cleanUp now clk outcome w)) =
      (\<lambda>k. if k \<in> fa_storage_key ` {r \<in> set (file_assets w). \<not> in_use r \<or> claimable now r} then None
           else objects w k)"
proof -
  obtain n w1 where claim: "claimExpired now (clk 0) w = (n, w1)" by (cases "claimExpired now (clk 0) w")
  note c = claimExpired_rows [OF claim]
  have "count_where (\<lambda>r. \<not> in_use r) (file_assets w1) =
      count_where (\<lambda>r. \<not> in_use r \<or> claimable now r) (file_assets w)"
    using arg_cong [OF c(4), of length] by (simp add: count_where_def)
  then have batch: "set (cleanupBatch w1) = {r \<in> set (file_assets w1). \<not> in_use r}"
    using set_cleanupBatch assms(3) by simp
  have "snd (cleanUp now clk outcome w) =
      snd (cleanLoop (\<lambda>i. clk (2 + i)) (clk 1) outcome 0 0 0 0 (cleanupBatch w1) w1)"
    by (simp add: cleanUp_def claim split: prod.splits)
  then have result: "snd (cleanUp now clk outcome w) = w1\<lparr>file_assets :=
        filter (\<lambda>r. \<not> (fa_id r \<in> fa_id ` {r \<in> set (file_assets w1). \<not> in_use r} \<and> fa_status r = DELETING)) (file_assets w1),
      objects := (\<lambda>k. if k \<in> fa_storage_key ` {r \<in> set (file_assets w1). \<not> in_use r} then None else objects w1 k)\<rparr>"
    using cleanLoop_all [of "\<lambda>i. clk (2 + i)" "clk 1" outcome, OF assms(1,2)] by (simp add: batch)
  have "filter (\<lambda>r. \<not> (fa_id r \<in> fa_id ` {r \<in> set (file_assets w1). \<not> in_use r} \<and> fa_status r = DELETING)) (file_assets w1) =
      filter in_use (file_assets w1)"
    by (rule filter_cong) (auto simp: in_use_def)
  moreover have "fa_storage_key ` {r \<in> set (file_assets w1). \<not> in_use r} =
      fa_storage_key ` {r \<in> set (file_assets w). \<not> in_use r \<or> claimable now r}"
    using arg_cong [OF c(4), of "\<lambda>xs. snd ` set xs"] by (simp add: image_image pair_of_def)
  ultimately show ?thesis using result c(3) unfolding c(2) by simp
qed

lemma cleanLoop_down:
  assumes "\<And>j. clk j - s \<le> CLEANUP_TIME_BUDGET_MILLISECONDS" and "\<And>j. outcome j = StorageFailed"
  shows "fst (cleanLoop clk s outcome i d f c rs w) =
      (d, f + min (CLEANUP_CONSECUTIVE_FAILURE_LIMIT - c) (length rs))"
    and "objects (snd (cleanLoop clk s outcome i d f c rs w)) = objects w"
    and "map pair_of (file_assets (snd (cleanLoop clk s outcome i d f c rs w))) = map pair_of (file_assets w)"
proof (induction rs arbitrary: i f c w)
  case (Cons r rs)
  have pairs: "map pair_of (file_assets (recordFailedDelete (fa_id r) (clk i) w)) = map pair_of (file_assets w)" for i w
    by (simp add: recordFailedDelete_def update_files_def map_update_where pair_of_def)
  have in_time: "\<not> CLEANUP_TIME_BUDGET_MILLISECONDS < clk i - s" for i using assms(1) [of i] by simp
  { case 1 then show ?case using in_time assms(2) Cons.IH(1) by (auto simp: min_def) }
  { case 2 then show ?case using in_time assms(2) Cons.IH(2) by simp }
  { case 3 then show ?case using in_time assms(2) Cons.IH(3) pairs by simp }
qed simp_all

text \<open>A run against a provider that is down gives up after five calls and loses nothing: five deletes at
  most are counted as failed and none as done, every object is still there, and so is every row with its
  key, for the next run.\<close>

theorem cleanup_gives_up_on_outage:
  assumes "\<And>i. clk (2 + i) - clk 1 \<le> CLEANUP_TIME_BUDGET_MILLISECONDS" and "\<And>i. outcome i = StorageFailed"
    and "cleanUp now clk outcome w = (result, w')"
  shows "cr_failed result \<le> 5 \<and> cr_deleted result = 0 \<and> objects w' = objects w \<and>
    map pair_of (file_assets w') = map pair_of (file_assets w)"
proof -
  obtain n w1 where claim: "claimExpired now (clk 0) w = (n, w1)" by (cases "claimExpired now (clk 0) w")
  let ?run = "cleanLoop (\<lambda>i. clk (2 + i)) (clk 1) outcome 0 0 0 0 (cleanupBatch w1) w1"
  have "result = \<lparr>cr_released = n, cr_deleted = fst (fst ?run), cr_failed = snd (fst ?run)\<rparr>" "w' = snd ?run"
    using assms(3) claim by (auto simp: cleanUp_def split: prod.splits)
  then show ?thesis
    using cleanLoop_down [of "\<lambda>i. clk (2 + i)" "clk 1" outcome 0 0 0 0 "cleanupBatch w1" w1, OF assms(1,2)]
      claimExpired_rows(2,5) [OF claim]
    by (simp add: CLEANUP_CONSECUTIVE_FAILURE_LIMIT_def)
qed

end
