(* ===== verification/File_Name_Properties.thy ===== *)
theory File_Name_Properties
  imports File_Names
begin

text \<open>
  What the names promise: a display name carries nothing harmful when it is echoed, the
  \<open>Content-Disposition\<close> header it is put in stays one well-formed line, and its percent-encoded half
  decodes to the name.
\<close>

section \<open>Display names\<close>

lemma set_js_trim: "set (js_trim xs) \<subseteq> set xs"
  unfolding js_trim_def by (auto dest!: set_dropWhileD)

lemma length_js_trim: "length (js_trim xs) \<le> length xs"
  unfolding js_trim_def using length_dropWhile_le by (metis le_trans length_rev)

lemma set_last_segment: "c \<in> set (last_segment xs) \<Longrightarrow> c \<in> set xs \<and> \<not> path_separator c"
  unfolding last_segment_def by (auto dest: set_takeWhileD)

definition safe_character :: "nat \<Rightarrow> bool" where
  "safe_character c \<longleftrightarrow> \<not> path_separator c \<and> \<not> UNSAFE_CHARACTERS c"

lemma safe_literal: "\<forall>c \<in> set (code_points ''file''). safe_character c"
  by (simp add: code_points_def safe_character_def path_separator_def UNSAFE_CHARACTERS_def)

text \<open>The stem is cut from the cleaned name, and both are trimmed: its characters are the cleaned name's.\<close>

lemma sanitized_shape:
  obtains stem where "sanitizeFileName nfc name extension = stem @ [46] @ extension"
    "stem = code_points ''file'' \<or>
     stem \<noteq> [] \<and> set stem \<subseteq> {c \<in> set (nfc (last_segment (case name of None \<Rightarrow> [] | Some x \<Rightarrow> x))). \<not> UNSAFE_CHARACTERS c}"
    "length stem \<le> MAXIMUM_BASE_NAME_LENGTH"
proof -
  let ?cleaned = "js_trim (filter (\<lambda>c. \<not> UNSAFE_CHARACTERS c)
      (nfc (last_segment (case name of None \<Rightarrow> [] | Some x \<Rightarrow> x))))"
  define stem where "stem = (case last_index_of 46 ?cleaned of None \<Rightarrow> ?cleaned
      | Some dotIndex \<Rightarrow> (if dotIndex > 0 then take dotIndex ?cleaned else ?cleaned))"
  define base where "base = js_trim (take MAXIMUM_BASE_NAME_LENGTH stem)"
  have "set stem \<subseteq> set ?cleaned"
    unfolding stem_def by (auto split: option.splits if_splits dest: in_set_takeD)
  moreover have "set base \<subseteq> set stem"
    unfolding base_def using set_js_trim by (auto dest: in_set_takeD)
  ultimately have chars: "set base \<subseteq> {c \<in> set (nfc (last_segment (case name of None \<Rightarrow> [] | Some x \<Rightarrow> x))).
      \<not> UNSAFE_CHARACTERS c}"
    using set_js_trim by fastforce
  have len: "length base \<le> MAXIMUM_BASE_NAME_LENGTH"
    unfolding base_def using length_js_trim [of "take MAXIMUM_BASE_NAME_LENGTH stem"] by simp
  have whole: "sanitizeFileName nfc name extension =
      (if base = [] then code_points ''file'' else base) @ [46] @ extension"
    unfolding sanitizeFileName_def Let_def base_def stem_def by simp
  show thesis
    by (rule that [OF whole])
      (use chars len in \<open>auto simp: MAXIMUM_BASE_NAME_LENGTH_def code_points_def\<close>)
qed

text \<open>Whatever name a client sends, the display name has no path separator, control character or
  bidirectional override in it beyond what the server's own extension has.  The Unicode normalisation is
  used only as one that introduces no path separator.\<close>

theorem sanitized_name_is_safe:
  assumes "\<And>xs. path_separator c \<Longrightarrow> c \<notin> set xs \<Longrightarrow> c \<notin> set (nfc xs)"
    and "c \<in> set (sanitizeFileName nfc name extension)" and "c \<notin> set extension"
  shows "safe_character c"
proof -
  obtain stem where stem: "sanitizeFileName nfc name extension = stem @ [46] @ extension"
    "stem = code_points ''file'' \<or>
     stem \<noteq> [] \<and> set stem \<subseteq> {c \<in> set (nfc (last_segment (case name of None \<Rightarrow> [] | Some x \<Rightarrow> x))). \<not> UNSAFE_CHARACTERS c}"
    by (rule sanitized_shape)
  then consider "c = 46" | "c \<in> set stem" using assms(2,3) by auto
  then show ?thesis
  proof cases
    case 1
    then show ?thesis by (simp add: safe_character_def path_separator_def UNSAFE_CHARACTERS_def)
  next
    case 2
    show ?thesis
    proof (cases "stem = code_points ''file''")
      case True
      with 2 safe_literal show ?thesis by blast
    next
      case False
      then have "c \<in> set (nfc (last_segment (case name of None \<Rightarrow> [] | Some x \<Rightarrow> x)))" "\<not> UNSAFE_CHARACTERS c"
        using stem(2) 2 by auto
      then show ?thesis
        using assms(1) set_last_segment unfolding safe_character_def by blast
    qed
  qed
qed

section \<open>The header\<close>

text \<open>A reference decoder: percent triples to bytes, every other character to itself.\<close>

definition hex_value :: "nat \<Rightarrow> nat option" where
  "hex_value c =
     (if 48 \<le> c \<and> c \<le> 57 then Some (c - 48) else if 65 \<le> c \<and> c \<le> 70 then Some (c - 55) else None)"

fun percent_decode :: "utext \<Rightarrow> nat list option" where
  "percent_decode [] = Some []"
| "percent_decode (c # cs) =
     (if c \<noteq> 37 then map_option (Cons c) (percent_decode cs)
      else (case cs of
              a # b # ds \<Rightarrow>
                (case (hex_value a, hex_value b) of
                   (Some x, Some y) \<Rightarrow> map_option (Cons (16 * x + y)) (percent_decode ds)
                 | _ \<Rightarrow> None)
            | _ \<Rightarrow> None))"

lemma hex_value_digit: "n < 16 \<Longrightarrow> hex_value (hex_digit n) = Some n"
  by (auto simp: hex_value_def hex_digit_def)

lemma percent_decode_percent:
  "b < 256 \<Longrightarrow> percent_decode (percent b @ xs) = map_option (Cons b) (percent_decode xs)"
  by (simp add: percent_def hex_value_digit)

lemma utf8_byte: "b \<in> set (utf8 c) \<Longrightarrow> c < 0x110000 \<Longrightarrow> b < 256"
  by (auto simp: utf8_def split: if_splits)

lemma percent_decode_bytes:
  "\<forall>b \<in> set bs. b < 256 \<Longrightarrow>
   percent_decode (concat (map percent bs) @ xs) = map_option ((@) bs) (percent_decode xs)"
  by (induction bs; cases "percent_decode xs") (simp_all add: percent_decode_percent)

lemma percent_decode_plain:
  "37 \<notin> set ys \<Longrightarrow> percent_decode (ys @ xs) = map_option ((@) ys) (percent_decode xs)"
  by (induction ys; cases "percent_decode xs") simp_all

text \<open>One code point of the name in the header: what \<open>encodeURIComponent\<close> and the escapes make of it.\<close>

definition attr_char :: "nat \<Rightarrow> bool" where
  "attr_char c \<longleftrightarrow> alphanumeric c \<or> c \<in> {45, 95, 46, 126}"

lemma attr_char_utf8: "attr_char c \<Longrightarrow> utf8 c = [c] \<and> c \<noteq> 37"
  by (auto simp: attr_char_def alphanumeric_def utf8_def)

definition encoded_character :: "nat \<Rightarrow> utext" where
  "encoded_character c = (if attr_char c then [c] else concat (map percent (utf8 c)))"

lemma attr_escape_percent:
  assumes "b < 256" shows "concat (map attr_escape (percent b)) = percent b"
proof -
  have digit: "n < 16 \<Longrightarrow> hex_digit n \<notin> {39, 40, 41, 42, 33}" for n
    by (auto simp: hex_digit_def)
  have "b div 16 < 16" using assms by simp
  then show ?thesis
    using digit [of "b div 16"] digit [of "b mod 16"] by (simp add: percent_def attr_escape_def)
qed

lemma attr_escape_bytes:
  "\<forall>b \<in> set bs. b < 256 \<Longrightarrow>
   concat (map attr_escape (concat (map percent bs))) = concat (map percent bs)"
  by (induction bs) (simp_all add: attr_escape_percent)

lemma encoded_one:
  assumes "c < 0x110000"
  shows "concat (map attr_escape (if uri_unescaped c then [c] else concat (map percent (utf8 c)))) =
    encoded_character c"
proof -
  have bytes: "\<forall>b \<in> set (utf8 c). b < 256" using utf8_byte assms by blast
  consider "attr_char c" | "uri_unescaped c" "\<not> attr_char c" | "\<not> uri_unescaped c" by blast
  then show ?thesis
  proof cases
    case 1
    then have "uri_unescaped c" "c \<notin> {39, 40, 41, 42, 33}"
      by (auto simp: uri_unescaped_def attr_char_def alphanumeric_def)
    then show ?thesis using 1 by (simp add: encoded_character_def attr_escape_def)
  next
    case 2
    then have "c \<in> {39, 40, 41, 42, 33}" by (auto simp: uri_unescaped_def attr_char_def)
    then have "utf8 c = [c]" "attr_escape c = percent c" by (auto simp: utf8_def attr_escape_def)
    then show ?thesis using 2 by (simp add: encoded_character_def)
  next
    case 3
    then have "\<not> attr_char c" by (auto simp: uri_unescaped_def attr_char_def)
    then show ?thesis using 3 attr_escape_bytes [OF bytes] by (simp add: encoded_character_def)
  qed
qed

lemma encoded_all:
  assumes "encodeURIComponent xs = Inr ys" and "\<forall>c \<in> set xs. c < 0x110000"
  shows "concat (map attr_escape ys) = concat (map encoded_character xs)"
proof -
  have "ys = concat (map (\<lambda>c. if uri_unescaped c then [c] else concat (map percent (utf8 c))) xs)"
    using assms(1) by (auto simp: encodeURIComponent_def split: if_splits)
  moreover have "concat (map attr_escape (concat (map (\<lambda>c. if uri_unescaped c then [c]
      else concat (map percent (utf8 c))) xs))) = concat (map encoded_character xs)"
    using assms(2)
  proof (induction xs)
    case (Cons c xs)
    then show ?case using encoded_one [of c] by simp
  qed simp
  ultimately show ?thesis by simp
qed

lemma decode_encoded:
  "\<forall>c \<in> set xs. c < 0x110000 \<Longrightarrow>
   percent_decode (concat (map encoded_character xs)) = Some (concat (map utf8 xs))"
proof (induction xs)
  case (Cons c xs)
  have bytes: "\<forall>b \<in> set (utf8 c). b < 256" using utf8_byte Cons.prems by auto
  have "percent_decode (encoded_character c @ ys) = map_option ((@) (utf8 c)) (percent_decode ys)" for ys
    using attr_char_utf8 [of c] percent_decode_plain [of "[c]" ys] percent_decode_bytes [OF bytes]
    by (cases "attr_char c") (auto simp: encoded_character_def)
  then show ?case using Cons by simp
qed simp

lemma encoded_character_plain:
  assumes "c < 0x110000" and "x \<in> set (encoded_character c)"
  shows "attr_char x \<or> x = 37"
proof (cases "attr_char c")
  case True
  with assms show ?thesis by (simp add: encoded_character_def)
next
  case False
  then obtain b where b: "b \<in> set (utf8 c)" "x \<in> set (percent b)"
    using assms(2) by (auto simp: encoded_character_def)
  have digit: "n < 16 \<Longrightarrow> attr_char (hex_digit n)" for n
    by (auto simp: attr_char_def alphanumeric_def hex_digit_def)
  have "b div 16 < 16" using utf8_byte [OF b(1) assms(1)] by simp
  then show ?thesis using b(2) digit by (auto simp: percent_def)
qed

lemma ascii_fallback_plain: "list_all (\<lambda>c. 0x20 \<le> c \<and> c \<le> 0x7e \<and> c \<noteq> 34 \<and> c \<noteq> 92) (ascii_fallback name)"
proof -
  let ?printable = "concat (map (\<lambda>c. if 0x20 \<le> c \<and> c \<le> 0x7e then [c]
      else if c < 0x10000 then [95] else [95, 95]) name)"
  let ?safe = "map (\<lambda>c. if c = 34 \<or> c = 92 then 95 else c) ?printable"
  have "list_all (\<lambda>c. 0x20 \<le> c \<and> c \<le> 0x7e) ?printable" by (induction name) simp_all
  then have "list_all (\<lambda>c. 0x20 \<le> c \<and> c \<le> 0x7e \<and> c \<noteq> 34 \<and> c \<noteq> 92) ?safe"
    unfolding list.pred_map by (rule list.pred_mono_strong) simp
  moreover have "ascii_fallback name = ?safe \<or> ascii_fallback name = [102, 105, 108, 101]"
    unfolding ascii_fallback_def Let_def by (simp add: code_points_def)
  ultimately show ?thesis by fastforce
qed

text \<open>A file name survives the header it is served with.  For any name made of Unicode scalar values the
  header is built; the quoted half is printable ASCII with no quote or backslash to end it early, and the
  percent-encoded half is RFC 5987 text that decodes to the UTF-8 of the name.\<close>

theorem content_disposition_roundtrip:
  assumes "list_all (\<lambda>c. c < 0x110000 \<and> \<not> surrogate c) name"
  shows "\<exists>plain enc. buildContentDisposition ty name =
      Inr (code_points (disposition_value ty) @ code_points ''; filename='' @ [34] @ plain @ [34] @
           code_points ''; filename*=UTF-8'' @ [39, 39] @ enc) \<and>
    list_all (\<lambda>c. 0x20 \<le> c \<and> c \<le> 0x7e \<and> c \<noteq> 34 \<and> c \<noteq> 92) plain \<and>
    list_all (\<lambda>c. attr_char c \<or> c = 37) enc \<and>
    percent_decode enc = Some (concat (map utf8 name))"
proof -
  let ?enc = "concat (map encoded_character name)"
  have range: "\<forall>c \<in> set name. c < 0x110000" and scalar: "\<not> (\<exists>c \<in> set name. surrogate c)"
    using assms by (auto simp: list_all_iff)
  obtain ys where ys: "encodeURIComponent name = Inr ys"
    using scalar by (auto simp: encodeURIComponent_def)
  then have "concat (map attr_escape ys) = ?enc"
    using encoded_all range by blast
  then have "buildContentDisposition ty name =
      Inr (code_points (disposition_value ty) @ code_points ''; filename='' @ [34] @ ascii_fallback name @ [34] @
           code_points ''; filename*=UTF-8'' @ [39, 39] @ ?enc)"
    by (simp add: buildContentDisposition_def ys)
  moreover have "list_all (\<lambda>c. attr_char c \<or> c = 37) ?enc"
    using encoded_character_plain range by (fastforce simp: list_all_iff)
  ultimately show ?thesis
    using ascii_fallback_plain decode_encoded [OF range] by blast
qed

section \<open>Object names\<close>

text \<open>With a subdirectory from the code, an object name is that subdirectory, a fresh UUID and at most a short
  alphanumeric extension.\<close>

lemma object_name_shape:
  assumes "buildObjectName uuid subdirectory extension = Inr name"
  obtains "name = uuid @ sanitizeFileExtension extension"
  | "name = trim_slashes subdirectory @ ''/'' @ uuid @ sanitizeFileExtension extension"
    "SAFE_SUBDIRECTORY_PATTERN (trim_slashes subdirectory)"
  using assms unfolding buildObjectName_def Let_def throw_Inr by (auto split: if_splits)

lemma object_name_uuid:
  "buildObjectName uuid subdirectory extension = Inr name \<Longrightarrow>
   (\<exists>prefix. \<forall>u. buildObjectName u subdirectory extension =
      Inr (prefix @ u @ sanitizeFileExtension extension))"
  unfolding buildObjectName_def Let_def throw_Inr
  by (cases "trim_slashes subdirectory = []") (auto intro: exI [of _ "[]"] exI [of _ "trim_slashes subdirectory @ ''/''"]
      split: if_splits)

lemma signed_url_lifetime_bounds:
  "30 \<le> resolveSignedUrlTtlSeconds requested d \<and> resolveSignedUrlTtlSeconds requested d \<le> 3600"
  by (simp add: resolveSignedUrlTtlSeconds_def MINIMUM_SIGNED_URL_TTL_SECONDS_def
      MAXIMUM_SIGNED_URL_TTL_SECONDS_def Let_def)

end
