(* ===== verification/File_Witnesses.thy ===== *)
theory File_Witnesses
  imports File_Properties File_Outcomes File_Cleanup File_Name_Properties
begin

text \<open>
  Concrete runs of the file capability: one upload, attached and then released and cleaned up, and one that
  stalls until a cleanup run has reclaimed its row.  Each property that has hypotheses is applied to them.
\<close>

section \<open>A picture\<close>

definition sample_cfg :: file_config where
  "sample_cfg = \<lparr>fc_max_upload_bytes = 5000, fc_upload_ttl_seconds = 60\<rparr>"

definition sample_file :: uploaded_file where
  "sample_file = \<lparr>uf_buffer = ''%PDF'', uf_size = 4, uf_originalname = None\<rparr>"

definition no_store :: file_world where
  "no_store = \<lparr>file_assets = [], objects = Map.empty\<rparr>"

definition sample_row :: file_row where
  "sample_row = \<lparr>fa_id = ''f1'', fa_created_at = 1, fa_updated_at = 1, fa_uploaded_by = ''ann'',
     fa_purpose = DOCUMENT, fa_status = PROCESSING, fa_storage_key = ''files/documents/u1.pdf'',
     fa_kind = DOCUMENT_KIND, fa_content_type = ''application/pdf'', fa_size_bytes = None,
     fa_width = None, fa_height = None,
     fa_file_name = sanitizeFileName id None (code_points ''pdf''),
     fa_expires_at = None, fa_attached_at = None, fa_delete_attempts = 0\<rparr>"

definition sample_begun :: upload_begun where
  "sample_begun = \<lparr>ub_row = sample_row, ub_accepted = PDF, ub_policy = FILE_PURPOSE_POLICIES DOCUMENT\<rparr>"

lemma sample_key: "buildObjectName ''u1'' ''files/documents'' ''.pdf'' = Inr ''files/documents/u1.pdf''"
  by code_simp

lemma sample_identify: "identify (Some ''application/pdf'') (FILE_PURPOSE_POLICIES DOCUMENT) = Inr PDF"
  by code_simp

definition sample_clock :: clock where
  "sample_clock i = int i"

lemma sample_begin:
  "beginUpload sample_cfg id sample_file (Some ''application/pdf'') DOCUMENT ''ann'' ''f1'' ''u1'' sample_clock
     no_store = Inr (sample_begun, no_store\<lparr>file_assets := [sample_row]\<rparr>)"
proof -
  have "''.'' @ at_extension PDF = ''.pdf''" "pp_storage_subdirectory (FILE_PURPOSE_POLICIES DOCUMENT) = ''files/documents''"
    by (simp_all add: PDF_def)
  then show ?thesis
    using sample_key
    by (simp add: beginUpload_def Let_def sample_identify sample_cfg_def sample_file_def no_store_def
        sample_begun_def sample_row_def sample_clock_def count_where_def MAX_UNATTACHED_FILES_PER_USER_def
        MEBIBYTE_def del: FILE_PURPOSE_POLICIES.simps) (simp add: PDF_def MEBIBYTE_def)
qed

text \<open>The machine at rest, and with the upload under way.\<close>

definition rest :: file_machine where
  "rest = \<lparr>fm_world = no_store, issued = {}, putting = {}, written = {}, doomed = {}\<rparr>"

definition under_way :: file_machine where
  "under_way = \<lparr>fm_world = no_store\<lparr>file_assets := [sample_row]\<rparr>,
     issued = {(''f1'', ''files/documents/u1.pdf'')}, putting = {(''f1'', ''files/documents/u1.pdf'')},
     written = {}, doomed = {}\<rparr>"

lemma reach_rest: "reachable no_files file_step rest"
  by (rule reachable.start) (simp add: no_files_def rest_def no_store_def)

lemma reach_under_way: "reachable no_files file_step under_way"
proof (rule reachable.next_step [OF reach_rest])
  have "file_step rest (rest\<lparr>fm_world := no_store\<lparr>file_assets := [sample_row]\<rparr>,
      issued := insert (pair_of (ub_row sample_begun)) (issued rest),
      putting := insert (pair_of (ub_row sample_begun)) (putting rest)\<rparr>)"
    by (rule file_step.begun [where cfg = sample_cfg and nfc = id and upl = sample_file
          and detected = "Some ''application/pdf''" and purpose = DOCUMENT and actor = "''ann''"
          and newId = "''f1''" and uuid = "''u1''" and clk = sample_clock])
      (simp_all add: rest_def sample_begin)
  then show "file_step rest under_way"
    by (simp add: rest_def under_way_def sample_begun_def sample_row_def pair_of_def)
qed

definition sample_object :: stored_object where
  "sample_object = \<lparr>so_body = ''%PDF'', so_content_type = ''application/pdf'', so_content_disposition = [],
     so_cache_control = PRIVATE_OBJECT_CACHE_CONTROL\<rparr>"

definition sample_store :: "file_row \<Rightarrow> file_world" where
  "sample_store r = \<lparr>file_assets = [r], objects = Map.empty(''files/documents/u1.pdf'' \<mapsto> sample_object)\<rparr>"

definition sample_ready :: file_row where
  "sample_ready = sample_row\<lparr>fa_status := READY, fa_size_bytes := Some 4, fa_expires_at := Some 60010,
     fa_updated_at := 10\<rparr>"

definition at_rest :: "file_row \<Rightarrow> file_machine" where
  "at_rest r = \<lparr>fm_world = sample_store r, issued = {(''f1'', ''files/documents/u1.pdf'')}, putting = {},
     written = {}, doomed = {}\<rparr>"

definition put_away :: file_machine where
  "put_away = (at_rest sample_row)\<lparr>written := {(''f1'', ''files/documents/u1.pdf'')}\<rparr>"

lemma put_step: "file_step under_way put_away"
proof -
  have "file_step under_way (under_way\<lparr>fm_world := sample_store sample_row,
      putting := putting under_way - {(''f1'', ''files/documents/u1.pdf'')},
      written := insert (''f1'', ''files/documents/u1.pdf'') (written under_way)\<rparr>)"
    by (rule file_step.put_done [where content = sample_object and ok = True])
      (simp_all add: under_way_def putObject_def sample_store_def no_store_def)
  then show ?thesis by (simp add: under_way_def put_away_def at_rest_def)
qed

lemma sample_finish:
  "finishUpdate sample_cfg sample_row \<lparr>pf_body = ''%PDF'', pf_width = None, pf_height = None\<rparr> (\<lambda>i. 10)
     (sample_store sample_row) = (1, sample_store sample_ready)"
  by (simp add: finishUpdate_def update_files_def sample_store_def sample_row_def sample_ready_def
      sample_cfg_def count_where_def Let_def)

lemma pair_sample: "pair_of sample_row = (''f1'', ''files/documents/u1.pdf'')"
  by (simp add: pair_of_def sample_row_def)

lemma finish_step: "file_step put_away (at_rest sample_ready)"
proof -
  have "file_step put_away (put_away\<lparr>fm_world := sample_store sample_ready,
      written := written put_away - {pair_of sample_row}\<rparr>)"
    by (rule file_step.finished [where cfg = sample_cfg
          and processed = "\<lparr>pf_body = ''%PDF'', pf_width = None, pf_height = None\<rparr>"
          and clk = "\<lambda>i. 10" and n = 1])
      (simp_all add: put_away_def at_rest_def sample_finish pair_sample)
  then show ?thesis by (simp add: put_away_def at_rest_def pair_sample)
qed

lemma reach_ready: "reachable no_files file_step (at_rest sample_ready)"
  by (rule reachable.next_step [where s = put_away], rule reachable.next_step [where s = under_way])
    (rule reach_under_way put_step finish_step)+

definition sample_attached :: file_row where
  "sample_attached = sample_ready\<lparr>fa_status := ATTACHED, fa_attached_at := Some 20, fa_expires_at := None,
     fa_updated_at := 20\<rparr>"

lemma sample_claim:
  "claimForAttachment ''f1'' ''ann'' DOCUMENT 20 (sample_store sample_ready) =
     Inr (sample_attached, sample_store sample_attached)"
  by (simp add: claimForAttachment_def update_files_def sample_store_def sample_row_def sample_ready_def
      sample_attached_def count_where_def)

lemma reach_attached: "reachable no_files file_step (at_rest sample_attached)"
proof (rule reachable.next_step [OF reach_ready])
  have "file_step (at_rest sample_ready) ((at_rest sample_ready)\<lparr>fm_world := sample_store sample_attached\<rparr>)"
    by (rule file_step.attached [where r = sample_attached]) (simp add: at_rest_def, rule sample_claim)
  then show "file_step (at_rest sample_ready) (at_rest sample_attached)" by (simp add: at_rest_def)
qed

lemma sample_fields [simp]:
  "fa_id sample_row = ''f1''" "fa_id sample_ready = ''f1''" "fa_id sample_attached = ''f1''"
  "fa_storage_key sample_ready = ''files/documents/u1.pdf''"
  "fa_storage_key sample_attached = ''files/documents/u1.pdf''"
  "fa_status sample_row = PROCESSING" "fa_status sample_ready = READY" "fa_status sample_attached = ATTACHED"
  by (simp_all add: sample_row_def sample_ready_def sample_attached_def)

section \<open>The properties at work\<close>

lemma attachable_file_is_stored_witness:
  "objects (fm_world (at_rest sample_ready)) ''files/documents/u1.pdf'' \<noteq> None"
  using attachable_file_is_stored [OF reach_ready, of sample_ready]
  by (simp add: at_rest_def sample_store_def)

lemma file_attached_once_witness:
  "claimForAttachment ''f1'' ''ann'' DOCUMENT 30 (sample_store sample_attached) \<noteq>
     Inr (sample_attached, sample_store sample_attached)"
proof -
  have "claimForAttachment ''f1'' ''ann'' DOCUMENT 20 (fm_world (at_rest sample_ready)) =
      Inr (sample_attached, sample_store sample_attached)"
    using sample_claim by (simp add: at_rest_def)
  from file_attached_once [OF reach_ready this rtranclp.rtrancl_refl]
  show ?thesis by simp
qed

lemma attachment_ends_by_release_only_witness:
  "sample_attached \<in> set (file_assets (snd (claimExpired 90000 90000 (sample_store sample_attached))))"
proof -
  let ?w = "snd (claimExpired 90000 90000 (sample_store sample_attached))"
  have w: "?w = sample_store sample_attached"
    by (simp add: claimExpired_def update_files_def sample_store_def claimable_def)
  have step: "file_step (at_rest sample_attached) ((at_rest sample_attached)\<lparr>fm_world := ?w\<rparr>)"
    by (rule file_step.expired [where now = 90000 and writtenAt = 90000 and n = 0])
      (simp add: at_rest_def claimExpired_def update_files_def sample_store_def claimable_def)
  have "(at_rest sample_attached)\<lparr>fm_world := ?w\<rparr> \<noteq>
      (at_rest sample_attached)\<lparr>fm_world := markDeleting ids now (fm_world (at_rest sample_attached))\<rparr>"
    if "fa_id sample_attached \<in> set ids" for ids now
  proof
    assume same: "(at_rest sample_attached)\<lparr>fm_world := ?w\<rparr> =
      (at_rest sample_attached)\<lparr>fm_world := markDeleting ids now (fm_world (at_rest sample_attached))\<rparr>"
    then have "map fa_status (file_assets ?w) =
        map fa_status (file_assets (markDeleting ids now (sample_store sample_attached)))"
      using arg_cong [OF same, of fm_world] by (simp add: at_rest_def)
    then have "map fa_status (file_assets (sample_store sample_attached)) =
        map fa_status (file_assets (markDeleting ids now (sample_store sample_attached)))"
      by (simp only: w)
    moreover have "ids \<noteq> []" using that by auto
    ultimately show False
      using that by (simp add: markDeleting_def update_files_def sample_store_def)
  qed
  from attachment_ends_by_release_only [OF reach_attached _ _ step this]
  show ?thesis by (simp add: at_rest_def sample_store_def)
qed

text \<open>The defining equations a name is computed with.\<close>

lemmas name_evaluation = code_points_def sanitizeFileName_def last_segment_def path_separator_def js_trim_def
  js_space_def UNSAFE_CHARACTERS_def last_index_of_def MAXIMUM_BASE_NAME_LENGTH_def Let_def

lemma sample_content: "\<exists>content. uploadContent sample_begun processed = Inr content"
proof -
  have "sanitizeFileName id None (code_points ''pdf'') = code_points ''file.pdf''"
    by (simp add: name_evaluation)
  moreover have "\<exists>h. buildContentDisposition ATTACHMENT (code_points ''file.pdf'') = Inr h"
  proof -
    have "\<not> (\<exists>c \<in> set (code_points ''file.pdf''). surrogate c)" by (simp add: code_points_def surrogate_def)
    then show ?thesis by (simp add: buildContentDisposition_def encodeURIComponent_def)
  qed
  ultimately show ?thesis
    by (auto simp: uploadContent_def sample_begun_def sample_row_def PDF_def)
qed

lemma sample_upload:
  "upload sample_cfg id sharp sample_file (Some ''application/pdf'') DOCUMENT ''ann'' ''f1'' ''u1'' put removed
     sample_clock no_store =
   storeAndFinish sample_cfg sample_begun \<lparr>pf_body = ''%PDF'', pf_width = None, pf_height = None\<rparr> put removed
     (\<lambda>i. sample_clock (3 + i)) (no_store\<lparr>file_assets := [sample_row]\<rparr>)"
proof -
  have "process_file sharp (uf_buffer sample_file) (ub_accepted sample_begun) (ub_policy sample_begun) =
      Inr \<lparr>pf_body = ''%PDF'', pf_width = None, pf_height = None\<rparr>"
    by (simp add: process_file_def sample_begun_def PDF_def sample_file_def)
  then show ?thesis by (simp add: upload_def sample_begin)
qed

lemma sample_begun_row [simp]: "ub_row sample_begun = sample_row"
  by (simp add: sample_begun_def)

text \<open>An encoder for the witnesses: it keeps the bytes and reports a square.\<close>

definition square_sharp :: sharp where
  "square_sharp = (\<lambda>encode dimension body. Some (body, dimension, dimension))"

lemma upload_stores_accepted_file_witness:
  "\<exists>r w'. upload sample_cfg id square_sharp sample_file (Some ''application/pdf'') DOCUMENT ''ann'' ''f1'' ''u1'' Stored
       True sample_clock no_store = (Inr r, w') \<and>
     file_assets w' = [r] \<and> fa_status r = READY \<and> fa_content_type r = ''application/pdf''"
proof -
  let ?begun = "no_store\<lparr>file_assets := [sample_row]\<rparr>"
  obtain content where content: "uploadContent sample_begun
      \<lparr>pf_body = ''%PDF'', pf_width = None, pf_height = None\<rparr> = Inr content"
    using sample_content by blast
  obtain r w' where ok: "upload sample_cfg id square_sharp sample_file (Some ''application/pdf'') DOCUMENT ''ann'' ''f1''
      ''u1'' Stored True sample_clock no_store = (Inr r, w')"
    unfolding sample_upload
    by (simp add: storeAndFinish_def content putObject_def finishUpload_def finishUpdate_def
        update_files_def count_where_def no_store_def Let_def)
  have "file_assets w' = [r] \<and> fa_status r = READY \<and> fa_content_type r = ''application/pdf''"
    using upload_stores_accepted_file [OF ok] by (simp add: no_store_def)
  with ok show ?thesis by blast
qed

lemma failed_upload_leaves_nothing_witness:
  "\<exists>e w' x objs. upload sample_cfg id square_sharp sample_file (Some ''application/pdf'') DOCUMENT ''ann'' ''f1'' ''u1''
       (NotStored True) True sample_clock no_store = (Inl e, w') \<and>
     w' = no_store\<lparr>file_assets := [x], objects := objs\<rparr> \<and> fa_status x = DELETING"
proof -
  obtain content where content: "uploadContent sample_begun
      \<lparr>pf_body = ''%PDF'', pf_width = None, pf_height = None\<rparr> = Inr content"
    using sample_content by blast
  obtain e w' where failed: "upload sample_cfg id square_sharp sample_file (Some ''application/pdf'') DOCUMENT ''ann'' ''f1''
      ''u1'' (NotStored True) True sample_clock no_store = (Inl e, w')" "file_assets w' \<noteq> []"
    unfolding sample_upload
    by (simp add: storeAndFinish_def content putObject_def releaseFailedUpload_def
        update_files_def no_store_def Let_def)
  from failed(2) have "w' \<noteq> no_store" by (auto simp: no_store_def)
  with failed_upload_leaves_nothing [OF failed(1)] failed(1) show ?thesis
    by (simp add: no_store_def) metis
qed

lemma claim_answers_witness:
  "claimForAttachment ''f1'' ''bob'' DOCUMENT 20 (sample_store sample_ready) = Inl (resourceNotFound ''File'' None)"
proof -
  have "distinct (map fa_id (file_assets (sample_store sample_ready)))" by (simp add: sample_store_def)
  from claim_answers [OF this, of "''f1''" "''bob''" DOCUMENT 20] show ?thesis
    by (simp add: sample_store_def sample_ready_def sample_row_def split: sum.splits prod.splits)
qed

lemma cleanup_spares_files_in_use_witness:
  "filter in_use (file_assets (snd (cleanUp 30 sample_clock (\<lambda>i. StorageFailed) (sample_store sample_ready)))) =
     [sample_ready]"
proof -
  obtain result w' where run: "cleanUp 30 sample_clock (\<lambda>i. StorageFailed) (sample_store sample_ready) = (result, w')"
    by (cases "cleanUp 30 sample_clock (\<lambda>i. StorageFailed) (sample_store sample_ready)")
  have "filter (\<lambda>r. in_use r \<and> \<not> claimable 30 r) (file_assets (sample_store sample_ready)) = [sample_ready]"
    by (simp add: sample_store_def in_use_def claimable_def sample_ready_def)
  with cleanup_spares_files_in_use [OF run] run show ?thesis by simp
qed

lemma cleanup_removes_expired_witness:
  "file_assets (snd (cleanUp 60010 (\<lambda>i. 60010) (\<lambda>i. Deleted) (sample_store sample_ready))) = []"
proof -
  have expired: "claimable 60010 sample_ready" by (simp add: claimable_def sample_ready_def)
  then have "count_where (\<lambda>r. \<not> in_use r \<or> claimable 60010 r) (file_assets (sample_store sample_ready)) \<le>
      CLEANUP_BATCH_SIZE"
    by (simp add: sample_store_def count_where_def CLEANUP_BATCH_SIZE_def)
  from cleanup_removes_expired [of "\<lambda>i. 60010" "\<lambda>i. Deleted", OF _ _ this] expired show ?thesis
    by (simp add: CLEANUP_TIME_BUDGET_MILLISECONDS_def sample_store_def)
qed

lemma cleanup_gives_up_on_outage_witness:
  "objects (snd (cleanUp 60010 (\<lambda>i. 60010) (\<lambda>i. StorageFailed) (sample_store sample_ready)))
     ''files/documents/u1.pdf'' = Some sample_object"
proof -
  obtain result w' where run: "cleanUp 60010 (\<lambda>i. 60010) (\<lambda>i. StorageFailed) (sample_store sample_ready) = (result, w')"
    by (cases "cleanUp 60010 (\<lambda>i. 60010) (\<lambda>i. StorageFailed) (sample_store sample_ready)")
  have "objects w' = objects (sample_store sample_ready)"
    using cleanup_gives_up_on_outage [OF _ _ run] by (simp add: CLEANUP_TIME_BUDGET_MILLISECONDS_def)
  then have "objects (snd (cleanUp 60010 (\<lambda>i. 60010) (\<lambda>i. StorageFailed) (sample_store sample_ready))) =
      objects (sample_store sample_ready)"
    by (simp add: run)
  then show ?thesis by (simp only:) (simp add: sample_store_def)
qed

lemma sanitized_name_is_safe_witness:
  "sanitizeFileName id (Some (code_points ''../e.exe'')) (code_points ''pdf'') = code_points ''e.pdf'' \<and>
   safe_character 101"
proof
  show name: "sanitizeFileName id (Some (code_points ''../e.exe'')) (code_points ''pdf'') = code_points ''e.pdf''"
    by (simp add: name_evaluation)
  show "safe_character 101"
    by (rule sanitized_name_is_safe [where nfc = id and name = "Some (code_points ''../e.exe'')"
          and extension = "code_points ''pdf''"])
      (simp_all add: name, simp_all add: code_points_def)
qed

lemma content_disposition_roundtrip_witness:
  "\<exists>plain enc. buildContentDisposition INLINE [34, 233, 0x1f600, 40] =
      Inr (code_points ''inline'' @ code_points ''; filename='' @ [34] @ plain @ [34] @
           code_points ''; filename*=UTF-8'' @ [39, 39] @ enc) \<and>
    percent_decode enc = Some [34, 195, 169, 240, 159, 152, 128, 40]"
proof -
  have "list_all (\<lambda>c. c < 0x110000 \<and> \<not> surrogate c) [34, 233, 0x1f600, 40]" by (simp add: surrogate_def)
  from content_disposition_roundtrip [OF this, of INLINE] show ?thesis by (auto simp: utf8_def)
qed

section \<open>An object no row names\<close>

text \<open>The upload stalls past a quarter of an hour, a cleanup run reclaims its row and removes it, and only then
  does the write reach the provider.  The request notices and removes the object, unless that delete fails
  or the process dies first.\<close>

definition reclaimed_row :: file_row where
  "reclaimed_row = sample_row\<lparr>fa_status := DELETING, fa_updated_at := 1000001\<rparr>"

definition stalled :: "file_row list \<Rightarrow> (string \<rightharpoonup> stored_object) \<Rightarrow> file_pair set \<Rightarrow> file_pair set \<Rightarrow> file_pair set \<Rightarrow> file_machine" where
  "stalled rows objs p u d = \<lparr>fm_world = \<lparr>file_assets = rows, objects = objs\<rparr>,
     issued = {(''f1'', ''files/documents/u1.pdf'')}, putting = p, written = u, doomed = d\<rparr>"

abbreviation sample_pair :: file_pair where
  "sample_pair \<equiv> (''f1'', ''files/documents/u1.pdf'')"

lemma stalled_run:
  "file_step under_way (stalled [reclaimed_row] Map.empty {sample_pair} {} {})"
  "file_step (stalled [reclaimed_row] Map.empty {sample_pair} {} {})
     (stalled [reclaimed_row] Map.empty {sample_pair} {} {sample_pair})"
  "file_step (stalled [reclaimed_row] Map.empty {sample_pair} {} {sample_pair})
     (stalled [] Map.empty {sample_pair} {} {sample_pair})"
  "file_step (stalled [] Map.empty {sample_pair} {} {sample_pair})
     (stalled [] (Map.empty(''files/documents/u1.pdf'' \<mapsto> sample_object)) {} {sample_pair} {sample_pair})"
  "file_step (stalled [] objs {} {sample_pair} {sample_pair}) (stalled [] objs {} {} {})"
proof -
  show "file_step under_way (stalled [reclaimed_row] Map.empty {sample_pair} {} {})"
  proof -
    have "claimExpired 1000000 1000001 (fm_world under_way) =
        (1, \<lparr>file_assets = [reclaimed_row], objects = Map.empty\<rparr>)"
      by (simp add: claimExpired_def update_files_def under_way_def no_store_def claimable_def count_where_def
          sample_row_def reclaimed_row_def STALE_PROCESSING_MILLISECONDS_def)
    from file_step.expired [OF this] show ?thesis by (simp add: under_way_def stalled_def)
  qed
  show "file_step (stalled [reclaimed_row] Map.empty {sample_pair} {} {})
     (stalled [reclaimed_row] Map.empty {sample_pair} {} {sample_pair})"
  proof -
    have "reclaimed_row \<in> set (cleanupBatch (fm_world (stalled [reclaimed_row] Map.empty {sample_pair} {} {})))"
      by (simp add: cleanupBatch_def stalled_def reclaimed_row_def CLEANUP_BATCH_SIZE_def)
    from file_step.selected [OF this] show ?thesis
      by (simp add: stalled_def pair_of_def reclaimed_row_def sample_row_def)
  qed
  show "file_step (stalled [reclaimed_row] Map.empty {sample_pair} {} {sample_pair})
     (stalled [] Map.empty {sample_pair} {} {sample_pair})"
  proof -
    have "removeRow ''f1'' (fm_world (stalled [reclaimed_row] Map.empty {sample_pair} {} {sample_pair})) =
        (1, \<lparr>file_assets = [], objects = Map.empty\<rparr>)"
      by (simp add: removeRow_def stalled_def reclaimed_row_def count_where_def)
    from file_step.row_removed [OF _ this, of "''files/documents/u1.pdf''"] show ?thesis
      by (simp add: stalled_def)
  qed
  show "file_step (stalled [] Map.empty {sample_pair} {} {sample_pair})
     (stalled [] (Map.empty(''files/documents/u1.pdf'' \<mapsto> sample_object)) {} {sample_pair} {sample_pair})"
  proof -
    have "putObject ''files/documents/u1.pdf'' sample_object Stored
        (fm_world (stalled [] Map.empty {sample_pair} {} {sample_pair})) =
        (True, \<lparr>file_assets = [], objects = Map.empty(''files/documents/u1.pdf'' \<mapsto> sample_object)\<rparr>)"
      by (simp add: putObject_def stalled_def)
    from file_step.put_done [OF _ this, of "''f1''"] show ?thesis by (simp add: stalled_def)
  qed
  show "file_step (stalled [] objs {} {sample_pair} {sample_pair}) (stalled [] objs {} {} {})"
    using file_step.died [of "{}" "stalled [] objs {} {sample_pair} {sample_pair}" "{}" "{}"]
    by (simp add: stalled_def)
qed

text \<open>An object can outlive every row and every request that knows of it, although the row is written first
  so that this cannot happen.\<close>

theorem orphaned_object_possible:
  "\<exists>m. reachable no_files file_step m \<and> file_assets (fm_world m) = [] \<and> putting m = {} \<and> written m = {} \<and>
     doomed m = {} \<and> objects (fm_world m) ''files/documents/u1.pdf'' \<noteq> None"
proof (intro exI conjI)
  let ?m = "stalled [] (Map.empty(''files/documents/u1.pdf'' \<mapsto> sample_object)) {} {} {}"
  note on = reachable.next_step [where init = no_files and step = file_step]
  show "reachable no_files file_step ?m"
    by (rule on, rule on, rule on, rule on, rule on, rule reach_under_way) (rule stalled_run)+
qed (simp_all add: stalled_def)

end
