(* ===== verification/Turnstile.thy ===== *)
theory Turnstile
  imports World
begin

text \<open>
  The bot check under \<open>src/src/common/turnstile\<close>: the circuit breaker, the reading of a siteverify reply,
  the verification of a token and the guard.  Cloudflare's reply is an argument; the breaker and the audit
  log are the state.
\<close>

section \<open>The breaker\<close>

definition PROVIDER_FAILURE_THRESHOLD :: nat where
  "PROVIDER_FAILURE_THRESHOLD = 3"

definition OPEN_WINDOW_MILLISECONDS :: int where
  "OPEN_WINDOW_MILLISECONDS = 30000"

definition FAILURE_MEMORY_MILLISECONDS :: int where
  "FAILURE_MEMORY_MILLISECONDS = 2 * OPEN_WINDOW_MILLISECONDS"

record breaker =
  consecutiveProviderFailures :: nat
  lastFailureMilliseconds :: "time option"
  openUntilMilliseconds :: "time option"

record failure_outcome =
  isBypassActive :: bool
  isNewlyOpened :: bool

definition closed_breaker :: breaker where
  "closed_breaker = \<lparr>consecutiveProviderFailures = 0, lastFailureMilliseconds = None,
     openUntilMilliseconds = None\<rparr>"

definition shouldBypass :: "time \<Rightarrow> breaker \<Rightarrow> bool" where
  "shouldBypass now b \<longleftrightarrow>
     (case openUntilMilliseconds b of None \<Rightarrow> False | Some t \<Rightarrow> now < t)"

definition recordProviderSuccess :: "breaker \<Rightarrow> bool \<times> breaker" where
  "recordProviderSuccess b =
     (openUntilMilliseconds b \<noteq> None,
      b\<lparr>consecutiveProviderFailures := 0, lastFailureMilliseconds := None,
         openUntilMilliseconds := None\<rparr>)"

definition recordProviderFailure :: "time \<Rightarrow> breaker \<Rightarrow> failure_outcome \<times> breaker" where
  "recordProviderFailure now b =
     (let b1 = (case lastFailureMilliseconds b of
                  None \<Rightarrow> b
                | Some lastFailure \<Rightarrow>
                    (let lastEvidence = max lastFailure (case openUntilMilliseconds b of None \<Rightarrow> 0 | Some t \<Rightarrow> t)
                     in if now - lastEvidence > FAILURE_MEMORY_MILLISECONDS
                        then snd (recordProviderSuccess b) else b));
          b2 = b1\<lparr>lastFailureMilliseconds := Some now,
                   consecutiveProviderFailures := consecutiveProviderFailures b1 + 1\<rparr>
      in if consecutiveProviderFailures b2 < PROVIDER_FAILURE_THRESHOLD
         then (\<lparr>isBypassActive = False, isNewlyOpened = False\<rparr>, b2)
         else (\<lparr>isBypassActive = True,
                 isNewlyOpened = (consecutiveProviderFailures b2 = PROVIDER_FAILURE_THRESHOLD)\<rparr>,
               b2\<lparr>openUntilMilliseconds := Some (now + OPEN_WINDOW_MILLISECONDS)\<rparr>))"

section \<open>What siteverify answered\<close>

datatype widget = WEB | MOBILE

fun widget_value :: "widget \<Rightarrow> string" where
  "widget_value WEB = ''web''"
| "widget_value MOBILE = ''mobile''"

definition MAX_TURNSTILE_TOKEN_LENGTH :: nat where
  "MAX_TURNSTILE_TOKEN_LENGTH = 2048"

definition TOKEN_FAULT_ERROR_CODES :: "string set" where
  "TOKEN_FAULT_ERROR_CODES =
     {''missing-input-response'', ''invalid-input-response'', ''timeout-or-duplicate''}"

definition UNAVAILABLE_MESSAGE :: string where
  "UNAVAILABLE_MESSAGE = ''The bot check is temporarily unavailable. Please try again.''"

datatype siteverify_outcome =
    Verdict bool "string list"
  | NoAnswer string
  | OurRequestRefused string

text \<open>The call threw, or it brought a status and a body that parses to a JSON value or does not.\<close>

datatype reply_body = Parsed json | Unreadable string

datatype reply = CallThrew string | Replied nat reply_body

definition isSiteverifyAnswer :: "json \<Rightarrow> bool" where
  "isSiteverifyAnswer body \<longleftrightarrow> (case json_field ''success'' body of Some (JBool _) \<Rightarrow> True | _ \<Rightarrow> False)"

fun string_values :: "json list \<Rightarrow> string list" where
  "string_values [] = []"
| "string_values (JStr s # js) = s # string_values js"
| "string_values (_ # js) = string_values js"

definition error_codes :: "json \<Rightarrow> string list" where
  "error_codes body =
     (case json_field ''error-codes'' body of Some (JArr js) \<Rightarrow> string_values js | _ \<Rightarrow> [])"

definition callSiteverify :: "reply \<Rightarrow> siteverify_outcome" where
  "callSiteverify r =
     (case r of
        CallThrew reason \<Rightarrow> NoAnswer reason
      | Replied status body \<Rightarrow>
          (if \<not> (200 \<le> status \<and> status \<le> 299)
           then (if 500 \<le> status then NoAnswer (''HTTP '' @ decimal status)
                 else OurRequestRefused (''HTTP '' @ decimal status))
           else (case body of
                   Unreadable reason \<Rightarrow> NoAnswer (''unreadable answer: '' @ reason)
                 | Parsed j \<Rightarrow>
                     (if \<not> isSiteverifyAnswer j then NoAnswer ''unexpected answer shape''
                      else
                        (let success = (json_field ''success'' j = Some (JBool True));
                             errorCodes = error_codes j
                         in if \<not> success \<and> errorCodes \<noteq> [] \<and>
                               list_all (\<lambda>code. code = ''internal-error'') errorCodes
                            then NoAnswer ''internal-error''
                            else Verdict success errorCodes)))))"

section \<open>Verifying a token\<close>

definition TURNSTILE_BYPASS_AUDIT_ACTION :: string where
  "TURNSTILE_BYPASS_AUDIT_ACTION = ''turnstile.verification_bypassed''"

definition bypass_entry :: "widget \<Rightarrow> string \<Rightarrow> audit_entry" where
  "bypass_entry widget reason =
     audit TURNSTILE_BYPASS_AUDIT_ACTION None None
       (JObj [(''widget'', JStr (widget_value widget)), (''reason'', JStr reason)])"

text \<open>No row, no skip: \<open>AuditService.record\<close> answers \<open>null\<close> when the write failed.\<close>

definition recordBypass :: "widget \<Rightarrow> string \<Rightarrow> world \<Rightarrow> (exn + unit) \<times> world" where
  "recordBypass widget reason w =
     (if \<not> audit_up w then (Inl (externalServiceUnavailable UNAVAILABLE_MESSAGE), w)
      else (Inr (), audit_record (bypass_entry widget reason) w))"

definition handleNoAnswer ::
  "widget \<Rightarrow> string \<Rightarrow> time \<Rightarrow> breaker \<Rightarrow> world \<Rightarrow> (exn + unit) \<times> breaker \<times> world" where
  "handleNoAnswer widget reason now b w =
     (case recordProviderFailure now b of
        (outcome, b') \<Rightarrow>
          (if \<not> isBypassActive outcome
           then (Inl (externalServiceUnavailable UNAVAILABLE_MESSAGE), b', w)
           else (case recordBypass widget reason w of (r, w') \<Rightarrow> (r, b', w'))))"

text \<open>The call runs between the two halves of \<open>verify\<close>: \<open>None\<close> from the first half is the decision to
  make it.\<close>

definition verifyBefore :: "nat \<Rightarrow> widget \<Rightarrow> time \<Rightarrow> breaker \<Rightarrow> world \<Rightarrow> (exn + unit) option \<times> world" where
  "verifyBefore tokenLength widget now b w =
     (if tokenLength > MAX_TURNSTILE_TOKEN_LENGTH then (Some (Inl turnstileTokenInvalid), w)
      else if shouldBypass now b
      then (case recordBypass widget ''circuit open'' w of (r, w') \<Rightarrow> (Some r, w'))
      else (None, w))"

definition verifyAfter :: "widget \<Rightarrow> reply \<Rightarrow> time \<Rightarrow> breaker \<Rightarrow> world \<Rightarrow> (exn + unit) \<times> breaker \<times> world" where
  "verifyAfter widget r now b w =
     (case callSiteverify r of
        NoAnswer reason \<Rightarrow> handleNoAnswer widget reason now b w
      | OurRequestRefused reason \<Rightarrow>
          (Inl (externalServiceUnavailable UNAVAILABLE_MESSAGE), snd (recordProviderSuccess b), w)
      | Verdict isSuccess errorCodes \<Rightarrow>
          (if isSuccess then Inr ()
           else if list_ex (\<lambda>code. code \<noteq> ''internal-error'' \<and> code \<notin> TOKEN_FAULT_ERROR_CODES) errorCodes
           then Inl (externalServiceUnavailable UNAVAILABLE_MESSAGE)
           else Inl turnstileTokenInvalid,
           snd (recordProviderSuccess b), w))"

definition verify ::
  "string \<Rightarrow> widget \<Rightarrow> reply \<Rightarrow> time \<Rightarrow> time \<Rightarrow> breaker \<Rightarrow> world \<Rightarrow> (exn + unit) \<times> breaker \<times> world" where
  "verify token widget r now later b w =
     (case verifyBefore (length token) widget now b w of
        (Some result, w') \<Rightarrow> (result, b, w')
      | (None, w') \<Rightarrow> verifyAfter widget r later b w')"

section \<open>The guard\<close>

record secret_keys =
  sk_web :: "string option"
  sk_mobile :: "string option"

definition isEnabled :: "secret_keys \<Rightarrow> bool" where
  "isEnabled keys \<longleftrightarrow>
     (case sk_web keys of None \<Rightarrow> False | Some s \<Rightarrow> s \<noteq> []) \<and>
     (case sk_mobile keys of None \<Rightarrow> False | Some s \<Rightarrow> s \<noteq> [])"

record bot_check_request =
  bq_token_header :: "string option"
  bq_form_field :: "json option"
  bq_origin :: "string option"

definition formToken :: "bot_check_request \<Rightarrow> string option" where
  "formToken request = (case bq_form_field request of Some (JStr s) \<Rightarrow> Some s | _ \<Rightarrow> None)"

definition clientPlatformOf :: "bot_check_request \<Rightarrow> widget" where
  "clientPlatformOf request =
     (case bq_origin request of None \<Rightarrow> MOBILE | Some s \<Rightarrow> if s = [] then MOBILE else WEB)"

definition canActivate_turnstile ::
  "secret_keys \<Rightarrow> bot_check_request \<Rightarrow> reply \<Rightarrow> time \<Rightarrow> time \<Rightarrow> breaker \<Rightarrow> world
   \<Rightarrow> (exn + unit) \<times> breaker \<times> world" where
  "canActivate_turnstile keys request r now later b w =
     (if \<not> isEnabled keys then (Inr (), b, w)
      else
        (let token = map_option trim
               (case bq_token_header request of None \<Rightarrow> formToken request | Some t \<Rightarrow> Some t)
         in (case token of
               None \<Rightarrow> (Inl turnstileTokenMissing, b, w)
             | Some t \<Rightarrow>
                 (if t = [] then (Inl turnstileTokenMissing, b, w)
                  else verify t (clientPlatformOf request) r now later b w))))"

end
