(* ===== verification/Turnstile_Properties.thy ===== *)
theory Turnstile_Properties
  imports Turnstile
begin

text \<open>
  What the bot check promises.  The breaker's history is the list of what its requests recorded, in the order
  they recorded it: a call without an answer at a time, or an answer.
\<close>

section \<open>The breaker over its history\<close>

datatype breaker_event = Failed time | Answered

definition breaker_step :: "breaker \<Rightarrow> breaker_event \<Rightarrow> breaker" where
  "breaker_step b e =
     (case e of Failed t \<Rightarrow> snd (recordProviderFailure t b) | Answered \<Rightarrow> snd (recordProviderSuccess b))"

definition breaker_after :: "breaker_event list \<Rightarrow> breaker" where
  "breaker_after es = foldl breaker_step closed_breaker es"

text \<open>The run of calls without an answer that the breaker is counting.\<close>

definition counting :: "breaker_event list \<Rightarrow> time list \<Rightarrow> breaker \<Rightarrow> bool" where
  "counting es ts b \<longleftrightarrow>
     (\<exists>before. es = before @ map Failed ts) \<and> consecutiveProviderFailures b = length ts \<and>
     lastFailureMilliseconds b = (if ts = [] then None else Some (last ts)) \<and>
     openUntilMilliseconds b =
       (if length ts < PROVIDER_FAILURE_THRESHOLD then None else Some (last ts + OPEN_WINDOW_MILLISECONDS)) \<and>
     successively (\<lambda>s t. t - s \<le> OPEN_WINDOW_MILLISECONDS + FAILURE_MEMORY_MILLISECONDS) ts"

definition event_time_ok :: "breaker_event \<Rightarrow> bool" where
  "event_time_ok e \<longleftrightarrow> (case e of Failed t \<Rightarrow> 0 \<le> t | Answered \<Rightarrow> True)"

lemma counting_failure:
  assumes run: "counting es ts b" and time: "\<forall>s \<in> set ts. 0 \<le> s"
  shows "\<exists>ts'. counting (es @ [Failed t]) ts' (snd (recordProviderFailure t b))"
proof -
  define evidence where "evidence = max (last ts) (case openUntilMilliseconds b of None \<Rightarrow> 0 | Some u \<Rightarrow> u)"
  obtain before where es: "es = before @ map Failed ts" using run by (auto simp: counting_def)
  show ?thesis
  proof (cases "ts \<noteq> [] \<and> t - evidence > FAILURE_MEMORY_MILLISECONDS")
    case True
    have "counting (es @ [Failed t]) [t] (snd (recordProviderFailure t b))"
      using run True
      by (simp add: counting_def recordProviderFailure_def recordProviderSuccess_def evidence_def Let_def
          PROVIDER_FAILURE_THRESHOLD_def)
    then show ?thesis ..
  next
    case False
    have near: "t - last ts \<le> OPEN_WINDOW_MILLISECONDS + FAILURE_MEMORY_MILLISECONDS" if "ts \<noteq> []"
    proof -
      have "0 \<le> last ts" using time that by simp
      then have "evidence \<le> last ts + OPEN_WINDOW_MILLISECONDS"
        using run by (simp add: evidence_def counting_def OPEN_WINDOW_MILLISECONDS_def)
      then show ?thesis using False that by simp
    qed
    have b: "snd (recordProviderFailure t b) =
        (let b2 = b\<lparr>lastFailureMilliseconds := Some t, consecutiveProviderFailures := length ts + 1\<rparr>
         in if length ts + 1 < PROVIDER_FAILURE_THRESHOLD then b2
            else b2\<lparr>openUntilMilliseconds := Some (t + OPEN_WINDOW_MILLISECONDS)\<rparr>)"
      using run False
      by (cases "ts = []") (auto simp: recordProviderFailure_def counting_def evidence_def Let_def)
    have "successively (\<lambda>s t. t - s \<le> OPEN_WINDOW_MILLISECONDS + FAILURE_MEMORY_MILLISECONDS) (ts @ [t])"
      using run near by (auto simp: counting_def successively_append_iff)
    then have "counting (es @ [Failed t]) (ts @ [t]) (snd (recordProviderFailure t b))"
      unfolding b Let_def using run es by (simp add: counting_def)
    then show ?thesis ..
  qed
qed

lemma counting_after:
  assumes "list_all event_time_ok es"
  shows "\<exists>ts. counting es ts (breaker_after es)"
  using assms
proof (induction es rule: rev_induct)
  case Nil
  show ?case
    by (rule exI [of _ "[]"])
      (simp add: counting_def breaker_after_def closed_breaker_def PROVIDER_FAILURE_THRESHOLD_def)
next
  case (snoc e es)
  then obtain ts where ts: "counting es ts (breaker_after es)" by auto
  have times: "\<forall>s \<in> set ts. 0 \<le> s"
  proof
    fix s assume "s \<in> set ts"
    then have "Failed s \<in> set es" using ts by (auto simp: counting_def)
    then have "event_time_ok (Failed s)" using snoc.prems by (simp add: list_all_iff)
    then show "0 \<le> s" by (simp add: event_time_ok_def)
  qed
  show ?case
  proof (cases e)
    case (Failed t)
    then show ?thesis using counting_failure [OF ts times, of t] by (simp add: breaker_after_def breaker_step_def)
  next
    case Answered
    have "counting (es @ [Answered]) [] (breaker_after (es @ [Answered]))"
      by (simp add: counting_def breaker_after_def breaker_step_def recordProviderSuccess_def
          PROVIDER_FAILURE_THRESHOLD_def)
    then show ?thesis using Answered by blast
  qed
qed

lemma open_after_outage:
  assumes "list_all event_time_ok es" and "shouldBypass now (breaker_after es)"
  shows "\<exists>before ts. es = before @ map Failed ts \<and> 3 \<le> length ts \<and> now < last ts + 30000 \<and>
    successively (\<lambda>s t. t - s \<le> 90000) ts"
proof -
  obtain ts where ts: "counting es ts (breaker_after es)" using counting_after [OF assms(1)] by blast
  then obtain before where "es = before @ map Failed ts" by (auto simp: counting_def)
  moreover have "3 \<le> length ts" "now < last ts + 30000" "successively (\<lambda>s t. t - s \<le> 90000) ts"
    using ts assms(2)
    by (auto simp: counting_def shouldBypass_def PROVIDER_FAILURE_THRESHOLD_def OPEN_WINDOW_MILLISECONDS_def
        FAILURE_MEMORY_MILLISECONDS_def split: if_splits)
  ultimately show ?thesis by blast
qed

text \<open>What a call without an answer reports of the breaker it leaves.\<close>

lemma failure_reports_outage:
  assumes "list_all event_time_ok (es @ [Failed t])"
    and "isBypassActive (fst (recordProviderFailure t (breaker_after es)))"
  shows "\<exists>before ts. es @ [Failed t] = before @ map Failed ts \<and> 3 \<le> length ts \<and>
    successively (\<lambda>s t. t - s \<le> 90000) ts"
proof -
  obtain ts where ts: "counting (es @ [Failed t]) ts (breaker_after (es @ [Failed t]))"
    using counting_after [OF assms(1)] by blast
  have "breaker_after (es @ [Failed t]) = snd (recordProviderFailure t (breaker_after es))"
    by (simp add: breaker_after_def breaker_step_def)
  moreover have "3 \<le> consecutiveProviderFailures (snd (recordProviderFailure t (breaker_after es)))"
    using assms(2) by (auto simp: recordProviderFailure_def Let_def PROVIDER_FAILURE_THRESHOLD_def split: if_splits)
  ultimately have "3 \<le> length ts" using ts by (simp add: counting_def)
  then show ?thesis
    using ts by (auto simp: counting_def OPEN_WINDOW_MILLISECONDS_def FAILURE_MEMORY_MILLISECONDS_def)
qed

text \<open>Three calls that overlap and fail in the same instant open the breaker, although the threshold is
  there so that one blip cannot.\<close>

theorem one_blip_opens_breaker:
  "shouldBypass t (breaker_after (before @ [Answered, Failed t, Failed t, Failed t]))"
  by (simp add: breaker_after_def breaker_step_def recordProviderSuccess_def recordProviderFailure_def
      shouldBypass_def PROVIDER_FAILURE_THRESHOLD_def OPEN_WINDOW_MILLISECONDS_def
      FAILURE_MEMORY_MILLISECONDS_def Let_def)

section \<open>Who gets through\<close>

text \<open>With the check on, a request is let through only with a token, and only when Cloudflare called it
  genuine or the audit log got a new row that says the check was skipped, in which case the breaker was
  open or this request's call was without an answer.\<close>

theorem admitted_verified_or_audited:
  assumes "canActivate_turnstile keys request r now later b w = (Inr (), b', w')" and "isEnabled keys"
  shows "(bq_token_header request \<noteq> None \<or> formToken request \<noteq> None) \<and>
    (callSiteverify r = Verdict True (case r of Replied s (Parsed j) \<Rightarrow> error_codes j | _ \<Rightarrow> []) \<and> w' = w \<or>
     (\<exists>reason. audit_logs w' = audit_logs w @ [bypass_entry (clientPlatformOf request) reason]) \<and>
     (shouldBypass now b \<or> (\<exists>reason. callSiteverify r = NoAnswer reason)))"
proof -
  obtain t where t: "bq_token_header request \<noteq> None \<or> formToken request \<noteq> None"
    and run: "verify t (clientPlatformOf request) r now later b w = (Inr (), b', w')"
    using assms
    by (auto simp: canActivate_turnstile_def Let_def split: option.splits if_splits)
  have bypass: "w1 = audit_record (bypass_entry wd reason) w \<and> audit_logs w1 = audit_logs w @ [bypass_entry wd reason]"
    if "recordBypass wd reason w = (Inr (), w1)" for wd reason w1
    using that by (auto simp: recordBypass_def audit_record_def split: if_splits)
  show ?thesis
  proof (cases "shouldBypass now b")
    case True
    then have "recordBypass (clientPlatformOf request) ''circuit open'' w = (Inr (), w')"
      using run by (auto simp: verify_def verifyBefore_def split: if_splits prod.splits)
    then show ?thesis using t True bypass by blast
  next
    case False
    then have after: "verifyAfter (clientPlatformOf request) r later b w = (Inr (), b', w')"
      using run by (auto simp: verify_def verifyBefore_def split: if_splits)
    show ?thesis
    proof (cases "callSiteverify r")
      case (Verdict isSuccess errorCodes)
      have "isSuccess" "w' = w"
        using after Verdict by (auto simp: verifyAfter_def split: if_splits)
      moreover have "errorCodes = (case r of Replied s (Parsed j) \<Rightarrow> error_codes j | _ \<Rightarrow> [])"
        using Verdict by (auto simp: callSiteverify_def Let_def split: reply.splits reply_body.splits if_splits)
      ultimately show ?thesis using t Verdict by simp
    next
      case (NoAnswer reason)
      then have "recordBypass (clientPlatformOf request) reason w = (Inr (), w')"
        using after by (auto simp: verifyAfter_def handleNoAnswer_def split: prod.splits if_splits)
      then show ?thesis using t NoAnswer bypass by blast
    next
      case (OurRequestRefused reason)
      then show ?thesis using after by (simp add: verifyAfter_def)
    qed
  qed
qed

text \<open>A token Cloudflare refused, and a request of ours it refused, never gets through while the breaker
  is closed, and neither counts toward opening it: both leave it closed.\<close>

theorem refusal_fails_closed:
  assumes "\<not> shouldBypass now b"
    and "(\<exists>codes. callSiteverify r = Verdict False codes) \<or> (\<exists>reason. callSiteverify r = OurRequestRefused reason)"
  shows "\<exists>e. fst (verify token widget r now later b w) = Inl e \<and>
    (length token \<le> MAX_TURNSTILE_TOKEN_LENGTH \<longrightarrow>
       fst (snd (verify token widget r now later b w)) = closed_breaker)"
  using assms
  by (auto simp: verify_def verifyBefore_def verifyAfter_def recordProviderSuccess_def closed_breaker_def)


end
