(* ===== verification/Send_Limits.thy ===== *)
theory Send_Limits
  imports Turnstile
begin

text \<open>
  The per-destination send limit under \<open>src/src/common/send-limit\<close>, the canonical form of an address it
  counts against (\<open>message-destination.util.ts\<close>), and what a worker makes of a delivery.  The Redis keys of
  the limiter are a map from key to counter and expiry; the keyed digest of a destination and
  \<open>domainToASCII\<close> are third-party code and arguments.
\<close>

section \<open>Limits\<close>

datatype send_purpose =
    PHONE_VERIFICATION
  | EMAIL_VERIFICATION
  | PASSWORD_RESET_MAIL
  | WORKSPACE_INVITATION
  | UNVERIFIED_PASSWORD_CHANGED_NOTICE
  | SIGN_UP_ACCOUNT_EXISTS

fun send_purpose_value :: "send_purpose \<Rightarrow> string" where
  "send_purpose_value PHONE_VERIFICATION = ''phone-verification''"
| "send_purpose_value EMAIL_VERIFICATION = ''email-verification''"
| "send_purpose_value PASSWORD_RESET_MAIL = ''password-reset''"
| "send_purpose_value WORKSPACE_INVITATION = ''workspace-invitation''"
| "send_purpose_value UNVERIFIED_PASSWORD_CHANGED_NOTICE = ''unverified-password-changed-notice''"
| "send_purpose_value SIGN_UP_ACCOUNT_EXISTS = ''sign-up-account-exists''"

record send_limit =
  sl_limit :: int
  sl_window_seconds :: int

fun SEND_LIMITS :: "send_purpose \<Rightarrow> send_limit" where
  "SEND_LIMITS PHONE_VERIFICATION = \<lparr>sl_limit = 3, sl_window_seconds = 10 * 60\<rparr>"
| "SEND_LIMITS EMAIL_VERIFICATION = \<lparr>sl_limit = 5, sl_window_seconds = 60 * 60\<rparr>"
| "SEND_LIMITS PASSWORD_RESET_MAIL = \<lparr>sl_limit = 5, sl_window_seconds = 60 * 60\<rparr>"
| "SEND_LIMITS WORKSPACE_INVITATION = \<lparr>sl_limit = 5, sl_window_seconds = 60 * 60\<rparr>"
| "SEND_LIMITS UNVERIFIED_PASSWORD_CHANGED_NOTICE = \<lparr>sl_limit = 5, sl_window_seconds = 60 * 60\<rparr>"
| "SEND_LIMITS SIGN_UP_ACCOUNT_EXISTS = \<lparr>sl_limit = 3, sl_window_seconds = 60 * 60\<rparr>"

section \<open>The counters\<close>

text \<open>A counter and when its key expires; \<open>None\<close> for a server that does not answer.\<close>

type_synonym counters = "string \<rightharpoonup> int \<times> time"

definition counter_at :: "time \<Rightarrow> string \<Rightarrow> counters \<Rightarrow> (int \<times> time) option" where
  "counter_at now key c =
     (case c key of None \<Rightarrow> None | Some (n, until) \<Rightarrow> if now < until then Some (n, until) else None)"

definition keyFor :: "(string \<Rightarrow> string) \<Rightarrow> send_purpose \<Rightarrow> string \<Rightarrow> string" where
  "keyFor hmac purpose destination =
     ''send-limit:'' @ send_purpose_value purpose @ '':'' @ hmac destination"

text \<open>\<open>INCR\<close> and \<open>EXPIRE NX\<close> in one transaction: a key that is gone starts a window, one that is there
  keeps its own.\<close>

definition reserve ::
  "(string \<Rightarrow> string) \<Rightarrow> bool \<Rightarrow> send_purpose \<Rightarrow> string \<Rightarrow> time \<Rightarrow> counters \<Rightarrow> exn + string option \<times> counters" where
  "reserve hmac up purpose destination now c =
     (if \<not> up then Inl (JsError ''Connection is closed.'')
      else
        (let key = keyFor hmac purpose destination;
             limits = SEND_LIMITS purpose;
             entry = (case counter_at now key c of
                        None \<Rightarrow> (1, now + sl_window_seconds limits * 1000)
                      | Some (n, until) \<Rightarrow> (n + 1, until))
         in Inr (if fst entry > sl_limit limits then None else Some key, c(key \<mapsto> entry))))"

definition hasBudget ::
  "(string \<Rightarrow> string) \<Rightarrow> bool \<Rightarrow> send_purpose \<Rightarrow> string \<Rightarrow> time \<Rightarrow> counters \<Rightarrow> exn + bool" where
  "hasBudget hmac up purpose destination now c =
     (if \<not> up then Inl (JsError ''Connection is closed.'')
      else
        (let count = (case counter_at now (keyFor hmac purpose destination) c of
                        None \<Rightarrow> 0 | Some (n, _) \<Rightarrow> n)
         in Inr (count < sl_limit (SEND_LIMITS purpose))))"

text \<open>The release script: a unit back into a window that is still open, and nothing otherwise.\<close>

definition release_unit :: "string \<Rightarrow> time \<Rightarrow> counters \<Rightarrow> counters" where
  "release_unit key now c =
     (case counter_at now key c of None \<Rightarrow> c | Some (n, until) \<Rightarrow> c(key \<mapsto> (n - 1, until)))"

text \<open>A send's own error is rethrown; a give-back that fails is logged and swallowed.\<close>

definition sendReserved :: "bool \<Rightarrow> string \<Rightarrow> exn + unit \<Rightarrow> time \<Rightarrow> counters \<Rightarrow> (exn + unit) \<times> counters" where
  "sendReserved up key sent now c =
     (case sent of Inr _ \<Rightarrow> (Inr (), c)
      | Inl e \<Rightarrow> (Inl e, if up then release_unit key now c else c))"

text \<open>\<open>sent\<close> is what the send does when it runs; the second component says whether it ran.\<close>

definition sendWithinLimit ::
  "(string \<Rightarrow> string) \<Rightarrow> bool \<Rightarrow> bool \<Rightarrow> send_purpose \<Rightarrow> string \<Rightarrow> exn + unit \<Rightarrow> time \<Rightarrow> time \<Rightarrow> counters
   \<Rightarrow> (exn + bool) \<times> bool \<times> counters" where
  "sendWithinLimit hmac up still_up purpose destination sent now later c =
     (case reserve hmac up purpose destination now c of
        Inl e \<Rightarrow> (Inl e, False, c)
      | Inr (None, c') \<Rightarrow> (Inr False, False, c')
      | Inr (Some key, c') \<Rightarrow>
          (case sendReserved still_up key sent later c' of
             (Inl e, c'') \<Rightarrow> (Inl e, True, c'')
           | (Inr _, c'') \<Rightarrow> (Inr True, True, c'')))"

section \<open>The job of a delivery\<close>

datatype delivery_outcome = Sent | NothingToSend | DestinationLimited

datatype job_outcome = CompletedJob | SkippedJob string

fun deliveryJobOutcome :: "delivery_outcome \<Rightarrow> string \<Rightarrow> job_outcome" where
  "deliveryJobOutcome Sent reason = CompletedJob"
| "deliveryJobOutcome NothingToSend reason = SkippedJob reason"
| "deliveryJobOutcome DestinationLimited reason = SkippedJob ''destination limit reached''"

section \<open>Canonical addresses\<close>

definition DOT_INSENSITIVE_DOMAINS :: "string set" where
  "DOT_INSENSITIVE_DOMAINS = {''gmail.com'', ''googlemail.com''}"

definition split_at :: "nat \<Rightarrow> string \<Rightarrow> string \<times> string" where
  "split_at i s = (take i s, drop (Suc i) s)"

definition last_index :: "char \<Rightarrow> string \<Rightarrow> nat option" where
  "last_index c s =
     (if c \<in> set s then Some (length s - 1 - length (takeWhile (\<lambda>x. x \<noteq> c) (rev s))) else None)"

definition unquote :: "string \<Rightarrow> string" where
  "unquote s =
     (if length s > 1 \<and> hd s = CHR 34 \<and> last s = CHR 34 then butlast (tl s) else s)"

definition strip_tag :: "string \<Rightarrow> string" where
  "strip_tag localPart =
     (case first_index (CHR ''+'') localPart of
        Some i \<Rightarrow> if i > 0 then take i localPart else localPart
      | None \<Rightarrow> localPart)"

text \<open>\<open>domainToASCII\<close> answers the empty string for a domain it cannot convert.\<close>

definition canonicalEmailDestination :: "(string \<Rightarrow> string) \<Rightarrow> string \<Rightarrow> string" where
  "canonicalEmailDestination domainToASCII email =
     (let normalized = to_lower_case (trim email)
      in (case last_index (CHR ''@'') normalized of
            None \<Rightarrow> normalized
          | Some separatorIndex \<Rightarrow>
              (if separatorIndex = 0 then normalized
               else
                 (case split_at separatorIndex normalized of
                    (before, rest) \<Rightarrow>
                      (let localPart = strip_tag (unquote before);
                           ascii = domainToASCII rest;
                           domain = (if ascii = [] then rest else ascii)
                       in if domain \<in> DOT_INSENSITIVE_DOMAINS
                          then filter (\<lambda>c. c \<noteq> CHR ''.'') localPart @ ''@'' @ ''gmail.com''
                          else localPart @ ''@'' @ domain)))))"

text \<open>What the send limit promises a destination: a bound per window, budgets that do not touch each other, and
  a unit back for a send that failed.\<close>

section \<open>The bound\<close>

lemma counter_at_later: "counter_at s key c = None \<Longrightarrow> s \<le> t \<Longrightarrow> counter_at t key c = None"
  by (auto simp: counter_at_def split: option.splits if_splits)

text \<open>
  Asking for and giving back units of one destination's budget: how many were granted, how many were given back
  while their window was still open, and the counters.
\<close>

datatype send_op = Ask time | GiveBack time

fun op_time :: "send_op \<Rightarrow> time" where
  "op_time (Ask t) = t"
| "op_time (GiveBack t) = t"

fun asked :: "send_op list \<Rightarrow> int" where
  "asked [] = 0"
| "asked (Ask t # ops) = asked ops + 1"
| "asked (GiveBack t # ops) = asked ops"

fun run_sends ::
  "(string \<Rightarrow> string) \<Rightarrow> send_purpose \<Rightarrow> string \<Rightarrow> send_op list \<Rightarrow> int \<times> int \<times> counters
   \<Rightarrow> int \<times> int \<times> counters" where
  "run_sends hmac p d [] s = s"
| "run_sends hmac p d (Ask t # ops) (granted, returned, c) =
     (case reserve hmac True p d t c of
        Inr (Some key, c') \<Rightarrow> run_sends hmac p d ops (granted + 1, returned, c')
      | Inr (None, c') \<Rightarrow> run_sends hmac p d ops (granted, returned, c')
      | Inl e \<Rightarrow> (granted, returned, c))"
| "run_sends hmac p d (GiveBack t # ops) (granted, returned, c) =
     run_sends hmac p d ops
       (granted, if counter_at t (keyFor hmac p d) c = None then returned else returned + 1,
        release_unit (keyFor hmac p d) t c)"

lemma limits_positive: "0 < sl_limit (SEND_LIMITS p)" "0 < sl_window_seconds (SEND_LIMITS p)"
  by (cases p; simp)+

text \<open>What holds of a window that the first of \<open>n\<close> asks opened at \<open>start\<close>.\<close>

definition window_ok ::
  "(string \<Rightarrow> string) \<Rightarrow> send_purpose \<Rightarrow> string \<Rightarrow> time \<Rightarrow> int \<Rightarrow> int \<times> int \<times> counters \<Rightarrow> bool" where
  "window_ok hmac p d start asks s \<longleftrightarrow>
     (case s of (granted, returned, c) \<Rightarrow>
        (\<exists>count. c (keyFor hmac p d) = Some (count, start + sl_window_seconds (SEND_LIMITS p) * 1000) \<and>
           granted \<le> count + returned \<and> granted \<le> sl_limit (SEND_LIMITS p) + returned \<and> count \<le> asks \<and>
           min (sl_limit (SEND_LIMITS p)) asks \<le> granted))"

lemma window_opens:
  assumes "counter_at start (keyFor hmac p d) c = None"
  shows "\<exists>key c'. reserve hmac True p d start c = Inr (Some key, c') \<and> window_ok hmac p d start 1 (1, 0, c')"
  using assms limits_positive [of p] by (auto simp: reserve_def Let_def window_ok_def)

lemma window_ask:
  assumes "window_ok hmac p d start asks (granted, returned, c)"
    and time: "t < start + sl_window_seconds (SEND_LIMITS p) * 1000"
    and ask: "reserve hmac True p d t c = Inr (r, c')"
  shows "window_ok hmac p d start (asks + 1) (if r = None then granted else granted + 1, returned, c')"
proof -
  obtain count where key: "c (keyFor hmac p d) = Some (count, start + sl_window_seconds (SEND_LIMITS p) * 1000)"
    and bounds: "granted \<le> count + returned" "granted \<le> sl_limit (SEND_LIMITS p) + returned" "count \<le> asks"
      "min (sl_limit (SEND_LIMITS p)) asks \<le> granted"
    using assms(1) unfolding window_ok_def prod.case by (elim exE conjE)
  have "counter_at t (keyFor hmac p d) c = Some (count, start + sl_window_seconds (SEND_LIMITS p) * 1000)"
    using key time by (simp add: counter_at_def)
  then have "c' = c(keyFor hmac p d \<mapsto> (count + 1, start + sl_window_seconds (SEND_LIMITS p) * 1000))"
    "r = None \<longleftrightarrow> sl_limit (SEND_LIMITS p) < count + 1"
    using ask by (auto simp: reserve_def Let_def split: if_splits)
  then show ?thesis using bounds by (auto simp: window_ok_def)
qed

lemma window_give_back:
  assumes "window_ok hmac p d start asks (granted, returned, c)"
    and "t < start + sl_window_seconds (SEND_LIMITS p) * 1000"
  shows "counter_at t (keyFor hmac p d) c \<noteq> None"
    and "window_ok hmac p d start asks (granted, returned + 1, release_unit (keyFor hmac p d) t c)"
  using assms by (auto simp: window_ok_def counter_at_def release_unit_def)

lemma window_run:
  assumes "window_ok hmac p d start asks s"
    and "\<forall>op \<in> set ops. op_time op < start + sl_window_seconds (SEND_LIMITS p) * 1000"
  shows "window_ok hmac p d start (asks + asked ops) (run_sends hmac p d ops s)"
  using assms
proof (induction ops arbitrary: s asks)
  case Nil
  then show ?case by simp
next
  case (Cons op ops)
  obtain granted returned c where s: "s = (granted, returned, c)" by (cases s)
  show ?case
  proof (cases op)
    case (Ask t)
    obtain r c' where r: "reserve hmac True p d t c = Inr (r, c')"
      by (auto simp: reserve_def Let_def)
    have "window_ok hmac p d start (asks + 1) (if r = None then granted else granted + 1, returned, c')"
      using window_ask [OF Cons.prems(1) [unfolded s] _ r] Cons.prems(2) Ask by simp
    from Cons.IH [OF this] Cons.prems(2) Ask r show ?thesis
      by (cases r) (simp_all add: s algebra_simps)
  next
    case (GiveBack t)
    have t: "t < start + sl_window_seconds (SEND_LIMITS p) * 1000" using Cons.prems(2) GiveBack by simp
    from Cons.IH [OF window_give_back(2) [OF Cons.prems(1) [unfolded s] t]]
      window_give_back(1) [OF Cons.prems(1) [unfolded s] t] Cons.prems(2) GiveBack
    show ?thesis by (auto simp: s)
  qed
qed

text \<open>A unit given back after its window has closed changes nothing.\<close>

lemma late_give_backs:
  assumes "\<forall>t \<in> set late. counter_at t (keyFor hmac p d) c = None"
  shows "run_sends hmac p d (map GiveBack late @ ops) (granted, returned, c) =
    run_sends hmac p d ops (granted, returned, c)"
  using assms by (induction late) (simp_all add: release_unit_def)

text \<open>C36: one destination gets its limit and no more.  Take the first ask after a window of the destination has
  closed, at \<open>start\<close>, and whatever units of earlier windows are given back before it.  However sends are asked for
  and given back within the purpose's period from \<open>start\<close>, at least as many are granted as were asked for, up to
  the limit, and at most the limit beyond those given back since \<open>start\<close>; and the window closes when the period
  is over, whatever was asked in it.\<close>

theorem send_limit_bound:
  assumes "\<forall>t \<in> set (start # late). counter_at t (keyFor hmac p d) c = None"
    and "\<forall>op \<in> set ops. op_time op < start + sl_window_seconds (SEND_LIMITS p) * 1000"
    and "run_sends hmac p d (map GiveBack late @ Ask start # ops) (0, 0, c) = (granted, returned, c')"
  shows "granted \<le> sl_limit (SEND_LIMITS p) + returned \<and>
    min (sl_limit (SEND_LIMITS p)) (asked (Ask start # ops)) \<le> granted \<and>
    counter_at (start + sl_window_seconds (SEND_LIMITS p) * 1000) (keyFor hmac p d) c' = None"
proof -
  obtain key c1 where opened: "reserve hmac True p d start c = Inr (Some key, c1)" "window_ok hmac p d start 1 (1, 0, c1)"
    using window_opens [of start hmac p d c] assms(1) by auto
  have "run_sends hmac p d ops (1, 0, c1) = (granted, returned, c')"
    using assms(1,3) opened(1) by (simp add: late_give_backs)
  with window_run [OF opened(2) assms(2)] have "window_ok hmac p d start (1 + asked ops) (granted, returned, c')"
    by simp
  then show ?thesis by (auto simp: window_ok_def counter_at_def add.commute)
qed

section \<open>Separate budgets\<close>

lemma keyFor_purpose:
  assumes "keyFor hmac p d = keyFor hmac q e" shows "p = q \<and> hmac d = hmac e"
  using assms by (cases p; cases q) (simp_all add: keyFor_def)

text \<open>No send spends another's budget: a reservation leaves what every other purpose, and every destination
  with another digest, has left.\<close>

theorem budgets_are_separate:
  assumes "reserve hmac up p d now c = Inr (r, c')" and "p \<noteq> q \<or> hmac d \<noteq> hmac e"
  shows "hasBudget hmac up' q e later c' = hasBudget hmac up' q e later c"
proof -
  have "keyFor hmac q e \<noteq> keyFor hmac p d" using keyFor_purpose assms(2) by metis
  moreover obtain entry where "c' = c(keyFor hmac p d \<mapsto> entry)"
    using assms(1) unfolding reserve_def Let_def throw_Inr by blast
  ultimately show ?thesis unfolding hasBudget_def counter_at_def Let_def by simp
qed

section \<open>Failures\<close>

text \<open>A send that fails costs nothing.  When the provider refuses a send and Redis answers throughout, the
  destination has exactly the budget it had, from then on.\<close>

theorem failed_send_gives_back:
  assumes "sendWithinLimit hmac True True p d sent now later c = (Inl e, hasRun, c')"
    and "now \<le> later" and "later \<le> t"
  shows "hasRun \<and> hasBudget hmac True p d t c' = hasBudget hmac True p d t c"
proof -
  let ?key = "keyFor hmac p d"
  let ?entry = "case counter_at now ?key c of None \<Rightarrow> (1, now + sl_window_seconds (SEND_LIMITS p) * 1000)
      | Some (n, until) \<Rightarrow> (n + 1, until)"
  have c': "hasRun" "c' = release_unit ?key later (c(?key \<mapsto> ?entry))"
    using assms(1)
    by (auto simp: sendWithinLimit_def reserve_def sendReserved_def Let_def split: option.splits sum.splits if_splits)
  show ?thesis
  proof (cases "counter_at now ?key c")
    case None
    then have "counter_at t ?key c = None" using counter_at_later assms(2,3) by (meson order_trans)
    then show ?thesis
      using c' None assms(3) limits_positive(1) [of p]
      by (auto simp: hasBudget_def release_unit_def counter_at_def Let_def split: option.splits if_splits)
  next
    case (Some x)
    then show ?thesis
      using c' assms(2,3)
      by (auto simp: hasBudget_def release_unit_def counter_at_def Let_def split: option.splits if_splits)
  qed
qed

text \<open>An attempt that was refused is counted like a send, so giving a unit back does not restore a budget
  others have knocked at meanwhile: after three sends, two refusals and one failed send only two
  messages are out, and the third is still refused.\<close>

theorem refused_attempts_use_budget:
  "\<exists>c c'. run_sends hmac PHONE_VERIFICATION d [Ask t, Ask t, Ask t, Ask t, Ask t, GiveBack t]
       (0, 0, Map.empty) = (3, 1, c) \<and>
     reserve hmac True PHONE_VERIFICATION d t c = Inr (None, c')"
  by (simp add: reserve_def release_unit_def counter_at_def Let_def)

end
