(* ===== verification/Concurrency_Limit.thy ===== *)
theory Concurrency_Limit
  imports Service_Prelude
begin

text \<open>
  \<open>src/src/common/util/concurrency-limit.util.ts\<close>, which the file processor runs its image encodes through.
  JavaScript runs one piece of a task at a time; resolving a waiter's promise only queues its
  continuation.  A task is therefore waiting, woken (its promise resolved, its continuation still queued)
  or running, and the calls, wake-ups and ends of tasks interleave.
\<close>

section \<open>The limiter\<close>

record limiter =
  running :: nat
  waiting :: "ident list"
  woken :: "ident list"

text \<open>A call: it starts its task or queues it.\<close>

definition limiter_call :: "nat \<Rightarrow> ident \<Rightarrow> limiter \<Rightarrow> limiter" where
  "limiter_call limit task l =
     (if running l \<ge> limit then l\<lparr>waiting := waiting l @ [task]\<rparr>
      else l\<lparr>running := running l + 1\<rparr>)"

text \<open>The continuation of a woken waiter.\<close>

definition limiter_resume :: "ident \<Rightarrow> limiter \<Rightarrow> limiter" where
  "limiter_resume task l = l\<lparr>woken := remove1 task (woken l), running := running l + 1\<rparr>"

text \<open>The end of a task, well or badly: \<open>release\<close>.\<close>

definition limiter_release :: "limiter \<Rightarrow> limiter" where
  "limiter_release l =
     (let l1 = l\<lparr>running := running l - 1\<rparr>
      in (case waiting l1 of
            [] \<Rightarrow> l1
          | next # rest \<Rightarrow> l1\<lparr>waiting := rest, woken := woken l1 @ [next]\<rparr>))"

section \<open>The steps\<close>

inductive limiter_step :: "nat \<Rightarrow> limiter \<Rightarrow> limiter \<Rightarrow> bool" for limit :: nat where
  called: "limiter_step limit l (limiter_call limit task l)"
| resumed: "task \<in> set (woken l) \<Longrightarrow> limiter_step limit l (limiter_resume task l)"
| released: "0 < running l \<Longrightarrow> limiter_step limit l (limiter_release l)"

definition limiter_init :: "limiter \<Rightarrow> bool" where
  "limiter_init l \<longleftrightarrow> running l = 0 \<and> waiting l = [] \<and> woken l = []"

definition limiter_inv :: "limiter \<Rightarrow> bool" where
  "limiter_inv l \<longleftrightarrow> (waiting l = [] \<or> 0 < running l \<or> woken l \<noteq> [])"

inductive_cases limiter_stepE: "limiter_step limit l l'"

lemma limiter_inv_step: "0 < limit \<Longrightarrow> limiter_inv l \<Longrightarrow> limiter_step limit l l' \<Longrightarrow> limiter_inv l'"
  by (erule limiter_stepE)
    (auto simp: limiter_inv_def limiter_call_def limiter_resume_def limiter_release_def Let_def split: list.splits)

interpretation encodes: machine limiter_init "limiter_step (Suc n)" limiter_inv for n
proof
  show "limiter_init l \<Longrightarrow> limiter_inv l" for l by (simp add: limiter_init_def limiter_inv_def)
  show "limiter_inv l \<Longrightarrow> limiter_step (Suc n) l l' \<Longrightarrow> limiter_inv l'" for l l'
    using limiter_inv_step by blast
qed

text \<open>No waiter is forgotten: while a task waits, another is running and will wake one when it ends, or one
  has been woken and is about to run.\<close>

theorem waiter_never_stranded:
  assumes "0 < limit" and "reachable limiter_init (limiter_step limit) l" and "waiting l \<noteq> []"
  shows "0 < running l \<or> woken l \<noteq> []"
proof -
  obtain n where "limit = Suc n" using assms(1) by (cases limit) auto
  then have "limiter_inv l" using encodes.inv_reachable assms(2) by blast
  then show ?thesis using assms(3) by (auto simp: limiter_inv_def)
qed

text \<open>Waiters are woken in the order they came.\<close>

lemma release_wakes_first:
  "waiting l = task # rest \<Longrightarrow> woken (limiter_release l) = woken l @ [task] \<and> waiting (limiter_release l) = rest"
  by (simp add: limiter_release_def)

text \<open>The three steps, from a reachable state.\<close>

lemma reach_limiter:
  assumes "reachable limiter_init (limiter_step limit) l"
  shows "reachable limiter_init (limiter_step limit) (limiter_call limit task l)"
    and "task \<in> set (woken l) \<Longrightarrow> reachable limiter_init (limiter_step limit) (limiter_resume task l)"
    and "0 < running l \<Longrightarrow> reachable limiter_init (limiter_step limit) (limiter_release l)"
  using assms reachable.next_step [where init = limiter_init and step = "limiter_step limit"]
    limiter_step.intros by blast+

text \<open>The limiter runs more tasks at once than its limit.  The end of a task makes room before the waiter it
  wakes has taken it, so a call that comes in between takes the room too.\<close>

theorem limit_exceeded:
  "\<exists>l. reachable limiter_init (limiter_step (Suc n)) l \<and> running l = Suc n + 1"
proof -
  let ?reach = "reachable limiter_init (limiter_step (Suc n))"
  let ?s = "\<lambda>k ws us. \<lparr>running = k, waiting = ws, woken = us\<rparr>"
  have full: "k \<le> Suc n \<Longrightarrow> ?reach (?s k [] [])" for k
  proof (induction k)
    case 0
    show ?case by (rule reachable.start) (simp add: limiter_init_def)
  next
    case (Suc k)
    have "limiter_call (Suc n) ''a'' (?s k [] []) = ?s (Suc k) [] []"
      using Suc.prems by (simp add: limiter_call_def)
    with reach_limiter(1) [OF Suc.IH, of "''a''"] Suc.prems show ?case by simp
  qed
  have "?reach (?s (Suc n) [''b''] [])"
    using reach_limiter(1) [OF full [OF order_refl], of "''b''"] by (simp add: limiter_call_def)
  from reach_limiter(3) [OF this] have "?reach (?s n [] [''b''])"
    by (simp add: limiter_release_def Let_def)
  from reach_limiter(1) [OF this, of "''c''"] have "?reach (?s (Suc n) [] [''b''])"
    by (simp add: limiter_call_def)
  from reach_limiter(2) [OF this, of "''b''"] have "?reach (?s (Suc n + 1) [] [])"
    by (simp add: limiter_resume_def)
  then show ?thesis by (metis limiter.select_convs(1))
qed

end
