(* ===== verification/Platform_Roles.thy ===== *)
theory Platform_Roles
  imports Ownership
begin

text \<open>
  Platform roles under \<open>src/src/modules/roles\<close>: granting and revoking them (\<open>user-roles.service.ts\<close>) and
  the ceiling a role picker shows (\<open>roles.service.ts\<close>).  The ability library and the caller's ability are
  arguments, as in the workspace policies.
\<close>

definition NO_AUTHORITY_RANK :: int where
  "NO_AUTHORITY_RANK = 0"

definition loadPlatformRole :: "ident \<Rightarrow> world \<Rightarrow> exn + role_row" where
  "loadPlatformRole roleId w =
     (case find_role w roleId of
        None \<Rightarrow> Inl (resourceNotFound ''Role'' None)
      | Some role \<Rightarrow>
          (if r_scope role \<noteq> PLATFORM
           then Inl (badRequest (''Only platform-scoped roles can be assigned to a user account. '' @
             ''Workspace roles are granted by adding the user to a workspace.''))
           else Inr role))"

definition actor_ranks :: "ident \<Rightarrow> world \<Rightarrow> int list" where
  "actor_ranks actorId w = map (\<lambda>(u, r). role_rank w r) (filter (\<lambda>(u, r). u = actorId) (user_roles w))"

text \<open>\<open>Math.max\<close> of the ranks, or no authority at all.\<close>

definition platform_rank :: "ident \<Rightarrow> world \<Rightarrow> int" where
  "platform_rank actorId w =
     (case actor_ranks actorId w of [] \<Rightarrow> NO_AUTHORITY_RANK | x # xs \<Rightarrow> fold max xs x)"

definition assertMayAssignRank :: "casl \<Rightarrow> ident \<Rightarrow> int \<Rightarrow> ability \<Rightarrow> world \<Rightarrow> exn + unit" where
  "assertMayAssignRank c actorId targetRank ab w =
     (if can_type c ab A_manage S_all then Inr ()
      else guardE (\<not> platform_rank actorId w < targetRank)
             (permissionDenied ''assignRole'' (Some ''User'')))"

definition assign :: "casl \<Rightarrow> ident \<Rightarrow> ident \<Rightarrow> ability \<Rightarrow> ident \<Rightarrow> time \<Rightarrow> world \<Rightarrow> exn + world" where
  "assign c userId roleId ab actorId now w =
     bindE (requireE (find_live_user w userId) (resourceNotFound ''User'' None)) (\<lambda>_.
     bindE (loadPlatformRole roleId w) (\<lambda>role.
     bindE (assertMayAssignRank c actorId (r_rank role) ab w) (\<lambda>_.
     (let w1 = (if (userId, roleId) \<in> set (user_roles w) then w
                else w\<lparr>user_roles := user_roles w @ [(userId, roleId)]\<rparr>)
      in Inr (audit_record
           (audit ''user.role_assigned'' (Some actorId) (Some userId)
              (JObj [(''roleId'', JStr roleId), (''roleName'', JStr (r_name role))]))
           (invalidateUser userId now w1))))))"

definition revoke :: "casl \<Rightarrow> ident \<Rightarrow> ident \<Rightarrow> ability \<Rightarrow> ident \<Rightarrow> time \<Rightarrow> world \<Rightarrow> exn + world" where
  "revoke c userId roleId ab actorId now w =
     bindE (loadPlatformRole roleId w) (\<lambda>role.
     bindE (assertMayAssignRank c actorId (r_rank role) ab w) (\<lambda>_.
     bindE (guardE ((userId, roleId) \<in> set (user_roles w)) (resourceNotFound ''Role assignment'' None)) (\<lambda>_.
     Inr (audit_record
       (audit ''user.role_revoked'' (Some actorId) (Some userId)
          (JObj [(''roleId'', JStr roleId), (''roleName'', JStr (r_name role))]))
       (invalidateUser userId now
          (w\<lparr>user_roles := filter (\<lambda>x. x \<noteq> (userId, roleId)) (user_roles w)\<rparr>))))))"

text \<open>\<open>None\<close> is unbounded.\<close>

definition resolveAssignmentCeiling :: "casl \<Rightarrow> ident \<Rightarrow> ident \<Rightarrow> ability \<Rightarrow> world \<Rightarrow> int option" where
  "resolveAssignmentCeiling c workspaceId actorId ab w =
     (if can_type c ab A_manage S_all then None
      else (case find_membership workspaceId actorId w of
              None \<Rightarrow> Some 0
            | Some m \<Rightarrow> (if m_status m \<noteq> ACTIVE then Some 0 else Some (role_rank w (m_role_id m)))))"

definition assignable_roles :: "casl \<Rightarrow> ident \<Rightarrow> ident \<Rightarrow> ability \<Rightarrow> world \<Rightarrow> role_row list" where
  "assignable_roles c workspaceId actorId ab w =
     filter (\<lambda>r. r_scope r = WORKSPACE \<and>
       (case resolveAssignmentCeiling c workspaceId actorId ab w of
          None \<Rightarrow> True | Some ceiling \<Rightarrow> r_rank r \<le> ceiling)) (roles w)"

section \<open>What it promises\<close>

lemma invalidateUser_tables [simp]:
  "user_roles (invalidateUser u now w) = user_roles w" "roles (invalidateUser u now w) = roles w"
  by (simp_all add: invalidateUser_def redis_del_def split: option.splits)

lemma fold_max_eq: "fold max xs (x :: int) = Max (set (x # xs))"
  by (rule Max.set_eq_fold [symmetric])

lemma platform_rank_Max:
  "platform_rank u w = (if actor_ranks u w = [] then 0 else Max (set (actor_ranks u w)))"
  by (cases "actor_ranks u w") (simp_all add: platform_rank_def fold_max_eq NO_AUTHORITY_RANK_def)

lemma assign_Inr:
  assumes "assign c userId roleId ab actorId now w = Inr w'"
  obtains role where "find_role w roleId = Some role" "r_scope role = PLATFORM"
    "can_type c ab A_manage S_all \<or> r_rank role \<le> platform_rank actorId w"
    "user_roles w' = (if (userId, roleId) \<in> set (user_roles w) then user_roles w
       else user_roles w @ [(userId, roleId)])" "roles w' = roles w"
  using assms
  by (auto simp: assign_def loadPlatformRole_def assertMayAssignRank_def Let_def svc throw_Inr
      split: option.splits if_splits)

text \<open>Nobody hands out platform authority they do not have.  An assignment by anybody short of a platform
  administrator gives a platform role of at most the caller's own rank, so it lifts nobody, the caller
  included, above the higher of their own rank and the caller's.\<close>

theorem platform_rank_ceiling:
  assumes "assign c userId roleId ab actorId now w = Inr w'" and "\<not> can_type c ab A_manage S_all"
  shows "\<exists>role. find_role w roleId = Some role \<and> r_scope role = PLATFORM \<and>
    r_rank role \<le> platform_rank actorId w \<and>
    (actor_ranks v w \<noteq> [] \<or> 0 \<le> r_rank role \<longrightarrow>
       platform_rank v w' \<le> max (platform_rank v w) (platform_rank actorId w))"
proof -
  obtain role where role: "find_role w roleId = Some role" "r_scope role = PLATFORM"
    "r_rank role \<le> platform_rank actorId w"
    and rows: "user_roles w' = (if (userId, roleId) \<in> set (user_roles w) then user_roles w
       else user_roles w @ [(userId, roleId)])" "roles w' = roles w"
    using assign_Inr [OF assms(1)] assms(2) by metis
  have ranks: "role_rank w' r = role_rank w r" for r
    by (simp add: role_rank_def find_role_def rows(2))
  have rank: "role_rank w roleId = r_rank role" by (simp add: role_rank_def role(1))
  have "actor_ranks v w' = actor_ranks v w \<or> actor_ranks v w' = actor_ranks v w @ [r_rank role]"
    using rank by (auto simp: actor_ranks_def rows(1) ranks)
  then have "platform_rank v w' \<le> max (platform_rank v w) (r_rank role)"
    if "actor_ranks v w \<noteq> [] \<or> 0 \<le> r_rank role"
  proof
    assume "actor_ranks v w' = actor_ranks v w @ [r_rank role]"
    then show ?thesis
      using that by (cases "actor_ranks v w = []") (simp_all add: platform_rank_Max max.commute)
  qed (simp add: platform_rank_Max)
  then show ?thesis using role by fastforce
qed

text \<open>A role given and taken back leaves no trace in the assignments, and taking back what is not there is
  an error.\<close>

theorem assign_revoke_roundtrip:
  assumes "assign c userId roleId ab actorId now w = Inr w'" and "(userId, roleId) \<notin> set (user_roles w)"
    and "can_type c ab' A_manage S_all"
  shows "\<exists>w''. revoke c userId roleId ab' actorId' later w' = Inr w'' \<and> user_roles w'' = user_roles w \<and>
    revoke c userId roleId ab' actorId' later w'' = Inl (resourceNotFound ''Role assignment'' None)"
proof -
  obtain role where role: "find_role w roleId = Some role" "r_scope role = PLATFORM"
    and rows: "user_roles w' = user_roles w @ [(userId, roleId)]" "roles w' = roles w"
    using assign_Inr [OF assms(1)] assms(2) by metis
  have found: "loadPlatformRole roleId v = Inr role" if "roles v = roles w" for v
    using role that by (simp add: loadPlatformRole_def find_role_def)
  have filter: "filter (\<lambda>x. x \<noteq> (userId, roleId)) (user_roles w') = user_roles w"
    using assms(2) by (simp add: rows(1)) (metis (mono_tags, lifting) filter_True)
  let ?w = "audit_record (audit ''user.role_revoked'' (Some actorId') (Some userId)
      (JObj [(''roleId'', JStr roleId), (''roleName'', JStr (r_name role))]))
      (invalidateUser userId later (w'\<lparr>user_roles := filter (\<lambda>x. x \<noteq> (userId, roleId)) (user_roles w')\<rparr>))"
  have "revoke c userId roleId ab' actorId' later w' = Inr ?w"
    using assms(3) by (simp add: revoke_def found rows assertMayAssignRank_def)
  moreover have "user_roles ?w = user_roles w" using filter by simp
  moreover have "revoke c userId roleId ab' actorId' later ?w = Inl (resourceNotFound ''Role assignment'' None)"
    using assms(2,3) filter by (simp add: revoke_def found rows(2) assertMayAssignRank_def)
  ultimately show ?thesis by blast
qed

text \<open>The picker offers only what the write would take: for a member, roles of at most their own rank.\<close>

lemma picker_within_ceiling:
  assumes "r \<in> set (assignable_roles c workspaceId actorId ab w)"
    and "resolveActorRank c workspaceId actorId ab w = Inr ceiling"
  shows "assertRankPermits ceiling (r_rank r) = Inr ()"
  using assms
  by (auto simp: assignable_roles_def resolveAssignmentCeiling_def resolveActorRank_def assertRankPermits_def
      split: option.splits if_splits)

end
