(* ===== verification/App_Versions.thy ===== *)
theory App_Versions
  imports Access
begin

text \<open>
  Releases of the client apps: \<open>src/src/modules/app-versions/app-versions.service.ts\<close> and
  \<open>release-train-registry.ts\<close>.  An update is its checks, on the row it read, and its write, so that
  another update can commit in between.
\<close>

section \<open>Release trains\<close>

datatype app_platform = WEB_APP | MOBILE_APP | DESKTOP_APP

datatype device_os = IOS | ANDROID | MACOS | LINUX | WINDOWS

fun platform_value :: "app_platform \<Rightarrow> string" where
  "platform_value WEB_APP = ''web''"
| "platform_value MOBILE_APP = ''mobile''"
| "platform_value DESKTOP_APP = ''desktop''"

fun os_value :: "device_os \<Rightarrow> string" where
  "os_value IOS = ''ios''"
| "os_value ANDROID = ''android''"
| "os_value MACOS = ''macos''"
| "os_value LINUX = ''linux''"
| "os_value WINDOWS = ''windows''"

fun RELEASE_TRAIN_OS_BY_PLATFORM :: "app_platform \<Rightarrow> device_os list" where
  "RELEASE_TRAIN_OS_BY_PLATFORM WEB_APP = []"
| "RELEASE_TRAIN_OS_BY_PLATFORM MOBILE_APP = [IOS, ANDROID]"
| "RELEASE_TRAIN_OS_BY_PLATFORM DESKTOP_APP = [MACOS, WINDOWS, LINUX]"

definition isSingleDistributionPlatform :: "app_platform \<Rightarrow> bool" where
  "isSingleDistributionPlatform p \<longleftrightarrow> RELEASE_TRAIN_OS_BY_PLATFORM p = []"

definition isReleaseTrainOsForPlatform :: "app_platform \<Rightarrow> device_os \<Rightarrow> bool" where
  "isReleaseTrainOsForPlatform p os \<longleftrightarrow> os \<in> set (RELEASE_TRAIN_OS_BY_PLATFORM p)"

fun joined :: "string list \<Rightarrow> string" where
  "joined [] = []"
| "joined [x] = x"
| "joined (x # xs) = x @ '', '' @ joined xs"

definition train_names :: "app_platform \<Rightarrow> string" where
  "train_names p = joined (map os_value (RELEASE_TRAIN_OS_BY_PLATFORM p))"

definition quoted :: "string \<Rightarrow> string" where
  "quoted s = [CHR 34] @ s @ [CHR 34]"

text \<open>The messages' dash is written as a hyphen.\<close>

definition resolveDeviceOs :: "app_platform \<Rightarrow> device_os option \<Rightarrow> exn + device_os option" where
  "resolveDeviceOs p os =
     (if isSingleDistributionPlatform p then Inr None
      else (case os of
              None \<Rightarrow> Inl (badRequest (''deviceOs is required for platform '' @ quoted (platform_value p) @
                '' - it ships one release per OS ('' @ train_names p @ '')''))
            | Some x \<Rightarrow>
                (if \<not> isReleaseTrainOsForPlatform p x
                 then Inl (badRequest (''deviceOs '' @ quoted (os_value x) @ '' is not a release train for platform '' @
                   quoted (platform_value p) @ '' - expected one of: '' @ train_names p))
                 else Inr (Some x))))"

section \<open>The table\<close>

record release_row =
  av_id :: ident
  av_version :: string
  av_description :: "string option"
  av_platform :: app_platform
  av_device_os :: "device_os option"
  av_release_date :: time
  av_download_url :: "string option"
  av_is_force_update :: bool
  av_created_by :: "ident option"
  av_updated_by :: "ident option"

record release_world =
  releases :: "release_row list"
  release_audit :: "audit_entry list"

record create_release =
  cv_version :: string
  cv_description :: "string option"
  cv_platform :: app_platform
  cv_device_os :: "device_os option"
  cv_release_date :: time
  cv_download_url :: "string option"
  cv_is_force_update :: bool

text \<open>A patch: \<open>None\<close> is a field that is not in the body.\<close>

record update_release =
  uv_version :: "string option"
  uv_description :: "string option"
  uv_platform :: "app_platform option"
  uv_device_os :: "device_os option"
  uv_release_date :: "time option"
  uv_download_url :: "string option"
  uv_is_force_update :: "bool option"

definition same_release :: "app_platform \<Rightarrow> device_os option \<Rightarrow> string \<Rightarrow> release_row \<Rightarrow> bool" where
  "same_release p os v r \<longleftrightarrow> av_platform r = p \<and> av_device_os r = os \<and> av_version r = v"

definition assertVersionAvailable ::
  "app_platform \<Rightarrow> device_os option \<Rightarrow> string \<Rightarrow> ident option \<Rightarrow> release_world \<Rightarrow> exn + unit" where
  "assertVersionAvailable p os v excludeId w =
     guardE (\<not> (\<exists>r \<in> set (releases w). same_release p os v r \<and>
               (case excludeId of Some i \<Rightarrow> i = [] \<or> av_id r \<noteq> i | None \<Rightarrow> True)))
       (uniqueConstraintViolation ''version'')"

text \<open>The unique index of the database, in which null operating systems are distinct.\<close>

definition index_violated :: "release_row \<Rightarrow> release_world \<Rightarrow> bool" where
  "index_violated r w \<longleftrightarrow>
     (\<exists>x \<in> set (releases w). av_id x \<noteq> av_id r \<and> av_device_os r \<noteq> None \<and>
        same_release (av_platform r) (av_device_os r) (av_version r) x)"

definition release_audited :: "string \<Rightarrow> ident option \<Rightarrow> release_row \<Rightarrow> release_world \<Rightarrow> release_world" where
  "release_audited act actorId r w =
     (if truthy actorId
      then w\<lparr>release_audit := release_audit w @
        [audit act actorId None
           (JObj [(''appVersionId'', JStr (av_id r)), (''platform'', JStr (platform_value (av_platform r))),
                  (''deviceOs'', json_of_option (\<lambda>x. JStr (os_value x)) (av_device_os r)),
                  (''version'', JStr (av_version r))])]\<rparr>
      else w)"

definition create_version ::
  "create_release \<Rightarrow> ident option \<Rightarrow> ident \<Rightarrow> release_world \<Rightarrow> exn + release_row \<times> release_world" where
  "create_version dto actorId newId w =
     bindE (resolveDeviceOs (cv_platform dto) (cv_device_os dto)) (\<lambda>deviceOs.
     bindE (assertVersionAvailable (cv_platform dto) deviceOs (cv_version dto) None w) (\<lambda>_.
     (let row = \<lparr>av_id = newId, av_version = cv_version dto, av_description = cv_description dto,
            av_platform = cv_platform dto, av_device_os = deviceOs, av_release_date = cv_release_date dto,
            av_download_url = cv_download_url dto, av_is_force_update = cv_is_force_update dto,
            av_created_by = actorId, av_updated_by = actorId\<rparr>
      in if index_violated row w \<or> newId \<in> av_id ` set (releases w)
         then Inl (PrismaKnownRequestError ''P2002'')
         else Inr (row, release_audited ''app_version.created'' actorId row
                (w\<lparr>releases := releases w @ [row]\<rparr>)))))"

definition find_release :: "ident \<Rightarrow> release_world \<Rightarrow> exn + release_row" where
  "find_release i w =
     requireE (find (\<lambda>r. av_id r = i) (releases w)) (resourceNotFound ''App version'' None)"

text \<open>The columns a patch writes; \<open>deviceOs\<close> only when it touches the train.\<close>

definition patch_release ::
  "update_release \<Rightarrow> device_os option option \<Rightarrow> ident option \<Rightarrow> release_row \<Rightarrow> release_row" where
  "patch_release dto deviceOs actorId r =
     r\<lparr>av_version := (case uv_version dto of None \<Rightarrow> av_version r | Some x \<Rightarrow> x),
        av_description := (case uv_description dto of None \<Rightarrow> av_description r | Some x \<Rightarrow> Some x),
        av_platform := (case uv_platform dto of None \<Rightarrow> av_platform r | Some x \<Rightarrow> x),
        av_device_os := (case deviceOs of None \<Rightarrow> av_device_os r | Some x \<Rightarrow> x),
        av_release_date := (case uv_release_date dto of None \<Rightarrow> av_release_date r | Some x \<Rightarrow> x),
        av_download_url := (case uv_download_url dto of None \<Rightarrow> av_download_url r | Some x \<Rightarrow> Some x),
        av_is_force_update := (case uv_is_force_update dto of None \<Rightarrow> av_is_force_update r | Some x \<Rightarrow> x),
        av_updated_by := actorId\<rparr>"

text \<open>The checks of an update: the train it will write, if it writes one.\<close>

definition updateChecks :: "ident \<Rightarrow> update_release \<Rightarrow> release_world \<Rightarrow> exn + device_os option option" where
  "updateChecks i dto w =
     bindE (find_release i w) (\<lambda>existing.
     (let p = (case uv_platform dto of None \<Rightarrow> av_platform existing | Some x \<Rightarrow> x);
          isReleaseTrainAffected = (uv_platform dto \<noteq> None \<or> uv_device_os dto \<noteq> None)
      in bindE (if isReleaseTrainAffected
                then bindE (resolveDeviceOs p (uv_device_os dto)) (\<lambda>x. Inr (Some x)) else Inr None) (\<lambda>deviceOs.
         bindE (assertVersionAvailable p
                  (case deviceOs of None \<Rightarrow> av_device_os existing | Some x \<Rightarrow> x)
                  (case uv_version dto of None \<Rightarrow> av_version existing | Some x \<Rightarrow> x) (Some i) w) (\<lambda>_.
         Inr deviceOs))))"

definition updateWrite ::
  "ident \<Rightarrow> update_release \<Rightarrow> device_os option option \<Rightarrow> ident option \<Rightarrow> release_world
   \<Rightarrow> exn + release_row \<times> release_world" where
  "updateWrite i dto deviceOs actorId w =
     (case find (\<lambda>r. av_id r = i) (releases w) of
        None \<Rightarrow> Inl (PrismaKnownRequestError ''P2025'')
      | Some r \<Rightarrow>
          (let updated = patch_release dto deviceOs actorId r
           in if index_violated updated w then Inl (PrismaKnownRequestError ''P2002'')
              else Inr (updated, release_audited ''app_version.updated'' actorId updated
                     (w\<lparr>releases := update_where (\<lambda>r. av_id r = i) (patch_release dto deviceOs actorId)
                          (releases w)\<rparr>))))"

definition update_version ::
  "ident \<Rightarrow> update_release \<Rightarrow> ident option \<Rightarrow> release_world \<Rightarrow> exn + release_row \<times> release_world" where
  "update_version i dto actorId w =
     bindE (updateChecks i dto w) (\<lambda>deviceOs. updateWrite i dto deviceOs actorId w)"

definition remove_version :: "ident \<Rightarrow> ident option \<Rightarrow> release_world \<Rightarrow> exn + release_world" where
  "remove_version i actorId w =
     bindE (find_release i w) (\<lambda>existing.
     Inr (release_audited ''app_version.deleted'' actorId existing
       (w\<lparr>releases := filter (\<lambda>r. av_id r \<noteq> i) (releases w)\<rparr>)))"

text \<open>\<open>orderBy: releaseDate desc\<close>: a stable sort on the negated date.\<close>

definition findLatest :: "app_platform \<Rightarrow> device_os option \<Rightarrow> release_world \<Rightarrow> exn + release_row" where
  "findLatest p os w =
     (case sort_key (\<lambda>r. - av_release_date r)
             (filter (\<lambda>r. av_platform r = p \<and> av_device_os r = os) (releases w)) of
        [] \<Rightarrow> Inl (resourceNotFound ''App version''
               (Some (''No app version found for platform '' @ quoted (platform_value p) @
                  (case os of None \<Rightarrow> [] | Some x \<Rightarrow> '' and OS '' @ quoted (os_value x)))))
      | r # _ \<Rightarrow> Inr r)"

text \<open>What the releases table keeps: every row belongs to a train its platform has, no release is listed
  twice, and the latest release is the newest of its train; and how an update that overlaps another puts a
  row on no train at all.\<close>

section \<open>Trains and releases\<close>

definition train_ok :: "app_platform \<Rightarrow> device_os option \<Rightarrow> bool" where
  "train_ok p os \<longleftrightarrow>
     (case os of None \<Rightarrow> isSingleDistributionPlatform p | Some x \<Rightarrow> isReleaseTrainOsForPlatform p x)"

lemma resolveDeviceOs_ok: "resolveDeviceOs p os = Inr x \<Longrightarrow> train_ok p x"
  by (auto simp: resolveDeviceOs_def train_ok_def split: option.splits if_splits)

definition release_inv :: "release_world \<Rightarrow> bool" where
  "release_inv w \<longleftrightarrow>
     distinct (map av_id (releases w)) \<and>
     (\<forall>r \<in> set (releases w). train_ok (av_platform r) (av_device_os r)) \<and>
     (\<forall>r \<in> set (releases w). \<forall>x \<in> set (releases w).
        same_release (av_platform r) (av_device_os r) (av_version r) x \<longrightarrow> av_id x = av_id r)"

inductive release_step :: "release_world \<Rightarrow> release_world \<Rightarrow> bool" where
  created: "create_version dto actorId newId w = Inr (r, w') \<Longrightarrow> release_step w w'"
| updated: "update_version i patch actorId w = Inr (r, w') \<Longrightarrow> release_step w w'"
| removed: "remove_version i actorId w = Inr w' \<Longrightarrow> release_step w w'"

definition no_releases :: "release_world \<Rightarrow> bool" where
  "no_releases w \<longleftrightarrow> releases w = []"

lemma release_audited_releases [simp]: "releases (release_audited act actor r w) = releases w"
  by (simp add: release_audited_def)

lemma assertVersionAvailable_Inr:
  "assertVersionAvailable p os v excludeId w = Inr u \<Longrightarrow> x \<in> set (releases w) \<Longrightarrow>
   same_release p os v x \<Longrightarrow> excludeId = Some (av_id x)"
  by (auto simp: assertVersionAvailable_def split: option.splits)

lemma create_Inr:
  assumes "create_version dto actorId newId w = Inr (r, w')"
  shows "releases w' = releases w @ [r]" and "train_ok (av_platform r) (av_device_os r)"
    and "\<forall>x \<in> set (releases w). \<not> same_release (av_platform r) (av_device_os r) (av_version r) x"
    and "\<forall>x \<in> set (releases w). av_id x \<noteq> av_id r"
proof -
  obtain os where os: "resolveDeviceOs (cv_platform dto) (cv_device_os dto) = Inr os"
    and free: "assertVersionAvailable (cv_platform dto) os (cv_version dto) None w = Inr ()"
    and r: "av_platform r = cv_platform dto" "av_device_os r = os" "av_version r = cv_version dto" "av_id r = newId"
    and w': "releases w' = releases w @ [r]" "newId \<notin> av_id ` set (releases w)"
    using assms by (auto simp: create_version_def svc throw_Inr Let_def)
  show "releases w' = releases w @ [r]" "train_ok (av_platform r) (av_device_os r)"
    using w' resolveDeviceOs_ok [OF os] r by simp_all
  show "\<forall>x \<in> set (releases w). \<not> same_release (av_platform r) (av_device_os r) (av_version r) x"
    using assertVersionAvailable_Inr [OF free] r by auto
  show "\<forall>x \<in> set (releases w). av_id x \<noteq> av_id r"
    unfolding r(4) using w'(2) by (metis imageI)
qed

text \<open>A patched row keeps its id; with the columns the checks looked at, it is the release they found free.\<close>

lemma patch_id [simp]: "av_id (patch_release dto os actor r) = av_id r"
  by (simp add: patch_release_def)

lemma update_Inr:
  assumes "update_version i dto actorId w = Inr (r, w')" and "release_inv w"
  obtains x where "x \<in> set (releases w)" "av_id x = i" "av_id r = i"
    "releases w' = update_where (\<lambda>r. av_id r = i) (\<lambda>_. r) (releases w)"
    "train_ok (av_platform r) (av_device_os r)"
    "\<forall>y \<in> set (releases w). same_release (av_platform r) (av_device_os r) (av_version r) y \<longrightarrow> av_id y = i"
proof -
  obtain os x where check: "updateChecks i dto w = Inr os"
    and x: "find (\<lambda>r. av_id r = i) (releases w) = Some x"
    and r: "r = patch_release dto os actorId x"
    and w': "releases w' = update_where (\<lambda>r. av_id r = i) (patch_release dto os actorId) (releases w)"
    using assms(1)
    by (auto simp: update_version_def updateWrite_def bindE_Inr_iff throw_Inr Let_def split: option.splits)
  define p where "p = (case uv_platform dto of None \<Rightarrow> av_platform x | Some y \<Rightarrow> y)"
  have parts: "os = None \<and> uv_platform dto = None \<and> uv_device_os dto = None \<or>
      (\<exists>y. os = Some y \<and> resolveDeviceOs p (uv_device_os dto) = Inr y)"
    "assertVersionAvailable p (case os of None \<Rightarrow> av_device_os x | Some y \<Rightarrow> y)
       (case uv_version dto of None \<Rightarrow> av_version x | Some y \<Rightarrow> y) (Some i) w = Inr ()"
    using check x
    by (auto simp: updateChecks_def find_release_def bindE_Inr_iff p_def Let_def split: if_splits)
  have rx: "x \<in> set (releases w)" "av_id x = i" using find_SomeD [OF x] by auto
  have cols: "av_platform r = p" "av_device_os r = (case os of None \<Rightarrow> av_device_os x | Some y \<Rightarrow> y)"
    "av_version r = (case uv_version dto of None \<Rightarrow> av_version x | Some y \<Rightarrow> y)"
    by (simp_all add: r patch_release_def p_def)
  have train: "train_ok (av_platform r) (av_device_os r)"
    using parts(1)
  proof (elim disjE exE conjE)
    assume "os = None" "uv_platform dto = None"
    then show ?thesis using assms(2) rx cols by (simp add: release_inv_def p_def)
  next
    fix y assume "os = Some y" "resolveDeviceOs p (uv_device_os dto) = Inr y"
    then show ?thesis using resolveDeviceOs_ok cols by simp
  qed
  have only: "y = x" if "y \<in> set (releases w)" "av_id y = i" for y
    using assms(2) distinct_key [of av_id "releases w" y x] that rx by (simp add: release_inv_def)
  have "releases w' = update_where (\<lambda>r. av_id r = i) (\<lambda>_. r) (releases w)"
    using only by (auto simp: w' r update_where_def)
  moreover have "\<forall>y \<in> set (releases w). same_release (av_platform r) (av_device_os r) (av_version r) y \<longrightarrow> av_id y = i"
    using assertVersionAvailable_Inr [OF parts(2)] cols by auto
  ultimately show thesis using that rx train r by simp
qed

lemma release_inv_step: "release_inv w \<Longrightarrow> release_step w w' \<Longrightarrow> release_inv w'"
proof -
  assume inv: "release_inv w" and "release_step w w'"
  from this(2) show ?thesis
  proof cases
    case (created dto actorId newId r)
    note c = create_Inr [OF created]
    have sym: "\<not> same_release (av_platform x) (av_device_os x) (av_version x) r" if "x \<in> set (releases w)" for x
      using c(3) that by (auto simp: same_release_def)
    have "distinct (map av_id (releases w'))" using inv c(1,4) by (auto simp: release_inv_def)
    then show ?thesis using inv c(1-3) sym by (auto simp: release_inv_def)
  next
    case (updated i patch actorId r)
    from update_Inr [OF updated inv] obtain x where u: "x \<in> set (releases w)" "av_id x = i" "av_id r = i"
      "releases w' = update_where (\<lambda>r. av_id r = i) (\<lambda>_. r) (releases w)"
      "train_ok (av_platform r) (av_device_os r)"
      "\<forall>y \<in> set (releases w). same_release (av_platform r) (av_device_os r) (av_version r) y \<longrightarrow> av_id y = i"
      by metis
    have "map av_id (releases w') = map av_id (releases w)"
      using u(3) by (auto simp: u(4) update_where_def)
    moreover have rows: "y = r \<or> y \<in> set (releases w) \<and> av_id y \<noteq> i" if "y \<in> set (releases w')" for y
      using that unfolding u(4) by (rule update_where_elim) auto
    ultimately show ?thesis
      using inv u(3,5,6) unfolding release_inv_def same_release_def by (metis (no_types, lifting))
  next
    case (removed i actorId)
    then have "releases w' = filter (\<lambda>r. av_id r \<noteq> i) (releases w)"
      by (auto simp: remove_version_def bindE_Inr_iff)
    then show ?thesis using inv by (auto simp: release_inv_def distinct_map_filter)
  qed
qed

interpretation releases: machine no_releases release_step release_inv
proof
  show "no_releases w \<Longrightarrow> release_inv w" for w by (simp add: no_releases_def release_inv_def)
qed (rule release_inv_step)

text \<open>Whatever sequence of releases, corrections and removals the table has seen, every release is on a
  train its platform ships, and no two rows are the same version of the same train, the web's included,
  which the database index does not protect.\<close>

theorem releases_on_their_trains:
  assumes "reachable no_releases release_step w" and "r \<in> set (releases w)"
  shows "train_ok (av_platform r) (av_device_os r) \<and>
    filter (same_release (av_platform r) (av_device_os r) (av_version r)) (releases w) = [r]"
proof
  have inv: "release_inv w" by (rule releases.inv_reachable [OF assms(1)])
  then show "train_ok (av_platform r) (av_device_os r)" using assms(2) by (simp add: release_inv_def)
  have "same_release (av_platform r) (av_device_os r) (av_version r) x \<longleftrightarrow> x = r" if x: "x \<in> set (releases w)" for x
  proof
    assume "same_release (av_platform r) (av_device_os r) (av_version r) x"
    then have "av_id x = av_id r" using inv assms(2) x unfolding release_inv_def by blast
    then show "x = r" using inv assms(2) x distinct_key [of av_id "releases w" x r] by (simp add: release_inv_def)
  qed (simp add: same_release_def)
  moreover have "distinct (releases w)" using inv by (simp add: release_inv_def distinct_map)
  ultimately show "filter (same_release (av_platform r) (av_device_os r) (av_version r)) (releases w) = [r]"
    using assms(2) by (intro filter_single) auto
qed

section \<open>The latest release\<close>

lemma hd_sort_key:
  "sort_key (f :: 'a \<Rightarrow> int) xs = y # ys \<Longrightarrow> y \<in> set xs \<and> (\<forall>x \<in> set xs. f y \<le> f x)"
proof -
  assume s: "sort_key f xs = y # ys"
  have "sorted (map f (y # ys))" by (metis s sorted_sort_key)
  moreover have "set (y # ys) = set xs" by (metis s set_sort)
  ultimately show ?thesis by auto
qed

text \<open>Asking for the latest release of a train gets one of that very train with no newer beside it, and an
  error exactly when the train has none.\<close>

theorem latest_is_newest:
  "case findLatest p os w of
     Inl e \<Rightarrow> is_not_found e \<and> (\<forall>r \<in> set (releases w). \<not> (av_platform r = p \<and> av_device_os r = os))
   | Inr r \<Rightarrow> r \<in> set (releases w) \<and> av_platform r = p \<and> av_device_os r = os \<and>
       (\<forall>x \<in> set (releases w). av_platform x = p \<and> av_device_os x = os \<longrightarrow>
          av_release_date x \<le> av_release_date r)"
proof (cases "sort_key (\<lambda>r. - av_release_date r)
    (filter (\<lambda>r. av_platform r = p \<and> av_device_os r = os) (releases w))")
  case Nil
  then have "filter (\<lambda>r. av_platform r = p \<and> av_device_os r = os) (releases w) = []"
    by (metis sort_key_simps(1) set_empty set_sort)
  then show ?thesis
    using Nil by (simp add: findLatest_def is_not_found_def resourceNotFound_def filter_empty_conv)
next
  case (Cons r rs)
  from hd_sort_key [OF Cons] show ?thesis by (auto simp: findLatest_def Cons)
qed

section \<open>Two updates that overlap\<close>

text \<open>The train an update writes is checked against the platform of the row it read.  When a change of
  platform commits between that read and the write, the row ends up on a train its platform does not
  ship, although both updates passed their checks.\<close>

theorem overlapping_updates_break_train:
  "\<exists>w patch os other w1 r w2. release_inv w \<and> updateChecks ''r'' patch w = Inr os \<and>
     update_version ''r'' other None w = Inr (r, w1) \<and> updateWrite ''r'' patch os None w1 = Inr w2 \<and>
     \<not> train_ok (av_platform (fst w2)) (av_device_os (fst w2))"
proof -
  let ?row = "\<lparr>av_id = ''r'', av_version = ''1'', av_description = None, av_platform = MOBILE_APP,
     av_device_os = Some IOS, av_release_date = 0, av_download_url = None, av_is_force_update = False,
     av_created_by = None, av_updated_by = None\<rparr>"
  let ?w = "\<lparr>releases = [?row], release_audit = []\<rparr>"
  let ?none = "\<lparr>uv_version = None, uv_description = None, uv_platform = None, uv_device_os = None,
     uv_release_date = None, uv_download_url = None, uv_is_force_update = None\<rparr>"
  let ?os = "?none\<lparr>uv_device_os := Some ANDROID\<rparr>"
  let ?web = "?none\<lparr>uv_platform := Some WEB_APP\<rparr>"
  let ?row1 = "?row\<lparr>av_platform := WEB_APP, av_device_os := None\<rparr>"
  note defs = updateChecks_def update_version_def updateWrite_def find_release_def resolveDeviceOs_def
    isSingleDistributionPlatform_def isReleaseTrainOsForPlatform_def assertVersionAvailable_def
    same_release_def index_violated_def patch_release_def release_audited_def truthy_def Let_def
  have "release_inv ?w"
    by (simp add: release_inv_def train_ok_def isReleaseTrainOsForPlatform_def)
  moreover have "updateChecks ''r'' ?os ?w = Inr (Some (Some ANDROID))"
    by (simp add: defs)
  moreover have "update_version ''r'' ?web None ?w = Inr (?row1, ?w\<lparr>releases := [?row1]\<rparr>)"
    by (simp add: defs)
  moreover have "updateWrite ''r'' ?os (Some (Some ANDROID)) None (?w\<lparr>releases := [?row1]\<rparr>) =
      Inr (?row1\<lparr>av_device_os := Some ANDROID\<rparr>, ?w\<lparr>releases := [?row1\<lparr>av_device_os := Some ANDROID\<rparr>]\<rparr>)"
    by (simp add: defs)
  moreover have "\<not> train_ok WEB_APP (Some ANDROID)"
    by (simp add: train_ok_def isReleaseTrainOsForPlatform_def)
  ultimately show ?thesis
    by (intro exI conjI; assumption?) (assumption | simp)+
qed

end
