(* ===== verification/Guard_Witnesses.thy ===== *)
theory Guard_Witnesses
  imports Turnstile_Properties Send_Limits Concurrency_Limit Platform_Roles App_Versions Ownership_Witnesses
begin

text \<open>
  Witnesses of the bot-check, send-limit, limiter, platform-role and release properties, each on a small
  concrete history.
\<close>

section \<open>The bot check\<close>

definition sample_keys :: secret_keys where
  "sample_keys = \<lparr>sk_web = Some ''k'', sk_mobile = Some ''k''\<rparr>"

definition sample_request :: bot_check_request where
  "sample_request = \<lparr>bq_token_header = Some ''t'', bq_form_field = None, bq_origin = None\<rparr>"

definition open_breaker :: breaker where
  "open_breaker =
     \<lparr>consecutiveProviderFailures = 3, lastFailureMilliseconds = Some 0, openUntilMilliseconds = Some 30000\<rparr>"

lemma sample_bypassed:
  "canActivate_turnstile sample_keys sample_request (CallThrew ''x'') 5 6 open_breaker empty_world =
     (Inr (), open_breaker, audit_record (bypass_entry MOBILE ''circuit open'') empty_world)"
  by (simp add: canActivate_turnstile_def isEnabled_def sample_keys_def sample_request_def open_breaker_def verify_def
      verifyBefore_def shouldBypass_def recordBypass_def clientPlatformOf_def MAX_TURNSTILE_TOKEN_LENGTH_def
      trim_def white_space_def empty_world_def)

text \<open>Three calls without an answer, and a request that comes in the outage.\<close>

lemma sample_outage: "breaker_after [Answered, Failed 1, Failed 2, Failed 3] =
    \<lparr>consecutiveProviderFailures = 3, lastFailureMilliseconds = Some 3, openUntilMilliseconds = Some 30003\<rparr>"
  by (simp add: breaker_after_def breaker_step_def recordProviderSuccess_def recordProviderFailure_def
      closed_breaker_def PROVIDER_FAILURE_THRESHOLD_def OPEN_WINDOW_MILLISECONDS_def
      FAILURE_MEMORY_MILLISECONDS_def Let_def)


lemma admitted_verified_or_audited_witness:
  "\<exists>reason. audit_logs (audit_record (bypass_entry MOBILE ''circuit open'') empty_world) =
     audit_logs empty_world @ [bypass_entry (clientPlatformOf sample_request) reason]"
proof -
  have "isEnabled sample_keys" by (simp add: isEnabled_def sample_keys_def)
  from admitted_verified_or_audited [OF sample_bypassed this] show ?thesis
    by (simp add: callSiteverify_def)
qed

lemma refusal_fails_closed_witness:
  "\<exists>e. fst (verify ''t'' WEB (Replied 403 (Unreadable [])) 5 6 closed_breaker empty_world) = Inl e"
proof -
  have closed: "\<not> shouldBypass 5 closed_breaker" by (simp add: shouldBypass_def closed_breaker_def)
  have "\<exists>reason. callSiteverify (Replied 403 (Unreadable [])) = OurRequestRefused reason"
    by (simp add: callSiteverify_def)
  from refusal_fails_closed [OF closed disjI2 [OF this]] show ?thesis by blast
qed

section \<open>The send limit\<close>

text \<open>A unit of an earlier window comes back late; then three sends of five and one give-back.\<close>

lemma send_limit_bound_witness:
  "\<exists>granted returned c'. run_sends id PHONE_VERIFICATION ''d''
      [GiveBack 1, Ask 2, GiveBack 3, Ask 4, Ask 5, Ask 6, Ask 7] (0, 0, Map.empty) = (granted, returned, c') \<and>
    granted \<le> 3 + returned \<and> 3 \<le> granted \<and> counter_at 600002 (keyFor id PHONE_VERIFICATION ''d'') c' = None"
proof -
  obtain granted returned c' where run: "run_sends id PHONE_VERIFICATION ''d''
      (map GiveBack [1] @ Ask 2 # [GiveBack 3, Ask 4, Ask 5, Ask 6, Ask 7]) (0, 0, Map.empty) = (granted, returned, c')"
    by (cases "run_sends id PHONE_VERIFICATION ''d''
      (map GiveBack [1] @ Ask 2 # [GiveBack 3, Ask 4, Ask 5, Ask 6, Ask 7]) (0, 0, Map.empty)")
  from send_limit_bound [OF _ _ this] have "granted \<le> 3 + returned \<and> 3 \<le> granted \<and>
      counter_at 600002 (keyFor id PHONE_VERIFICATION ''d'') c' = None"
    by (simp add: counter_at_def)
  with run show ?thesis by (intro exI [of _ granted] exI [of _ returned] exI [of _ c']) simp
qed

lemma failed_send_gives_back_witness:
  "\<exists>c'. sendWithinLimit id True True PHONE_VERIFICATION ''d'' (Inl (JsError ''x'')) 1 2 Map.empty =
      (Inl (JsError ''x''), True, c') \<and>
    hasBudget id True PHONE_VERIFICATION ''d'' 3 c' = hasBudget id True PHONE_VERIFICATION ''d'' 3 Map.empty"
proof -
  obtain c' where run: "sendWithinLimit id True True PHONE_VERIFICATION ''d'' (Inl (JsError ''x'')) 1 2 Map.empty =
      (Inl (JsError ''x''), True, c')"
    by (simp add: sendWithinLimit_def reserve_def sendReserved_def counter_at_def Let_def)
  with failed_send_gives_back [OF run] show ?thesis by auto
qed

section \<open>The limiter\<close>

lemma waiter_never_stranded_witness:
  "\<exists>l. waiting l = [''b''] \<and> (0 < running l \<or> woken l \<noteq> [])"
proof -
  let ?l0 = "\<lparr>running = 0, waiting = [], woken = []\<rparr>"
  have "reachable limiter_init (limiter_step 1) ?l0"
    by (rule reachable.start) (simp add: limiter_init_def)
  from reach_limiter(1) [OF reach_limiter(1) [OF this, of "''a''"], of "''b''"]
  have "reachable limiter_init (limiter_step 1) \<lparr>running = 1, waiting = [''b''], woken = []\<rparr>"
    by (simp add: limiter_call_def)
  from waiter_never_stranded [OF _ this] show ?thesis
    by (metis limiter.select_convs(1,2) less_numeral_extra(1))
qed

section \<open>Platform roles\<close>

definition role_world :: world where
  "role_world = empty_world
     \<lparr>users := [sample_user ''u'', sample_user ''v''],
      roles := [(sample_role ''p'' ''support'' 10)\<lparr>r_scope := PLATFORM\<rparr>],
      user_roles := [(''u'', ''p'')]\<rparr>"

lemma role_find: "find_role role_world ''p'' = Some ((sample_role ''p'' ''support'' 10)\<lparr>r_scope := PLATFORM\<rparr>)"
  by (simp add: find_role_def role_world_def sample_role_def)

definition no_casl :: casl where
  "no_casl = \<lparr>can_type = (\<lambda>ab a s. ab \<noteq> []), can_on = (\<lambda>_ _ _ _. False), rules_for = (\<lambda>_ _ _. []),
     accessible_by = (\<lambda>_ _ _. Unrestricted)\<rparr>"

lemma role_rank_sample: "platform_rank ''u'' role_world = 10"
proof -
  have "role_rank role_world ''p'' = 10" by (simp add: role_rank_def role_find sample_role_def)
  moreover have "user_roles role_world = [(''u'', ''p'')]" by (simp add: role_world_def)
  ultimately show ?thesis by (simp add: platform_rank_def actor_ranks_def)
qed

lemma role_user: "find_live_user role_world ''v'' = Some (sample_user ''v'')"
  by (simp add: find_live_user_def live_users_def role_world_def sample_user_def)

lemma role_assigned: "\<exists>w'. assign no_casl ''v'' ''p'' [] ''u'' 5 role_world = Inr w'"
  by (simp add: assign_def loadPlatformRole_def assertMayAssignRank_def role_find role_rank_sample role_user
      no_casl_def sample_role_def guardE_def requireE_def Let_def)

lemma platform_rank_ceiling_witness:
  "\<exists>w'. assign no_casl ''v'' ''p'' [] ''u'' 5 role_world = Inr w' \<and>
     platform_rank ''v'' w' \<le> max (platform_rank ''v'' role_world) (platform_rank ''u'' role_world)"
proof -
  obtain w' where w': "assign no_casl ''v'' ''p'' [] ''u'' 5 role_world = Inr w'" using role_assigned by blast
  have "\<not> can_type no_casl [] A_manage S_all" by (simp add: no_casl_def)
  from platform_rank_ceiling [OF w' this, of "''v''"] w' show ?thesis
    by (auto simp: role_find sample_role_def)
qed

lemma assign_revoke_roundtrip_witness:
  "\<exists>w' w''. assign no_casl ''v'' ''p'' [] ''u'' 5 role_world = Inr w' \<and>
     revoke no_casl ''v'' ''p'' admin_ability ''x'' 6 w' = Inr w'' \<and> user_roles w'' = user_roles role_world"
proof -
  obtain w' where w': "assign no_casl ''v'' ''p'' [] ''u'' 5 role_world = Inr w'" using role_assigned by blast
  have "(''v'', ''p'') \<notin> set (user_roles role_world)" by (simp add: role_world_def)
  moreover have "can_type no_casl admin_ability A_manage S_all" by (simp add: no_casl_def admin_ability_def)
  ultimately show ?thesis using assign_revoke_roundtrip [OF w'] w' by blast
qed

section \<open>Releases\<close>

lemma releases_on_their_trains_witness:
  "\<exists>r. train_ok (av_platform r) (av_device_os r) \<and>
     filter (same_release (av_platform r) (av_device_os r) (av_version r)) [r] = [r]"
proof -
  let ?w0 = "\<lparr>releases = [], release_audit = []\<rparr>"
  let ?dto = "\<lparr>cv_version = ''1'', cv_description = None, cv_platform = MOBILE_APP, cv_device_os = Some IOS,
     cv_release_date = 0, cv_download_url = None, cv_is_force_update = False\<rparr>"
  have start: "reachable no_releases release_step ?w0"
    by (rule reachable.start) (simp add: no_releases_def)
  obtain r where made: "create_version ?dto None ''i'' ?w0 = Inr (r, ?w0\<lparr>releases := [r]\<rparr>)"
    by (simp add: create_version_def resolveDeviceOs_def isSingleDistributionPlatform_def
        isReleaseTrainOsForPlatform_def assertVersionAvailable_def index_violated_def release_audited_def truthy_def
        guardE_def Let_def)
  from reachable.next_step [where init = no_releases and step = release_step, OF start release_step.created [OF made]]
  have "reachable no_releases release_step (?w0\<lparr>releases := [r]\<rparr>)" .
  from releases_on_their_trains [OF this, of r]
  have "train_ok (av_platform r) (av_device_os r) \<and>
     filter (same_release (av_platform r) (av_device_os r) (av_version r)) [r] = [r]"
    by (simp only: release_world.simps list.set_intros)
  then show ?thesis by (rule exI)
qed

end
