(* ===== verification/Redaction.thy ===== *)
theory Redaction
  imports Service_Prelude
begin

text \<open>
  \<open>src/src/common/util/redact-url-secrets.util.ts\<close>: what is left of a URL, and of a parsed query, before
  either reaches a log, a trace or an error response.
\<close>

section \<open>The rewriting\<close>

definition SECRET_QUERY_PARAMETER_NAMES :: "string set" where
  "SECRET_QUERY_PARAMETER_NAMES =
     {''token'', ''access_token'', ''refresh_token'', ''id_token'', ''code'', ''secret'', ''password'', ''otp'',
      ''apikey'', ''api_key'', ''key'', ''signature'', ''sig'', ''x-amz-signature'', ''x-amz-credential'',
      ''x-amz-security-token'', ''x-goog-signature'', ''x-goog-credential'', ''skoid'', ''sktid'', ''skt'',
      ''ske'', ''sp'', ''se'', ''st'', ''sr'', ''sv''}"

definition PERSONAL_QUERY_PARAMETER_NAMES :: "string set" where
  "PERSONAL_QUERY_PARAMETER_NAMES = {''search''}"

definition REDACTED_VALUE :: string where
  "REDACTED_VALUE = ''[redacted]''"

definition isRedactedParameter :: "string \<Rightarrow> bool" where
  "isRedactedParameter name \<longleftrightarrow>
     (let lowerCaseName = to_lower_case name
      in lowerCaseName \<in> SECRET_QUERY_PARAMETER_NAMES \<or> lowerCaseName \<in> PERSONAL_QUERY_PARAMETER_NAMES)"

definition redactQueryParameters :: "(string \<times> json) list \<Rightarrow> (string \<times> json) list" where
  "redactQueryParameters query =
     map (\<lambda>(name, val). (name, if isRedactedParameter name then JStr REDACTED_VALUE else val)) query"

definition redact_parameter :: "string \<Rightarrow> string" where
  "redact_parameter parameter =
     (case first_index (CHR ''='') parameter of
        None \<Rightarrow> parameter
      | Some separatorIndex \<Rightarrow>
          (let name = take separatorIndex parameter
           in if isRedactedParameter name then name @ ''='' @ REDACTED_VALUE else parameter))"

definition redactUrlSecrets :: "string \<Rightarrow> string" where
  "redactUrlSecrets url =
     (case first_index (CHR ''?'') url of
        None \<Rightarrow> url
      | Some queryStringStart \<Rightarrow>
          (let pathPortion = take queryStringStart url;
               queryPortion = drop (Suc queryStringStart) url
           in pathPortion @ ''?'' @ join_with ''&'' (map redact_parameter (split_on (CHR ''&'') queryPortion))))"

definition redactedIncomingUrlAttributes :: "string option \<Rightarrow> string" where
  "redactedIncomingUrlAttributes url =
     (let redacted = redactUrlSecrets (case url of None \<Rightarrow> [] | Some u \<Rightarrow> u)
      in (case first_index (CHR ''?'') redacted of
            None \<Rightarrow> []
          | Some queryStart \<Rightarrow> drop (Suc queryStart) redacted))"

section \<open>What it hides and what it keeps\<close>

lemma redactUrlSecrets_parts:
  "CHR ''?'' \<notin> set path \<Longrightarrow> redactUrlSecrets (path @ ''?'' @ query) =
     path @ ''?'' @ join_with ''&'' (map redact_parameter (split_on (CHR ''&'') query))"
  by (simp add: redactUrlSecrets_def first_index_append)

lemma redactUrlSecrets_plain: "CHR ''?'' \<notin> set url \<Longrightarrow> redactUrlSecrets url = url"
  by (simp add: redactUrlSecrets_def first_index_def)

lemma redact_named:
  "CHR ''='' \<notin> set n \<Longrightarrow> redact_parameter (n @ ''='' @ v) =
     (if isRedactedParameter n then n @ ''='' @ REDACTED_VALUE else n @ ''='' @ v)"
  by (simp add: redact_parameter_def first_index_append)

lemma redact_parameter_idem: "redact_parameter (redact_parameter p) = redact_parameter p"
proof (cases "CHR ''='' \<in> set p")
  case True
  then obtain n v where p: "p = n @ ''='' @ v" "CHR ''='' \<notin> set n" by (auto dest: split_list_first)
  then show ?thesis using redact_named [OF p(2)] by simp
qed (simp add: redact_parameter_def first_index_def)

lemma redact_parameter_sep: "CHR ''&'' \<notin> set p \<Longrightarrow> CHR ''&'' \<notin> set (redact_parameter p)"
  by (auto simp: redact_parameter_def REDACTED_VALUE_def Let_def dest: in_set_takeD split: option.splits)

text \<open>Two parameters that differ at most in a value that is to be hidden.\<close>

definition same_parameter :: "string \<Rightarrow> string \<Rightarrow> bool" where
  "same_parameter p q \<longleftrightarrow> p = q \<or>
     (\<exists>n a b. CHR ''='' \<notin> set n \<and> isRedactedParameter n \<and> p = n @ ''='' @ a \<and> q = n @ ''='' @ b)"

lemma same_parameter_redacted: "same_parameter p q \<Longrightarrow> redact_parameter p = redact_parameter q"
  unfolding same_parameter_def
proof (elim disjE exE conjE)
  fix n a b assume "CHR ''='' \<notin> set n" "isRedactedParameter n" "p = n @ ''='' @ a" "q = n @ ''='' @ b"
  then show ?thesis using redact_named [of n a] redact_named [of n b] by simp
qed simp

definition same_but_secrets :: "string \<Rightarrow> string \<Rightarrow> bool" where
  "same_but_secrets u v \<longleftrightarrow>
     (\<exists>path ps qs. CHR ''?'' \<notin> set path \<and> ps \<noteq> [] \<and> (\<forall>p \<in> set ps \<union> set qs. CHR ''&'' \<notin> set p) \<and>
        list_all2 same_parameter ps qs \<and> u = path @ ''?'' @ join_with ''&'' ps \<and> v = path @ ''?'' @ join_with ''&'' qs)"

lemma same_redacted: "list_all2 same_parameter ps qs \<Longrightarrow> map redact_parameter ps = map redact_parameter qs"
  by (induction rule: list_all2_induct) (simp_all add: same_parameter_redacted)

text \<open>A secret leaves no trace: two URLs that differ only in the values of secret or personal parameters are
  rewritten to the same text, and rewriting it once more changes nothing.\<close>

theorem redaction_hides_secrets:
  assumes "same_but_secrets u v"
  shows "redactUrlSecrets u = redactUrlSecrets v \<and> redactUrlSecrets (redactUrlSecrets u) = redactUrlSecrets u \<and>
    redactedIncomingUrlAttributes (Some u) = redactedIncomingUrlAttributes (Some v)"
proof -
  obtain path ps qs where parts: "CHR ''?'' \<notin> set path" "ps \<noteq> []" "qs \<noteq> []"
    and free: "\<forall>p \<in> set ps. CHR ''&'' \<notin> set p" "\<forall>p \<in> set qs. CHR ''&'' \<notin> set p"
    and same: "list_all2 same_parameter ps qs"
    and u: "u = path @ ''?'' @ join_with ''&'' ps" and v: "v = path @ ''?'' @ join_with ''&'' qs"
    using assms unfolding same_but_secrets_def by (metis UnCI list_all2_Nil2)
  have ru: "redactUrlSecrets u = path @ ''?'' @ join_with ''&'' (map redact_parameter ps)"
    using redactUrlSecrets_parts [OF parts(1)] split_join [OF parts(2) free(1)] by (simp add: u)
  have rv: "redactUrlSecrets v = path @ ''?'' @ join_with ''&'' (map redact_parameter qs)"
    using redactUrlSecrets_parts [OF parts(1)] split_join [OF parts(3) free(2)] by (simp add: v)
  have "split_on (CHR ''&'') (join_with ''&'' (map redact_parameter ps)) = map redact_parameter ps"
    using parts(2) free(1) by (intro split_join) (auto dest: redact_parameter_sep)
  then have "redactUrlSecrets (redactUrlSecrets u) = redactUrlSecrets u"
    using redactUrlSecrets_parts [OF parts(1)] by (simp add: ru redact_parameter_idem comp_def)
  moreover have "redactUrlSecrets u = redactUrlSecrets v" by (simp add: ru rv same_redacted [OF same])
  ultimately show ?thesis by (simp add: redactedIncomingUrlAttributes_def)
qed

text \<open>A URL without a secret is logged as the client sent it.\<close>

lemma redaction_keeps_the_rest:
  assumes "CHR ''?'' \<notin> set path" and "\<forall>p \<in> set (split_on (CHR ''&'') query). redact_parameter p = p"
  shows "redactUrlSecrets (path @ ''?'' @ query) = path @ ''?'' @ query"
  using redactUrlSecrets_parts [OF assms(1)] assms(2) join_split [of "CHR ''&''" query] map_idI [OF bspec [OF assms(2)]]
  by simp

end
