(* ===== verification/Exception_Filter.thy ===== *)
theory Exception_Filter
  imports Errors Redaction
begin

text \<open>
  \<open>src/src/common/filters/global-exception.filter.ts\<close>: what a client gets, and what the log gets, for
  anything a request throws.  The stack trace of an exception is an argument.
\<close>

section \<open>What is thrown\<close>

datatype message_field = OneMessage string | ManyMessages "string list"

text \<open>\<open>getResponse\<close>: a string, or an object with what the filter reads from it.\<close>

datatype exception_response =
    TextResponse string
  | ObjectResponse "error_code option" "message_field option" "json option"

datatype throwable =
    AnHttpException nat exception_response string
  | KnownRequestError string "json option" string
  | AnythingElse string

text \<open>An exception of a service as the filter receives it.\<close>

fun thrown :: "exn \<Rightarrow> throwable" where
  "thrown (HttpException s c m d) =
     AnHttpException s (ObjectResponse (Some c) (Some (OneMessage m)) (if d = JNull then None else Some d)) m"
| "thrown (PrismaKnownRequestError c) = KnownRequestError c None []"
| "thrown (JsError m) = AnythingElse m"

section \<open>Translation\<close>

record translated =
  tr_status :: nat
  tr_error_code :: error_code
  tr_message :: string
  tr_details :: "json option"

definition HTTP_REASON :: "nat \<rightharpoonup> string" where
  "HTTP_REASON = map_of
     [(400, ''Bad Request''), (401, ''Unauthorized''), (403, ''Forbidden''), (404, ''Not Found''),
      (409, ''Conflict''), (413, ''Payload Too Large''), (415, ''Unsupported Media Type''),
      (422, ''Unprocessable Entity''), (429, ''Too Many Requests''), (500, ''Internal Server Error''),
      (503, ''Service Unavailable'')]"

definition STATUS_TO_DEFAULT_CODE :: "nat \<rightharpoonup> error_code" where
  "STATUS_TO_DEFAULT_CODE = map_of
     [(400, VALIDATION_FAILED), (401, TOKEN_INVALID), (403, INSUFFICIENT_ROLE), (404, RESOURCE_NOT_FOUND),
      (409, RESOURCE_CONFLICT), (413, PAYLOAD_TOO_LARGE), (415, UNSUPPORTED_MEDIA_TYPE), (429, RATE_LIMITED),
      (503, EXTERNAL_SERVICE_UNAVAILABLE)]"

definition default_code :: "nat \<Rightarrow> error_code" where
  "default_code status = (case STATUS_TO_DEFAULT_CODE status of None \<Rightarrow> INTERNAL_ERROR | Some c \<Rightarrow> c)"

definition normalizeMessage :: "message_field option \<Rightarrow> string option" where
  "normalizeMessage message =
     (case message of
        None \<Rightarrow> None
      | Some (OneMessage m) \<Rightarrow> Some m
      | Some (ManyMessages ms) \<Rightarrow> Some (join_with '', '' ms))"

definition fromHttpException :: "nat \<Rightarrow> exception_response \<Rightarrow> string \<Rightarrow> translated" where
  "fromHttpException status response exceptionMessage =
     (case response of
        ObjectResponse errorCode message details \<Rightarrow>
          (let text = (case normalizeMessage message of None \<Rightarrow> exceptionMessage | Some m \<Rightarrow> m)
           in (case errorCode of
                 Some c \<Rightarrow> \<lparr>tr_status = status, tr_error_code = c, tr_message = text, tr_details = details\<rparr>
               | None \<Rightarrow> \<lparr>tr_status = status, tr_error_code = default_code status, tr_message = text,
                         tr_details = None\<rparr>))
      | TextResponse m \<Rightarrow>
          \<lparr>tr_status = status, tr_error_code = default_code status, tr_message = m, tr_details = None\<rparr>)"

section \<open>The field a database error names\<close>

fun json_path :: "string list \<Rightarrow> json \<Rightarrow> json option" where
  "json_path [] j = Some j"
| "json_path (k # ks) j = (case json_field k j of None \<Rightarrow> None | Some x \<Rightarrow> json_path ks x)"

text \<open>The capture of \<open>fields:\s*\(`?([^`,)]+)`?\<close> at its first match.\<close>

definition captured_field :: "string \<Rightarrow> string option" where
  "captured_field s =
     (case dropWhile white_space s of
        [] \<Rightarrow> None
      | c # rest \<Rightarrow>
          (if c \<noteq> CHR ''('' then None
           else
             (let bare = (if rest \<noteq> [] \<and> hd rest = CHR 96 then tl rest else rest);
                  name = takeWhile (\<lambda>x. x \<noteq> CHR 96 \<and> x \<noteq> CHR '','' \<and> x \<noteq> CHR '')'') bare
              in if name = [] then None else Some name)))"

fun fields_match :: "string \<Rightarrow> string option" where
  "fields_match [] = None"
| "fields_match (c # cs) =
     (case (if take 7 (c # cs) = ''fields:'' then captured_field (drop 7 (c # cs)) else None) of
        Some name \<Rightarrow> Some name
      | None \<Rightarrow> fields_match cs)"

definition extractFieldFromMessage :: "string \<Rightarrow> string option" where
  "extractFieldFromMessage message = map_option trim (fields_match message)"

text \<open>The name of an index without its \<open>_key\<close>, \<open>_idx\<close> or \<open>_unique\<close>, in any case.\<close>

definition ends_with :: "string \<Rightarrow> string \<Rightarrow> bool" where
  "ends_with suffix s \<longleftrightarrow>
     length suffix \<le> length s \<and> to_lower_case (drop (length s - length suffix) s) = suffix"

definition without_suffix :: "string \<Rightarrow> string" where
  "without_suffix s =
     (case find (\<lambda>suffix. ends_with suffix s) [''_key'', ''_idx'', ''_unique''] of
        None \<Rightarrow> s
      | Some suffix \<Rightarrow> take (length s - length suffix) s)"

fun target_name :: "json option \<Rightarrow> string option" where
  "target_name (Some (JArr (JStr first # _))) = (if first = [] then None else Some first)"
| "target_name (Some (JStr target)) =
     (let name = last (split_on (CHR ''_'') (without_suffix target))
      in if target = [] \<or> name = [] then None else Some name)"
| "target_name _ = None"

fun adapter_name :: "json option \<Rightarrow> string option" where
  "adapter_name (Some (JArr (JStr first # _))) = Some first"
| "adapter_name _ = None"

definition getTargetField :: "json option \<Rightarrow> string \<Rightarrow> string option" where
  "getTargetField meta message =
     (case meta of
        None \<Rightarrow> extractFieldFromMessage message
      | Some m \<Rightarrow>
          (case target_name (json_field ''target'' m) of
             Some name \<Rightarrow> Some name
           | None \<Rightarrow>
               (case adapter_name (json_path [''driverAdapterError'', ''cause'', ''constraint'', ''fields''] m) of
                  Some name \<Rightarrow> Some name
                | None \<Rightarrow> extractFieldFromMessage message)))"

definition humanize :: "string \<Rightarrow> string" where
  "humanize field =
     capitalized (to_lower_case (concat (map (\<lambda>c. if lower_char c \<noteq> c then [CHR '' '', c] else [c]) field)))"

definition field_details :: "string option \<Rightarrow> json" where
  "field_details field =
     (case field of None \<Rightarrow> JNull | Some f \<Rightarrow> if f = [] then JNull else JObj [(''field'', JStr f)])"

definition field_message :: "string option \<Rightarrow> string \<Rightarrow> string \<Rightarrow> string" where
  "field_message field suffix otherwise =
     (case field of None \<Rightarrow> otherwise | Some f \<Rightarrow> if f = [] then otherwise else humanize f @ suffix)"

definition internal_error :: translated where
  "internal_error =
     \<lparr>tr_status = 500, tr_error_code = INTERNAL_ERROR, tr_message = ''Internal server error'', tr_details = None\<rparr>"

definition statement_timed_out :: "json option \<Rightarrow> bool" where
  "statement_timed_out meta \<longleftrightarrow>
     (case meta of None \<Rightarrow> False
      | Some m \<Rightarrow> json_path [''driverAdapterError'', ''cause'', ''originalCode''] m = Some (JStr ''57014''))"

definition fromPrisma :: "string \<Rightarrow> json option \<Rightarrow> string \<Rightarrow> translated" where
  "fromPrisma code meta message =
     (if statement_timed_out meta
      then \<lparr>tr_status = 503, tr_error_code = EXTERNAL_SERVICE_UNAVAILABLE,
             tr_message = ''Busy right now; try again in a moment'', tr_details = None\<rparr>
      else if code = ''P2002''
      then (let field = getTargetField meta message
            in \<lparr>tr_status = 409, tr_error_code = UNIQUE_CONSTRAINT_VIOLATION,
                 tr_message = field_message field '' already in use'' ''Duplicate value for unique field'',
                 tr_details = Some (field_details field)\<rparr>)
      else if code = ''P2003''
      then (let field = getTargetField meta message
            in \<lparr>tr_status = 400, tr_error_code = FK_REFERENCE_INVALID,
                 tr_message = field_message field '' references a record that does not exist''
                   ''Foreign key references a record that does not exist'',
                 tr_details = Some (field_details field)\<rparr>)
      else if code = ''P2025''
      then \<lparr>tr_status = 404, tr_error_code = RESOURCE_NOT_FOUND, tr_message = ''Resource not found'',
             tr_details = None\<rparr>
      else internal_error)"

definition fromUnknown :: translated where
  "fromUnknown = internal_error"

definition translate :: "throwable \<Rightarrow> translated" where
  "translate x =
     (case x of
        KnownRequestError code meta message \<Rightarrow> fromPrisma code meta message
      | AnHttpException status response message \<Rightarrow> fromHttpException status response message
      | AnythingElse _ \<Rightarrow> fromUnknown)"

section \<open>The answer and the log line\<close>

datatype header = NoHeader | OneHeader string | ManyHeaders "string list"

record filtered_request =
  fr_method :: string
  fr_original_url :: string
  fr_id :: "json option"
  fr_x_request_id :: header

definition header_id :: "header \<Rightarrow> string option" where
  "header_id h =
     (case h of
        OneHeader x \<Rightarrow> if x \<noteq> [] then Some x else None
      | ManyHeaders (x # _) \<Rightarrow> if x \<noteq> [] then Some x else None
      | _ \<Rightarrow> None)"

definition extractRequestId :: "filtered_request \<Rightarrow> string option" where
  "extractRequestId request =
     (case fr_id request of
        Some (JStr i) \<Rightarrow> if i \<noteq> [] then Some i else header_id (fr_x_request_id request)
      | _ \<Rightarrow> header_id (fr_x_request_id request))"

record response_body =
  rb_status_code :: nat
  rb_error :: string
  rb_error_code :: error_code
  rb_message :: string
  rb_details :: json
  rb_path :: string
  rb_timestamp :: time
  rb_request_id :: "string option"

datatype log_level = LogError | LogWarn

record log_line =
  ll_level :: log_level
  ll_text :: string
  ll_detail :: "string option"

definition log_failure :: "nat \<Rightarrow> filtered_request \<Rightarrow> string \<Rightarrow> log_line" where
  "log_failure status request trace =
     (let safeUrl = redactUrlSecrets (fr_original_url request);
          text = fr_method request @ '' '' @ safeUrl @ '' -> '' @ decimal status
      in if status \<ge> 500 then \<lparr>ll_level = LogError, ll_text = text, ll_detail = Some trace\<rparr>
         else \<lparr>ll_level = LogWarn, ll_text = text, ll_detail = None\<rparr>)"

definition catch_all :: "throwable \<Rightarrow> string \<Rightarrow> filtered_request \<Rightarrow> time \<Rightarrow> response_body \<times> log_line" where
  "catch_all x trace request now =
     (let t = translate x
      in (\<lparr>rb_status_code = tr_status t,
            rb_error = (case HTTP_REASON (tr_status t) of None \<Rightarrow> ''Error'' | Some r \<Rightarrow> r),
            rb_error_code = tr_error_code t, rb_message = tr_message t,
            rb_details = (case tr_details t of None \<Rightarrow> JNull | Some d \<Rightarrow> d),
            rb_path = redactUrlSecrets (fr_original_url request), rb_timestamp = now,
            rb_request_id = extractRequestId request\<rparr>,
          log_failure (tr_status t) request trace))"

end
