(* ===== verification/Exception_Properties.thy ===== *)
theory Exception_Properties
  imports Exception_Filter
begin

text \<open>What the exception filter promises a client, and what it keeps from one.\<close>

section \<open>Status and code\<close>

text \<open>The status every error code stands for.\<close>

fun code_status :: "error_code \<Rightarrow> nat" where
  "code_status TOKEN_MISSING = 401"
| "code_status TOKEN_INVALID = 401"
| "code_status TOKEN_EXPIRED = 401"
| "code_status TOKEN_REVOKED = 401"
| "code_status SESSION_INVALIDATED = 401"
| "code_status USER_INACTIVE = 401"
| "code_status INVALID_CREDENTIALS = 401"
| "code_status EMAIL_NOT_VERIFIED = 401"
| "code_status CURRENT_PASSWORD_INCORRECT = 401"
| "code_status REFRESH_TOKEN_INVALID = 401"
| "code_status INSUFFICIENT_ROLE = 403"
| "code_status ADMIN_SELF_TARGET_FORBIDDEN = 403"
| "code_status PERMISSION_DENIED = 403"
| "code_status PAYLOAD_TOO_LARGE = 413"
| "code_status UNSUPPORTED_MEDIA_TYPE = 415"
| "code_status VALIDATION_FAILED = 400"
| "code_status INVALID_OTP = 400"
| "code_status INVALID_LINK = 400"
| "code_status TURNSTILE_TOKEN_MISSING = 400"
| "code_status TURNSTILE_TOKEN_INVALID = 400"
| "code_status EMAIL_DOMAIN_DISALLOWED = 400"
| "code_status FK_REFERENCE_INVALID = 400"
| "code_status WORKSPACE_CONTEXT_MISSING = 400"
| "code_status RESOURCE_NOT_FOUND = 404"
| "code_status UNIQUE_CONSTRAINT_VIOLATION = 409"
| "code_status RESOURCE_CONFLICT = 409"
| "code_status LAST_OWNER_PROTECTED = 409"
| "code_status MEMBERSHIP_NOT_ACTIVE = 409"
| "code_status ROLE_NOT_ASSIGNABLE = 403"
| "code_status INVITATION_INVALID = 400"
| "code_status INVITATION_EXPIRED = 400"
| "code_status FILE_NOT_ATTACHABLE = 409"
| "code_status FILE_NOT_RELEASABLE = 409"
| "code_status FILE_CONTENT_INVALID = 422"
| "code_status FILE_QUOTA_EXCEEDED = 429"
| "code_status RATE_LIMITED = 429"
| "code_status EXTERNAL_SERVICE_UNAVAILABLE = 503"
| "code_status INTERNAL_ERROR = 500"

text \<open>Every exception a factory of the catalogue builds.\<close>

definition catalogue :: "exn set" where
  "catalogue =
     {tokenMissing, tokenInvalid, tokenExpired, tokenRevoked, sessionInvalidated, userInactive,
      invalidCredentials, emailNotVerified, currentPasswordIncorrect, refreshTokenInvalid, insufficientRole,
      roleNotAssignable, invitationInvalid, invitationExpired, invalidOtp, invalidLink, turnstileTokenMissing,
      turnstileTokenInvalid, workspaceContextMissing, fileNotAttachable, fileNotReleasable} \<union>
     range adminSelfTargetForbidden \<union> range (\<lambda>(a, s). permissionDenied a s) \<union> range lastOwnerProtected \<union>
     range membershipNotActive \<union> range validationFailed \<union> range emailDomainDisallowed \<union> range badRequest \<union>
     range (\<lambda>(r, m). resourceNotFound r m) \<union> range uniqueConstraintViolation \<union> range resourceConflict \<union>
     range fileContentInvalid \<union> range rateLimited \<union> range fileQuotaExceeded \<union> range payloadTooLarge \<union>
     range unsupportedMediaType \<union> range externalServiceUnavailable"

definition well_coded :: "exn \<Rightarrow> bool" where
  "well_coded e \<longleftrightarrow> (case e of HttpException s c m d \<Rightarrow> s = code_status c | _ \<Rightarrow> False)"

lemma catalogue_well_coded: "\<forall>e \<in> catalogue. well_coded e"
  unfolding catalogue_def ball_Un by (simp add: well_coded_def errors_def)

lemma catalogue_shape:
  assumes "e \<in> catalogue"
  obtains s c m d where "e = HttpException s c m d" "s = code_status c"
  using bspec [OF catalogue_well_coded assms] by (auto simp: well_coded_def split: exn.splits)

text \<open>What can reach the filter: an exception of the catalogue, one the framework throws with a status the
  default codes cover, and whatever is not an HTTP exception.\<close>

inductive arrives :: "throwable \<Rightarrow> bool" where
  from_catalogue: "e \<in> catalogue \<Longrightarrow> arrives (thrown e)"
| from_framework_text: "STATUS_TO_DEFAULT_CODE s \<noteq> None \<Longrightarrow> arrives (AnHttpException s (TextResponse m) x)"
| from_framework_object:
    "STATUS_TO_DEFAULT_CODE s \<noteq> None \<Longrightarrow> arrives (AnHttpException s (ObjectResponse None m d) x)"
| from_database: "arrives (KnownRequestError code meta m)"
| from_a_bug: "arrives (AnythingElse x)"

lemma default_code_status: "STATUS_TO_DEFAULT_CODE s \<noteq> None \<Longrightarrow> code_status (default_code s) = s"
  by (auto simp: STATUS_TO_DEFAULT_CODE_def default_code_def split: if_splits)

lemma translate_status: "arrives x \<Longrightarrow> tr_status (translate x) = code_status (tr_error_code (translate x))"
proof (induction rule: arrives.induct)
  case (from_catalogue e)
  then show ?case
    by (elim catalogue_shape) (simp add: translate_def fromHttpException_def Let_def)
next
  case (from_database code meta m)
  then show ?case by (simp add: translate_def fromPrisma_def internal_error_def Let_def)
next
  case (from_a_bug x)
  then show ?case by (simp add: translate_def fromUnknown_def internal_error_def)
qed (simp_all add: translate_def fromHttpException_def default_code_status Let_def del: code_status.simps)

text \<open>The two halves of an answer never disagree: whatever arrives, the status is the one its error code
  stands for, and has a reason phrase.  In particular the codes a client logs out on come with a 401 and
  with nothing else.\<close>

theorem envelope_status_matches_code:
  assumes "arrives x"
  shows "rb_status_code (fst (catch_all x trace request now)) =
      code_status (rb_error_code (fst (catch_all x trace request now))) \<and>
    rb_error (fst (catch_all x trace request now)) \<noteq> ''Error''"
proof -
  have "HTTP_REASON (code_status c) \<noteq> None \<and> HTTP_REASON (code_status c) \<noteq> Some ''Error''" for c
    by (cases c) (simp_all add: HTTP_REASON_def)
  with translate_status [OF assms] show ?thesis
    by (auto simp: catch_all_def Let_def split: option.splits)
qed

section \<open>What a service says is what a client reads\<close>

text \<open>An exception of a service reaches the client as it was thrown: its status, code, message and details, and
  only a server error takes its stack trace to the log.\<close>

theorem service_error_reaches_client:
  "case catch_all (thrown (HttpException s c m d)) trace request now of
     (body, line) \<Rightarrow>
       rb_status_code body = s \<and> rb_error_code body = c \<and> rb_message body = m \<and> rb_details body = d \<and>
       ll_detail line = (if 500 \<le> s then Some trace else None)"
  by (simp add: catch_all_def translate_def fromHttpException_def normalizeMessage_def log_failure_def Let_def)

section \<open>What a client does not read\<close>

text \<open>Nothing of an unexpected failure shows.  Any throwable that is not an HTTP exception, and any database
  error that is not one of the three the filter knows or a statement timeout, is answered with the same
  body; its trace goes to the log only.\<close>

theorem unexpected_error_reveals_nothing:
  assumes "code \<notin> {''P2002'', ''P2003'', ''P2025''}" and "\<not> statement_timed_out meta"
  shows "fst (catch_all (KnownRequestError code meta message) trace request now) =
      fst (catch_all (AnythingElse y) trace' request now) \<and>
    rb_message (fst (catch_all (AnythingElse y) trace' request now)) = ''Internal server error'' \<and>
    rb_details (fst (catch_all (AnythingElse y) trace' request now)) = JNull \<and>
    ll_detail (snd (catch_all (KnownRequestError code meta message) trace request now)) = Some trace"
  using assms
  by (simp add: catch_all_def translate_def fromPrisma_def fromUnknown_def internal_error_def log_failure_def Let_def)

text \<open>C37: the filter adds no secret of a URL to an answer or to the log.  For two requests whose URLs differ only in
  secret or personal values, the path of the body and the text of the log line are the same whatever either
  throws, up to the status in the line; and when both throw the same exception, the whole body and the whole line
  are.  What an exception itself says of the URL is passed on (\<open>not_found_message_repeats_url\<close>).\<close>

theorem no_secret_in_error_answer:
  assumes "same_but_secrets (fr_original_url request) v"
  shows "catch_all x trace (request\<lparr>fr_original_url := v\<rparr>) now = catch_all x trace request now \<and>
    rb_path (fst (catch_all y trace' (request\<lparr>fr_original_url := v\<rparr>) now')) =
      rb_path (fst (catch_all x trace request now)) \<and>
    ll_text (snd (catch_all y trace' (request\<lparr>fr_original_url := v\<rparr>) now')) =
      fr_method request @ '' '' @ rb_path (fst (catch_all x trace request now)) @ '' -> '' @
      decimal (rb_status_code (fst (catch_all y trace' (request\<lparr>fr_original_url := v\<rparr>) now')))"
proof -
  have "extractRequestId (request\<lparr>fr_original_url := v\<rparr>) = extractRequestId request"
    unfolding extractRequestId_def by (simp split: option.split json.split)
  then show ?thesis
    using redaction_hides_secrets [OF assms] by (simp add: catch_all_def log_failure_def Let_def)
qed

text \<open>For a route that does not exist the framework throws an exception whose message repeats the URL, query
  included, and the filter sends it to the client as it is.\<close>

theorem not_found_message_repeats_url:
  fixes request :: filtered_request
  defines "sentence \<equiv> ''Cannot '' @ fr_method request @ '' '' @ fr_original_url request"
  shows "rb_message (fst (catch_all (AnHttpException 404 (ObjectResponse None (Some (OneMessage sentence)) None) sentence)
      trace request now)) = sentence"
  by (simp add: catch_all_def translate_def fromHttpException_def normalizeMessage_def Let_def)

section \<open>Composite unique constraints\<close>

text \<open>For a constraint over several columns the first one is named, by every source of the name.\<close>

lemma composite_unique_names_first:
  "first \<noteq> [] \<Longrightarrow> getTargetField (Some (JObj [(''target'', JArr (JStr first # rest))])) message = Some first"
  "getTargetField (Some (JObj [(''driverAdapterError'', JObj [(''cause'', JObj [(''constraint'',
     JObj [(''fields'', JArr (JStr first # rest))])])])])) message = Some first"
  by (simp_all add: getTargetField_def json_field_def)

end
