(* ===== verification/Device_Tokens.thy ===== *)
theory Device_Tokens
  imports Memberships Ability_Properties
begin

text \<open>
  \<open>src/src/modules/device-tokens/device-tokens.service.ts\<close>: the push tokens of an account.  Reads and
  writes go through a filter built from the caller's ability; an update is its checks and its write, so that
  another request can commit in between.
\<close>

record device_token =
  dt_id :: ident
  dt_created_at :: time
  dt_updated_at :: time
  dt_created_by :: "ident option"
  dt_updated_by :: "ident option"
  dt_user_id :: ident
  dt_token :: string
  dt_app_platform :: string
  dt_device_type :: string
  dt_device_os :: string
  dt_device_os_version :: string

record device_world =
  device_tokens :: "device_token list"
  dw_world :: world

record create_device_token =
  cd_user_id :: ident
  cd_token :: string
  cd_app_platform :: string
  cd_device_type :: string
  cd_device_os :: string
  cd_device_os_version :: string

text \<open>A patch: \<open>None\<close> is a field that is not in the body.\<close>

record update_device_token =
  ud_user_id :: "ident option"
  ud_token :: "string option"
  ud_app_platform :: "string option"
  ud_device_type :: "string option"
  ud_device_os :: "string option"
  ud_device_os_version :: "string option"

definition device_columns :: "device_token \<Rightarrow> row" where
  "device_columns t = [''id'' \<mapsto> dt_id t, ''userId'' \<mapsto> dt_user_id t]"

definition device_json :: "device_token \<Rightarrow> (string \<times> json) list" where
  "device_json t =
     [(''id'', JStr (dt_id t)), (''createdAt'', JDate (dt_created_at t)), (''updatedAt'', JDate (dt_updated_at t)),
      (''createdBy'', json_of_option JStr (dt_created_by t)), (''updatedBy'', json_of_option JStr (dt_updated_by t)),
      (''userId'', JStr (dt_user_id t)), (''token'', JStr (dt_token t)), (''appPlatform'', JStr (dt_app_platform t)),
      (''deviceType'', JStr (dt_device_type t)), (''deviceOs'', JStr (dt_device_os t)),
      (''deviceOsVersion'', JStr (dt_device_os_version t))]"

definition device_audited ::
  "string \<Rightarrow> ident option \<Rightarrow> ident \<Rightarrow> (string \<times> json) list \<Rightarrow> device_world \<Rightarrow> device_world" where
  "device_audited act actorId target metadata w =
     (if truthy actorId
      then w\<lparr>dw_world := audit_record (audit act actorId (Some target) (JObj metadata)) (dw_world w)\<rparr>
      else w)"

text \<open>The unique index on the token and the reference to the account.\<close>

definition device_write_error :: "device_token \<Rightarrow> device_world \<Rightarrow> exn option" where
  "device_write_error t w =
     (if \<exists>x \<in> set (device_tokens w). dt_id x \<noteq> dt_id t \<and> dt_token x = dt_token t
      then Some (PrismaKnownRequestError ''P2002'')
      else if \<forall>u \<in> set (users (dw_world w)). u_id u \<noteq> dt_user_id t
      then Some (PrismaKnownRequestError ''P2003'') else None)"

definition create_device ::
  "casl \<Rightarrow> create_device_token \<Rightarrow> ability \<Rightarrow> ident option \<Rightarrow> ident \<Rightarrow> time \<Rightarrow> device_world
   \<Rightarrow> exn + device_token \<times> device_world" where
  "create_device c dto ab actorId newId now w =
     bindE (assertCan c ab A_create S_DeviceToken [''userId'' \<mapsto> cd_user_id dto]) (\<lambda>_.
     (let created = \<lparr>dt_id = newId, dt_created_at = now, dt_updated_at = now, dt_created_by = actorId,
            dt_updated_by = actorId, dt_user_id = cd_user_id dto, dt_token = cd_token dto,
            dt_app_platform = cd_app_platform dto, dt_device_type = cd_device_type dto,
            dt_device_os = cd_device_os dto, dt_device_os_version = cd_device_os_version dto\<rparr>
      in if newId \<in> dt_id ` set (device_tokens w) then Inl (PrismaKnownRequestError ''P2002'')
         else case device_write_error created w of
                Some e \<Rightarrow> Inl e
              | None \<Rightarrow> Inr (created,
                  device_audited ''device_token.created'' actorId (dt_user_id created)
                    [(''deviceTokenId'', JStr newId)]
                    (w\<lparr>device_tokens := device_tokens w @ [created]\<rparr>))))"

definition find_device ::
  "casl \<Rightarrow> ident \<Rightarrow> ability \<Rightarrow> action \<Rightarrow> device_world \<Rightarrow> exn + device_token" where
  "find_device c i ab a w =
     bindE (buildRecordWhere c ab a S_DeviceToken i) (\<lambda>q.
     requireE (find (\<lambda>t. selects q (device_columns t)) (device_tokens w))
       (resourceNotFound ''Device token'' None))"

definition patch_device :: "update_device_token \<Rightarrow> ident option \<Rightarrow> time \<Rightarrow> device_token \<Rightarrow> device_token" where
  "patch_device dto actorId now t =
     t\<lparr>dt_token := (case ud_token dto of None \<Rightarrow> dt_token t | Some x \<Rightarrow> x),
        dt_app_platform := (case ud_app_platform dto of None \<Rightarrow> dt_app_platform t | Some x \<Rightarrow> x),
        dt_device_type := (case ud_device_type dto of None \<Rightarrow> dt_device_type t | Some x \<Rightarrow> x),
        dt_device_os := (case ud_device_os dto of None \<Rightarrow> dt_device_os t | Some x \<Rightarrow> x),
        dt_device_os_version := (case ud_device_os_version dto of None \<Rightarrow> dt_device_os_version t | Some x \<Rightarrow> x),
        dt_updated_by := actorId, dt_updated_at := now,
        dt_user_id := (case ud_user_id dto of None \<Rightarrow> dt_user_id t | Some x \<Rightarrow> x)\<rparr>"

definition device_update_checks ::
  "casl \<Rightarrow> ident \<Rightarrow> update_device_token \<Rightarrow> ability \<Rightarrow> device_world \<Rightarrow> exn + unit" where
  "device_update_checks c i dto ab w =
     bindE (find_device c i ab A_update w) (\<lambda>_.
     (case ud_user_id dto of
        None \<Rightarrow> Inr ()
      | Some userId \<Rightarrow> assertCan c ab A_update S_DeviceToken [''userId'' \<mapsto> userId]))"

text \<open>Connecting an account that is not there is a record the update needs and does not find.\<close>

definition device_update_write ::
  "ident \<Rightarrow> update_device_token \<Rightarrow> ident option \<Rightarrow> time \<Rightarrow> device_world \<Rightarrow> exn + device_token \<times> device_world" where
  "device_update_write i dto actorId now w =
     (case find (\<lambda>t. dt_id t = i) (device_tokens w) of
        None \<Rightarrow> Inl (PrismaKnownRequestError ''P2025'')
      | Some t \<Rightarrow>
          (let updated = patch_device dto actorId now t
           in if ud_user_id dto \<noteq> None \<and> (\<forall>u \<in> set (users (dw_world w)). u_id u \<noteq> dt_user_id updated)
              then Inl (PrismaKnownRequestError ''P2025'')
              else case device_write_error updated w of
                     Some e \<Rightarrow> Inl e
                   | None \<Rightarrow> Inr (updated,
                       device_audited ''device_token.updated'' actorId (dt_user_id updated)
                         [(''deviceTokenId'', JStr i)]
                         (w\<lparr>device_tokens := update_where (\<lambda>t. dt_id t = i) (patch_device dto actorId now)
                              (device_tokens w)\<rparr>))))"

definition update_device ::
  "casl \<Rightarrow> ident \<Rightarrow> update_device_token \<Rightarrow> ability \<Rightarrow> ident option \<Rightarrow> time \<Rightarrow> device_world
   \<Rightarrow> exn + device_token \<times> device_world" where
  "update_device c i dto ab actorId now w =
     bindE (device_update_checks c i dto ab w) (\<lambda>_. device_update_write i dto actorId now w)"

definition remove_device ::
  "casl \<Rightarrow> ident \<Rightarrow> ability \<Rightarrow> ident option \<Rightarrow> device_world \<Rightarrow> exn + device_world" where
  "remove_device c i ab actorId w =
     bindE (find_device c i ab A_delete w) (\<lambda>existing.
     Inr (device_audited ''device_token.deleted'' actorId (dt_user_id existing)
       [(''deviceTokenId'', JStr i), (''snapshot'', buildAuditSnapshot (device_json existing))]
       (w\<lparr>device_tokens := filter (\<lambda>t. dt_id t \<noteq> i) (device_tokens w)\<rparr>)))"

text \<open>What an ordinary account can do with device tokens: everything with its own and nothing with others'.\<close>

section \<open>The ability of an ordinary account\<close>

definition ordinary_over :: "authorization_grants \<Rightarrow> subject \<Rightarrow> bool" where
  "ordinary_over g s \<longleftrightarrow> (\<forall>a. \<not> staff_over g a s)"

lemma own_device_rule:
  "user_rule userId g (can_rule A_manage S_DeviceToken (Some (''userId'', userId)))"
  by (simp add: user_rule_def own_rule_def AUTHENTICATED_USER_PERMISSIONS_def permission_defs definition_grant_def
      platform_def Let_def)

lemma can_on_device:
  assumes "casl_laws c" and "createForUser userId g = Inr ab" and "ordinary_over g S_DeviceToken"
  shows "can_on c ab a S_DeviceToken r \<longleftrightarrow> r ''userId'' = Some userId"
proof
  assume "can_on c ab a S_DeviceToken r"
  then obtain x where x: "user_rule userId g x" "relevant a S_DeviceToken x" "condition_holds r x"
    using can_on_rule [OF assms(1,2)] by blast
  have "ru_conditions x = Some (''userId'', userId)"
    using relevant_unscoped_rule [OF x(1,2)] assms(3) by (simp add: ordinary_over_def)
  then show "r ''userId'' = Some userId" using x(3) by (simp add: condition_holds_def)
next
  assume "r ''userId'' = Some userId"
  then show "can_on c ab a S_DeviceToken r"
    using own_device_rule [of userId g] can_on_rule [OF assms(1,2)]
    by (auto simp: relevant_def condition_holds_def can_rule_def)
qed

lemma can_type_device:
  assumes "casl_laws c" and "createForUser userId g = Inr ab"
  shows "can_type c ab a S_DeviceToken"
proof -
  let ?r = "can_rule A_manage S_DeviceToken (Some (''userId'', userId))"
  have "?r \<in> set ab" using ability_core [OF assms(2)] own_device_rule by simp
  moreover have "relevant a S_DeviceToken ?r" by (simp add: relevant_def can_rule_def)
  ultimately show ?thesis using casl_ability(1) [OF assms] by blast
qed

lemma find_device_eq:
  assumes "casl_laws c" and "createForUser userId g = Inr ab" and "ordinary_over g S_DeviceToken"
  shows "find_device c i ab a w =
    requireE (find (\<lambda>t. dt_id t = i \<and> dt_user_id t = userId) (device_tokens w)) (resourceNotFound ''Device token'' None)"
proof -
  obtain q where q: "buildRecordWhere c ab a S_DeviceToken i = Inr q"
    "\<And>r. selects q r \<longleftrightarrow> r ''id'' = Some i \<and> can_on c ab a S_DeviceToken r"
    unfolding buildRecordWhere_def
    using buildWhere_exact [OF assms(1,2) can_type_device [OF assms(1,2)],
        where callerWhere = "\<lambda>row. row ''id'' = Some i"] by blast
  have "selects q (device_columns t) \<longleftrightarrow> dt_id t = i \<and> dt_user_id t = userId" for t
    by (simp add: q(2) can_on_device [OF assms] device_columns_def)
  then show ?thesis by (simp add: find_device_def q(1))
qed

section \<open>Reading\<close>

text \<open>Somebody else's token looks like no token.  An ordinary account that asks for one, whatever for, gets its
  own or the same not-found error as for an id that does not exist.\<close>

theorem foreign_device_token_not_found:
  assumes "casl_laws c" and "createForUser userId g = Inr ab" and "ordinary_over g S_DeviceToken"
  shows "case find_device c i ab a w of
     Inr t \<Rightarrow> t \<in> set (device_tokens w) \<and> dt_id t = i \<and> dt_user_id t = userId
   | Inl e \<Rightarrow> e = resourceNotFound ''Device token'' None \<and>
       \<not> (\<exists>t \<in> set (device_tokens w). dt_id t = i \<and> dt_user_id t = userId)"
proof (cases "find (\<lambda>t. dt_id t = i \<and> dt_user_id t = userId) (device_tokens w)")
  case None
  then show ?thesis by (auto simp: find_device_eq [OF assms] dest: find_NoneD)
next
  case (Some t)
  then show ?thesis using find_SomeD [OF Some] by (simp add: find_device_eq [OF assms])
qed

section \<open>Writing\<close>

inductive device_step :: "casl \<Rightarrow> ability \<Rightarrow> device_world \<Rightarrow> device_world \<Rightarrow> bool"
  for c :: casl and ab :: ability where
  created: "create_device c dto ab actor newId now w = Inr (t, w') \<Longrightarrow> device_step c ab w w'"
| updated: "update_device c i patch ab actor now w = Inr (t, w') \<Longrightarrow> device_step c ab w w'"
| removed: "remove_device c i ab actor w = Inr w' \<Longrightarrow> device_step c ab w w'"

lemma device_audited_tokens [simp]:
  "device_tokens (device_audited act actor target md w) = device_tokens w"
  by (simp add: device_audited_def)

lemma own_write_keeps_others:
  assumes "distinct (map dt_id rows)" and "find (\<lambda>t. dt_id t = i \<and> dt_user_id t = u) rows = Some x"
  shows "filter (\<lambda>t. dt_user_id t \<noteq> u) (filter (\<lambda>t. dt_id t \<noteq> i) rows) = filter (\<lambda>t. dt_user_id t \<noteq> u) rows"
    and "dt_user_id (f x) = u \<Longrightarrow>
      filter (\<lambda>t. dt_user_id t \<noteq> u) (update_where (\<lambda>t. dt_id t = i) f rows) = filter (\<lambda>t. dt_user_id t \<noteq> u) rows"
proof -
  have x: "x \<in> set rows" "dt_id x = i" "dt_user_id x = u" using find_SomeD [OF assms(2)] by auto
  have only: "t = x" if "t \<in> set rows" "dt_id t = i" for t
    using distinct_key [OF assms(1) that(1) x(1)] that(2) x(2) by simp
  show "filter (\<lambda>t. dt_user_id t \<noteq> u) (filter (\<lambda>t. dt_id t \<noteq> i) rows) = filter (\<lambda>t. dt_user_id t \<noteq> u) rows"
    unfolding filter_filter by (rule filter_cong [OF refl]) (use only x(3) in auto)
  assume fx: "dt_user_id (f x) = u"
  have "\<forall>t \<in> set rows. dt_id t = i \<longrightarrow> dt_user_id t = u \<and> dt_user_id (f t) = u" using only x(3) fx by blast
  then show "filter (\<lambda>t. dt_user_id t \<noteq> u) (update_where (\<lambda>t. dt_id t = i) f rows) =
      filter (\<lambda>t. dt_user_id t \<noteq> u) rows"
    by (induction rows) auto
qed

lemma device_step_ids:
  "device_step c ab w w' \<Longrightarrow> distinct (map dt_id (device_tokens w)) \<Longrightarrow> distinct (map dt_id (device_tokens w'))"
  by (erule device_step.cases)
    (auto simp: create_device_def update_device_def device_update_write_def remove_device_def bindE_Inr_iff Let_def
      map_update_where patch_device_def distinct_map_filter split: if_splits option.splits)

lemma device_step_others:
  assumes "casl_laws c" and "createForUser userId g = Inr ab" and "ordinary_over g S_DeviceToken"
    and "device_step c ab w w'" and "distinct (map dt_id (device_tokens w))"
  shows "filter (\<lambda>t. dt_user_id t \<noteq> userId) (device_tokens w') = filter (\<lambda>t. dt_user_id t \<noteq> userId) (device_tokens w)"
  using assms(4)
proof cases
  case (created dto actor newId now t)
  then have "cd_user_id dto = userId"
    by (auto simp: create_device_def bindE_Inr_iff assertCan_def can_on_device [OF assms(1-3)])
  with created show ?thesis
    by (auto simp: create_device_def bindE_Inr_iff Let_def split: if_splits option.splits)
next
  case (updated i patch actor now t)
  then obtain x where x: "find (\<lambda>t. dt_id t = i \<and> dt_user_id t = userId) (device_tokens w) = Some x"
    and dest: "\<And>v. ud_user_id patch = Some v \<Longrightarrow> v = userId"
    by (auto simp: update_device_def device_update_checks_def bindE_Inr_iff find_device_eq [OF assms(1-3)]
        assertCan_def can_on_device [OF assms(1-3)] split: option.splits)
  have "dt_user_id x = userId" using find_SomeD [OF x] by simp
  then have "dt_user_id (patch_device patch actor now x) = userId"
    using dest by (auto simp: patch_device_def split: option.splits)
  note own = own_write_keeps_others(2) [where f = "patch_device patch actor now", OF assms(5) x this]
  have "device_tokens w' = update_where (\<lambda>t. dt_id t = i) (patch_device patch actor now) (device_tokens w)"
    using updated by (auto simp: update_device_def device_update_write_def bindE_Inr_iff Let_def
        split: if_splits option.splits)
  with own show ?thesis by simp
next
  case (removed i actor)
  then obtain x where x: "find (\<lambda>t. dt_id t = i \<and> dt_user_id t = userId) (device_tokens w) = Some x"
    and w': "device_tokens w' = filter (\<lambda>t. dt_id t \<noteq> i) (device_tokens w)"
    by (auto simp: remove_device_def bindE_Inr_iff find_device_eq [OF assms(1-3)])
  show ?thesis unfolding w' by (rule own_write_keeps_others(1) [OF assms(5) x])
qed

text \<open>An ordinary account never touches anybody else's token.  Whatever it creates, changes, hands over or
  deletes, one request after another, the tokens of all other accounts stay the very same rows, and none is
  added to them.\<close>

theorem device_tokens_stay_with_owner:
  assumes "casl_laws c" and "createForUser userId g = Inr ab" and "ordinary_over g S_DeviceToken"
    and "distinct (map dt_id (device_tokens w))" and "(device_step c ab)\<^sup>*\<^sup>* w w'"
  shows "filter (\<lambda>t. dt_user_id t \<noteq> userId) (device_tokens w') = filter (\<lambda>t. dt_user_id t \<noteq> userId) (device_tokens w)"
proof -
  have "distinct (map dt_id (device_tokens w')) \<and> filter (\<lambda>t. dt_user_id t \<noteq> userId) (device_tokens w') =
      filter (\<lambda>t. dt_user_id t \<noteq> userId) (device_tokens w)"
    using assms(5)
  proof (induction rule: rtranclp_induct)
    case base
    then show ?case using assms(4) by simp
  next
    case (step v v')
    then show ?case using device_step_ids device_step_others [OF assms(1-3)] by simp
  qed
  then show ?thesis ..
qed

text \<open>The token itself, a credential, is not in the row a deletion freezes in the audit log.\<close>

lemma device_snapshot_without_token:
  "buildAuditSnapshot (device_json t) = JObj kept \<Longrightarrow> ''token'' \<notin> fst ` set kept"
  by (auto simp: buildAuditSnapshot_def REDACTED_COLUMNS_def device_json_def)

end
