(* ===== verification/Http_Witnesses.thy ===== *)
theory Http_Witnesses
  imports Exception_Properties Device_Tokens Ability_Witnesses Samples
begin

text \<open>Witnesses of the properties of redaction, of the exception filter and of the device tokens.\<close>

section \<open>Redaction and the exception filter\<close>

lemma sample_urls: "same_but_secrets ''/v?Token=a&x=1'' ''/v?Token=b&x=1''"
proof -
  have "same_parameter ''Token=a'' ''Token=b''"
  proof -
    have "to_lower_case ''Token'' = ''token''" by code_simp
    then have "isRedactedParameter ''Token''"
      by (simp add: isRedactedParameter_def SECRET_QUERY_PARAMETER_NAMES_def)
    moreover have "CHR ''='' \<notin> set ''Token''" "''Token=a'' = ''Token'' @ ''='' @ ''a''"
      "''Token=b'' = ''Token'' @ ''='' @ ''b''" by simp_all
    ultimately show ?thesis unfolding same_parameter_def by blast
  qed
  then have "list_all2 same_parameter [''Token=a'', ''x=1''] [''Token=b'', ''x=1'']"
    by (simp add: same_parameter_def)
  then show ?thesis
    unfolding same_but_secrets_def
    by (rule_tac x = "''/v''" in exI, rule_tac x = "[''Token=a'', ''x=1'']" in exI,
        rule_tac x = "[''Token=b'', ''x=1'']" in exI) simp
qed

lemma redaction_hides_secrets_witness:
  "redactUrlSecrets ''/v?Token=a&x=1'' = redactUrlSecrets ''/v?Token=b&x=1''"
  using redaction_hides_secrets [OF sample_urls] by blast

definition sample_failed_request :: filtered_request where
  "sample_failed_request =
     \<lparr>fr_method = ''GET'', fr_original_url = ''/v?Token=a&x=1'', fr_id = None, fr_x_request_id = NoHeader\<rparr>"

lemma no_secret_in_error_answer_witness:
  "catch_all (thrown invalidLink) [] (sample_failed_request\<lparr>fr_original_url := ''/v?Token=b&x=1''\<rparr>) 5 =
   catch_all (thrown invalidLink) [] sample_failed_request 5 \<and>
   rb_path (fst (catch_all (AnythingElse ''boom'') [] (sample_failed_request\<lparr>fr_original_url := ''/v?Token=b&x=1''\<rparr>) 6)) =
   rb_path (fst (catch_all (thrown invalidLink) [] sample_failed_request 5))"
proof -
  have "same_but_secrets (fr_original_url sample_failed_request) ''/v?Token=b&x=1''"
    by (simp only: sample_failed_request_def filtered_request.simps sample_urls)
  from no_secret_in_error_answer [OF this, of "thrown invalidLink" "[]" 5 "AnythingElse ''boom''" "[]" 6]
  show ?thesis by blast
qed

lemma envelope_status_matches_code_witness:
  "rb_status_code (fst (catch_all (thrown tokenExpired) [] sample_failed_request 5)) = code_status TOKEN_EXPIRED"
proof -
  have "arrives (thrown tokenExpired)" by (rule arrives.from_catalogue) (simp add: catalogue_def)
  from envelope_status_matches_code [OF this, of "[]" sample_failed_request 5] show ?thesis
    by (simp add: catch_all_def translate_def fromHttpException_def tokenExpired_def Let_def)
qed

lemma unexpected_error_reveals_nothing_witness:
  "fst (catch_all (KnownRequestError ''P1001'' None ''db.internal refused'') ''trace'' sample_failed_request 5) =
   fst (catch_all (AnythingElse ''boom'') ''other'' sample_failed_request 5)"
  using unexpected_error_reveals_nothing [of "''P1001''" None] by (simp add: statement_timed_out_def)

section \<open>Device tokens\<close>

definition sample_device :: "ident \<Rightarrow> ident \<Rightarrow> device_token" where
  "sample_device i u =
     \<lparr>dt_id = i, dt_created_at = 0, dt_updated_at = 0, dt_created_by = None, dt_updated_by = None,
      dt_user_id = u, dt_token = i, dt_app_platform = ''mobile'', dt_device_type = ''phone'',
      dt_device_os = ''ios'', dt_device_os_version = ''1''\<rparr>"

definition sample_devices :: device_world where
  "sample_devices =
     \<lparr>device_tokens = [sample_device ''d1'' ''u'', sample_device ''d2'' ''v''], dw_world = sample_world\<rparr>"

lemma sample_ordinary: "ordinary_over sample_grants S_DeviceToken"
  by (simp add: ordinary_over_def staff_over_def sample_grants_def)

lemma foreign_device_token_not_found_witness:
  "find_device sample_casl ''d2'' sample_ability A_read sample_devices =
   Inl (resourceNotFound ''Device token'' None)"
proof -
  have "\<not> (\<exists>t \<in> set (device_tokens sample_devices). dt_id t = ''d2'' \<and> dt_user_id t = ''u'')"
    by (simp add: sample_devices_def sample_device_def)
  with foreign_device_token_not_found [OF sample_casl_laws sample_created sample_ordinary,
      where i = "''d2''" and a = A_read and w = sample_devices]
  show ?thesis by (auto split: sum.splits)
qed

lemma device_tokens_stay_with_owner_witness:
  "\<exists>w'. remove_device sample_casl ''d1'' sample_ability (Some ''u'') sample_devices = Inr w' \<and>
     filter (\<lambda>t. dt_user_id t \<noteq> ''u'') (device_tokens w') = [sample_device ''d2'' ''v'']"
proof -
  have "find_device sample_casl ''d1'' sample_ability A_delete sample_devices = Inr (sample_device ''d1'' ''u'')"
    by (simp add: find_device_eq [OF sample_casl_laws sample_created sample_ordinary] sample_devices_def sample_device_def)
  then obtain w' where w': "remove_device sample_casl ''d1'' sample_ability (Some ''u'') sample_devices = Inr w'"
    by (simp add: remove_device_def)
  then have "(device_step sample_casl sample_ability)\<^sup>*\<^sup>* sample_devices w'"
    by (intro r_into_rtranclp device_step.removed)
  moreover have "distinct (map dt_id (device_tokens sample_devices))"
    by (simp add: sample_devices_def sample_device_def)
  ultimately have "filter (\<lambda>t. dt_user_id t \<noteq> ''u'') (device_tokens w') =
      filter (\<lambda>t. dt_user_id t \<noteq> ''u'') (device_tokens sample_devices)"
    by (intro device_tokens_stay_with_owner [OF sample_casl_laws sample_created sample_ordinary])
  then show ?thesis using w' by (simp add: sample_devices_def sample_device_def)
qed

end
