(* ===== verification/Queue_Registry.thy ===== *)
theory Queue_Registry
  imports Errors
begin

text \<open>
  The registries under \<open>src/src/common/queue\<close>: queues (\<open>queue-registry.ts\<close>), jobs (\<open>job-registry.ts\<close>), the
  options a job is enqueued with (\<open>job-options.ts\<close>), recurring schedules (\<open>recurring-schedule-registry.ts\<close>),
  and the deterministic job ids of \<open>queue-job-id.util.ts\<close>, whose error messages are abbreviated.
\<close>

section \<open>Queues\<close>

datatype backoff_strategy = Exponential | Fixed

record retry_policy =
  rp_attempts :: nat
  rp_backoff_strategy :: backoff_strategy
  rp_initial_backoff_ms :: int

record retention_policy =
  rt_completed_count :: nat
  rt_completed_age_seconds :: int
  rt_failed_count :: nat
  rt_failed_age_seconds :: int

definition DEFAULT_JOB_RETRY_POLICY :: retry_policy where
  "DEFAULT_JOB_RETRY_POLICY =
     \<lparr>rp_attempts = 5, rp_backoff_strategy = Exponential, rp_initial_backoff_ms = 30000\<rparr>"

definition DEFAULT_JOB_RETENTION_POLICY :: retention_policy where
  "DEFAULT_JOB_RETENTION_POLICY =
     \<lparr>rt_completed_count = 1000, rt_completed_age_seconds = 86400, rt_failed_count = 5000,
      rt_failed_age_seconds = 604800\<rparr>"

datatype queue_name = MAINTENANCE | NOTIFICATIONS

fun queue_value :: "queue_name \<Rightarrow> string" where
  "queue_value MAINTENANCE = ''maintenance''"
| "queue_value NOTIFICATIONS = ''notifications''"

record queue_registration =
  qr_concurrency :: "nat option"
  qr_retry_policy :: "retry_policy option"
  qr_retention_policy :: "retention_policy option"

fun QUEUE_REGISTRATIONS :: "queue_name \<Rightarrow> queue_registration" where
  "QUEUE_REGISTRATIONS MAINTENANCE =
     \<lparr>qr_concurrency = Some 2, qr_retry_policy = None, qr_retention_policy = None\<rparr>"
| "QUEUE_REGISTRATIONS NOTIFICATIONS =
     \<lparr>qr_concurrency = None, qr_retry_policy = None, qr_retention_policy = None\<rparr>"

definition REGISTERED_QUEUE_NAMES :: "queue_name list" where
  "REGISTERED_QUEUE_NAMES = [MAINTENANCE, NOTIFICATIONS]"

definition resolveQueueRetryPolicy :: "queue_name \<Rightarrow> retry_policy" where
  "resolveQueueRetryPolicy q =
     (case qr_retry_policy (QUEUE_REGISTRATIONS q) of None \<Rightarrow> DEFAULT_JOB_RETRY_POLICY | Some p \<Rightarrow> p)"

definition resolveQueueRetentionPolicy :: "queue_name \<Rightarrow> retention_policy" where
  "resolveQueueRetentionPolicy q =
     (case qr_retention_policy (QUEUE_REGISTRATIONS q) of None \<Rightarrow> DEFAULT_JOB_RETENTION_POLICY | Some p \<Rightarrow> p)"

section \<open>Jobs\<close>

datatype job_name =
    MAINTENANCE_QUEUE_HEARTBEAT_V1
  | AUTH_REFRESH_TOKEN_RETENTION_V1
  | MCP_OAUTH_PAYLOAD_RETENTION_V1
  | FILES_CLEANUP_V1
  | USER_EMAIL_VERIFICATION_V1
  | USER_PASSWORD_RESET_V1
  | USER_PASSWORD_CHANGED_NOTICE_V1
  | USER_EMAIL_CHANGED_NOTICE_V1
  | USER_SIGN_UP_ACCOUNT_EXISTS_V1
  | WORKSPACE_INVITATION_EMAIL_V1

fun job_value :: "job_name \<Rightarrow> string" where
  "job_value MAINTENANCE_QUEUE_HEARTBEAT_V1 = ''maintenance.queue-heartbeat.v1''"
| "job_value AUTH_REFRESH_TOKEN_RETENTION_V1 = ''auth.refresh-token-retention.v1''"
| "job_value MCP_OAUTH_PAYLOAD_RETENTION_V1 = ''mcp-oauth.payload-retention.v1''"
| "job_value FILES_CLEANUP_V1 = ''files.cleanup.v1''"
| "job_value USER_EMAIL_VERIFICATION_V1 = ''user.email-verification.v1''"
| "job_value USER_PASSWORD_RESET_V1 = ''user.password-reset.v1''"
| "job_value USER_PASSWORD_CHANGED_NOTICE_V1 = ''user.password-changed-notice.v1''"
| "job_value USER_EMAIL_CHANGED_NOTICE_V1 = ''user.email-changed-notice.v1''"
| "job_value USER_SIGN_UP_ACCOUNT_EXISTS_V1 = ''user.sign-up-account-exists.v1''"
| "job_value WORKSPACE_INVITATION_EMAIL_V1 = ''workspace.invitation-email.v1''"

record job_registration =
  jr_queue_name :: queue_name
  jr_payload_version :: nat
  jr_retry_policy :: "retry_policy option"

definition exponential :: "nat \<Rightarrow> int \<Rightarrow> retry_policy" where
  "exponential attempts initial =
     \<lparr>rp_attempts = attempts, rp_backoff_strategy = Exponential, rp_initial_backoff_ms = initial\<rparr>"

definition registration :: "queue_name \<Rightarrow> retry_policy option \<Rightarrow> job_registration" where
  "registration q p = \<lparr>jr_queue_name = q, jr_payload_version = 1, jr_retry_policy = p\<rparr>"

fun JOB_REGISTRATIONS :: "job_name \<Rightarrow> job_registration" where
  "JOB_REGISTRATIONS MAINTENANCE_QUEUE_HEARTBEAT_V1 = registration MAINTENANCE
     (Some \<lparr>rp_attempts = 1, rp_backoff_strategy = Fixed, rp_initial_backoff_ms = 0\<rparr>)"
| "JOB_REGISTRATIONS AUTH_REFRESH_TOKEN_RETENTION_V1 = registration MAINTENANCE (Some (exponential 3 60000))"
| "JOB_REGISTRATIONS MCP_OAUTH_PAYLOAD_RETENTION_V1 = registration MAINTENANCE (Some (exponential 3 60000))"
| "JOB_REGISTRATIONS FILES_CLEANUP_V1 = registration MAINTENANCE (Some (exponential 3 30000))"
| "JOB_REGISTRATIONS USER_EMAIL_VERIFICATION_V1 = registration NOTIFICATIONS None"
| "JOB_REGISTRATIONS USER_PASSWORD_RESET_V1 = registration NOTIFICATIONS None"
| "JOB_REGISTRATIONS USER_PASSWORD_CHANGED_NOTICE_V1 = registration NOTIFICATIONS None"
| "JOB_REGISTRATIONS USER_EMAIL_CHANGED_NOTICE_V1 = registration NOTIFICATIONS None"
| "JOB_REGISTRATIONS USER_SIGN_UP_ACCOUNT_EXISTS_V1 = registration NOTIFICATIONS None"
| "JOB_REGISTRATIONS WORKSPACE_INVITATION_EMAIL_V1 = registration NOTIFICATIONS None"

definition REGISTERED_JOB_NAMES :: "job_name list" where
  "REGISTERED_JOB_NAMES =
     [MAINTENANCE_QUEUE_HEARTBEAT_V1, AUTH_REFRESH_TOKEN_RETENTION_V1, MCP_OAUTH_PAYLOAD_RETENTION_V1,
      FILES_CLEANUP_V1, USER_EMAIL_VERIFICATION_V1, USER_PASSWORD_RESET_V1, USER_PASSWORD_CHANGED_NOTICE_V1,
      USER_EMAIL_CHANGED_NOTICE_V1, USER_SIGN_UP_ACCOUNT_EXISTS_V1, WORKSPACE_INVITATION_EMAIL_V1]"

text \<open>The registered job a string names, if any: \<open>isRegisteredJobName\<close> and the narrowing it licenses.\<close>

definition registered_job :: "string \<Rightarrow> job_name option" where
  "registered_job s = find (\<lambda>j. job_value j = s) REGISTERED_JOB_NAMES"

definition isRegisteredJobName :: "string \<Rightarrow> bool" where
  "isRegisteredJobName s \<longleftrightarrow> registered_job s \<noteq> None"

section \<open>Options\<close>

record job_options =
  jo_attempts :: nat
  jo_backoff :: "backoff_strategy \<times> int"
  jo_remove_on_complete :: "nat \<times> int"
  jo_remove_on_fail :: "nat \<times> int"
  jo_job_id :: "string option"
  jo_delay :: "int option"

record enqueue_options =
  eo_job_id :: "string option"
  eo_retry_policy :: "retry_policy option"

definition resolveJobOptions :: "job_name \<Rightarrow> enqueue_options option \<Rightarrow> job_options" where
  "resolveJobOptions jobName overrides =
     (let reg = JOB_REGISTRATIONS jobName;
          retry = (case Option.bind overrides eo_retry_policy of
                     Some p \<Rightarrow> p
                   | None \<Rightarrow> (case jr_retry_policy reg of Some p \<Rightarrow> p
                              | None \<Rightarrow> resolveQueueRetryPolicy (jr_queue_name reg)));
          retention = resolveQueueRetentionPolicy (jr_queue_name reg)
      in \<lparr>jo_attempts = rp_attempts retry,
          jo_backoff = (rp_backoff_strategy retry, rp_initial_backoff_ms retry),
          jo_remove_on_complete = (rt_completed_count retention, rt_completed_age_seconds retention),
          jo_remove_on_fail = (rt_failed_count retention, rt_failed_age_seconds retention),
          jo_job_id = (case Option.bind overrides eo_job_id of
                         None \<Rightarrow> None | Some i \<Rightarrow> if i = [] then None else Some i),
          jo_delay = None\<rparr>)"

section \<open>Recurring schedules\<close>

datatype recurrence = Cron string string | Every int

record recurring_schedule =
  rs_scheduler_id :: string
  rs_recurrence :: recurrence
  rs_job_name :: job_name

definition QUEUE_HEARTBEAT_SCHEDULER_ID :: string where
  "QUEUE_HEARTBEAT_SCHEDULER_ID = ''maintenance:queue-heartbeat:v1''"

definition QUEUE_HEARTBEAT_INTERVAL_MILLISECONDS :: int where
  "QUEUE_HEARTBEAT_INTERVAL_MILLISECONDS = 5 * 60 * 1000"

definition RECURRING_SCHEDULES :: "recurring_schedule list" where
  "RECURRING_SCHEDULES =
     [\<lparr>rs_scheduler_id = QUEUE_HEARTBEAT_SCHEDULER_ID,
       rs_recurrence = Every QUEUE_HEARTBEAT_INTERVAL_MILLISECONDS, rs_job_name = MAINTENANCE_QUEUE_HEARTBEAT_V1\<rparr>,
      \<lparr>rs_scheduler_id = ''auth:refresh-token-retention:v1'', rs_recurrence = Cron ''0 0 * * *'' ''UTC'',
       rs_job_name = AUTH_REFRESH_TOKEN_RETENTION_V1\<rparr>,
      \<lparr>rs_scheduler_id = ''mcp-oauth:payload-retention:v1'', rs_recurrence = Cron ''30 0 * * *'' ''UTC'',
       rs_job_name = MCP_OAUTH_PAYLOAD_RETENTION_V1\<rparr>,
      \<lparr>rs_scheduler_id = ''files:cleanup:v1'', rs_recurrence = Cron ''*/10 * * * *'' ''UTC'',
       rs_job_name = FILES_CLEANUP_V1\<rparr>]"

definition REGISTERED_SCHEDULER_IDS :: "string list" where
  "REGISTERED_SCHEDULER_IDS = map rs_scheduler_id RECURRING_SCHEDULES"

section \<open>Deterministic job ids\<close>

text \<open>\<open>[a-z][a-z0-9-]*\<close>\<close>

definition kebab :: "string \<Rightarrow> bool" where
  "kebab s \<longleftrightarrow>
     (case s of [] \<Rightarrow> False
      | c # cs \<Rightarrow> lower_letter c \<and> list_all (\<lambda>x. lower_letter x \<or> digit x \<or> x = CHR ''-'') cs)"

text \<open>The three captures of \<open>JOB_NAME_PATTERN\<close>.  None of its classes has a dot, so the parts between the dots are
  the captures.\<close>

definition match_job_name :: "string \<Rightarrow> (string \<times> string \<times> string) option" where
  "match_job_name s =
     (case split_on (CHR ''.'') s of
        [domain, operation, version] \<Rightarrow>
          (case version of
             [] \<Rightarrow> None
           | v # digits \<Rightarrow>
               (if kebab domain \<and> kebab operation \<and> v = CHR ''v'' \<and> digits \<noteq> [] \<and> list_all digit digits
                then Some (domain, operation, digits) else None))
      | _ \<Rightarrow> None)"

text \<open>The check that a schedule version is a non-negative integer is the type \<^typ>\<open>nat\<close>.\<close>

definition buildDeterministicJobId :: "string \<Rightarrow> string \<Rightarrow> nat \<Rightarrow> exn + string" where
  "buildDeterministicJobId jobName entityId scheduleVersion =
     (case match_job_name jobName of
        None \<Rightarrow> Inl (JsError (''Invalid job name'' @ jobName))
      | Some (domain, operation, _) \<Rightarrow>
          (if entityId = [] then Inl (JsError ''Cannot build a deterministic job ID without an entity ID'')
           else if CHR '':'' \<in> set entityId then Inl (JsError (''Entity ID contains a colon: '' @ entityId))
           else Inr (domain @ ''.'' @ operation @ ''.'' @ entityId @ ''.'' @ decimal scheduleVersion)))"

definition readPayloadVersionFromJobName :: "string \<Rightarrow> exn + nat" where
  "readPayloadVersionFromJobName jobName =
     (case match_job_name jobName of
        None \<Rightarrow> Inl (JsError (''Invalid job name'' @ jobName))
      | Some (_, _, version) \<Rightarrow> Inr (parse_decimal version))"

end
