(* ===== verification/Queue_Producer.thy ===== *)
theory Queue_Producer
  imports Queue_Registry Ability
begin

text \<open>
  Putting work on a queue and taking it back: \<open>src/src/common/queue/queue-producer.service.ts\<close>,
  \<open>queue-inspection.service.ts\<close>, \<open>recurring-schedule.installer.ts\<close>, and the operator's
  \<open>src/src/modules/queue-admin/queue-admin.service.ts\<close>.  BullMQ is third-party code: a record of functions on
  a store, whose documented behaviour is \<open>bull_laws\<close>.  Workers run all the time, so an operation that makes
  two calls takes what happened to the store between them as an argument.
\<close>

section \<open>BullMQ\<close>

record job_payload =
  jp_payload_version :: nat
  jp_correlation_id :: "string option"
  jp_scheduled_at :: "time option"
  jp_schedule_version :: "nat option"
  jp_data :: json

datatype job_state = Waiting | Delayed | Prioritized | WaitingChildren | Active | Completed | Failed | Unknown

record inspected_job =
  ij_id :: ident
  ij_name :: string
  ij_state :: job_state
  ij_attempts_made :: nat
  ij_timestamp :: time
  ij_processed_on :: "time option"
  ij_finished_on :: "time option"
  ij_failed_reason :: "string option"
  ij_payload :: json

record 's bull =
  bq_add :: "queue_name \<Rightarrow> job_name \<Rightarrow> job_payload \<Rightarrow> job_options \<Rightarrow> 's \<Rightarrow> exn + ident option \<times> 's"
  bq_job :: "queue_name \<Rightarrow> ident \<Rightarrow> 's \<Rightarrow> inspected_job option"
  bq_remove :: "queue_name \<Rightarrow> ident \<Rightarrow> 's \<Rightarrow> exn + 's"
  bq_retry :: "queue_name \<Rightarrow> ident \<Rightarrow> 's \<Rightarrow> exn + 's"
  bq_schedulers :: "queue_name \<Rightarrow> 's \<Rightarrow> string list"
  bq_upsert_scheduler :: "queue_name \<Rightarrow> recurring_schedule \<Rightarrow> job_payload \<Rightarrow> job_options \<Rightarrow> 's \<Rightarrow> 's"
  bq_remove_scheduler :: "queue_name \<Rightarrow> string \<Rightarrow> 's \<Rightarrow> 's"

text \<open>The state of a job, when there is one.\<close>

definition bq_state :: "'s bull \<Rightarrow> queue_name \<Rightarrow> ident \<Rightarrow> 's \<Rightarrow> job_state option" where
  "bq_state b q i s = map_option ij_state (bq_job b q i s)"

text \<open>
  What the code relies on.  Adding a job leaves every other job alone, uses the id it is given, and adds
  nothing when a job has that id; a new job is waiting or delayed.  Removing refuses an active job, and
  takes no other.  An operation on one scheduler touches neither the others nor any job.
\<close>

definition bull_laws :: "'s bull \<Rightarrow> bool" where
  "bull_laws b \<longleftrightarrow>
     (\<forall>q n p opts s i' s'. bq_add b q n p opts s = Inr (i', s') \<longrightarrow>
        (\<exists>i. i' = Some i \<and> (jo_job_id opts = None \<or> jo_job_id opts = Some i) \<and>
          (bq_state b q i s = None \<longrightarrow> bq_state b q i s' \<in> {Some Waiting, Some Delayed}) \<and>
          (\<forall>q2 i2. (q2, i2) \<noteq> (q, i) \<or> bq_state b q i s \<noteq> None \<longrightarrow> bq_job b q2 i2 s' = bq_job b q2 i2 s))) \<and>
     (\<forall>q i s s'. bq_remove b q i s = Inr s' \<longrightarrow>
        bq_state b q i s \<noteq> Some Active \<and> bq_job b q i s' = None \<and>
        (\<forall>q2 i2. (q2, i2) \<noteq> (q, i) \<longrightarrow> bq_job b q2 i2 s' = bq_job b q2 i2 s)) \<and>
     (\<forall>q r p opts s q2. set (bq_schedulers b q2 (bq_upsert_scheduler b q r p opts s)) =
        (if q2 = q then insert (rs_scheduler_id r) (set (bq_schedulers b q s)) else set (bq_schedulers b q2 s))) \<and>
     (\<forall>q i s q2. set (bq_schedulers b q2 (bq_remove_scheduler b q i s)) =
        (if q2 = q then set (bq_schedulers b q s) - {i} else set (bq_schedulers b q2 s)))"

section \<open>The lifecycle log\<close>

datatype lifecycle_event =
    LE_SCHEDULED | LE_ENQUEUED | LE_STARTED | LE_COMPLETED | LE_RETRIED | LE_FAILED | LE_SKIPPED
  | LE_CANCELLED | LE_RESCHEDULED

record lifecycle_record =
  lr_event :: lifecycle_event
  lr_queue_name :: queue_name
  lr_job_name :: string
  lr_job_id :: "ident option"
  lr_payload_version :: "nat option"
  lr_schedule_version :: "nat option"
  lr_scheduled_at :: "time option"
  lr_attempt :: "nat option"
  lr_max_attempts :: "nat option"
  lr_duration_ms :: "int option"
  lr_reason :: "string option"
  lr_correlation_id :: "string option"

definition lifecycle ::
  "lifecycle_event \<Rightarrow> queue_name \<Rightarrow> string \<Rightarrow> ident option \<Rightarrow> job_payload option \<Rightarrow> string option \<Rightarrow> lifecycle_record"
  where
  "lifecycle e q n i p reason =
     \<lparr>lr_event = e, lr_queue_name = q, lr_job_name = n, lr_job_id = i,
      lr_payload_version = map_option jp_payload_version p, lr_schedule_version = Option.bind p jp_schedule_version,
      lr_scheduled_at = Option.bind p jp_scheduled_at, lr_attempt = None, lr_max_attempts = None,
      lr_duration_ms = None, lr_reason = reason, lr_correlation_id = Option.bind p jp_correlation_id\<rparr>"

section \<open>The producer\<close>

type_synonym 's logged = "'s \<times> lifecycle_record list"

definition requireJobId :: "ident option \<Rightarrow> job_name \<Rightarrow> exn + ident" where
  "requireJobId jobId jobName =
     (case jobId of
        None \<Rightarrow> Inl (JsError (''BullMQ returned no job ID when enqueuing '' @ job_value jobName))
      | Some i \<Rightarrow>
          (if i = [] then Inl (JsError (''BullMQ returned no job ID when enqueuing '' @ job_value jobName))
           else Inr i))"

definition enqueue_job ::
  "'s bull \<Rightarrow> job_name \<Rightarrow> job_payload \<Rightarrow> enqueue_options option \<Rightarrow> 's logged \<Rightarrow> exn + ident \<times> 's logged" where
  "enqueue_job b jobName payload options st =
     (let q = jr_queue_name (JOB_REGISTRATIONS jobName)
      in bindE (bq_add b q jobName payload (resolveJobOptions jobName options) (fst st)) (\<lambda>(i, s').
         bindE (requireJobId i jobName) (\<lambda>jobId.
         Inr (jobId, s', snd st @ [lifecycle LE_ENQUEUED q (job_value jobName) (Some jobId)
           (Some (payload\<lparr>jp_scheduled_at := None\<rparr>)) None]))))"

definition enqueueAt ::
  "'s bull \<Rightarrow> job_name \<Rightarrow> job_payload \<Rightarrow> time \<Rightarrow> enqueue_options option \<Rightarrow> time \<Rightarrow> 's logged
   \<Rightarrow> exn + ident \<times> 's logged" where
  "enqueueAt b jobName payload runAt options now st =
     (let q = jr_queue_name (JOB_REGISTRATIONS jobName);
          delayMilliseconds = max (runAt - now) 0;
          payloadWithSchedule = payload\<lparr>jp_scheduled_at := Some runAt\<rparr>
      in bindE (bq_add b q jobName payloadWithSchedule
                  ((resolveJobOptions jobName options)\<lparr>jo_delay := Some delayMilliseconds\<rparr>) (fst st)) (\<lambda>(i, s').
         bindE (requireJobId i jobName) (\<lambda>jobId.
         Inr (jobId, s', snd st @ [lifecycle LE_ENQUEUED q (job_value jobName) (Some jobId)
           (Some payloadWithSchedule) None]))))"

definition CANCELLABLE_JOB_STATES :: "job_state set" where
  "CANCELLABLE_JOB_STATES = {Waiting, Delayed, Prioritized, WaitingChildren}"

text \<open>\<open>between\<close> is what workers did to the store after the state was read.\<close>

definition cancelPending ::
  "'s bull \<Rightarrow> ('s \<Rightarrow> 's) \<Rightarrow> job_name \<Rightarrow> ident \<Rightarrow> 's logged \<Rightarrow> bool \<times> 's logged" where
  "cancelPending b between jobName jobId st =
     (let q = jr_queue_name (JOB_REGISTRATIONS jobName)
      in (case bq_state b q jobId (fst st) of
            None \<Rightarrow> (False, st)
          | Some state \<Rightarrow>
              (if state \<notin> CANCELLABLE_JOB_STATES then (False, st)
               else (case bq_remove b q jobId (between (fst st)) of
                       Inl _ \<Rightarrow> (False, between (fst st), snd st)
                     | Inr s' \<Rightarrow> (True, s', snd st @
                         [lifecycle LE_CANCELLED q (job_value jobName) (Some jobId) None None])))))"

record reschedule_result =
  rr_job_id :: ident
  rr_is_previous_job_removed :: bool

definition superseded_reason :: "bool \<Rightarrow> ident \<Rightarrow> string" where
  "superseded_reason removed previousJobId =
     (if removed then ''superseded '' @ previousJobId
      else ''could not remove '' @ previousJobId @
        '' - it is active, already ran, or is gone; the handler must detect the stale schedule'')"

definition reschedule ::
  "'s bull \<Rightarrow> ('s \<Rightarrow> 's) \<Rightarrow> ('s \<Rightarrow> 's) \<Rightarrow> job_name \<Rightarrow> job_payload \<Rightarrow> time \<Rightarrow> ident \<Rightarrow> enqueue_options \<Rightarrow> time
   \<Rightarrow> 's logged \<Rightarrow> exn + reschedule_result \<times> 's logged" where
  "reschedule b before_cancel between jobName payload runAt previousJobId options now st =
     (if (case eo_job_id options of None \<Rightarrow> False | Some i \<Rightarrow> i \<noteq> []) \<and> eo_job_id options = Some previousJobId
      then Inl (JsError (''Cannot reschedule '' @ job_value jobName))
      else bindE (enqueueAt b jobName payload runAt (Some options) now st) (\<lambda>(jobId, st1).
        (case cancelPending b between jobName previousJobId (before_cancel (fst st1), snd st1) of
           (removed, st2) \<Rightarrow>
             Inr (\<lparr>rr_job_id = jobId, rr_is_previous_job_removed = removed\<rparr>, fst st2,
               snd st2 @ [lifecycle LE_RESCHEDULED (jr_queue_name (JOB_REGISTRATIONS jobName)) (job_value jobName)
                 (Some jobId) (Some (payload\<lparr>jp_scheduled_at := Some runAt\<rparr>))
                 (Some (superseded_reason removed previousJobId))]))))"

section \<open>Inspection and recovery\<close>

definition findJob :: "'s bull \<Rightarrow> queue_name \<Rightarrow> ident \<Rightarrow> 's \<Rightarrow> inspected_job option" where
  "findJob b q jobId s = bq_job b q jobId s"

definition retryFailedJob ::
  "'s bull \<Rightarrow> ('s \<Rightarrow> 's) \<Rightarrow> queue_name \<Rightarrow> ident \<Rightarrow> 's \<Rightarrow> exn + (bool \<times> job_state option) \<times> 's" where
  "retryFailedJob b between q jobId s =
     (case bq_state b q jobId s of
        None \<Rightarrow> Inr ((False, None), s)
      | Some state \<Rightarrow>
          (if state \<noteq> Failed then Inr ((False, Some state), s)
           else bindE (bq_retry b q jobId (between s)) (\<lambda>s'. Inr ((True, Some state), s'))))"

definition cancelJob ::
  "'s bull \<Rightarrow> ('s \<Rightarrow> 's) \<Rightarrow> queue_name \<Rightarrow> ident \<Rightarrow> 's \<Rightarrow> exn + (bool \<times> job_state option) \<times> 's" where
  "cancelJob b between q jobId s =
     (case bq_state b q jobId s of
        None \<Rightarrow> Inr ((False, None), s)
      | Some state \<Rightarrow>
          (if state = Active then Inr ((False, Some state), s)
           else bindE (bq_remove b q jobId (between s)) (\<lambda>s'. Inr ((True, Some state), s'))))"

section \<open>The operator's view\<close>

fun job_state_value :: "job_state \<Rightarrow> string" where
  "job_state_value Waiting = ''waiting''"
| "job_state_value Delayed = ''delayed''"
| "job_state_value Prioritized = ''prioritized''"
| "job_state_value WaitingChildren = ''waiting-children''"
| "job_state_value Active = ''active''"
| "job_state_value Completed = ''completed''"
| "job_state_value Failed = ''failed''"
| "job_state_value Unknown = ''unknown''"

text \<open>The response: the job, with its payload left out unless the caller may read payloads.\<close>

record queue_job_response =
  qj_job :: inspected_job
  qj_payload :: "json option"

definition admin_find ::
  "casl \<Rightarrow> 's bull \<Rightarrow> queue_name \<Rightarrow> ident \<Rightarrow> ability \<Rightarrow> 's \<Rightarrow> exn + queue_job_response" where
  "admin_find c b q jobId ab s =
     (case findJob b q jobId s of
        None \<Rightarrow> Inl (resourceNotFound ''Queue job'' None)
      | Some job \<Rightarrow>
          Inr \<lparr>qj_job = job\<lparr>ij_payload := JNull\<rparr>,
               qj_payload = (if can_type c ab A_readPayload S_QueueJob then Some (ij_payload job) else None)\<rparr>)"

definition admin_retry ::
  "'s bull \<Rightarrow> ('s \<Rightarrow> 's) \<Rightarrow> queue_name \<Rightarrow> ident \<Rightarrow> ident \<Rightarrow> 's \<times> world \<Rightarrow> exn + 's \<times> world" where
  "admin_retry b between q jobId actorId st =
     bindE (retryFailedJob b between q jobId (fst st)) (\<lambda>((isRetried, state), s').
     (case state of
        None \<Rightarrow> Inl (resourceNotFound ''Queue job'' None)
      | Some x \<Rightarrow>
          (if \<not> isRetried
           then Inl (resourceConflict (''Only a failed job can be retried; this one is '' @ job_state_value x))
           else Inr (s', audit_record (audit ''queue_job.retried'' (Some actorId) None
                  (JObj [(''queue'', JStr (queue_value q)), (''jobId'', JStr jobId)])) (snd st)))))"

definition admin_cancel ::
  "'s bull \<Rightarrow> ('s \<Rightarrow> 's) \<Rightarrow> queue_name \<Rightarrow> ident \<Rightarrow> ident \<Rightarrow> 's \<times> world \<Rightarrow> exn + 's \<times> world" where
  "admin_cancel b between q jobId actorId st =
     bindE (cancelJob b between q jobId (fst st)) (\<lambda>((isCancelled, state), s').
     (case state of
        None \<Rightarrow> Inl (resourceNotFound ''Queue job'' None)
      | Some x \<Rightarrow>
          (if \<not> isCancelled
           then Inl (resourceConflict ''That job is currently running and cannot be cancelled'')
           else Inr (s', audit_record (audit ''queue_job.cancelled'' (Some actorId) None
                  (JObj [(''queue'', JStr (queue_value q)), (''jobId'', JStr jobId),
                         (''state'', JStr (job_state_value x))])) (snd st)))))"

section \<open>Recurring schedules\<close>

text \<open>The lifecycle lines of an upsert and a removal are left out: they carry no state.\<close>

definition versioned_payload :: "job_name \<Rightarrow> job_payload" where
  "versioned_payload j =
     \<lparr>jp_payload_version = jr_payload_version (JOB_REGISTRATIONS j), jp_correlation_id = None,
      jp_scheduled_at = None, jp_schedule_version = None, jp_data = JNull\<rparr>"

definition upsertRecurringSchedule :: "'s bull \<Rightarrow> recurring_schedule \<Rightarrow> 's \<Rightarrow> 's" where
  "upsertRecurringSchedule b r s =
     bq_upsert_scheduler b (jr_queue_name (JOB_REGISTRATIONS (rs_job_name r))) r
       (versioned_payload (rs_job_name r)) (resolveJobOptions (rs_job_name r) None) s"

fun remove_undeclared :: "'s bull \<Rightarrow> queue_name \<Rightarrow> string list \<Rightarrow> 's \<Rightarrow> 's" where
  "remove_undeclared b q [] s = s"
| "remove_undeclared b q (i # ids) s =
     remove_undeclared b q ids
       (if i \<in> set REGISTERED_SCHEDULER_IDS then s else bq_remove_scheduler b q i s)"

fun removeUndeclaredSchedules :: "'s bull \<Rightarrow> queue_name list \<Rightarrow> 's \<Rightarrow> 's" where
  "removeUndeclaredSchedules b [] s = s"
| "removeUndeclaredSchedules b (q # qs) s =
     removeUndeclaredSchedules b qs (remove_undeclared b q (bq_schedulers b q s) s)"

definition installDeclaredSchedules :: "'s bull \<Rightarrow> 's \<Rightarrow> 's" where
  "installDeclaredSchedules b s =
     removeUndeclaredSchedules b REGISTERED_QUEUE_NAMES
       (fold (upsertRecurringSchedule b) RECURRING_SCHEDULES s)"

text \<open>Only the process that consumes jobs reconciles.\<close>

definition install_on_bootstrap :: "'s bull \<Rightarrow> bool \<Rightarrow> 's \<Rightarrow> 's" where
  "install_on_bootstrap b isWorkerEnabled s = (if isWorkerEnabled then installDeclaredSchedules b s else s)"

end
