(* ===== verification/Queue_Processor.thy ===== *)
theory Queue_Processor
  imports Queue_Producer
begin

text \<open>
  Running a job: \<open>src/src/common/queue/queue-processor.base.ts\<close>, the handler registry and its boot check
  (\<open>queue-job-handler.registry.ts\<close>), \<open>src/src/common/util/error-message.util.ts\<close>, and the one handler the
  infrastructure ships with, the heartbeat, with the liveness it is the evidence for
  (\<open>src/src/common/queue/heartbeat\<close>).  A handler is a value: its payload validation (class-validator over the
  handler's DTO) and its effect on a state \<open>'w\<close> are its fields.
\<close>

section \<open>Error messages\<close>

text \<open>A thrown value and its causes are nodes of a graph, which can be cyclic.  \<open>en_text\<close> is the \<open>message\<close> of an
  \<open>Error\<close> and \<open>String(value)\<close> of anything else.\<close>

record error_node =
  en_is_error :: bool
  en_code :: "string option"
  en_text :: string
  en_cause :: "nat option"

type_synonym error_graph = "nat \<Rightarrow> error_node"

definition MAX_CAUSE_DEPTH :: nat where
  "MAX_CAUSE_DEPTH = 4"

definition describeCause :: "error_node \<Rightarrow> string" where
  "describeCause cause =
     (if \<not> en_is_error cause then en_text cause
      else (case en_code cause of Some code \<Rightarrow> code @ '': '' @ en_text cause | None \<Rightarrow> en_text cause))"

definition next_cause :: "error_graph \<Rightarrow> nat \<Rightarrow> nat option" where
  "next_cause g e = (if en_is_error (g e) then en_cause (g e) else None)"

function collect_causes :: "error_graph \<Rightarrow> nat set \<Rightarrow> string list \<Rightarrow> nat option \<Rightarrow> string list" where
  "collect_causes g visited descriptions currentCause =
     (case currentCause of
        None \<Rightarrow> descriptions
      | Some c \<Rightarrow>
          (if length descriptions < MAX_CAUSE_DEPTH
           then (if c \<in> visited then descriptions
                 else collect_causes g (insert c visited) (descriptions @ [describeCause (g c)]) (next_cause g c))
           else descriptions))"
  by pat_completeness auto

termination
  by (relation "measure (\<lambda>(g, visited, descriptions, currentCause). MAX_CAUSE_DEPTH - length descriptions)") auto

declare collect_causes.simps [simp del]

definition collectCauseChain :: "error_graph \<Rightarrow> nat \<Rightarrow> string list" where
  "collectCauseChain g e = collect_causes g {} [] (next_cause g e)"

definition formatErrorMessage :: "error_graph \<Rightarrow> nat \<Rightarrow> string" where
  "formatErrorMessage g e =
     (let causeChain = collectCauseChain g e
      in if causeChain = [] then en_text (g e)
         else en_text (g e) @ '' (cause: '' @ join_with '' <- '' causeChain @ '')'')"

section \<open>Handlers and outcomes\<close>

datatype outcome_status = OUTCOME_COMPLETED | OUTCOME_SKIPPED

record job_outcome =
  oc_status :: outcome_status
  oc_reason :: "string option"

definition completedJob :: "string option \<Rightarrow> job_outcome" where
  "completedJob reason =
     \<lparr>oc_status = OUTCOME_COMPLETED, oc_reason = (case reason of Some r \<Rightarrow> if r = [] then None else Some r | None \<Rightarrow> None)\<rparr>"

definition skippedJob :: "string \<Rightarrow> job_outcome" where
  "skippedJob reason = \<lparr>oc_status = OUTCOME_SKIPPED, oc_reason = Some reason\<rparr>"

datatype job_failure =
    PermanentJobFailureError string
  | OtherFailure error_graph nat

fun failure_message :: "job_failure \<Rightarrow> string" where
  "failure_message (PermanentJobFailureError reason) = reason"
| "failure_message (OtherFailure g e) = formatErrorMessage g e"

fun permanent :: "job_failure \<Rightarrow> bool" where
  "permanent (PermanentJobFailureError _) = True"
| "permanent (OtherFailure _ _) = False"

text \<open>\<open>hd_identity\<close> is the object identity; \<open>hd_validate\<close> returns the offending properties and the typed payload;
  the first argument of \<open>hd_handle\<close> is the request id of the CLS scope it runs in.\<close>

record 'w handler =
  hd_identity :: nat
  hd_job_name :: job_name
  hd_validate :: "json \<Rightarrow> string list \<times> job_payload"
  hd_handle :: "string \<Rightarrow> job_payload \<Rightarrow> 'w \<Rightarrow> (job_failure + job_outcome) \<times> 'w"

section \<open>The handler registry\<close>

datatype 'w provider =
    HandlerProvider "'w handler"
  | ProcessorProvider queue_name
  | OtherProvider

fun collect_handlers ::
  "'w provider list \<Rightarrow> (job_name \<rightharpoonup> 'w handler) \<Rightarrow> exn + (job_name \<rightharpoonup> 'w handler)" where
  "collect_handlers [] m = Inr m"
| "collect_handlers (HandlerProvider h # ps) m =
     (case m (hd_job_name h) of
        None \<Rightarrow> collect_handlers ps (m(hd_job_name h \<mapsto> h))
      | Some existing \<Rightarrow>
          (if hd_identity existing \<noteq> hd_identity h
           then Inl (JsError (''Two queue job handlers claim '' @ job_value (hd_job_name h)))
           else collect_handlers ps (m(hd_job_name h \<mapsto> h))))"
| "collect_handlers (ProcessorProvider _ # ps) m = collect_handlers ps m"
| "collect_handlers (OtherProvider # ps) m = collect_handlers ps m"

definition consumed_queues :: "'w provider list \<Rightarrow> queue_name list" where
  "consumed_queues ps = List.map_filter (\<lambda>p. case p of ProcessorProvider q \<Rightarrow> Some q | _ \<Rightarrow> None) ps"

definition verifyEveryQueueHasAProcessor :: "'w provider list \<Rightarrow> exn + unit" where
  "verifyEveryQueueHasAProcessor ps =
     (let queueNamesWithoutProcessor = filter (\<lambda>q. q \<notin> set (consumed_queues ps)) REGISTERED_QUEUE_NAMES
      in if queueNamesWithoutProcessor \<noteq> []
         then Inl (JsError (''Registered queues have no processor: '' @
                join_with '', '' (map queue_value queueNamesWithoutProcessor)))
         else Inr ())"

definition registry_bootstrap :: "'w provider list \<Rightarrow> exn + (job_name \<rightharpoonup> 'w handler)" where
  "registry_bootstrap ps =
     bindE (collect_handlers ps Map.empty) (\<lambda>m.
     (let jobNamesWithoutHandler = filter (\<lambda>j. m j = None) REGISTERED_JOB_NAMES
      in if jobNamesWithoutHandler \<noteq> []
         then Inl (JsError (''Registered queue jobs have no handler: '' @
                join_with '', '' (map job_value jobNamesWithoutHandler)))
         else bindE (verifyEveryQueueHasAProcessor ps) (\<lambda>_. Inr m)))"

section \<open>The processor\<close>

record bull_job =
  bj_id :: "ident option"
  bj_name :: string
  bj_data :: json
  bj_attempts_made :: nat
  bj_attempts :: "nat option"

definition resolveJob ::
  "queue_name \<Rightarrow> (job_name \<rightharpoonup> 'w handler) \<Rightarrow> bull_job \<Rightarrow> job_failure + 'w handler \<times> job_payload" where
  "resolveJob q registry job =
     (case registered_job (bj_name job) of
        None \<Rightarrow> Inl (PermanentJobFailureError (''Unknown job name '' @ bj_name job))
      | Some jobName \<Rightarrow>
          (if jr_queue_name (JOB_REGISTRATIONS jobName) \<noteq> q
           then Inl (PermanentJobFailureError (''Job '' @ job_value jobName @ '' belongs to queue '' @
                  queue_value (jr_queue_name (JOB_REGISTRATIONS jobName)) @ '' but arrived on '' @ queue_value q))
           else (case registry jobName of
               None \<Rightarrow> Inl (PermanentJobFailureError (''No handler registered for job '' @ job_value jobName))
             | Some handler \<Rightarrow>
                 (case hd_validate handler (bj_data job) of (offending, payload) \<Rightarrow>
                   (if offending \<noteq> []
                    then Inl (PermanentJobFailureError (''Invalid payload for job '' @ job_value jobName @
                           '', offending properties: '' @ join_with '', '' offending))
                    else if jp_payload_version payload \<noteq> jr_payload_version (JOB_REGISTRATIONS jobName)
                    then Inl (PermanentJobFailureError (''Unsupported payload version '' @
                           decimal (jp_payload_version payload) @ '' for job '' @ job_value jobName))
                    else Inr (handler, payload))))))"

definition outcome_event :: "job_outcome \<Rightarrow> lifecycle_event" where
  "outcome_event o' = (if oc_status o' = OUTCOME_SKIPPED then LE_SKIPPED else LE_COMPLETED)"

text \<open>\<open>startedAt\<close> and \<open>endedAt\<close> are the clock at the two ends of the run.  The exception that \<open>process\<close> rethrows is the
  left value.\<close>

definition process ::
  "queue_name \<Rightarrow> (job_name \<rightharpoonup> 'w handler) \<Rightarrow> bull_job \<Rightarrow> time \<Rightarrow> time \<Rightarrow> 'w \<times> lifecycle_record list
   \<Rightarrow> (job_failure + job_outcome) \<times> 'w \<times> lifecycle_record list" where
  "process q registry job startedAt endedAt st =
     (let attempt = bj_attempts_made job + 1;
          maxAttempts = (case bj_attempts job of Some n \<Rightarrow> n | None \<Rightarrow> 1);
          jobId = (case bj_id job of Some i \<Rightarrow> i | None \<Rightarrow> ''unknown'');
          failed = (\<lambda>error. (lifecycle
                       (if \<not> permanent error \<and> attempt < maxAttempts then LE_RETRIED else LE_FAILED)
                       q (bj_name job) (Some jobId) None (Some (failure_message error)))
                     \<lparr>lr_attempt := Some attempt, lr_max_attempts := Some maxAttempts,
                      lr_duration_ms := Some (endedAt - startedAt)\<rparr>)
      in (case resolveJob q registry job of
            Inl error \<Rightarrow> (Inl error, fst st, snd st @ [failed error])
          | Inr (handler, payload) \<Rightarrow>
              (let started = (lifecycle LE_STARTED q (bj_name job) (Some jobId) (Some payload) None)
                     \<lparr>lr_attempt := Some attempt, lr_max_attempts := Some maxAttempts\<rparr>;
                   requestId = (case jp_correlation_id payload of Some c \<Rightarrow> c | None \<Rightarrow> ''job.'' @ jobId)
               in (case hd_handle handler requestId payload (fst st) of
                     (Inl error, w') \<Rightarrow> (Inl error, w', snd st @ [started, failed error])
                   | (Inr outcome, w') \<Rightarrow>
                       (Inr outcome, w', snd st @ [started,
                          (lifecycle (outcome_event outcome) q (bj_name job) (Some jobId) (Some payload)
                             (oc_reason outcome))
                          \<lparr>lr_attempt := Some attempt, lr_max_attempts := Some maxAttempts,
                           lr_duration_ms := Some (endedAt - startedAt)\<rparr>])))))"

section \<open>The heartbeat\<close>

definition QUEUE_HEARTBEAT_KEY_TTL_SECONDS :: int where
  "QUEUE_HEARTBEAT_KEY_TTL_SECONDS = 60 * 60"

definition QUEUE_HEARTBEAT_STALE_AFTER_MILLISECONDS :: int where
  "QUEUE_HEARTBEAT_STALE_AFTER_MILLISECONDS = QUEUE_HEARTBEAT_INTERVAL_MILLISECONDS * 3"

definition buildQueueHeartbeatRedisKey :: "string \<Rightarrow> string" where
  "buildQueueHeartbeatRedisKey serviceName = serviceName @ '':queue:heartbeat''"

text \<open>The ECMAScript dates: \<open>toISOString\<close> prints what \<open>new Date\<close> reads back, and never an empty string.\<close>

record iso_dates =
  to_iso :: "time \<Rightarrow> string"
  parse_iso :: "string \<Rightarrow> time option"

definition iso_laws :: "iso_dates \<Rightarrow> bool" where
  "iso_laws d \<longleftrightarrow> (\<forall>t. parse_iso d (to_iso d t) = Some t \<and> to_iso d t \<noteq> [])"

text \<open>\<open>refused\<close> is what the Redis client rejects with when the server does not answer.\<close>

definition heartbeat_handle ::
  "iso_dates \<Rightarrow> string \<Rightarrow> job_failure \<Rightarrow> time \<Rightarrow> job_payload \<Rightarrow> world \<Rightarrow> (job_failure + job_outcome) \<times> world" where
  "heartbeat_handle d serviceName refused now payload w =
     (let latenessMilliseconds = (case jp_scheduled_at payload of None \<Rightarrow> 0 | Some scheduledAt \<Rightarrow> now - scheduledAt)
      in if latenessMilliseconds > QUEUE_HEARTBEAT_INTERVAL_MILLISECONDS
         then (Inr (skippedJob (''superseded - scheduled '' @ decimal (nat latenessMilliseconds) @
                 ''ms ago, longer than one heartbeat interval'')), w)
         else if \<not> redis_up w then (Inl refused, w)
         else (Inr (completedJob None),
                redis_set_ex (buildQueueHeartbeatRedisKey serviceName) (to_iso d now)
                  QUEUE_HEARTBEAT_KEY_TTL_SECONDS now w))"

record queue_worker_heartbeat =
  hb_observed_at :: "time option"
  hb_is_fresh :: bool
  hb_stale_after_ms :: int

definition readHeartbeat :: "iso_dates \<Rightarrow> string \<Rightarrow> time \<Rightarrow> world \<Rightarrow> unit + queue_worker_heartbeat" where
  "readHeartbeat d serviceName now w =
     bindE (redis_get w now (buildQueueHeartbeatRedisKey serviceName)) (\<lambda>rawHeartbeat.
     (let observedAt = (case rawHeartbeat of None \<Rightarrow> None | Some raw \<Rightarrow> if raw = [] then None else parse_iso d raw)
      in Inr \<lparr>hb_observed_at = observedAt,
              hb_is_fresh = (case observedAt of None \<Rightarrow> False
                | Some t \<Rightarrow> now - t \<le> QUEUE_HEARTBEAT_STALE_AFTER_MILLISECONDS),
              hb_stale_after_ms = QUEUE_HEARTBEAT_STALE_AFTER_MILLISECONDS\<rparr>))"

text \<open>The heartbeat as the provider the registry finds, with the validation of its DTO as a parameter.\<close>

definition queue_heartbeat_handler ::
  "iso_dates \<Rightarrow> string \<Rightarrow> job_failure \<Rightarrow> time \<Rightarrow> (json \<Rightarrow> string list \<times> job_payload) \<Rightarrow> nat \<Rightarrow> world handler" where
  "queue_heartbeat_handler d serviceName refused now validate identity =
     \<lparr>hd_identity = identity, hd_job_name = MAINTENANCE_QUEUE_HEARTBEAT_V1, hd_validate = validate,
      hd_handle = (\<lambda>_ payload w. heartbeat_handle d serviceName refused now payload w)\<rparr>"

end
