(* ===== verification/Queue_Properties.thy ===== *)
theory Queue_Properties
  imports Queue_Producer
begin

text \<open>
  What the producer side promises: ids that name one piece of work, cancellation that only takes back what has
  not started, a reschedule that cannot lose the work, and schedulers in Redis that are the declared ones.
\<close>

section \<open>Job ids\<close>

lemma of_char_digit: "n < 10 \<Longrightarrow> (of_char (char_of (n + 48 :: nat)) :: nat) = n + 48"
  by (simp add: take_bit_nat_eq_self)

lemma decimal_step: "decimal n = (if n < 10 then [] else decimal (n div 10)) @ [char_of (n mod 10 + 48)]"
  by (subst decimal.simps) simp

lemma decimal_digits: "list_all digit (decimal n)"
proof (induction n rule: decimal.induct)
  case (1 n)
  have "digit (char_of (n mod 10 + 48))" by (simp only: digit_def of_char_digit Let_def) simp
  with 1 show ?case by (subst decimal_step) simp
qed

lemma parse_decimal: "parse_decimal (decimal n) = n"
proof (induction n rule: decimal.induct)
  case (1 n)
  have v: "digit_value (char_of (n mod 10 + 48)) = n mod 10" by (simp add: digit_value_def of_char_digit del: of_char_of)
  show ?case
  proof (cases "n < 10")
    case True
    then show ?thesis using v by (subst decimal_step) (simp add: parse_decimal_def)
  next
    case False
    with 1 have "parse_decimal (decimal (n div 10)) = n div 10" by simp
    with False v show ?thesis by (subst decimal_step) (simp add: parse_decimal_def)
  qed
qed

lemma digit_separators: "digit c \<Longrightarrow> c \<noteq> CHR ''.'' \<and> c \<noteq> CHR '':''"
  by (auto simp: digit_def)

lemma kebab_separators: "kebab s \<Longrightarrow> CHR ''.'' \<notin> set s \<and> CHR '':'' \<notin> set s"
  by (auto simp: kebab_def digit_def lower_letter_def list_all_iff split: list.splits)

lemma match_job_name_kebab:
  "match_job_name s = Some (d, p, v) \<Longrightarrow> kebab d \<and> kebab p"
  by (auto simp: match_job_name_def split: list.splits if_splits)

lemma last_separator:
  "xs @ c # ys = xs' @ c # ys' \<Longrightarrow> c \<notin> set ys \<Longrightarrow> c \<notin> set ys' \<Longrightarrow> xs = xs' \<and> ys = ys'"
proof (induction xs arbitrary: xs')
  case Nil
  then show ?case by (cases xs') auto
next
  case (Cons x xs)
  then show ?case by (cases xs') auto
qed

text \<open>A job id names one piece of work: it is legal for the queue, and two calls that build the same id were
  about the same domain, operation, entity and schedule version, whatever dots the entity id has.\<close>

theorem job_id_injective:
  assumes "buildDeterministicJobId j e v = Inr i" and "buildDeterministicJobId j' e' v' = Inr i"
  shows "CHR '':'' \<notin> set i \<and> e = e' \<and> v = v' \<and>
    (\<exists>d p w w'. match_job_name j = Some (d, p, w) \<and> match_job_name j' = Some (d, p, w'))"
proof -
  obtain d p w where m: "match_job_name j = Some (d, p, w)" "CHR '':'' \<notin> set e"
    and i: "i = d @ ''.'' @ p @ ''.'' @ e @ ''.'' @ decimal v"
    using assms(1) by (auto simp: buildDeterministicJobId_def split: option.splits prod.splits if_splits)
  obtain d' p' w' where m': "match_job_name j' = Some (d', p', w')"
    and i': "i = d' @ ''.'' @ p' @ ''.'' @ e' @ ''.'' @ decimal v'"
    using assms(2) by (auto simp: buildDeterministicJobId_def split: option.splits prod.splits if_splits)
  note k = kebab_separators [of d] kebab_separators [of p] match_job_name_kebab [OF m(1)]
    and k' = kebab_separators [of d'] kebab_separators [of p'] match_job_name_kebab [OF m']
  have dec: "CHR ''.'' \<notin> set (decimal n)" "CHR '':'' \<notin> set (decimal n)" for n
    using decimal_digits [of n] digit_separators by (auto simp: list_all_iff)
  let ?rest = "e @ ''.'' @ decimal v" and ?rest' = "e' @ ''.'' @ decimal v'"
  have "split_on (CHR ''.'') i = d # p # split_on (CHR ''.'') ?rest"
    using k by (simp add: i split_on_append)
  moreover have "split_on (CHR ''.'') i = d' # p' # split_on (CHR ''.'') ?rest'"
    using k' by (simp add: i' split_on_append)
  ultimately have same: "d = d'" "p = p'" "split_on (CHR ''.'') ?rest = split_on (CHR ''.'') ?rest'" by simp_all
  then have "?rest = ?rest'" by (metis join_split)
  then have "e = e' \<and> decimal v = decimal v'" using last_separator [of e "CHR ''.''" "decimal v" e' "decimal v'"] dec(1) by simp
  moreover from this have "v = v'" by (metis parse_decimal)
  moreover have "CHR '':'' \<notin> set i" using k m(2) dec(2) by (simp add: i)
  ultimately show ?thesis using m(1) m' same by blast
qed

text \<open>The version a job's name carries is the version its workers accept, for every registered job; and every
  registered name is one ids can be built from.\<close>

theorem registered_names_carry_version:
  "readPayloadVersionFromJobName (job_value j) = Inr (jr_payload_version (JOB_REGISTRATIONS j)) \<and>
   registered_job (job_value j) = Some j"
  by (cases j; simp add: readPayloadVersionFromJobName_def match_job_name_def kebab_def lower_letter_def digit_def
      parse_decimal_def digit_value_def registration_def registered_job_def REGISTERED_JOB_NAMES_def)

text \<open>No job retries for ever: what a call site does not override is at most five attempts, and one for the
  heartbeat.\<close>

lemma default_attempts_bounded:
  assumes "Option.bind overrides eo_retry_policy = None"
  shows "1 \<le> jo_attempts (resolveJobOptions j overrides) \<and> jo_attempts (resolveJobOptions j overrides) \<le> 5"
  using assms
  by (cases j; simp add: resolveJobOptions_def registration_def exponential_def resolveQueueRetryPolicy_def
      DEFAULT_JOB_RETRY_POLICY_def Let_def)

section \<open>Cancelling\<close>

lemma bull_remove:
  assumes "bull_laws b" and "bq_remove b q i s = Inr s'"
  shows "bq_state b q i s \<noteq> Some Active" and "bq_job b q i s' = None"
    and "(q2, i2) \<noteq> (q, i) \<Longrightarrow> bq_job b q2 i2 s' = bq_job b q2 i2 s"
  using assms unfolding bull_laws_def by blast+

lemma bull_add:
  assumes "bull_laws b" and "bq_add b q n p opts s = Inr (i', s')"
  obtains i where "i' = Some i" "jo_job_id opts = None \<or> jo_job_id opts = Some i"
    "bq_state b q i s = None \<longrightarrow> bq_state b q i s' \<in> {Some Waiting, Some Delayed}"
    "\<forall>q2 i2. (q2, i2) \<noteq> (q, i) \<or> bq_state b q i s \<noteq> None \<longrightarrow> bq_job b q2 i2 s' = bq_job b q2 i2 s"
proof -
  from assms(1) have "bq_add b q n p opts s = Inr (i', s') \<longrightarrow>
      (\<exists>i. i' = Some i \<and> (jo_job_id opts = None \<or> jo_job_id opts = Some i) \<and>
        (bq_state b q i s = None \<longrightarrow> bq_state b q i s' \<in> {Some Waiting, Some Delayed}) \<and>
        (\<forall>q2 i2. (q2, i2) \<noteq> (q, i) \<or> bq_state b q i s \<noteq> None \<longrightarrow> bq_job b q2 i2 s' = bq_job b q2 i2 s))"
    unfolding bull_laws_def by (elim conjE allE) assumption
  from mp [OF this assms(2)] show thesis by (elim exE conjE) (rule that)
qed

lemma cancel_cases:
  assumes "bull_laws b" and "cancelPending b between j i (s, log) = (removed, s', log')"
  obtains (kept) "\<not> removed" "s' = s \<or> s' = between s" "log' = log"
  | (taken) state where "removed" "state \<in> CANCELLABLE_JOB_STATES"
      "bq_state b (jr_queue_name (JOB_REGISTRATIONS j)) i s = Some state"
      "bq_remove b (jr_queue_name (JOB_REGISTRATIONS j)) i (between s) = Inr s'"
proof (cases "bq_state b (jr_queue_name (JOB_REGISTRATIONS j)) i s")
  case None
  with assms(2) kept show ?thesis by (simp add: cancelPending_def Let_def)
next
  case (Some state)
  show ?thesis
  proof (cases "state \<in> CANCELLABLE_JOB_STATES")
    case False
    with Some assms(2) kept show ?thesis by (simp add: cancelPending_def Let_def)
  next
    case True
    with Some assms(2) kept taken show ?thesis
      by (cases "bq_remove b (jr_queue_name (JOB_REGISTRATIONS j)) i (between s)")
        (simp_all add: cancelPending_def Let_def)
  qed
qed

text \<open>Cancelling takes back only work that has not started.  A job that ran, failed or is running stays where it
  is and the caller is told; a job that was cancelled was pending when it was looked at, was not running when
  it was removed, and is gone; no other job is touched either way.\<close>

theorem cancel_takes_only_pending:
  assumes "bull_laws b" and "cancelPending b between j i (s, log) = (removed, s', log')"
  shows "if removed
      then (\<exists>state. state \<in> CANCELLABLE_JOB_STATES \<and> bq_state b (jr_queue_name (JOB_REGISTRATIONS j)) i s = Some state) \<and>
        bq_state b (jr_queue_name (JOB_REGISTRATIONS j)) i (between s) \<noteq> Some Active \<and>
        bq_job b (jr_queue_name (JOB_REGISTRATIONS j)) i s' = None \<and>
        (\<forall>q2 i2. (q2, i2) \<noteq> (jr_queue_name (JOB_REGISTRATIONS j), i) \<longrightarrow> bq_job b q2 i2 s' = bq_job b q2 i2 (between s))
      else (s' = s \<or> s' = between s) \<and> log' = log"
  using assms
proof (cases rule: cancel_cases)
  case kept
  then show ?thesis by simp
next
  case (taken state)
  have "\<forall>q2 i2. (q2, i2) \<noteq> (jr_queue_name (JOB_REGISTRATIONS j), i) \<longrightarrow> bq_job b q2 i2 s' = bq_job b q2 i2 (between s)"
    using bull_remove(3) [OF assms(1) taken(4)] by blast
  with taken bull_remove(1,2) [OF assms(1) taken(4)] show ?thesis by simp
qed

section \<open>Rescheduling\<close>

lemma resolve_job_id [simp]:
  "jo_job_id (resolveJobOptions j (Some o')) = (case eo_job_id o' of None \<Rightarrow> None | Some i \<Rightarrow> if i = [] then None else Some i)"
  by (simp add: resolveJobOptions_def Let_def)

lemma reschedule_steps:
  assumes "reschedule b before_cancel between j p runAt previous options now st = Inr (res, s', log')"
  obtains jobId s1 log1 removed s2 log2 where
    "\<not> ((case eo_job_id options of None \<Rightarrow> False | Some i \<Rightarrow> i \<noteq> []) \<and> eo_job_id options = Some previous)"
    "enqueueAt b j p runAt (Some options) now st = Inr (jobId, s1, log1)"
    "cancelPending b between j previous (before_cancel s1, log1) = (removed, s2, log2)"
    "rr_job_id res = jobId" "rr_is_previous_job_removed res = removed" "s' = s2"
proof -
  let ?same = "(case eo_job_id options of None \<Rightarrow> False | Some i \<Rightarrow> i \<noteq> []) \<and> eo_job_id options = Some previous"
  note r = assms [unfolded reschedule_def]
  have d: "\<not> ?same"
  proof
    assume ?same
    from r [unfolded if_P [OF this]] show False by simp
  qed
  from r [unfolded if_not_P [OF d] bindE_Inr_iff] obtain x where e: "enqueueAt b j p runAt (Some options) now st = Inr x"
    and rest: "(case x of (jobId, st1) \<Rightarrow>
        (case cancelPending b between j previous (before_cancel (fst st1), snd st1) of
           (removed, st2) \<Rightarrow>
             Inr (\<lparr>rr_job_id = jobId, rr_is_previous_job_removed = removed\<rparr>, fst st2,
               snd st2 @ [lifecycle LE_RESCHEDULED (jr_queue_name (JOB_REGISTRATIONS j)) (job_value j)
                 (Some jobId) (Some (p\<lparr>jp_scheduled_at := Some runAt\<rparr>))
                 (Some (superseded_reason removed previous))]))) = (Inr (res, s', log') :: exn + _)"
    by (elim exE conjE)
  obtain jobId s1 log1 where x: "x = (jobId, s1, log1)" by (rule prod_cases3)
  obtain removed s2 log2 where c: "cancelPending b between j previous (before_cancel s1, log1) = (removed, s2, log2)"
    by (rule prod_cases3)
  from rest have "res = \<lparr>rr_job_id = jobId, rr_is_previous_job_removed = removed\<rparr>" "s' = s2"
    by (simp_all add: x c)
  with that [OF d _ c] e x show thesis by simp
qed

text \<open>A reschedule cannot lose the work.  When it fails nothing has changed; when it returns, the replacement was on
  the queue before anything was removed, under an id of its own, and the only job taken off is the one it
  supersedes, and only if that was not running.\<close>

theorem reschedule_never_loses_work:
  assumes "bull_laws b" and "reschedule b before_cancel between j p runAt previous options now (s, log) = Inr (res, s', log')"
  shows "\<exists>s1. bq_state b (jr_queue_name (JOB_REGISTRATIONS j)) (rr_job_id res) s1 \<noteq> None \<and>
    (\<forall>q i. bq_state b q i s \<noteq> None \<longrightarrow> bq_job b q i s1 = bq_job b q i s) \<and>
    (case eo_job_id options of None \<Rightarrow> True | Some k \<Rightarrow> k = [] \<or> rr_job_id res = k \<and> k \<noteq> previous) \<and>
    (s' = before_cancel s1 \<or> s' = between (before_cancel s1) \<or>
      rr_is_previous_job_removed res \<and>
      bq_remove b (jr_queue_name (JOB_REGISTRATIONS j)) previous (between (before_cancel s1)) = Inr s' \<and>
      bq_state b (jr_queue_name (JOB_REGISTRATIONS j)) previous (between (before_cancel s1)) \<noteq> Some Active)"
proof -
  let ?q = "jr_queue_name (JOB_REGISTRATIONS j)"
  obtain jobId s1 log1 removed s2 log2 where
    distinct_ids: "\<not> ((case eo_job_id options of None \<Rightarrow> False | Some i \<Rightarrow> i \<noteq> []) \<and> eo_job_id options = Some previous)"
    and added: "enqueueAt b j p runAt (Some options) now (s, log) = Inr (jobId, s1, log1)"
    and cancelled: "cancelPending b between j previous (before_cancel s1, log1) = (removed, s2, log2)"
    and res: "rr_job_id res = jobId" "rr_is_previous_job_removed res = removed" "s' = s2"
    using assms(2) by (rule reschedule_steps)
  obtain i' where add: "bq_add b ?q j (p\<lparr>jp_scheduled_at := Some runAt\<rparr>)
      ((resolveJobOptions j (Some options))\<lparr>jo_delay := Some (max (runAt - now) 0)\<rparr>) s = Inr (i', s1)"
    and i': "i' = Some jobId"
    using added by (auto simp: enqueueAt_def requireJobId_def bindE_Inr_iff Let_def split: option.splits if_splits)
  obtain i where i: "i' = Some i"
    and given: "jo_job_id (resolveJobOptions j (Some options)\<lparr>jo_delay := Some (max (runAt - now) 0)\<rparr>) = None \<or>
      jo_job_id (resolveJobOptions j (Some options)\<lparr>jo_delay := Some (max (runAt - now) 0)\<rparr>) = Some i"
    and new: "bq_state b ?q i s = None \<longrightarrow> bq_state b ?q i s1 \<in> {Some Waiting, Some Delayed}"
    and old: "\<forall>q2 i2. (q2, i2) \<noteq> (?q, i) \<or> bq_state b ?q i s \<noteq> None \<longrightarrow> bq_job b q2 i2 s1 = bq_job b q2 i2 s"
    by (rule bull_add [OF assms(1) add])
  have same: "i = jobId" using i i' by simp
  have kept: "bq_job b q2 i2 s1 = bq_job b q2 i2 s" if "bq_state b q2 i2 s \<noteq> None" for q2 i2
    using that by (intro mp [OF spec [OF spec [OF old]]]) (cases "(q2, i2) = (?q, i)"; simp)
  have there: "bq_state b ?q jobId s1 \<noteq> None"
  proof (cases "bq_state b ?q i s")
    case None
    then show ?thesis using new same by auto
  next
    case (Some x)
    then show ?thesis using kept [of ?q i] same by (auto simp: bq_state_def)
  qed
  have off: "s2 = before_cancel s1 \<or> s2 = between (before_cancel s1) \<or>
      removed \<and> bq_remove b ?q previous (between (before_cancel s1)) = Inr s2 \<and>
      bq_state b ?q previous (between (before_cancel s1)) \<noteq> Some Active"
    using assms(1) cancelled
  proof (cases rule: cancel_cases)
    case (taken state)
    then show ?thesis using bull_remove(1) [OF assms(1) taken(4)] by simp
  qed simp
  have own: "(case eo_job_id options of None \<Rightarrow> True | Some k \<Rightarrow> k = [] \<or> jobId = k \<and> k \<noteq> previous)"
    using distinct_ids given same by (auto split: option.splits)
  show ?thesis
    unfolding res
    by (rule exI [of _ s1], rule conjI [OF there conjI [OF _ conjI [OF own off]]], intro allI impI, erule kept)
qed

section \<open>Recurring schedules\<close>

lemma bull_schedulers:
  assumes "bull_laws b"
  shows "set (bq_schedulers b q2 (bq_upsert_scheduler b q r p opts s)) =
      (if q2 = q then insert (rs_scheduler_id r) (set (bq_schedulers b q s)) else set (bq_schedulers b q2 s))"
    and "set (bq_schedulers b q2 (bq_remove_scheduler b q i s)) =
      (if q2 = q then set (bq_schedulers b q s) - {i} else set (bq_schedulers b q2 s))"
proof -
  note laws = assms [unfolded bull_laws_def, THEN conjunct2, THEN conjunct2]
  show "set (bq_schedulers b q2 (bq_upsert_scheduler b q r p opts s)) =
      (if q2 = q then insert (rs_scheduler_id r) (set (bq_schedulers b q s)) else set (bq_schedulers b q2 s))"
    by (rule laws [THEN conjunct1, rule_format])
  show "set (bq_schedulers b q2 (bq_remove_scheduler b q i s)) =
      (if q2 = q then set (bq_schedulers b q s) - {i} else set (bq_schedulers b q2 s))"
    by (rule laws [THEN conjunct2, rule_format])
qed

lemma upsert_all:
  assumes "bull_laws b"
  shows "set (bq_schedulers b q (fold (upsertRecurringSchedule b) rs s)) =
    set (bq_schedulers b q s) \<union> rs_scheduler_id ` {r \<in> set rs. jr_queue_name (JOB_REGISTRATIONS (rs_job_name r)) = q}"
proof (induction rs arbitrary: s)
  case (Cons r rs)
  have "{x \<in> set (r # rs). P x} = (if P r then insert r {x \<in> set rs. P x} else {x \<in> set rs. P x})" for P
    by auto
  with Cons show ?case by (simp add: upsertRecurringSchedule_def bull_schedulers(1) [OF assms])
qed simp

lemma remove_undeclared_set:
  assumes "bull_laws b"
  shows "set (bq_schedulers b q2 (remove_undeclared b q ids s)) =
    (if q2 = q then set (bq_schedulers b q s) - (set ids - set REGISTERED_SCHEDULER_IDS) else set (bq_schedulers b q2 s))"
proof (induction ids arbitrary: s)
  case (Cons i ids)
  then show ?case by (auto simp: bull_schedulers(2) [OF assms])
qed simp

lemma remove_undeclared_all:
  assumes "bull_laws b"
  shows "set (bq_schedulers b q (removeUndeclaredSchedules b qs s)) =
    (if q \<in> set qs then set (bq_schedulers b q s) \<inter> set REGISTERED_SCHEDULER_IDS else set (bq_schedulers b q s))"
proof (induction qs arbitrary: s)
  case (Cons p qs)
  then show ?case by (auto simp: remove_undeclared_set [OF assms])
qed simp

lemma declared_queues:
  "jr_queue_name (JOB_REGISTRATIONS (rs_job_name r)) = MAINTENANCE" if "r \<in> set RECURRING_SCHEDULES"
  using that by (auto simp: RECURRING_SCHEDULES_def registration_def)

lemma schedules_on:
  "rs_scheduler_id ` {r \<in> set RECURRING_SCHEDULES. jr_queue_name (JOB_REGISTRATIONS (rs_job_name r)) = q} =
   (if q = MAINTENANCE then set REGISTERED_SCHEDULER_IDS else {})"
  using declared_queues by (auto simp: REGISTERED_SCHEDULER_IDS_def)

text \<open>After a worker has reconciled, what repeats is what the release declares, whatever an earlier release left
  behind: the maintenance queue has exactly the declared schedulers, and no queue has an undeclared one.  A
  scheduler under a declared id on another queue is kept.\<close>

theorem reconcile_installs_exactly_declared:
  assumes "bull_laws b"
  shows "set (bq_schedulers b MAINTENANCE (installDeclaredSchedules b s)) = set REGISTERED_SCHEDULER_IDS \<and>
    set (bq_schedulers b NOTIFICATIONS (installDeclaredSchedules b s)) =
      set (bq_schedulers b NOTIFICATIONS s) \<inter> set REGISTERED_SCHEDULER_IDS"
proof -
  have "set (bq_schedulers b q (installDeclaredSchedules b s)) =
      (set (bq_schedulers b q s) \<union> (if q = MAINTENANCE then set REGISTERED_SCHEDULER_IDS else {}))
        \<inter> set REGISTERED_SCHEDULER_IDS" for q
  proof -
    have "q \<in> set REGISTERED_QUEUE_NAMES" by (cases q) (simp_all add: REGISTERED_QUEUE_NAMES_def)
    then show ?thesis
      by (simp add: installDeclaredSchedules_def remove_undeclared_all [OF assms] upsert_all [OF assms] schedules_on)
  qed
  then show ?thesis by auto
qed

section \<open>The operator's actions\<close>

text \<open>What \<open>cancelJob\<close> is documented to do is to remove a job that has not started; it refuses only a running one,
  so a job that has already run is reported as cancelled and its record is destroyed.\<close>

lemma operator_cancels_finished_job:
  assumes "bq_state b q i s = Some Completed" and "bq_remove b q i s = Inr s'"
  shows "cancelJob b id q i s = Inr ((True, Some Completed), s')"
  using assms by (simp add: cancelJob_def)

text \<open>An operator's action succeeds in exactly one case and is then recorded, without the payload: a retry when the
  job had failed, a cancellation when it was there and was not running.\<close>

theorem operator_actions_are_audited:
  "(admin_retry b between q jobId actorId (s, w) = Inr (s', w') \<longleftrightarrow>
     bq_state b q jobId s = Some Failed \<and> bq_retry b q jobId (between s) = Inr s' \<and>
     w' = audit_record (audit ''queue_job.retried'' (Some actorId) None
       (JObj [(''queue'', JStr (queue_value q)), (''jobId'', JStr jobId)])) w) \<and>
   (admin_cancel b between q jobId actorId (s, w) = Inr (s', w') \<longleftrightarrow>
     (\<exists>x. bq_state b q jobId s = Some x \<and> x \<noteq> Active \<and> bq_remove b q jobId (between s) = Inr s' \<and>
       w' = audit_record (audit ''queue_job.cancelled'' (Some actorId) None
         (JObj [(''queue'', JStr (queue_value q)), (''jobId'', JStr jobId), (''state'', JStr (job_state_value x))])) w))"
proof (cases "bq_state b q jobId s")
  case None
  then show ?thesis by (simp add: admin_retry_def admin_cancel_def retryFailedJob_def cancelJob_def)
next
  case (Some x)
  then show ?thesis
    by (cases "bq_retry b q jobId (between s)"; cases "bq_remove b q jobId (between s)")
      (auto simp: admin_retry_def admin_cancel_def retryFailedJob_def cancelJob_def)
qed

end
