(* ===== verification/Queue_Run_Properties.thy ===== *)
theory Queue_Run_Properties
  imports Queue_Processor Queue_Properties
begin

text \<open>
  What running a job promises: only work this release understands reaches a handler, a process that started has a
  handler for every job and a consumer for every queue, and the heartbeat tells the truth.
\<close>

section \<open>Error messages\<close>

lemma collect_causes_length:
  "length (collect_causes g visited ds e) \<le> max (length ds) MAX_CAUSE_DEPTH"
proof (induction g visited ds e rule: collect_causes.induct)
  case (1 g visited ds e)
  then show ?case by (subst collect_causes.simps) (auto split: option.splits)
qed

lemma collect_causes_prefix: "\<exists>es. collect_causes g visited ds e = ds @ es"
proof (induction g visited ds e rule: collect_causes.induct)
  case (1 g visited ds e)
  show ?case
  proof (cases e)
    case None
    then show ?thesis by (subst collect_causes.simps) simp
  next
    case (Some c)
    show ?thesis
    proof (cases "length ds < MAX_CAUSE_DEPTH \<and> c \<notin> visited")
      case True
      with 1 Some obtain es where
        "collect_causes g (insert c visited) (ds @ [describeCause (g c)]) (next_cause g c) = (ds @ [describeCause (g c)]) @ es"
        by blast
      with True Some show ?thesis by (subst collect_causes.simps) simp
    next
      case False
      with Some show ?thesis by (subst collect_causes.simps) auto
    qed
  qed
qed

text \<open>A log line about an error always ends and is bounded: at most four causes are quoted whatever the chain is,
  cycles included; the thrown error's own message is always first, and the direct cause, where the errno of a
  failed connection is, is never dropped.\<close>

theorem error_message_bounded:
  "length (collectCauseChain g e) \<le> 4 \<and>
   (\<exists>rest. formatErrorMessage g e = en_text (g e) @ rest) \<and>
   (case next_cause g e of None \<Rightarrow> formatErrorMessage g e = en_text (g e)
    | Some c \<Rightarrow> \<exists>rest. formatErrorMessage g e = en_text (g e) @ '' (cause: '' @ describeCause (g c) @ rest)"
proof -
  have len: "length (collectCauseChain g e) \<le> 4"
    using collect_causes_length [of g "{}" "[]"] by (simp add: collectCauseChain_def MAX_CAUSE_DEPTH_def)
  have first: "case next_cause g e of None \<Rightarrow> collectCauseChain g e = []
      | Some c \<Rightarrow> \<exists>es. collectCauseChain g e = describeCause (g c) # es"
  proof (cases "next_cause g e")
    case None
    then show ?thesis by (simp add: collectCauseChain_def collect_causes.simps)
  next
    case (Some c)
    then have "collectCauseChain g e = collect_causes g {c} [describeCause (g c)] (next_cause g c)"
      by (simp add: collectCauseChain_def collect_causes.simps [of g "{}"] MAX_CAUSE_DEPTH_def)
    with Some collect_causes_prefix [of g "{c}" "[describeCause (g c)]" "next_cause g c"] show ?thesis by simp
  qed
  have joined: "\<exists>rest. join_with '' <- '' (d # es) = d @ rest" for d es by (cases es) simp_all
  show ?thesis
  proof (cases "next_cause g e")
    case None
    with first len show ?thesis by (simp add: formatErrorMessage_def)
  next
    case (Some c)
    with first obtain es where "collectCauseChain g e = describeCause (g c) # es" by auto
    moreover from joined obtain rest where "join_with '' <- '' (describeCause (g c) # es) = describeCause (g c) @ rest"
      by blast
    ultimately have "formatErrorMessage g e = en_text (g e) @ '' (cause: '' @ describeCause (g c) @ rest @ '')''"
      by (simp only: formatErrorMessage_def Let_def list.simps if_False append_assoc)
    with Some len show ?thesis by simp
  qed
qed

section \<open>Boot\<close>

lemma collect_handler_step:
  "collect_handlers (HandlerProvider k # ps) m = Inr m' \<longleftrightarrow>
   (\<forall>e. m (hd_job_name k) = Some e \<longrightarrow> hd_identity e = hd_identity k) \<and>
   collect_handlers ps (m(hd_job_name k \<mapsto> k)) = Inr m'"
  by (auto split: option.splits)

lemma collect_handlers_keeps:
  "collect_handlers ps m = Inr m' \<Longrightarrow> m j = Some h \<Longrightarrow> \<exists>h'. m' j = Some h' \<and> hd_identity h' = hd_identity h"
proof (induction ps arbitrary: m h)
  case (Cons p ps)
  show ?case
  proof (cases p)
    case (HandlerProvider k)
    with Cons.prems have rest: "collect_handlers ps (m(hd_job_name k \<mapsto> k)) = Inr m'"
      and same: "j = hd_job_name k \<longrightarrow> hd_identity k = hd_identity h"
      by (auto simp: collect_handler_step simp del: collect_handlers.simps)
    show ?thesis
    proof (cases "j = hd_job_name k")
      case True
      then show ?thesis using Cons.IH [OF rest, of k] same by simp
    next
      case False
      then show ?thesis using Cons.IH [OF rest, of h] Cons.prems(2) by simp
    qed
  qed (use Cons in simp_all)
qed simp

lemma collect_handlers_source:
  "collect_handlers ps m = Inr m' \<Longrightarrow> m' j = Some h \<Longrightarrow>
   m j = Some h \<or> HandlerProvider h \<in> set ps \<and> hd_job_name h = j"
proof (induction ps arbitrary: m)
  case (Cons p ps)
  show ?case
  proof (cases p)
    case (HandlerProvider k)
    with Cons.prems have rest: "collect_handlers ps (m(hd_job_name k \<mapsto> k)) = Inr m'"
      by (simp add: collect_handler_step del: collect_handlers.simps)
    from Cons.IH [OF rest Cons.prems(2)] HandlerProvider show ?thesis by (auto split: if_splits)
  qed (use Cons in auto)
qed simp

lemma collect_handlers_unique:
  "collect_handlers ps m = Inr m' \<Longrightarrow> HandlerProvider h \<in> set ps \<Longrightarrow>
   \<exists>h'. m' (hd_job_name h) = Some h' \<and> hd_identity h' = hd_identity h"
proof (induction ps arbitrary: m)
  case (Cons p ps)
  show ?case
  proof (cases p)
    case (HandlerProvider k)
    with Cons.prems have rest: "collect_handlers ps (m(hd_job_name k \<mapsto> k)) = Inr m'"
      by (simp add: collect_handler_step del: collect_handlers.simps)
    show ?thesis
    proof (cases "h = k")
      case True
      with collect_handlers_keeps [OF rest, of "hd_job_name k" k] show ?thesis by simp
    next
      case False
      with Cons.IH [OF rest] Cons.prems(2) HandlerProvider show ?thesis by simp
    qed
  qed (use Cons in auto)
qed simp

text \<open>A process that boots can run every job it may be given: each registered job has a handler, which was provided
  for that job, every other handler provided for it is the same object, and every registered queue is
  consumed.\<close>

theorem booted_process_runs_every_job:
  assumes "registry_bootstrap ps = Inr m"
  shows "(\<forall>j. \<exists>h. m j = Some h \<and> HandlerProvider h \<in> set ps \<and> hd_job_name h = j \<and>
      (\<forall>h'. HandlerProvider h' \<in> set ps \<and> hd_job_name h' = j \<longrightarrow> hd_identity h' = hd_identity h)) \<and>
    (\<forall>q. ProcessorProvider q \<in> set ps)"
proof -
  have c: "collect_handlers ps Map.empty = Inr m"
    and present: "filter (\<lambda>j. m j = None) REGISTERED_JOB_NAMES = []"
    and consumed: "filter (\<lambda>q. q \<notin> set (consumed_queues ps)) REGISTERED_QUEUE_NAMES = []"
    using assms
    by (auto simp: registry_bootstrap_def bindE_Inr_iff Let_def verifyEveryQueueHasAProcessor_def
        simp del: filter_empty_conv split: if_splits)
  have all: "j \<in> set REGISTERED_JOB_NAMES" for j by (cases j) (simp_all add: REGISTERED_JOB_NAMES_def)
  have queues: "q \<in> set REGISTERED_QUEUE_NAMES" for q by (cases q) (simp_all add: REGISTERED_QUEUE_NAMES_def)
  have "\<exists>h. m j = Some h \<and> HandlerProvider h \<in> set ps \<and> hd_job_name h = j \<and>
      (\<forall>h'. HandlerProvider h' \<in> set ps \<and> hd_job_name h' = j \<longrightarrow> hd_identity h' = hd_identity h)" for j
  proof -
    obtain h where h: "m j = Some h" using present all [of j] by (auto simp: filter_empty_conv)
    with collect_handlers_source [OF c this] collect_handlers_unique [OF c] show ?thesis by fastforce
  qed
  moreover have "ProcessorProvider q \<in> set ps" for q
  proof -
    have "q \<in> set (consumed_queues ps)" using consumed queues [of q] by (auto simp: filter_empty_conv)
    then show ?thesis
      by (auto simp: consumed_queues_def List.map_filter_def split: provider.splits)
  qed
  ultimately show ?thesis by blast
qed

section \<open>Running\<close>

text \<open>What this release accepts, from the registries and the handler's own validation.\<close>

definition runnable ::
  "queue_name \<Rightarrow> (job_name \<rightharpoonup> 'w handler) \<Rightarrow> bull_job \<Rightarrow> 'w handler \<Rightarrow> job_payload \<Rightarrow> bool" where
  "runnable q registry job h p \<longleftrightarrow>
     (\<exists>j. bj_name job = job_value j \<and> jr_queue_name (JOB_REGISTRATIONS j) = q \<and> registry j = Some h \<and>
       hd_validate h (bj_data job) = ([], p) \<and> jp_payload_version p = jr_payload_version (JOB_REGISTRATIONS j))"

lemma registered_job_iff: "registered_job s = Some j \<longleftrightarrow> s = job_value j"
proof
  assume "registered_job s = Some j"
  then show "s = job_value j" by (auto simp: registered_job_def find_Some_iff)
next
  assume "s = job_value j"
  then show "registered_job s = Some j" by (cases j) (simp_all add: registered_job_def REGISTERED_JOB_NAMES_def)
qed

lemma resolveJob_runnable: "resolveJob q registry job = Inr (h, p) \<longleftrightarrow> runnable q registry job h p"
proof (cases "registered_job (bj_name job)")
  case None
  then have "bj_name job \<noteq> job_value j" for j using registered_job_iff [of "bj_name job" j] by auto
  with None show ?thesis by (simp add: resolveJob_def runnable_def)
next
  case (Some j)
  then have name: "bj_name job = job_value k \<longleftrightarrow> k = j" for k using registered_job_iff [of "bj_name job" k] by auto
  show ?thesis
    by (cases "registry j"; cases "hd_validate (the (registry j)) (bj_data job)")
      (auto simp: resolveJob_def runnable_def Some name)
qed

lemma resolveJob_permanent: "resolveJob q registry job = Inl e \<Longrightarrow> \<exists>reason. e = PermanentJobFailureError reason"
  by (auto simp: resolveJob_def split: option.splits prod.splits if_splits)

text \<open>The record a run should end with.\<close>

definition final_event :: "bull_job \<Rightarrow> job_failure + job_outcome \<Rightarrow> lifecycle_event" where
  "final_event job r =
     (case r of
        Inr o' \<Rightarrow> (if oc_status o' = OUTCOME_COMPLETED then LE_COMPLETED else LE_SKIPPED)
      | Inl (PermanentJobFailureError _) \<Rightarrow> LE_FAILED
      | Inl (OtherFailure _ _) \<Rightarrow>
          (if bj_attempts_made job + 1 < (case bj_attempts job of None \<Rightarrow> 1 | Some n \<Rightarrow> n) then LE_RETRIED else LE_FAILED))"

lemma process_runnable:
  assumes "runnable q registry job h p"
  obtains started ended where
    "process q registry job t0 t1 (w, log) =
       (case hd_handle h (case jp_correlation_id p of Some c \<Rightarrow> c | None \<Rightarrow> ''job.'' @ (case bj_id job of Some i \<Rightarrow> i | None \<Rightarrow> ''unknown''))
          p w of (r, w') \<Rightarrow> (r, w', log @ [started, ended r]))"
    "lr_event started = LE_STARTED" "\<forall>r. lr_event (ended r) = final_event job r"
proof -
  let ?id = "case bj_id job of Some i \<Rightarrow> i | None \<Rightarrow> ''unknown''"
    and ?max = "case bj_attempts job of Some n \<Rightarrow> n | None \<Rightarrow> 1"
  let ?mark = "\<lambda>l. l\<lparr>lr_attempt := Some (bj_attempts_made job + 1), lr_max_attempts := Some ?max\<rparr>"
  let ?ended = "\<lambda>r. case r of
      Inl e \<Rightarrow> (lifecycle (if \<not> permanent e \<and> bj_attempts_made job + 1 < ?max then LE_RETRIED else LE_FAILED)
        q (bj_name job) (Some ?id) None (Some (failure_message e)))
        \<lparr>lr_attempt := Some (bj_attempts_made job + 1), lr_max_attempts := Some ?max, lr_duration_ms := Some (t1 - t0)\<rparr>
    | Inr o' \<Rightarrow> (lifecycle (outcome_event o') q (bj_name job) (Some ?id) (Some p) (oc_reason o'))
        \<lparr>lr_attempt := Some (bj_attempts_made job + 1), lr_max_attempts := Some ?max, lr_duration_ms := Some (t1 - t0)\<rparr>"
  show thesis
  proof (rule that [of "?mark (lifecycle LE_STARTED q (bj_name job) (Some ?id) (Some p) None)" ?ended])
    show "process q registry job t0 t1 (w, log) =
       (case hd_handle h (case jp_correlation_id p of Some c \<Rightarrow> c | None \<Rightarrow> ''job.'' @ ?id) p w of
          (r, w') \<Rightarrow> (r, w', log @ [?mark (lifecycle LE_STARTED q (bj_name job) (Some ?id) (Some p) None), ?ended r]))"
      using assms [folded resolveJob_runnable]
      by (simp add: process_def Let_def split: prod.splits sum.splits)
    show "\<forall>r. lr_event (?ended r) = final_event job r"
    proof
      fix r
      show "lr_event (?ended r) = final_event job r"
      proof (cases r)
        case (Inl e)
        then show ?thesis by (cases e) (simp_all add: final_event_def lifecycle_def)
      next
        case (Inr o')
        then show ?thesis by (cases "oc_status o'") (simp_all add: final_event_def lifecycle_def outcome_event_def)
      qed
    qed
  qed (simp add: lifecycle_def)
qed

text \<open>C38: a handler runs exactly on the jobs this release understands: a registered name, on the job's own queue, with a
  payload its handler accepts, in the version this release supports.  Then the state and the result are the handler's,
  in the request scope of the call that enqueued the job, and the log says it started and what happens next; any
  other job fails permanently, touches nothing, and leaves one record, of that failure.\<close>

theorem handler_runs_iff_runnable:
  "case process q registry job t0 t1 (w, log) of (r, w', log') \<Rightarrow>
     if \<exists>h p. runnable q registry job h p
     then (\<exists>h p started ended. runnable q registry job h p \<and> log' = log @ [started, ended] \<and>
       (r, w') = hd_handle h (case jp_correlation_id p of Some c \<Rightarrow> c | None \<Rightarrow> ''job.'' @ (case bj_id job of Some i \<Rightarrow> i | None \<Rightarrow> ''unknown'')) p w \<and>
       lr_event started = LE_STARTED \<and> lr_event ended = final_event job r)
     else (\<exists>reason failed. r = Inl (PermanentJobFailureError reason) \<and> w' = w \<and> log' = log @ [failed] \<and>
       lr_event failed = LE_FAILED \<and> lr_reason failed = Some reason)"
proof (cases "resolveJob q registry job")
  case (Inl e)
  then have none: "\<not> (\<exists>h p. runnable q registry job h p)" by (simp add: resolveJob_runnable [symmetric])
  obtain reason where "e = PermanentJobFailureError reason" using resolveJob_permanent [OF Inl] by blast
  with Inl none show ?thesis by (simp add: process_def Let_def lifecycle_def)
next
  case (Inr x)
  obtain h p where "x = (h, p)" by (cases x)
  with Inr have ok: "runnable q registry job h p" by (simp add: resolveJob_runnable)
  obtain started ended where run: "process q registry job t0 t1 (w, log) =
       (case hd_handle h (case jp_correlation_id p of Some c \<Rightarrow> c | None \<Rightarrow> ''job.'' @ (case bj_id job of Some i \<Rightarrow> i | None \<Rightarrow> ''unknown''))
          p w of (r, w') \<Rightarrow> (r, w', log @ [started, ended r]))"
    and events: "lr_event started = LE_STARTED" "\<forall>r. lr_event (ended r) = final_event job r"
    by (rule process_runnable [OF ok, of t0 t1 w log])
  obtain r w' where handled: "hd_handle h (case jp_correlation_id p of Some c \<Rightarrow> c | None \<Rightarrow> ''job.'' @ (case bj_id job of Some i \<Rightarrow> i | None \<Rightarrow> ''unknown'')) p w = (r, w')"
    by (rule prod.exhaust)
  have "\<exists>h p s e. runnable q registry job h p \<and> log @ [started, ended r] = log @ [s, e] \<and>
       (r, w') = hd_handle h (case jp_correlation_id p of Some c \<Rightarrow> c | None \<Rightarrow> ''job.'' @ (case bj_id job of Some i \<Rightarrow> i | None \<Rightarrow> ''unknown'')) p w \<and>
       lr_event s = LE_STARTED \<and> lr_event e = final_event job r"
    using ok handled events by (intro exI [of _ h] exI [of _ p] exI [of _ started] exI [of _ "ended r"]) simp
  with ok show ?thesis unfolding run handled by auto
qed

section \<open>The heartbeat\<close>

text \<open>Worker liveness tells the truth.  A heartbeat job that ran on the maintenance queue less than an interval after
  its schedule makes the endpoint report its own instant, and fresh for exactly three intervals, however long ago the
  previous one was; after that a dead worker is reported as such.\<close>

theorem heartbeat_fresh_for_three_intervals:
  assumes "iso_laws d" and "redis_up w"
    and "runnable MAINTENANCE registry job (queue_heartbeat_handler d name refused t validate identity) p"
    and "case jp_scheduled_at p of None \<Rightarrow> True | Some s \<Rightarrow> t - s \<le> 5 * 60 * 1000"
    and "process MAINTENANCE registry job t0 t1 (w, log) = (r, w', log')" and "t \<le> now"
  shows "r = Inr (completedJob None) \<and>
    (\<exists>hb. readHeartbeat d name now w' = Inr hb \<and> (hb_is_fresh hb \<longleftrightarrow> now \<le> t + 15 * 60 * 1000) \<and>
      (now < t + 60 * 60 * 1000 \<longrightarrow> hb_observed_at hb = Some t))"
proof -
  let ?key = "buildQueueHeartbeatRedisKey name"
  have "heartbeat_handle d name refused t p w =
      (Inr (completedJob None), redis_set_ex ?key (to_iso d t) QUEUE_HEARTBEAT_KEY_TTL_SECONDS t w)"
    using assms(2,4)
    by (auto simp: heartbeat_handle_def Let_def QUEUE_HEARTBEAT_INTERVAL_MILLISECONDS_def split: option.splits)
  with process_runnable [OF assms(3), of t0 t1 w log] assms(5)
  have r: "r = Inr (completedJob None)" "w' = redis_set_ex ?key (to_iso d t) QUEUE_HEARTBEAT_KEY_TTL_SECONDS t w"
    by (auto simp: queue_heartbeat_handler_def)
  have get: "redis_get w' now ?key = Inr (if now < t + 60 * 60 * 1000 then Some (to_iso d t) else None)"
    using assms(2) by (simp add: r redis_get_def redis_set_ex_def QUEUE_HEARTBEAT_KEY_TTL_SECONDS_def)
  have iso: "to_iso d t \<noteq> []" "parse_iso d (to_iso d t) = Some t" using assms(1) by (auto simp: iso_laws_def)
  show ?thesis
    using r(1) iso
    by (simp add: readHeartbeat_def get QUEUE_HEARTBEAT_STALE_AFTER_MILLISECONDS_def
        QUEUE_HEARTBEAT_INTERVAL_MILLISECONDS_def) arith
qed

end
