(* ===== verification/Queue_Witnesses.thy ===== *)
theory Queue_Witnesses
  imports Queue_Run_Properties Samples
begin

text \<open>A concrete job store that satisfies the laws, and the queue properties applied to it.\<close>

type_synonym sample_store = "((queue_name \<times> ident) \<Rightarrow> inspected_job option) \<times> (queue_name \<Rightarrow> string list)"

definition sample_job :: "ident \<Rightarrow> job_name \<Rightarrow> job_state \<Rightarrow> inspected_job" where
  "sample_job i n st =
     \<lparr>ij_id = i, ij_name = job_value n, ij_state = st, ij_attempts_made = 0, ij_timestamp = 0, ij_processed_on = None,
      ij_finished_on = None, ij_failed_reason = None, ij_payload = JNull\<rparr>"

definition sample_add ::
  "queue_name \<Rightarrow> job_name \<Rightarrow> job_payload \<Rightarrow> job_options \<Rightarrow> sample_store \<Rightarrow> exn + ident option \<times> sample_store" where
  "sample_add q n p opts s =
     (let i = (case jo_job_id opts of None \<Rightarrow> ''auto'' | Some i \<Rightarrow> i)
      in Inr (Some i,
           if fst s (q, i) = None
           then ((fst s)((q, i) \<mapsto> sample_job i n (if jo_delay opts = None then Waiting else Delayed)), snd s) else s))"

definition sample_remove :: "queue_name \<Rightarrow> ident \<Rightarrow> sample_store \<Rightarrow> exn + sample_store" where
  "sample_remove q i s =
     (if map_option ij_state (fst s (q, i)) = Some Active then Inl (JsError ''locked'')
      else Inr ((fst s)((q, i) := None), snd s))"

definition sample_bull :: "sample_store bull" where
  "sample_bull =
     \<lparr>bq_add = sample_add, bq_job = (\<lambda>q i s. fst s (q, i)), bq_remove = sample_remove,
      bq_retry = (\<lambda>q i s. Inr s), bq_schedulers = (\<lambda>q s. snd s q),
      bq_upsert_scheduler = (\<lambda>q r p opts s. (fst s, (snd s)(q := List.insert (rs_scheduler_id r) (snd s q)))),
      bq_remove_scheduler = (\<lambda>q i s. (fst s, (snd s)(q := removeAll i (snd s q))))\<rparr>"

lemma sample_bull_laws: "bull_laws sample_bull"
  unfolding bull_laws_def
proof (intro conjI allI impI)
  fix q n p opts s i' s'
  assume add: "bq_add sample_bull q n p opts s = Inr (i', s')"
  let ?i = "case jo_job_id opts of None \<Rightarrow> ''auto'' | Some i \<Rightarrow> i"
  show "\<exists>i. i' = Some i \<and> (jo_job_id opts = None \<or> jo_job_id opts = Some i) \<and>
      (bq_state sample_bull q i s = None \<longrightarrow> bq_state sample_bull q i s' \<in> {Some Waiting, Some Delayed}) \<and>
      (\<forall>q2 i2. (q2, i2) \<noteq> (q, i) \<or> bq_state sample_bull q i s \<noteq> None \<longrightarrow>
        bq_job sample_bull q2 i2 s' = bq_job sample_bull q2 i2 s)"
    using add
    by (intro exI [of _ ?i])
      (auto simp: sample_bull_def sample_add_def Let_def bq_state_def sample_job_def split: if_splits option.splits)
qed (auto simp: sample_bull_def sample_remove_def bq_state_def split: if_splits)

abbreviation heartbeat_opts :: enqueue_options where
  "heartbeat_opts \<equiv> \<lparr>eo_job_id = Some ''b'', eo_retry_policy = None\<rparr>"

abbreviation one_waiting :: sample_store where
  "one_waiting \<equiv> ((\<lambda>_. None)((NOTIFICATIONS, ''a'') \<mapsto> sample_job ''a'' USER_PASSWORD_RESET_V1 Waiting), \<lambda>_. [''old''])"

section \<open>Job ids\<close>

lemma job_id_sample:
  "buildDeterministicJobId ''files.cleanup.v1'' ''x.1'' 2 = Inr ''files.cleanup.x.1.2''"
  by code_simp

theorem job_id_injective_witness:
  "CHR '':'' \<notin> set ''files.cleanup.x.1.2'' \<and> ''x.1'' = ''x.1'' \<and> (2 :: nat) = 2 \<and>
    (\<exists>d p w w'. match_job_name ''files.cleanup.v1'' = Some (d, p, w) \<and> match_job_name ''files.cleanup.v1'' = Some (d, p, w'))"
  by (rule job_id_injective [OF job_id_sample job_id_sample])

section \<open>Producing\<close>

theorem cancel_takes_only_pending_witness:
  "case cancelPending sample_bull id USER_PASSWORD_RESET_V1 ''a'' (one_waiting, []) of (removed, s', log') \<Rightarrow>
     removed \<and> bq_job sample_bull NOTIFICATIONS ''a'' s' = None"
proof -
  obtain removed s' log' where c: "cancelPending sample_bull id USER_PASSWORD_RESET_V1 ''a'' (one_waiting, []) = (removed, s', log')"
    by (rule prod_cases3)
  moreover from c have removed
    by (simp add: cancelPending_def Let_def registration_def bq_state_def sample_bull_def sample_job_def
        CANCELLABLE_JOB_STATES_def sample_remove_def)
  ultimately show ?thesis using cancel_takes_only_pending [OF sample_bull_laws c] by (simp add: registration_def)
qed

lemma reschedule_sample:
  obtains res s' log' where "reschedule sample_bull id id USER_PASSWORD_RESET_V1 (versioned_payload USER_PASSWORD_RESET_V1) 50 ''a''
    heartbeat_opts 10 (one_waiting, []) = Inr (res, s', log')"
  by (simp add: reschedule_def enqueueAt_def Let_def registration_def sample_bull_def sample_add_def sample_job_def
      requireJobId_def cancelPending_def bq_state_def CANCELLABLE_JOB_STATES_def sample_remove_def)

theorem reschedule_never_loses_work_witness:
  "\<exists>res s' log' s1. reschedule sample_bull id id USER_PASSWORD_RESET_V1 (versioned_payload USER_PASSWORD_RESET_V1) 50 ''a''
      heartbeat_opts 10 (one_waiting, []) = Inr (res, s', log') \<and>
    bq_state sample_bull NOTIFICATIONS (rr_job_id res) s1 \<noteq> None \<and> rr_job_id res = ''b''"
proof (rule reschedule_sample)
  fix res s' log'
  assume r: "reschedule sample_bull id id USER_PASSWORD_RESET_V1 (versioned_payload USER_PASSWORD_RESET_V1) 50 ''a''
    heartbeat_opts 10 (one_waiting, []) = Inr (res, s', log')"
  from reschedule_never_loses_work [OF sample_bull_laws r] r show ?thesis
    by (auto simp: registration_def)
qed

theorem reconcile_installs_exactly_declared_witness:
  "set (bq_schedulers sample_bull MAINTENANCE (installDeclaredSchedules sample_bull one_waiting)) = set REGISTERED_SCHEDULER_IDS \<and>
   set (bq_schedulers sample_bull NOTIFICATIONS (installDeclaredSchedules sample_bull one_waiting)) =
     set (bq_schedulers sample_bull NOTIFICATIONS one_waiting) \<inter> set REGISTERED_SCHEDULER_IDS"
  by (rule reconcile_installs_exactly_declared [OF sample_bull_laws])

section \<open>Running\<close>

abbreviation sample_dates :: iso_dates where
  "sample_dates \<equiv> \<lparr>to_iso = (\<lambda>t. if t < 0 then CHR ''-'' # decimal (nat (- t)) else decimal (nat t)),
     parse_iso = (\<lambda>s. case s of [] \<Rightarrow> None
       | c # cs \<Rightarrow> Some (if c = CHR ''-'' then - int (parse_decimal cs) else int (parse_decimal s)))\<rparr>"

lemma sample_dates_laws: "iso_laws sample_dates"
  unfolding iso_laws_def
proof
  fix t :: time
  obtain c cs where d: "decimal (nat t) = c # cs"
    by (cases "decimal (nat t)") (simp_all add: decimal_step)
  have "digit c" using decimal_digits [of "nat t"] d by simp
  then have "c \<noteq> CHR ''-''" by (auto simp: digit_def)
  with d parse_decimal [of "nat t"] show "parse_iso sample_dates (to_iso sample_dates t) = Some t \<and> to_iso sample_dates t \<noteq> []"
    by (cases "t < 0") (simp_all add: parse_decimal)
qed

abbreviation sample_handler :: "job_name \<Rightarrow> world handler" where
  "sample_handler j \<equiv> \<lparr>hd_identity = 0, hd_job_name = j, hd_validate = (\<lambda>_. ([], versioned_payload j)),
     hd_handle = (\<lambda>_ _ w. (Inr (completedJob None), w))\<rparr>"

abbreviation sample_providers :: "world provider list" where
  "sample_providers \<equiv> map (HandlerProvider \<circ> sample_handler) REGISTERED_JOB_NAMES @
     [ProcessorProvider MAINTENANCE, OtherProvider, ProcessorProvider NOTIFICATIONS]"

lemma sample_boot: "\<exists>m. registry_bootstrap sample_providers = Inr m"
  by (simp add: registry_bootstrap_def REGISTERED_JOB_NAMES_def verifyEveryQueueHasAProcessor_def
      REGISTERED_QUEUE_NAMES_def consumed_queues_def List.map_filter_def Let_def)

theorem booted_process_runs_every_job_witness:
  "\<exists>m h. registry_bootstrap sample_providers = Inr m \<and> m FILES_CLEANUP_V1 = Some h \<and> hd_job_name h = FILES_CLEANUP_V1"
  using sample_boot booted_process_runs_every_job by blast

abbreviation beat_job :: bull_job where
  "beat_job \<equiv> \<lparr>bj_id = Some ''1'', bj_name = job_value MAINTENANCE_QUEUE_HEARTBEAT_V1, bj_data = JNull,
     bj_attempts_made = 0, bj_attempts = Some 1\<rparr>"

abbreviation beat_handler :: "world handler" where
  "beat_handler \<equiv> queue_heartbeat_handler sample_dates ''api'' (PermanentJobFailureError ''down'') 1000
     (\<lambda>_. ([], versioned_payload MAINTENANCE_QUEUE_HEARTBEAT_V1)) 0"

theorem heartbeat_fresh_for_three_intervals_witness:
  "\<exists>r w' log'. process MAINTENANCE (\<lambda>_. Some beat_handler) beat_job 1000 1001 (sample_world, []) = (r, w', log') \<and>
    r = Inr (completedJob None) \<and>
    (\<exists>hb. readHeartbeat sample_dates ''api'' 5000 w' = Inr hb \<and> hb_is_fresh hb \<and> hb_observed_at hb = Some 1000)"
proof -
  obtain r w' log' where p: "process MAINTENANCE (\<lambda>_. Some beat_handler) beat_job 1000 1001 (sample_world, []) = (r, w', log')"
    by (rule prod_cases3)
  have run: "runnable MAINTENANCE (\<lambda>_. Some beat_handler) beat_job beat_handler (versioned_payload MAINTENANCE_QUEUE_HEARTBEAT_V1)"
    by (auto simp: runnable_def queue_heartbeat_handler_def versioned_payload_def registration_def
        intro: exI [of _ MAINTENANCE_QUEUE_HEARTBEAT_V1])
  have up: "redis_up sample_world" by (simp add: sample_world_def empty_world_def)
  have soon: "case jp_scheduled_at (versioned_payload MAINTENANCE_QUEUE_HEARTBEAT_V1) of
      None \<Rightarrow> True | Some s \<Rightarrow> (1000 :: time) - s \<le> 5 * 60 * 1000"
    by (simp add: versioned_payload_def)
  from heartbeat_fresh_for_three_intervals [OF sample_dates_laws up run soon p, of 5000]
  have "r = Inr (completedJob None) \<and>
      (\<exists>hb. readHeartbeat sample_dates ''api'' 5000 w' = Inr hb \<and> hb_is_fresh hb \<and> hb_observed_at hb = Some 1000)"
    by auto
  with p show ?thesis by (intro exI, rule conjI)
qed

end
