(* ===== verification/Env_Schema.thy ===== *)
theory Env_Schema
  imports Service_Prelude Complex_Main
begin

text \<open>
  The environment a process may boot with: \<open>src/src/config/env.validation.ts\<close>, the list syntaxes it uses
  (\<open>src/src/common/util/mcp-config.util.ts\<close>, \<open>trusted-proxy.util.ts\<close>) and \<open>file-upload.defaults.ts\<close>.

  The schema is data, rule by rule as the source chains them; error messages are left out.  Joi is third-party:
  a function from a schema and an environment, of which only the documented reading of the rules is assumed
  (\<open>joi_laws\<close>): what it accepts conforms.
\<close>

section \<open>The platform\<close>

text \<open>The parsed \<open>URL\<close>, \<open>net.isIP\<close> (0, 4 or 6), \<open>net.BlockList\<close> on the whole IPv4-mapped block,
  \<open>decodeURIComponent\<close> (which can throw), and Joi's own formats and
  conversions.\<close>

record url_parts =
  url_protocol :: string
  url_username :: string
  url_password :: string
  url_hostname :: string
  url_origin :: string
  url_hash :: string
  url_port :: string
  url_pathname :: string

record platform =
  new_url :: "string \<Rightarrow> url_parts option"
  isIP :: "string \<Rightarrow> nat"
  covers_mapped_ipv4 :: "string \<Rightarrow> nat \<Rightarrow> bool"
  decodeURIComponent :: "string \<Rightarrow> string option"
  joi_uri :: "string list \<Rightarrow> string \<Rightarrow> bool"
  joi_hostname :: "string \<Rightarrow> bool"
  joi_number :: "string \<Rightarrow> rat option"
  joi_boolean :: "string \<Rightarrow> bool option"

section \<open>Lists in variables\<close>

definition splitList :: "string \<Rightarrow> string list" where
  "splitList raw = filter (\<lambda>entry. entry \<noteq> []) (map trim (split_on (CHR '','') raw))"

definition isBareOrigin :: "platform \<Rightarrow> string \<Rightarrow> bool" where
  "isBareOrigin pf entry = (case new_url pf entry of None \<Rightarrow> False | Some u \<Rightarrow> url_origin u = entry)"

definition parseMcpAllowedOrigins :: "platform \<Rightarrow> string \<Rightarrow> string list option" where
  "parseMcpAllowedOrigins pf raw =
     (let entries = splitList raw in if list_all (isBareOrigin pf) entries then Some entries else None)"

definition parseMcpRedirectOrigins :: "platform \<Rightarrow> string \<Rightarrow> string list option" where
  "parseMcpRedirectOrigins pf raw =
     (let entries = splitList raw;
          valid = list_all (\<lambda>entry. isBareOrigin pf entry \<and>
            (case new_url pf entry of None \<Rightarrow> False | Some u \<Rightarrow> url_protocol u = ''https:'')) entries
      in if valid then Some entries else None)"

definition LOOPBACK_HOSTS :: "string list" where
  "LOOPBACK_HOSTS = [''localhost'', ''127.0.0.1'', ''[::1]'']"

definition isLoopbackRedirectUri :: "platform \<Rightarrow> string \<Rightarrow> bool" where
  "isLoopbackRedirectUri pf uri =
     (case new_url pf uri of
        None \<Rightarrow> False
      | Some url \<Rightarrow> url_protocol url = ''http:'' \<and> url_hostname url \<in> set LOOPBACK_HOSTS \<and>
          url_username url = [] \<and> url_password url = [])"

definition isPermittedMcpRedirectUri :: "platform \<Rightarrow> string \<Rightarrow> string list \<Rightarrow> bool" where
  "isPermittedMcpRedirectUri pf uri allowedOrigins =
     (case new_url pf uri of
        None \<Rightarrow> False
      | Some url \<Rightarrow>
          (if url_hash url \<noteq> [] \<or> url_username url \<noteq> [] \<or> url_password url \<noteq> [] then False
           else if isLoopbackRedirectUri pf uri then True
           else if url_protocol url \<noteq> ''https:'' then False
           else allowedOrigins = [] \<or> url_origin url \<in> set allowedOrigins))"

definition coversEveryIpv4Address :: "platform \<Rightarrow> string \<Rightarrow> nat \<Rightarrow> bool" where
  "coversEveryIpv4Address pf address bits = covers_mapped_ipv4 pf address bits"

definition isAddressOrRange :: "platform \<Rightarrow> string \<Rightarrow> bool" where
  "isAddressOrRange pf entry =
     (case split_on (CHR ''/'') entry of
        [address] \<Rightarrow> isIP pf address \<noteq> 0
      | [address, prefixLength] \<Rightarrow>
          (let family = isIP pf address; bits = parse_decimal prefixLength
           in if family = 0 then False
              else if \<not> (list_all digit prefixLength \<and> 1 \<le> length prefixLength \<and> length prefixLength \<le> 3) then False
              else if bits < 1 \<or> bits > (if family = 4 then 32 else 128) then False
              else family = 4 \<or> \<not> coversEveryIpv4Address pf address bits)
      | _ \<Rightarrow> False)"

definition isTrustedProxyList :: "platform \<Rightarrow> string \<Rightarrow> bool" where
  "isTrustedProxyList pf value =
     (let entries = map trim (split_on (CHR '','') value)
      in entries \<noteq> [] \<and> list_all (isAddressOrRange pf) entries)"

text \<open>\<open>\.+$\<close> and the brackets of an IPv6 host go before the host is judged.\<close>

definition ends_with :: "string \<Rightarrow> string \<Rightarrow> bool" where
  "ends_with suffix s \<longleftrightarrow> drop (length s - length suffix) s = suffix \<and> length suffix \<le> length s"

definition without_trailing :: "char \<Rightarrow> string \<Rightarrow> string" where
  "without_trailing c s = rev (dropWhile (\<lambda>x. x = c) (rev s))"

definition unbracketed :: "string \<Rightarrow> string" where
  "unbracketed s =
     (let t = (case s of [] \<Rightarrow> [] | c # cs \<Rightarrow> if c = CHR ''['' then cs else s)
      in (case rev t of [] \<Rightarrow> [] | c # cs \<Rightarrow> if c = CHR '']'' then rev cs else t))"

definition isPublicHostUrl :: "platform \<Rightarrow> string \<Rightarrow> bool" where
  "isPublicHostUrl pf value =
     (case new_url pf value of
        None \<Rightarrow> False
      | Some url \<Rightarrow>
          (if url_username url \<noteq> [] \<or> url_password url \<noteq> [] then False
           else (let hostname = without_trailing (CHR ''.'') (to_lower_case (url_hostname url))
                 in hostname \<noteq> [] \<and> hostname \<noteq> ''localhost'' \<and> \<not> ends_with ''.localhost'' hostname \<and>
                    isIP pf (unbracketed hostname) = 0)))"

section \<open>Schemas\<close>

datatype env_value = EStr string | ENum rat | EBool bool

datatype joi_base = JoiString | JoiNumber | JoiBoolean

datatype joi_pattern =
    IdentifierPattern
  | NoTrailingSlash
  | TURNSTILE_TEST_SECRET_KEY_PATTERN
  | RedissScheme
  | RedisScheme
  | PhoneCodePattern
  | TwilioSidPattern

datatype joi_custom = PublicHostUrl | TrustProxyFormat | McpAllowedOriginsFormat | McpRedirectDomainsFormat

text \<open>\<open>When key negated values th otherwise\<close>: the rules \<open>th\<close> when the sibling is (or, negated, is not) one of the values.\<close>

datatype joi_rule =
    Valid "string list"
  | Allow "string list"
  | Invalid "string list"
  | EmptyAs string
  | Default env_value
  | Required
  | Optional
  | Trim
  | Pattern joi_pattern
  | InvertedPattern joi_pattern
  | Uri "string list"
  | Hostname
  | PortNumber
  | IsInteger
  | Min int
  | Max int
  | Custom joi_custom
  | When string bool "string list" "joi_rule list" "joi_rule list"

type_synonym joi_key = "string \<times> joi_base \<times> joi_rule list"

record joi_schema =
  js_keys :: "joi_key list"
  js_and :: "(string \<times> string) list"

definition PHONE_OTP_LENGTH :: nat where
  "PHONE_OTP_LENGTH = 6"

definition hex_digit :: "char \<Rightarrow> bool" where
  "hex_digit c \<longleftrightarrow> digit c \<or> lower_char c \<in> set ''abcdef''"

definition starts_with :: "string \<Rightarrow> string \<Rightarrow> bool" where
  "starts_with prefix s \<longleftrightarrow> take (length prefix) s = prefix"

text \<open>\<open>^\s*\dx0{31}AA\s*$\<close> without regard to case.\<close>

definition turnstile_test_secret :: "string \<Rightarrow> bool" where
  "turnstile_test_secret s =
     (case trim s of
        [] \<Rightarrow> False
      | d # rest \<Rightarrow> digit d \<and> to_lower_case rest = ''x'' @ replicate 31 (CHR ''0'') @ ''aa'')"

fun pattern_matches :: "joi_pattern \<Rightarrow> string \<Rightarrow> bool" where
  "pattern_matches IdentifierPattern s =
     (case s of [] \<Rightarrow> False
      | c # cs \<Rightarrow> lower_letter c \<and> list_all (\<lambda>x. lower_letter x \<or> digit x \<or> x = CHR ''_'' \<or> x = CHR ''-'') cs)"
| "pattern_matches NoTrailingSlash s = (s \<noteq> [] \<and> last s \<noteq> CHR ''/'')"
| "pattern_matches TURNSTILE_TEST_SECRET_KEY_PATTERN s = turnstile_test_secret s"
| "pattern_matches RedissScheme s = starts_with ''rediss://'' s"
| "pattern_matches RedisScheme s = starts_with ''redis://'' s"
| "pattern_matches PhoneCodePattern s = (length s = PHONE_OTP_LENGTH \<and> list_all digit s)"
| "pattern_matches TwilioSidPattern s =
     (starts_with ''AC'' s \<and> length s = 34 \<and> list_all hex_digit (drop 2 s))"

fun custom_accepts :: "platform \<Rightarrow> joi_custom \<Rightarrow> string \<Rightarrow> bool" where
  "custom_accepts pf PublicHostUrl s = isPublicHostUrl pf s"
| "custom_accepts pf TrustProxyFormat s = (s = ''false'' \<or> isTrustedProxyList pf s)"
| "custom_accepts pf McpAllowedOriginsFormat s = (parseMcpAllowedOrigins pf s \<noteq> None)"
| "custom_accepts pf McpRedirectDomainsFormat s = (parseMcpRedirectOrigins pf s \<noteq> None)"

section \<open>What Joi is documented to accept\<close>

type_synonym raw_env = "string \<Rightarrow> string option"
type_synonym valid_env = "string \<Rightarrow> env_value option"

fun active_rules :: "valid_env \<Rightarrow> joi_rule list \<Rightarrow> joi_rule list" where
  "active_rules out [] = []"
| "active_rules out (When key negated values th otherwise # rs) =
     active_rules out
       (if (case out key of Some (EStr s) \<Rightarrow> s \<in> set values | _ \<Rightarrow> False) \<noteq> negated then th else otherwise)
     @ active_rules out rs"
| "active_rules out (r # rs) = r # active_rules out rs"

definition listed :: "(joi_rule \<Rightarrow> string list) \<Rightarrow> joi_rule list \<Rightarrow> string list" where
  "listed f rs = concat (map f rs)"

fun allowed_of :: "joi_rule \<Rightarrow> string list" where
  "allowed_of (Valid vs) = vs" | "allowed_of (Allow vs) = vs" | "allowed_of _ = []"

fun invalid_of :: "joi_rule \<Rightarrow> string list" where
  "invalid_of (Invalid vs) = vs" | "invalid_of _ = []"

fun restricts :: "joi_rule \<Rightarrow> bool" where
  "restricts (Valid _) = True" | "restricts _ = False"

fun default_of :: "joi_rule list \<Rightarrow> env_value option" where
  "default_of [] = None"
| "default_of (Default v # rs) = Some v"
| "default_of (_ # rs) = default_of rs"

definition converted :: "platform \<Rightarrow> joi_base \<Rightarrow> joi_rule list \<Rightarrow> string \<Rightarrow> env_value" where
  "converted pf base rs s =
     (case base of
        JoiString \<Rightarrow> EStr (if Trim \<in> set rs then trim s else s)
      | JoiNumber \<Rightarrow> (case joi_number pf s of None \<Rightarrow> EStr s | Some q \<Rightarrow> ENum q)
      | JoiBoolean \<Rightarrow> (case joi_boolean pf s of None \<Rightarrow> EStr s | Some b \<Rightarrow> EBool b))"

fun of_base :: "joi_base \<Rightarrow> env_value \<Rightarrow> bool" where
  "of_base JoiString (EStr s) = (s \<noteq> [])"
| "of_base JoiNumber (ENum _) = True"
| "of_base JoiBoolean (EBool _) = True"
| "of_base _ _ = False"

definition whole :: "rat \<Rightarrow> bool" where
  "whole q \<longleftrightarrow> of_int \<lfloor>q\<rfloor> = q"

fun rule_holds :: "platform \<Rightarrow> env_value \<Rightarrow> joi_rule \<Rightarrow> bool" where
  "rule_holds pf (EStr s) (Pattern p) = pattern_matches p s"
| "rule_holds pf (EStr s) (InvertedPattern p) = (\<not> pattern_matches p s)"
| "rule_holds pf (EStr s) (Uri schemes) = joi_uri pf schemes s"
| "rule_holds pf (EStr s) Hostname = joi_hostname pf s"
| "rule_holds pf (EStr s) (Min n) = (n \<le> int (length s))"
| "rule_holds pf (EStr s) (Max n) = (int (length s) \<le> n)"
| "rule_holds pf (EStr s) (Custom c) = custom_accepts pf c s"
| "rule_holds pf (ENum q) PortNumber = (whole q \<and> 0 \<le> q \<and> q \<le> 65535)"
| "rule_holds pf (ENum q) IsInteger = whole q"
| "rule_holds pf (ENum q) (Min n) = (of_int n \<le> q)"
| "rule_holds pf (ENum q) (Max n) = (q \<le> of_int n)"
| "rule_holds pf _ _ = True"

definition given :: "joi_rule list \<Rightarrow> string option \<Rightarrow> string option" where
  "given rs raw =
     (case raw of
        None \<Rightarrow> None
      | Some s \<Rightarrow> if EmptyAs (if Trim \<in> set rs then trim s else s) \<in> set rs then None else Some s)"

definition accepts_value :: "platform \<Rightarrow> joi_base \<Rightarrow> joi_rule list \<Rightarrow> env_value \<Rightarrow> bool" where
  "accepts_value pf base rs v \<longleftrightarrow>
     (case v of EStr s \<Rightarrow> s \<notin> set (listed invalid_of rs) | _ \<Rightarrow> True) \<and>
     ((case v of EStr s \<Rightarrow> s \<in> set (listed allowed_of rs) | _ \<Rightarrow> False) \<or>
      (\<not> list_ex restricts rs \<and> of_base base v \<and> list_all (rule_holds pf v) rs))"

definition conforms_key :: "platform \<Rightarrow> raw_env \<Rightarrow> valid_env \<Rightarrow> joi_key \<Rightarrow> bool" where
  "conforms_key pf raw out key =
     (case key of (name, base, rules) \<Rightarrow>
        (let rs = active_rules out rules
         in (case given rs (raw name) of
               None \<Rightarrow> Required \<notin> set rs \<and> out name = default_of rs
             | Some s \<Rightarrow> out name = Some (converted pf base rs s) \<and> accepts_value pf base rs (converted pf base rs s))))"

definition conforms :: "platform \<Rightarrow> joi_schema \<Rightarrow> raw_env \<Rightarrow> valid_env \<Rightarrow> bool" where
  "conforms pf schema raw out \<longleftrightarrow>
     list_all (conforms_key pf raw out) (js_keys schema) \<and>
     list_all (\<lambda>(a, b). (out a = None) = (out b = None)) (js_and schema)"

type_synonym joi = "joi_schema \<Rightarrow> raw_env \<Rightarrow> valid_env option"

definition joi_laws :: "platform \<Rightarrow> joi \<Rightarrow> bool" where
  "joi_laws pf joi \<longleftrightarrow> (\<forall>schema raw out. joi schema raw = Some out \<longrightarrow> conforms pf schema raw out)"

end
