(* ===== verification/Env_Variables.thy ===== *)
theory Env_Variables
  imports Env_Schema
begin

text \<open>The schema of \<open>src/src/config/env.validation.ts\<close>, variable by variable and in its order.\<close>

definition maxUploadBytes_default :: int where "maxUploadBytes_default = 25 * 1024 * 1024"

definition uploadTtlSeconds_default :: int where "uploadTtlSeconds_default = 24 * 60 * 60"

definition imageMaxPixels_default :: int where "imageMaxPixels_default = 40000000"

definition JWT_SECRET_TEMPLATE :: string where
  "JWT_SECRET_TEMPLATE =
     ''136542716fe8f487721f5e2a3b48574cc3282c086487f28600bda8057f37c92e96c58e64ebe347d29517a2862c6694e2''"

definition number :: "int \<Rightarrow> env_value" where
  "number n = ENum (of_int n)"

definition turnstileSecretKey :: "joi_rule list" where
  "turnstileSecretKey =
     [Trim, EmptyAs [], When ''NODE_ENV'' False [''staging'', ''production'']
        [InvertedPattern TURNSTILE_TEST_SECRET_KEY_PATTERN, Required] []]"

definition refusedInTest :: "string list \<Rightarrow> joi_rule" where
  "refusedInTest realProviders = When ''NODE_ENV'' False [''test''] [Invalid realProviders] []"

definition publicUrlInProduction :: "string \<Rightarrow> joi_rule list" where
  "publicUrlInProduction defaultUrl =
     [Uri [''http'', ''https''], Pattern NoTrailingSlash, Default (EStr defaultUrl),
      When ''NODE_ENV'' False [''production''] [Uri [''https''], Custom PublicHostUrl, Required] []]"

text \<open>A string that is required when the selector has one of the values, and may be empty or unset otherwise.\<close>

definition required_when :: "string \<Rightarrow> string list \<Rightarrow> joi_rule list \<Rightarrow> joi_rule" where
  "required_when key values rules = When key False values (rules @ [Required]) [Allow [[]], Optional]"

definition on_off :: "string \<Rightarrow> joi_rule list" where
  "on_off dflt = [Valid [''true'', ''false''], Allow [[]], Default (EStr dflt)]"

definition integer_between :: "int \<Rightarrow> int \<Rightarrow> int \<Rightarrow> joi_rule list" where
  "integer_between lo hi dflt = [IsInteger, Min lo, Max hi, Default (number dflt)]"

definition service_schema :: "joi_key list" where
  "service_schema =
     [(''NODE_ENV'', JoiString, [Valid [''development'', ''test'', ''staging'', ''production''],
        Default (EStr ''development'')]),
      (''PORT'', JoiNumber, [Default (number 3000)]),
      (''SERVICE_NAME'', JoiString, [Pattern IdentifierPattern, Required]),
      (''API_BASE_URL'', JoiString, publicUrlInProduction ''http://localhost:3000/api''),
      (''WEB_BASE_URL'', JoiString, publicUrlInProduction ''http://localhost:5173'')]"

definition database_schema :: "joi_key list" where
  "database_schema =
     [(''DB_USER'', JoiString, [Required]),
      (''DB_PASSWORD'', JoiString, [Allow [[]], Required]),
      (''DB_HOST'', JoiString, [Hostname, Required]),
      (''DB_PORT'', JoiNumber, [PortNumber, Required]),
      (''DB_NAME'', JoiString, [Pattern IdentifierPattern, Required]),
      (''DATABASE_URL'', JoiString, [Uri [''postgresql'', ''postgres''], Required]),
      (''DATABASE_POOL_MAX'', JoiNumber, integer_between 1 100 10),
      (''DATABASE_CONNECTION_TIMEOUT_MS'', JoiNumber, integer_between 1000 60000 5000),
      (''DATABASE_IDLE_TIMEOUT_MS'', JoiNumber, integer_between 1000 600000 30000)]"

definition redis_schema :: "joi_key list" where
  "redis_schema =
     [(''REDIS_HOST'', JoiString, [Hostname, Required]),
      (''REDIS_PORT'', JoiNumber, [PortNumber, Required]),
      (''REDIS_PASSWORD'', JoiString, [Min 16, Required]),
      (''REDIS_URL'', JoiString, [Uri [''redis'', ''rediss''], Required,
        When ''REDIS_TLS_ENABLED'' False [''true''] [Pattern RedissScheme] [Pattern RedisScheme]]),
      (''REDIS_TLS_ENABLED'', JoiString, on_off ''false''),
      (''REDIS_TLS_CA'', JoiString, [Allow [[]], Optional,
        When ''REDIS_TLS_ENABLED'' False [''false''] [Valid [[]]] []])]"

definition session_schema :: "joi_key list" where
  "session_schema =
     [(''QUEUE_WORKER_ENABLED'', JoiBoolean, [Default (EBool True)]),
      (''QUEUE_WORKER_CONCURRENCY'', JoiNumber, integer_between 1 100 10),
      (''JWT_SECRET'', JoiString, [Min 32, Required, Invalid [JWT_SECRET_TEMPLATE]]),
      (''JWT_EXPIRES_IN'', JoiString, [Default (EStr ''15m'')]),
      (''REFRESH_TOKEN_EXPIRES_IN_DAYS'', JoiNumber, integer_between 1 365 30),
      (''OTEL_EXPORTER_OTLP_ENDPOINT'', JoiString, [Uri [], Allow [[]], Default (EStr [])]),
      (''AUTHORIZATION_GRANTS_CACHE_TTL_SECONDS'', JoiNumber, integer_between 1 3600 300),
      (''TRUST_CLOUDFLARE_HEADERS'', JoiString, on_off ''false''),
      (''TURNSTILE_WEB_SECRET'', JoiString, turnstileSecretKey),
      (''TURNSTILE_MOBILE_SECRET'', JoiString, turnstileSecretKey),
      (''TURNSTILE_WEB_SITE_KEY'', JoiString, [Trim, EmptyAs []]),
      (''WORKSPACE_INVITATION_EXPIRES_IN_DAYS'', JoiNumber, integer_between 1 30 7)]"

definition email_schema :: "joi_key list" where
  "email_schema =
     [(''EMAIL_PROVIDER'', JoiString, [Valid [''stub'', ''resend'', ''mailgun'', ''smtp''], Default (EStr ''stub''),
        When ''NODE_ENV'' False [''production''] [Invalid [''stub'', ''smtp''], Required] [],
        When ''NODE_ENV'' False [''staging''] [Invalid [''smtp'']] [],
        refusedInTest [''resend'', ''mailgun'', ''smtp'']]),
      (''EMAIL_FROM'', JoiString, [required_when ''EMAIL_PROVIDER'' [''resend'', ''mailgun'', ''smtp''] []]),
      (''RESEND_API_KEY'', JoiString, [required_when ''EMAIL_PROVIDER'' [''resend''] []]),
      (''MAILGUN_API_KEY'', JoiString, [required_when ''EMAIL_PROVIDER'' [''mailgun''] []]),
      (''MAILGUN_DOMAIN'', JoiString, [Hostname, required_when ''EMAIL_PROVIDER'' [''mailgun''] []]),
      (''MAILGUN_REGION'', JoiString, [Valid [''us'', ''eu''], Default (EStr ''us'')]),
      (''SMTP_HOST'', JoiString, [Hostname, required_when ''EMAIL_PROVIDER'' [''smtp''] []]),
      (''SMTP_PORT'', JoiNumber, [PortNumber, required_when ''EMAIL_PROVIDER'' [''smtp''] []])]"

definition sms_schema :: "joi_key list" where
  "sms_schema =
     [(''SMS_PROVIDER'', JoiString, [Valid [''stub'', ''twilio''], Default (EStr ''stub''),
        When ''NODE_ENV'' False [''production''] [Invalid [''stub''], Required] [],
        refusedInTest [''twilio'']]),
      (''PHONE_CODE_FIXED'', JoiString, [Pattern PhoneCodePattern, Allow [[]], Optional,
        When ''SMS_PROVIDER'' True [''stub''] [Valid [[]]] []]),
      (''TWILIO_ACCOUNT_SID'', JoiString, [required_when ''SMS_PROVIDER'' [''twilio''] [Pattern TwilioSidPattern]]),
      (''TWILIO_AUTH_TOKEN'', JoiString, [required_when ''SMS_PROVIDER'' [''twilio''] []]),
      (''TWILIO_FROM'', JoiString, [required_when ''SMS_PROVIDER'' [''twilio''] []])]"

definition storage_schema :: "joi_key list" where
  "storage_schema =
     [(''STORAGE_PROVIDER'', JoiString, [Valid [''stub'', ''s3'', ''gcs'', ''azure''], Default (EStr ''stub''),
        refusedInTest [''s3'', ''gcs'', ''azure''],
        When ''NODE_ENV'' False [''production''] [Invalid [''stub''], Required] []]),
      (''STORAGE_SIGNED_URL_TTL_SECONDS'', JoiNumber, integer_between 30 3600 300),
      (''STORAGE_REQUEST_TIMEOUT_MS'', JoiNumber, integer_between 1000 120000 15000),
      (''STORAGE_S3_BUCKET'', JoiString, [required_when ''STORAGE_PROVIDER'' [''s3''] [Min 3]]),
      (''STORAGE_S3_REGION'', JoiString, [Allow [[]], Optional]),
      (''STORAGE_S3_ENDPOINT'', JoiString, [Uri [''http'', ''https''], Allow [[]], Optional]),
      (''STORAGE_S3_FORCE_PATH_STYLE'', JoiString, on_off ''false''),
      (''STORAGE_GCS_BUCKET'', JoiString, [required_when ''STORAGE_PROVIDER'' [''gcs''] [Min 3]]),
      (''STORAGE_GCS_PROJECT_ID'', JoiString, [Allow [[]], Optional]),
      (''STORAGE_AZURE_ACCOUNT_NAME'', JoiString, [required_when ''STORAGE_PROVIDER'' [''azure''] []]),
      (''STORAGE_AZURE_CONTAINER'', JoiString, [required_when ''STORAGE_PROVIDER'' [''azure''] []])]"

definition http_schema :: "joi_key list" where
  "http_schema =
     [(''FILE_UPLOAD_MAX_BYTES'', JoiNumber, integer_between 1024 (100 * 1024 * 1024) maxUploadBytes_default),
      (''FILE_UPLOAD_TTL_SECONDS'', JoiNumber, integer_between 60 (7 * 24 * 60 * 60) uploadTtlSeconds_default),
      (''FILE_IMAGE_MAX_PIXELS'', JoiNumber, integer_between 1 268402689 imageMaxPixels_default),
      (''SWAGGER_ENABLED'', JoiString, on_off ''true''),
      (''CORS_ORIGIN'', JoiString, [Default (EStr ''*''),
        When ''NODE_ENV'' False [''production''] [Invalid [''*''], Required] []]),
      (''EMAIL_VERIFIED_REDIRECT_URL'', JoiString, [Uri [''http'', ''https''], Pattern NoTrailingSlash, Optional]),
      (''PASSWORD_RESET_URL'', JoiString, [Uri [''http'', ''https''], Pattern NoTrailingSlash, Optional]),
      (''THROTTLE_TTL_MS'', JoiNumber, [IsInteger, Min 1000, Default (number 60000)]),
      (''THROTTLE_LIMIT'', JoiNumber, [IsInteger, Min 1, Default (number 100)]),
      (''TRUST_PROXY'', JoiString, [Trim, Default (EStr ''false''), Custom TrustProxyFormat,
        When ''NODE_ENV'' False [''production''] [Invalid [''false''], Required] []])]"

definition mcp_schema :: "joi_key list" where
  "mcp_schema =
     [(''MCP_ALLOWED_ORIGINS'', JoiString, [Allow [[]], Default (EStr []), Custom McpAllowedOriginsFormat]),
      (''MCP_OAUTH_ACCESS_TOKEN_TTL_MINUTES'', JoiNumber, integer_between 5 (24 * 60) 60),
      (''MCP_OAUTH_REFRESH_TOKEN_TTL_DAYS'', JoiNumber, integer_between 1 90 30),
      (''MCP_OAUTH_REDIRECT_DOMAINS'', JoiString, [Allow [[]], Default (EStr []), Custom McpRedirectDomainsFormat])]"

definition envValidationSchema :: joi_schema where
  "envValidationSchema =
     \<lparr>js_keys = service_schema @ database_schema @ redis_schema @ session_schema @ email_schema @ sms_schema @
        storage_schema @ http_schema @ mcp_schema,
      js_and = [(''TURNSTILE_WEB_SECRET'', ''TURNSTILE_MOBILE_SECRET'')]\<rparr>"

end
