(* ===== verification/Configuration.thy ===== *)
theory Configuration
  imports Env_Variables Errors
begin

text \<open>
  The typed configuration: \<open>src/src/config/configuration.ts\<close>, which reads \<open>process.env\<close> as it is, and the Redis
  connection built from it (\<open>src/src/common/util/redis-url.util.ts\<close>, \<open>src/src/common/redis/redis-connection.ts\<close>).
  \<open>undefined\<close> is \<open>None\<close>; so is the \<open>NaN\<close> of \<open>parseInt\<close>.
\<close>

section \<open>Reading variables\<close>

text \<open>\<open>a ?? d\<close>, and \<open>a || undefined\<close> on strings.\<close>

definition nullish :: "'a option \<Rightarrow> 'a \<Rightarrow> 'a" where
  "nullish x d = (case x of None \<Rightarrow> d | Some v \<Rightarrow> v)"

definition or_undefined :: "string option \<Rightarrow> string option" where
  "or_undefined x = (case x of Some s \<Rightarrow> if s = [] then None else Some s | None \<Rightarrow> None)"

definition parse_digits :: "string \<Rightarrow> int option" where
  "parse_digits s =
     (let ds = takeWhile digit s in if ds = [] then None else Some (int (parse_decimal ds)))"

definition parseInt :: "string \<Rightarrow> int option" where
  "parseInt s =
     (case dropWhile white_space s of
        [] \<Rightarrow> None
      | c # cs \<Rightarrow>
          (if c = CHR ''-'' then map_option uminus (parse_digits cs)
           else if c = CHR ''+'' then parse_digits cs
           else parse_digits (c # cs)))"

definition read_int :: "raw_env \<Rightarrow> string \<Rightarrow> string \<Rightarrow> int option" where
  "read_int env key d = parseInt (nullish (env key) d)"

definition reads_as :: "raw_env \<Rightarrow> string \<Rightarrow> string \<Rightarrow> string" where
  "reads_as env key d = to_lower_case (trim (nullish (env key) d))"

section \<open>The configuration\<close>

record database_config =
  dbc_url :: "string option"
  dbc_name :: "string option"
  dbc_pool_max :: "int option"
  dbc_connection_timeout_ms :: "int option"
  dbc_idle_timeout_ms :: "int option"

record redis_config =
  rdc_host :: "string option"
  rdc_port :: "int option"
  rdc_password :: "string option"
  rdc_url :: "string option"
  rdc_tls_is_enabled :: bool
  rdc_tls_certificate_authority :: "string option"

record queue_config =
  qc_is_worker_enabled :: bool
  qc_worker_concurrency :: "int option"

record session_config =
  sc_jwt_secret :: "string option"
  sc_jwt_expires_in :: string
  sc_refresh_expires_in_days :: "int option"
  sc_grants_cache_ttl_seconds :: "int option"
  sc_is_header_trust_enabled :: bool
  sc_invitation_expires_in_days :: "int option"

record turnstile_config =
  tc_web_secret_key :: "string option"
  tc_mobile_secret_key :: "string option"
  tc_web_site_key :: "string option"

record email_config =
  ec_provider :: string
  ec_from :: "string option"
  ec_resend_api_key :: "string option"
  ec_mailgun_api_key :: "string option"
  ec_mailgun_domain :: "string option"
  ec_mailgun_region :: string
  ec_smtp_host :: "string option"
  ec_smtp_port :: "int option"

record sms_config =
  smc_provider :: string
  smc_twilio_account_sid :: "string option"
  smc_twilio_auth_token :: "string option"
  smc_twilio_from :: "string option"
  smc_fixed_code :: "string option"

record storage_config =
  stc_provider :: string
  stc_signed_url_ttl_seconds :: "int option"
  stc_request_timeout_ms :: "int option"
  stc_s3_bucket :: "string option"
  stc_s3_region :: "string option"
  stc_s3_endpoint :: "string option"
  stc_s3_is_path_style_forced :: bool
  stc_gcs_bucket :: "string option"
  stc_gcs_project_id :: "string option"
  stc_azure_account_name :: "string option"
  stc_azure_container :: "string option"

record files_config =
  fc_max_upload_bytes :: "int option"
  fc_upload_ttl_seconds :: "int option"
  fc_image_max_pixels :: "int option"

record mcp_config =
  mc_allowed_origins :: "string list"
  mc_issuer :: "string option"
  mc_resource :: string
  mc_access_token_ttl_seconds :: "int option"
  mc_refresh_token_ttl_seconds :: "int option"
  mc_redirect_origins :: "string list"

record app_config =
  ac_node_env :: string
  ac_service_name :: "string option"
  ac_port :: "int option"
  ac_api_base_url :: string
  ac_web_base_url :: string
  ac_git_sha :: string
  ac_database :: database_config
  ac_redis :: redis_config
  ac_queue :: queue_config
  ac_session :: session_config
  ac_turnstile :: turnstile_config
  ac_email :: email_config
  ac_sms :: sms_config
  ac_storage :: storage_config
  ac_files :: files_config
  ac_swagger_is_enabled :: bool
  ac_cors_origin :: string
  ac_throttle_ttl_ms :: "int option"
  ac_throttle_limit :: "int option"
  ac_trust_proxy :: "string option"
  ac_mcp :: mcp_config
  ac_email_verified_redirect_url :: string
  ac_password_reset_url :: string

text \<open>\<open>false\<close> is \<open>None\<close>.\<close>

definition parseTrustProxy :: "string \<Rightarrow> string option" where
  "parseTrustProxy raw = (if trim raw = ''false'' then None else Some (trim raw))"

definition readApiBaseUrl :: "raw_env \<Rightarrow> string" where
  "readApiBaseUrl env = nullish (env ''API_BASE_URL'') ''http://localhost:3000/api''"

definition parseMcpConfig :: "platform \<Rightarrow> raw_env \<Rightarrow> string \<Rightarrow> mcp_config" where
  "parseMcpConfig pf env apiBaseUrl =
     \<lparr>mc_allowed_origins = nullish (parseMcpAllowedOrigins pf (nullish (env ''MCP_ALLOWED_ORIGINS'') [])) [],
      mc_issuer = map_option url_origin (new_url pf apiBaseUrl),
      mc_resource = without_trailing (CHR ''/'') apiBaseUrl @ ''/mcp'',
      mc_access_token_ttl_seconds = map_option (\<lambda>n. n * 60) (read_int env ''MCP_OAUTH_ACCESS_TOKEN_TTL_MINUTES'' ''60''),
      mc_refresh_token_ttl_seconds =
        map_option (\<lambda>n. n * 24 * 60 * 60) (read_int env ''MCP_OAUTH_REFRESH_TOKEN_TTL_DAYS'' ''30''),
      mc_redirect_origins = nullish (parseMcpRedirectOrigins pf (nullish (env ''MCP_OAUTH_REDIRECT_DOMAINS'') [])) []\<rparr>"

definition read_database :: "raw_env \<Rightarrow> database_config" where
  "read_database env =
     \<lparr>dbc_url = env ''DATABASE_URL'', dbc_name = env ''DB_NAME'',
      dbc_pool_max = read_int env ''DATABASE_POOL_MAX'' ''10'',
      dbc_connection_timeout_ms = read_int env ''DATABASE_CONNECTION_TIMEOUT_MS'' ''5000'',
      dbc_idle_timeout_ms = read_int env ''DATABASE_IDLE_TIMEOUT_MS'' ''30000''\<rparr>"

definition read_redis :: "raw_env \<Rightarrow> redis_config" where
  "read_redis env =
     \<lparr>rdc_host = env ''REDIS_HOST'', rdc_port = Option.bind (env ''REDIS_PORT'') parseInt,
      rdc_password = env ''REDIS_PASSWORD'', rdc_url = env ''REDIS_URL'',
      rdc_tls_is_enabled = (reads_as env ''REDIS_TLS_ENABLED'' ''false'' = ''true''),
      rdc_tls_certificate_authority = or_undefined (env ''REDIS_TLS_CA'')\<rparr>"

definition read_queue :: "raw_env \<Rightarrow> queue_config" where
  "read_queue env =
     \<lparr>qc_is_worker_enabled = (reads_as env ''QUEUE_WORKER_ENABLED'' ''true'' \<noteq> ''false''),
      qc_worker_concurrency = read_int env ''QUEUE_WORKER_CONCURRENCY'' ''10''\<rparr>"

definition read_session :: "raw_env \<Rightarrow> session_config" where
  "read_session env =
     \<lparr>sc_jwt_secret = env ''JWT_SECRET'', sc_jwt_expires_in = nullish (env ''JWT_EXPIRES_IN'') ''15m'',
      sc_refresh_expires_in_days = read_int env ''REFRESH_TOKEN_EXPIRES_IN_DAYS'' ''30'',
      sc_grants_cache_ttl_seconds = read_int env ''AUTHORIZATION_GRANTS_CACHE_TTL_SECONDS'' ''300'',
      sc_is_header_trust_enabled = (env ''TRUST_CLOUDFLARE_HEADERS'' = Some ''true''),
      sc_invitation_expires_in_days = read_int env ''WORKSPACE_INVITATION_EXPIRES_IN_DAYS'' ''7''\<rparr>"

definition read_turnstile :: "raw_env \<Rightarrow> turnstile_config" where
  "read_turnstile env =
     \<lparr>tc_web_secret_key = or_undefined (map_option trim (env ''TURNSTILE_WEB_SECRET'')),
      tc_mobile_secret_key = or_undefined (map_option trim (env ''TURNSTILE_MOBILE_SECRET'')),
      tc_web_site_key = or_undefined (map_option trim (env ''TURNSTILE_WEB_SITE_KEY''))\<rparr>"

definition read_email :: "raw_env \<Rightarrow> email_config" where
  "read_email env =
     \<lparr>ec_provider = nullish (env ''EMAIL_PROVIDER'') ''stub'', ec_from = env ''EMAIL_FROM'',
      ec_resend_api_key = env ''RESEND_API_KEY'', ec_mailgun_api_key = or_undefined (env ''MAILGUN_API_KEY''),
      ec_mailgun_domain = or_undefined (env ''MAILGUN_DOMAIN''),
      ec_mailgun_region = nullish (or_undefined (env ''MAILGUN_REGION'')) ''us'',
      ec_smtp_host = or_undefined (env ''SMTP_HOST''),
      ec_smtp_port = Option.bind (or_undefined (env ''SMTP_PORT'')) parseInt\<rparr>"

definition read_sms :: "raw_env \<Rightarrow> sms_config" where
  "read_sms env =
     \<lparr>smc_provider = nullish (env ''SMS_PROVIDER'') ''stub'',
      smc_twilio_account_sid = or_undefined (env ''TWILIO_ACCOUNT_SID''),
      smc_twilio_auth_token = or_undefined (env ''TWILIO_AUTH_TOKEN''),
      smc_twilio_from = or_undefined (env ''TWILIO_FROM''),
      smc_fixed_code = or_undefined (env ''PHONE_CODE_FIXED'')\<rparr>"

definition read_storage :: "raw_env \<Rightarrow> storage_config" where
  "read_storage env =
     \<lparr>stc_provider = nullish (env ''STORAGE_PROVIDER'') ''stub'',
      stc_signed_url_ttl_seconds = read_int env ''STORAGE_SIGNED_URL_TTL_SECONDS'' ''300'',
      stc_request_timeout_ms = read_int env ''STORAGE_REQUEST_TIMEOUT_MS'' ''15000'',
      stc_s3_bucket = or_undefined (env ''STORAGE_S3_BUCKET''), stc_s3_region = or_undefined (env ''STORAGE_S3_REGION''),
      stc_s3_endpoint = or_undefined (env ''STORAGE_S3_ENDPOINT''),
      stc_s3_is_path_style_forced = (reads_as env ''STORAGE_S3_FORCE_PATH_STYLE'' ''false'' = ''true''),
      stc_gcs_bucket = or_undefined (env ''STORAGE_GCS_BUCKET''),
      stc_gcs_project_id = or_undefined (env ''STORAGE_GCS_PROJECT_ID''),
      stc_azure_account_name = or_undefined (env ''STORAGE_AZURE_ACCOUNT_NAME''),
      stc_azure_container = or_undefined (env ''STORAGE_AZURE_CONTAINER'')\<rparr>"

definition read_files :: "raw_env \<Rightarrow> files_config" where
  "read_files env =
     \<lparr>fc_max_upload_bytes = read_int env ''FILE_UPLOAD_MAX_BYTES'' (decimal (nat maxUploadBytes_default)),
      fc_upload_ttl_seconds = read_int env ''FILE_UPLOAD_TTL_SECONDS'' (decimal (nat uploadTtlSeconds_default)),
      fc_image_max_pixels = read_int env ''FILE_IMAGE_MAX_PIXELS'' (decimal (nat imageMaxPixels_default))\<rparr>"

definition configuration :: "platform \<Rightarrow> raw_env \<Rightarrow> app_config" where
  "configuration pf env =
     \<lparr>ac_node_env = nullish (env ''NODE_ENV'') ''development'', ac_service_name = env ''SERVICE_NAME'',
      ac_port = read_int env ''PORT'' ''3000'', ac_api_base_url = readApiBaseUrl env,
      ac_web_base_url = nullish (env ''WEB_BASE_URL'') ''http://localhost:5173'',
      ac_git_sha = nullish (env ''GIT_SHA'') ''unknown'',
      ac_database = read_database env, ac_redis = read_redis env, ac_queue = read_queue env,
      ac_session = read_session env, ac_turnstile = read_turnstile env, ac_email = read_email env,
      ac_sms = read_sms env, ac_storage = read_storage env, ac_files = read_files env,
      ac_swagger_is_enabled =
        (nullish (env ''NODE_ENV'') ''development'' \<noteq> ''production'' \<and>
         reads_as env ''SWAGGER_ENABLED'' ''true'' \<noteq> ''false''),
      ac_cors_origin = nullish (env ''CORS_ORIGIN'') ''*'',
      ac_throttle_ttl_ms = read_int env ''THROTTLE_TTL_MS'' ''60000'',
      ac_throttle_limit = read_int env ''THROTTLE_LIMIT'' ''100'',
      ac_trust_proxy = parseTrustProxy (nullish (env ''TRUST_PROXY'') ''false''),
      ac_mcp = parseMcpConfig pf env (readApiBaseUrl env),
      ac_email_verified_redirect_url =
        nullish (env ''EMAIL_VERIFIED_REDIRECT_URL'')
          (nullish (env ''WEB_BASE_URL'') ''http://localhost:5173'' @ ''/auth/verify-email''),
      ac_password_reset_url =
        nullish (env ''PASSWORD_RESET_URL'')
          (nullish (env ''WEB_BASE_URL'') ''http://localhost:5173'' @ ''/auth/reset-password'')\<rparr>"

section \<open>The Redis connection\<close>

record parsed_redis_url =
  pr_host :: string
  pr_port :: "int option"
  pr_username :: "string option"
  pr_password :: "string option"
  pr_db :: "int option"
  pr_is_secure_scheme :: bool

text \<open>\<open>^([a-z][a-z0-9+.-]*:\/{0,2})[^@]*@\<close> without regard to case: what the pattern matches at the front is replaced.\<close>

definition scheme_char :: "char \<Rightarrow> bool" where
  "scheme_char c \<longleftrightarrow> lower_letter (lower_char c) \<or> digit c \<or> c = CHR ''+'' \<or> c = CHR ''.'' \<or> c = CHR ''-''"

definition redactRedisUrl :: "string \<Rightarrow> string" where
  "redactRedisUrl url =
     (let scheme = takeWhile scheme_char url; rest = dropWhile scheme_char url
      in (case rest of
            [] \<Rightarrow> url
          | c # after \<Rightarrow>
              (if scheme \<noteq> [] \<and> lower_letter (lower_char (hd scheme)) \<and> c = CHR '':'' \<and> CHR ''@'' \<in> set after
               then scheme @ '':'' @ takeWhile (\<lambda>x. x = CHR ''/'') (take 2 after) @ ''***'' @
                 dropWhile (\<lambda>x. x \<noteq> CHR ''@'') after
               else url)))"

definition some_text :: "string \<Rightarrow> string option" where
  "some_text s = (if s = [] then None else Some s)"

definition parseRedisUrl :: "platform \<Rightarrow> string \<Rightarrow> exn + parsed_redis_url" where
  "parseRedisUrl pf url =
     (case new_url pf url of
        None \<Rightarrow> Inl (JsError (''Invalid Redis URL: '' @ redactRedisUrl url))
      | Some parsedUrl \<Rightarrow>
          (if url_protocol parsedUrl \<noteq> ''redis:'' \<and> url_protocol parsedUrl \<noteq> ''rediss:''
           then Inl (JsError (''Invalid Redis URL scheme '' @ url_protocol parsedUrl))
           else (let path = url_pathname parsedUrl;
                     databaseSegment = (case path of [] \<Rightarrow> [] | c # cs \<Rightarrow> if c = CHR ''/'' then cs else path)
                 in if databaseSegment \<noteq> [] \<and> \<not> list_all digit databaseSegment
                    then Inl (JsError (''Invalid Redis logical database index in URL: '' @ redactRedisUrl url))
                    else (case (decodeURIComponent pf (url_username parsedUrl), decodeURIComponent pf (url_password parsedUrl)) of
                        (Some username, Some password) \<Rightarrow>
                          Inr \<lparr>pr_host = url_hostname parsedUrl,
                               pr_port = (if url_port parsedUrl = [] then Some 6379 else parseInt (url_port parsedUrl)),
                               pr_username = some_text username, pr_password = some_text password,
                               pr_db = (if databaseSegment = [] then Some 0 else parseInt databaseSegment),
                               pr_is_secure_scheme = (url_protocol parsedUrl = ''rediss:'')\<rparr>
                      | _ \<Rightarrow> Inl (JsError (''Invalid percent-encoding in the credentials of Redis URL: '' @
                               redactRedisUrl url))))))"

fun unescape_newlines :: "string \<Rightarrow> string" where
  "unescape_newlines (a # b # cs) =
     (if a = CHR 0x5C \<and> b = CHR ''n'' then CHR 0x0A # unescape_newlines cs else a # unescape_newlines (b # cs))"
| "unescape_newlines cs = cs"

definition normalizeCertificateAuthority :: "string \<Rightarrow> string" where
  "normalizeCertificateAuthority ca = trim (unescape_newlines ca)"

definition PEM_CERTIFICATE_HEADER :: string where
  "PEM_CERTIFICATE_HEADER = ''-----BEGIN CERTIFICATE-----''"

fun contains :: "string \<Rightarrow> string \<Rightarrow> bool" where
  "contains [] needle = (needle = [])"
| "contains (c # cs) needle = (starts_with needle (c # cs) \<or> contains cs needle)"

record redis_tls =
  tls_ca :: "string option"
  tls_reject_unauthorized :: bool

record redis_options =
  ro_url :: parsed_redis_url
  ro_tls :: "redis_tls option"

definition buildRedisTransportOptions ::
  "platform \<Rightarrow> string \<Rightarrow> bool \<Rightarrow> string option \<Rightarrow> exn + redis_options" where
  "buildRedisTransportOptions pf redisUrl isEnabled certificateAuthority =
     bindE (parseRedisUrl pf redisUrl) (\<lambda>parsedUrl.
     (if isEnabled \<and> \<not> pr_is_secure_scheme parsedUrl
      then Inl (JsError (''REDIS_TLS_ENABLED is true but REDIS_URL is plaintext: '' @ redactRedisUrl redisUrl))
      else if \<not> isEnabled \<and> pr_is_secure_scheme parsedUrl
      then Inl (JsError (''REDIS_URL uses rediss but REDIS_TLS_ENABLED is false: '' @ redactRedisUrl redisUrl))
      else if \<not> pr_is_secure_scheme parsedUrl then Inr \<lparr>ro_url = parsedUrl, ro_tls = None\<rparr>
      else (let ca = map_option normalizeCertificateAuthority (or_undefined certificateAuthority)
            in if (case or_undefined ca of None \<Rightarrow> False | Some pem \<Rightarrow> \<not> contains pem PEM_CERTIFICATE_HEADER)
               then Inl (JsError ''REDIS_TLS_CA is set but is not a PEM certificate'')
               else Inr \<lparr>ro_url = parsedUrl,
                  ro_tls = Some \<lparr>tls_ca = or_undefined ca, tls_reject_unauthorized = True\<rparr>\<rparr>)))"

definition buildRedisConnectionOptions :: "platform \<Rightarrow> redis_config \<Rightarrow> exn + redis_options" where
  "buildRedisConnectionOptions pf config =
     bindE (requireE (rdc_url config) (JsError ''redis.url'')) (\<lambda>url.
     buildRedisTransportOptions pf url (rdc_tls_is_enabled config) (rdc_tls_certificate_authority config))"

end
