(* ===== verification/Config_Properties.thy ===== *)
theory Config_Properties
  imports Configuration
begin

text \<open>
  What a process that passed validation can rely on: a production floor no default can undercut, a test run that
  cannot reach a provider, a configuration with the types it declares, and a Redis connection that is encrypted
  exactly when it was said to be.
\<close>

section \<open>Reading the schema\<close>

lemma schema_groups:
  assumes "joi_laws pf joi" and "joi envValidationSchema raw = Some out"
  shows "list_all (conforms_key pf raw out) service_schema" "list_all (conforms_key pf raw out) database_schema"
    "list_all (conforms_key pf raw out) redis_schema" "list_all (conforms_key pf raw out) session_schema"
    "list_all (conforms_key pf raw out) email_schema" "list_all (conforms_key pf raw out) sms_schema"
    "list_all (conforms_key pf raw out) storage_schema" "list_all (conforms_key pf raw out) http_schema"
proof -
  have "conforms pf envValidationSchema raw out" using assms by (simp add: joi_laws_def)
  then have "list_all (conforms_key pf raw out) (js_keys envValidationSchema)" by (simp add: conforms_def)
  then show "list_all (conforms_key pf raw out) service_schema" "list_all (conforms_key pf raw out) database_schema"
    "list_all (conforms_key pf raw out) redis_schema" "list_all (conforms_key pf raw out) session_schema"
    "list_all (conforms_key pf raw out) email_schema" "list_all (conforms_key pf raw out) sms_schema"
    "list_all (conforms_key pf raw out) storage_schema" "list_all (conforms_key pf raw out) http_schema"
    by (simp_all add: envValidationSchema_def)
qed

lemmas reading = conforms_key_def given_def converted_def accepts_value_def listed_def refusedInTest_def
  required_when_def publicUrlInProduction_def turnstileSecretKey_def integer_between_def on_off_def

lemma conforms_member: "list_all (conforms_key pf raw out) ks \<Longrightarrow> key \<in> set ks \<Longrightarrow> conforms_key pf raw out key"
  by (simp add: list_all_iff)

text \<open>A string variable, by whether it is set, may be missing, and is trimmed.\<close>

lemma given_value:
  assumes "conforms_key pf raw out (k, b, rules)" and "active_rules out rules = rs" and "raw k = Some s"
    and "EmptyAs (if Trim \<in> set rs then trim s else s) \<notin> set rs"
  shows "out k = Some (converted pf b rs s) \<and> accepts_value pf b rs (converted pf b rs s)"
  using assms by (simp add: conforms_key_def given_def Let_def)

lemma missing_value:
  assumes "conforms_key pf raw out (k, b, rules)" and "active_rules out rules = rs" and "raw k = None"
  shows "Required \<notin> set rs \<and> out k = default_of rs"
  using assms by (simp add: conforms_key_def given_def Let_def)

lemma required_string:
  assumes "conforms_key pf raw out (k, JoiString, rules)" and "active_rules out rules = rs" and "Required \<in> set rs"
    and "Trim \<notin> set rs" and "\<And>t. EmptyAs t \<notin> set rs"
  shows "\<exists>s. raw k = Some s \<and> out k = Some (EStr s) \<and> accepts_value pf JoiString rs (EStr s)"
proof (cases "raw k")
  case None
  from missing_value [OF assms(1,2) None] assms(3) show ?thesis by simp
next
  case (Some s)
  from given_value [OF assms(1,2) Some] assms(4,5) Some show ?thesis by (simp add: converted_def)
qed

lemma optional_string:
  assumes "conforms_key pf raw out (k, JoiString, rules)" and "active_rules out rules = rs"
    and "Trim \<notin> set rs" and "\<And>t. EmptyAs t \<notin> set rs" and "raw k = Some s"
  shows "out k = Some (EStr s) \<and> accepts_value pf JoiString rs (EStr s)"
  using given_value [OF assms(1,2,5)] assms(3,4) by (simp add: converted_def)

lemma required_trimmed:
  assumes "conforms_key pf raw out (k, JoiString, rules)" and "active_rules out rules = rs" and "Required \<in> set rs"
    and "Trim \<in> set rs"
  shows "\<exists>s. raw k = Some s \<and> EmptyAs (trim s) \<notin> set rs \<and> accepts_value pf JoiString rs (EStr (trim s))"
proof (cases "raw k")
  case None
  from missing_value [OF assms(1,2) None] assms(3) show ?thesis by simp
next
  case (Some s)
  show ?thesis
  proof (cases "EmptyAs (trim s) \<in> set rs")
    case True
    with assms Some show ?thesis by (simp add: conforms_key_def given_def Let_def)
  next
    case False
    from given_value [OF assms(1,2) Some] assms(4) False Some show ?thesis by (simp add: converted_def)
  qed
qed

lemma not_invalid: "accepts_value pf b rs (EStr s) \<Longrightarrow> s \<notin> set (listed invalid_of rs)"
  by (simp add: accepts_value_def)

lemma one_of: "accepts_value pf b rs (EStr s) \<Longrightarrow> list_ex restricts rs \<Longrightarrow> s \<in> set (listed allowed_of rs)"
  by (auto simp: accepts_value_def)

lemma obeys:
  "accepts_value pf b rs (EStr s) \<Longrightarrow> s \<notin> set (listed allowed_of rs) \<Longrightarrow> r \<in> set rs \<Longrightarrow> rule_holds pf (EStr s) r"
  by (auto simp: accepts_value_def list_all_iff)

lemma environment_name:
  assumes "list_all (conforms_key pf raw out) service_schema" and "raw ''NODE_ENV'' = Some e"
  shows "out ''NODE_ENV'' = Some (EStr e)"
proof -
  let ?rules = "[Valid [''development'', ''test'', ''staging'', ''production''], Default (EStr ''development'')]"
  have c: "conforms_key pf raw out (''NODE_ENV'', JoiString, ?rules)"
    by (rule conforms_member [OF assms(1)]) (simp add: service_schema_def)
  have "active_rules out ?rules = ?rules" by simp
  with c show ?thesis using optional_string [of pf raw out "''NODE_ENV''" ?rules ?rules] assms(2) by simp
qed

section \<open>The production floor\<close>

text \<open>One lemma per variable that production judges.\<close>

lemma email_in_production:
  assumes "list_all (conforms_key pf raw out) email_schema" and "out ''NODE_ENV'' = Some (EStr ''production'')"
  shows "\<exists>s \<in> {''resend'', ''mailgun''}. raw ''EMAIL_PROVIDER'' = Some s"
proof -
  let ?rules = "[Valid [''stub'', ''resend'', ''mailgun'', ''smtp''], Default (EStr ''stub''),
        When ''NODE_ENV'' False [''production''] [Invalid [''stub'', ''smtp''], Required] [],
        When ''NODE_ENV'' False [''staging''] [Invalid [''smtp'']] [],
        refusedInTest [''resend'', ''mailgun'', ''smtp'']]"
    and ?rs = "[Valid [''stub'', ''resend'', ''mailgun'', ''smtp''], Default (EStr ''stub''),
      Invalid [''stub'', ''smtp''], Required]"
  have "conforms_key pf raw out (''EMAIL_PROVIDER'', JoiString, ?rules)"
    by (rule conforms_member [OF assms(1)]) (simp add: email_schema_def)
  moreover have "active_rules out ?rules = ?rs" using assms(2) by (simp add: refusedInTest_def)
  ultimately obtain s where "raw ''EMAIL_PROVIDER'' = Some s" and a: "accepts_value pf JoiString ?rs (EStr s)"
    using required_string [of pf raw out "''EMAIL_PROVIDER''" ?rules ?rs] by auto
  with one_of [OF a] not_invalid [OF a] show ?thesis by (auto simp: listed_def)
qed

lemma sms_in_production:
  assumes "list_all (conforms_key pf raw out) sms_schema" and "out ''NODE_ENV'' = Some (EStr ''production'')"
  shows "raw ''SMS_PROVIDER'' = Some ''twilio'' \<and> out ''SMS_PROVIDER'' = Some (EStr ''twilio'')"
proof -
  let ?rules = "[Valid [''stub'', ''twilio''], Default (EStr ''stub''),
        When ''NODE_ENV'' False [''production''] [Invalid [''stub''], Required] [],
        refusedInTest [''twilio'']]"
    and ?rs = "[Valid [''stub'', ''twilio''], Default (EStr ''stub''), Invalid [''stub''], Required]"
  have "conforms_key pf raw out (''SMS_PROVIDER'', JoiString, ?rules)"
    by (rule conforms_member [OF assms(1)]) (simp add: sms_schema_def)
  moreover have "active_rules out ?rules = ?rs" using assms(2) by (simp add: refusedInTest_def)
  ultimately obtain s where "raw ''SMS_PROVIDER'' = Some s" "out ''SMS_PROVIDER'' = Some (EStr s)"
    and a: "accepts_value pf JoiString ?rs (EStr s)"
    using required_string [of pf raw out "''SMS_PROVIDER''" ?rules ?rs] by auto
  with one_of [OF a] not_invalid [OF a] show ?thesis by (auto simp: listed_def)
qed

lemma fixed_code_refused:
  assumes "list_all (conforms_key pf raw out) sms_schema" and "out ''SMS_PROVIDER'' = Some (EStr ''twilio'')"
  shows "or_undefined (raw ''PHONE_CODE_FIXED'') = None"
proof (cases "raw ''PHONE_CODE_FIXED''")
  case (Some s)
  let ?rules = "[Pattern PhoneCodePattern, Allow [[]], Optional, When ''SMS_PROVIDER'' True [''stub''] [Valid [[]]] []]"
    and ?rs = "[Pattern PhoneCodePattern, Allow [[]], Optional, Valid [[]]]"
  have "conforms_key pf raw out (''PHONE_CODE_FIXED'', JoiString, ?rules)"
    by (rule conforms_member [OF assms(1)]) (simp add: sms_schema_def)
  moreover have "active_rules out ?rules = ?rs" using assms(2) by simp
  ultimately have "accepts_value pf JoiString ?rs (EStr s)" using optional_string [of pf raw out "''PHONE_CODE_FIXED''" ?rules ?rs] Some by simp
  from one_of [OF this] Some show ?thesis by (simp add: listed_def or_undefined_def)
qed (simp add: or_undefined_def)

lemma storage_in_production:
  assumes "list_all (conforms_key pf raw out) storage_schema" and "out ''NODE_ENV'' = Some (EStr ''production'')"
  shows "\<exists>s \<in> {''s3'', ''gcs'', ''azure''}. raw ''STORAGE_PROVIDER'' = Some s"
proof -
  let ?rules = "[Valid [''stub'', ''s3'', ''gcs'', ''azure''], Default (EStr ''stub''),
        refusedInTest [''s3'', ''gcs'', ''azure''],
        When ''NODE_ENV'' False [''production''] [Invalid [''stub''], Required] []]"
    and ?rs = "[Valid [''stub'', ''s3'', ''gcs'', ''azure''], Default (EStr ''stub''), Invalid [''stub''], Required]"
  have "conforms_key pf raw out (''STORAGE_PROVIDER'', JoiString, ?rules)"
    by (rule conforms_member [OF assms(1)]) (simp add: storage_schema_def)
  moreover have "active_rules out ?rules = ?rs" using assms(2) by (simp add: refusedInTest_def)
  ultimately obtain s where "raw ''STORAGE_PROVIDER'' = Some s" and a: "accepts_value pf JoiString ?rs (EStr s)"
    using required_string [of pf raw out "''STORAGE_PROVIDER''" ?rules ?rs] by auto
  with one_of [OF a] not_invalid [OF a] show ?thesis by (auto simp: listed_def)
qed

lemma turnstile_required:
  assumes "list_all (conforms_key pf raw out) session_schema" and "out ''NODE_ENV'' \<in> {Some (EStr ''staging''), Some (EStr ''production'')}"
    and "k \<in> {''TURNSTILE_WEB_SECRET'', ''TURNSTILE_MOBILE_SECRET''}"
  shows "\<exists>s. or_undefined (map_option trim (raw k)) = Some s \<and> \<not> turnstile_test_secret s"
proof -
  let ?rs = "[Trim, EmptyAs [], InvertedPattern TURNSTILE_TEST_SECRET_KEY_PATTERN, Required]"
  have "conforms_key pf raw out (k, JoiString, turnstileSecretKey)"
    using assms(3) by (intro conforms_member [OF assms(1)]) (auto simp: session_schema_def)
  moreover have "active_rules out turnstileSecretKey = ?rs" using assms(2) by (auto simp: turnstileSecretKey_def)
  ultimately obtain s where s: "raw k = Some s" "trim s \<noteq> []" and a: "accepts_value pf JoiString ?rs (EStr (trim s))"
    using required_trimmed [of pf raw out k turnstileSecretKey ?rs] by auto
  from obeys [OF a, of "InvertedPattern TURNSTILE_TEST_SECRET_KEY_PATTERN"] s show ?thesis
    by (simp add: or_undefined_def listed_def)
qed

lemma origin_in_production:
  assumes "list_all (conforms_key pf raw out) http_schema" and "out ''NODE_ENV'' = Some (EStr ''production'')"
  shows "\<exists>s. raw ''CORS_ORIGIN'' = Some s \<and> s \<noteq> ''*''"
    and "\<exists>s. parseTrustProxy (nullish (raw ''TRUST_PROXY'') ''false'') = Some s \<and> isTrustedProxyList pf s"
proof -
  let ?cors = "[Default (EStr ''*''), When ''NODE_ENV'' False [''production''] [Invalid [''*''], Required] []]"
    and ?crs = "[Default (EStr ''*''), Invalid [''*''], Required]"
  have "conforms_key pf raw out (''CORS_ORIGIN'', JoiString, ?cors)"
    by (rule conforms_member [OF assms(1)]) (simp add: http_schema_def)
  moreover have "active_rules out ?cors = ?crs" using assms(2) by simp
  ultimately show "\<exists>s. raw ''CORS_ORIGIN'' = Some s \<and> s \<noteq> ''*''"
    using required_string [of pf raw out "''CORS_ORIGIN''" ?cors ?crs] by (auto dest!: not_invalid simp: listed_def)
  let ?proxy = "[Trim, Default (EStr ''false''), Custom TrustProxyFormat,
        When ''NODE_ENV'' False [''production''] [Invalid [''false''], Required] []]"
    and ?prs = "[Trim, Default (EStr ''false''), Custom TrustProxyFormat, Invalid [''false''], Required]"
  have "conforms_key pf raw out (''TRUST_PROXY'', JoiString, ?proxy)"
    by (rule conforms_member [OF assms(1)]) (simp add: http_schema_def)
  moreover have "active_rules out ?proxy = ?prs" using assms(2) by simp
  ultimately obtain s where s: "raw ''TRUST_PROXY'' = Some s" and a: "accepts_value pf JoiString ?prs (EStr (trim s))"
    using required_trimmed [of pf raw out "''TRUST_PROXY''" ?proxy ?prs] by auto
  from not_invalid [OF a] obeys [OF a, of "Custom TrustProxyFormat"] s
  show "\<exists>s. parseTrustProxy (nullish (raw ''TRUST_PROXY'') ''false'') = Some s \<and> isTrustedProxyList pf s"
    by (auto simp: parseTrustProxy_def nullish_def listed_def)
qed

lemma public_url_in_production:
  assumes "list_all (conforms_key pf raw out) service_schema" and "out ''NODE_ENV'' = Some (EStr ''production'')"
    and "(k, d) \<in> {(''API_BASE_URL'', ''http://localhost:3000/api''), (''WEB_BASE_URL'', ''http://localhost:5173'')}"
  shows "\<exists>s. raw k = Some s \<and> isPublicHostUrl pf s \<and> joi_uri pf [''https''] s"
proof -
  let ?rs = "[Uri [''http'', ''https''], Pattern NoTrailingSlash, Default (EStr d), Uri [''https''], Custom PublicHostUrl, Required]"
  have "conforms_key pf raw out (k, JoiString, publicUrlInProduction d)"
    using assms(3) by (intro conforms_member [OF assms(1)]) (auto simp: service_schema_def)
  moreover have "active_rules out (publicUrlInProduction d) = ?rs" using assms(2) by (simp add: publicUrlInProduction_def)
  ultimately obtain s where s: "raw k = Some s" and a: "accepts_value pf JoiString ?rs (EStr s)"
    using required_string [of pf raw out k "publicUrlInProduction d" ?rs] by auto
  from obeys [OF a, of "Uri [''https'']"] obeys [OF a, of "Custom PublicHostUrl"] s show ?thesis
    by (simp add: listed_def)
qed

text \<open>The two pages mails link to are derived from the web app's URL unless a variable names another page, which
  may be any http or https URL.\<close>

lemma mailed_page:
  assumes "list_all (conforms_key pf raw out) http_schema"
    and "k \<in> {''EMAIL_VERIFIED_REDIRECT_URL'', ''PASSWORD_RESET_URL''}" and "raw k = Some u"
  shows "joi_uri pf [''http'', ''https''] u"
proof -
  let ?rules = "[Uri [''http'', ''https''], Pattern NoTrailingSlash, Optional]"
  have "conforms_key pf raw out (k, JoiString, ?rules)"
    using assms(2) by (intro conforms_member [OF assms(1)]) (auto simp: http_schema_def)
  then have "accepts_value pf JoiString ?rules (EStr u)"
    using optional_string [of pf raw out k ?rules ?rules] assms(3) by simp
  from obeys [OF this, of "Uri [''http'', ''https'']"] show ?thesis by (simp add: listed_def)
qed

text \<open>C39: no default and no placeholder survives into production: a process that boots there has a real email, SMS and
  storage provider, a Turnstile secret per widget that is no published test secret, no fixed phone code, an explicit CORS
  origin, named proxy hops, its own base URL and the web app's on a public https host, and no Swagger document.  The
  pages that reset and verification mails link to are on the web app's URL unless a variable names another, which
  only has to be an http or https URL (\<open>local_reset_link_accepted\<close>).\<close>

theorem production_floor:
  assumes "joi_laws pf joi" and "joi envValidationSchema raw = Some out" and "raw ''NODE_ENV'' = Some ''production''"
    and "configuration pf raw = config"
  shows "ec_provider (ac_email config) \<in> {''resend'', ''mailgun''} \<and> smc_provider (ac_sms config) = ''twilio'' \<and>
    smc_fixed_code (ac_sms config) = None \<and> stc_provider (ac_storage config) \<in> {''s3'', ''gcs'', ''azure''} \<and>
    (\<exists>web mobile. tc_web_secret_key (ac_turnstile config) = Some web \<and> \<not> turnstile_test_secret web \<and>
      tc_mobile_secret_key (ac_turnstile config) = Some mobile \<and> \<not> turnstile_test_secret mobile) \<and>
    ac_cors_origin config \<noteq> ''*'' \<and> (\<exists>hops. ac_trust_proxy config = Some hops \<and> isTrustedProxyList pf hops) \<and>
    isPublicHostUrl pf (ac_api_base_url config) \<and> joi_uri pf [''https''] (ac_api_base_url config) \<and>
    isPublicHostUrl pf (ac_web_base_url config) \<and> joi_uri pf [''https''] (ac_web_base_url config) \<and>
    \<not> ac_swagger_is_enabled config \<and>
    (case raw ''PASSWORD_RESET_URL'' of
       None \<Rightarrow> ac_password_reset_url config = ac_web_base_url config @ ''/auth/reset-password''
     | Some u \<Rightarrow> ac_password_reset_url config = u \<and> joi_uri pf [''http'', ''https''] u) \<and>
    (case raw ''EMAIL_VERIFIED_REDIRECT_URL'' of
       None \<Rightarrow> ac_email_verified_redirect_url config = ac_web_base_url config @ ''/auth/verify-email''
     | Some u \<Rightarrow> ac_email_verified_redirect_url config = u \<and> joi_uri pf [''http'', ''https''] u)"
proof -
  note groups = schema_groups [OF assms(1,2)]
  have env: "out ''NODE_ENV'' = Some (EStr ''production'')" by (rule environment_name [OF groups(1) assms(3)])
  then have env2: "out ''NODE_ENV'' \<in> {Some (EStr ''staging''), Some (EStr ''production'')}" by simp
  obtain web where web: "or_undefined (map_option trim (raw ''TURNSTILE_WEB_SECRET'')) = Some web"
      "\<not> turnstile_test_secret web"
    using turnstile_required [OF groups(4) env2, of "''TURNSTILE_WEB_SECRET''"] by auto
  obtain mobile where mobile: "or_undefined (map_option trim (raw ''TURNSTILE_MOBILE_SECRET'')) = Some mobile"
      "\<not> turnstile_test_secret mobile"
    using turnstile_required [OF groups(4) env2, of "''TURNSTILE_MOBILE_SECRET''"] by auto
  obtain api where api: "raw ''API_BASE_URL'' = Some api" "isPublicHostUrl pf api" "joi_uri pf [''https''] api"
    using public_url_in_production [OF groups(1) env, of "''API_BASE_URL''"] by auto
  obtain site where site: "raw ''WEB_BASE_URL'' = Some site" "isPublicHostUrl pf site" "joi_uri pf [''https''] site"
    using public_url_in_production [OF groups(1) env, of "''WEB_BASE_URL''"] by auto
  obtain hops where hops: "parseTrustProxy (nullish (raw ''TRUST_PROXY'') ''false'') = Some hops" "isTrustedProxyList pf hops"
    using origin_in_production(2) [OF groups(8) env] by blast
  obtain origin where origin: "raw ''CORS_ORIGIN'' = Some origin" "origin \<noteq> ''*''"
    using origin_in_production(1) [OF groups(8) env] by blast
  obtain email where email: "raw ''EMAIL_PROVIDER'' = Some email" "email \<in> {''resend'', ''mailgun''}"
    using email_in_production [OF groups(5) env] by blast
  obtain storage where storage: "raw ''STORAGE_PROVIDER'' = Some storage" "storage \<in> {''s3'', ''gcs'', ''azure''}"
    using storage_in_production [OF groups(7) env] by blast
  have sms: "raw ''SMS_PROVIDER'' = Some ''twilio''" and code: "or_undefined (raw ''PHONE_CODE_FIXED'') = None"
    using sms_in_production [OF groups(6) env] fixed_code_refused [OF groups(6)] by blast+
  have config: "ec_provider (ac_email config) = email" "smc_provider (ac_sms config) = ''twilio''"
    "smc_fixed_code (ac_sms config) = None" "stc_provider (ac_storage config) = storage"
    "tc_web_secret_key (ac_turnstile config) = Some web" "tc_mobile_secret_key (ac_turnstile config) = Some mobile"
    "ac_cors_origin config = origin" "ac_trust_proxy config = Some hops" "ac_api_base_url config = api"
    "ac_web_base_url config = site" "\<not> ac_swagger_is_enabled config"
    using web(1) mobile(1) api(1) site(1) hops(1) origin(1) email(1) storage(1) sms code assms(3)
    by (simp_all add: assms(4) [symmetric] configuration_def read_email_def read_sms_def read_storage_def
        read_turnstile_def readApiBaseUrl_def nullish_def)
  have reset: "case raw ''PASSWORD_RESET_URL'' of
      None \<Rightarrow> ac_password_reset_url config = site @ ''/auth/reset-password''
    | Some u \<Rightarrow> ac_password_reset_url config = u \<and> joi_uri pf [''http'', ''https''] u"
    using mailed_page [OF groups(8), of "''PASSWORD_RESET_URL''"] site(1)
    by (simp add: assms(4) [symmetric] configuration_def nullish_def split: option.split)
  have verified: "case raw ''EMAIL_VERIFIED_REDIRECT_URL'' of
      None \<Rightarrow> ac_email_verified_redirect_url config = site @ ''/auth/verify-email''
    | Some u \<Rightarrow> ac_email_verified_redirect_url config = u \<and> joi_uri pf [''http'', ''https''] u"
    using mailed_page [OF groups(8), of "''EMAIL_VERIFIED_REDIRECT_URL''"] site(1)
    by (simp add: assms(4) [symmetric] configuration_def nullish_def split: option.split)
  show ?thesis
    unfolding config(1-10)
    using web(2) mobile(2) api(2,3) site(2,3) hops(2) origin(2) email(2) storage(2) config(11) reset verified
    by iprover
qed

text \<open>Production takes a reset link to a plain-text page on the local host, wherever its web app is: the variable has
  neither the https scheme nor the public host that the two base URLs need there.\<close>

theorem local_reset_link_accepted:
  assumes "u = ''http://localhost:5173/auth/reset-password''" and "joi_uri pf [''http'', ''https''] u"
    and "raw ''PASSWORD_RESET_URL'' = Some u" and "out ''PASSWORD_RESET_URL'' = Some (EStr u)"
  shows "(\<exists>rules. (''PASSWORD_RESET_URL'', JoiString, rules) \<in> set (js_keys envValidationSchema) \<and>
      conforms_key pf raw out (''PASSWORD_RESET_URL'', JoiString, rules)) \<and>
    ac_password_reset_url (configuration pf raw) = u"
proof (intro conjI exI)
  let ?rules = "[Uri [''http'', ''https''], Pattern NoTrailingSlash, Optional]"
  show "(''PASSWORD_RESET_URL'', JoiString, ?rules) \<in> set (js_keys envValidationSchema)"
    by (simp add: envValidationSchema_def http_schema_def)
  have "last u \<noteq> CHR ''/''" "u \<noteq> []" unfolding assms(1) by code_simp+
  then show "conforms_key pf raw out (''PASSWORD_RESET_URL'', JoiString, ?rules)"
    using assms(2-4)
    by (simp add: conforms_key_def given_def converted_def accepts_value_def listed_def)
  show "ac_password_reset_url (configuration pf raw) = u"
    using assms(3) by (simp add: configuration_def nullish_def)
qed

section \<open>Test runs\<close>

lemma test_providers:
  assumes "list_all (conforms_key pf raw out) schema" and "out ''NODE_ENV'' = Some (EStr ''test'')"
    and "(k, JoiString, rules) \<in> set schema" and "raw k = Some s"
    and "active_rules out rules = Valid vs # rs" and "Trim \<notin> set rs" and "\<And>t. EmptyAs t \<notin> set rs"
  shows "s \<in> set (listed allowed_of (Valid vs # rs)) - set (listed invalid_of (Valid vs # rs))"
proof -
  have "accepts_value pf JoiString (Valid vs # rs) (EStr s)"
    using optional_string [OF conforms_member [OF assms(1,3)] assms(5)] assms(4,6,7) by simp
  from one_of [OF this] not_invalid [OF this] show ?thesis by simp
qed

text \<open>The test suite cannot reach a real provider, whatever the shell or a file sets.\<close>

theorem test_run_uses_stubs:
  assumes "joi_laws pf joi" and "joi envValidationSchema raw = Some out" and "raw ''NODE_ENV'' = Some ''test''"
  shows "ec_provider (read_email raw) = ''stub'' \<and> smc_provider (read_sms raw) = ''stub'' \<and>
    stc_provider (read_storage raw) = ''stub''"
proof -
  note groups = schema_groups [OF assms(1,2)]
  have env: "out ''NODE_ENV'' = Some (EStr ''test'')" by (rule environment_name [OF groups(1) assms(3)])
  have "s = ''stub''" if "raw ''EMAIL_PROVIDER'' = Some s" for s
    using test_providers [OF groups(5) env _ that,
        of "[Valid [''stub'', ''resend'', ''mailgun'', ''smtp''], Default (EStr ''stub''),
        When ''NODE_ENV'' False [''production''] [Invalid [''stub'', ''smtp''], Required] [],
        When ''NODE_ENV'' False [''staging''] [Invalid [''smtp'']] [],
        refusedInTest [''resend'', ''mailgun'', ''smtp'']]"
        "[''stub'', ''resend'', ''mailgun'', ''smtp'']" "[Default (EStr ''stub''), Invalid [''resend'', ''mailgun'', ''smtp'']]"] env
    by (auto simp: email_schema_def refusedInTest_def listed_def)
  moreover have "s = ''stub''" if "raw ''SMS_PROVIDER'' = Some s" for s
    using test_providers [OF groups(6) env _ that,
        of "[Valid [''stub'', ''twilio''], Default (EStr ''stub''),
        When ''NODE_ENV'' False [''production''] [Invalid [''stub''], Required] [],
        refusedInTest [''twilio'']]"
        "[''stub'', ''twilio'']" "[Default (EStr ''stub''), Invalid [''twilio'']]"] env
    by (auto simp: sms_schema_def refusedInTest_def listed_def)
  moreover have "s = ''stub''" if "raw ''STORAGE_PROVIDER'' = Some s" for s
    using test_providers [OF groups(7) env _ that,
        of "[Valid [''stub'', ''s3'', ''gcs'', ''azure''], Default (EStr ''stub''),
        refusedInTest [''s3'', ''gcs'', ''azure''],
        When ''NODE_ENV'' False [''production''] [Invalid [''stub''], Required] []]"
        "[''stub'', ''s3'', ''gcs'', ''azure'']" "[Default (EStr ''stub''), Invalid [''s3'', ''gcs'', ''azure'']]"] env
    by (auto simp: storage_schema_def refusedInTest_def listed_def)
  ultimately show ?thesis
    by (auto simp: read_email_def read_sms_def read_storage_def nullish_def split: option.splits)
qed

section \<open>Types\<close>

lemma required_present:
  assumes "conforms_key pf raw out (k, b, rules)" and "Required \<in> set rules"
  shows "raw k \<noteq> None"
proof
  have "Required \<in> set (active_rules out rules)" using assms(2)
  proof (induction rules)
    case (Cons r rs)
    then show ?case by (cases r) auto
  qed simp
  moreover assume "raw k = None"
  ultimately show False using missing_value [OF assms(1) refl] by simp
qed

lemma valid_or_default:
  assumes "list_all (conforms_key pf raw out) schema" and "(k, JoiString, Valid vs # Default (EStr d) # rules) \<in> set schema"
    and "\<And>r. r \<in> set (active_rules out rules) \<Longrightarrow> (\<exists>xs. r = Invalid xs) \<or> r = Required" and "d \<in> set vs"
  shows "nullish (raw k) d \<in> set vs"
proof (cases "raw k")
  case None
  with assms(4) show ?thesis by (simp add: nullish_def)
next
  case (Some s)
  let ?rs = "Valid vs # Default (EStr d) # active_rules out rules"
  have "Trim \<notin> set ?rs" "\<And>t. EmptyAs t \<notin> set ?rs" using assms(3) by fastforce+
  then have "accepts_value pf JoiString ?rs (EStr s)"
    using optional_string [OF conforms_member [OF assms(1,2)], of ?rs] Some by simp
  from one_of [OF this] have "s \<in> set vs \<union> (\<Union>r \<in> set (active_rules out rules). set (allowed_of r))"
    by (simp add: listed_def)
  moreover have "allowed_of r = []" if "r \<in> set (active_rules out rules)" for r using assms(3) [OF that] by auto
  ultimately show ?thesis using Some by (auto simp: nullish_def)
qed

lemma required_in:
  assumes "list_all (conforms_key pf raw out) schema"
    and "list_ex (\<lambda>(n, b, rules). n = k \<and> Required \<in> set rules) schema"
  shows "raw k \<noteq> None"
  using assms required_present by (fastforce simp: list_all_iff list_ex_iff)

text \<open>Joi reads a string of digits as the number it writes.\<close>

definition joi_reads_digits :: "platform \<Rightarrow> bool" where
  "joi_reads_digits pf \<longleftrightarrow> (\<forall>s. s \<noteq> [] \<longrightarrow> list_all digit s \<longrightarrow> joi_number pf s = Some (of_nat (parse_decimal s)))"

lemma parseInt_digits:
  assumes "s \<noteq> []" and "list_all digit s"
  shows "parseInt s = Some (int (parse_decimal s))"
proof -
  obtain c cs where s: "s = c # cs" using assms(1) by (cases s) auto
  have "\<not> digit (CHR ''-'')" "\<not> digit (CHR ''+'')" by code_simp+
  moreover have "\<not> white_space c" using assms(2) by (auto simp: s digit_def white_space_def Let_def)
  moreover have digits: "takeWhile digit cs = cs" using assms(2) by (simp add: s takeWhile_eq_all_conv list_all_iff)
  ultimately show ?thesis using assms(2) by (auto simp: parseInt_def s parse_digits_def digits)
qed

lemma redis_port:
  assumes "joi_reads_digits pf" and "list_all (conforms_key pf raw out) redis_schema"
  shows "\<exists>s. raw ''REDIS_PORT'' = Some s \<and> rdc_port (read_redis raw) = parseInt s \<and>
    (s \<noteq> [] \<and> list_all digit s \<longrightarrow> (\<exists>n. rdc_port (read_redis raw) = Some n \<and> 0 \<le> n \<and> n \<le> 65535))"
proof -
  let ?rules = "[PortNumber, Required]"
  have c: "conforms_key pf raw out (''REDIS_PORT'', JoiNumber, ?rules)"
    by (rule conforms_member [OF assms(2)]) (simp add: redis_schema_def)
  then obtain s where s: "raw ''REDIS_PORT'' = Some s"
    using missing_value [OF c refl] by (cases "raw ''REDIS_PORT''") auto
  have v: "accepts_value pf JoiNumber ?rules (converted pf JoiNumber ?rules s)"
    using given_value [OF c _ s, of ?rules] by simp
  have port: "rdc_port (read_redis raw) = parseInt s" using s by (simp add: read_redis_def)
  have "parseInt s = Some (int (parse_decimal s)) \<and> parse_decimal s \<le> 65535" if d: "list_all digit s" "s \<noteq> []"
  proof -
    have "joi_number pf s = Some (of_nat (parse_decimal s))"
      using assms(1) d by (simp add: joi_reads_digits_def)
    with v have "(of_nat (parse_decimal s) :: rat) \<le> 65535"
      by (simp add: converted_def accepts_value_def listed_def)
    then have "parse_decimal s \<le> 65535" by (metis of_nat_le_iff of_nat_numeral)
    with parseInt_digits [OF d(2,1)] show ?thesis by simp
  qed
  with s port show ?thesis by auto
qed

text \<open>C40: the typed configuration is well typed once the environment is validated: every variable the code asserts to
  be set is set, and its field is there; the Redis port, the one of them that is read as a number, is the number
  written, from 0 to 65535, for every port written in digits; and every field declared as a union of literals holds
  one of them.\<close>

theorem validated_configuration_is_typed:
  assumes "joi_laws pf joi" and "joi envValidationSchema raw = Some out" and "configuration pf raw = config"
    and "joi_reads_digits pf"
  shows "ac_service_name config \<noteq> None \<and> dbc_url (ac_database config) \<noteq> None \<and> dbc_name (ac_database config) \<noteq> None \<and>
    rdc_host (ac_redis config) \<noteq> None \<and> rdc_password (ac_redis config) \<noteq> None \<and> rdc_url (ac_redis config) \<noteq> None \<and>
    (\<exists>port. raw ''REDIS_PORT'' = Some port \<and> rdc_port (ac_redis config) = parseInt port \<and>
      (port \<noteq> [] \<and> list_all digit port \<longrightarrow> (\<exists>n. rdc_port (ac_redis config) = Some n \<and> 0 \<le> n \<and> n \<le> 65535))) \<and>
    sc_jwt_secret (ac_session config) \<noteq> None \<and>
    ac_node_env config \<in> {''development'', ''test'', ''staging'', ''production''} \<and>
    ec_provider (ac_email config) \<in> {''stub'', ''resend'', ''mailgun'', ''smtp''} \<and>
    ec_mailgun_region (ac_email config) \<in> {''us'', ''eu''} \<and>
    smc_provider (ac_sms config) \<in> {''stub'', ''twilio''} \<and>
    stc_provider (ac_storage config) \<in> {''stub'', ''s3'', ''gcs'', ''azure''}"
proof -
  note groups = schema_groups [OF assms(1,2)]
  have present: "raw ''SERVICE_NAME'' \<noteq> None" "raw ''DATABASE_URL'' \<noteq> None" "raw ''DB_NAME'' \<noteq> None"
    "raw ''REDIS_HOST'' \<noteq> None" "raw ''REDIS_PASSWORD'' \<noteq> None" "raw ''REDIS_URL'' \<noteq> None" "raw ''JWT_SECRET'' \<noteq> None"
    by (rule required_in [OF groups(1)], simp add: service_schema_def)
      (rule required_in [OF groups(2)], simp add: database_schema_def,
       rule required_in [OF groups(2)], simp add: database_schema_def,
       rule required_in [OF groups(3)], simp add: redis_schema_def,
       rule required_in [OF groups(3)], simp add: redis_schema_def,
       rule required_in [OF groups(3)], simp add: redis_schema_def,
       rule required_in [OF groups(4)], simp add: session_schema_def)
  have node: "nullish (raw ''NODE_ENV'') ''development'' \<in> set [''development'', ''test'', ''staging'', ''production'']"
    by (rule valid_or_default [OF groups(1), of _ _ _ "[]"]) (simp_all add: service_schema_def)
  have email: "nullish (raw ''EMAIL_PROVIDER'') ''stub'' \<in> set [''stub'', ''resend'', ''mailgun'', ''smtp'']"
    by (rule valid_or_default [OF groups(5), of _ _ _
        "[When ''NODE_ENV'' False [''production''] [Invalid [''stub'', ''smtp''], Required] [],
          When ''NODE_ENV'' False [''staging''] [Invalid [''smtp'']] [], refusedInTest [''resend'', ''mailgun'', ''smtp'']]"])
      (auto simp: email_schema_def refusedInTest_def split: if_splits)
  have region: "nullish (raw ''MAILGUN_REGION'') ''us'' \<in> set [''us'', ''eu'']"
    by (rule valid_or_default [OF groups(5), of _ _ _ "[]"]) (simp_all add: email_schema_def)
  then have region: "nullish (or_undefined (raw ''MAILGUN_REGION'')) ''us'' \<in> {''us'', ''eu''}"
    by (auto simp: nullish_def or_undefined_def split: option.splits)
  have sms: "nullish (raw ''SMS_PROVIDER'') ''stub'' \<in> set [''stub'', ''twilio'']"
    by (rule valid_or_default [OF groups(6), of _ _ _
        "[When ''NODE_ENV'' False [''production''] [Invalid [''stub''], Required] [], refusedInTest [''twilio'']]"])
      (auto simp: sms_schema_def refusedInTest_def split: if_splits)
  have storage: "nullish (raw ''STORAGE_PROVIDER'') ''stub'' \<in> set [''stub'', ''s3'', ''gcs'', ''azure'']"
    by (rule valid_or_default [OF groups(7), of _ _ _
        "[refusedInTest [''s3'', ''gcs'', ''azure''],
          When ''NODE_ENV'' False [''production''] [Invalid [''stub''], Required] []]"])
      (auto simp: storage_schema_def refusedInTest_def split: if_splits)
  have redis: "ac_redis config = read_redis raw" by (simp add: assms(3) [symmetric] configuration_def)
  note port = redis_port [OF assms(4) groups(3), folded redis]
  have hosts: "rdc_host (read_redis raw) \<noteq> None" "rdc_password (read_redis raw) \<noteq> None" "rdc_url (read_redis raw) \<noteq> None"
    using present by (simp_all add: read_redis_def)
  have rest: "ac_service_name config \<noteq> None" "dbc_url (ac_database config) \<noteq> None" "dbc_name (ac_database config) \<noteq> None"
    "sc_jwt_secret (ac_session config) \<noteq> None"
    "ac_node_env config \<in> {''development'', ''test'', ''staging'', ''production''}"
    "ec_provider (ac_email config) \<in> {''stub'', ''resend'', ''mailgun'', ''smtp''}"
    "ec_mailgun_region (ac_email config) \<in> {''us'', ''eu''}"
    "smc_provider (ac_sms config) \<in> {''stub'', ''twilio''}"
    "stc_provider (ac_storage config) \<in> {''stub'', ''s3'', ''gcs'', ''azure''}"
    using present node email region sms storage
    by (simp_all add: assms(3) [symmetric] configuration_def read_database_def read_session_def
        read_email_def read_sms_def read_storage_def)
  show ?thesis by (intro conjI rest port hosts [folded redis])
qed

section \<open>Numbers\<close>

text \<open>Validation reads a number the way Joi does, the configuration with \<open>parseInt\<close>: exponent notation passes the first
  with one value and means another to the second.  Here a timeout of at least a second becomes 15 milliseconds.\<close>

lemma validated_number_read_differently:
  assumes "joi_number pf ''15e3'' = Some 15000" and "raw ''STORAGE_REQUEST_TIMEOUT_MS'' = Some ''15e3''"
    and "out ''STORAGE_REQUEST_TIMEOUT_MS'' = Some (number 15000)"
  shows "conforms_key pf raw out (''STORAGE_REQUEST_TIMEOUT_MS'', JoiNumber, integer_between 1000 120000 15000)"
    and "stc_request_timeout_ms (read_storage raw) = Some 15"
proof -
  show "conforms_key pf raw out (''STORAGE_REQUEST_TIMEOUT_MS'', JoiNumber, integer_between 1000 120000 15000)"
    using assms by (simp add: conforms_key_def given_def converted_def accepts_value_def integer_between_def number_def whole_def)
  have "parseInt ''15e3'' = Some 15" by code_simp
  with assms(2) show "stc_request_timeout_ms (read_storage raw) = Some 15"
    by (simp add: read_storage_def read_int_def nullish_def)
qed

section \<open>Defaults\<close>

text \<open>What Joi would write back for a variable that is not set.\<close>

fun shown :: "env_value \<Rightarrow> string" where
  "shown (EStr s) = s"
| "shown (ENum q) = decimal (nat (floor q))"
| "shown (EBool b) = (if b then ''true'' else ''false'')"

definition schema_default :: "string \<Rightarrow> string option" where
  "schema_default k =
     (case map_of (js_keys envValidationSchema) k of None \<Rightarrow> None | Some (_, rules) \<Rightarrow> map_option shown (default_of rules))"

definition with_defaults :: "raw_env \<Rightarrow> raw_env" where
  "with_defaults env k = (case env k of None \<Rightarrow> schema_default k | Some s \<Rightarrow> Some s)"

lemma with_defaults_nullish: "schema_default k \<in> {None, Some d} \<Longrightarrow> nullish (with_defaults env k) d = nullish (env k) d"
  by (auto simp: nullish_def with_defaults_def split: option.splits)

lemma with_defaults_none: "schema_default k = None \<Longrightarrow> with_defaults env k = env k"
  by (simp add: with_defaults_def split: option.splits)

lemmas schema_keys = envValidationSchema_def service_schema_def database_schema_def redis_schema_def session_schema_def
  email_schema_def sms_schema_def storage_schema_def http_schema_def mcp_schema_def

text \<open>The Redis connection: encrypted exactly when it was said to be, always verified, and its URL redacted in errors.\<close>

section \<open>Redaction\<close>

text \<open>Credentials without a literal \<open>@\<close> never reach an error message.\<close>

lemma redacted_credentials:
  assumes "scheme \<noteq> []" and "lower_letter (lower_char (hd scheme))" and "list_all scheme_char scheme"
    and "CHR ''@'' \<notin> set credentials"
  shows "redactRedisUrl (scheme @ ''://'' @ credentials @ ''@'' @ rest) = scheme @ ''://***@'' @ rest"
proof -
  have colon: "\<not> scheme_char (CHR '':'')" by code_simp
  have "takeWhile scheme_char (scheme @ CHR '':'' # xs) = scheme" "dropWhile scheme_char (scheme @ CHR '':'' # xs) = CHR '':'' # xs" for xs
    using assms(3) colon by (simp_all add: list_all_iff takeWhile_append dropWhile_append)
  moreover have "dropWhile (\<lambda>x. x \<noteq> CHR ''@'') (''//'' @ credentials @ ''@'' @ rest) = ''@'' @ rest"
    using assms(4) by (induction credentials) auto
  ultimately show ?thesis using assms(1,2) by (simp add: redactRedisUrl_def Let_def)
qed

text \<open>A password with a literal \<open>@\<close>, which the URL parser accepts and takes to the last one, is cut at the first: its tail is
  in the error that is logged.\<close>

lemma redaction_keeps_password_tail:
  "redactRedisUrl ''redis://:pass@word@host/x'' = ''redis://***@word@host/x''"
  by code_simp

section \<open>Transport\<close>

text \<open>A URL's protocol is its scheme.\<close>

definition url_laws :: "platform \<Rightarrow> bool" where
  "url_laws pf \<longleftrightarrow> (\<forall>u parts. new_url pf u = Some parts \<longrightarrow>
     (starts_with ''rediss://'' u \<longrightarrow> url_protocol parts = ''rediss:'') \<and>
     (starts_with ''redis://'' u \<longrightarrow> url_protocol parts = ''redis:''))"

lemma parse_secure:
  assumes "parseRedisUrl pf u = Inr p"
  shows "\<exists>parts. new_url pf u = Some parts \<and> (pr_is_secure_scheme p \<longleftrightarrow> url_protocol parts = ''rediss:'')"
  using assms by (auto simp: parseRedisUrl_def Let_def split: option.splits if_splits)

lemma flag_agrees:
  assumes "list_all (conforms_key pf raw out) redis_schema" and "url_laws pf" and "raw ''REDIS_URL'' = Some u"
    and "parseRedisUrl pf u = Inr p"
  shows "pr_is_secure_scheme p \<longleftrightarrow> rdc_tls_is_enabled (read_redis raw)"
proof -
  let ?flag = "[Valid [''true'', ''false''], Allow [[]], Default (EStr ''false'')]"
  let ?url = "[Uri [''redis'', ''rediss''], Required,
        When ''REDIS_TLS_ENABLED'' False [''true''] [Pattern RedissScheme] [Pattern RedisScheme]]"
  have cf: "conforms_key pf raw out (''REDIS_TLS_ENABLED'', JoiString, ?flag)"
    and cu: "conforms_key pf raw out (''REDIS_URL'', JoiString, ?url)"
    by (rule conforms_member [OF assms(1)]; simp add: redis_schema_def on_off_def)+
  have flag: "active_rules out ?flag = ?flag" by simp
  obtain s where s: "out ''REDIS_TLS_ENABLED'' = Some (EStr s)" "nullish (raw ''REDIS_TLS_ENABLED'') ''false'' = s"
    "s \<in> {''true'', ''false'', []}"
  proof (cases "raw ''REDIS_TLS_ENABLED''")
    case None
    with missing_value [OF cf flag None] show thesis by (intro that [of "''false''"]) (simp_all add: nullish_def)
  next
    case (Some s)
    have v: "out ''REDIS_TLS_ENABLED'' = Some (EStr s) \<and> accepts_value pf JoiString ?flag (EStr s)"
      using optional_string [OF cf flag _ _ Some] by simp
    then have "s \<in> {''true'', ''false'', []}" using one_of [of pf JoiString ?flag s] by (simp add: listed_def)
    with v Some show thesis by (intro that [of s]) (simp_all add: nullish_def)
  qed
  have lower: "to_lower_case (trim ''true'') = ''true''" "to_lower_case (trim ''false'') = ''false''"
    "to_lower_case (trim []) = []"
    by code_simp+
  from s(2,3) have enabled: "rdc_tls_is_enabled (read_redis raw) \<longleftrightarrow> s = ''true''"
    by (auto simp: read_redis_def reads_as_def lower)
  let ?scheme = "if s = ''true'' then RedissScheme else RedisScheme"
  let ?rs = "[Uri [''redis'', ''rediss''], Required, Pattern ?scheme]"
  have "active_rules out ?url = ?rs" using s(1) by simp
  then have "accepts_value pf JoiString ?rs (EStr u)"
    using optional_string [OF cu _ _ _ assms(3), of ?rs] by simp
  from obeys [OF this, of "Pattern ?scheme"] have "pattern_matches ?scheme u" by (simp add: listed_def)
  moreover obtain parts where "new_url pf u = Some parts" "pr_is_secure_scheme p \<longleftrightarrow> url_protocol parts = ''rediss:''"
    using parse_secure [OF assms(4)] by blast
  ultimately show ?thesis using assms(2) enabled by (auto simp: url_laws_def split: if_splits)
qed

text \<open>Traffic to Redis is encrypted exactly when the environment says so, and the server is always verified: in a
  validated environment the URL's scheme and the flag agree, so the only thing left that can fail is a CA that is no
  certificate, and TLS options are there exactly for an enabled connection.\<close>

theorem redis_encrypted_as_declared:
  assumes "joi_laws pf joi" and "joi envValidationSchema raw = Some out" and "url_laws pf"
    and "raw ''REDIS_URL'' = Some u" and "parseRedisUrl pf u = Inr p"
  shows "case buildRedisConnectionOptions pf (read_redis raw) of
      Inl e \<Rightarrow> e = JsError ''REDIS_TLS_CA is set but is not a PEM certificate'' \<and> rdc_tls_is_enabled (read_redis raw)
    | Inr opts \<Rightarrow> ro_url opts = p \<and>
        (case ro_tls opts of
           None \<Rightarrow> \<not> rdc_tls_is_enabled (read_redis raw)
         | Some tls \<Rightarrow> rdc_tls_is_enabled (read_redis raw) \<and> tls_reject_unauthorized tls \<and>
             (case tls_ca tls of None \<Rightarrow> True | Some pem \<Rightarrow> contains pem PEM_CERTIFICATE_HEADER))"
proof -
  have "pr_is_secure_scheme p \<longleftrightarrow> rdc_tls_is_enabled (read_redis raw)"
    by (rule flag_agrees [OF schema_groups(3) [OF assms(1,2)] assms(3-5)])
  moreover have "rdc_url (read_redis raw) = Some u" using assms(4) by (simp add: read_redis_def)
  ultimately show ?thesis
    using assms(5)
    by (auto simp: buildRedisConnectionOptions_def buildRedisTransportOptions_def requireE_def Let_def
        split: option.splits)
qed

end
