(* ===== verification/Config_Defaults.thy ===== *)
theory Config_Defaults
  imports Config_Properties
begin

text \<open>
  The defaults of the schema, looked up, and their agreement with the defaults of the configuration.
\<close>

lemma shown_number: "shown (number n) = decimal (nat n)"
  by (simp add: number_def)

lemma digit_chars:
  "char_of (48 :: nat) = CHR ''0''" "char_of (49 :: nat) = CHR ''1''" "char_of (50 :: nat) = CHR ''2''"
  "char_of (51 :: nat) = CHR ''3''" "char_of (53 :: nat) = CHR ''5''" "char_of (54 :: nat) = CHR ''6''"
  "char_of (55 :: nat) = CHR ''7''"
  by code_simp+

lemma shown_numbers:
  "decimal 3000 = ''3000''" "decimal 10 = ''10''" "decimal 5000 = ''5000''" "decimal 30000 = ''30000''" "decimal 30 = ''30''"
  "decimal 300 = ''300''" "decimal 7 = ''7''" "decimal 15000 = ''15000''" "decimal 60000 = ''60000''"
  "decimal 100 = ''100''" "decimal 60 = ''60''"
  by (simp_all add: decimal.simps digit_chars)

definition schema_defaults :: "(string \<times> string option) list" where
  "schema_defaults = map (\<lambda>(k, _, rules). (k, map_option shown (default_of rules))) (js_keys envValidationSchema)"

lemma defaults_table:
  "schema_defaults =
   [(''NODE_ENV'', Some ''development''),
    (''PORT'', Some ''3000''),
    (''SERVICE_NAME'', None),
    (''API_BASE_URL'', Some ''http://localhost:3000/api''),
    (''WEB_BASE_URL'', Some ''http://localhost:5173''),
    (''DB_USER'', None),
    (''DB_PASSWORD'', None),
    (''DB_HOST'', None),
    (''DB_PORT'', None),
    (''DB_NAME'', None),
    (''DATABASE_URL'', None),
    (''DATABASE_POOL_MAX'', Some ''10''),
    (''DATABASE_CONNECTION_TIMEOUT_MS'', Some ''5000''),
    (''DATABASE_IDLE_TIMEOUT_MS'', Some ''30000''),
    (''REDIS_HOST'', None),
    (''REDIS_PORT'', None),
    (''REDIS_PASSWORD'', None),
    (''REDIS_URL'', None),
    (''REDIS_TLS_ENABLED'', Some ''false''),
    (''REDIS_TLS_CA'', None),
    (''QUEUE_WORKER_ENABLED'', Some ''true''),
    (''QUEUE_WORKER_CONCURRENCY'', Some ''10''),
    (''JWT_SECRET'', None),
    (''JWT_EXPIRES_IN'', Some ''15m''),
    (''REFRESH_TOKEN_EXPIRES_IN_DAYS'', Some ''30''),
    (''OTEL_EXPORTER_OTLP_ENDPOINT'', Some []),
    (''AUTHORIZATION_GRANTS_CACHE_TTL_SECONDS'', Some ''300''),
    (''TRUST_CLOUDFLARE_HEADERS'', Some ''false''),
    (''TURNSTILE_WEB_SECRET'', None),
    (''TURNSTILE_MOBILE_SECRET'', None),
    (''TURNSTILE_WEB_SITE_KEY'', None),
    (''WORKSPACE_INVITATION_EXPIRES_IN_DAYS'', Some ''7''),
    (''EMAIL_PROVIDER'', Some ''stub''),
    (''EMAIL_FROM'', None),
    (''RESEND_API_KEY'', None),
    (''MAILGUN_API_KEY'', None),
    (''MAILGUN_DOMAIN'', None),
    (''MAILGUN_REGION'', Some ''us''),
    (''SMTP_HOST'', None),
    (''SMTP_PORT'', None),
    (''SMS_PROVIDER'', Some ''stub''),
    (''PHONE_CODE_FIXED'', None),
    (''TWILIO_ACCOUNT_SID'', None),
    (''TWILIO_AUTH_TOKEN'', None),
    (''TWILIO_FROM'', None),
    (''STORAGE_PROVIDER'', Some ''stub''),
    (''STORAGE_SIGNED_URL_TTL_SECONDS'', Some ''300''),
    (''STORAGE_REQUEST_TIMEOUT_MS'', Some ''15000''),
    (''STORAGE_S3_BUCKET'', None),
    (''STORAGE_S3_REGION'', None),
    (''STORAGE_S3_ENDPOINT'', None),
    (''STORAGE_S3_FORCE_PATH_STYLE'', Some ''false''),
    (''STORAGE_GCS_BUCKET'', None),
    (''STORAGE_GCS_PROJECT_ID'', None),
    (''STORAGE_AZURE_ACCOUNT_NAME'', None),
    (''STORAGE_AZURE_CONTAINER'', None),
    (''FILE_UPLOAD_MAX_BYTES'', Some (decimal (nat maxUploadBytes_default))),
    (''FILE_UPLOAD_TTL_SECONDS'', Some (decimal (nat uploadTtlSeconds_default))),
    (''FILE_IMAGE_MAX_PIXELS'', Some (decimal (nat imageMaxPixels_default))),
    (''SWAGGER_ENABLED'', Some ''true''),
    (''CORS_ORIGIN'', Some ''*''),
    (''EMAIL_VERIFIED_REDIRECT_URL'', None),
    (''PASSWORD_RESET_URL'', None),
    (''THROTTLE_TTL_MS'', Some ''60000''),
    (''THROTTLE_LIMIT'', Some ''100''),
    (''TRUST_PROXY'', Some ''false''),
    (''MCP_ALLOWED_ORIGINS'', Some []),
    (''MCP_OAUTH_ACCESS_TOKEN_TTL_MINUTES'', Some ''60''),
    (''MCP_OAUTH_REFRESH_TOKEN_TTL_DAYS'', Some ''30''),
    (''MCP_OAUTH_REDIRECT_DOMAINS'', Some [])]"
  by (simp add: schema_defaults_def schema_keys publicUrlInProduction_def integer_between_def on_off_def
      turnstileSecretKey_def refusedInTest_def required_when_def shown_number shown_numbers)

lemma distinct_keys: "distinct (map fst (js_keys envValidationSchema))"
  by code_simp

lemma default_at:
  assumes "i < length schema_defaults" and "schema_defaults ! i = (k, v)"
  shows "schema_default k = v"
proof -
  let ?keys = "js_keys envValidationSchema"
  have "i < length ?keys" using assms(1) by (simp add: schema_defaults_def)
  moreover obtain b rules where key: "?keys ! i = (k, b, rules)" and v: "map_option shown (default_of rules) = v"
    using assms by (cases "?keys ! i") (auto simp: schema_defaults_def)
  ultimately have "(k, b, rules) \<in> set ?keys" using nth_mem by metis
  then have "map_of ?keys k = Some (b, rules)" using distinct_keys by (simp add: map_of_eq_Some_iff)
  with v show ?thesis by (simp add: schema_default_def)
qed

lemma declared_defaults:
  shows
    "schema_default ''NODE_ENV'' = Some ''development''"
    "schema_default ''PORT'' = Some ''3000''"
    "schema_default ''API_BASE_URL'' = Some ''http://localhost:3000/api''"
    "schema_default ''WEB_BASE_URL'' = Some ''http://localhost:5173''"
    "schema_default ''DATABASE_POOL_MAX'' = Some ''10''"
    "schema_default ''DATABASE_CONNECTION_TIMEOUT_MS'' = Some ''5000''"
    "schema_default ''DATABASE_IDLE_TIMEOUT_MS'' = Some ''30000''"
    "schema_default ''REDIS_TLS_ENABLED'' = Some ''false''"
    "schema_default ''QUEUE_WORKER_ENABLED'' = Some ''true''"
    "schema_default ''QUEUE_WORKER_CONCURRENCY'' = Some ''10''"
    "schema_default ''JWT_EXPIRES_IN'' = Some ''15m''"
    "schema_default ''REFRESH_TOKEN_EXPIRES_IN_DAYS'' = Some ''30''"
    "schema_default ''AUTHORIZATION_GRANTS_CACHE_TTL_SECONDS'' = Some ''300''"
    "schema_default ''TRUST_CLOUDFLARE_HEADERS'' = Some ''false''"
    "schema_default ''WORKSPACE_INVITATION_EXPIRES_IN_DAYS'' = Some ''7''"
    "schema_default ''EMAIL_PROVIDER'' = Some ''stub''"
    "schema_default ''MAILGUN_REGION'' = Some ''us''"
    "schema_default ''SMS_PROVIDER'' = Some ''stub''"
    "schema_default ''STORAGE_PROVIDER'' = Some ''stub''"
    "schema_default ''STORAGE_SIGNED_URL_TTL_SECONDS'' = Some ''300''"
    "schema_default ''STORAGE_REQUEST_TIMEOUT_MS'' = Some ''15000''"
    "schema_default ''STORAGE_S3_FORCE_PATH_STYLE'' = Some ''false''"
    "schema_default ''FILE_UPLOAD_MAX_BYTES'' = Some (decimal (nat maxUploadBytes_default))"
    "schema_default ''FILE_UPLOAD_TTL_SECONDS'' = Some (decimal (nat uploadTtlSeconds_default))"
    "schema_default ''FILE_IMAGE_MAX_PIXELS'' = Some (decimal (nat imageMaxPixels_default))"
    "schema_default ''SWAGGER_ENABLED'' = Some ''true''"
    "schema_default ''CORS_ORIGIN'' = Some ''*''"
    "schema_default ''THROTTLE_TTL_MS'' = Some ''60000''"
    "schema_default ''THROTTLE_LIMIT'' = Some ''100''"
    "schema_default ''TRUST_PROXY'' = Some ''false''"
    "schema_default ''MCP_ALLOWED_ORIGINS'' = Some []"
    "schema_default ''MCP_OAUTH_ACCESS_TOKEN_TTL_MINUTES'' = Some ''60''"
    "schema_default ''MCP_OAUTH_REFRESH_TOKEN_TTL_DAYS'' = Some ''30''"
    "schema_default ''MCP_OAUTH_REDIRECT_DOMAINS'' = Some []"
  by (rule default_at [of 0], simp add: defaults_table, simp add: defaults_table)
    (rule default_at [of 1], simp add: defaults_table, simp add: defaults_table,
     rule default_at [of 3], simp add: defaults_table, simp add: defaults_table,
     rule default_at [of 4], simp add: defaults_table, simp add: defaults_table,
     rule default_at [of 11], simp add: defaults_table, simp add: defaults_table,
     rule default_at [of 12], simp add: defaults_table, simp add: defaults_table,
     rule default_at [of 13], simp add: defaults_table, simp add: defaults_table,
     rule default_at [of 18], simp add: defaults_table, simp add: defaults_table,
     rule default_at [of 20], simp add: defaults_table, simp add: defaults_table,
     rule default_at [of 21], simp add: defaults_table, simp add: defaults_table,
     rule default_at [of 23], simp add: defaults_table, simp add: defaults_table,
     rule default_at [of 24], simp add: defaults_table, simp add: defaults_table,
     rule default_at [of 26], simp add: defaults_table, simp add: defaults_table,
     rule default_at [of 27], simp add: defaults_table, simp add: defaults_table,
     rule default_at [of 31], simp add: defaults_table, simp add: defaults_table,
     rule default_at [of 32], simp add: defaults_table, simp add: defaults_table,
     rule default_at [of 37], simp add: defaults_table, simp add: defaults_table,
     rule default_at [of 40], simp add: defaults_table, simp add: defaults_table,
     rule default_at [of 45], simp add: defaults_table, simp add: defaults_table,
     rule default_at [of 46], simp add: defaults_table, simp add: defaults_table,
     rule default_at [of 47], simp add: defaults_table, simp add: defaults_table,
     rule default_at [of 51], simp add: defaults_table, simp add: defaults_table,
     rule default_at [of 56], simp add: defaults_table, simp add: defaults_table,
     rule default_at [of 57], simp add: defaults_table, simp add: defaults_table,
     rule default_at [of 58], simp add: defaults_table, simp add: defaults_table,
     rule default_at [of 59], simp add: defaults_table, simp add: defaults_table,
     rule default_at [of 60], simp add: defaults_table, simp add: defaults_table,
     rule default_at [of 63], simp add: defaults_table, simp add: defaults_table,
     rule default_at [of 64], simp add: defaults_table, simp add: defaults_table,
     rule default_at [of 65], simp add: defaults_table, simp add: defaults_table,
     rule default_at [of 66], simp add: defaults_table, simp add: defaults_table,
     rule default_at [of 67], simp add: defaults_table, simp add: defaults_table,
     rule default_at [of 68], simp add: defaults_table, simp add: defaults_table,
     rule default_at [of 69], simp add: defaults_table, simp add: defaults_table)

lemma no_defaults_1:
  shows
    "schema_default ''SERVICE_NAME'' = None"
    "schema_default ''DATABASE_URL'' = None"
    "schema_default ''DB_NAME'' = None"
    "schema_default ''REDIS_HOST'' = None"
    "schema_default ''REDIS_PORT'' = None"
    "schema_default ''REDIS_PASSWORD'' = None"
    "schema_default ''REDIS_URL'' = None"
    "schema_default ''REDIS_TLS_CA'' = None"
    "schema_default ''JWT_SECRET'' = None"
    "schema_default ''TURNSTILE_WEB_SECRET'' = None"
    "schema_default ''TURNSTILE_MOBILE_SECRET'' = None"
    "schema_default ''TURNSTILE_WEB_SITE_KEY'' = None"
    "schema_default ''EMAIL_FROM'' = None"
    "schema_default ''RESEND_API_KEY'' = None"
    "schema_default ''MAILGUN_API_KEY'' = None"
    "schema_default ''MAILGUN_DOMAIN'' = None"
    "schema_default ''SMTP_HOST'' = None"
    "schema_default ''SMTP_PORT'' = None"
    "schema_default ''TWILIO_ACCOUNT_SID'' = None"
    "schema_default ''TWILIO_AUTH_TOKEN'' = None"
    "schema_default ''TWILIO_FROM'' = None"
    "schema_default ''PHONE_CODE_FIXED'' = None"
    "schema_default ''STORAGE_S3_BUCKET'' = None"
    "schema_default ''STORAGE_S3_REGION'' = None"
    "schema_default ''STORAGE_S3_ENDPOINT'' = None"
    "schema_default ''STORAGE_GCS_BUCKET'' = None"
    "schema_default ''STORAGE_GCS_PROJECT_ID'' = None"
    "schema_default ''STORAGE_AZURE_ACCOUNT_NAME'' = None"
    "schema_default ''STORAGE_AZURE_CONTAINER'' = None"
    "schema_default ''EMAIL_VERIFIED_REDIRECT_URL'' = None"
    "schema_default ''PASSWORD_RESET_URL'' = None"
  by (rule default_at [of 2], simp add: defaults_table, simp add: defaults_table)
    (rule default_at [of 10], simp add: defaults_table, simp add: defaults_table,
     rule default_at [of 9], simp add: defaults_table, simp add: defaults_table,
     rule default_at [of 14], simp add: defaults_table, simp add: defaults_table,
     rule default_at [of 15], simp add: defaults_table, simp add: defaults_table,
     rule default_at [of 16], simp add: defaults_table, simp add: defaults_table,
     rule default_at [of 17], simp add: defaults_table, simp add: defaults_table,
     rule default_at [of 19], simp add: defaults_table, simp add: defaults_table,
     rule default_at [of 22], simp add: defaults_table, simp add: defaults_table,
     rule default_at [of 28], simp add: defaults_table, simp add: defaults_table,
     rule default_at [of 29], simp add: defaults_table, simp add: defaults_table,
     rule default_at [of 30], simp add: defaults_table, simp add: defaults_table,
     rule default_at [of 33], simp add: defaults_table, simp add: defaults_table,
     rule default_at [of 34], simp add: defaults_table, simp add: defaults_table,
     rule default_at [of 35], simp add: defaults_table, simp add: defaults_table,
     rule default_at [of 36], simp add: defaults_table, simp add: defaults_table,
     rule default_at [of 38], simp add: defaults_table, simp add: defaults_table,
     rule default_at [of 39], simp add: defaults_table, simp add: defaults_table,
     rule default_at [of 42], simp add: defaults_table, simp add: defaults_table,
     rule default_at [of 43], simp add: defaults_table, simp add: defaults_table,
     rule default_at [of 44], simp add: defaults_table, simp add: defaults_table,
     rule default_at [of 41], simp add: defaults_table, simp add: defaults_table,
     rule default_at [of 48], simp add: defaults_table, simp add: defaults_table,
     rule default_at [of 49], simp add: defaults_table, simp add: defaults_table,
     rule default_at [of 50], simp add: defaults_table, simp add: defaults_table,
     rule default_at [of 52], simp add: defaults_table, simp add: defaults_table,
     rule default_at [of 53], simp add: defaults_table, simp add: defaults_table,
     rule default_at [of 54], simp add: defaults_table, simp add: defaults_table,
     rule default_at [of 55], simp add: defaults_table, simp add: defaults_table,
     rule default_at [of 61], simp add: defaults_table, simp add: defaults_table,
     rule default_at [of 62], simp add: defaults_table, simp add: defaults_table)

lemma no_defaults_2: "schema_default ''GIT_SHA'' = None"
proof -
  have "''GIT_SHA'' \<notin> set (map fst (js_keys envValidationSchema))" by code_simp
  then show ?thesis by (simp add: schema_default_def map_of_eq_None_iff [THEN iffD2])
qed

lemmas no_defaults = no_defaults_1 no_defaults_2

lemma default_kept:
  "schema_default k = Some d \<Longrightarrow> nullish (with_defaults env k) d = nullish (env k) d"
  "schema_default k = None \<Longrightarrow> with_defaults env k = env k"
  "schema_default k = Some d \<Longrightarrow> d \<noteq> [] \<Longrightarrow> nullish (or_undefined (with_defaults env k)) d = nullish (or_undefined (env k)) d"
  "schema_default k = Some d \<Longrightarrow> d \<noteq> v \<Longrightarrow> (with_defaults env k = Some v) = (env k = Some v)"
  by (auto simp: nullish_def with_defaults_def or_undefined_def split: option.splits)

text \<open>The two places that state a default agree: the configuration of a process whose unset variables were filled with the
  schema's defaults is the configuration read without them.\<close>

theorem defaults_agree: "configuration pf (with_defaults env) = configuration pf env"
proof -
  have region: "nullish (or_undefined (with_defaults env ''MAILGUN_REGION'')) ''us'' =
      nullish (or_undefined (env ''MAILGUN_REGION'')) ''us''"
    by (rule default_kept(3) [OF declared_defaults(17)]) simp
  have trust: "(with_defaults env ''TRUST_CLOUDFLARE_HEADERS'' = Some ''true'') =
      (env ''TRUST_CLOUDFLARE_HEADERS'' = Some ''true'')"
    by (rule default_kept(4) [OF declared_defaults(14)]) simp
  show ?thesis
    unfolding configuration_def read_database_def read_redis_def read_queue_def read_session_def read_turnstile_def
      read_email_def read_sms_def read_storage_def read_files_def parseMcpConfig_def readApiBaseUrl_def read_int_def reads_as_def
    by (simp only: declared_defaults [THEN default_kept(1)] no_defaults [THEN default_kept(2)] region trust)
qed

end
