(* ===== verification/Config_Witnesses.thy ===== *)
theory Config_Witnesses
  imports Config_Defaults Config_Properties
begin

text \<open>A production and a test environment that validate, and the configuration properties applied to them.\<close>

definition sample_url :: "string \<Rightarrow> string \<Rightarrow> url_parts" where
  "sample_url protocol host =
     \<lparr>url_protocol = protocol, url_username = [], url_password = [], url_hostname = host,
      url_origin = protocol @ ''//'' @ host, url_hash = [], url_port = [], url_pathname = []\<rparr>"

definition sample_platform :: platform where
  "sample_platform =
     \<lparr>new_url = (\<lambda>u. Some (if starts_with ''rediss://'' u then sample_url ''rediss:'' ''redis''
        else if starts_with ''redis://'' u then sample_url ''redis:'' ''redis'' else sample_url ''https:'' ''example.com'')),
      isIP = (\<lambda>s. if s = ''10.0.0.1'' then 4 else 0), covers_mapped_ipv4 = (\<lambda>_ _. False),
      decodeURIComponent = Some, joi_uri = (\<lambda>_ _. True), joi_hostname = (\<lambda>_. True),
      joi_number = (\<lambda>s. Some (of_nat (parse_decimal s))), joi_boolean = (\<lambda>s. Some (s = ''true''))\<rparr>"

definition common_env :: "(string \<times> string) list" where
  "common_env =
     [(''SERVICE_NAME'', ''api''), (''DB_USER'', ''u''), (''DB_PASSWORD'', ''p''), (''DB_HOST'', ''db''),
      (''DB_PORT'', ''1''), (''DB_NAME'', ''api''), (''DATABASE_URL'', ''postgres://db''), (''REDIS_HOST'', ''redis''),
      (''REDIS_PORT'', ''1''), (''REDIS_PASSWORD'', ''0123456789abcdef''),
      (''JWT_SECRET'', ''0123456789abcdef0123456789abcdef'')]"

definition production_env :: raw_env where
  "production_env = map_of (common_env @
     [(''NODE_ENV'', ''production''), (''API_BASE_URL'', ''https://api''), (''WEB_BASE_URL'', ''https://web''),
      (''REDIS_URL'', ''rediss://redis''), (''REDIS_TLS_ENABLED'', ''true''), (''TURNSTILE_WEB_SECRET'', ''w''),
      (''TURNSTILE_MOBILE_SECRET'', ''m''), (''EMAIL_PROVIDER'', ''resend''), (''EMAIL_FROM'', ''a@b''),
      (''RESEND_API_KEY'', ''k''), (''SMS_PROVIDER'', ''twilio''),
      (''TWILIO_ACCOUNT_SID'', ''AC0123456789abcdef0123456789abcdef''), (''TWILIO_AUTH_TOKEN'', ''t''),
      (''TWILIO_FROM'', ''f''), (''STORAGE_PROVIDER'', ''gcs''), (''STORAGE_GCS_BUCKET'', ''files''),
      (''CORS_ORIGIN'', ''https://web''), (''TRUST_PROXY'', ''10.0.0.1'')])"

definition test_env :: raw_env where
  "test_env = map_of (common_env @ [(''NODE_ENV'', ''test''), (''REDIS_URL'', ''redis://redis'')])"

text \<open>The values Joi returns: the variable converted, or its default.\<close>

definition production_out :: valid_env where
  "production_out = map_of
     [(''NODE_ENV'', EStr ''production''),
      (''REDIS_TLS_ENABLED'', EStr ''true''),
      (''EMAIL_PROVIDER'', EStr ''resend''),
      (''SMS_PROVIDER'', EStr ''twilio''),
      (''STORAGE_PROVIDER'', EStr ''gcs''),
      (''PORT'', number 3000),
      (''SERVICE_NAME'', EStr ''api''),
      (''API_BASE_URL'', EStr ''https://api''),
      (''WEB_BASE_URL'', EStr ''https://web''),
      (''DB_USER'', EStr ''u''),
      (''DB_PASSWORD'', EStr ''p''),
      (''DB_HOST'', EStr ''db''),
      (''DB_PORT'', number 1),
      (''DB_NAME'', EStr ''api''),
      (''DATABASE_URL'', EStr ''postgres://db''),
      (''DATABASE_POOL_MAX'', number 10),
      (''DATABASE_CONNECTION_TIMEOUT_MS'', number 5000),
      (''DATABASE_IDLE_TIMEOUT_MS'', number 30000),
      (''REDIS_HOST'', EStr ''redis''),
      (''REDIS_PORT'', number 1),
      (''REDIS_PASSWORD'', EStr ''0123456789abcdef''),
      (''REDIS_URL'', EStr ''rediss://redis''),
      (''QUEUE_WORKER_ENABLED'', EBool True),
      (''QUEUE_WORKER_CONCURRENCY'', number 10),
      (''JWT_SECRET'', EStr ''0123456789abcdef0123456789abcdef''),
      (''JWT_EXPIRES_IN'', EStr ''15m''),
      (''REFRESH_TOKEN_EXPIRES_IN_DAYS'', number 30),
      (''OTEL_EXPORTER_OTLP_ENDPOINT'', EStr []),
      (''AUTHORIZATION_GRANTS_CACHE_TTL_SECONDS'', number 300),
      (''TRUST_CLOUDFLARE_HEADERS'', EStr ''false''),
      (''TURNSTILE_WEB_SECRET'', EStr ''w''),
      (''TURNSTILE_MOBILE_SECRET'', EStr ''m''),
      (''WORKSPACE_INVITATION_EXPIRES_IN_DAYS'', number 7),
      (''EMAIL_FROM'', EStr ''a@b''),
      (''RESEND_API_KEY'', EStr ''k''),
      (''MAILGUN_REGION'', EStr ''us''),
      (''TWILIO_ACCOUNT_SID'', EStr ''AC0123456789abcdef0123456789abcdef''),
      (''TWILIO_AUTH_TOKEN'', EStr ''t''),
      (''TWILIO_FROM'', EStr ''f''),
      (''STORAGE_SIGNED_URL_TTL_SECONDS'', number 300),
      (''STORAGE_REQUEST_TIMEOUT_MS'', number 15000),
      (''STORAGE_S3_FORCE_PATH_STYLE'', EStr ''false''),
      (''STORAGE_GCS_BUCKET'', EStr ''files''),
      (''FILE_UPLOAD_MAX_BYTES'', number maxUploadBytes_default),
      (''FILE_UPLOAD_TTL_SECONDS'', number uploadTtlSeconds_default),
      (''FILE_IMAGE_MAX_PIXELS'', number imageMaxPixels_default),
      (''SWAGGER_ENABLED'', EStr ''true''),
      (''CORS_ORIGIN'', EStr ''https://web''),
      (''THROTTLE_TTL_MS'', number 60000),
      (''THROTTLE_LIMIT'', number 100),
      (''TRUST_PROXY'', EStr ''10.0.0.1''),
      (''MCP_ALLOWED_ORIGINS'', EStr []),
      (''MCP_OAUTH_ACCESS_TOKEN_TTL_MINUTES'', number 60),
      (''MCP_OAUTH_REFRESH_TOKEN_TTL_DAYS'', number 30),
      (''MCP_OAUTH_REDIRECT_DOMAINS'', EStr [])]"

definition test_out :: valid_env where
  "test_out = map_of
     [(''NODE_ENV'', EStr ''test''),
      (''REDIS_TLS_ENABLED'', EStr ''false''),
      (''EMAIL_PROVIDER'', EStr ''stub''),
      (''SMS_PROVIDER'', EStr ''stub''),
      (''STORAGE_PROVIDER'', EStr ''stub''),
      (''PORT'', number 3000),
      (''SERVICE_NAME'', EStr ''api''),
      (''API_BASE_URL'', EStr ''http://localhost:3000/api''),
      (''WEB_BASE_URL'', EStr ''http://localhost:5173''),
      (''DB_USER'', EStr ''u''),
      (''DB_PASSWORD'', EStr ''p''),
      (''DB_HOST'', EStr ''db''),
      (''DB_PORT'', number 1),
      (''DB_NAME'', EStr ''api''),
      (''DATABASE_URL'', EStr ''postgres://db''),
      (''DATABASE_POOL_MAX'', number 10),
      (''DATABASE_CONNECTION_TIMEOUT_MS'', number 5000),
      (''DATABASE_IDLE_TIMEOUT_MS'', number 30000),
      (''REDIS_HOST'', EStr ''redis''),
      (''REDIS_PORT'', number 1),
      (''REDIS_PASSWORD'', EStr ''0123456789abcdef''),
      (''REDIS_URL'', EStr ''redis://redis''),
      (''QUEUE_WORKER_ENABLED'', EBool True),
      (''QUEUE_WORKER_CONCURRENCY'', number 10),
      (''JWT_SECRET'', EStr ''0123456789abcdef0123456789abcdef''),
      (''JWT_EXPIRES_IN'', EStr ''15m''),
      (''REFRESH_TOKEN_EXPIRES_IN_DAYS'', number 30),
      (''OTEL_EXPORTER_OTLP_ENDPOINT'', EStr []),
      (''AUTHORIZATION_GRANTS_CACHE_TTL_SECONDS'', number 300),
      (''TRUST_CLOUDFLARE_HEADERS'', EStr ''false''),
      (''WORKSPACE_INVITATION_EXPIRES_IN_DAYS'', number 7),
      (''MAILGUN_REGION'', EStr ''us''),
      (''STORAGE_SIGNED_URL_TTL_SECONDS'', number 300),
      (''STORAGE_REQUEST_TIMEOUT_MS'', number 15000),
      (''STORAGE_S3_FORCE_PATH_STYLE'', EStr ''false''),
      (''FILE_UPLOAD_MAX_BYTES'', number maxUploadBytes_default),
      (''FILE_UPLOAD_TTL_SECONDS'', number uploadTtlSeconds_default),
      (''FILE_IMAGE_MAX_PIXELS'', number imageMaxPixels_default),
      (''SWAGGER_ENABLED'', EStr ''true''),
      (''CORS_ORIGIN'', EStr ''*''),
      (''THROTTLE_TTL_MS'', number 60000),
      (''THROTTLE_LIMIT'', number 100),
      (''TRUST_PROXY'', EStr ''false''),
      (''MCP_ALLOWED_ORIGINS'', EStr []),
      (''MCP_OAUTH_ACCESS_TOKEN_TTL_MINUTES'', number 60),
      (''MCP_OAUTH_REFRESH_TOKEN_TTL_DAYS'', number 30),
      (''MCP_OAUTH_REDIRECT_DOMAINS'', EStr [])]"

definition sample_joi :: joi where
  "sample_joi schema raw =
     (if schema \<noteq> envValidationSchema then None
      else if raw = production_env then Some production_out else if raw = test_env then Some test_out else None)"

lemma production_service: "list_all (conforms_key sample_platform production_env production_out) service_schema"
  by code_simp

lemma production_database: "list_all (conforms_key sample_platform production_env production_out) database_schema"
  by code_simp

lemma production_redis: "list_all (conforms_key sample_platform production_env production_out) redis_schema"
  by code_simp

lemma production_session: "list_all (conforms_key sample_platform production_env production_out) session_schema"
  by code_simp

lemma production_email: "list_all (conforms_key sample_platform production_env production_out) email_schema"
  by code_simp

lemma production_sms: "list_all (conforms_key sample_platform production_env production_out) sms_schema"
  by code_simp

lemma production_storage: "list_all (conforms_key sample_platform production_env production_out) storage_schema"
  by code_simp

lemma production_http: "list_all (conforms_key sample_platform production_env production_out) http_schema"
  by code_simp

lemma production_mcp: "list_all (conforms_key sample_platform production_env production_out) mcp_schema"
  by code_simp

lemmas production_groups = production_service production_database production_redis production_session production_email production_sms production_storage production_http production_mcp

lemma test_service: "list_all (conforms_key sample_platform test_env test_out) service_schema"
  by code_simp

lemma test_database: "list_all (conforms_key sample_platform test_env test_out) database_schema"
  by code_simp

lemma test_redis: "list_all (conforms_key sample_platform test_env test_out) redis_schema"
  by code_simp

lemma test_session: "list_all (conforms_key sample_platform test_env test_out) session_schema"
  by code_simp

lemma test_email: "list_all (conforms_key sample_platform test_env test_out) email_schema"
  by code_simp

lemma test_sms: "list_all (conforms_key sample_platform test_env test_out) sms_schema"
  by code_simp

lemma test_storage: "list_all (conforms_key sample_platform test_env test_out) storage_schema"
  by code_simp

lemma test_http: "list_all (conforms_key sample_platform test_env test_out) http_schema"
  by code_simp

lemma test_mcp: "list_all (conforms_key sample_platform test_env test_out) mcp_schema"
  by code_simp

lemmas test_groups = test_service test_database test_redis test_session test_email test_sms test_storage test_http test_mcp

lemma sample_conforms:
  "conforms sample_platform envValidationSchema production_env production_out"
  "conforms sample_platform envValidationSchema test_env test_out"
proof -
  have "list_all (conforms_key sample_platform production_env production_out) (js_keys envValidationSchema)"
    "list_all (conforms_key sample_platform test_env test_out) (js_keys envValidationSchema)"
    unfolding envValidationSchema_def joi_schema.simps list_all_append by (simp_all add: production_groups test_groups)
  moreover have "(production_out ''TURNSTILE_WEB_SECRET'' = None) = (production_out ''TURNSTILE_MOBILE_SECRET'' = None)"
    "(test_out ''TURNSTILE_WEB_SECRET'' = None) = (test_out ''TURNSTILE_MOBILE_SECRET'' = None)"
    by code_simp+
  ultimately show "conforms sample_platform envValidationSchema production_env production_out"
    "conforms sample_platform envValidationSchema test_env test_out"
    by (simp_all add: conforms_def envValidationSchema_def)
qed

lemma production_is_not_test: "production_env \<noteq> test_env"
proof -
  have "production_env ''NODE_ENV'' \<noteq> test_env ''NODE_ENV''" by code_simp
  then show ?thesis by metis
qed

lemma sample_joi_accepts:
  "sample_joi envValidationSchema production_env = Some production_out"
  "sample_joi envValidationSchema test_env = Some test_out"
  using production_is_not_test by (simp_all add: sample_joi_def)

lemma sample_joi_laws: "joi_laws sample_platform sample_joi"
  using sample_conforms by (auto simp: joi_laws_def sample_joi_def split: if_splits)

section \<open>Witnesses\<close>

theorem production_floor_witness:
  "ec_provider (ac_email (configuration sample_platform production_env)) \<in> {''resend'', ''mailgun''} \<and>
   \<not> ac_swagger_is_enabled (configuration sample_platform production_env)"
proof -
  have "production_env ''NODE_ENV'' = Some ''production''" by code_simp
  from production_floor [OF sample_joi_laws sample_joi_accepts(1) this refl] show ?thesis by blast
qed

theorem local_reset_link_accepted_witness:
  "\<exists>raw. raw ''NODE_ENV'' = Some ''production'' \<and>
     ac_password_reset_url (configuration sample_platform raw) = ''http://localhost:5173/auth/reset-password''"
proof -
  let ?u = "''http://localhost:5173/auth/reset-password''"
  have "joi_uri sample_platform [''http'', ''https''] ?u" by (simp add: sample_platform_def)
  from local_reset_link_accepted [OF refl this, of "production_env(''PASSWORD_RESET_URL'' \<mapsto> ?u)"
      "production_out(''PASSWORD_RESET_URL'' \<mapsto> EStr ?u)"]
  have "ac_password_reset_url (configuration sample_platform (production_env(''PASSWORD_RESET_URL'' \<mapsto> ?u))) = ?u"
    by simp
  moreover have "(production_env(''PASSWORD_RESET_URL'' \<mapsto> ?u)) ''NODE_ENV'' = Some ''production''" by code_simp
  ultimately show ?thesis by (intro exI conjI)
qed

theorem test_run_uses_stubs_witness:
  "ec_provider (read_email test_env) = ''stub'' \<and> smc_provider (read_sms test_env) = ''stub'' \<and>
   stc_provider (read_storage test_env) = ''stub''"
proof -
  have "test_env ''NODE_ENV'' = Some ''test''" by code_simp
  then show ?thesis by (rule test_run_uses_stubs [OF sample_joi_laws sample_joi_accepts(2)])
qed

theorem validated_configuration_is_typed_witness:
  "ac_service_name (configuration sample_platform test_env) \<noteq> None \<and>
   rdc_port (ac_redis (configuration sample_platform test_env)) \<noteq> None \<and>
   ac_node_env (configuration sample_platform test_env) \<in> {''development'', ''test'', ''staging'', ''production''}"
proof -
  have "joi_reads_digits sample_platform" by (simp add: joi_reads_digits_def sample_platform_def)
  note typed = validated_configuration_is_typed [OF sample_joi_laws sample_joi_accepts(2) refl this]
  have "test_env ''REDIS_PORT'' = Some ''1''" "parseInt ''1'' = Some 1" by code_simp+
  moreover from typed obtain port where "test_env ''REDIS_PORT'' = Some port"
    "rdc_port (ac_redis (configuration sample_platform test_env)) = parseInt port"
    by blast
  ultimately have "rdc_port (ac_redis (configuration sample_platform test_env)) = Some 1"
    by (simp only: option.inject)
  with typed show ?thesis by blast
qed

theorem redis_encrypted_as_declared_witness:
  "\<exists>p. parseRedisUrl sample_platform ''rediss://redis'' = Inr p \<and>
    (case buildRedisConnectionOptions sample_platform (read_redis production_env) of
      Inl e \<Rightarrow> rdc_tls_is_enabled (read_redis production_env)
    | Inr opts \<Rightarrow> ro_url opts = p \<and>
        (case ro_tls opts of None \<Rightarrow> False | Some tls \<Rightarrow> tls_reject_unauthorized tls))"
proof -
  have prefix: "\<exists>r. u = prefix @ r" if "starts_with prefix u" for prefix u :: string
    using that unfolding starts_with_def by (metis append_take_drop_id)
  have "\<not> (starts_with ''rediss://'' u \<and> starts_with ''redis://'' u)" for u
    using prefix [of "''rediss://''" u] prefix [of "''redis://''" u] by auto
  then have laws: "url_laws sample_platform"
    by (auto simp: url_laws_def sample_platform_def sample_url_def)
  have u: "production_env ''REDIS_URL'' = Some ''rediss://redis''" by code_simp
  obtain p where p: "parseRedisUrl sample_platform ''rediss://redis'' = Inr p"
    by (simp add: parseRedisUrl_def sample_platform_def sample_url_def starts_with_def)
  have "rdc_tls_is_enabled (read_redis production_env)" by code_simp
  with redis_encrypted_as_declared [OF sample_joi_laws sample_joi_accepts(1) laws u p] p show ?thesis
    by (auto split: sum.splits option.splits)
qed

end
