(* ===== verification/OAuth_Store.thy ===== *)
theory OAuth_Store
  imports World
begin

text \<open>
  The storage of the MCP authorization server: \<open>src/src/modules/mcp-oauth/oauth-payload.adapter.ts\<close> over the
  \<open>oauth_payloads\<close> table, and its retention (\<open>oauth-payload-retention.handler.ts\<close>).

  A payload is a JSON object whose key order nothing reads (the column is \<open>jsonb\<close>), so it is a map.
  Each operation is one statement of the database, hence one atomic step; overlapping requests are sequences of
  steps.
\<close>

section \<open>The table\<close>

type_synonym payload = "string \<rightharpoonup> json"

record oauth_row =
  op_model :: string
  op_id :: string
  op_payload :: payload
  op_grant_id :: "string option"
  op_user_code :: "string option"
  op_uid :: "string option"
  op_expires_at :: "time option"
  op_consumed_at :: "time option"

text \<open>The two errors of the library that the code throws itself.\<close>

datatype oidc_error = InvalidGrant string | InvalidTarget

text \<open>\<open>payload.grantId ?? null\<close> and its like, which the adapter interface types as strings.\<close>

definition text_column :: "string \<Rightarrow> payload \<Rightarrow> string option" where
  "text_column k p = (case p k of Some (JStr s) \<Rightarrow> Some s | _ \<Rightarrow> None)"

section \<open>The adapter\<close>

definition CREDENTIAL_MODELS :: "string list" where
  "CREDENTIAL_MODELS = [''AuthorizationCode'', ''AccessToken'', ''RefreshToken'']"

definition isCredential :: "string \<Rightarrow> bool" where
  "isCredential model \<longleftrightarrow> model \<in> set CREDENTIAL_MODELS"

definition adapter_key :: "ext \<Rightarrow> string \<Rightarrow> string \<Rightarrow> string" where
  "adapter_key ext model i = (if isCredential model then sha256_hex ext i else i)"

definition at_key :: "string \<Rightarrow> string \<Rightarrow> oauth_row \<Rightarrow> bool" where
  "at_key model key r \<longleftrightarrow> op_model r = model \<and> op_id r = key"

definition upsert_payload ::
  "ext \<Rightarrow> string \<Rightarrow> string \<Rightarrow> payload \<Rightarrow> int option \<Rightarrow> time \<Rightarrow> oauth_row list \<Rightarrow> oauth_row list" where
  "upsert_payload ext model i payload expiresIn now rows =
     (let stored = (if isCredential model then payload(''jti'' := None) else payload);
          key = adapter_key ext model i;
          data = (\<lambda>r. r\<lparr>op_payload := stored,
                        op_grant_id := text_column ''grantId'' payload,
                        op_user_code := text_column ''userCode'' payload,
                        op_uid := text_column ''uid'' payload,
                        op_expires_at := (case expiresIn of
                            None \<Rightarrow> None
                          | Some e \<Rightarrow> (if e = 0 then None else Some (now + e * 1000)))\<rparr>)
      in if \<exists>r \<in> set rows. at_key model key r
         then update_where (at_key model key) data rows
         else rows @ [data \<lparr>op_model = model, op_id = key, op_payload = Map.empty, op_grant_id = None,
                            op_user_code = None, op_uid = None, op_expires_at = None,
                            op_consumed_at = None\<rparr>])"

definition toPayload :: "oauth_row \<Rightarrow> string option \<Rightarrow> time \<Rightarrow> payload option" where
  "toPayload row jti now =
     (if (case op_expires_at row of None \<Rightarrow> False | Some e \<Rightarrow> e \<le> now) then None
      else
        (let payload = (case jti of
                          None \<Rightarrow> op_payload row
                        | Some j \<Rightarrow> (op_payload row)(''jti'' \<mapsto> JStr j))
         in Some (case op_consumed_at row of
                    None \<Rightarrow> payload
                  | Some c \<Rightarrow> payload(''consumed'' \<mapsto> JInt (c div 1000)))))"

definition find_payload :: "ext \<Rightarrow> string \<Rightarrow> string \<Rightarrow> time \<Rightarrow> oauth_row list \<Rightarrow> payload option" where
  "find_payload ext model i now rows =
     (case find (at_key model (adapter_key ext model i)) rows of
        None \<Rightarrow> None
      | Some row \<Rightarrow> toPayload row (if isCredential model then Some i else None) now)"

definition findByUid :: "string \<Rightarrow> string \<Rightarrow> time \<Rightarrow> oauth_row list \<Rightarrow> payload option" where
  "findByUid model uid now rows =
     (case find (\<lambda>r. op_model r = model \<and> op_uid r = Some uid) rows of
        None \<Rightarrow> None
      | Some row \<Rightarrow> toPayload row None now)"

definition findByUserCode :: "string \<Rightarrow> string \<Rightarrow> time \<Rightarrow> oauth_row list \<Rightarrow> payload option" where
  "findByUserCode model userCode now rows =
     (case find (\<lambda>r. op_model r = model \<and> op_user_code r = Some userCode) rows of
        None \<Rightarrow> None
      | Some row \<Rightarrow> toPayload row None now)"

definition consume_payload ::
  "ext \<Rightarrow> string \<Rightarrow> string \<Rightarrow> time \<Rightarrow> oauth_row list \<Rightarrow> (oidc_error + unit) \<times> oauth_row list" where
  "consume_payload ext model i now rows =
     (let unused = (\<lambda>r. at_key model (adapter_key ext model i) r \<and> op_consumed_at r = None);
          count = count_where unused rows
      in (if count = 0 then Inl (InvalidGrant ''grant request is invalid'') else Inr (),
          update_where unused (\<lambda>r. r\<lparr>op_consumed_at := Some now\<rparr>) rows))"

definition destroy_payload :: "ext \<Rightarrow> string \<Rightarrow> string \<Rightarrow> oauth_row list \<Rightarrow> oauth_row list" where
  "destroy_payload ext model i rows =
     filter (\<lambda>r. \<not> at_key model (adapter_key ext model i) r) rows"

definition revokeByGrantId :: "string \<Rightarrow> oauth_row list \<Rightarrow> oauth_row list" where
  "revokeByGrantId grantId rows = filter (\<lambda>r. op_grant_id r \<noteq> Some grantId) rows"

section \<open>Retention\<close>

definition past_expiry :: "time \<Rightarrow> oauth_row \<Rightarrow> bool" where
  "past_expiry now r \<longleftrightarrow> (case op_expires_at r of None \<Rightarrow> False | Some e \<Rightarrow> e < now)"

definition runOnce :: "time \<Rightarrow> oauth_row list \<Rightarrow> nat \<times> oauth_row list" where
  "runOnce now rows =
     (count_where (past_expiry now) rows, filter (\<lambda>r. \<not> past_expiry now r) rows)"

section \<open>Runs\<close>

datatype oauth_op =
    Upsert string string payload "int option" time
  | Consume string string time
  | Destroy string string
  | Revoke string
  | Sweep time

fun oauth_step :: "ext \<Rightarrow> oauth_op \<Rightarrow> oauth_row list \<Rightarrow> oauth_row list" where
  "oauth_step ext (Upsert model i payload expiresIn now) rows =
     upsert_payload ext model i payload expiresIn now rows"
| "oauth_step ext (Consume model i now) rows = snd (consume_payload ext model i now rows)"
| "oauth_step ext (Destroy model i) rows = destroy_payload ext model i rows"
| "oauth_step ext (Revoke grantId) rows = revokeByGrantId grantId rows"
| "oauth_step ext (Sweep now) rows = snd (runOnce now rows)"

definition oauth_run :: "ext \<Rightarrow> oauth_op list \<Rightarrow> oauth_row list \<Rightarrow> oauth_row list" where
  "oauth_run ext ops rows = fold (oauth_step ext) ops rows"

lemma oauth_run_simps [simp]:
  "oauth_run ext [] rows = rows"
  "oauth_run ext (op # ops) rows = oauth_run ext ops (oauth_step ext op rows)"
  by (simp_all add: oauth_run_def)

section \<open>What every step keeps of the table\<close>

lemma find_append_new: "\<not> (\<exists>r \<in> set rows. P r) \<Longrightarrow> P x \<Longrightarrow> find P (rows @ [x]) = Some x"
  by (induction rows) auto

lemma find_update_same:
  "(\<And>r. P (f r) = P r) \<Longrightarrow> find P (update_where P f rows) = map_option f (find P rows)"
  by (induction rows) auto

lemma at_key_data [simp]:
  "at_key m k (r\<lparr>op_payload := p\<rparr>) = at_key m k r"
  "at_key m k (r\<lparr>op_grant_id := g\<rparr>) = at_key m k r"
  "at_key m k (r\<lparr>op_user_code := c\<rparr>) = at_key m k r"
  "at_key m k (r\<lparr>op_uid := u\<rparr>) = at_key m k r"
  "at_key m k (r\<lparr>op_expires_at := e\<rparr>) = at_key m k r"
  "at_key m k (r\<lparr>op_consumed_at := t\<rparr>) = at_key m k r"
  by (simp_all add: at_key_def)

text \<open>A row as the adapter leaves it: a credential only under its digest and without its own id, and the
  lookup columns those of the payload.\<close>

definition oauth_row_ok :: "ext \<Rightarrow> oauth_row \<Rightarrow> bool" where
  "oauth_row_ok ext r \<longleftrightarrow>
     (isCredential (op_model r) \<longrightarrow> op_payload r ''jti'' = None \<and> op_id r \<in> range (sha256_hex ext)) \<and>
     op_grant_id r = text_column ''grantId'' (op_payload r) \<and>
     op_uid r = text_column ''uid'' (op_payload r)"

definition row_key :: "oauth_row \<Rightarrow> string \<times> string" where
  "row_key r = (op_model r, op_id r)"

definition oauth_inv :: "ext \<Rightarrow> oauth_row list \<Rightarrow> bool" where
  "oauth_inv ext rows \<longleftrightarrow> distinct (map row_key rows) \<and> (\<forall>r \<in> set rows. oauth_row_ok ext r)"

definition oauth_moves :: "ext \<Rightarrow> oauth_row list \<Rightarrow> oauth_row list \<Rightarrow> bool" where
  "oauth_moves ext rows rows' \<longleftrightarrow> (\<exists>op. rows' = oauth_step ext op rows)"

lemma row_key_data [simp]:
  "row_key (r\<lparr>op_payload := p\<rparr>) = row_key r"
  "row_key (r\<lparr>op_grant_id := g\<rparr>) = row_key r"
  "row_key (r\<lparr>op_user_code := c\<rparr>) = row_key r"
  "row_key (r\<lparr>op_uid := u\<rparr>) = row_key r"
  "row_key (r\<lparr>op_expires_at := e\<rparr>) = row_key r"
  "row_key (r\<lparr>op_consumed_at := t\<rparr>) = row_key r"
  by (simp_all add: row_key_def)

lemma at_key_row_key: "at_key m k r \<longleftrightarrow> row_key r = (m, k)"
  by (auto simp: at_key_def row_key_def)

lemma text_column_upd: "k \<noteq> k' \<Longrightarrow> text_column k (p(k' := v)) = text_column k p"
  by (simp add: text_column_def)

lemma oauth_inv_filter: "oauth_inv ext rows \<Longrightarrow> oauth_inv ext (filter P rows)"
  by (auto simp: oauth_inv_def distinct_map_filter)

lemma upsert_keeps_inv:
  assumes "oauth_inv ext rows"
  shows "oauth_inv ext (upsert_payload ext model i payload expiresIn now rows)"
proof -
  let ?p = "if isCredential model then payload(''jti'' := None) else payload"
  have cols: "text_column ''grantId'' ?p = text_column ''grantId'' payload"
    "text_column ''uid'' ?p = text_column ''uid'' payload"
    by (simp_all add: text_column_upd)
  have key: "isCredential model \<Longrightarrow> adapter_key ext model i \<in> range (sha256_hex ext)"
    by (simp add: adapter_key_def)
  show ?thesis
  proof (cases "\<exists>r \<in> set rows. at_key model (adapter_key ext model i) r")
    case True
    then show ?thesis
      using assms cols
      by (auto simp: upsert_payload_def Let_def oauth_inv_def map_update_where set_update_where
          oauth_row_ok_def at_key_def adapter_key_def)
  next
    case False
    then have "(model, adapter_key ext model i) \<notin> row_key ` set rows"
      by (auto simp: at_key_row_key)
    with False show ?thesis
      using assms cols key
      by (auto simp: upsert_payload_def Let_def oauth_inv_def oauth_row_ok_def row_key_def)
  qed
qed

lemma consume_keeps_inv:
  "oauth_inv ext rows \<Longrightarrow> oauth_inv ext (snd (consume_payload ext model i now rows))"
  by (auto simp: consume_payload_def Let_def oauth_inv_def map_update_where set_update_where
      oauth_row_ok_def)

lemma step_keeps_inv: "oauth_inv ext rows \<Longrightarrow> oauth_inv ext (oauth_step ext op rows)"
  by (cases op)
    (simp_all add: upsert_keeps_inv consume_keeps_inv destroy_payload_def revokeByGrantId_def runOnce_def
      oauth_inv_filter)

definition oauth_empty :: "oauth_row list \<Rightarrow> bool" where
  "oauth_empty rows \<longleftrightarrow> rows = []"

interpretation oauth_table: machine oauth_empty "oauth_moves ext" "oauth_inv ext" for ext
proof
  show "oauth_empty rows \<Longrightarrow> oauth_inv ext rows" for rows
    by (simp add: oauth_empty_def oauth_inv_def)
  show "oauth_inv ext rows \<Longrightarrow> oauth_moves ext rows rows' \<Longrightarrow> oauth_inv ext rows'" for rows rows'
    by (auto simp: oauth_moves_def intro: step_keeps_inv)
qed

end
