(* ===== verification/OAuth_Provider.thy ===== *)
theory OAuth_Provider
  imports Access OAuth_Store Env_Schema
begin

text \<open>
  The MCP authorization server around \<open>oidc-provider\<close>: \<open>src/src/modules/mcp-oauth/mcp-oauth-provider.service.ts\<close>,
  its fixed values (\<open>mcp-oauth.config.ts\<close>), its keys (\<open>src/src/common/util/oauth-keys.util.ts\<close>), and the guard
  of the MCP endpoint (\<open>src/src/modules/mcp/guards/mcp-oauth.guard.ts\<close>).

  The library is a parameter (\<open>oidc_library\<close>): what its \<open>find\<close> methods return for the rows the adapter holds.
  The one thing relied on is that an access token is found only through the adapter (\<open>reads_through_adapter\<close>).
\<close>

section \<open>Fixed values\<close>

definition MCP_OAUTH_SCOPE :: string where
  "MCP_OAUTH_SCOPE = ''mcp:use''"

definition MCP_OAUTH_INTERACTION_PATH :: string where
  "MCP_OAUTH_INTERACTION_PATH = ''/oauth/interaction''"

definition MCP_OAUTH_INTERACTION_TTL_SECONDS :: int where
  "MCP_OAUTH_INTERACTION_TTL_SECONDS = 10 * 60"

definition MCP_OAUTH_AUTHORIZATION_CODE_TTL_SECONDS :: int where
  "MCP_OAUTH_AUTHORIZATION_CODE_TTL_SECONDS = 60"

record mcp_oauth_settings =
  mo_issuer :: string
  mo_resource :: string
  mo_access_token_ttl :: int
  mo_refresh_token_ttl :: int
  mo_redirect_origins :: "string list"
  mo_allowed_origins :: "string list"

section \<open>Derived keys\<close>

text \<open>HKDF-SHA256 with an empty salt, the import of an Ed25519 seed, and base64url.\<close>

record key_library =
  hkdf :: "string \<Rightarrow> string \<Rightarrow> nat \<Rightarrow> string"
  ed25519_jwk :: "string \<Rightarrow> (string \<times> json) list"
  base64url :: "string \<Rightarrow> string"
  hmac_base64url :: "string \<Rightarrow> string \<Rightarrow> string"

record oauth_server_keys =
  ok_signing_jwk :: "(string \<times> json) list"
  ok_cookie_keys :: "string list"
  ok_form_token_key :: string

definition deriveOAuthServerKeys :: "key_library \<Rightarrow> string \<Rightarrow> oauth_server_keys" where
  "deriveOAuthServerKeys lib secret =
     (let seed = hkdf lib secret ''mcp-oauth/signing-key/v1'' 32;
          kid = base64url lib (hkdf lib secret ''mcp-oauth/signing-key-id/v1'' 12)
      in \<lparr>ok_signing_jwk = ed25519_jwk lib seed @
            [(''kid'', JStr kid), (''alg'', JStr ''EdDSA''), (''use'', JStr ''sig'')],
          ok_cookie_keys = [base64url lib (hkdf lib secret ''mcp-oauth/cookie-key/v1'' 32)],
          ok_form_token_key = hkdf lib secret ''mcp-oauth/form-token-key/v1'' 32\<rparr>)"

section \<open>The library\<close>

text \<open>An access token as the code reads it; \<open>aud\<close> may be anything, and is compared with \<open>===\<close>.\<close>

record access_token =
  at_account_id :: "string option"
  at_client_id :: "string option"
  at_is_expired :: bool
  at_aud :: "json option"
  at_iat :: "int option"
  at_exp :: "int option"
  at_scopes :: "string list"

text \<open>The interaction a request belongs to, where the library knows one.\<close>

record interaction_details =
  id_uid :: string
  id_prompt :: string
  id_missing_oidc_scope :: "string list option"
  id_missing_resource_scopes :: "(string \<times> string list) list option"
  id_session_account :: "string option"
  id_session_cookie :: "string option"
  id_grant_id :: "string option"
  id_client_id :: string
  id_redirect_uri :: "string option"

record oidc_library =
  AccessToken_find :: "oauth_row list \<Rightarrow> time \<Rightarrow> string \<Rightarrow> access_token option"
  Session_authTime :: "oauth_row list \<Rightarrow> time \<Rightarrow> string \<Rightarrow> int option"
  Grant_exists :: "oauth_row list \<Rightarrow> time \<Rightarrow> string \<Rightarrow> bool"
  Client_name :: "string \<Rightarrow> string option"

text \<open>What the library documents of its adapter: a record the adapter does not find does not exist.\<close>

definition reads_through_adapter :: "ext \<Rightarrow> oidc_library \<Rightarrow> bool" where
  "reads_through_adapter ext oidc \<longleftrightarrow>
     (\<forall>rows now token. find_payload ext ''AccessToken'' token now rows = None \<longrightarrow>
        AccessToken_find oidc rows now token = None)"

section \<open>Who may use an MCP credential\<close>

definition isAccountUsable :: "user_row \<Rightarrow> int option \<Rightarrow> bool" where
  "isAccountUsable user issuedAt =
     (if \<not> u_is_active user \<or> u_email_verified_at user = None then False
      else (case (u_password_changed_at user, issuedAt) of
              (Some changedAt, Some iat) \<Rightarrow> changedAt div 1000 \<le> iat
            | _ \<Rightarrow> True))"

definition findUsableAccount :: "ident \<Rightarrow> int option \<Rightarrow> world \<Rightarrow> user_row option" where
  "findUsableAccount userId issuedAt w =
     (case findByIdOrNull userId w of
        None \<Rightarrow> None
      | Some user \<Rightarrow> (if isAccountUsable user issuedAt then Some user else None))"

record mcp_token_principal =
  tp_user_id :: ident
  tp_client_id :: string
  tp_scopes :: "string list"
  tp_expires_at :: int

definition verifyAccessToken ::
  "mcp_oauth_settings \<Rightarrow> oidc_library \<Rightarrow> string \<Rightarrow> time \<Rightarrow> oauth_row list \<Rightarrow> world
   \<Rightarrow> mcp_token_principal option" where
  "verifyAccessToken cfg oidc token now rows w =
     (case AccessToken_find oidc rows now token of
        None \<Rightarrow> None
      | Some accessToken \<Rightarrow>
          (if \<not> truthy (at_account_id accessToken) \<or> \<not> truthy (at_client_id accessToken) \<or>
              at_is_expired accessToken then None
           else if at_aud accessToken \<noteq> Some (JStr (mo_resource cfg)) then None
           else (case findUsableAccount (the (at_account_id accessToken)) (at_iat accessToken) w of
                   None \<Rightarrow> None
                 | Some account \<Rightarrow>
                     Some \<lparr>tp_user_id = u_id account, tp_client_id = the (at_client_id accessToken),
                           tp_scopes = at_scopes accessToken,
                           tp_expires_at = (case at_exp accessToken of None \<Rightarrow> 0 | Some e \<Rightarrow> e)\<rparr>)))"

definition sessionSignedInAt :: "oidc_library \<Rightarrow> string option \<Rightarrow> time \<Rightarrow> oauth_row list \<Rightarrow> int option" where
  "sessionSignedInAt oidc sessionCookie now rows =
     (if \<not> truthy sessionCookie then None else Session_authTime oidc rows now (the sessionCookie))"

text \<open>\<open>findAccount\<close>: a code or refresh token with its \<open>authTime\<close> and \<open>iat\<close>, or none and the sign-in time of
  the browser session.\<close>

definition findAccount ::
  "ident \<Rightarrow> (int option \<times> int option) option \<Rightarrow> int option \<Rightarrow> world \<Rightarrow> ident option" where
  "findAccount sub token sessionAuthTime w =
     (let signedInAt = (case token of
            Some (authTime, iat) \<Rightarrow> (case authTime of None \<Rightarrow> iat | Some a \<Rightarrow> Some a)
          | None \<Rightarrow> sessionAuthTime)
      in case signedInAt of
           None \<Rightarrow> None
         | Some s \<Rightarrow> map_option u_id (findUsableAccount sub (Some s) w))"

section \<open>The configuration of the library\<close>

record resource_server_info =
  rs_scope :: string
  rs_audience :: string
  rs_access_token_ttl :: int
  rs_access_token_format :: string

definition getResourceServerInfo :: "mcp_oauth_settings \<Rightarrow> string \<Rightarrow> oidc_error + resource_server_info" where
  "getResourceServerInfo cfg indicator =
     (if indicator \<noteq> mo_resource cfg then Inl InvalidTarget
      else Inr \<lparr>rs_scope = MCP_OAUTH_SCOPE, rs_audience = mo_resource cfg,
                rs_access_token_ttl = mo_access_token_ttl cfg, rs_access_token_format = ''opaque''\<rparr>)"

text \<open>The lifetimes, by model: a rotated refresh token inherits what is left of the one it replaces.\<close>

definition oauth_ttl :: "mcp_oauth_settings \<Rightarrow> int option \<Rightarrow> string \<rightharpoonup> int" where
  "oauth_ttl cfg rotatedRemaining =
     [''AccessToken'' \<mapsto> mo_access_token_ttl cfg,
      ''AuthorizationCode'' \<mapsto> MCP_OAUTH_AUTHORIZATION_CODE_TTL_SECONDS,
      ''Interaction'' \<mapsto> MCP_OAUTH_INTERACTION_TTL_SECONDS,
      ''Session'' \<mapsto> MCP_OAUTH_INTERACTION_TTL_SECONDS,
      ''Grant'' \<mapsto> mo_refresh_token_ttl cfg,
      ''RefreshToken'' \<mapsto> (case rotatedRemaining of None \<Rightarrow> mo_refresh_token_ttl cfg | Some r \<Rightarrow> r)]"

text \<open>An interaction policy: its prompts, each with its checks on what the last submission left (\<open>result.login\<close>
  and \<open>result.consent\<close>); a prompt is asked for when a check requests it.\<close>

record submission =
  su_login :: bool
  su_consent :: bool

type_synonym policy = "(string \<times> (submission \<Rightarrow> bool) list) list"

definition add_check :: "string \<Rightarrow> (submission \<Rightarrow> bool) \<Rightarrow> policy \<Rightarrow> policy" where
  "add_check prompt check base =
     map (\<lambda>(name, checks). (name, if name = prompt then checks @ [check] else checks)) base"

definition buildInteractionPolicy :: "policy \<Rightarrow> policy" where
  "buildInteractionPolicy base =
     add_check ''consent'' (\<lambda>result. \<not> su_consent result)
       (add_check ''login'' (\<lambda>result. \<not> su_login result) base)"

definition prompts_asked :: "policy \<Rightarrow> submission \<Rightarrow> string list" where
  "prompts_asked policy result = map fst (filter (\<lambda>(_, checks). \<exists>check \<in> set checks. check result) policy)"

section \<open>The request handed to the library\<close>

definition url_host :: "url_parts \<Rightarrow> string" where
  "url_host url = url_hostname url @ (if url_port url = [] then [] else CHR '':'' # url_port url)"

definition handle_headers :: "url_parts \<Rightarrow> (string \<rightharpoonup> string) \<Rightarrow> (string \<rightharpoonup> string)" where
  "handle_headers issuerUrl headers =
     headers(''host'' \<mapsto> url_host issuerUrl, ''x-forwarded-host'' := None,
             ''x-forwarded-proto'' \<mapsto> remove1 (CHR '':'') (url_protocol issuerUrl))"

section \<open>The guard of the MCP endpoint\<close>

text \<open>\<open>/^bearer\s+(\S+)\s*$/i\<close>.\<close>

definition bearer_token :: "string \<Rightarrow> string option" where
  "bearer_token header =
     (let rest = drop 6 header;
          afterSpace = dropWhile white_space rest;
          token = takeWhile (\<lambda>c. \<not> white_space c) afterSpace
      in if to_lower_case (take 6 header) = ''bearer'' \<and> takeWhile white_space rest \<noteq> [] \<and> token \<noteq> [] \<and>
            list_all white_space (dropWhile (\<lambda>c. \<not> white_space c) afterSpace)
         then Some token else None)"

record mcp_auth_info =
  ai_token :: string
  ai_client_id :: string
  ai_scopes :: "string list"
  ai_expires_at :: int
  ai_resource :: string
  ai_user_id :: ident

definition mcp_challenge :: "string \<Rightarrow> string" where
  "mcp_challenge metadataUrl =
     ''Bearer realm='' @ [CHR 0x22] @ ''mcp'' @ [CHR 0x22] @ '', resource_metadata='' @ [CHR 0x22] @ metadataUrl @
     [CHR 0x22] @ '', scope='' @ [CHR 0x22] @ MCP_OAUTH_SCOPE @ [CHR 0x22]"

text \<open>The answer and the \<open>WWW-Authenticate\<close> header of a refusal.\<close>

definition canActivate_mcp ::
  "mcp_oauth_settings \<Rightarrow> oidc_library \<Rightarrow> string \<Rightarrow> string option \<Rightarrow> string option \<Rightarrow> time \<Rightarrow> oauth_row list
   \<Rightarrow> world \<Rightarrow> (exn + mcp_auth_info) \<times> string option" where
  "canActivate_mcp cfg oidc metadataUrl origin authorization now rows w =
     (if (case origin of None \<Rightarrow> False | Some ori \<Rightarrow> ori \<notin> set (mo_allowed_origins cfg))
      then (Inl (permissionDenied ''mcp'' None), None)
      else
        (case bearer_token (case authorization of None \<Rightarrow> [] | Some a \<Rightarrow> a) of
           None \<Rightarrow> (Inl tokenMissing, Some (mcp_challenge metadataUrl))
         | Some token \<Rightarrow>
             (case verifyAccessToken cfg oidc token now rows w of
                None \<Rightarrow>
                  (Inl tokenInvalid,
                   Some (mcp_challenge metadataUrl @ '', error='' @ [CHR 0x22] @ ''invalid_token'' @ [CHR 0x22]))
              | Some bearer \<Rightarrow>
                  (Inr \<lparr>ai_token = [], ai_client_id = tp_client_id bearer,
                        ai_scopes = tp_scopes bearer, ai_expires_at = tp_expires_at bearer,
                        ai_resource = mo_resource cfg, ai_user_id = tp_user_id bearer\<rparr>, None))))"

section \<open>First facts\<close>

lemma isAccountUsable_iff:
  "isAccountUsable user issuedAt \<longleftrightarrow>
     u_is_active user \<and> u_email_verified_at user \<noteq> None \<and>
     (\<forall>c i. u_password_changed_at user = Some c \<longrightarrow> issuedAt = Some i \<longrightarrow> c div 1000 \<le> i)"
  by (auto simp: isAccountUsable_def split: option.splits)

lemma findUsableAccount_Some:
  "findUsableAccount userId issuedAt w = Some u \<longleftrightarrow>
     find_live_user w userId = Some u \<and> isAccountUsable u issuedAt"
  by (auto simp: findUsableAccount_def findByIdOrNull_def split: option.splits if_splits)

lemma findUsableAccount_id: "findUsableAccount userId issuedAt w = Some u \<Longrightarrow> u_id u = userId"
  by (auto simp: findUsableAccount_Some dest: find_live_user_Some)

lemma verifyAccessToken_Some:
  "verifyAccessToken cfg oidc token now rows w = Some p \<longleftrightarrow>
     (\<exists>t account user client. AccessToken_find oidc rows now token = Some t \<and>
        at_account_id t = Some account \<and> account \<noteq> [] \<and> at_client_id t = Some client \<and> client \<noteq> [] \<and>
        \<not> at_is_expired t \<and> at_aud t = Some (JStr (mo_resource cfg)) \<and>
        findUsableAccount account (at_iat t) w = Some user \<and>
        p = \<lparr>tp_user_id = account, tp_client_id = client, tp_scopes = at_scopes t,
             tp_expires_at = (case at_exp t of None \<Rightarrow> 0 | Some e \<Rightarrow> e)\<rparr>)"
  by (auto simp: verifyAccessToken_def truthy_def findUsableAccount_id
      split: option.splits if_splits dest: findUsableAccount_id)

lemma findAccount_Some:
  "findAccount sub token sessionAuthTime w = Some i \<longleftrightarrow>
     i = sub \<and> (\<exists>s user. findUsableAccount sub (Some s) w = Some user \<and>
       Some s = (case token of Some (Some a, _) \<Rightarrow> Some a | Some (None, iat) \<Rightarrow> iat
                 | None \<Rightarrow> sessionAuthTime))"
  by (auto simp: findAccount_def Let_def split: option.splits dest: findUsableAccount_id)

end
