(* ===== verification/OAuth_Interactions.thy ===== *)
theory OAuth_Interactions
  imports OAuth_Provider Turnstile
begin

text \<open>
  The pages and the registration of the MCP authorization server:
  \<open>src/src/modules/mcp-oauth/oauth-pages.service.ts\<close>, \<open>oauth-interaction.controller.ts\<close>,
  \<open>oauth-protocol.controller.ts\<close> and \<open>src/src/common/util/login-throttle.util.ts\<close>.

  A handler returns the page it renders or the result it hands to the library's \<open>interactionFinished\<close>.  The
  bot check and the throttles in front of the handlers, and the HTML of the pages, are not part of this theory.
\<close>

section \<open>Pages\<close>

datatype page_view = LoginPage | ConsentPage | MessagePage

definition isSignInAvailable :: "secret_keys \<Rightarrow> string option \<Rightarrow> bool" where
  "isSignInAvailable keys siteKey \<longleftrightarrow> \<not> isEnabled keys \<or> siteKey \<noteq> None"

definition TURNSTILE_ORIGIN :: string where
  "TURNSTILE_ORIGIN = ''https://challenges.cloudflare.com''"

text \<open>The values of the headers of a page; \<open>nonce\<close> is random.\<close>

definition page_directives ::
  "platform \<Rightarrow> string option \<Rightarrow> page_view \<Rightarrow> string option \<Rightarrow> string \<Rightarrow> string list" where
  "page_directives pf siteKey view redirectUri nonce =
     (let turnstileSiteKey = (if view = LoginPage then siteKey else None);
          formActions = [CHR 0x27 # ''self'' @ [CHR 0x27]] @
            (case redirectUri of
               None \<Rightarrow> []
             | Some uri \<Rightarrow> (case new_url pf uri of None \<Rightarrow> [] | Some url \<Rightarrow> [url_origin url]));
          quoted = (\<lambda>s. CHR 0x27 # s @ [CHR 0x27])
      in [''default-src '' @ quoted ''none'',
          ''style-src '' @ quoted (''nonce-'' @ nonce),
          (if truthy turnstileSiteKey then ''script-src '' @ quoted (''nonce-'' @ nonce) @ '' '' @ TURNSTILE_ORIGIN
           else ''script-src '' @ quoted ''none''),
          (if truthy turnstileSiteKey then ''frame-src '' @ TURNSTILE_ORIGIN else ''frame-src '' @ quoted ''none''),
          (if truthy turnstileSiteKey then ''connect-src '' @ TURNSTILE_ORIGIN else ''connect-src '' @ quoted ''none''),
          ''img-src '' @ quoted ''self'',
          ''form-action '' @ join_with '' '' formActions,
          ''frame-ancestors '' @ quoted ''none'',
          ''base-uri '' @ quoted ''none''])"

definition page_headers ::
  "platform \<Rightarrow> string option \<Rightarrow> page_view \<Rightarrow> string option \<Rightarrow> string \<Rightarrow> (string \<times> string) list" where
  "page_headers pf siteKey view redirectUri nonce =
     [(''Content-Security-Policy'', join_with ''; '' (page_directives pf siteKey view redirectUri nonce)),
      (''X-Frame-Options'', ''DENY''),
      (''Cache-Control'', ''no-store''),
      (''Referrer-Policy'', ''no-referrer'')]"

text \<open>The anti-forgery token of a sign-in attempt.\<close>

definition interaction_formToken :: "key_library \<Rightarrow> string \<Rightarrow> string \<Rightarrow> string" where
  "interaction_formToken lib formTokenKey interactionUid =
     hmac_base64url lib formTokenKey (''mcp-oauth-form:'' @ interactionUid)"

definition isValidFormToken :: "key_library \<Rightarrow> string \<Rightarrow> string \<Rightarrow> json option \<Rightarrow> bool" where
  "isValidFormToken lib formTokenKey interactionUid presented =
     (case presented of
        Some (JStr actual) \<Rightarrow>
          (let expected = interaction_formToken lib formTokenKey interactionUid
           in length actual = length expected \<and> actual = expected)
      | _ \<Rightarrow> False)"

section \<open>Sign-in and consent\<close>

datatype interaction_result =
    LoginResult ident int
  | ConsentResult string
  | ErrorResult string string

datatype interaction_answer =
    Rendered page_view nat "(string \<times> json) list" "string option"
  | Finished interaction_result bool

text \<open>A grant, new or found, with the scopes that were added to it before it was saved.\<close>

datatype grant_base = NewGrant ident string | ExistingGrant string

datatype grant_call = AddOIDCScope string | AddResourceScope string string

record saved_grant =
  sg_base :: grant_base
  sg_calls :: "grant_call list"

text \<open>A request with the interaction the library finds for it; \<open>None\<close> is a lookup that throws.\<close>

record interaction_request =
  ir_uid :: string
  ir_post :: bool
  ir_body :: "payload option"
  ir_details :: "interaction_details option"

record oauth_pages =
  og_library :: key_library
  og_form_token_key :: string
  og_secret_keys :: secret_keys
  og_site_key :: "string option"
  og_oidc :: oidc_library
  og_save_grant :: "saved_grant \<Rightarrow> string"

definition body_field :: "interaction_request \<Rightarrow> string \<Rightarrow> json option" where
  "body_field request k = (case ir_body request of None \<Rightarrow> None | Some body \<Rightarrow> body k)"

definition renderExpired :: interaction_answer where
  "renderExpired = Rendered MessagePage 400
     [(''title'', JStr ''Sign-in expired''),
      (''message'', JStr ''This sign-in has expired or was opened in another browser. Start the connection again from your application.'')]
     None"

definition renderRefused :: interaction_answer where
  "renderRefused = Rendered MessagePage 403
     [(''title'', JStr ''Request refused''),
      (''message'', JStr ''This form could not be verified. Start the connection again from your application.'')]
     None"

definition loadInteraction ::
  "oauth_pages \<Rightarrow> interaction_request \<Rightarrow> string option \<Rightarrow> interaction_answer + interaction_details" where
  "loadInteraction og request expectedPrompt =
     (case ir_details request of
        None \<Rightarrow> Inl renderExpired
      | Some details \<Rightarrow>
          (if id_uid details \<noteq> ir_uid request then Inl renderExpired
           else if ir_post request \<and>
                   (\<not> isValidFormToken (og_library og) (og_form_token_key og) (ir_uid request)
                        (body_field request ''formToken'') \<or>
                    (case expectedPrompt of None \<Rightarrow> False | Some p \<Rightarrow> id_prompt details \<noteq> p))
           then Inl renderRefused
           else Inr details))"

text \<open>\<open>deny\<close>.\<close>

definition deny :: interaction_answer where
  "deny = Finished (ErrorResult ''access_denied'' ''The user did not allow access.'') False"

definition signInFailureMessage :: "exn \<Rightarrow> string option" where
  "signInFailureMessage e =
     (case e of
        HttpException _ code _ _ \<Rightarrow>
          (if code = INVALID_CREDENTIALS then Some ''That email or username and password do not match.''
           else if code = EMAIL_NOT_VERIFIED
           then Some ''Verify your email address before signing in. Check your inbox for the link.''
           else None)
      | _ \<Rightarrow> None)"

definition text_or :: "string \<Rightarrow> string option \<Rightarrow> json" where
  "text_or alternative s = JStr (case s of None \<Rightarrow> alternative | Some t \<Rightarrow> t)"

definition form_token_of :: "oauth_pages \<Rightarrow> interaction_details \<Rightarrow> json" where
  "form_token_of og details =
     JStr (interaction_formToken (og_library og) (og_form_token_key og) (id_uid details))"

definition renderLogin ::
  "oauth_pages \<Rightarrow> interaction_details \<Rightarrow> string option \<Rightarrow> string option \<Rightarrow> nat option \<Rightarrow> interaction_answer" where
  "renderLogin og details error identifier status =
     (let base = MCP_OAUTH_INTERACTION_PATH @ ''/'' @ id_uid details
      in Rendered LoginPage (case status of None \<Rightarrow> 200 | Some s \<Rightarrow> s)
           [(''title'', JStr ''Sign in''),
            (''clientName'', text_or ''An application'' (Client_name (og_oidc og) (id_client_id details))),
            (''action'', JStr (base @ ''/login'')),
            (''abortAction'', JStr (base @ ''/abort'')),
            (''formToken'', form_token_of og details),
            (''error'', json_of_option JStr error),
            (''identifier'', json_of_option JStr identifier)]
           (id_redirect_uri details))"

definition renderConsent :: "oauth_pages \<Rightarrow> interaction_details \<Rightarrow> world \<Rightarrow> interaction_answer" where
  "renderConsent og details w =
     (let account = (if truthy (id_session_account details)
                     then findUsableAccount (the (id_session_account details)) None w else None);
          redirectUri = id_redirect_uri details
      in Rendered ConsentPage 200
           [(''title'', JStr ''Allow access''),
            (''clientName'', text_or ''Unnamed application'' (Client_name (og_oidc og) (id_client_id details))),
            (''redirectUri'', json_of_option JStr redirectUri),
            (''userEmail'', text_or [] (map_option u_email account)),
            (''action'', JStr (MCP_OAUTH_INTERACTION_PATH @ ''/'' @ id_uid details @ ''/confirm'')),
            (''formToken'', form_token_of og details)]
           redirectUri)"

definition show_interaction :: "oauth_pages \<Rightarrow> interaction_request \<Rightarrow> world \<Rightarrow> interaction_answer" where
  "show_interaction og request w =
     (case loadInteraction og request None of
        Inl answer \<Rightarrow> answer
      | Inr details \<Rightarrow>
          (if id_prompt details = ''login'' then
             (if \<not> isSignInAvailable (og_secret_keys og) (og_site_key og)
              then Rendered MessagePage 503
                     [(''title'', JStr ''Sign-in unavailable''),
                      (''message'', JStr ''Signing in is not available right now because the bot check is not fully configured. Contact the administrator of this service.'')]
                     None
              else renderLogin og details None None None)
           else renderConsent og details w))"

definition text_field :: "interaction_request \<Rightarrow> string \<Rightarrow> string" where
  "text_field request k = (case body_field request k of Some (JStr s) \<Rightarrow> s | _ \<Rightarrow> [])"

definition login_interaction ::
  "ext \<Rightarrow> oauth_pages \<Rightarrow> interaction_request \<Rightarrow> time \<Rightarrow> world \<Rightarrow> exn + interaction_answer" where
  "login_interaction ext og request now w =
     (case loadInteraction og request (Some ''login'') of
        Inl answer \<Rightarrow> Inr answer
      | Inr details \<Rightarrow>
          (let identifier = text_field request ''identifier'';
               password = text_field request ''password''
           in case verifyCredentials ext identifier password w of
                Inr user \<Rightarrow> Inr (Finished (LoginResult (u_id user) (now div 1000)) False)
              | Inl e \<Rightarrow>
                  (case signInFailureMessage e of
                     None \<Rightarrow> Inl e
                   | Some message \<Rightarrow> Inr (renderLogin og details (Some message) (Some identifier) (Some 400)))))"

definition missing_scope_calls :: "interaction_details \<Rightarrow> grant_call list" where
  "missing_scope_calls details =
     (case id_missing_oidc_scope details of
        None \<Rightarrow> []
      | Some scopes \<Rightarrow> (if scopes = [] then [] else [AddOIDCScope (join_with '' '' scopes)])) @
     map (\<lambda>(indicator, scopes). AddResourceScope indicator (join_with '' '' scopes))
       (case id_missing_resource_scopes details of None \<Rightarrow> [] | Some m \<Rightarrow> m)"

text \<open>The answer of \<open>confirm\<close>, and the grant it saved.\<close>

definition confirm_interaction ::
  "oauth_pages \<Rightarrow> interaction_request \<Rightarrow> time \<Rightarrow> oauth_row list \<Rightarrow> world
   \<Rightarrow> interaction_answer \<times> saved_grant option" where
  "confirm_interaction og request now rows w =
     (case loadInteraction og request (Some ''consent'') of
        Inl answer \<Rightarrow> (answer, None)
      | Inr details \<Rightarrow>
          (if body_field request ''decision'' \<noteq> Some (JStr ''approve'') then (deny, None)
           else
             (let accountId = id_session_account details;
                  signedInAt = sessionSignedInAt (og_oidc og) (id_session_cookie details) now rows
              in case (if truthy accountId \<and> signedInAt \<noteq> None
                       then findUsableAccount (the accountId) signedInAt w else None) of
                   None \<Rightarrow> (deny, None)
                 | Some account \<Rightarrow>
                     (case (if truthy (id_grant_id details)
                            then (if Grant_exists (og_oidc og) rows now (the (id_grant_id details))
                                  then Some (ExistingGrant (the (id_grant_id details))) else None)
                            else Some (NewGrant (u_id account) (id_client_id details))) of
                        None \<Rightarrow> (deny, None)
                      | Some base \<Rightarrow>
                          (let saved = \<lparr>sg_base = base, sg_calls = missing_scope_calls details\<rparr>
                           in (Finished (ConsentResult (og_save_grant og saved)) True, Some saved))))))"

definition abort_interaction :: "oauth_pages \<Rightarrow> interaction_request \<Rightarrow> interaction_answer" where
  "abort_interaction og request =
     (case loadInteraction og request None of Inl answer \<Rightarrow> answer | Inr _ \<Rightarrow> deny)"

section \<open>Registration\<close>

definition REGISTRATION_METADATA :: "string list" where
  "REGISTRATION_METADATA =
     [''redirect_uris'', ''client_name'', ''grant_types'', ''response_types'',
      ''token_endpoint_auth_method'', ''application_type'', ''scope'']"

definition registration_redirectUris :: nat where
  "registration_redirectUris = 10"

definition registration_redirectUriLength :: nat where
  "registration_redirectUriLength = 1024"

definition registration_clientNameLength :: nat where
  "registration_clientNameLength = 255"

datatype registration_answer =
    RegistrationRefused nat string string
  | HandedToProvider payload

definition redirect_uri_ok :: "platform \<Rightarrow> mcp_oauth_settings \<Rightarrow> json \<Rightarrow> bool" where
  "redirect_uri_ok pf cfg uri =
     (case uri of
        JStr s \<Rightarrow> length s \<le> registration_redirectUriLength \<and>
          isPermittedMcpRedirectUri pf s (mo_redirect_origins cfg)
      | _ \<Rightarrow> False)"

definition loopback_uri :: "platform \<Rightarrow> json \<Rightarrow> bool" where
  "loopback_uri pf uri = (case uri of JStr s \<Rightarrow> isLoopbackRedirectUri pf s | _ \<Rightarrow> False)"

definition register_client ::
  "platform \<Rightarrow> mcp_oauth_settings \<Rightarrow> payload option \<Rightarrow> registration_answer" where
  "register_client pf cfg body =
     (let submitted = (case body of None \<Rightarrow> Map.empty | Some b \<Rightarrow> b)
      in case submitted ''redirect_uris'' of
           Some (JArr redirectUris) \<Rightarrow>
             (if redirectUris = [] \<or> length redirectUris > registration_redirectUris \<or>
                 \<not> list_all (redirect_uri_ok pf cfg) redirectUris
              then RegistrationRefused 400 ''invalid_redirect_uri''
                ''Between 1 and 10 redirect URIs, each http://localhost (or 127.0.0.1, [::1]) or an https URL this server allows.''
              else if (case submitted ''client_name'' of
                         None \<Rightarrow> False
                       | Some (JStr s) \<Rightarrow> length s > registration_clientNameLength
                       | Some _ \<Rightarrow> True)
              then RegistrationRefused 400 ''invalid_client_metadata''
                ''client_name must be a string of at most 255 characters.''
              else
                (let kept = (\<lambda>k. if k \<in> set REGISTRATION_METADATA then submitted k else None);
                     typed = (if kept ''application_type'' = None \<and> list_all (loopback_uri pf) redirectUris
                              then kept(''application_type'' \<mapsto> JStr ''native'') else kept)
                 in HandedToProvider
                      (if typed ''token_endpoint_auth_method'' = None
                       then typed(''token_endpoint_auth_method'' \<mapsto> JStr ''none'') else typed)))
         | _ \<Rightarrow> RegistrationRefused 400 ''invalid_redirect_uri''
                ''Between 1 and 10 redirect URIs, each http://localhost (or 127.0.0.1, [::1]) or an https URL this server allows.'')"

text \<open>RFC 9728 metadata of the resource.\<close>

definition protectedResourceMetadata :: "mcp_oauth_settings \<Rightarrow> (string \<times> json) list" where
  "protectedResourceMetadata cfg =
     [(''resource'', JStr (mo_resource cfg)),
      (''authorization_servers'', JArr [JStr (mo_issuer cfg)]),
      (''scopes_supported'', JArr [JStr MCP_OAUTH_SCOPE]),
      (''bearer_methods_supported'', JArr [JStr ''header''])]"

section \<open>The budget of password sign-ins\<close>

definition loginThrottleTracker :: "payload option \<Rightarrow> string option \<Rightarrow> string" where
  "loginThrottleTracker body ip =
     (let identifier = (case body of
            None \<Rightarrow> []
          | Some b \<Rightarrow> (case b ''identifier'' of Some (JStr s) \<Rightarrow> to_lower_case (trim s) | _ \<Rightarrow> []))
      in identifier @ ''|'' @ (case ip of None \<Rightarrow> [] | Some a \<Rightarrow> a))"

definition passwordSignInThrottleKey :: "ext \<Rightarrow> 'handler \<Rightarrow> string \<Rightarrow> string \<Rightarrow> string" where
  "passwordSignInThrottleKey ext handler tracker throttlerName =
     sha256_hex ext (''password-sign-in-'' @ throttlerName @ ''-'' @ tracker)"

end
