(* ===== verification/OAuth_Store_Properties.thy ===== *)
theory OAuth_Store_Properties
  imports OAuth_Store
begin

text \<open>
  What the storage of the MCP authorization server guarantees: what is stored is found until it expires, a
  credential is used once, a revoked grant has no credentials left, and the retention is never noticed.
\<close>

section \<open>Credentials that are used once\<close>

text \<open>
  The contract of a one-time credential: redeeming it spends it, spending lasts until the credential is gone,
  and what is spent is not redeemed.
\<close>

locale one_time =
  fixes step :: "'op \<Rightarrow> 's \<Rightarrow> 's"
    and redeem :: "time \<Rightarrow> 's \<Rightarrow> ('e + unit) \<times> 's"
    and spent :: "'s \<Rightarrow> bool"
    and gone :: "'s \<Rightarrow> bool"
  assumes redeem_spends: "redeem t s = (Inr (), s') \<Longrightarrow> spent s'"
    and spent_step: "spent s \<Longrightarrow> spent (step op s) \<or> gone (step op s)"
    and spent_refused: "spent s \<Longrightarrow> fst (redeem t s) \<noteq> Inr ()"
begin

lemma spent_or_gone:
  "spent s \<Longrightarrow> spent (fold step ops s) \<or> (\<exists>n \<le> length ops. gone (fold step (take n ops) s))"
proof (induction ops arbitrary: s)
  case (Cons op ops)
  from spent_step [OF Cons.prems] show ?case
  proof
    assume "spent (step op s)"
    from Cons.IH [OF this] show ?thesis
    proof
      assume "\<exists>n \<le> length ops. gone (fold step (take n ops) (step op s))"
      then obtain n where "n \<le> length ops" "gone (fold step (take n ops) (step op s))" by blast
      then have "Suc n \<le> length (op # ops) \<and> gone (fold step (take (Suc n) (op # ops)) s)" by simp
      then show ?thesis by blast
    qed simp
  next
    assume "gone (step op s)"
    then have "Suc 0 \<le> length (op # ops) \<and> gone (fold step (take (Suc 0) (op # ops)) s)" by simp
    then show ?thesis by blast
  qed
qed simp

lemma redeemed_once:
  assumes "redeem t s = (Inr (), s')" and "fst (redeem t' (fold step ops s')) = Inr ()"
  shows "\<exists>n \<le> length ops. gone (fold step (take n ops) s')"
  using spent_or_gone [OF redeem_spends [OF assms(1)], of ops] spent_refused assms(2) by blast

end

definition unknown_payload :: "ext \<Rightarrow> string \<Rightarrow> string \<Rightarrow> oauth_row list \<Rightarrow> bool" where
  "unknown_payload ext model i rows \<longleftrightarrow> (\<forall>r \<in> set rows. \<not> at_key model (adapter_key ext model i) r)"

definition spent_payload :: "ext \<Rightarrow> string \<Rightarrow> string \<Rightarrow> oauth_row list \<Rightarrow> bool" where
  "spent_payload ext model i rows \<longleftrightarrow> \<not> unknown_payload ext model i rows \<and>
     (\<forall>r \<in> set rows. at_key model (adapter_key ext model i) r \<longrightarrow> op_consumed_at r \<noteq> None)"

lemma consume_Inr:
  "fst (consume_payload ext model i now rows) = Inr u \<longleftrightarrow>
     (\<exists>r \<in> set rows. at_key model (adapter_key ext model i) r \<and> op_consumed_at r = None)"
  by (auto simp: consume_payload_def Let_def)

lemma bex_update_where:
  "(\<And>r. P (f r) = P r) \<Longrightarrow> (\<exists>r \<in> set (update_where Q f rows). P r) \<longleftrightarrow> (\<exists>r \<in> set rows. P r)"
  by (induction rows) auto

lemma spent_alt:
  "spent_payload ext model i rows \<longleftrightarrow>
     (\<exists>r \<in> set rows. at_key model (adapter_key ext model i) r) \<and>
     (\<forall>r \<in> set rows. at_key model (adapter_key ext model i) r \<longrightarrow> op_consumed_at r \<noteq> None)"
  unfolding spent_payload_def unknown_payload_def by blast

lemma spent_update:
  assumes "spent_payload ext model i rows"
    and "\<And>m k r. at_key m k (f r) = at_key m k r"
    and "\<And>r. op_consumed_at r \<noteq> None \<Longrightarrow> op_consumed_at (f r) \<noteq> None"
  shows "spent_payload ext model i (update_where Q f rows)"
proof -
  have "op_consumed_at x \<noteq> None"
    if "x \<in> set (update_where Q f rows)" "at_key model (adapter_key ext model i) x" for x
    using that assms(1)
    by (elim update_where_elim [where Q = "\<lambda>x. at_key model (adapter_key ext model i) x \<longrightarrow> op_consumed_at x \<noteq> None",
          THEN mp]) (simp_all add: spent_alt assms(2,3))
  then show ?thesis
    using assms(1) unfolding spent_alt bex_update_where [of "at_key model (adapter_key ext model i)" f, OF assms(2)]
    by blast
qed

lemma consume_spends:
  assumes "consume_payload ext model i now rows = (Inr (), rows')"
  shows "spent_payload ext model i rows'"
proof -
  let ?P = "at_key model (adapter_key ext model i)"
  from assms have "fst (consume_payload ext model i now rows) = Inr ()" by simp
  then have ex: "\<exists>r \<in> set rows. ?P r" unfolding consume_Inr by blast
  have rows': "rows' = update_where (\<lambda>r. ?P r \<and> op_consumed_at r = None) (\<lambda>r. r\<lparr>op_consumed_at := Some now\<rparr>) rows"
    using assms by (auto simp: consume_payload_def Let_def split: if_splits)
  show ?thesis
    unfolding spent_alt rows' bex_update_where [of ?P "\<lambda>r. r\<lparr>op_consumed_at := Some now\<rparr>", OF at_key_data(6)]
    using ex by (auto simp: set_update_where)
qed

lemma spent_filter:
  "spent_payload ext model i rows \<Longrightarrow>
   spent_payload ext model i (filter P rows) \<or> unknown_payload ext model i (filter P rows)"
  by (auto simp: spent_payload_def unknown_payload_def)

lemma spent_upsert:
  assumes "spent_payload ext model i rows"
  shows "spent_payload ext model i (upsert_payload ext m j p e now rows)"
proof (cases "\<exists>r \<in> set rows. at_key m (adapter_key ext m j) r")
  case True
  then show ?thesis
    unfolding upsert_payload_def Let_def if_P [OF True] by (intro spent_update assms) simp_all
next
  case False
  then have "\<not> (m = model \<and> adapter_key ext m j = adapter_key ext model i)"
    using assms by (auto simp: spent_alt)
  then show ?thesis
    unfolding upsert_payload_def Let_def if_not_P [OF False]
    using assms by (auto simp: spent_alt at_key_def)
qed

lemma spent_consume:
  "spent_payload ext model i rows \<Longrightarrow>
   spent_payload ext model i (snd (consume_payload ext m j now rows))"
  unfolding consume_payload_def Let_def snd_conv by (rule spent_update) simp_all

interpretation oauth_credential: one_time "oauth_step ext" "consume_payload ext model i"
  "spent_payload ext model i" "unknown_payload ext model i" for ext model i
proof
  show "consume_payload ext model i t s = (Inr (), s') \<Longrightarrow> spent_payload ext model i s'" for t s s'
    by (rule consume_spends)
  show "spent_payload ext model i s \<Longrightarrow>
      spent_payload ext model i (oauth_step ext op s) \<or> unknown_payload ext model i (oauth_step ext op s)" for s op
    by (cases op)
      (simp_all add: spent_upsert spent_consume spent_filter destroy_payload_def revokeByGrantId_def runOnce_def)
  show "spent_payload ext model i s \<Longrightarrow> fst (consume_payload ext model i t s) \<noteq> Inr ()" for s t
    by (auto simp: consume_Inr spent_payload_def)
qed

text \<open>C17: a code or refresh token that was redeemed is redeemed again only after its row has been deleted:
  no later sequence of stores, redemptions, revocations and sweeps lets a second redemption through while the
  row is there, and neither does storing it again.\<close>

theorem credential_redeemed_once:
  assumes "consume_payload ext model i now rows = (Inr (), rows')"
    and "fst (consume_payload ext model i later (oauth_run ext ops rows')) = Inr ()"
  shows "\<exists>n \<le> length ops. \<forall>r \<in> set (oauth_run ext (take n ops) rows').
    \<not> (op_model r = model \<and> op_id r = adapter_key ext model i)"
  using oauth_credential.redeemed_once [OF assms(1), of later ops] assms(2)
  by (simp add: oauth_run_def unknown_payload_def at_key_def)

section \<open>Stored and found\<close>

lemma find_after_update:
  "(\<And>r. P (f r) = P r) \<Longrightarrow> (\<And>r. Q r \<Longrightarrow> \<not> P r) \<Longrightarrow> find P (update_where Q f rows) = find P rows"
  by (induction rows) auto

lemma upsert_find_row:
  "find (at_key model (adapter_key ext model i)) (upsert_payload ext model i p e now rows) =
     Some \<lparr>op_model = model, op_id = adapter_key ext model i,
       op_payload = (if isCredential model then p(''jti'' := None) else p),
       op_grant_id = text_column ''grantId'' p, op_user_code = text_column ''userCode'' p,
       op_uid = text_column ''uid'' p,
       op_expires_at = (case e of None \<Rightarrow> None | Some s \<Rightarrow> if s = 0 then None else Some (now + s * 1000)),
       op_consumed_at = (case find (at_key model (adapter_key ext model i)) rows of
          None \<Rightarrow> None | Some r \<Rightarrow> op_consumed_at r)\<rparr>"
proof (cases "find (at_key model (adapter_key ext model i)) rows")
  case None
  then have none: "\<not> (\<exists>r \<in> set rows. at_key model (adapter_key ext model i) r)"
    by (auto simp: find_None_iff)
  show ?thesis
    unfolding upsert_payload_def Let_def if_not_P [OF none] None
    by (subst find_append_new) (use none in \<open>auto simp: at_key_def\<close>)
next
  case (Some r)
  then have r: "r \<in> set rows" "at_key model (adapter_key ext model i) r" by (auto dest: find_SomeD)
  then have some: "\<exists>r \<in> set rows. at_key model (adapter_key ext model i) r" by blast
  show ?thesis
    unfolding upsert_payload_def Let_def if_P [OF some] using r(2)
    by (simp add: find_update_same Some at_key_def)
qed

lemma upsert_find_other:
  assumes "(m, k) \<noteq> (model, adapter_key ext model i)"
  shows "find (at_key m k) (upsert_payload ext model i p e now rows) = find (at_key m k) rows"
proof (cases "\<exists>r \<in> set rows. at_key model (adapter_key ext model i) r")
  case True
  show ?thesis
    unfolding upsert_payload_def Let_def if_P [OF True]
    by (rule find_after_update) (use assms in \<open>auto simp: at_key_row_key\<close>)
next
  case False
  show ?thesis
    unfolding upsert_payload_def Let_def if_not_P [OF False]
    by (subst find_append) (use assms in \<open>auto simp: at_key_def split: option.split\<close>)
qed

lemma consume_find_row:
  "find (at_key model (adapter_key ext model i)) (snd (consume_payload ext model i now rows)) =
     map_option (\<lambda>r. if op_consumed_at r = None then r\<lparr>op_consumed_at := Some now\<rparr> else r)
       (find (at_key model (adapter_key ext model i)) rows)"
  unfolding consume_payload_def Let_def snd_conv by (induction rows) auto

text \<open>What is stored under a new id is what is found under it until it expires: the stored payload, a
  credential with its own id put back, and marked once it has been redeemed; from its expiry on it is absent.
  Nothing is stored under any other id.\<close>

theorem adapter_roundtrip:
  assumes "e > 0" and "\<not> (\<exists>r \<in> set rows. op_model r = model \<and> op_id r = adapter_key ext model i)"
  shows "find_payload ext model i t (upsert_payload ext model i p (Some e) now rows) =
      (if t < now + e * 1000 then Some (if isCredential model then p(''jti'' \<mapsto> JStr i) else p) else None) \<and>
    find_payload ext model i t
        (snd (consume_payload ext model i used (upsert_payload ext model i p (Some e) now rows))) =
      (if t < now + e * 1000
       then Some ((if isCredential model then p(''jti'' \<mapsto> JStr i) else p)(''consumed'' \<mapsto> JInt (used div 1000)))
       else None) \<and>
    (\<forall>m j. (m, adapter_key ext m j) = (model, adapter_key ext model i) \<or>
       find_payload ext m j t (upsert_payload ext model i p (Some e) now rows) = find_payload ext m j t rows)"
proof (intro conjI allI)
  have none: "find (at_key model (adapter_key ext model i)) rows = None"
    using assms(2) by (auto simp: find_None_iff at_key_def)
  show "find_payload ext model i t (upsert_payload ext model i p (Some e) now rows) =
      (if t < now + e * 1000 then Some (if isCredential model then p(''jti'' \<mapsto> JStr i) else p) else None)"
    using assms(1) by (simp add: find_payload_def upsert_find_row none toPayload_def)
  show "find_payload ext model i t
        (snd (consume_payload ext model i used (upsert_payload ext model i p (Some e) now rows))) =
      (if t < now + e * 1000
       then Some ((if isCredential model then p(''jti'' \<mapsto> JStr i) else p)(''consumed'' \<mapsto> JInt (used div 1000)))
       else None)"
    using assms(1) by (simp add: find_payload_def consume_find_row upsert_find_row none toPayload_def)
  show "(m, adapter_key ext m j) = (model, adapter_key ext model i) \<or>
      find_payload ext m j t (upsert_payload ext model i p (Some e) now rows) = find_payload ext m j t rows" for m j
  proof (cases "(m, adapter_key ext m j) = (model, adapter_key ext model i)")
    case False
    show ?thesis by (simp only: find_payload_def upsert_find_other [OF False] simp_thms)
  qed blast
qed

section \<open>What the table holds\<close>

text \<open>However codes, tokens and grants are stored, redeemed, revoked and swept, the table never holds a
  credential: each is under its digest and without its own id, keys are unique, and the column a revocation
  selects by is the grant the payload names.\<close>

theorem no_credential_in_table:
  "let rows = oauth_run ext ops [] in
     distinct (map row_key rows) \<and>
     list_all (\<lambda>r. (isCredential (op_model r) \<longrightarrow>
          op_payload r ''jti'' = None \<and> op_id r \<in> range (sha256_hex ext)) \<and>
        op_grant_id r = text_column ''grantId'' (op_payload r)) rows"
proof -
  have "(oauth_moves ext)\<^sup>*\<^sup>* rows (oauth_run ext ops rows)" for rows
  proof (induction ops arbitrary: rows)
    case (Cons op ops)
    have "oauth_moves ext rows (oauth_step ext op rows)" by (auto simp: oauth_moves_def)
    then show ?case using Cons.IH by (simp add: converse_rtranclp_into_rtranclp)
  qed simp
  then have "oauth_inv ext (oauth_run ext ops [])"
    by (rule oauth_table.inv_steps) (simp add: oauth_inv_def)
  then show ?thesis
    by (simp add: oauth_inv_def list_all_iff oauth_row_ok_def Let_def)
qed

section \<open>Revocation and retention\<close>

lemma find_filter_ok:
  "(\<And>r. r \<in> set rows \<Longrightarrow> P r \<Longrightarrow> Q r) \<Longrightarrow> find P (filter Q rows) = find P rows"
  by (induction rows) auto

lemma at_key_unique:
  "distinct (map row_key rows) \<Longrightarrow> find (at_key m k) rows = Some r \<Longrightarrow>
   r' \<in> set rows \<Longrightarrow> at_key m k r' \<Longrightarrow> r' = r"
  using distinct_key [of row_key rows r' r] by (auto simp: at_key_row_key dest: find_SomeD)

lemma find_filter_key:
  assumes "distinct (map row_key rows)"
  shows "find (at_key m k) (filter Q rows) =
    (case find (at_key m k) rows of None \<Rightarrow> None | Some r \<Rightarrow> if Q r then Some r else None)"
proof (cases "find (at_key m k) rows")
  case None
  then have "find (at_key m k) (filter Q rows) = None" unfolding find_None_iff by auto
  with None show ?thesis by simp
next
  case (Some r)
  then show ?thesis
    using at_key_unique [OF assms Some] find_filter_ok [of rows "at_key m k" Q]
    by (auto simp: find_None_iff)
qed

text \<open>After a grant was revoked, nothing that names it is found under any id until it is stored again,
  and everything else is found as before.\<close>

theorem revoked_grant_is_gone:
  assumes "distinct (map row_key rows)"
  shows "find_payload ext model i t (revokeByGrantId g rows) =
    (case find (at_key model (adapter_key ext model i)) rows of
       None \<Rightarrow> None
     | Some r \<Rightarrow> if op_grant_id r = Some g then None else find_payload ext model i t rows)"
  by (simp add: find_payload_def revokeByGrantId_def find_filter_key [OF assms] split: option.split)

text \<open>The retention sweep is never noticed: from the sweep on, every id reads as it would without it.\<close>

theorem sweep_is_unnoticed:
  assumes "distinct (map row_key rows)" and "now \<le> t"
  shows "find_payload ext model i t (snd (runOnce now rows)) = find_payload ext model i t rows"
  using assms(2)
  by (auto simp: find_payload_def runOnce_def find_filter_key [OF assms(1)] past_expiry_def toPayload_def
      split: option.split)

end
