(* ===== verification/OAuth_Properties.thy ===== *)
theory OAuth_Properties
  imports OAuth_Interactions OAuth_Store_Properties
begin

text \<open>
  What the MCP authorization server guarantees: which tokens the endpoint admits, which forms grant access, which
  clients may register, and that every way of ending the sessions of an account ends its MCP access too.
\<close>

section \<open>One rule for every credential\<close>

text \<open>
  The contract of a check that admits a credential of an account by the second it was issued: the account is live
  and active and the credential no older than the account's session cutoff.  The REST strategy and the MCP rule
  both discharge it, so what follows from a cutoff is proved once.
\<close>

locale session_gate =
  fixes admits :: "ident \<Rightarrow> int \<Rightarrow> world \<Rightarrow> bool"
  assumes gate: "admits i iat w \<Longrightarrow> \<exists>u. find_live_user w i = Some u \<and> u_is_active u \<and>
    (\<forall>c. u_password_changed_at u = Some c \<longrightarrow> c div 1000 \<le> iat)"
begin

lemma not_before_cutoff:
  assumes "distinct (map u_id (users w))" and "endAllSessions uid actor f clk w = Inr (u', w')"
    and "\<And>u. u_id (f u) = u_id u" and "admits uid iat w'"
  shows "clk 0 \<le> iat * 1000 \<and> u_is_active u' \<and> u_deleted_at u' = None"
proof -
  obtain u where u': "u' = (f u)\<lparr>u_password_changed_at := Some (nextWholeSecond (clk 0)), u_updated_by := actor\<rparr>"
    and w': "users w' = update_where (\<lambda>u. u_id u = uid) (\<lambda>_. u') (users w)"
    by (rule endAllSessions_Inr [OF assms(2)]) simp
  have found: "find_user w' uid = Some u'" and id': "u_id u' = uid"
    using endAllSessions_find [OF assms(2,3)] by simp_all
  have "map u_id (users w') = map u_id (users w)"
    unfolding w' update_where_def using id' by (induction "users w") simp_all
  then have dist: "distinct (map u_id (users w'))" using assms(1) by (simp only:)
  obtain v where v: "find_live_user w' uid = Some v" "u_is_active v"
    "\<forall>c. u_password_changed_at v = Some c \<longrightarrow> c div 1000 \<le> iat"
    using gate [OF assms(4)] by blast
  have "v = u'" "u_deleted_at u' = None"
    using v(1) found unfolding find_live_user_iff [OF dist] by simp_all
  moreover have "nextWholeSecond (clk 0) div 1000 \<le> iat \<longleftrightarrow> clk 0 \<le> iat * 1000"
    using below_cutoff [of iat "clk 0"] by linarith
  ultimately show ?thesis using v(2,3) by (simp add: u')
qed

end

definition rest_admits :: "time \<Rightarrow> ident \<Rightarrow> int \<Rightarrow> world \<Rightarrow> bool" where
  "rest_admits now i iat w \<longleftrightarrow>
     (\<exists>payload a. jp_sub payload = i \<and> jp_iat payload = Some iat \<and> validate payload now w = Inr a)"

definition mcp_admits :: "ident \<Rightarrow> int \<Rightarrow> world \<Rightarrow> bool" where
  "mcp_admits i iat w \<longleftrightarrow> findUsableAccount i (Some iat) w \<noteq> None"

interpretation rest: session_gate "rest_admits now" for now
  by unfold_locales (auto simp: rest_admits_def validate_Inr_iff)

interpretation mcp: session_gate mcp_admits
  by unfold_locales (auto simp: mcp_admits_def findUsableAccount_Some isAccountUsable_iff)

lemma usable_after_cutoff:
  assumes "distinct (map u_id (users w))" and "endAllSessions uid actor f clk w = Inr (u', w')"
    and "\<And>u. u_id (f u) = u_id u" and "iat * 1000 < clk 0"
  shows "findUsableAccount uid (Some iat) w' = None"
proof (rule ccontr)
  assume "findUsableAccount uid (Some iat) w' \<noteq> None"
  then have "mcp_admits uid iat w'" by (simp add: mcp_admits_def)
  with mcp.not_before_cutoff [OF assms(1,2)] assms(3,4) show False by fastforce
qed

text \<open>The MCP rule and the REST rule judge an account alike, except that MCP also asks for a verified
  email address, which the token strategy of the REST API does not look at.\<close>

theorem mcp_rule_is_rest_rule_and_verified:
  assumes "jp_purpose payload = None" and "\<not> blocklisted payload now w"
  shows "findUsableAccount (jp_sub payload) (jp_iat payload) w = Some u \<longleftrightarrow>
    (\<exists>a. validate payload now w = Inr a) \<and> find_live_user w (jp_sub payload) = Some u \<and>
    u_email_verified_at u \<noteq> None"
  using assms by (auto simp: findUsableAccount_Some isAccountUsable_iff validate_Inr_iff)

section \<open>The endpoint\<close>

text \<open>The header regular expression, declaratively.\<close>

lemma all_white_split:
  assumes "list_all white_space a" and "b = [] \<or> \<not> white_space (hd b)"
  shows "takeWhile white_space (a @ b) = a" and "dropWhile white_space (a @ b) = b"
  using assms by (cases b; auto simp: takeWhile_append dropWhile_append list_all_iff)+

lemma no_white_split:
  assumes "list_all (\<lambda>c. \<not> white_space c) a" and "b = [] \<or> white_space (hd b)"
  shows "takeWhile (\<lambda>c. \<not> white_space c) (a @ b) = a" and "dropWhile (\<lambda>c. \<not> white_space c) (a @ b) = b"
  using assms by (cases b; auto simp: takeWhile_append dropWhile_append list_all_iff)+

lemma bearer_token_iff:
  "bearer_token header = Some token \<longleftrightarrow>
     (\<exists>scheme gap rest. header = scheme @ gap @ token @ rest \<and> to_lower_case scheme = ''bearer'' \<and>
        gap \<noteq> [] \<and> list_all white_space gap \<and> token \<noteq> [] \<and> list_all (\<lambda>c. \<not> white_space c) token \<and>
        list_all white_space rest)"
proof
  let ?afterSpace = "dropWhile white_space (drop 6 header)"
  assume b: "bearer_token header = Some token"
  then have token: "token = takeWhile (\<lambda>c. \<not> white_space c) ?afterSpace"
    and r: "to_lower_case (take 6 header) = ''bearer''" "takeWhile white_space (drop 6 header) \<noteq> []" "token \<noteq> []"
      "list_all white_space (dropWhile (\<lambda>c. \<not> white_space c) ?afterSpace)"
    by (auto simp: bearer_token_def Let_def split: if_splits)
  have "header = take 6 header @ takeWhile white_space (drop 6 header) @ token @
      dropWhile (\<lambda>c. \<not> white_space c) ?afterSpace"
    unfolding token by simp
  moreover have "list_all white_space (takeWhile white_space (drop 6 header))"
    "list_all (\<lambda>c. \<not> white_space c) token"
    unfolding token by (auto simp: list_all_iff dest: set_takeWhileD)
  ultimately show "\<exists>scheme gap rest. header = scheme @ gap @ token @ rest \<and> to_lower_case scheme = ''bearer'' \<and>
      gap \<noteq> [] \<and> list_all white_space gap \<and> token \<noteq> [] \<and> list_all (\<lambda>c. \<not> white_space c) token \<and>
      list_all white_space rest"
    using r by blast
next
  assume "\<exists>scheme gap rest. header = scheme @ gap @ token @ rest \<and> to_lower_case scheme = ''bearer'' \<and>
      gap \<noteq> [] \<and> list_all white_space gap \<and> token \<noteq> [] \<and> list_all (\<lambda>c. \<not> white_space c) token \<and>
      list_all white_space rest"
  then obtain scheme gap rest where h: "header = scheme @ gap @ token @ rest" "to_lower_case scheme = ''bearer''"
    "gap \<noteq> []" "list_all white_space gap" "token \<noteq> []" "list_all (\<lambda>c. \<not> white_space c) token"
    "list_all white_space rest"
    by (elim exE conjE)
  have "length scheme = 6" using arg_cong [OF h(2), of length] by (simp add: to_lower_case_def)
  then have cut: "take 6 header = scheme" "drop 6 header = gap @ token @ rest" by (simp_all add: h(1))
  have t: "token @ rest = [] \<or> \<not> white_space (hd (token @ rest))"
    using h(5,6) by (cases token) simp_all
  have r: "rest = [] \<or> white_space (hd rest)" using h(7) by (cases rest) simp_all
  show "bearer_token header = Some token"
    by (simp add: bearer_token_def Let_def cut all_white_split [OF h(4) t] no_white_split [OF h(6) r]
        h(2,3,5,7))
qed

text \<open>C15: the MCP endpoint admits a request exactly when it comes from no foreign page and carries, after the
  word bearer in any case, an access token that is live, issued for this server, and whose account is live,
  active, verified and has not ended its sessions since; it then acts for that account with the token's
  scopes, and the token itself is not passed on.\<close>

theorem endpoint_admits_exactly:
  "fst (canActivate_mcp cfg oidc url origin (Some header) now rows w) = Inr info \<longleftrightarrow>
     (origin = None \<or> the origin \<in> set (mo_allowed_origins cfg)) \<and>
     (\<exists>scheme gap token rest t client user.
        header = scheme @ gap @ token @ rest \<and> to_lower_case scheme = ''bearer'' \<and> gap \<noteq> [] \<and>
        list_all white_space gap \<and> token \<noteq> [] \<and> list_all (\<lambda>c. \<not> white_space c) token \<and> list_all white_space rest \<and>
        AccessToken_find oidc rows now token = Some t \<and> \<not> at_is_expired t \<and>
        at_aud t = Some (JStr (mo_resource cfg)) \<and> at_client_id t = Some client \<and> client \<noteq> [] \<and>
        at_account_id t = Some (u_id user) \<and> u_id user \<noteq> [] \<and>
        find_live_user w (u_id user) = Some user \<and> isAccountUsable user (at_iat t) \<and>
        info = \<lparr>ai_token = [], ai_client_id = client, ai_scopes = at_scopes t,
                ai_expires_at = (case at_exp t of None \<Rightarrow> 0 | Some e \<Rightarrow> e), ai_resource = mo_resource cfg,
                ai_user_id = u_id user\<rparr>)"
  (is "?admitted \<longleftrightarrow> ?origin \<and> ?rest")
proof -
  have "?admitted \<longleftrightarrow> ?origin \<and> (\<exists>token p. bearer_token header = Some token \<and>
      verifyAccessToken cfg oidc token now rows w = Some p \<and>
      info = \<lparr>ai_token = [], ai_client_id = tp_client_id p, ai_scopes = tp_scopes p,
              ai_expires_at = tp_expires_at p, ai_resource = mo_resource cfg, ai_user_id = tp_user_id p\<rparr>)"
    by (auto simp: canActivate_mcp_def split: option.splits if_splits)
  also have "\<dots> \<longleftrightarrow> ?origin \<and> ?rest"
  proof (rule conj_cong [OF refl], rule iffI)
    assume "\<exists>token p. bearer_token header = Some token \<and>
      verifyAccessToken cfg oidc token now rows w = Some p \<and>
      info = \<lparr>ai_token = [], ai_client_id = tp_client_id p, ai_scopes = tp_scopes p,
              ai_expires_at = tp_expires_at p, ai_resource = mo_resource cfg, ai_user_id = tp_user_id p\<rparr>"
    then obtain token p where b: "bearer_token header = Some token"
      and v: "verifyAccessToken cfg oidc token now rows w = Some p"
      and i: "info = \<lparr>ai_token = [], ai_client_id = tp_client_id p, ai_scopes = tp_scopes p,
              ai_expires_at = tp_expires_at p, ai_resource = mo_resource cfg, ai_user_id = tp_user_id p\<rparr>"
      by blast
    obtain t account user client where t: "AccessToken_find oidc rows now token = Some t"
      "at_account_id t = Some account" "account \<noteq> []" "at_client_id t = Some client" "client \<noteq> []"
      "\<not> at_is_expired t" "at_aud t = Some (JStr (mo_resource cfg))"
      "findUsableAccount account (at_iat t) w = Some user"
      and p: "p = \<lparr>tp_user_id = account, tp_client_id = client, tp_scopes = at_scopes t,
             tp_expires_at = (case at_exp t of None \<Rightarrow> 0 | Some e \<Rightarrow> e)\<rparr>"
      using v unfolding verifyAccessToken_Some by (elim exE conjE)
    obtain scheme gap rest where h: "header = scheme @ gap @ token @ rest" "to_lower_case scheme = ''bearer''"
      "gap \<noteq> []" "list_all white_space gap" "token \<noteq> []" "list_all (\<lambda>c. \<not> white_space c) token"
      "list_all white_space rest"
      using b unfolding bearer_token_iff by (elim exE conjE)
    have account: "account = u_id user" using findUsableAccount_id [OF t(8)] by simp
    show ?rest
      by (intro exI [of _ scheme] exI [of _ gap] exI [of _ token] exI [of _ rest] exI [of _ t]
          exI [of _ client] exI [of _ user])
        (use h t p i in \<open>simp add: account findUsableAccount_Some\<close>)
  next
    assume ?rest
    then obtain scheme gap token rest t client user where r: "header = scheme @ gap @ token @ rest"
      "to_lower_case scheme = ''bearer''" "gap \<noteq> []" "list_all white_space gap" "token \<noteq> []"
      "list_all (\<lambda>c. \<not> white_space c) token" "list_all white_space rest"
      "AccessToken_find oidc rows now token = Some t" "\<not> at_is_expired t"
      "at_aud t = Some (JStr (mo_resource cfg))" "at_client_id t = Some client" "client \<noteq> []"
      "at_account_id t = Some (u_id user)" "u_id user \<noteq> []"
      "find_live_user w (u_id user) = Some user" "isAccountUsable user (at_iat t)"
      "info = \<lparr>ai_token = [], ai_client_id = client, ai_scopes = at_scopes t,
                ai_expires_at = (case at_exp t of None \<Rightarrow> 0 | Some e \<Rightarrow> e), ai_resource = mo_resource cfg,
                ai_user_id = u_id user\<rparr>"
      by (elim exE conjE)
    have "bearer_token header = Some token" unfolding bearer_token_iff using r(1-7) by blast
    then show "\<exists>token p. bearer_token header = Some token \<and>
      verifyAccessToken cfg oidc token now rows w = Some p \<and>
      info = \<lparr>ai_token = [], ai_client_id = tp_client_id p, ai_scopes = tp_scopes p,
              ai_expires_at = tp_expires_at p, ai_resource = mo_resource cfg, ai_user_id = tp_user_id p\<rparr>"
      using r(8-17)
      by (intro exI [of _ token] exI [of _ "\<lparr>tp_user_id = u_id user, tp_client_id = client,
          tp_scopes = at_scopes t, tp_expires_at = (case at_exp t of None \<Rightarrow> 0 | Some e \<Rightarrow> e)\<rparr>"])
        (simp add: verifyAccessToken_def truthy_def findUsableAccount_def findByIdOrNull_def)
  qed
  finally show ?thesis .
qed

text \<open>The refusals: a foreign page is forbidden, and both other refusals name where to sign in.\<close>

lemma endpoint_refusals:
  "fst (canActivate_mcp cfg oidc url origin authorization now rows w) = Inl e \<Longrightarrow>
     e = permissionDenied ''mcp'' None \<or>
     (e = tokenMissing \<or> e = tokenInvalid) \<and>
     (\<exists>more. snd (canActivate_mcp cfg oidc url origin authorization now rows w) = Some (mcp_challenge url @ more))"
  by (auto simp: canActivate_mcp_def split: option.splits if_splits)

section \<open>Consent\<close>

lemma loadInteraction_Inr:
  "loadInteraction og request expected = Inr details \<longleftrightarrow>
     ir_details request = Some details \<and> id_uid details = ir_uid request \<and>
     (ir_post request \<longrightarrow>
        body_field request ''formToken'' =
          Some (JStr (interaction_formToken (og_library og) (og_form_token_key og) (ir_uid request))) \<and>
        (\<forall>p. expected = Some p \<longrightarrow> id_prompt details = p))"
  by (auto simp: loadInteraction_def isValidFormToken_def Let_def split: option.splits json.splits if_splits)

text \<open>C16: access is granted only by a form that carries the anti-forgery token of the attempt this browser
  started, at the consent step, with the answer to allow, for an account that is live, active and verified and
  that this browser signed in to at or after the account's session cutoff; a new grant is for that account
  and the client that asked, and gets the scopes the request was missing and no other.\<close>

theorem consent_grants_only_on_approval:
  assumes "confirm_interaction og request now rows w = (answer, Some saved)" and "ir_post request"
  shows "\<exists>details account signedIn user.
    ir_details request = Some details \<and> id_uid details = ir_uid request \<and> id_prompt details = ''consent'' \<and>
    body_field request ''formToken'' =
      Some (JStr (hmac_base64url (og_library og) (og_form_token_key og) (''mcp-oauth-form:'' @ ir_uid request))) \<and>
    body_field request ''decision'' = Some (JStr ''approve'') \<and>
    id_session_account details = Some account \<and>
    sessionSignedInAt (og_oidc og) (id_session_cookie details) now rows = Some signedIn \<and>
    find_live_user w account = Some user \<and> u_is_active user \<and> u_email_verified_at user \<noteq> None \<and>
    (u_password_changed_at user = None \<or> the (u_password_changed_at user) div 1000 \<le> signedIn) \<and>
    (sg_base saved = NewGrant account (id_client_id details) \<or>
     (\<exists>g. id_grant_id details = Some g \<and> sg_base saved = ExistingGrant g)) \<and>
    sg_calls saved = missing_scope_calls details \<and>
    answer = Finished (ConsentResult (og_save_grant og saved)) True"
proof -
  obtain details where load: "loadInteraction og request (Some ''consent'') = Inr details"
    using assms(1) by (auto simp: confirm_interaction_def split: sum.splits)
  then have d: "ir_details request = Some details" "id_uid details = ir_uid request" "id_prompt details = ''consent''"
    "body_field request ''formToken'' =
      Some (JStr (hmac_base64url (og_library og) (og_form_token_key og) (''mcp-oauth-form:'' @ ir_uid request)))"
    using assms(2) by (auto simp: loadInteraction_Inr interaction_formToken_def)
  let ?at = "sessionSignedInAt (og_oidc og) (id_session_cookie details) now rows"
  obtain account signedIn user where a: "body_field request ''decision'' = Some (JStr ''approve'')"
    "id_session_account details = Some account" "?at = Some signedIn"
    "findUsableAccount account (Some signedIn) w = Some user"
    "(sg_base saved = NewGrant (u_id user) (id_client_id details) \<or>
     (\<exists>g. id_grant_id details = Some g \<and> sg_base saved = ExistingGrant g))"
    "sg_calls saved = missing_scope_calls details"
    "answer = Finished (ConsentResult (og_save_grant og saved)) True"
    using assms(1) load
    by (auto simp: confirm_interaction_def Let_def truthy_def deny_def split: option.splits if_splits)
  have u: "find_live_user w account = Some user" "u_is_active user" "u_email_verified_at user \<noteq> None"
    "u_password_changed_at user = None \<or> the (u_password_changed_at user) div 1000 \<le> signedIn"
    "u_id user = account"
    using a(4) findUsableAccount_id [OF a(4)]
    by (cases "u_password_changed_at user"; simp add: findUsableAccount_Some isAccountUsable_iff)+
  show ?thesis
    by (intro exI [of _ details] exI [of _ account] exI [of _ signedIn] exI [of _ user] conjI d a u
        a(5) [unfolded u(5)])
qed

text \<open>C14: ending every session of an account (signing out everywhere, a new password or address, deactivation)
  ends its MCP access with it: from then on every access token issued before that instant is refused by the
  endpoint, every code and refresh token and every browser session signed in before it names no account, and a
  consent page still open from before it grants nothing.\<close>

theorem ended_sessions_end_mcp_access:
  assumes "distinct (map u_id (users w))" and "endAllSessions uid actor f clk w = Inr (u', w')"
    and "\<And>u. u_id (f u) = u_id u" and "iat * 1000 < clk 0"
    and "AccessToken_find oidc rows now token = Some t" and "at_account_id t = Some uid" and "at_iat t = Some iat"
    and "bearer_token header = Some token" and "ir_details request = Some details"
    and "id_session_account details = Some uid"
    and "sessionSignedInAt (og_oidc og) (id_session_cookie details) now rows = Some iat"
  shows "fst (canActivate_mcp cfg oidc url None (Some header) now rows w') = Inl tokenInvalid \<and>
    findAccount uid (Some (Some iat, issued)) session w' = None \<and> findAccount uid None (Some iat) w' = None \<and>
    snd (confirm_interaction og request now rows w') = None"
proof -
  have gone: "findUsableAccount uid (Some iat) w' = None"
    by (rule usable_after_cutoff [OF assms(1-2)]) (use assms(3,4) in auto)
  then have "verifyAccessToken cfg oidc token now rows w' = None"
    by (simp add: verifyAccessToken_def assms(5-7))
  then have "fst (canActivate_mcp cfg oidc url None (Some header) now rows w') = Inl tokenInvalid"
    by (simp add: canActivate_mcp_def assms(8))
  moreover have "findAccount uid (Some (Some iat, issued)) session w' = None"
    "findAccount uid None (Some iat) w' = None"
    by (simp_all add: findAccount_def gone)
  moreover have "snd (confirm_interaction og request now rows w') = None"
    using assms(9) gone
    by (auto simp: confirm_interaction_def loadInteraction_Inr Let_def assms(10,11) split: sum.splits)
  ultimately show ?thesis by blast
qed

section \<open>Sign-in\<close>

text \<open>The sign-in page accepts exactly what the REST login accepts, and answers an unknown identifier and a
  wrong password with one and the same page.\<close>

theorem sign_in_page_answers:
  assumes "loadInteraction og request (Some ''login'') = Inr details"
  shows "case verifyCredentials ext (text_field request ''identifier'') (text_field request ''password'') w of
      Inr user \<Rightarrow> login_interaction ext og request now w = Inr (Finished (LoginResult (u_id user) (now div 1000)) False)
    | Inl e \<Rightarrow> login_interaction ext og request now w =
        Inr (renderLogin og details
          (Some (if e = invalidCredentials then ''That email or username and password do not match.''
                 else ''Verify your email address before signing in. Check your inbox for the link.''))
          (Some (text_field request ''identifier'')) (Some 400))"
proof -
  have codes: "signInFailureMessage invalidCredentials = Some ''That email or username and password do not match.''"
    "signInFailureMessage emailNotVerified =
      Some ''Verify your email address before signing in. Check your inbox for the link.''"
    "emailNotVerified \<noteq> invalidCredentials"
    by (simp_all add: signInFailureMessage_def invalidCredentials_def emailNotVerified_def)
  have "e = invalidCredentials \<or> e = emailNotVerified"
    if "verifyCredentials ext i p w = Inl e" for e i p
    using that by (auto simp: verifyCredentials_def Let_def split: option.splits if_splits)
  then show ?thesis
    using codes by (fastforce simp: login_interaction_def assms Let_def split: sum.splits)
qed

section \<open>Registration\<close>

lemma permitted_redirect:
  assumes "isPermittedMcpRedirectUri pf uri allowed"
  shows "\<exists>parsed. new_url pf uri = Some parsed \<and> url_hash parsed = [] \<and> url_username parsed = [] \<and> url_password parsed = [] \<and>
    (url_protocol parsed = ''http:'' \<and> url_hostname parsed \<in> set LOOPBACK_HOSTS \<or>
     url_protocol parsed = ''https:'' \<and> (allowed = [] \<or> url_origin parsed \<in> set allowed))"
  using assms
  by (auto simp: isPermittedMcpRedirectUri_def isLoopbackRedirectUri_def split: option.splits if_splits)

definition kept_metadata :: "payload \<Rightarrow> payload" where
  "kept_metadata submitted = (\<lambda>k. if k \<in> set REGISTRATION_METADATA then submitted k else None)"

lemma register_handed:
  assumes "register_client pf cfg body = HandedToProvider metadata"
  obtains submitted uris typed where "submitted ''redirect_uris'' = Some (JArr uris)" "uris \<noteq> []"
    "length uris \<le> 10" "list_all (redirect_uri_ok pf cfg) uris"
    "typed = (if kept_metadata submitted ''application_type'' = None \<and> list_all (loopback_uri pf) uris
       then (kept_metadata submitted)(''application_type'' \<mapsto> JStr ''native'') else kept_metadata submitted)"
    "metadata = (if typed ''token_endpoint_auth_method'' = None
       then typed(''token_endpoint_auth_method'' \<mapsto> JStr ''none'') else typed)"
proof -
  define submitted where "submitted = (case body of None \<Rightarrow> Map.empty | Some b \<Rightarrow> b)"
  obtain uris where uris: "submitted ''redirect_uris'' = Some (JArr uris)"
    using assms unfolding register_client_def Let_def submitted_def [symmetric]
    by (cases "submitted ''redirect_uris''"; simp; rename_tac j; case_tac j; simp)
  define typed where "typed = (if kept_metadata submitted ''application_type'' = None \<and> list_all (loopback_uri pf) uris
       then (kept_metadata submitted)(''application_type'' \<mapsto> JStr ''native'') else kept_metadata submitted)"
  show thesis
    by (rule that [of submitted uris typed])
      (use assms uris in \<open>auto simp: register_client_def Let_def submitted_def [symmetric] uris kept_metadata_def
        registration_redirectUris_def typed_def split: if_split_asm\<close>)
qed

lemma in_metadata:
  "''redirect_uris'' \<in> set REGISTRATION_METADATA" "''application_type'' \<in> set REGISTRATION_METADATA"
  "''token_endpoint_auth_method'' \<in> set REGISTRATION_METADATA"
  by (simp_all add: REGISTRATION_METADATA_def)

lemma redirect_uris_text:
  assumes "list_all (redirect_uri_ok pf cfg) js"
  shows "\<exists>uris. js = map JStr uris \<and>
    list_all (\<lambda>uri. length uri \<le> 1024 \<and> isPermittedMcpRedirectUri pf uri (mo_redirect_origins cfg)) uris"
  using assms
proof (induction js)
  case (Cons j js)
  then obtain s where "j = JStr s" "length s \<le> 1024" "isPermittedMcpRedirectUri pf s (mo_redirect_origins cfg)"
    by (cases j) (simp_all add: redirect_uri_ok_def registration_redirectUriLength_def)
  moreover obtain uris where "js = map JStr uris"
    "list_all (\<lambda>uri. length uri \<le> 1024 \<and> isPermittedMcpRedirectUri pf uri (mo_redirect_origins cfg)) uris"
    using Cons by auto
  ultimately have "j # js = map JStr (s # uris) \<and> list_all (\<lambda>uri. length uri \<le> 1024 \<and>
      isPermittedMcpRedirectUri pf uri (mo_redirect_origins cfg)) (s # uris)" by simp
  then show ?case by (rule exI [of _ "s # uris"])
qed simp

text \<open>Whatever a registration submits, what reaches the library has only the listed metadata, a token
  endpoint method, and one to ten redirects, each at most 1024 characters long and each a loopback http
  address or an https address this server allows, without credentials or fragment; a client whose redirects
  are all loopback has an application type.\<close>

theorem registration_is_bounded:
  assumes "register_client pf cfg body = HandedToProvider metadata"
  shows "dom metadata \<subseteq> set REGISTRATION_METADATA \<and> metadata ''token_endpoint_auth_method'' \<noteq> None \<and>
    (\<exists>uris. metadata ''redirect_uris'' = Some (JArr (map JStr uris)) \<and> uris \<noteq> [] \<and> length uris \<le> 10 \<and>
      list_all (\<lambda>uri. length uri \<le> 1024 \<and>
        (\<exists>parsed. new_url pf uri = Some parsed \<and> url_hash parsed = [] \<and> url_username parsed = [] \<and>
           url_password parsed = [] \<and>
           (url_protocol parsed = ''http:'' \<and> url_hostname parsed \<in> set LOOPBACK_HOSTS \<or>
            url_protocol parsed = ''https:'' \<and>
            (mo_redirect_origins cfg = [] \<or> url_origin parsed \<in> set (mo_redirect_origins cfg))))) uris \<and>
      (metadata ''application_type'' \<noteq> None \<or> \<not> list_all (isLoopbackRedirectUri pf) uris))"
proof -
  obtain submitted js typed where r: "submitted ''redirect_uris'' = Some (JArr js)" "js \<noteq> []"
    "length js \<le> 10" "list_all (redirect_uri_ok pf cfg) js"
    "typed = (if kept_metadata submitted ''application_type'' = None \<and> list_all (loopback_uri pf) js
       then (kept_metadata submitted)(''application_type'' \<mapsto> JStr ''native'') else kept_metadata submitted)"
    "metadata = (if typed ''token_endpoint_auth_method'' = None
       then typed(''token_endpoint_auth_method'' \<mapsto> JStr ''none'') else typed)"
    by (rule register_handed [OF assms])
  obtain uris where u: "js = map JStr uris"
    "list_all (\<lambda>uri. length uri \<le> 1024 \<and> isPermittedMcpRedirectUri pf uri (mo_redirect_origins cfg)) uris"
    using redirect_uris_text [OF r(4)] by blast
  have "dom (kept_metadata submitted) \<subseteq> set REGISTRATION_METADATA"
    by (auto simp: kept_metadata_def split: if_split_asm)
  then have dom: "dom typed \<subseteq> set REGISTRATION_METADATA" using in_metadata(2) by (auto simp: r(5) split: if_split_asm)
  then have one: "dom metadata \<subseteq> set REGISTRATION_METADATA" using in_metadata(3) by (auto simp: r(6) split: if_split_asm)
  have two: "metadata ''token_endpoint_auth_method'' \<noteq> None" by (simp add: r(6))
  have three: "metadata ''redirect_uris'' = Some (JArr (map JStr uris))"
    by (simp add: r(5,6) kept_metadata_def in_metadata(1) r(1) u(1))
  have "list_all (loopback_uri pf) js = list_all (isLoopbackRedirectUri pf) uris"
    by (simp add: u(1) list_all_iff loopback_uri_def)
  then have four: "metadata ''application_type'' \<noteq> None \<or> \<not> list_all (isLoopbackRedirectUri pf) uris"
    by (auto simp: r(5,6))
  have "list_all (\<lambda>uri. length uri \<le> 1024 \<and>
        (\<exists>parsed. new_url pf uri = Some parsed \<and> url_hash parsed = [] \<and> url_username parsed = [] \<and>
           url_password parsed = [] \<and>
           (url_protocol parsed = ''http:'' \<and> url_hostname parsed \<in> set LOOPBACK_HOSTS \<or>
            url_protocol parsed = ''https:'' \<and>
            (mo_redirect_origins cfg = [] \<or> url_origin parsed \<in> set (mo_redirect_origins cfg))))) uris"
    using u(2) unfolding list_all_iff by (blast dest: permitted_redirect)
  then show ?thesis using one two three four r(2,3) unfolding u(1) by auto
qed

section \<open>The library's configuration\<close>

lemma asked_iff:
  "prompt \<in> set (prompts_asked policy result) \<longleftrightarrow>
     (\<exists>checks. (prompt, checks) \<in> set policy \<and> (\<exists>check \<in> set checks. check result))"
  by (force simp: prompts_asked_def)

lemma added_check_asks:
  "(prompt, checks) \<in> set base \<Longrightarrow> check result \<Longrightarrow> prompt \<in> set (prompts_asked (add_check prompt check base) result)"
  unfolding asked_iff add_check_def by force

lemma add_check_keeps:
  assumes "prompt \<in> set (prompts_asked base result)"
  shows "prompt \<in> set (prompts_asked (add_check p check base) result)"
proof -
  obtain checks c where c: "(prompt, checks) \<in> set base" "c \<in> set checks" "c result"
    using assms unfolding asked_iff by blast
  then have "(prompt, if prompt = p then checks @ [check] else checks) \<in> set (add_check p check base)"
    using imageI [OF c(1), of "\<lambda>(name, checks). (name, if name = p then checks @ [check] else checks)"]
    unfolding add_check_def set_map by (simp only: prod.case)
  moreover have "c \<in> set (if prompt = p then checks @ [check] else checks)" using c(2) by simp
  ultimately show ?thesis unfolding asked_iff using c(3) by blast
qed

lemma add_check_silent:
  assumes "\<not> check result"
  shows "prompts_asked (add_check p check base) result = prompts_asked base result"
proof (induction base)
  case (Cons e base)
  obtain name checks where e: "e = (name, checks)" by (cases e)
  have "(\<exists>c \<in> set (if name = p then checks @ [check] else checks). c result) \<longleftrightarrow> (\<exists>c \<in> set checks. c result)"
    using assms by simp
  with Cons show ?case by (simp add: prompts_asked_def add_check_def e)
qed (simp add: prompts_asked_def add_check_def)

lemma fst_add_check: "fst ` set (add_check p check base) = fst ` set base"
  by (force simp: add_check_def)

text \<open>Whatever prompts and checks the library's policy starts with, an authorization in which this browser
  has not signed in is asked to sign in, one in which it has not consented is asked to consent, and once both
  are done the added checks ask for nothing more.\<close>

theorem every_authorization_asks_again:
  assumes "''login'' \<in> fst ` set base" and "''consent'' \<in> fst ` set base"
  shows "(su_login result \<or> ''login'' \<in> set (prompts_asked (buildInteractionPolicy base) result)) \<and>
    (su_consent result \<or> ''consent'' \<in> set (prompts_asked (buildInteractionPolicy base) result)) \<and>
    prompts_asked (buildInteractionPolicy base) \<lparr>su_login = True, su_consent = True\<rparr> =
      prompts_asked base \<lparr>su_login = True, su_consent = True\<rparr>"
proof (intro conjI)
  let ?login = "\<lambda>result. \<not> su_login result" and ?consent = "\<lambda>result. \<not> su_consent result"
  show "su_login result \<or> ''login'' \<in> set (prompts_asked (buildInteractionPolicy base) result)"
  proof (cases "su_login result")
    case False
    obtain checks where "(''login'', checks) \<in> set base" using assms(1) by force
    then have "''login'' \<in> set (prompts_asked (add_check ''login'' ?login base) result)"
      by (rule added_check_asks) (simp add: False)
    then have "''login'' \<in> set (prompts_asked (buildInteractionPolicy base) result)"
      unfolding buildInteractionPolicy_def by (rule add_check_keeps)
    then show ?thesis ..
  qed simp
  have "''consent'' \<in> fst ` set (add_check ''login'' ?login base)"
    unfolding fst_add_check by (rule assms(2))
  then show "su_consent result \<or> ''consent'' \<in> set (prompts_asked (buildInteractionPolicy base) result)"
  proof (cases "su_consent result")
    case False
    obtain checks where "(''consent'', checks) \<in> set (add_check ''login'' ?login base)"
      using \<open>''consent'' \<in> fst ` set (add_check ''login'' ?login base)\<close> by fastforce
    then have "''consent'' \<in> set (prompts_asked (buildInteractionPolicy base) result)"
      unfolding buildInteractionPolicy_def by (rule added_check_asks) (simp add: False)
    then show ?thesis ..
  qed simp
  show "prompts_asked (buildInteractionPolicy base) \<lparr>su_login = True, su_consent = True\<rparr> =
      prompts_asked base \<lparr>su_login = True, su_consent = True\<rparr>"
    by (simp add: buildInteractionPolicy_def add_check_silent)
qed

text \<open>The library sees the issuer's host and scheme whatever host, and whatever forwarded host and scheme, a
  request claims.\<close>

lemma handed_request_ignores_claimed_host:
  assumes "\<forall>k. k \<notin> {''host'', ''x-forwarded-host'', ''x-forwarded-proto''} \<longrightarrow> h k = h' k"
  shows "handle_headers issuer h = handle_headers issuer h'"
proof
  show "handle_headers issuer h k = handle_headers issuer h' k" for k
    using assms by (cases "k \<in> {''host'', ''x-forwarded-host'', ''x-forwarded-proto''}")
      (simp_all add: handle_headers_def del: char.inject list.inject)
qed

section \<open>Revoked grants\<close>

text \<open>Once a grant is revoked, no access token issued under it is admitted, and nor is one whose row has
  expired or was deleted.\<close>

theorem revoked_grant_ends_access:
  assumes "reads_through_adapter ext oidc" and "oauth_inv ext rows"
    and "find (at_key ''AccessToken'' (sha256_hex ext token)) rows = Some row"
    and "text_column ''grantId'' (op_payload row) = Some grant"
    and "bearer_token header = Some token"
  shows "fst (canActivate_mcp cfg oidc url None (Some header) now (revokeByGrantId grant rows) w) = Inl tokenInvalid"
proof -
  have "isCredential ''AccessToken''" by (simp add: isCredential_def CREDENTIAL_MODELS_def)
  have row: "row \<in> set rows" using assms(3) by (auto dest: find_SomeD)
  then have "op_grant_id row = Some grant" "distinct (map row_key rows)"
    using assms(2,4) by (auto simp: oauth_inv_def oauth_row_ok_def)
  then have "find_payload ext ''AccessToken'' token now (revokeByGrantId grant rows) = None"
    using assms(3) \<open>isCredential ''AccessToken''\<close>
    by (simp add: find_payload_def revokeByGrantId_def find_filter_key adapter_key_def)
  then have "AccessToken_find oidc (revokeByGrantId grant rows) now token = None"
    using assms(1) by (simp add: reads_through_adapter_def)
  then show ?thesis
    by (simp add: canActivate_mcp_def verifyAccessToken_def assms(5))
qed

section \<open>Pages\<close>

text \<open>No page can be framed, and only the sign-in page of a deployment with the bot check runs a script.\<close>

lemma pages_run_no_script:
  "CHR 0x27 # ''none'' @ [CHR 0x27] = q \<Longrightarrow>
   ''frame-ancestors '' @ q \<in> set (page_directives pf siteKey view redirectUri nonce) \<and>
   (view = LoginPage \<and> truthy siteKey \<or>
    ''script-src '' @ q \<in> set (page_directives pf siteKey view redirectUri nonce))"
  by (cases view) (auto simp: page_directives_def Let_def truthy_def)

text \<open>Two password sign-ins are counted together exactly when identifier (without case and surrounding space) and
  address are the same, whichever handler takes them; an address has no bar.\<close>

lemma tracker_injective:
  assumes "CHR ''|'' \<notin> set a" and "CHR ''|'' \<notin> set a'"
  shows "x @ ''|'' @ a = x' @ ''|'' @ a' \<longleftrightarrow> x = x' \<and> a = a'"
proof
  assume eq: "x @ ''|'' @ a = x' @ ''|'' @ a'"
  have cut: "takeWhile (\<lambda>c. c \<noteq> CHR ''|'') (rev (y @ ''|'' @ b)) = rev b" if "CHR ''|'' \<notin> set b" for y b
    using that takeWhile_append2 [of "rev b" "\<lambda>c. c \<noteq> CHR ''|''" "CHR ''|'' # rev y"] by auto
  have "rev a = rev a'"
    using arg_cong [OF eq, of "\<lambda>s. takeWhile (\<lambda>c. c \<noteq> CHR ''|'') (rev s)"] unfolding cut [OF assms(1)] cut [OF assms(2)] .
  with eq show "x = x' \<and> a = a'" by simp
qed simp

end
