(* ===== verification/OAuth_Witnesses.thy ===== *)
theory OAuth_Witnesses
  imports OAuth_Properties Access_Witnesses
begin

text \<open>A library over the adapter, an open consent page and a registration, and the properties of the MCP
  authorization server applied to them.\<close>

section \<open>Data\<close>

definition o_cfg :: mcp_oauth_settings where
  "o_cfg = \<lparr>mo_issuer = ''i'', mo_resource = ''r'', mo_access_token_ttl = 60, mo_refresh_token_ttl = 600,
            mo_redirect_origins = [], mo_allowed_origins = []\<rparr>"

definition o_payload :: payload where
  "o_payload = [''grantId'' \<mapsto> JStr ''g'']"

definition o_rows :: "oauth_row list" where
  "o_rows = [\<lparr>op_model = ''AccessToken'', op_id = ''ht'', op_payload = o_payload, op_grant_id = Some ''g'',
              op_user_code = None, op_uid = None, op_expires_at = None, op_consumed_at = None\<rparr>]"

definition o_token :: access_token where
  "o_token = \<lparr>at_account_id = Some ''u'', at_client_id = Some ''c'', at_is_expired = False,
              at_aud = Some (JStr ''r''), at_iat = Some 1, at_exp = None, at_scopes = [MCP_OAUTH_SCOPE]\<rparr>"

definition o_oidc :: oidc_library where
  "o_oidc = \<lparr>AccessToken_find = (\<lambda>rows now token.
        map_option (\<lambda>_. o_token) (find_payload sample_ext ''AccessToken'' token now rows)),
      Session_authTime = (\<lambda>_ _ _. Some 1), Grant_exists = (\<lambda>_ _ _. False), Client_name = (\<lambda>_. None)\<rparr>"

definition o_keys :: key_library where
  "o_keys = \<lparr>hkdf = (\<lambda>s l n. s @ l), ed25519_jwk = (\<lambda>_. []), base64url = id, hmac_base64url = (\<lambda>k m. k @ m)\<rparr>"

definition o_pages :: oauth_pages where
  "o_pages = \<lparr>og_library = o_keys, og_form_token_key = ''k'', og_secret_keys = \<lparr>sk_web = None, sk_mobile = None\<rparr>,
              og_site_key = None, og_oidc = o_oidc, og_save_grant = (\<lambda>_. ''g'')\<rparr>"

definition o_details :: interaction_details where
  "o_details = \<lparr>id_uid = ''x'', id_prompt = ''consent'', id_missing_oidc_scope = None,
      id_missing_resource_scopes = Some [(''r'', [MCP_OAUTH_SCOPE])], id_session_account = Some ''u'',
      id_session_cookie = Some ''s'', id_grant_id = None, id_client_id = ''c'', id_redirect_uri = None\<rparr>"

definition o_request :: interaction_request where
  "o_request = \<lparr>ir_uid = ''x'', ir_post = True,
      ir_body = Some [''formToken'' \<mapsto> JStr ''kmcp-oauth-form:x'', ''decision'' \<mapsto> JStr ''approve''],
      ir_details = Some o_details\<rparr>"

lemmas o_defs = o_cfg_def o_payload_def o_rows_def o_token_def o_oidc_def o_keys_def o_pages_def o_details_def
  o_request_def

lemma o_access: "isCredential ''AccessToken''" "adapter_key sample_ext ''AccessToken'' t = ''h'' @ t"
  by (simp_all add: isCredential_def CREDENTIAL_MODELS_def adapter_key_def sample_ext_def)

lemma o_bearer: "bearer_token ''Bearer t'' = Some ''t''"
  by code_simp

lemma o_reads: "reads_through_adapter sample_ext o_oidc"
  by (simp add: reads_through_adapter_def o_oidc_def)

lemma o_found: "AccessToken_find o_oidc o_rows now ''t'' = Some o_token"
  by (simp add: o_oidc_def find_payload_def o_access o_rows_def at_key_def toPayload_def)

section \<open>Access\<close>

lemma ended_sessions_end_mcp_access_witness:
  "fst (canActivate_mcp o_cfg o_oidc ''m'' None (Some ''Bearer t'') 1600 o_rows (s_world [s_live])) =
     Inr \<lparr>ai_token = [], ai_client_id = ''c'', ai_scopes = [MCP_OAUTH_SCOPE], ai_expires_at = 0,
          ai_resource = ''r'', ai_user_id = ''u''\<rparr> \<and>
   fst (canActivate_mcp o_cfg o_oidc ''m'' None (Some ''Bearer t'') 1600 o_rows (a_world 1500)) = Inl tokenInvalid \<and>
   snd (confirm_interaction o_pages o_request 1600 o_rows (a_world 1500)) = None"
proof -
  have "fst (canActivate_mcp o_cfg o_oidc ''m'' None (Some ''Bearer t'') 1600 o_rows (s_world [s_live])) =
     Inr \<lparr>ai_token = [], ai_client_id = ''c'', ai_scopes = [MCP_OAUTH_SCOPE], ai_expires_at = 0,
          ai_resource = ''r'', ai_user_id = ''u''\<rparr>"
    by (simp add: canActivate_mcp_def o_bearer verifyAccessToken_def o_found)
      (simp add: o_token_def o_cfg_def truthy_def findUsableAccount_def findByIdOrNull_def find_live_user_def
        live_users_def isAccountUsable_def s_defs)
  moreover have "fst (canActivate_mcp o_cfg o_oidc ''m'' None (Some ''Bearer t'') 1600 o_rows (a_world 1500)) =
      Inl tokenInvalid \<and>
    findAccount ''u'' (Some (Some 1, None)) None (a_world 1500) = None \<and>
    findAccount ''u'' None (Some 1) (a_world 1500) = None \<and>
    snd (confirm_interaction o_pages o_request 1600 o_rows (a_world 1500)) = None"
    by (rule ended_sessions_end_mcp_access [where iat = 1 and request = o_request and details = o_details,
          OF a_dist a_end _ _ o_found _ _ o_bearer])
      (simp_all add: o_defs sessionSignedInAt_def truthy_def)
  ultimately show ?thesis by blast
qed

lemma o_confirm:
  "confirm_interaction o_pages o_request 1600 o_rows (s_world [s_live]) =
     (Finished (ConsentResult ''g'') True,
      Some \<lparr>sg_base = NewGrant ''u'' ''c'', sg_calls = [AddResourceScope ''r'' MCP_OAUTH_SCOPE]\<rparr>)"
proof -
  have "loadInteraction o_pages o_request (Some ''consent'') = Inr o_details"
    by (simp add: loadInteraction_Inr o_defs body_field_def interaction_formToken_def)
  moreover have "body_field o_request ''decision'' = Some (JStr ''approve'')"
    by (simp add: body_field_def o_request_def)
  moreover have "findUsableAccount ''u'' (Some 1) (s_world [s_live]) = Some (sample_user ''u'')"
    by (simp add: findUsableAccount_def findByIdOrNull_def find_live_user_def live_users_def isAccountUsable_def s_defs)
  moreover have "u_id (sample_user ''u'') = ''u''" by (simp add: s_defs)
  ultimately show ?thesis
    by (simp add: confirm_interaction_def)
      (simp add: o_pages_def o_oidc_def o_details_def sessionSignedInAt_def truthy_def missing_scope_calls_def)
qed

lemma consent_grants_only_on_approval_witness:
  "\<exists>details. ir_details o_request = Some details \<and> id_prompt details = ''consent'' \<and>
     body_field o_request ''decision'' = Some (JStr ''approve'')"
proof -
  have "ir_post o_request" by (simp add: o_request_def)
  from consent_grants_only_on_approval [OF o_confirm this] show ?thesis by blast
qed

lemma revoked_grant_ends_access_witness:
  "fst (canActivate_mcp o_cfg o_oidc ''m'' None (Some ''Bearer t'') 1600 (revokeByGrantId ''g'' o_rows)
     (s_world [s_live])) = Inl tokenInvalid"
proof (rule revoked_grant_ends_access [OF o_reads, where token = "''t''" and row = "hd o_rows"])
  show "oauth_inv sample_ext o_rows"
    by (simp add: oauth_inv_def o_rows_def oauth_row_ok_def o_payload_def text_column_def sample_ext_def image_iff)
  show "find (at_key ''AccessToken'' (sha256_hex sample_ext ''t'')) o_rows = Some (hd o_rows)"
    by (simp add: o_rows_def at_key_def sample_ext_def)
  show "text_column ''grantId'' (op_payload (hd o_rows)) = Some ''g''"
    by (simp add: o_rows_def o_payload_def text_column_def)
  show "bearer_token ''Bearer t'' = Some ''t''" by (rule o_bearer)
qed

section \<open>Storage\<close>

lemma o_code: "isCredential ''AuthorizationCode''" "adapter_key sample_ext ''AuthorizationCode'' t = ''h'' @ t"
  by (simp_all add: isCredential_def CREDENTIAL_MODELS_def adapter_key_def sample_ext_def)

definition o_code_rows :: "time option \<Rightarrow> oauth_row list" where
  "o_code_rows used = [\<lparr>op_model = ''AuthorizationCode'', op_id = ''hc'', op_payload = o_payload, op_grant_id = Some ''g'',
              op_user_code = None, op_uid = None, op_expires_at = Some 61000, op_consumed_at = used\<rparr>]"

lemma o_stored: "upsert_payload sample_ext ''AuthorizationCode'' ''c'' o_payload (Some 60) 1000 [] = o_code_rows None"
  by (simp add: upsert_payload_def o_code o_code_rows_def o_payload_def text_column_def fun_upd_twist)

lemma o_consumed: "consume_payload sample_ext ''AuthorizationCode'' ''c'' 1500 (o_code_rows None) =
    (Inr (), o_code_rows (Some 1500))"
  by (simp add: consume_payload_def o_code o_code_rows_def at_key_def count_where_def)

text \<open>A code stored again after the retention removed it is a new code.\<close>

lemma credential_redeemed_once_witness:
  "\<exists>n \<le> 2. \<not> (\<exists>r \<in> set (oauth_run sample_ext (take n
      [Sweep 70000, Upsert ''AuthorizationCode'' ''c'' o_payload (Some 60) 1000]) (o_code_rows (Some 1500))).
    op_model r = ''AuthorizationCode'' \<and> op_id r = ''hc'')"
proof -
  let ?ops = "[Sweep 70000, Upsert ''AuthorizationCode'' ''c'' o_payload (Some 60) 1000]"
  have "oauth_run sample_ext ?ops (o_code_rows (Some 1500)) = o_code_rows None"
    by (simp add: runOnce_def o_code_rows_def past_expiry_def o_stored [unfolded o_code_rows_def])
  then have "fst (consume_payload sample_ext ''AuthorizationCode'' ''c'' 2000
      (oauth_run sample_ext ?ops (o_code_rows (Some 1500)))) = Inr ()"
    by (simp add: consume_payload_def o_code o_code_rows_def at_key_def count_where_def)
  from credential_redeemed_once [OF o_consumed this] show ?thesis by (simp add: o_code numeral_2_eq_2)
qed

lemma adapter_roundtrip_witness:
  "find_payload sample_ext ''AuthorizationCode'' ''c'' 2000 (o_code_rows None) =
     Some (o_payload(''jti'' \<mapsto> JStr ''c'')) \<and>
   find_payload sample_ext ''AuthorizationCode'' ''c'' 61000 (o_code_rows None) = None"
  using adapter_roundtrip [of 60 "[]" "''AuthorizationCode''" sample_ext "''c''" 2000 o_payload 1000 0]
    adapter_roundtrip [of 60 "[]" "''AuthorizationCode''" sample_ext "''c''" 61000 o_payload 1000 0]
  by (simp add: o_stored o_code(1))

lemma no_credential_in_table_witness:
  "\<not> (\<exists>r \<in> set (oauth_run sample_ext
      [Upsert ''AuthorizationCode'' ''c'' (o_payload(''jti'' \<mapsto> JStr ''c'')) (Some 60) 1000] []).
     op_payload r ''jti'' \<noteq> None)"
proof -
  let ?ops = "[Upsert ''AuthorizationCode'' ''c'' (o_payload(''jti'' \<mapsto> JStr ''c'')) (Some 60) 1000]"
  have all: "list_all (\<lambda>r. op_model r = ''AuthorizationCode'') (oauth_run sample_ext ?ops [])"
    by (simp add: upsert_payload_def Let_def)
  show ?thesis
    using no_credential_in_table [of sample_ext ?ops] all o_code(1)
    by (auto simp: Let_def list_all_iff simp del: oauth_run_simps)
qed

lemma sweep_is_unnoticed_witness:
  "find_payload sample_ext ''AuthorizationCode'' ''c'' 70000 (snd (runOnce 70000 (o_code_rows None))) =
   find_payload sample_ext ''AuthorizationCode'' ''c'' 70000 (o_code_rows None)"
  by (rule sweep_is_unnoticed) (simp_all add: o_code_rows_def)

section \<open>Registration\<close>

definition o_platform :: platform where
  "o_platform =
     \<lparr>new_url = (\<lambda>u. Some \<lparr>url_protocol = ''http:'', url_username = [], url_password = [], url_hostname = ''localhost'',
        url_origin = u, url_hash = [], url_port = [], url_pathname = []\<rparr>),
      isIP = (\<lambda>_. 0), covers_mapped_ipv4 = (\<lambda>_ _. False), decodeURIComponent = Some, joi_uri = (\<lambda>_ _. True),
      joi_hostname = (\<lambda>_. True), joi_number = (\<lambda>_. None), joi_boolean = (\<lambda>_. None)\<rparr>"

definition o_metadata :: payload where
  "o_metadata = [''redirect_uris'' \<mapsto> JArr [JStr ''http://localhost''], ''application_type'' \<mapsto> JStr ''native'',
                 ''token_endpoint_auth_method'' \<mapsto> JStr ''none'']"

lemma o_registered:
  "register_client o_platform o_cfg
     (Some [''redirect_uris'' \<mapsto> JArr [JStr ''http://localhost''], ''jwks_uri'' \<mapsto> JStr ''http://evil'']) =
   HandedToProvider o_metadata"
proof -
  have "redirect_uri_ok o_platform o_cfg (JStr ''http://localhost'')"
    "loopback_uri o_platform (JStr ''http://localhost'')"
    by (simp_all add: redirect_uri_ok_def loopback_uri_def isPermittedMcpRedirectUri_def isLoopbackRedirectUri_def
        o_platform_def LOOPBACK_HOSTS_def registration_redirectUriLength_def)
  then show ?thesis
    by (auto simp: register_client_def Let_def o_metadata_def REGISTRATION_METADATA_def registration_redirectUris_def
        fun_eq_iff)
qed

lemma registration_is_bounded_witness:
  "dom o_metadata \<subseteq> set REGISTRATION_METADATA \<and> o_metadata ''application_type'' = Some (JStr ''native'')"
  using registration_is_bounded [OF o_registered] by (simp add: o_metadata_def)

section \<open>The rule of the REST API\<close>

lemma mcp_rule_is_rest_rule_and_verified_witness:
  "findUsableAccount ''u'' (Some 1) (s_world [s_live]) = Some (sample_user ''u'') \<longleftrightarrow>
     (\<exists>a. validate (a_payload 1) 1600 (s_world [s_live]) = Inr a) \<and>
     find_live_user (s_world [s_live]) ''u'' = Some (sample_user ''u'') \<and> u_email_verified_at (sample_user ''u'') \<noteq> None"
proof -
  have p: "jp_purpose (a_payload 1) = None" "\<not> blocklisted (a_payload 1) 1600 (s_world [s_live])"
    by (simp_all add: a_payload_def blocklisted_def truthy_def)
  from mcp_rule_is_rest_rule_and_verified [OF p, of "sample_user ''u''"] show ?thesis by (simp add: a_payload_def)
qed

text \<open>The comment of the service says that REST access asks for a verified email address too; it does not.\<close>

theorem rest_admits_unverified_address:
  "\<exists>a. validate (a_payload 1) 1600 (sample_world\<lparr>users := [(sample_user ''u'')\<lparr>u_email_verified_at := None\<rparr>]\<rparr>) = Inr a \<and>
   findUsableAccount ''u'' (Some 1) (sample_world\<lparr>users := [(sample_user ''u'')\<lparr>u_email_verified_at := None\<rparr>]\<rparr>) = None"
  by (simp add: validate_def isAccessTokenPayload_def findByIdOrNull_def find_live_user_def live_users_def
      blocklisted_def truthy_def a_payload_def findUsableAccount_def isAccountUsable_def s_defs)

lemma every_authorization_asks_again_witness:
  "''login'' \<in> set (prompts_asked (buildInteractionPolicy [(''login'', []), (''consent'', [])])
     \<lparr>su_login = False, su_consent = False\<rparr>)"
  using every_authorization_asks_again [of "[(''login'', []), (''consent'', [])]"
      "\<lparr>su_login = False, su_consent = False\<rparr>"]
  by simp

end
