(* ===== verification/Account_Mail.thy ===== *)
theory Account_Mail
  imports Credentials Send_Limits Files
begin

text \<open>
  The worker side of the account emails and the profile picture, from \<open>src/src/modules/users/users.service.ts\<close>,
  with the messages of \<open>src/src/common/email/email.service.ts\<close>, the jobs of
  \<open>src/src/modules/users/jobs/user-email.handlers.ts\<close> and \<open>findAttachedResponses\<close> of
  \<open>src/src/modules/files/files.service.ts\<close>.

  A message is its template, its address and the values of the template; the rendering and the mail provider's
  answer are arguments.
\<close>

section \<open>Messages\<close>

record mail =
  ml_key :: string
  ml_to :: string
  ml_vars :: "(string \<times> json) list"

text \<open>One delivery: the addresses of the deployment, the clock, a fresh random token, and how Redis and the mail
  provider answer.\<close>

record delivery =
  dl_ext :: ext
  dl_hmac :: "string \<Rightarrow> string"
  dl_ascii :: "string \<Rightarrow> string"
  dl_up :: bool
  dl_still_up :: bool
  dl_answer :: "exn + unit"
  dl_now :: time
  dl_later :: time
  dl_token :: string
  dl_sign :: "verify_payload \<Rightarrow> string"
  dl_encode :: "string \<Rightarrow> string"
  dl_with_params :: "string \<Rightarrow> (string \<times> string) list \<Rightarrow> string"
  dl_api_base_url :: string
  dl_web_base_url :: string
  dl_password_reset_url :: string

record mail_state =
  ms_world :: world
  ms_counters :: counters
  ms_outbox :: "mail list"

definition send_template :: "delivery \<Rightarrow> mail \<Rightarrow> mail_state \<Rightarrow> (exn + unit) \<times> mail_state" where
  "send_template d m s =
     (dl_answer d, case dl_answer d of Inl _ \<Rightarrow> s | Inr _ \<Rightarrow> s\<lparr>ms_outbox := ms_outbox s @ [m]\<rparr>)"

definition sendEmailVerificationLink :: "string \<Rightarrow> string \<Rightarrow> string \<Rightarrow> mail" where
  "sendEmailVerificationLink email firstName verifyUrl =
     \<lparr>ml_key = ''email-verification-link'', ml_to = email,
      ml_vars = [(''firstName'', JStr firstName), (''verifyUrl'', JStr verifyUrl)]\<rparr>"

definition sendPasswordResetLink :: "string \<Rightarrow> string \<Rightarrow> string \<Rightarrow> int \<Rightarrow> mail" where
  "sendPasswordResetLink email firstName resetUrl expiresInMinutes =
     \<lparr>ml_key = ''password-reset-link'', ml_to = email,
      ml_vars = [(''firstName'', JStr firstName), (''resetUrl'', JStr resetUrl),
                 (''expiresInMinutes'', JInt expiresInMinutes)]\<rparr>"

definition sendSignUpAccountExists :: "string \<Rightarrow> string \<Rightarrow> mail" where
  "sendSignUpAccountExists email appUrl =
     \<lparr>ml_key = ''sign-up-account-exists'', ml_to = email, ml_vars = [(''appUrl'', JStr appUrl)]\<rparr>"

definition sendPasswordChangedNotification :: "string \<Rightarrow> string \<Rightarrow> time \<Rightarrow> mail" where
  "sendPasswordChangedNotification email firstName occurredAt =
     \<lparr>ml_key = ''password-changed-notification'', ml_to = email,
      ml_vars = [(''firstName'', JStr firstName), (''occurredAt'', JDate occurredAt)]\<rparr>"

definition sendEmailChangedNotification :: "string \<Rightarrow> string \<Rightarrow> time \<Rightarrow> mail" where
  "sendEmailChangedNotification email firstName occurredAt =
     \<lparr>ml_key = ''email-changed-notification'', ml_to = email,
      ml_vars = [(''firstName'', JStr firstName), (''occurredAt'', JDate occurredAt)]\<rparr>"

section \<open>Deliveries\<close>

text \<open>\<open>sendWithinLimit\<close> around a send that may also write to the database.\<close>

definition deliver_within_limit ::
  "delivery \<Rightarrow> send_purpose \<Rightarrow> string \<Rightarrow> (mail_state \<Rightarrow> (exn + unit) \<times> mail_state) \<Rightarrow> mail_state
   \<Rightarrow> (exn + delivery_outcome) \<times> mail_state" where
  "deliver_within_limit d purpose email send s =
     (case sendWithinLimit (dl_hmac d) (dl_up d) (dl_still_up d) purpose
             (canonicalEmailDestination (dl_ascii d) email) (fst (send s)) (dl_now d) (dl_later d)
             (ms_counters s) of
        (r, was_run, c) \<Rightarrow>
          (map_sum id (\<lambda>sent. if sent then Sent else DestinationLimited) r,
           (if was_run then snd (send s) else s)\<lparr>ms_counters := c\<rparr>))"

definition verification_payload :: "user_row \<Rightarrow> verify_payload" where
  "verification_payload user =
     \<lparr>vp_sub = Some (u_id user), vp_purpose = Some ''email_verify'', vp_email = Some (u_email user)\<rparr>"

definition deliverEmailVerification ::
  "delivery \<Rightarrow> ident \<Rightarrow> mail_state \<Rightarrow> (exn + delivery_outcome) \<times> mail_state" where
  "deliverEmailVerification d userId s =
     (case findByIdOrNull userId (ms_world s) of
        None \<Rightarrow> (Inr NothingToSend, s)
      | Some user \<Rightarrow>
          (if u_email_verified_at user \<noteq> None then (Inr NothingToSend, s)
           else deliver_within_limit d EMAIL_VERIFICATION (u_email user)
             (send_template d (sendEmailVerificationLink (u_email user) (u_first_name user)
                (dl_api_base_url d @ ''/auth/verify-email?token='' @
                 dl_encode d (dl_sign d (verification_payload user))))) s))"

definition deliverSignUpAccountExistsNotice ::
  "delivery \<Rightarrow> ident \<Rightarrow> mail_state \<Rightarrow> (exn + delivery_outcome) \<times> mail_state" where
  "deliverSignUpAccountExistsNotice d userId s =
     (case findByIdOrNull userId (ms_world s) of
        None \<Rightarrow> (Inr NothingToSend, s)
      | Some user \<Rightarrow>
          deliver_within_limit d SIGN_UP_ACCOUNT_EXISTS (u_email user)
            (send_template d (sendSignUpAccountExists (u_email user) (dl_web_base_url d))) s)"

definition reset_mail :: "delivery \<Rightarrow> user_row \<Rightarrow> mail" where
  "reset_mail d user =
     sendPasswordResetLink (u_email user) (u_first_name user)
       (dl_with_params d (dl_password_reset_url d) [(''token'', dl_token d), (''email'', u_email user)])
       PASSWORD_RESET_EXPIRY_MINUTES"

definition mintAndSendPasswordReset ::
  "delivery \<Rightarrow> user_row \<Rightarrow> mail_state \<Rightarrow> (exn + unit) \<times> mail_state" where
  "mintAndSendPasswordReset d user s =
     (case mintPasswordReset (dl_ext d) (u_id user) (dl_token d) (dl_now d) (ms_world s) of
        Inl e \<Rightarrow> (Inl e, s)
      | Inr w \<Rightarrow> send_template d (reset_mail d user) (s\<lparr>ms_world := w\<rparr>))"

definition deliverPasswordReset ::
  "delivery \<Rightarrow> ident \<Rightarrow> mail_state \<Rightarrow> (exn + delivery_outcome) \<times> mail_state" where
  "deliverPasswordReset d userId s =
     (case findByIdOrNull userId (ms_world s) of
        None \<Rightarrow> (Inr NothingToSend, s)
      | Some user \<Rightarrow>
          (if \<not> u_is_active user then (Inr NothingToSend, s)
           else deliver_within_limit d PASSWORD_RESET_MAIL (u_email user) (mintAndSendPasswordReset d user) s))"

definition deliverPasswordChangedNotice ::
  "delivery \<Rightarrow> ident \<Rightarrow> time \<Rightarrow> mail_state \<Rightarrow> (exn + delivery_outcome) \<times> mail_state" where
  "deliverPasswordChangedNotice d userId occurredAt s =
     (case findByIdOrNull userId (ms_world s) of
        None \<Rightarrow> (Inr NothingToSend, s)
      | Some user \<Rightarrow>
          (let send = send_template d
                 (sendPasswordChangedNotification (u_email user) (u_first_name user) occurredAt)
           in if u_email_verified_at user \<noteq> None
              then (map_sum id (\<lambda>_. Sent) (fst (send s)), snd (send s))
              else deliver_within_limit d UNVERIFIED_PASSWORD_CHANGED_NOTICE (u_email user) send s))"

text \<open>The audit rows with their ids and instants; the row of one change of address.\<close>

definition email_change_row :: "ident \<Rightarrow> ident \<Rightarrow> ident \<times> time \<times> audit_entry \<Rightarrow> bool" where
  "email_change_row userId auditLogId = (\<lambda>(i, _, entry). i = auditLogId \<and> a_action entry = ''user.email_changed'' \<and>
     a_target_user_id entry = Some userId)"

definition deliverEmailChangedNotice ::
  "delivery \<Rightarrow> ident \<Rightarrow> ident \<Rightarrow> (ident \<times> time \<times> audit_entry) list \<Rightarrow> mail_state
   \<Rightarrow> (exn + delivery_outcome) \<times> mail_state" where
  "deliverEmailChangedNotice d userId auditLogId rows s =
     (let change = find (email_change_row userId auditLogId) rows;
          previousEmail = (case change of
              None \<Rightarrow> None | Some (_, _, entry) \<Rightarrow> json_field ''previousEmail'' (a_metadata entry))
      in case (findByIdOrNull userId (ms_world s), change, previousEmail) of
           (Some user, Some (_, createdAt, _), Some (JStr address)) \<Rightarrow>
             (let sent = send_template d (sendEmailChangedNotification address (u_first_name user) createdAt) s
              in (map_sum id (\<lambda>_. Sent) (fst sent), snd sent))
         | _ \<Rightarrow> (Inr NothingToSend, s))"

section \<open>The jobs\<close>

definition email_job ::
  "(exn + delivery_outcome) \<times> mail_state \<Rightarrow> string \<Rightarrow> (exn + job_outcome) \<times> mail_state" where
  "email_job delivered reason =
     (map_sum id (\<lambda>outcome. deliveryJobOutcome outcome reason) (fst delivered), snd delivered)"

definition handle_email_verification ::
  "delivery \<Rightarrow> ident \<Rightarrow> mail_state \<Rightarrow> (exn + job_outcome) \<times> mail_state" where
  "handle_email_verification d userId s =
     email_job (deliverEmailVerification d userId s) ''account gone or already verified''"

definition handle_password_reset ::
  "delivery \<Rightarrow> ident \<Rightarrow> mail_state \<Rightarrow> (exn + job_outcome) \<times> mail_state" where
  "handle_password_reset d userId s =
     email_job (deliverPasswordReset d userId s) ''account gone or inactive''"

definition handle_password_changed_notice ::
  "delivery \<Rightarrow> ident \<Rightarrow> time \<Rightarrow> mail_state \<Rightarrow> (exn + job_outcome) \<times> mail_state" where
  "handle_password_changed_notice d userId occurredAt s =
     email_job (deliverPasswordChangedNotice d userId occurredAt s) ''account gone''"

definition handle_email_changed_notice ::
  "delivery \<Rightarrow> ident \<Rightarrow> ident \<Rightarrow> (ident \<times> time \<times> audit_entry) list \<Rightarrow> mail_state
   \<Rightarrow> (exn + job_outcome) \<times> mail_state" where
  "handle_email_changed_notice d userId auditLogId rows s =
     email_job (deliverEmailChangedNotice d userId auditLogId rows s) ''account or audit record gone''"

definition handle_sign_up_account_exists ::
  "delivery \<Rightarrow> ident \<Rightarrow> mail_state \<Rightarrow> (exn + job_outcome) \<times> mail_state" where
  "handle_sign_up_account_exists d userId s =
     email_job (deliverSignUpAccountExistsNotice d userId s) ''account gone''"

section \<open>The profile picture\<close>

definition setProfileImage ::
  "ident \<Rightarrow> ident option \<Rightarrow> ident \<Rightarrow> time \<Rightarrow> world \<Rightarrow> file_world \<Rightarrow> exn + user_row \<times> world \<times> file_world" where
  "setProfileImage userId fileId actorId now w fw =
     bindE (requireE (find_live_user w userId) (resourceNotFound ''User'' None)) (\<lambda>lockedUser.
     (let currentFileId = u_profile_image lockedUser;
          requestedFileId = map_option to_lower_case fileId
      in if requestedFileId = currentFileId then Inr (lockedUser, w, fw)
         else
           bindE (case requestedFileId of
                    None \<Rightarrow> Inr fw
                  | Some f \<Rightarrow> bindE (claimForAttachment f actorId PROFILE_IMAGE now fw) (\<lambda>(_, fw'). Inr fw')) (\<lambda>fw1.
           bindE (user_update userId
                    (\<lambda>u. u\<lparr>u_profile_image := requestedFileId, u_updated_by := Some actorId\<rparr>) w) (\<lambda>(u, w').
           Inr (u, w', if truthy currentFileId then markDeleting [the currentFileId] now fw1 else fw1)))))"

text \<open>What \<open>gdprErase\<close> does to the files of the account, in the erasing transaction.\<close>

definition releaseErasedFiles :: "ident \<Rightarrow> time \<Rightarrow> world \<Rightarrow> file_world \<Rightarrow> exn + file_world" where
  "releaseErasedFiles userId now w fw =
     bindE (requireE (find_user w userId) (PrismaKnownRequestError ''P2025'')) (\<lambda>user.
     Inr (markUnattachedDeleting userId now
       (if truthy (u_profile_image user) then markDeleting [the (u_profile_image user)] now fw else fw)))"

record attached_file_response =
  af_id :: ident
  af_content_type :: string
  af_width :: "nat option"
  af_height :: "nat option"
  af_url :: string
  af_url_expires_at :: time

text \<open>\<open>readable\<close>: whether the lookup answers; \<open>sign\<close>: a signed link, or none when signing fails.\<close>

definition findAttachedResponses ::
  "bool \<Rightarrow> (string \<Rightarrow> (string \<times> time) option) \<Rightarrow> ident list \<Rightarrow> file_world \<Rightarrow> (ident \<rightharpoonup> attached_file_response)" where
  "findAttachedResponses readable sign fileIds fw =
     (if fileIds = [] \<or> \<not> readable then Map.empty
      else map_of (List.map_filter
        (\<lambda>r. case sign (fa_storage_key r) of
               None \<Rightarrow> None
             | Some (url, expiresAt) \<Rightarrow>
                 Some (fa_id r, \<lparr>af_id = fa_id r, af_content_type = fa_content_type r, af_width = fa_width r,
                   af_height = fa_height r, af_url = url, af_url_expires_at = expiresAt\<rparr>))
        (filter (\<lambda>r. fa_id r \<in> set fileIds \<and> fa_status r = ATTACHED) (file_assets fw))))"

definition toResponses ::
  "bool \<Rightarrow> (string \<Rightarrow> (string \<times> time) option) \<Rightarrow> user_row list \<Rightarrow> file_world
   \<Rightarrow> (user_row \<times> attached_file_response option) list" where
  "toResponses readable sign us fw =
     (let pictures = findAttachedResponses readable sign (List.map_filter u_profile_image us) fw
      in map (\<lambda>user. (user, if truthy (u_profile_image user) then pictures (the (u_profile_image user)) else None))
           us)"

section \<open>One's own permissions\<close>

record membership_response =
  mr_membership_id :: ident
  mr_workspace_id :: ident
  mr_role_name :: string
  mr_status :: string

record 'rules own_permissions =
  pm_rules :: 'rules
  pm_platform_roles :: "string list"
  pm_workspace_memberships :: "membership_response list"

definition role_name :: "world \<Rightarrow> ident \<Rightarrow> string" where
  "role_name w i = (case find (\<lambda>r. r_id r = i) (roles w) of None \<Rightarrow> [] | Some r \<Rightarrow> r_name r)"

text \<open>\<open>packed\<close>: the ability's rules as CASL packs them.\<close>

definition getOwnPermissions :: "ident \<Rightarrow> 'rules \<Rightarrow> world \<Rightarrow> 'rules own_permissions" where
  "getOwnPermissions userId packed w =
     (let user = find_live_user w userId
      in \<lparr>pm_rules = packed,
          pm_platform_roles = (case user of None \<Rightarrow> []
            | Some _ \<Rightarrow> map (\<lambda>(_, r). role_name w r) (filter (\<lambda>(u, _). u = userId) (user_roles w))),
          pm_workspace_memberships = (case user of None \<Rightarrow> []
            | Some _ \<Rightarrow> map (\<lambda>m. \<lparr>mr_membership_id = m_id m, mr_workspace_id = m_workspace_id m,
                mr_role_name = role_name w (m_role_id m),
                mr_status = membership_status_value (m_status m)\<rparr>)
              (filter (\<lambda>m. m_user_id m = userId) (memberships w)))\<rparr>)"

end
