(* ===== verification/Account_Mail_Properties.thy ===== *)
theory Account_Mail_Properties
  imports Account_Mail File_Machine
begin

text \<open>
  What the deliveries guarantee: a send over its budget changes nothing, a mailed link works and only for the
  address it was mailed to, and a picture is replaced without leaving a file attached or taking another's.
\<close>

section \<open>Sends within a budget\<close>

lemma sendWithinLimit_cases:
  obtains (refused) e where "sendWithinLimit hmac up still p dest sent now later c = (Inl e, False, c)" "\<not> up"
  | (limited) c' where "sendWithinLimit hmac up still p dest sent now later c = (Inr False, False, c')"
  | (ran_ok) c' where "sendWithinLimit hmac up still p dest sent now later c = (Inr True, True, c')" "sent = Inr ()"
  | (ran_failed) e c' where "sendWithinLimit hmac up still p dest sent now later c = (Inl e, True, c')" "sent = Inl e"
proof (cases "reserve hmac up p dest now c")
  case (Inl e)
  then have "\<not> up" by (auto simp: reserve_def Let_def split: if_splits)
  with Inl show thesis by (intro refused) (simp_all add: sendWithinLimit_def)
next
  case (Inr r)
  obtain k c' where r: "r = (k, c')" by (cases r)
  show thesis
  proof (cases k)
    case None
    then show thesis by (intro limited) (simp add: sendWithinLimit_def Inr r)
  next
    case (Some key)
    show thesis
    proof (cases sent)
      case (Inl e)
      with Some \<open>reserve hmac up p dest now c = Inr r\<close> show thesis
        by (intro ran_failed) (simp_all add: sendWithinLimit_def r sendReserved_def)
    next
      case (Inr u)
      with Some \<open>reserve hmac up p dest now c = Inr r\<close> show thesis
        by (intro ran_ok) (simp_all add: sendWithinLimit_def r sendReserved_def)
    qed
  qed
qed

lemma deliver_cases:
  assumes "deliver_within_limit d p email send s = (r, s')"
  obtains (not_run) "ms_world s' = ms_world s" "ms_outbox s' = ms_outbox s" "r \<noteq> Inr Sent" "r \<noteq> Inr NothingToSend"
  | (ran_ok) "r = Inr Sent" "fst (send s) = Inr ()" "ms_world s' = ms_world (snd (send s))"
      "ms_outbox s' = ms_outbox (snd (send s))"
  | (ran_failed) e where "r = Inl e" "fst (send s) = Inl e" "ms_world s' = ms_world (snd (send s))"
      "ms_outbox s' = ms_outbox (snd (send s))"
proof -
  let ?dest = "canonicalEmailDestination (dl_ascii d) email"
  show thesis
  proof (rule sendWithinLimit_cases [of "dl_hmac d" "dl_up d" "dl_still_up d" p ?dest "fst (send s)" "dl_now d"
        "dl_later d" "ms_counters s"])
    fix e
    assume "sendWithinLimit (dl_hmac d) (dl_up d) (dl_still_up d) p ?dest (fst (send s)) (dl_now d) (dl_later d)
      (ms_counters s) = (Inl e, False, ms_counters s)"
    then show thesis using assms by (intro not_run) (auto simp: deliver_within_limit_def)
  next
    fix c'
    assume "sendWithinLimit (dl_hmac d) (dl_up d) (dl_still_up d) p ?dest (fst (send s)) (dl_now d) (dl_later d)
      (ms_counters s) = (Inr False, False, c')"
    then show thesis using assms by (intro not_run) (auto simp: deliver_within_limit_def)
  next
    fix c'
    assume "sendWithinLimit (dl_hmac d) (dl_up d) (dl_still_up d) p ?dest (fst (send s)) (dl_now d) (dl_later d)
      (ms_counters s) = (Inr True, True, c')" "fst (send s) = Inr ()"
    then show thesis using assms by (intro ran_ok) (auto simp: deliver_within_limit_def)
  next
    fix e c'
    assume "sendWithinLimit (dl_hmac d) (dl_up d) (dl_still_up d) p ?dest (fst (send s)) (dl_now d) (dl_later d)
      (ms_counters s) = (Inl e, True, c')" "fst (send s) = Inl e"
    then show thesis using assms by (intro ran_failed) (auto simp: deliver_within_limit_def)
  qed
qed

lemma send_template_outcome:
  "fst (send_template d m s) = dl_answer d"
  "ms_world (snd (send_template d m s)) = ms_world s"
  "ms_outbox (snd (send_template d m s)) = (case dl_answer d of Inl _ \<Rightarrow> ms_outbox s | Inr _ \<Rightarrow> ms_outbox s @ [m])"
  by (auto simp: send_template_def split: sum.splits)

section \<open>Reset links\<close>

definition minted :: "delivery \<Rightarrow> user_row \<Rightarrow> user_row" where
  "minted d u = u\<lparr>u_otp_hash := Some (sha256_hex (dl_ext d) (dl_token d)), u_otp_purpose := Some PASSWORD_RESET,
                  u_otp_expires_at := Some (dl_now d + PASSWORD_RESET_EXPIRY_MINUTES * 60 * 1000)\<rparr>"

lemma minted_by_email:
  assumes "mintPasswordReset (dl_ext d) uid (dl_token d) (dl_now d) w = Inr w'"
    and "findByEmail email w = Some user" and "u_id user = uid"
  shows "findByEmail email w' = Some (minted d user)"
proof -
  have w': "users w' = update_where (\<lambda>u. u_id u = uid) (minted d) (users w)"
    using assms(1)
    by (auto simp: mintPasswordReset_def user_update_def minted_def [abs_def] split: option.splits if_splits)
  have "find (\<lambda>x. u_deleted_at x = None \<and> u_email x = to_lower_case email)
      (update_where (\<lambda>u. u_id u = uid) (minted d) (users w)) =
    map_option (\<lambda>r. if u_id r = uid then minted d r else r)
      (find (\<lambda>x. u_deleted_at x = None \<and> u_email x = to_lower_case email) (users w))"
    by (rule find_update_where) (simp add: minted_def)
  then show ?thesis
    using assms(2,3) by (simp add: findByEmail_def live_users_def find_filter w')
qed

text \<open>C29: a password reset is mailed to the account's current address, and the link it carries is accepted for
  sixty minutes from then; a request whose send is over its budget, or for which Redis does not answer, sends
  nothing and leaves the link the account holder has untouched.\<close>

theorem mailed_reset_link_works:
  assumes "deliverPasswordReset d uid s = (r, s')" and "find_live_user (ms_world s) uid = Some user"
    and "findByEmail (u_email user) (ms_world s) = Some user" and "sha256_hex (dl_ext d) (dl_token d) \<noteq> []"
  shows "case r of
      Inr Sent \<Rightarrow> ms_outbox s' = ms_outbox s @ [reset_mail d user] \<and>
        ((\<exists>u. u_id u = uid \<and> resetChecks (dl_ext d) (u_email user) (dl_token d) t (ms_world s') = Inr u) \<longleftrightarrow>
           t \<le> dl_now d + 60 * 60 * 1000)
    | Inr _ \<Rightarrow> ms_outbox s' = ms_outbox s \<and> ms_world s' = ms_world s
    | Inl _ \<Rightarrow> ms_outbox s' = ms_outbox s"
proof (cases "u_is_active user")
  case False
  with assms(1,2) show ?thesis by (auto simp: deliverPasswordReset_def findByIdOrNull_def)
next
  case True
  have id: "u_id user = uid" using assms(2) by (auto dest: find_live_user_Some)
  have d: "deliver_within_limit d PASSWORD_RESET_MAIL (u_email user) (mintAndSendPasswordReset d user) s = (r, s')"
    using assms(1,2) True by (simp add: deliverPasswordReset_def findByIdOrNull_def)
  from d show ?thesis
  proof (cases rule: deliver_cases)
    case not_run
    then show ?thesis by (auto split: sum.split delivery_outcome.split)
  next
    case ran_ok
    obtain w where w: "mintPasswordReset (dl_ext d) (u_id user) (dl_token d) (dl_now d) (ms_world s) = Inr w"
      and sent: "dl_answer d = Inr ()"
      using ran_ok(2) by (auto simp: mintAndSendPasswordReset_def send_template_def split: sum.splits)
    then have s': "ms_world s' = w" "ms_outbox s' = ms_outbox s @ [reset_mail d user]"
      using ran_ok by (simp_all add: mintAndSendPasswordReset_def send_template_outcome)
    have "findByEmail (u_email user) w = Some (minted d user)" "u_id (minted d user) = uid"
      using minted_by_email [OF w assms(3) refl] id by (simp_all add: minted_def)
    then show ?thesis
      unfolding ran_ok(1) s' using True assms(4)
      by (auto simp: resetChecks_def minted_def truthy_def PASSWORD_RESET_EXPIRY_MINUTES_def)
  next
    case (ran_failed e)
    then show ?thesis
      by (auto simp: mintAndSendPasswordReset_def send_template_def split: sum.splits)
  qed
qed

section \<open>Verification links\<close>

text \<open>A verification link is mailed to the unverified address the account has at that moment, and from then
  on it works exactly while the account still has that address: once the address changed it is refused, and
  once it is verified it has nothing more to do.\<close>

theorem mailed_verification_link_is_bound:
  assumes "deliverEmailVerification d uid s = (Inr Sent, s')" and "find_live_user (ms_world s) uid = Some user"
  shows "u_email_verified_at user = None \<and>
    (\<exists>m. ms_outbox s' = ms_outbox s @ [m] \<and> ml_to m = u_email user \<and>
       map_of (ml_vars m) ''verifyUrl'' = Some (JStr (dl_api_base_url d @ ''/auth/verify-email?token='' @
         dl_encode d (dl_sign d (verification_payload user))))) \<and>
    readVerification (Some (verification_payload user)) later =
      (case find_live_user later uid of
         None \<Rightarrow> Inl invalidLink
       | Some now_user \<Rightarrow>
           if u_email now_user \<noteq> u_email user then Inl invalidLink
           else if u_email_verified_at now_user \<noteq> None then Inr LinkDone else Inr (LinkPending now_user))"
proof -
  have user: "u_id user = uid" using assms(2) by (auto dest: find_live_user_Some)
  from assms have "u_email_verified_at user = None" and
    d: "deliver_within_limit d EMAIL_VERIFICATION (u_email user)
         (send_template d (sendEmailVerificationLink (u_email user) (u_first_name user)
            (dl_api_base_url d @ ''/auth/verify-email?token='' @
             dl_encode d (dl_sign d (verification_payload user))))) s = (Inr Sent, s')"
    by (auto simp: deliverEmailVerification_def findByIdOrNull_def split: if_splits)
  moreover from d have "\<exists>m. ms_outbox s' = ms_outbox s @ [m] \<and> ml_to m = u_email user \<and>
       map_of (ml_vars m) ''verifyUrl'' = Some (JStr (dl_api_base_url d @ ''/auth/verify-email?token='' @
         dl_encode d (dl_sign d (verification_payload user))))"
    by (elim deliver_cases)
      (simp_all add: send_template_outcome sendEmailVerificationLink_def)
  ultimately show ?thesis
    by (auto simp: readVerification_def verification_payload_def findByIdOrNull_def user split: option.splits)
qed

section \<open>Alerts\<close>

text \<open>The alert about a changed password reaches a verified address whatever has been sent there before and
  whether or not Redis answers.\<close>

lemma verified_alert_is_never_capped:
  assumes "find_live_user (ms_world s) uid = Some user" and "u_email_verified_at user \<noteq> None"
    and "dl_answer d = Inr ()"
  shows "fst (deliverPasswordChangedNotice d uid at_time s) = Inr Sent \<and>
    ms_outbox (snd (deliverPasswordChangedNotice d uid at_time s)) =
      ms_outbox s @ [sendPasswordChangedNotification (u_email user) (u_first_name user) at_time]"
  using assms by (simp add: deliverPasswordChangedNotice_def findByIdOrNull_def Let_def send_template_def)

text \<open>The alert about a changed address goes to the address the account had before that change.\<close>

lemma email_change_alert_to_previous_address:
  assumes "fst (deliverEmailChangedNotice d uid auditLogId rows s) = Inr Sent"
  shows "\<exists>at_time entry address user. (auditLogId, at_time, entry) \<in> set rows \<and> a_action entry = ''user.email_changed'' \<and>
    a_target_user_id entry = Some uid \<and> json_field ''previousEmail'' (a_metadata entry) = Some (JStr address) \<and>
    find_live_user (ms_world s) uid = Some user \<and>
    ms_outbox (snd (deliverEmailChangedNotice d uid auditLogId rows s)) =
      ms_outbox s @ [sendEmailChangedNotification address (u_first_name user) at_time]"
proof -
  obtain i at_time entry address user where c: "find (email_change_row uid auditLogId) rows = Some (i, at_time, entry)"
    "json_field ''previousEmail'' (a_metadata entry) = Some (JStr address)"
    "find_live_user (ms_world s) uid = Some user" "dl_answer d = Inr ()"
    using assms
    by (cases "dl_answer d")
      (auto simp: deliverEmailChangedNotice_def Let_def findByIdOrNull_def send_template_def
        split: option.splits json.splits dest: find_SomeD)
  have out: "ms_outbox (snd (deliverEmailChangedNotice d uid auditLogId rows s)) =
      ms_outbox s @ [sendEmailChangedNotification address (u_first_name user) at_time]"
    by (simp add: deliverEmailChangedNotice_def Let_def findByIdOrNull_def c send_template_def)
  from find_SomeD [OF c(1)] have "i = auditLogId" by (simp add: email_change_row_def)
  with find_SomeD [OF c(1)] have "(auditLogId, at_time, entry) \<in> set rows" "a_action entry = ''user.email_changed''"
    "a_target_user_id entry = Some uid" by (simp_all add: email_change_row_def)
  with c out show ?thesis by blast
qed

section \<open>The picture\<close>

lemma filter_update_where:
  "(\<And>r. p r \<Longrightarrow> \<not> Q r \<and> \<not> Q (f r)) \<Longrightarrow> filter Q (update_where p f rows) = filter Q rows"
  by (induction rows) auto

lemma find_update_untouched:
  "(\<And>r. P (f r) = P r) \<Longrightarrow> (\<And>r. Q r \<Longrightarrow> \<not> P r) \<Longrightarrow> find P (update_where Q f rows) = find P rows"
  by (induction rows) auto

text \<open>The files that are not among the given ones.\<close>

definition other_files :: "ident set \<Rightarrow> file_world \<Rightarrow> file_row list" where
  "other_files ids fw = filter (\<lambda>r. fa_id r \<notin> ids) (file_assets fw)"

lemma claim_effect:
  assumes "claimForAttachment f actor p now fw = Inr (r, fw')" and "distinct (map fa_id (file_assets fw))"
  shows "\<exists>x \<in> set (file_assets fw). fa_id x = f \<and> fa_uploaded_by x = actor \<and> fa_purpose x = p \<and> fa_status x = READY"
    and "\<forall>x \<in> set (file_assets fw'). fa_id x = f \<longrightarrow> fa_status x = ATTACHED"
    and "other_files {f} fw' = other_files {f} fw"
    and "f \<in> fa_id ` set (file_assets fw')"
proof -
  let ?mine = "\<lambda>r. fa_id r = f \<and> fa_uploaded_by r = actor \<and> fa_purpose r = p \<and>
      fa_status r = READY \<and> (case fa_expires_at r of None \<Rightarrow> False | Some t \<Rightarrow> now < t)"
  let ?attach = "\<lambda>r. (r\<lparr>fa_status := ATTACHED, fa_attached_at := Some now, fa_expires_at := None\<rparr>)
      \<lparr>fa_updated_at := now\<rparr>"
  have "0 < count_where ?mine (file_assets fw)" by (simp add: claim_Inr(1) [OF assms(1)])
  then obtain x where x: "x \<in> set (file_assets fw)" "?mine x" unfolding count_where_pos by blast
  then show "\<exists>x \<in> set (file_assets fw). fa_id x = f \<and> fa_uploaded_by x = actor \<and> fa_purpose x = p \<and> fa_status x = READY"
    by blast
  have rows: "file_assets fw' = update_where ?mine ?attach (file_assets fw)"
    by (simp add: claim_Inr(2) [OF assms(1)] update_files_def)
  have same: "y = x" if "y \<in> set (file_assets fw)" "fa_id y = f" for y
    using distinct_key [OF assms(2) that(1) x(1)] that(2) x(2) by simp
  show "\<forall>x \<in> set (file_assets fw'). fa_id x = f \<longrightarrow> fa_status x = ATTACHED"
  proof
    fix y
    assume "y \<in> set (file_assets fw')"
    then show "fa_id y = f \<longrightarrow> fa_status y = ATTACHED"
      unfolding rows by (elim update_where_elim) (use same x(2) in auto)
  qed
  show "other_files {f} fw' = other_files {f} fw"
    unfolding other_files_def rows by (rule filter_update_where) simp
  have "map fa_id (file_assets fw') = map fa_id (file_assets fw)" unfolding rows by (rule map_update_where) simp
  then show "f \<in> fa_id ` set (file_assets fw')" using x by (metis (mono_tags) image_eqI list.set_map)
qed

lemma markDeleting_effect:
  "\<forall>x \<in> set (file_assets (markDeleting [c] now fw)). fa_id x = c \<longrightarrow> fa_status x = DELETING"
  "other_files {c} (markDeleting [c] now fw) = other_files {c} fw"
proof -
  let ?p = "\<lambda>r. fa_id r = c \<and> fa_status r \<noteq> DELETING"
  let ?f = "\<lambda>r. (r\<lparr>fa_status := DELETING, fa_expires_at := None\<rparr>)\<lparr>fa_updated_at := now\<rparr>"
  have rows: "file_assets (markDeleting [c] now fw) = update_where ?p ?f (file_assets fw)"
    by (simp add: markDeleting_def update_files_def)
  show "\<forall>x \<in> set (file_assets (markDeleting [c] now fw)). fa_id x = c \<longrightarrow> fa_status x = DELETING"
  proof
    fix x
    assume "x \<in> set (file_assets (markDeleting [c] now fw))"
    then show "fa_id x = c \<longrightarrow> fa_status x = DELETING" unfolding rows by (elim update_where_elim) simp_all
  qed
  show "other_files {c} (markDeleting [c] now fw) = other_files {c} fw"
    unfolding other_files_def rows by (rule filter_update_where) simp
qed

lemma other_files_more: "other_files ids fw' = other_files ids fw \<Longrightarrow> ids \<subseteq> ids' \<Longrightarrow> other_files ids' fw' = other_files ids' fw"
proof -
  assume eq: "other_files ids fw' = other_files ids fw" and sub: "ids \<subseteq> ids'"
  have "other_files ids' v = filter (\<lambda>r. fa_id r \<notin> ids') (other_files ids v)" for v
    unfolding other_files_def filter_filter using sub by (intro filter_cong) auto
  with eq show "other_files ids' fw' = other_files ids' fw" by simp
qed

text \<open>The rows of a file that is not among the changed ones.\<close>

lemma other_files_row:
  assumes "other_files ids fw' = other_files ids fw" and "f \<notin> ids"
    and "x \<in> set (file_assets fw')" and "fa_id x = f"
  shows "x \<in> set (file_assets fw)"
proof -
  have "x \<in> set (other_files ids fw')" using assms(2-4) by (simp add: other_files_def)
  then show ?thesis unfolding assms(1) by (simp add: other_files_def)
qed

lemma setProfileImage_Inr:
  assumes "setProfileImage uid fileId actor now w fw = Inr (u, w', fw')"
    and "find_live_user w uid = Some old" and "u_profile_image old \<noteq> map_option to_lower_case fileId"
  obtains fw1 where
    "(case map_option to_lower_case fileId of
        None \<Rightarrow> Inr fw
      | Some f \<Rightarrow> bindE (claimForAttachment f actor PROFILE_IMAGE now fw) (\<lambda>(_, fw'). Inr fw')) = Inr fw1"
    "u_profile_image u = map_option to_lower_case fileId"
    "\<forall>x. x \<noteq> uid \<longrightarrow> find_user w' x = find_user w x"
    "fw' = (if truthy (u_profile_image old) then markDeleting [the (u_profile_image old)] now fw1 else fw1)"
proof -
  let ?f = "\<lambda>u. u\<lparr>u_profile_image := map_option to_lower_case fileId, u_updated_by := Some actor\<rparr>"
  obtain fw1 where c: "(case map_option to_lower_case fileId of
        None \<Rightarrow> Inr fw
      | Some f \<Rightarrow> bindE (claimForAttachment f actor PROFILE_IMAGE now fw) (\<lambda>(_, fw'). Inr fw')) = Inr fw1"
    and v: "user_update uid ?f w = Inr (u, w')"
    and fw': "fw' = (if truthy (u_profile_image old) then markDeleting [the (u_profile_image old)] now fw1 else fw1)"
    using assms by (auto simp: setProfileImage_def Let_def bindE_Inr_iff)
  obtain user where u: "u = ?f user" "users w' = update_where (\<lambda>x. u_id x = uid) ?f (users w)"
    using v by (auto simp: user_update_def split: option.splits if_splits)
  have "\<forall>x. x \<noteq> uid \<longrightarrow> find_user w' x = find_user w x"
    unfolding find_user_def u(2) by (auto intro!: find_update_untouched)
  with c fw' u(1) show thesis by (intro that) simp_all
qed

text \<open>Setting a picture gives the account exactly the requested file, which was the caller's own upload for a
  picture, not attached before and attached now, releases the one it replaces, and touches no other account
  and no other file; asking for the current picture again changes nothing.\<close>

theorem picture_is_swapped:
  assumes "setProfileImage uid fileId actor now w fw = Inr (u, w', fw')"
    and "distinct (map fa_id (file_assets fw))"
    and "find_live_user w uid = Some old" and "u_profile_image old \<noteq> Some []"
  shows "u_profile_image u = map_option to_lower_case fileId \<and>
    (if u_profile_image old = map_option to_lower_case fileId then w' = w \<and> fw' = fw
     else
       (\<forall>f. map_option to_lower_case fileId = Some f \<longrightarrow>
          (\<exists>r \<in> set (file_assets fw). fa_id r = f \<and> fa_uploaded_by r = actor \<and> fa_purpose r = PROFILE_IMAGE \<and>
             fa_status r = READY) \<and>
          (\<forall>r \<in> set (file_assets fw'). fa_id r = f \<longrightarrow> fa_status r = ATTACHED)) \<and>
       (\<forall>r \<in> set (file_assets fw'). u_profile_image old = Some (fa_id r) \<longrightarrow> fa_status r = DELETING) \<and>
       (\<forall>x. x \<noteq> uid \<longrightarrow> find_user w' x = find_user w x) \<and>
       other_files (set_option (u_profile_image old) \<union> set_option (map_option to_lower_case fileId)) fw' =
         other_files (set_option (u_profile_image old) \<union> set_option (map_option to_lower_case fileId)) fw)"
proof (cases "u_profile_image old = map_option to_lower_case fileId")
  case True
  with assms(1,3) show ?thesis by (auto simp: setProfileImage_def Let_def)
next
  case False
  let ?req = "map_option to_lower_case fileId" and ?old = "u_profile_image old"
  obtain fw1 where c: "(case ?req of
        None \<Rightarrow> Inr fw
      | Some f \<Rightarrow> bindE (claimForAttachment f actor PROFILE_IMAGE now fw) (\<lambda>(_, fw'). Inr fw')) = Inr fw1"
    and u: "u_profile_image u = ?req" "\<forall>x. x \<noteq> uid \<longrightarrow> find_user w' x = find_user w x"
    and fw': "fw' = (if truthy ?old then markDeleting [the ?old] now fw1 else fw1)"
    by (rule setProfileImage_Inr [OF assms(1,3) False])
  have claimed: "(\<exists>r \<in> set (file_assets fw). fa_id r = f \<and> fa_uploaded_by r = actor \<and> fa_purpose r = PROFILE_IMAGE \<and>
        fa_status r = READY) \<and> (\<forall>r \<in> set (file_assets fw1). fa_id r = f \<longrightarrow> fa_status r = ATTACHED)"
    if "?req = Some f" for f
    using c claim_effect(1,2) [OF _ assms(2)] unfolding that by (fastforce simp: bindE_Inr_iff)
  have one: "other_files (set_option ?req) fw1 = other_files (set_option ?req) fw"
    using c claim_effect(3) [OF _ assms(2)] by (cases ?req) (auto simp: bindE_Inr_iff)
  have two: "other_files (set_option ?old) fw' = other_files (set_option ?old) fw1"
    using assms(4) by (cases ?old) (simp_all add: fw' truthy_def markDeleting_effect(2))
  have three: "\<forall>r \<in> set (file_assets fw'). ?old = Some (fa_id r) \<longrightarrow> fa_status r = DELETING"
    using assms(4) markDeleting_effect(1) [of _ now fw1] by (cases ?old) (auto simp: fw' truthy_def)
  have four: "\<forall>r \<in> set (file_assets fw'). fa_id r = f \<longrightarrow> fa_status r = ATTACHED" if f: "?req = Some f" for f
  proof (intro ballI impI)
    fix r
    assume r: "r \<in> set (file_assets fw')" "fa_id r = f"
    have "f \<notin> set_option ?old" using False f by auto
    from other_files_row [OF two this r] show "fa_status r = ATTACHED" using claimed [OF f] r(2) by blast
  qed
  have five: "other_files (set_option ?old \<union> set_option ?req) fw' = other_files (set_option ?old \<union> set_option ?req) fw"
    using other_files_more [OF two, of "set_option ?old \<union> set_option ?req"]
      other_files_more [OF one, of "set_option ?old \<union> set_option ?req"] by simp
  show ?thesis
    unfolding if_not_P [OF False] using u three four five claimed by blast
qed

text \<open>After an erasure neither the picture nor an upload that was never attached is left in use.\<close>

lemma erasure_releases_files:
  assumes "releaseErasedFiles uid now w fw = Inr fw'" and "find_user w uid = Some user"
    and "u_profile_image user \<noteq> Some []" and "r \<in> set (file_assets fw')"
    and "u_profile_image user = Some (fa_id r) \<or> fa_uploaded_by r = uid \<and> fa_status r \<noteq> ATTACHED"
  shows "fa_status r = DELETING"
proof -
  let ?p = "\<lambda>r. fa_uploaded_by r = uid \<and> unattached r"
  let ?f = "\<lambda>r. (r\<lparr>fa_status := DELETING, fa_expires_at := None\<rparr>)\<lparr>fa_updated_at := now\<rparr>"
  define fw1 where "fw1 = (if truthy (u_profile_image user) then markDeleting [the (u_profile_image user)] now fw else fw)"
  have rows: "file_assets fw' = update_where ?p ?f (file_assets fw1)"
    using assms(1,2) by (auto simp: releaseErasedFiles_def markUnattachedDeleting_def update_files_def fw1_def)
  have picture: "fa_status x = DELETING" if "x \<in> set (file_assets fw1)" "u_profile_image user = Some (fa_id x)" for x
    using that assms(3) markDeleting_effect(1) [of "fa_id x" now fw] by (auto simp: fw1_def truthy_def)
  have "u_profile_image user = Some (fa_id r) \<or> fa_uploaded_by r = uid \<and> fa_status r \<noteq> ATTACHED \<longrightarrow> fa_status r = DELETING"
    using assms(4) unfolding rows
  proof (rule update_where_elim)
    fix x
    assume x: "x \<in> set (file_assets fw1)" "\<not> ?p x"
    show "u_profile_image user = Some (fa_id x) \<or> fa_uploaded_by x = uid \<and> fa_status x \<noteq> ATTACHED \<longrightarrow> fa_status x = DELETING"
      using picture [OF x(1)] x(2) by (cases "fa_status x") (auto simp: unattached_def)
  qed simp
  with assms(5) show ?thesis by blast
qed

text \<open>A response links only to files that are attached.\<close>

lemma pictures_are_attached:
  assumes "findAttachedResponses readable sign ids fw f = Some response"
  shows "\<exists>r \<in> set (file_assets fw). fa_id r = f \<and> f \<in> set ids \<and> fa_status r = ATTACHED \<and>
    sign (fa_storage_key r) = Some (af_url response, af_url_expires_at response)"
proof -
  obtain r url expires where "r \<in> set (file_assets fw)" "fa_id r = f" "f \<in> set ids" "fa_status r = ATTACHED"
    "sign (fa_storage_key r) = Some (url, expires)" "af_url response = url" "af_url_expires_at response = expires"
    using assms
    by (auto simp: findAttachedResponses_def map_filter_def split: if_splits option.splits dest!: map_of_SomeD)
  then show ?thesis by auto
qed

end
