(* ===== verification/Row_Locks.thy ===== *)
theory Row_Locks
  imports Service_Prelude "HOL-Library.Char_ord" "HOL-Library.List_Lexorder" "HOL-Library.Product_Lexorder"
begin

text \<open>
  The row locks of \<open>src/src/common/util/row-lock.util.ts\<close>, the order its header prescribes (accounts, workspaces,
  refresh tokens, each ascending by id), and two transactions that leave it: the addition of a member and the
  creation of an invitation.

  A running transaction is what it holds and what it will still ask for.  All refresh tokens of one user are one
  lock: a family belongs to one user, and whoever locks a family holds the user's row.  An insert with a foreign
  key also takes a \<open>FOR KEY SHARE\<close> lock on the row it refers to, which waits for a \<open>FOR UPDATE\<close> lock of
  somebody else and for nothing weaker (documented behaviour of PostgreSQL).
\<close>

section \<open>Rows and their order\<close>

datatype lock_row = UserRow ident | WorkspaceRow ident | TokenRows ident

fun row_rank :: "lock_row \<Rightarrow> nat \<times> ident" where
  "row_rank (UserRow i) = (0, i)"
| "row_rank (WorkspaceRow i) = (1, i)"
| "row_rank (TokenRows i) = (2, i)"

lemma row_rank_inject: "row_rank a = row_rank b \<longleftrightarrow> a = b"
  by (cases a; cases b) auto

instantiation lock_row :: linorder
begin

definition less_eq_lock_row :: "lock_row \<Rightarrow> lock_row \<Rightarrow> bool" where
  "less_eq_lock_row a b \<longleftrightarrow> row_rank a \<le> row_rank b"

definition less_lock_row :: "lock_row \<Rightarrow> lock_row \<Rightarrow> bool" where
  "less_lock_row a b \<longleftrightarrow> row_rank a < row_rank b"

instance
proof
  fix x y z :: lock_row
  show "x < y \<longleftrightarrow> x \<le> y \<and> \<not> y \<le> x"
    unfolding less_eq_lock_row_def less_lock_row_def by (rule less_le_not_le)
  show "x \<le> x" unfolding less_eq_lock_row_def by (rule order_refl)
  show "x \<le> y \<Longrightarrow> y \<le> z \<Longrightarrow> x \<le> z" unfolding less_eq_lock_row_def by (rule order_trans)
  show "x \<le> y \<Longrightarrow> y \<le> x \<Longrightarrow> x = y"
    unfolding less_eq_lock_row_def row_rank_inject [symmetric] by (rule order_antisym)
  show "x \<le> y \<or> y \<le> x" unfolding less_eq_lock_row_def by (rule linear)
qed

end

datatype lock_mode = ForUpdate | ForKeyShare

type_synonym lock_request = "lock_row \<times> lock_mode"

section \<open>The primitives\<close>

definition sortedUnique :: "ident list \<Rightarrow> ident list" where
  "sortedUnique ids = sort (remdups ids)"

definition lockUserRow :: "ident \<Rightarrow> lock_request list" where
  "lockUserRow userId = [(UserRow userId, ForUpdate)]"

definition lockUserRows :: "ident list \<Rightarrow> lock_request list" where
  "lockUserRows userIds = concat (map lockUserRow (sortedUnique userIds))"

definition lockWorkspaceRow :: "ident \<Rightarrow> lock_request list" where
  "lockWorkspaceRow workspaceId = [(WorkspaceRow workspaceId, ForUpdate)]"

definition lockWorkspaceRows :: "ident list \<Rightarrow> lock_request list" where
  "lockWorkspaceRows workspaceIds = concat (map lockWorkspaceRow (sortedUnique workspaceIds))"

text \<open>The family's owner stands for its rows.\<close>

definition lockRefreshTokenFamily :: "ident \<Rightarrow> lock_request list" where
  "lockRefreshTokenFamily ownerId = [(TokenRows ownerId, ForUpdate)]"

text \<open>
  The locks of a transaction that keeps the prescribed order: accounts, the owner of the session family among them
  when it locks one, then workspaces, then the family.
\<close>

record lock_call =
  lc_users :: "ident list"
  lc_workspaces :: "ident list"
  lc_family_owner :: "ident option"

definition prescribed_locks :: "lock_call \<Rightarrow> lock_request list" where
  "prescribed_locks lc =
     lockUserRows (lc_users lc @ (case lc_family_owner lc of None \<Rightarrow> [] | Some u \<Rightarrow> [u])) @
     lockWorkspaceRows (lc_workspaces lc) @
     (case lc_family_owner lc of None \<Rightarrow> [] | Some u \<Rightarrow> lockRefreshTokenFamily u)"

section \<open>Running transactions\<close>

record running =
  rn_held :: "lock_request list"
  rn_todo :: "lock_request list"

definition conflicts :: "lock_request \<Rightarrow> lock_request \<Rightarrow> bool" where
  "conflicts p q \<longleftrightarrow> fst p = fst q \<and> (snd p = ForUpdate \<or> snd q = ForUpdate)"

definition grantable :: "running list \<Rightarrow> nat \<Rightarrow> lock_request \<Rightarrow> bool" where
  "grantable ts i q \<longleftrightarrow> (\<forall>j < length ts. j \<noteq> i \<longrightarrow> (\<forall>p \<in> set (rn_held (ts ! j)). \<not> conflicts q p))"

text \<open>A transaction takes its next lock when nobody else holds a conflicting one, ends when it has all (its locks
  are released), or throws and rolls back between two requests.\<close>

inductive lock_step :: "running list \<Rightarrow> running list \<Rightarrow> bool" where
  take_lock: "i < length ts \<Longrightarrow> rn_todo (ts ! i) = q # qs \<Longrightarrow> grantable ts i q \<Longrightarrow>
    lock_step ts (ts[i := \<lparr>rn_held = q # rn_held (ts ! i), rn_todo = qs\<rparr>])"
| commit: "i < length ts \<Longrightarrow> rn_todo (ts ! i) = [] \<Longrightarrow> rn_held (ts ! i) \<noteq> [] \<Longrightarrow>
    lock_step ts (ts[i := \<lparr>rn_held = [], rn_todo = []\<rparr>])"
| roll_back: "i < length ts \<Longrightarrow> lock_step ts (ts[i := \<lparr>rn_held = [], rn_todo = []\<rparr>])"

text \<open>Deadlock: somebody is waiting, everybody who is not waiting has ended, and nobody's wait can end.\<close>

definition deadlocked :: "running list \<Rightarrow> bool" where
  "deadlocked ts \<longleftrightarrow>
     (\<exists>i < length ts. rn_todo (ts ! i) \<noteq> []) \<and>
     (\<forall>i < length ts. (rn_todo (ts ! i) = [] \<and> rn_held (ts ! i) = []) \<or>
        (\<exists>q qs. rn_todo (ts ! i) = q # qs \<and> \<not> grantable ts i q))"

definition starting :: "lock_request list list \<Rightarrow> running list" where
  "starting plans = map (\<lambda>p. \<lparr>rn_held = [], rn_todo = p\<rparr>) plans"

section \<open>Ascending requests never deadlock\<close>

definition ascending :: "lock_request list \<Rightarrow> bool" where
  "ascending plan \<longleftrightarrow> sorted_wrt (<) (map fst plan)"

definition running_ok :: "running \<Rightarrow> bool" where
  "running_ok t \<longleftrightarrow> ascending (rn_todo t) \<and>
     (\<forall>p \<in> set (rn_held t). \<forall>q \<in> set (rn_todo t). fst p < fst q)"

definition locks_inv :: "running list \<Rightarrow> bool" where
  "locks_inv ts \<longleftrightarrow> (\<forall>t \<in> set ts. running_ok t)"

definition locks_init :: "running list \<Rightarrow> bool" where
  "locks_init ts \<longleftrightarrow> (\<exists>calls. ts = starting (map prescribed_locks calls))"

lemma sorted_unique_ascending: "sorted_wrt (<) (sortedUnique ids)"
  by (simp add: sortedUnique_def strict_sorted_iff)

lemma rows_ascending: "ascending (lockWorkspaceRows ids)" "ascending (lockUserRows ids)"
proof -
  have "map fst (concat (map lockWorkspaceRow xs)) = map WorkspaceRow xs"
    "map fst (concat (map lockUserRow xs)) = map UserRow xs" for xs
    by (induction xs) (simp_all add: lockWorkspaceRow_def lockUserRow_def)
  then have "map fst (lockWorkspaceRows ids) = map WorkspaceRow (sortedUnique ids)"
    "map fst (lockUserRows ids) = map UserRow (sortedUnique ids)"
    unfolding lockWorkspaceRows_def lockUserRows_def .
  moreover have "sorted_wrt (<) (map WorkspaceRow (sortedUnique ids))" "sorted_wrt (<) (map UserRow (sortedUnique ids))"
    unfolding sorted_wrt_map
    by (rule sorted_wrt_mono_rel [OF _ sorted_unique_ascending], simp add: less_lock_row_def)+
  ultimately show "ascending (lockWorkspaceRows ids)" "ascending (lockUserRows ids)" by (simp_all add: ascending_def)
qed

lemma rows_of_kind:
  "p \<in> set (lockWorkspaceRows ids) \<Longrightarrow> \<exists>i. fst p = WorkspaceRow i"
  "p \<in> set (lockUserRows ids) \<Longrightarrow> \<exists>i. fst p = UserRow i"
  by (auto simp: lockWorkspaceRows_def lockWorkspaceRow_def lockUserRows_def lockUserRow_def)

lemma row_order [simp]:
  "UserRow a < WorkspaceRow b" "UserRow a < TokenRows b" "WorkspaceRow a < TokenRows b"
  by (simp_all add: less_lock_row_def)

lemma ascending_append:
  "ascending (p @ q) \<longleftrightarrow> ascending p \<and> ascending q \<and> (\<forall>a \<in> set p. \<forall>b \<in> set q. fst a < fst b)"
  by (auto simp: ascending_def sorted_wrt_append)

lemma ascending_single [simp]: "ascending []" "ascending [q]"
  by (simp_all add: ascending_def)

lemma prescribed_ascending: "ascending (prescribed_locks lc)"
  unfolding prescribed_locks_def ascending_append
  by (auto simp: rows_ascending lockRefreshTokenFamily_def split: option.split dest!: rows_of_kind)

lemma taken_ok:
  assumes "running_ok t" and "rn_todo t = q # qs"
  shows "running_ok \<lparr>rn_held = q # rn_held t, rn_todo = qs\<rparr>"
  using assms by (auto simp: running_ok_def ascending_def)

interpretation locks: machine locks_init lock_step locks_inv
proof
  show "locks_init ts \<Longrightarrow> locks_inv ts" for ts
    by (auto simp: locks_init_def locks_inv_def starting_def running_ok_def prescribed_ascending)
  show "locks_inv ts \<Longrightarrow> lock_step ts ts' \<Longrightarrow> locks_inv ts'" for ts ts'
  proof (erule lock_step.cases, goal_cases)
    case (1 i ts q qs)
    then have "running_ok \<lparr>rn_held = q # rn_held (ts ! i), rn_todo = qs\<rparr>"
      by (intro taken_ok) (auto simp: locks_inv_def)
    with 1 show ?case by (auto simp: locks_inv_def dest!: set_update_subset_insert [THEN subsetD])
  qed (auto simp: locks_inv_def running_ok_def dest!: set_update_subset_insert [THEN subsetD])
qed

text \<open>Of the waiting transactions, the one whose next row is greatest waits for nobody who waits.\<close>

lemma inv_not_deadlocked:
  assumes "locks_inv ts"
  shows "\<not> deadlocked ts"
proof
  assume dead: "deadlocked ts"
  let ?waiting = "{i. i < length ts \<and> rn_todo (ts ! i) \<noteq> []}"
  let ?next = "\<lambda>i. fst (hd (rn_todo (ts ! i)))"
  have "finite ?waiting" "?waiting \<noteq> {}" using dead by (auto simp: deadlocked_def)
  then have "Max (?next ` ?waiting) \<in> ?next ` ?waiting" by (intro Max_in) simp_all
  then obtain i where i: "i \<in> ?waiting" and top: "Max (?next ` ?waiting) = ?next i" by blast
  have greatest: "\<not> ?next i < ?next j" if "j \<in> ?waiting" for j
  proof -
    have "?next j \<le> Max (?next ` ?waiting)"
      using \<open>finite ?waiting\<close> that by (intro Max_ge finite_imageI imageI)
    then show ?thesis unfolding top not_less .
  qed
  have all: "\<forall>i < length ts. (rn_todo (ts ! i) = [] \<and> rn_held (ts ! i) = []) \<or>
        (\<exists>q qs. rn_todo (ts ! i) = q # qs \<and> \<not> grantable ts i q)"
    using dead unfolding deadlocked_def by (rule conjunct2)
  with i obtain q qs where q: "rn_todo (ts ! i) = q # qs" "\<not> grantable ts i q" by blast
  then obtain j p where j: "j < length ts" "j \<noteq> i" "p \<in> set (rn_held (ts ! j))" "fst p = fst q"
    by (auto simp: grantable_def conflicts_def)
  have "rn_todo (ts ! j) \<noteq> []"
    using all [rule_format, OF j(1)] j(3) by auto
  moreover have "running_ok (ts ! j)" using assms j(1) by (simp add: locks_inv_def)
  ultimately have "fst q < ?next j"
    using j(3,4) by (auto simp: running_ok_def)
  then show False
    using greatest [of j] j(1) \<open>rn_todo (ts ! j) \<noteq> []\<close> q(1) by simp
qed


section \<open>The locks of foreign keys\<close>

text \<open>
  The inserts of two transactions ask for locks the order does not know: a new membership refers to who invited
  it (\<open>invited_by\<close>), an invitation to the account it invites (\<open>invited_user_id\<close>).  Both lists are the locks on accounts
  and workspaces, the first time each is asked for; nobody else waits for the rows the transactions write
  themselves, and nothing locks a role against the references to it.
\<close>

definition foreign_key :: "ident option \<Rightarrow> lock_request list" where
  "foreign_key user = (case user of None \<Rightarrow> [] | Some u \<Rightarrow> [(UserRow u, ForKeyShare)])"

definition add_member_locks :: "ident \<Rightarrow> ident \<Rightarrow> ident \<Rightarrow> lock_request list" where
  "add_member_locks targetUserId workspaceId actorId =
     lockUserRow targetUserId @ lockWorkspaceRow workspaceId @
     (if actorId = targetUserId then [] else foreign_key (Some actorId))"

definition create_invitation_locks :: "ident \<Rightarrow> ident option \<Rightarrow> lock_request list" where
  "create_invitation_locks workspaceId existingUserId =
     lockWorkspaceRow workspaceId @ foreign_key existingUserId"

text \<open>Inviting a person to a workspace while they are being added to it: the invitation holds the workspace and
  waits for the account, the addition holds the account and waits for the workspace.\<close>

theorem invitation_deadlocks_with_addition:
  assumes "actorId \<noteq> u"
  shows "\<exists>ts. lock_step\<^sup>*\<^sup>* (starting [create_invitation_locks w (Some u), add_member_locks u w actorId]) ts \<and>
    deadlocked ts"
proof (intro exI conjI)
  let ?w = "(WorkspaceRow w, ForUpdate)" and ?u = "(UserRow u, ForUpdate)" and ?k = "(UserRow u, ForKeyShare)"
    and ?a = "(UserRow actorId, ForKeyShare)"
  let ?t0 = "[\<lparr>rn_held = [], rn_todo = [?w, ?k]\<rparr>, \<lparr>rn_held = [], rn_todo = [?u, ?w, ?a]\<rparr>]"
  let ?t1 = "[\<lparr>rn_held = [?w], rn_todo = [?k]\<rparr>, \<lparr>rn_held = [], rn_todo = [?u, ?w, ?a]\<rparr>]"
  let ?t2 = "[\<lparr>rn_held = [?w], rn_todo = [?k]\<rparr>, \<lparr>rn_held = [?u], rn_todo = [?w, ?a]\<rparr>]"
  have start: "starting [create_invitation_locks w (Some u), add_member_locks u w actorId] = ?t0"
    using assms by (simp add: starting_def create_invitation_locks_def add_member_locks_def lockUserRow_def
        lockWorkspaceRow_def foreign_key_def)
  have s1: "lock_step ?t0 ?t1"
    using take_lock [of 0 ?t0 ?w "[?k]"] by (simp add: grantable_def less_Suc_eq)
  have s2: "lock_step ?t1 ?t2"
    using take_lock [of 1 ?t1 ?u "[?w, ?a]"] by (simp add: grantable_def less_Suc_eq conflicts_def)
  show "lock_step\<^sup>*\<^sup>* (starting [create_invitation_locks w (Some u), add_member_locks u w actorId]) ?t2"
    unfolding start by (rule converse_rtranclp_into_rtranclp, rule s1, rule r_into_rtranclp, rule s2)
  have g0: "\<not> grantable ?t2 0 ?k"
  proof
    assume "grantable ?t2 0 ?k"
    then have "\<not> conflicts ?k ?u" unfolding grantable_def by (elim allE [of _ 1]) simp
    then show False by (simp add: conflicts_def)
  qed
  have g1: "\<not> grantable ?t2 1 ?w"
  proof
    assume "grantable ?t2 1 ?w"
    then have "\<not> conflicts ?w ?w" unfolding grantable_def by (elim allE [of _ 0]) simp
    then show False by (simp add: conflicts_def)
  qed
  show "deadlocked ?t2"
    unfolding deadlocked_def
  proof (intro conjI allI impI)
    show "\<exists>i < length ?t2. rn_todo (?t2 ! i) \<noteq> []" by (rule exI [of _ 0]) simp
  next
    fix i
    assume "i < length ?t2"
    then consider "i = 0" | "i = 1" by (auto simp: less_Suc_eq)
    then show "rn_todo (?t2 ! i) = [] \<and> rn_held (?t2 ! i) = [] \<or>
      (\<exists>q qs. rn_todo (?t2 ! i) = q # qs \<and> \<not> grantable ?t2 i q)"
    proof cases
      case 1
      have "rn_todo (?t2 ! i) = [?k]" unfolding 1 by simp
      moreover have "\<not> grantable ?t2 i ?k" unfolding 1 by (rule g0)
      ultimately show ?thesis by blast
    next
      case 2
      have "rn_todo (?t2 ! i) = [?w, ?a]" unfolding 2 by simp
      moreover have "\<not> grantable ?t2 i ?w" unfolding 2 by (rule g1)
      ultimately show ?thesis by blast
    qed
  qed
qed

end
