(* ===== verification/Request_Pipeline.thy ===== *)
theory Request_Pipeline
  imports Access Ability_Properties OAuth_Interactions Turnstile
begin

text \<open>
  What a request passes before its handler runs: the decorators of \<open>src/src/common/decorators\<close>, the three global
  guards in the order of \<open>src/src/app.module.ts\<close> (\<open>user-aware-throttler.guard.ts\<close>, \<open>jwt-auth.guard.ts\<close>,
  \<open>permissions.guard.ts\<close>), then the guards a class and its handler add with \<open>@UseGuards\<close>
  (\<open>turnstile.guard.ts\<close>, \<open>mcp-oauth.guard.ts\<close>), and the boot check of \<open>src/src/modules/authorization/route-authorization-audit.service.ts\<close>.

  The framework is a record of functions: how passport reads the bearer token, what the JWT library verifies
  (signature, issuer, audience, algorithm and expiry; every token this service signs carries \<open>sub\<close>), the stock
  tracker of the throttler, and the exceptions it throws itself.
\<close>

section \<open>Decorators\<close>

text \<open>A budget: limit and period in milliseconds, and whether it is kept per sign-in name and address.\<close>

record throttle =
  th_limit :: nat
  th_ttl :: int
  th_password_form :: bool

text \<open>The guards a route adds to the global ones.\<close>

datatype route_guard = TurnstileGuard | McpOAuthGuard

record decorators =
  de_public :: "bool option"
  de_authenticated_only :: "bool option"
  de_required :: "required_permission option"
  de_use_guards :: "route_guard list"
  de_throttle :: "throttle option"
  de_skip_throttle :: "bool option"

definition undecorated :: decorators where
  "undecorated = \<lparr>de_public = None, de_authenticated_only = None, de_required = None, de_use_guards = [],
     de_throttle = None, de_skip_throttle = None\<rparr>"

definition Public :: "decorators \<Rightarrow> decorators" where
  "Public d = d\<lparr>de_public := Some True\<rparr>"

definition AuthenticatedOnly :: "decorators \<Rightarrow> decorators" where
  "AuthenticatedOnly d = d\<lparr>de_authenticated_only := Some True\<rparr>"

record permission_options =
  po_is_administrative :: "bool option"
  po_is_denied_as_not_found :: "bool option"

definition no_options :: permission_options where
  "no_options = \<lparr>po_is_administrative = None, po_is_denied_as_not_found = None\<rparr>"

definition administrative :: permission_options where
  "administrative = no_options\<lparr>po_is_administrative := Some True\<rparr>"

definition denied_as_not_found :: permission_options where
  "denied_as_not_found = no_options\<lparr>po_is_denied_as_not_found := Some True\<rparr>"

definition RequirePermission ::
  "action \<Rightarrow> subject \<Rightarrow> permission_options \<Rightarrow> decorators \<Rightarrow> decorators" where
  "RequirePermission a s options d =
     d\<lparr>de_required := Some \<lparr>rp_action = a, rp_subject = s,
         rp_is_administrative = (case po_is_administrative options of None \<Rightarrow> False | Some b \<Rightarrow> b),
         rp_is_denied_as_not_found = (case po_is_denied_as_not_found options of None \<Rightarrow> False | Some b \<Rightarrow> b)\<rparr>\<rparr>"

definition UseGuards :: "route_guard list \<Rightarrow> decorators \<Rightarrow> decorators" where
  "UseGuards guards d = d\<lparr>de_use_guards := de_use_guards d @ guards\<rparr>"

definition RequireTurnstile :: "decorators \<Rightarrow> decorators" where
  "RequireTurnstile d = UseGuards [TurnstileGuard] d"

definition Throttle :: "nat \<Rightarrow> int \<Rightarrow> decorators \<Rightarrow> decorators" where
  "Throttle limit ttl d = d\<lparr>de_throttle := Some \<lparr>th_limit = limit, th_ttl = ttl, th_password_form = False\<rparr>\<rparr>"

definition ThrottlePasswordForm :: "nat \<Rightarrow> int \<Rightarrow> decorators \<Rightarrow> decorators" where
  "ThrottlePasswordForm limit ttl d =
     d\<lparr>de_throttle := Some \<lparr>th_limit = limit, th_ttl = ttl, th_password_form = True\<rparr>\<rparr>"

definition SkipThrottle :: "decorators \<Rightarrow> decorators" where
  "SkipThrottle d = d\<lparr>de_skip_throttle := Some True\<rparr>"

record handler =
  ha_name :: string
  ha_method :: string
  ha_paths :: "string list"
  ha_decorators :: decorators

record controller =
  ct_name :: string
  ct_path :: string
  ct_decorators :: decorators
  ct_handlers :: "handler list"

text \<open>\<open>Reflector.getAllAndOverride\<close> over the handler and its class.\<close>

definition getAllAndOverride :: "(decorators \<Rightarrow> 'a option) \<Rightarrow> controller \<Rightarrow> handler \<Rightarrow> 'a option" where
  "getAllAndOverride key c h =
     (case key (ha_decorators h) of Some x \<Rightarrow> Some x | None \<Rightarrow> key (ct_decorators c))"

definition decl_of :: "controller \<Rightarrow> handler \<Rightarrow> handler_decl" where
  "decl_of c h =
     \<lparr>hd_public = (getAllAndOverride de_public c h = Some True),
      hd_authenticated_only = (getAllAndOverride de_authenticated_only c h = Some True),
      hd_required = getAllAndOverride de_required c h\<rparr>"

definition isPublicRoute :: "controller \<Rightarrow> handler \<Rightarrow> bool" where
  "isPublicRoute c h \<longleftrightarrow> getAllAndOverride de_public c h = Some True"

section \<open>The boot check\<close>

definition hasAuthorizationDecision :: "decorators \<Rightarrow> bool" where
  "hasAuthorizationDecision d \<longleftrightarrow>
     de_public d = Some True \<or> de_authenticated_only d = Some True \<or> de_required d \<noteq> None"

definition findUndecidedHandlers :: "controller list \<Rightarrow> string list" where
  "findUndecidedHandlers controllers =
     concat (map (\<lambda>c. if hasAuthorizationDecision (ct_decorators c) then []
        else map (\<lambda>h. ct_name c @ ''#'' @ ha_name h)
          (filter (\<lambda>h. \<not> hasAuthorizationDecision (ha_decorators h)) (ct_handlers c))) controllers)"

definition auditRoutes :: "controller list \<Rightarrow> exn + unit" where
  "auditRoutes controllers =
     (let undecidedHandlers = findUndecidedHandlers controllers;
          newline = [CHR 0x0A]
      in if undecidedHandlers \<noteq> []
         then Inl (JsError (decimal (length undecidedHandlers) @
           '' route handler(s) declare no authorization decision:'' @ newline @
           join_with newline (map (\<lambda>handler. ''  - '' @ handler) undecidedHandlers) @ newline @ newline @
           ''Every handler must carry exactly one of @Public(), @AuthenticatedOnly(), '' @
           ''or @RequirePermission(action, subject). The application will not start.''))
         else Inr ())"

section \<open>The guards\<close>

record request =
  rq_ip :: string
  rq_authorization :: "string option"
  rq_body :: "payload option"
  rq_param_workspace_id :: "string option"
  rq_body_workspace_id :: "string option"
  rq_bot_check :: bot_check_request

text \<open>\<open>fw_verify\<close> answers the claims of a token and its \<open>act\<close> claim, or nothing for a token it refuses.\<close>

record framework =
  fw_bearer :: "string \<Rightarrow> string option"
  fw_verify :: "string \<Rightarrow> (jwt_payload \<times> string option) option"
  fw_stock_tracker :: "string \<Rightarrow> string"
  fw_unauthorized :: exn
  fw_too_many :: exn
  fw_forbidden :: exn

text \<open>The token is read with the expression of the MCP guard (\<open>bearer_token\<close>).\<close>

definition resolveAuthenticatedUserId :: "framework \<Rightarrow> request \<Rightarrow> string option" where
  "resolveAuthenticatedUserId fw rq =
     (case bearer_token (case rq_authorization rq of None \<Rightarrow> [] | Some header \<Rightarrow> header) of
        None \<Rightarrow> None
      | Some token \<Rightarrow>
          (case fw_verify fw token of
             None \<Rightarrow> None
           | Some (payload, act) \<Rightarrow>
               (if \<not> isAccessTokenPayload payload then None
                else (case act of Some a \<Rightarrow> Some a | None \<Rightarrow> Some (jp_sub payload)))))"

definition getTracker :: "framework \<Rightarrow> controller \<Rightarrow> handler \<Rightarrow> request \<Rightarrow> string" where
  "getTracker fw c h rq =
     (let userId = (if \<not> isPublicRoute c h then resolveAuthenticatedUserId fw rq else None)
      in if truthy userId then ''user:'' @ the userId else ''ip:'' @ fw_stock_tracker fw (rq_ip rq))"

text \<open>The bucket a request is counted in; none when the route skips the throttle.\<close>

definition bucket :: "framework \<Rightarrow> controller \<Rightarrow> handler \<Rightarrow> request \<Rightarrow> string option" where
  "bucket fw c h rq =
     (if getAllAndOverride de_skip_throttle c h = Some True then None
      else Some (case getAllAndOverride de_throttle c h of
          Some t \<Rightarrow> if th_password_form t then loginThrottleTracker (rq_body rq) (Some (rq_ip rq))
                    else getTracker fw c h rq
        | None \<Rightarrow> getTracker fw c h rq))"

definition jwtAuthGuard ::
  "framework \<Rightarrow> controller \<Rightarrow> handler \<Rightarrow> request \<Rightarrow> time \<Rightarrow> world \<Rightarrow> exn + authenticated_user option" where
  "jwtAuthGuard fw c h rq now w =
     (if isPublicRoute c h then Inr None
      else (case Option.bind (Option.bind (rq_authorization rq) (fw_bearer fw)) (fw_verify fw) of
              None \<Rightarrow> Inl (fw_unauthorized fw)
            | Some (payload, _) \<Rightarrow> bindE (validate payload now w) (\<lambda>user. Inr (Some user))))"

text \<open>The global guards in their order.  \<open>in_budget\<close>: whether a bucket is within its budget.\<close>

definition pass_global_guards ::
  "framework \<Rightarrow> casl \<Rightarrow> (ident \<Rightarrow> authorization_grants) \<Rightarrow> (string \<Rightarrow> bool) \<Rightarrow> controller \<Rightarrow> handler \<Rightarrow> request
   \<Rightarrow> time \<Rightarrow> world \<Rightarrow> exn + authenticated_user option" where
  "pass_global_guards fw casl loadGrants in_budget c h rq now w =
     (if (case bucket fw c h rq of None \<Rightarrow> False | Some b \<Rightarrow> \<not> in_budget b) then Inl (fw_too_many fw)
      else bindE (jwtAuthGuard fw c h rq now w) (\<lambda>user.
           bindE (canActivate casl loadGrants (decl_of c h)
                    \<lparr>gr_user = map_option au_id user, gr_param_workspace_id = rq_param_workspace_id rq,
                     gr_body_workspace_id = rq_body_workspace_id rq\<rparr>) (\<lambda>(allowed, _).
           if allowed then Inr user else Inl (fw_forbidden fw))))"

text \<open>
  What the route guards are built with: the Turnstile secrets and Cloudflare's reply, which comes at
  \<open>ge_later\<close>, and the settings, library and rows of the MCP authorization server.  The \<open>Origin\<close> header is the
  one the bot check reads.
\<close>

record guard_env =
  ge_keys :: secret_keys
  ge_reply :: reply
  ge_later :: time
  ge_mcp :: mcp_oauth_settings
  ge_oidc :: oidc_library
  ge_metadata_url :: string
  ge_rows :: "oauth_row list"

text \<open>
  The route guards run one after the other until one refuses; the bot check keeps its breaker and may write an
  audit row.  What a guard hangs on the request or the response is the answer of its own definition.
\<close>

fun pass_route_guards ::
  "guard_env \<Rightarrow> request \<Rightarrow> time \<Rightarrow> route_guard list \<Rightarrow> breaker \<Rightarrow> world \<Rightarrow> (exn + unit) \<times> breaker \<times> world" where
  "pass_route_guards env rq now [] b w = (Inr (), b, w)"
| "pass_route_guards env rq now (TurnstileGuard # guards) b w =
     (case canActivate_turnstile (ge_keys env) (rq_bot_check rq) (ge_reply env) now (ge_later env) b w of
        (Inl e, b', w') \<Rightarrow> (Inl e, b', w')
      | (Inr _, b', w') \<Rightarrow> pass_route_guards env rq now guards b' w')"
| "pass_route_guards env rq now (McpOAuthGuard # guards) b w =
     (case fst (canActivate_mcp (ge_mcp env) (ge_oidc env) (ge_metadata_url env) (bq_origin (rq_bot_check rq))
                  (rq_authorization rq) now (ge_rows env) w) of
        Inl e \<Rightarrow> (Inl e, b, w)
      | Inr _ \<Rightarrow> pass_route_guards env rq now guards b w)"

text \<open>Global guards first, then those of the class, then those of the handler.\<close>

definition route_guards :: "controller \<Rightarrow> handler \<Rightarrow> route_guard list" where
  "route_guards c h = de_use_guards (ct_decorators c) @ de_use_guards (ha_decorators h)"

definition pass_guards ::
  "framework \<Rightarrow> casl \<Rightarrow> (ident \<Rightarrow> authorization_grants) \<Rightarrow> guard_env \<Rightarrow> (string \<Rightarrow> bool) \<Rightarrow> controller \<Rightarrow> handler
   \<Rightarrow> request \<Rightarrow> time \<Rightarrow> breaker \<Rightarrow> world \<Rightarrow> (exn + authenticated_user option) \<times> breaker \<times> world" where
  "pass_guards fw casl loadGrants env in_budget c h rq now b w =
     (case pass_global_guards fw casl loadGrants in_budget c h rq now w of
        Inl e \<Rightarrow> (Inl e, b, w)
      | Inr user \<Rightarrow>
          (case pass_route_guards env rq now (route_guards c h) b w of
             (Inl e, b', w') \<Rightarrow> (Inl e, b', w')
           | (Inr _, b', w') \<Rightarrow> (Inr user, b', w')))"

lemma pass_guards_user:
  "fst (pass_guards fw casl loadGrants env in_budget c h rq now b w) = Inr user \<Longrightarrow>
   pass_global_guards fw casl loadGrants in_budget c h rq now w = Inr user"
  by (auto simp: pass_guards_def split: sum.splits prod.splits)

section \<open>Buckets\<close>

text \<open>The documented parse of passport-jwt, \<open>/(\S+)\s+(\S+)/\<close> with the scheme in lower case, on headers that
  start with the scheme.\<close>

definition reads_bearer :: "framework \<Rightarrow> bool" where
  "reads_bearer fw \<longleftrightarrow>
     (\<forall>scheme gap token rest. to_lower_case scheme = ''bearer'' \<longrightarrow> gap \<noteq> [] \<longrightarrow> list_all white_space gap \<longrightarrow>
        token \<noteq> [] \<longrightarrow> list_all (\<lambda>c. \<not> white_space c) token \<longrightarrow> (rest = [] \<or> white_space (hd rest)) \<longrightarrow>
        fw_bearer fw (scheme @ gap @ token @ rest) = Some token)"

lemma bearer_header_parts:
  assumes "bearer_token header = Some token"
  obtains scheme gap rest where "header = scheme @ gap @ token @ rest" "to_lower_case scheme = ''bearer''"
    "gap \<noteq> []" "list_all white_space gap" "token \<noteq> []" "list_all (\<lambda>c. \<not> white_space c) token"
    "list_all white_space rest" "rest = [] \<or> white_space (hd rest)"
proof -
  let ?after = "drop 6 header"
  let ?body = "dropWhile white_space ?after"
  let ?tail = "dropWhile (\<lambda>c. \<not> white_space c) ?body"
  have b: "to_lower_case (take 6 header) = ''bearer''" "takeWhile white_space ?after \<noteq> []" "token \<noteq> []"
    "list_all white_space ?tail" and token: "token = takeWhile (\<lambda>c. \<not> white_space c) ?body"
    using assms by (auto simp: bearer_token_def Let_def split: if_splits)
  show thesis
  proof (rule that [of "take 6 header" "takeWhile white_space ?after" ?tail])
    show "header = take 6 header @ takeWhile white_space ?after @ token @ ?tail"
      unfolding token by (simp only: takeWhile_dropWhile_id append_take_drop_id)
    show "list_all white_space (takeWhile white_space ?after)"
      by (auto simp: list_all_iff dest: set_takeWhileD)
    show "list_all (\<lambda>c. \<not> white_space c) token"
      unfolding token by (auto simp: list_all_iff dest: set_takeWhileD)
    show "?tail = [] \<or> white_space (hd ?tail)"
      using hd_dropWhile [of "\<lambda>c. \<not> white_space c" ?body] by blast
  qed (use b in simp_all)
qed

lemma bearer_header_read:
  assumes "reads_bearer fw" and "bearer_token header = Some token"
  shows "fw_bearer fw header = Some token"
  using assms(2)
proof (rule bearer_header_parts)
  fix scheme gap rest
  assume h: "header = scheme @ gap @ token @ rest"
  assume "to_lower_case scheme = ''bearer''" "gap \<noteq> []" "list_all white_space gap" "token \<noteq> []"
    "list_all (\<lambda>c. \<not> white_space c) token" "rest = [] \<or> white_space (hd rest)"
  with assms(1) show ?thesis unfolding h reads_bearer_def by blast
qed

lemma user_key_not_ip: "''user:'' @ a \<noteq> ''ip:'' @ b"
  by simp

text \<open>C8: a request is counted against an account only when it is for a route that needs a token and carries a
  token that verifies and that is an access token; the account is the one the token was issued for or, when the
  token has an \<open>act\<close> claim, the one acting in its place.  Any other request is counted against its address.  If
  the request is then let in, it is let in as the account the token was issued for.\<close>

theorem private_bucket_needs_verified_token:
  assumes "reads_bearer fw" and "getTracker fw c h rq = ''user:'' @ uid"
  shows "\<not> isPublicRoute c h \<and> uid \<noteq> [] \<and>
    (\<exists>header token payload act. rq_authorization rq = Some header \<and> bearer_token header = Some token \<and>
       fw_verify fw token = Some (payload, act) \<and> jp_purpose payload = None \<and>
       uid = (case act of Some a \<Rightarrow> a | None \<Rightarrow> jp_sub payload) \<and>
       (case jwtAuthGuard fw c h rq now w of
          Inl _ \<Rightarrow> True
        | Inr user \<Rightarrow> map_option au_id user = Some (jp_sub payload)))"
proof -
  have "\<not> isPublicRoute c h" and t: "truthy (resolveAuthenticatedUserId fw rq)"
    and uid: "uid = the (resolveAuthenticatedUserId fw rq)"
    using assms(2) by (auto simp: getTracker_def Let_def truthy_def split: if_splits)
  obtain header token payload act where tok: "rq_authorization rq = Some header" "bearer_token header = Some token"
    "fw_verify fw token = Some (payload, act)" "jp_purpose payload = None"
    and u: "uid = (case act of Some a \<Rightarrow> a | None \<Rightarrow> jp_sub payload)" "uid \<noteq> []"
    using t uid
    by (auto simp: resolveAuthenticatedUserId_def truthy_def isAccessTokenPayload_def bearer_token_def
        split: option.splits if_splits)
  have guard: "jwtAuthGuard fw c h rq now w = bindE (validate payload now w) (\<lambda>user. Inr (Some user))"
    using \<open>\<not> isPublicRoute c h\<close> tok(1,3) bearer_header_read [OF assms(1) tok(2)]
    by (simp add: jwtAuthGuard_def)
  have "au_id a = jp_sub payload" if "validate payload now w = Inr a" for a
    using that by (auto simp: validate_def findByIdOrNull_def split: option.splits if_splits
        dest: find_live_user_Some)
  then have "case jwtAuthGuard fw c h rq now w of
      Inl _ \<Rightarrow> True | Inr user \<Rightarrow> map_option au_id user = Some (jp_sub payload)"
    unfolding guard by (auto simp: bindE_def split: sum.splits)
  with \<open>\<not> isPublicRoute c h\<close> tok u show ?thesis by blast
qed

end
