(* ===== verification/Routes.thy ===== *)
theory Routes
  imports Request_Pipeline
begin

text \<open>
  The routes of the application with the decorators they carry, from the controllers of the modules that
  \<open>src/src/app.module.ts\<close> imports, and what the guards make of them.  The budgets named by constants
  (\<open>MCP_OAUTH_THROTTLE\<close>, \<open>MCP_THROTTLE\<close>) are written out; decorators for documentation, caching and status codes are
  left out, and the handlers' bodies are the operations of the other theories.
\<close>

section \<open>The controllers\<close>

definition UsersController_requestPasswordReset :: handler where
  "UsersController_requestPasswordReset = \<lparr>ha_name = ''requestPasswordReset'', ha_method = ''POST'', ha_paths = [''request-password-reset''],
     ha_decorators = Public (RequireTurnstile (Throttle 5 60000 undecorated))\<rparr>"

definition UsersController_resetPassword :: handler where
  "UsersController_resetPassword = \<lparr>ha_name = ''resetPassword'', ha_method = ''POST'', ha_paths = [''reset-password''],
     ha_decorators = Public (Throttle 5 60000 undecorated)\<rparr>"

definition UsersController_getAuthUserPermissions :: handler where
  "UsersController_getAuthUserPermissions = \<lparr>ha_name = ''getAuthUserPermissions'', ha_method = ''GET'', ha_paths = [''me/permissions''],
     ha_decorators = AuthenticatedOnly undecorated\<rparr>"

definition UsersController_getAuthUser :: handler where
  "UsersController_getAuthUser = \<lparr>ha_name = ''getAuthUser'', ha_method = ''GET'', ha_paths = [''me''],
     ha_decorators = RequirePermission A_read S_User no_options undecorated\<rparr>"

definition UsersController_updateAuthUserInfo :: handler where
  "UsersController_updateAuthUserInfo = \<lparr>ha_name = ''updateAuthUserInfo'', ha_method = ''PATCH'', ha_paths = [''me''],
     ha_decorators = RequirePermission A_update S_User no_options undecorated\<rparr>"

definition UsersController_setAuthUserProfileImage :: handler where
  "UsersController_setAuthUserProfileImage = \<lparr>ha_name = ''setAuthUserProfileImage'', ha_method = ''PUT'', ha_paths = [''me/profile-image''],
     ha_decorators = RequirePermission A_update S_User no_options (Throttle 30 60000 undecorated)\<rparr>"

definition UsersController_removeAuthUserProfileImage :: handler where
  "UsersController_removeAuthUserProfileImage = \<lparr>ha_name = ''removeAuthUserProfileImage'', ha_method = ''DELETE'', ha_paths = [''me/profile-image''],
     ha_decorators = RequirePermission A_update S_User no_options (Throttle 30 60000 undecorated)\<rparr>"

definition UsersController_deleteAuthUser :: handler where
  "UsersController_deleteAuthUser = \<lparr>ha_name = ''deleteAuthUser'', ha_method = ''DELETE'', ha_paths = [''me''],
     ha_decorators = RequirePermission A_delete S_User no_options undecorated\<rparr>"

definition UsersController_gdprErase :: handler where
  "UsersController_gdprErase = \<lparr>ha_name = ''gdprErase'', ha_method = ''POST'', ha_paths = [''me/gdpr-erase''],
     ha_decorators = RequirePermission A_delete S_User no_options (Throttle 5 60000 undecorated)\<rparr>"

definition UsersController_exportAuthUser :: handler where
  "UsersController_exportAuthUser = \<lparr>ha_name = ''exportAuthUser'', ha_method = ''GET'', ha_paths = [''me/export''],
     ha_decorators = RequirePermission A_read S_User no_options undecorated\<rparr>"

definition UsersController_updateAuthUsername :: handler where
  "UsersController_updateAuthUsername = \<lparr>ha_name = ''updateAuthUsername'', ha_method = ''PATCH'', ha_paths = [''me/username''],
     ha_decorators = RequirePermission A_update S_User no_options undecorated\<rparr>"

definition UsersController_updateAuthUserEmail :: handler where
  "UsersController_updateAuthUserEmail = \<lparr>ha_name = ''updateAuthUserEmail'', ha_method = ''PATCH'', ha_paths = [''me/email''],
     ha_decorators = RequirePermission A_update S_User no_options (Throttle 5 60000 undecorated)\<rparr>"

definition UsersController_updateAuthUserPassword :: handler where
  "UsersController_updateAuthUserPassword = \<lparr>ha_name = ''updateAuthUserPassword'', ha_method = ''PATCH'', ha_paths = [''me/password''],
     ha_decorators = RequirePermission A_update S_User no_options (Throttle 5 60000 undecorated)\<rparr>"

definition UsersController_requestPhoneVerification :: handler where
  "UsersController_requestPhoneVerification = \<lparr>ha_name = ''requestPhoneVerification'', ha_method = ''POST'', ha_paths = [''me/request-phone-verification''],
     ha_decorators = RequirePermission A_update S_User no_options (Throttle 5 60000 undecorated)\<rparr>"

definition UsersController_verifyAuthUserPhone :: handler where
  "UsersController_verifyAuthUserPhone = \<lparr>ha_name = ''verifyAuthUserPhone'', ha_method = ''PATCH'', ha_paths = [''me/verify-phone''],
     ha_decorators = RequirePermission A_update S_User no_options (Throttle 5 60000 undecorated)\<rparr>"

definition UsersController_updateAuthUserPhone :: handler where
  "UsersController_updateAuthUserPhone = \<lparr>ha_name = ''updateAuthUserPhone'', ha_method = ''PATCH'', ha_paths = [''me/phone''],
     ha_decorators = RequirePermission A_update S_User no_options undecorated\<rparr>"

definition UsersController_create :: handler where
  "UsersController_create = \<lparr>ha_name = ''create'', ha_method = ''POST'', ha_paths = [[]],
     ha_decorators = RequirePermission A_create S_User administrative (Throttle 20 60000 undecorated)\<rparr>"

definition UsersController_findPaginated :: handler where
  "UsersController_findPaginated = \<lparr>ha_name = ''findPaginated'', ha_method = ''GET'', ha_paths = [[]],
     ha_decorators = RequirePermission A_read S_User administrative undecorated\<rparr>"

definition UsersController_findById :: handler where
  "UsersController_findById = \<lparr>ha_name = ''findById'', ha_method = ''GET'', ha_paths = ['':id''],
     ha_decorators = RequirePermission A_read S_User administrative undecorated\<rparr>"

definition UsersController_update :: handler where
  "UsersController_update = \<lparr>ha_name = ''update'', ha_method = ''PATCH'', ha_paths = ['':id''],
     ha_decorators = RequirePermission A_update S_User administrative undecorated\<rparr>"

definition UsersController_updatePassword :: handler where
  "UsersController_updatePassword = \<lparr>ha_name = ''updatePassword'', ha_method = ''PATCH'', ha_paths = ['':id/password''],
     ha_decorators = RequirePermission A_resetPassword S_User administrative (Throttle 20 60000 undecorated)\<rparr>"

definition UsersController_remove :: handler where
  "UsersController_remove = \<lparr>ha_name = ''remove'', ha_method = ''DELETE'', ha_paths = ['':id''],
     ha_decorators = RequirePermission A_delete S_User administrative undecorated\<rparr>"

definition UsersController_revokeSessions :: handler where
  "UsersController_revokeSessions = \<lparr>ha_name = ''revokeSessions'', ha_method = ''POST'', ha_paths = ['':id/revoke-sessions''],
     ha_decorators = RequirePermission A_revokeSession S_User administrative undecorated\<rparr>"

definition UsersController_resendVerification :: handler where
  "UsersController_resendVerification = \<lparr>ha_name = ''resendVerification'', ha_method = ''POST'', ha_paths = ['':id/resend-verification''],
     ha_decorators = RequirePermission A_resendVerification S_User administrative undecorated\<rparr>"

definition UsersController :: controller where
  "UsersController = \<lparr>ct_name = ''UsersController'', ct_path = ''users'',
     ct_decorators = undecorated,
     ct_handlers = [UsersController_requestPasswordReset,
       UsersController_resetPassword,
       UsersController_getAuthUserPermissions,
       UsersController_getAuthUser,
       UsersController_updateAuthUserInfo,
       UsersController_setAuthUserProfileImage,
       UsersController_removeAuthUserProfileImage,
       UsersController_deleteAuthUser,
       UsersController_gdprErase,
       UsersController_exportAuthUser,
       UsersController_updateAuthUsername,
       UsersController_updateAuthUserEmail,
       UsersController_updateAuthUserPassword,
       UsersController_requestPhoneVerification,
       UsersController_verifyAuthUserPhone,
       UsersController_updateAuthUserPhone,
       UsersController_create,
       UsersController_findPaginated,
       UsersController_findById,
       UsersController_update,
       UsersController_updatePassword,
       UsersController_remove,
       UsersController_revokeSessions,
       UsersController_resendVerification]\<rparr>"

definition AuthController_register :: handler where
  "AuthController_register = \<lparr>ha_name = ''register'', ha_method = ''POST'', ha_paths = [''register''],
     ha_decorators = Public (RequireTurnstile (Throttle 5 60000 undecorated))\<rparr>"

definition AuthController_login :: handler where
  "AuthController_login = \<lparr>ha_name = ''login'', ha_method = ''POST'', ha_paths = [''login''],
     ha_decorators = Public (RequireTurnstile (ThrottlePasswordForm 5 60000 undecorated))\<rparr>"

definition AuthController_refresh :: handler where
  "AuthController_refresh = \<lparr>ha_name = ''refresh'', ha_method = ''POST'', ha_paths = [''refresh''],
     ha_decorators = Public (Throttle 10 60000 undecorated)\<rparr>"

definition AuthController_verifyEmailPost :: handler where
  "AuthController_verifyEmailPost = \<lparr>ha_name = ''verifyEmailPost'', ha_method = ''POST'', ha_paths = [''verify-email''],
     ha_decorators = Public (Throttle 20 60000 undecorated)\<rparr>"

definition AuthController_verifyEmailGet :: handler where
  "AuthController_verifyEmailGet = \<lparr>ha_name = ''verifyEmailGet'', ha_method = ''GET'', ha_paths = [''verify-email''],
     ha_decorators = Public (Throttle 20 60000 undecorated)\<rparr>"

definition AuthController_resendVerification :: handler where
  "AuthController_resendVerification = \<lparr>ha_name = ''resendVerification'', ha_method = ''POST'', ha_paths = [''resend-verification''],
     ha_decorators = Public (RequireTurnstile (Throttle 3 60000 undecorated))\<rparr>"

definition AuthController_logout :: handler where
  "AuthController_logout = \<lparr>ha_name = ''logout'', ha_method = ''POST'', ha_paths = [''logout''],
     ha_decorators = AuthenticatedOnly undecorated\<rparr>"

definition AuthController_logoutAll :: handler where
  "AuthController_logoutAll = \<lparr>ha_name = ''logoutAll'', ha_method = ''POST'', ha_paths = [''logout-all''],
     ha_decorators = AuthenticatedOnly undecorated\<rparr>"

definition AuthController :: controller where
  "AuthController = \<lparr>ct_name = ''AuthController'', ct_path = ''auth'',
     ct_decorators = undecorated,
     ct_handlers = [AuthController_register,
       AuthController_login,
       AuthController_refresh,
       AuthController_verifyEmailPost,
       AuthController_verifyEmailGet,
       AuthController_resendVerification,
       AuthController_logout,
       AuthController_logoutAll]\<rparr>"

definition UserRolesController_assign :: handler where
  "UserRolesController_assign = \<lparr>ha_name = ''assign'', ha_method = ''POST'', ha_paths = [[]],
     ha_decorators = RequirePermission A_assignRole S_User administrative undecorated\<rparr>"

definition UserRolesController_revoke :: handler where
  "UserRolesController_revoke = \<lparr>ha_name = ''revoke'', ha_method = ''DELETE'', ha_paths = ['':roleId''],
     ha_decorators = RequirePermission A_assignRole S_User administrative undecorated\<rparr>"

definition UserRolesController :: controller where
  "UserRolesController = \<lparr>ct_name = ''UserRolesController'', ct_path = ''users/:userId/roles'',
     ct_decorators = Throttle 10 60000 undecorated,
     ct_handlers = [UserRolesController_assign,
       UserRolesController_revoke]\<rparr>"

definition RolesController_findPaginated :: handler where
  "RolesController_findPaginated = \<lparr>ha_name = ''findPaginated'', ha_method = ''GET'', ha_paths = [[]],
     ha_decorators = RequirePermission A_read S_Role no_options undecorated\<rparr>"

definition RolesController_findById :: handler where
  "RolesController_findById = \<lparr>ha_name = ''findById'', ha_method = ''GET'', ha_paths = ['':id''],
     ha_decorators = RequirePermission A_read S_Role no_options undecorated\<rparr>"

definition RolesController :: controller where
  "RolesController = \<lparr>ct_name = ''RolesController'', ct_path = ''roles'',
     ct_decorators = undecorated,
     ct_handlers = [RolesController_findPaginated,
       RolesController_findById]\<rparr>"

definition PermissionsController_findPaginated :: handler where
  "PermissionsController_findPaginated = \<lparr>ha_name = ''findPaginated'', ha_method = ''GET'', ha_paths = [[]],
     ha_decorators = RequirePermission A_read S_Permission no_options undecorated\<rparr>"

definition PermissionsController :: controller where
  "PermissionsController = \<lparr>ct_name = ''PermissionsController'', ct_path = ''permissions'',
     ct_decorators = undecorated,
     ct_handlers = [PermissionsController_findPaginated]\<rparr>"

definition WorkspacesController_create :: handler where
  "WorkspacesController_create = \<lparr>ha_name = ''create'', ha_method = ''POST'', ha_paths = [[]],
     ha_decorators = RequirePermission A_create S_Workspace no_options undecorated\<rparr>"

definition WorkspacesController_findPaginated :: handler where
  "WorkspacesController_findPaginated = \<lparr>ha_name = ''findPaginated'', ha_method = ''GET'', ha_paths = [[]],
     ha_decorators = RequirePermission A_read S_Workspace denied_as_not_found undecorated\<rparr>"

definition WorkspacesController_findById :: handler where
  "WorkspacesController_findById = \<lparr>ha_name = ''findById'', ha_method = ''GET'', ha_paths = ['':id''],
     ha_decorators = RequirePermission A_read S_Workspace denied_as_not_found undecorated\<rparr>"

definition WorkspacesController_update :: handler where
  "WorkspacesController_update = \<lparr>ha_name = ''update'', ha_method = ''PATCH'', ha_paths = ['':id''],
     ha_decorators = RequirePermission A_update S_Workspace denied_as_not_found undecorated\<rparr>"

definition WorkspacesController_remove :: handler where
  "WorkspacesController_remove = \<lparr>ha_name = ''remove'', ha_method = ''DELETE'', ha_paths = ['':id''],
     ha_decorators = RequirePermission A_delete S_Workspace denied_as_not_found undecorated\<rparr>"

definition WorkspacesController :: controller where
  "WorkspacesController = \<lparr>ct_name = ''WorkspacesController'', ct_path = ''workspaces'',
     ct_decorators = undecorated,
     ct_handlers = [WorkspacesController_create,
       WorkspacesController_findPaginated,
       WorkspacesController_findById,
       WorkspacesController_update,
       WorkspacesController_remove]\<rparr>"

definition WorkspaceMembershipsController_create :: handler where
  "WorkspaceMembershipsController_create = \<lparr>ha_name = ''create'', ha_method = ''POST'', ha_paths = [[]],
     ha_decorators = RequirePermission A_create S_WorkspaceMembership no_options undecorated\<rparr>"

definition WorkspaceMembershipsController_findPaginated :: handler where
  "WorkspaceMembershipsController_findPaginated = \<lparr>ha_name = ''findPaginated'', ha_method = ''GET'', ha_paths = [[]],
     ha_decorators = RequirePermission A_read S_WorkspaceMembership denied_as_not_found undecorated\<rparr>"

definition WorkspaceMembershipsController_findById :: handler where
  "WorkspaceMembershipsController_findById = \<lparr>ha_name = ''findById'', ha_method = ''GET'', ha_paths = ['':membershipId''],
     ha_decorators = RequirePermission A_read S_WorkspaceMembership denied_as_not_found undecorated\<rparr>"

definition WorkspaceMembershipsController_update :: handler where
  "WorkspaceMembershipsController_update = \<lparr>ha_name = ''update'', ha_method = ''PATCH'', ha_paths = ['':membershipId''],
     ha_decorators = RequirePermission A_update S_WorkspaceMembership no_options undecorated\<rparr>"

definition WorkspaceMembershipsController_changeRole :: handler where
  "WorkspaceMembershipsController_changeRole = \<lparr>ha_name = ''changeRole'', ha_method = ''PATCH'', ha_paths = ['':membershipId/role''],
     ha_decorators = RequirePermission A_assignRole S_WorkspaceMembership no_options undecorated\<rparr>"

definition WorkspaceMembershipsController_suspend :: handler where
  "WorkspaceMembershipsController_suspend = \<lparr>ha_name = ''suspend'', ha_method = ''POST'', ha_paths = ['':membershipId/suspend''],
     ha_decorators = RequirePermission A_suspend S_WorkspaceMembership no_options undecorated\<rparr>"

definition WorkspaceMembershipsController_reactivate :: handler where
  "WorkspaceMembershipsController_reactivate = \<lparr>ha_name = ''reactivate'', ha_method = ''POST'', ha_paths = ['':membershipId/reactivate''],
     ha_decorators = RequirePermission A_suspend S_WorkspaceMembership no_options undecorated\<rparr>"

definition WorkspaceMembershipsController_transferOwnership :: handler where
  "WorkspaceMembershipsController_transferOwnership = \<lparr>ha_name = ''transferOwnership'', ha_method = ''POST'', ha_paths = ['':membershipId/transfer-ownership''],
     ha_decorators = RequirePermission A_transferOwnership S_Workspace no_options undecorated\<rparr>"

definition WorkspaceMembershipsController_remove :: handler where
  "WorkspaceMembershipsController_remove = \<lparr>ha_name = ''remove'', ha_method = ''DELETE'', ha_paths = ['':membershipId''],
     ha_decorators = RequirePermission A_delete S_WorkspaceMembership no_options undecorated\<rparr>"

definition WorkspaceMembershipsController :: controller where
  "WorkspaceMembershipsController = \<lparr>ct_name = ''WorkspaceMembershipsController'', ct_path = ''workspaces/:workspaceId/memberships'',
     ct_decorators = undecorated,
     ct_handlers = [WorkspaceMembershipsController_create,
       WorkspaceMembershipsController_findPaginated,
       WorkspaceMembershipsController_findById,
       WorkspaceMembershipsController_update,
       WorkspaceMembershipsController_changeRole,
       WorkspaceMembershipsController_suspend,
       WorkspaceMembershipsController_reactivate,
       WorkspaceMembershipsController_transferOwnership,
       WorkspaceMembershipsController_remove]\<rparr>"

definition WorkspaceInvitationsController_create :: handler where
  "WorkspaceInvitationsController_create = \<lparr>ha_name = ''create'', ha_method = ''POST'', ha_paths = [[]],
     ha_decorators = Throttle 20 60000 (RequirePermission A_create S_WorkspaceInvitation no_options undecorated)\<rparr>"

definition WorkspaceInvitationsController_findPaginated :: handler where
  "WorkspaceInvitationsController_findPaginated = \<lparr>ha_name = ''findPaginated'', ha_method = ''GET'', ha_paths = [[]],
     ha_decorators = RequirePermission A_read S_WorkspaceInvitation denied_as_not_found undecorated\<rparr>"

definition WorkspaceInvitationsController_resend :: handler where
  "WorkspaceInvitationsController_resend = \<lparr>ha_name = ''resend'', ha_method = ''POST'', ha_paths = ['':invitationId/resend''],
     ha_decorators = Throttle 10 60000 (RequirePermission A_create S_WorkspaceInvitation no_options undecorated)\<rparr>"

definition WorkspaceInvitationsController_revoke :: handler where
  "WorkspaceInvitationsController_revoke = \<lparr>ha_name = ''revoke'', ha_method = ''DELETE'', ha_paths = ['':invitationId''],
     ha_decorators = RequirePermission A_delete S_WorkspaceInvitation no_options undecorated\<rparr>"

definition WorkspaceInvitationsController :: controller where
  "WorkspaceInvitationsController = \<lparr>ct_name = ''WorkspaceInvitationsController'', ct_path = ''workspaces/:workspaceId/invitations'',
     ct_decorators = undecorated,
     ct_handlers = [WorkspaceInvitationsController_create,
       WorkspaceInvitationsController_findPaginated,
       WorkspaceInvitationsController_resend,
       WorkspaceInvitationsController_revoke]\<rparr>"

definition WorkspaceInvitationAcceptanceController_accept :: handler where
  "WorkspaceInvitationAcceptanceController_accept = \<lparr>ha_name = ''accept'', ha_method = ''POST'', ha_paths = [''accept''],
     ha_decorators = AuthenticatedOnly (Throttle 10 60000 undecorated)\<rparr>"

definition WorkspaceInvitationAcceptanceController :: controller where
  "WorkspaceInvitationAcceptanceController = \<lparr>ct_name = ''WorkspaceInvitationAcceptanceController'', ct_path = ''invitations'',
     ct_decorators = undecorated,
     ct_handlers = [WorkspaceInvitationAcceptanceController_accept]\<rparr>"

definition FilesController_upload :: handler where
  "FilesController_upload = \<lparr>ha_name = ''upload'', ha_method = ''POST'', ha_paths = [[]],
     ha_decorators = AuthenticatedOnly (Throttle 30 60000 undecorated)\<rparr>"

definition FilesController_release :: handler where
  "FilesController_release = \<lparr>ha_name = ''release'', ha_method = ''DELETE'', ha_paths = ['':id''],
     ha_decorators = AuthenticatedOnly (Throttle 30 60000 undecorated)\<rparr>"

definition FilesController :: controller where
  "FilesController = \<lparr>ct_name = ''FilesController'', ct_path = ''files'',
     ct_decorators = undecorated,
     ct_handlers = [FilesController_upload,
       FilesController_release]\<rparr>"

definition DeviceTokensController_create :: handler where
  "DeviceTokensController_create = \<lparr>ha_name = ''create'', ha_method = ''POST'', ha_paths = [[]],
     ha_decorators = RequirePermission A_create S_DeviceToken no_options undecorated\<rparr>"

definition DeviceTokensController_findPaginated :: handler where
  "DeviceTokensController_findPaginated = \<lparr>ha_name = ''findPaginated'', ha_method = ''GET'', ha_paths = [[]],
     ha_decorators = RequirePermission A_read S_DeviceToken no_options undecorated\<rparr>"

definition DeviceTokensController_findById :: handler where
  "DeviceTokensController_findById = \<lparr>ha_name = ''findById'', ha_method = ''GET'', ha_paths = ['':id''],
     ha_decorators = RequirePermission A_read S_DeviceToken no_options undecorated\<rparr>"

definition DeviceTokensController_update :: handler where
  "DeviceTokensController_update = \<lparr>ha_name = ''update'', ha_method = ''PATCH'', ha_paths = ['':id''],
     ha_decorators = RequirePermission A_update S_DeviceToken no_options undecorated\<rparr>"

definition DeviceTokensController_remove :: handler where
  "DeviceTokensController_remove = \<lparr>ha_name = ''remove'', ha_method = ''DELETE'', ha_paths = ['':id''],
     ha_decorators = RequirePermission A_delete S_DeviceToken no_options undecorated\<rparr>"

definition DeviceTokensController :: controller where
  "DeviceTokensController = \<lparr>ct_name = ''DeviceTokensController'', ct_path = ''device-tokens'',
     ct_decorators = undecorated,
     ct_handlers = [DeviceTokensController_create,
       DeviceTokensController_findPaginated,
       DeviceTokensController_findById,
       DeviceTokensController_update,
       DeviceTokensController_remove]\<rparr>"

definition AppVersionsController_create :: handler where
  "AppVersionsController_create = \<lparr>ha_name = ''create'', ha_method = ''POST'', ha_paths = [[]],
     ha_decorators = RequirePermission A_create S_AppVersion administrative undecorated\<rparr>"

definition AppVersionsController_findPaginated :: handler where
  "AppVersionsController_findPaginated = \<lparr>ha_name = ''findPaginated'', ha_method = ''GET'', ha_paths = [[]],
     ha_decorators = Public undecorated\<rparr>"

definition AppVersionsController_findLatest :: handler where
  "AppVersionsController_findLatest = \<lparr>ha_name = ''findLatest'', ha_method = ''GET'', ha_paths = [''latest''],
     ha_decorators = Public undecorated\<rparr>"

definition AppVersionsController_findById :: handler where
  "AppVersionsController_findById = \<lparr>ha_name = ''findById'', ha_method = ''GET'', ha_paths = ['':id''],
     ha_decorators = Public undecorated\<rparr>"

definition AppVersionsController_update :: handler where
  "AppVersionsController_update = \<lparr>ha_name = ''update'', ha_method = ''PATCH'', ha_paths = ['':id''],
     ha_decorators = RequirePermission A_update S_AppVersion administrative undecorated\<rparr>"

definition AppVersionsController_remove :: handler where
  "AppVersionsController_remove = \<lparr>ha_name = ''remove'', ha_method = ''DELETE'', ha_paths = ['':id''],
     ha_decorators = RequirePermission A_delete S_AppVersion administrative undecorated\<rparr>"

definition AppVersionsController :: controller where
  "AppVersionsController = \<lparr>ct_name = ''AppVersionsController'', ct_path = ''app-versions'',
     ct_decorators = undecorated,
     ct_handlers = [AppVersionsController_create,
       AppVersionsController_findPaginated,
       AppVersionsController_findLatest,
       AppVersionsController_findById,
       AppVersionsController_update,
       AppVersionsController_remove]\<rparr>"

definition AuditLogsController_findPaginated :: handler where
  "AuditLogsController_findPaginated = \<lparr>ha_name = ''findPaginated'', ha_method = ''GET'', ha_paths = [[]],
     ha_decorators = RequirePermission A_read S_AuditLog administrative undecorated\<rparr>"

definition AuditLogsController_findById :: handler where
  "AuditLogsController_findById = \<lparr>ha_name = ''findById'', ha_method = ''GET'', ha_paths = ['':id''],
     ha_decorators = RequirePermission A_read S_AuditLog administrative undecorated\<rparr>"

definition AuditLogsController :: controller where
  "AuditLogsController = \<lparr>ct_name = ''AuditLogsController'', ct_path = ''audit-logs'',
     ct_decorators = undecorated,
     ct_handlers = [AuditLogsController_findPaginated,
       AuditLogsController_findById]\<rparr>"

definition QueueAdminController_summarize :: handler where
  "QueueAdminController_summarize = \<lparr>ha_name = ''summarize'', ha_method = ''GET'', ha_paths = [[]],
     ha_decorators = RequirePermission A_read S_QueueJob administrative undecorated\<rparr>"

definition QueueAdminController_findById :: handler where
  "QueueAdminController_findById = \<lparr>ha_name = ''findById'', ha_method = ''GET'', ha_paths = ['':queue/jobs/:jobId''],
     ha_decorators = RequirePermission A_read S_QueueJob administrative undecorated\<rparr>"

definition QueueAdminController_retry :: handler where
  "QueueAdminController_retry = \<lparr>ha_name = ''retry'', ha_method = ''POST'', ha_paths = ['':queue/jobs/:jobId/retry''],
     ha_decorators = RequirePermission A_retry S_QueueJob administrative undecorated\<rparr>"

definition QueueAdminController_cancel :: handler where
  "QueueAdminController_cancel = \<lparr>ha_name = ''cancel'', ha_method = ''DELETE'', ha_paths = ['':queue/jobs/:jobId''],
     ha_decorators = RequirePermission A_cancel S_QueueJob administrative undecorated\<rparr>"

definition QueueAdminController :: controller where
  "QueueAdminController = \<lparr>ct_name = ''QueueAdminController'', ct_path = ''queues'',
     ct_decorators = undecorated,
     ct_handlers = [QueueAdminController_summarize,
       QueueAdminController_findById,
       QueueAdminController_retry,
       QueueAdminController_cancel]\<rparr>"

definition EnumsController_getAll :: handler where
  "EnumsController_getAll = \<lparr>ha_name = ''getAll'', ha_method = ''GET'', ha_paths = [[]],
     ha_decorators = Public undecorated\<rparr>"

definition EnumsController_getRoleScopes :: handler where
  "EnumsController_getRoleScopes = \<lparr>ha_name = ''getRoleScopes'', ha_method = ''GET'', ha_paths = [''role-scopes''],
     ha_decorators = Public undecorated\<rparr>"

definition EnumsController_getPermissionOwnerships :: handler where
  "EnumsController_getPermissionOwnerships = \<lparr>ha_name = ''getPermissionOwnerships'', ha_method = ''GET'', ha_paths = [''permission-ownerships''],
     ha_decorators = Public undecorated\<rparr>"

definition EnumsController_getAppPlatforms :: handler where
  "EnumsController_getAppPlatforms = \<lparr>ha_name = ''getAppPlatforms'', ha_method = ''GET'', ha_paths = [''app-platforms''],
     ha_decorators = Public undecorated\<rparr>"

definition EnumsController_getDeviceTypes :: handler where
  "EnumsController_getDeviceTypes = \<lparr>ha_name = ''getDeviceTypes'', ha_method = ''GET'', ha_paths = [''device-types''],
     ha_decorators = Public undecorated\<rparr>"

definition EnumsController_getDeviceOses :: handler where
  "EnumsController_getDeviceOses = \<lparr>ha_name = ''getDeviceOses'', ha_method = ''GET'', ha_paths = [''device-oses''],
     ha_decorators = Public undecorated\<rparr>"

definition EnumsController :: controller where
  "EnumsController = \<lparr>ct_name = ''EnumsController'', ct_path = ''enums'',
     ct_decorators = undecorated,
     ct_handlers = [EnumsController_getAll,
       EnumsController_getRoleScopes,
       EnumsController_getPermissionOwnerships,
       EnumsController_getAppPlatforms,
       EnumsController_getDeviceTypes,
       EnumsController_getDeviceOses]\<rparr>"

definition HealthController_liveness :: handler where
  "HealthController_liveness = \<lparr>ha_name = ''liveness'', ha_method = ''GET'', ha_paths = [''liveness''],
     ha_decorators = Public undecorated\<rparr>"

definition HealthController_readiness :: handler where
  "HealthController_readiness = \<lparr>ha_name = ''readiness'', ha_method = ''GET'', ha_paths = [''readiness''],
     ha_decorators = Public undecorated\<rparr>"

definition HealthController_workers :: handler where
  "HealthController_workers = \<lparr>ha_name = ''workers'', ha_method = ''GET'', ha_paths = [''workers''],
     ha_decorators = Public undecorated\<rparr>"

definition HealthController_version :: handler where
  "HealthController_version = \<lparr>ha_name = ''version'', ha_method = ''GET'', ha_paths = [''version''],
     ha_decorators = Public undecorated\<rparr>"

definition HealthController :: controller where
  "HealthController = \<lparr>ct_name = ''HealthController'', ct_path = ''health'',
     ct_decorators = SkipThrottle undecorated,
     ct_handlers = [HealthController_liveness,
       HealthController_readiness,
       HealthController_workers,
       HealthController_version]\<rparr>"

definition PublicController_ping :: handler where
  "PublicController_ping = \<lparr>ha_name = ''ping'', ha_method = ''GET'', ha_paths = [''ping''],
     ha_decorators = Public undecorated\<rparr>"

definition PublicController :: controller where
  "PublicController = \<lparr>ct_name = ''PublicController'', ct_path = ''public'',
     ct_decorators = Throttle 10 60000 undecorated,
     ct_handlers = [PublicController_ping]\<rparr>"

definition OAuthInteractionController_show :: handler where
  "OAuthInteractionController_show = \<lparr>ha_name = ''show'', ha_method = ''GET'', ha_paths = ['':uid''],
     ha_decorators = Throttle 30 60000 undecorated\<rparr>"

definition OAuthInteractionController_login :: handler where
  "OAuthInteractionController_login = \<lparr>ha_name = ''login'', ha_method = ''POST'', ha_paths = ['':uid/login''],
     ha_decorators = RequireTurnstile (ThrottlePasswordForm 5 60000 undecorated)\<rparr>"

definition OAuthInteractionController_confirm :: handler where
  "OAuthInteractionController_confirm = \<lparr>ha_name = ''confirm'', ha_method = ''POST'', ha_paths = ['':uid/confirm''],
     ha_decorators = Throttle 30 60000 undecorated\<rparr>"

definition OAuthInteractionController_abort :: handler where
  "OAuthInteractionController_abort = \<lparr>ha_name = ''abort'', ha_method = ''POST'', ha_paths = ['':uid/abort''],
     ha_decorators = Throttle 30 60000 undecorated\<rparr>"

definition OAuthInteractionController :: controller where
  "OAuthInteractionController = \<lparr>ct_name = ''OAuthInteractionController'', ct_path = ''oauth/interaction'',
     ct_decorators = Public undecorated,
     ct_handlers = [OAuthInteractionController_show,
       OAuthInteractionController_login,
       OAuthInteractionController_confirm,
       OAuthInteractionController_abort]\<rparr>"

definition OAuthProtocolController_authorizationServerMetadata :: handler where
  "OAuthProtocolController_authorizationServerMetadata = \<lparr>ha_name = ''authorizationServerMetadata'', ha_method = ''GET'', ha_paths = [''.well-known/oauth-authorization-server''],
     ha_decorators = Throttle 60 60000 undecorated\<rparr>"

definition OAuthProtocolController_protectedResourceMetadata :: handler where
  "OAuthProtocolController_protectedResourceMetadata = \<lparr>ha_name = ''protectedResourceMetadata'', ha_method = ''GET'', ha_paths = [''.well-known/oauth-protected-resource'', ''.well-known/oauth-protected-resource/api/mcp''],
     ha_decorators = Throttle 60 60000 undecorated\<rparr>"

definition OAuthProtocolController_register :: handler where
  "OAuthProtocolController_register = \<lparr>ha_name = ''register'', ha_method = ''POST'', ha_paths = [''oauth/register''],
     ha_decorators = Throttle 10 60000 undecorated\<rparr>"

definition OAuthProtocolController_authorize :: handler where
  "OAuthProtocolController_authorize = \<lparr>ha_name = ''authorize'', ha_method = ''ALL'', ha_paths = [''oauth/authorize'', ''oauth/authorize/{*path}''],
     ha_decorators = Throttle 60 60000 undecorated\<rparr>"

definition OAuthProtocolController_token :: handler where
  "OAuthProtocolController_token = \<lparr>ha_name = ''token'', ha_method = ''POST'', ha_paths = [''oauth/token''],
     ha_decorators = Throttle 60 60000 undecorated\<rparr>"

definition OAuthProtocolController_jwks :: handler where
  "OAuthProtocolController_jwks = \<lparr>ha_name = ''jwks'', ha_method = ''GET'', ha_paths = [''oauth/jwks''],
     ha_decorators = Throttle 60 60000 undecorated\<rparr>"

definition OAuthProtocolController :: controller where
  "OAuthProtocolController = \<lparr>ct_name = ''OAuthProtocolController'', ct_path = [],
     ct_decorators = Public undecorated,
     ct_handlers = [OAuthProtocolController_authorizationServerMetadata,
       OAuthProtocolController_protectedResourceMetadata,
       OAuthProtocolController_register,
       OAuthProtocolController_authorize,
       OAuthProtocolController_token,
       OAuthProtocolController_jwks]\<rparr>"

definition McpController_handle :: handler where
  "McpController_handle = \<lparr>ha_name = ''handle'', ha_method = ''ALL'', ha_paths = [[]],
     ha_decorators = undecorated\<rparr>"

definition McpController :: controller where
  "McpController = \<lparr>ct_name = ''McpController'', ct_path = ''mcp'',
     ct_decorators = Public (UseGuards [McpOAuthGuard] (Throttle 60 60000 undecorated)),
     ct_handlers = [McpController_handle]\<rparr>"

definition app_controllers :: "controller list" where
  "app_controllers = [UsersController,
     AuthController,
     UserRolesController,
     RolesController,
     PermissionsController,
     WorkspacesController,
     WorkspaceMembershipsController,
     WorkspaceInvitationsController,
     WorkspaceInvitationAcceptanceController,
     FilesController,
     DeviceTokensController,
     AppVersionsController,
     AuditLogsController,
     QueueAdminController,
     EnumsController,
     HealthController,
     PublicController,
     OAuthInteractionController,
     OAuthProtocolController,
     McpController]"

section \<open>The boot check passes\<close>

lemmas decorator_defs = undecorated_def Public_def AuthenticatedOnly_def RequirePermission_def UseGuards_def RequireTurnstile_def
  Throttle_def ThrottlePasswordForm_def SkipThrottle_def no_options_def administrative_def denied_as_not_found_def

text \<open>How many decisions a route carries, on its handler and its class.\<close>

definition decisions :: "controller \<Rightarrow> handler \<Rightarrow> nat" where
  "decisions c h =
     (if getAllAndOverride de_public c h = Some True then 1 else 0) +
     (if getAllAndOverride de_authenticated_only c h = Some True then 1 else 0) +
     (if getAllAndOverride de_required c h \<noteq> None then 1 else 0)"

lemma audit_passes: "auditRoutes app_controllers = Inr ()"
  by code_simp

lemma one_decision_each:
  "list_all (\<lambda>c. list_all (\<lambda>h. decisions c h = 1) (ct_handlers c)) app_controllers"
  by code_simp

section \<open>What needs no token\<close>

definition anonymous_routes :: "string list" where
  "anonymous_routes =
     [''UsersController.requestPasswordReset'', ''UsersController.resetPassword'', ''AuthController.register'',
      ''AuthController.login'', ''AuthController.refresh'', ''AuthController.verifyEmailPost'',
      ''AuthController.verifyEmailGet'', ''AuthController.resendVerification'',
      ''AppVersionsController.findPaginated'', ''AppVersionsController.findLatest'',
      ''AppVersionsController.findById'', ''EnumsController.getAll'', ''EnumsController.getRoleScopes'',
      ''EnumsController.getPermissionOwnerships'', ''EnumsController.getAppPlatforms'',
      ''EnumsController.getDeviceTypes'', ''EnumsController.getDeviceOses'', ''HealthController.liveness'',
      ''HealthController.readiness'', ''HealthController.workers'', ''HealthController.version'',
      ''PublicController.ping'', ''OAuthInteractionController.show'', ''OAuthInteractionController.login'',
      ''OAuthInteractionController.confirm'', ''OAuthInteractionController.abort'',
      ''OAuthProtocolController.authorizationServerMetadata'', ''OAuthProtocolController.protectedResourceMetadata'',
      ''OAuthProtocolController.register'', ''OAuthProtocolController.authorize'', ''OAuthProtocolController.token'',
      ''OAuthProtocolController.jwks'']"

text \<open>The public routes that add a guard of their own: the five forms with a bot check, and the MCP endpoint.\<close>

definition turnstile_routes :: "string list" where
  "turnstile_routes =
     [''UsersController.requestPasswordReset'', ''AuthController.register'', ''AuthController.login'',
      ''AuthController.resendVerification'', ''OAuthInteractionController.login'']"

definition route_name :: "controller \<Rightarrow> handler \<Rightarrow> string" where
  "route_name c h = ct_name c @ ''.'' @ ha_name h"

lemma public_routes_listed:
  "list_all (\<lambda>c. list_all (\<lambda>h. isPublicRoute c h \<longleftrightarrow>
       route_name c h \<in> set (''McpController.handle'' # anonymous_routes)) (ct_handlers c)) app_controllers"
  by code_simp

lemma route_guards_listed:
  "list_all (\<lambda>c. list_all (\<lambda>h. route_guards c h =
       (if route_name c h = ''McpController.handle'' then [McpOAuthGuard]
        else if route_name c h \<in> set turnstile_routes then [TurnstileGuard] else [])) (ct_handlers c))
     app_controllers"
  by code_simp

text \<open>Of the public routes, those that write, and the two that check a credential of their own.\<close>

lemma public_writes_budgeted:
  "list_all (\<lambda>c. list_all (\<lambda>h. isPublicRoute c h \<and> ha_method h \<noteq> ''GET'' \<longrightarrow>
       getAllAndOverride de_throttle c h \<noteq> None \<and> getAllAndOverride de_skip_throttle c h = None) (ct_handlers c))
     app_controllers"
  by code_simp

lemma declared_in:
  assumes "c \<in> set app_controllers" and "h \<in> set (ct_handlers c)"
    and "list_all (\<lambda>c. list_all (P c) (ct_handlers c)) app_controllers"
  shows "P c h"
  using assms by (simp add: list_all_iff)

lemma canActivate_public: "isPublicRoute c h \<Longrightarrow> canActivate casl g (decl_of c h) req = Inr (True, None)"
  by (simp add: canActivate_def decl_of_def isPublicRoute_def)

lemma pass_guards_Inr:
  "(\<exists>user b' w'. pass_guards fw casl loadGrants env in_budget c h rq now b w = (Inr user, b', w')) \<longleftrightarrow>
   (\<exists>user. pass_global_guards fw casl loadGrants in_budget c h rq now w = Inr user) \<and>
   (\<exists>b' w'. pass_route_guards env rq now (route_guards c h) b w = (Inr (), b', w'))"
  by (auto simp: pass_guards_def split: sum.splits prod.splits)

text \<open>C7: a request without a token passes all its guards, global and its route's own, exactly on the thirty-two
  routes listed, while its address (or, on the two sign-in forms, the name and the address) is within its budget,
  and on the five forms with a bot check only when that check lets it through.  The public MCP endpoint is not
  among them: its own guard refuses a request without a token.\<close>

theorem anonymous_reach:
  assumes "c \<in> set app_controllers" and "h \<in> set (ct_handlers c)" and "rq_authorization rq = None"
  shows "(\<exists>user b' w'. pass_guards fw casl loadGrants env in_budget c h rq now b w = (Inr user, b', w')) \<longleftrightarrow>
    route_name c h \<in> set anonymous_routes \<and>
    (case bucket fw c h rq of None \<Rightarrow> True | Some b \<Rightarrow> in_budget b) \<and>
    (route_name c h \<in> set turnstile_routes \<longrightarrow>
       (\<exists>b' w'. canActivate_turnstile (ge_keys env) (rq_bot_check rq) (ge_reply env) now (ge_later env) b w =
          (Inr (), b', w')))"
proof -
  have public: "isPublicRoute c h \<longleftrightarrow> route_name c h \<in> set (''McpController.handle'' # anonymous_routes)"
    using declared_in [OF assms(1,2) public_routes_listed] .
  have guards: "route_guards c h = (if route_name c h = ''McpController.handle'' then [McpOAuthGuard]
      else if route_name c h \<in> set turnstile_routes then [TurnstileGuard] else [])"
    using declared_in [OF assms(1,2) route_guards_listed] .
  have global: "(\<exists>user. pass_global_guards fw casl loadGrants in_budget c h rq now w = Inr user) \<longleftrightarrow>
      isPublicRoute c h \<and> (case bucket fw c h rq of None \<Rightarrow> True | Some b \<Rightarrow> in_budget b)"
    using assms(3) canActivate_public
    by (auto simp: pass_global_guards_def jwtAuthGuard_def split: option.splits)
  have mcp: "''McpController.handle'' \<notin> set anonymous_routes" by code_simp
  have refused: "\<not> (\<exists>b' w'. pass_route_guards env rq now [McpOAuthGuard] b w = (Inr (), b', w'))"
    using assms(3) by (simp add: canActivate_mcp_def bearer_token_def)
  have check: "(\<exists>b' w'. pass_route_guards env rq now [TurnstileGuard] b w = (Inr (), b', w')) \<longleftrightarrow>
      (\<exists>b' w'. canActivate_turnstile (ge_keys env) (rq_bot_check rq) (ge_reply env) now (ge_later env) b w =
         (Inr (), b', w'))"
    by (auto split: sum.splits prod.splits)
  show ?thesis
  proof (cases "route_name c h = ''McpController.handle''")
    case True
    then show ?thesis unfolding pass_guards_Inr guards using refused mcp by simp
  next
    case False
    then have public': "isPublicRoute c h \<longleftrightarrow> route_name c h \<in> set anonymous_routes" using public by simp
    show ?thesis
    proof (cases "route_name c h \<in> set turnstile_routes")
      case True
      then show ?thesis
        unfolding pass_guards_Inr guards if_not_P [OF False] if_P [OF True] global public' check by blast
    next
      case no_check: False
      then show ?thesis
        unfolding pass_guards_Inr guards if_not_P [OF False] if_not_P [OF no_check] global public' by simp
    qed
  qed
qed

section \<open>Routes on somebody's account\<close>

definition names_an_account :: "controller \<Rightarrow> handler \<Rightarrow> bool" where
  "names_an_account c h \<longleftrightarrow>
     ct_path c = ''users'' \<and> (\<exists>p \<in> set (ha_paths h). take 3 p = '':id'') \<or> ct_path c = ''users/:userId/roles''"

lemma account_routes_administrative:
  "list_all (\<lambda>c. list_all (\<lambda>h. names_an_account c h \<longrightarrow>
       \<not> isPublicRoute c h \<and> getAllAndOverride de_authenticated_only c h = None \<and>
       (case getAllAndOverride de_required c h of None \<Rightarrow> False
        | Some r \<Rightarrow> rp_subject r = S_User \<and> rp_is_administrative r)) (ct_handlers c)) app_controllers"
  by code_simp

text \<open>A route that demands more than one's own records admits only the platform's staff over its subject.\<close>

lemma administrative_needs_staff:
  assumes "casl_laws c" and "createForUser userId g = Inr ab" and "rp_is_administrative r"
    and "SUBJECT_TENANT_KEY (rp_subject r) = None" and "SUBJECT_OWNER_KEY (rp_subject r) = Some ok"
    and "decide c ab userId r ws = Inr d"
  shows "staff_over g (rp_action r) (rp_subject r)"
proof -
  have "hasNonOwnerScopedRule c ab (rp_action r) (rp_subject r) = Inr True"
    using assms(3,6) by (auto simp: decide_def Let_def svc)
  then obtain rule where "rule \<in> set (rules_for c ab (rp_action r) (rp_subject r))"
    and other: "\<forall>v. ru_conditions rule \<noteq> Some (ok, v)"
    using assms(5) by (auto simp: hasNonOwnerScopedRule_def isOwnableSubject_def resolveOwnerKey_def
        split: option.splits)
  then have "user_rule userId g rule" "relevant (rp_action r) (rp_subject r) rule"
    using casl_ability(3) [OF assms(1,2)] ability_core [OF assms(2)] by auto
  from relevant_unscoped_rule [OF this assms(4,5)] other show ?thesis by blast
qed

text \<open>C6: a route that names an account by its id, for reading, changing, erasing, signing out or giving roles,
  passes the guards only for a caller with a platform role over accounts; what everybody may do to their own
  account opens none of them.\<close>

theorem account_routes_are_for_staff:
  assumes "casl_laws casl" and "c \<in> set app_controllers" and "h \<in> set (ct_handlers c)" and "names_an_account c h"
    and "fst (pass_guards fw casl loadGrants env in_budget c h rq now b w) = Inr user"
  shows "\<exists>u r. user = Some u \<and> getAllAndOverride de_required c h = Some r \<and>
    staff_over (loadGrants (au_id u)) (rp_action r) S_User"
proof -
  have route: "\<not> isPublicRoute c h" "getAllAndOverride de_authenticated_only c h = None"
    using declared_in [OF assms(2,3) account_routes_administrative] assms(4) by simp_all
  obtain r where r: "getAllAndOverride de_required c h = Some r" "rp_subject r = S_User" "rp_is_administrative r"
    using declared_in [OF assms(2,3) account_routes_administrative] assms(4)
    by (auto split: option.splits)
  have "hd_public (decl_of c h) = False" "hd_authenticated_only (decl_of c h) = False"
    "hd_required (decl_of c h) = Some r"
    using route r(1) by (simp_all add: decl_of_def isPublicRoute_def)
  then obtain u ab d where u: "user = Some u" and ab: "createForUser (au_id u) (loadGrants (au_id u)) = Inr ab"
    and d: "decide casl ab (au_id u) r (resolveWorkspaceId \<lparr>gr_user = Some (au_id u),
      gr_param_workspace_id = rq_param_workspace_id rq, gr_body_workspace_id = rq_body_workspace_id rq\<rparr>) = Inr d"
    using pass_guards_user [OF assms(5)] route(1)
    by (auto simp: pass_global_guards_def jwtAuthGuard_def canActivate_def svc split: option.splits if_splits)
  have "staff_over (loadGrants (au_id u)) (rp_action r) (rp_subject r)"
    using r(2) by (intro administrative_needs_staff [OF assms(1) ab r(3) _ _ d]) simp_all
  with u r show ?thesis by auto
qed

section \<open>Runs the comments do not expect\<close>

text \<open>The check accepts a handler with two decisions, and the weaker one is the one that counts.\<close>

lemma two_decisions_pass_audit:
  fixes a s
  defines "h \<equiv> \<lparr>ha_name = ''purge'', ha_method = ''DELETE'', ha_paths = [[]],
       ha_decorators = RequirePermission a s administrative (AuthenticatedOnly undecorated)\<rparr>"
    and "c \<equiv> \<lparr>ct_name = ''C'', ct_path = ''c'', ct_decorators = undecorated, ct_handlers = []\<rparr>"
  shows "auditRoutes [c\<lparr>ct_handlers := [h]\<rparr>] = Inr () \<and> decisions c h = 2 \<and>
    (createForUser u (loadGrants u) = Inr ab \<longrightarrow>
       canActivate casl loadGrants (decl_of c h)
         \<lparr>gr_user = Some u, gr_param_workspace_id = None, gr_body_workspace_id = None\<rparr> = Inr (True, Some ab))"
  unfolding h_def c_def
  by (simp add: auditRoutes_def findUndecidedHandlers_def hasAuthorizationDecision_def decisions_def
      getAllAndOverride_def decorator_defs canActivate_def decl_of_def)

text \<open>A header with a word after the token is read by passport and not by the throttler.\<close>

lemma trailing_word_loses_bucket:
  assumes "reads_bearer fw" and "\<not> isPublicRoute c h" and "rq_authorization rq = Some ''Bearer t x''"
    and "fw_verify fw ''t'' = Some (payload, None)" and "validate payload now w = Inr user"
  shows "jwtAuthGuard fw c h rq now w = Inr (Some user) \<and> getTracker fw c h rq = ''ip:'' @ fw_stock_tracker fw (rq_ip rq)"
proof -
  have "to_lower_case ''Bearer'' = ''bearer''" "list_all white_space '' ''" "list_all (\<lambda>c. \<not> white_space c) ''t''"
    "white_space (hd '' x'')" by code_simp+
  with assms(1) have "fw_bearer fw (''Bearer'' @ '' '' @ ''t'' @ '' x'') = Some ''t''"
    unfolding reads_bearer_def by blast
  moreover have "bearer_token ''Bearer t x'' = None" by code_simp
  ultimately show ?thesis
    using assms(2-5)
    by (simp add: jwtAuthGuard_def getTracker_def resolveAuthenticatedUserId_def truthy_def)
qed

text \<open>Two addresses the stock tracker counts as one have a budget of sign-ins each, for the same name.\<close>

lemma sign_in_budget_per_address:
  assumes "fw_stock_tracker fw ip1 = fw_stock_tracker fw ip2" and "ip1 \<noteq> ip2"
    and "isPublicRoute c h" and "getAllAndOverride de_skip_throttle c h = None"
    and "getAllAndOverride de_throttle c h = Some t"
  shows "(bucket fw c h (rq\<lparr>rq_ip := ip1\<rparr>) = bucket fw c h (rq\<lparr>rq_ip := ip2\<rparr>)) \<longleftrightarrow> \<not> th_password_form t"
  using assms by (auto simp: bucket_def getTracker_def truthy_def loginThrottleTracker_def Let_def)

end
