(* ===== verification/Audit_Trail.thy ===== *)
theory Audit_Trail
  imports Access Redaction "HOL-Library.Sublist" "HOL-Library.Multiset"
begin

text \<open>
  The audit log: \<open>src/src/common/audit/audit.service.ts\<close>, the request context of \<open>src/src/app.module.ts\<close>,
  \<open>src/src/common/util/request-id.util.ts\<close>, \<open>src/src/modules/audit-logs/audit-logs.service.ts\<close>,
  \<open>src/src/common/dto/meta-query.dto.ts\<close> and \<open>src/src/common/util/date-range.util.ts\<close>.

  The user agent parser, the text PostgreSQL makes of a JSON value and the order among rows with equal keys are
  arguments.  \<open>ILIKE\<close> is PostgreSQL's, with its wildcards.
\<close>

section \<open>The request context\<close>

record parsed_agent =
  pa_browser :: "(string \<times> string option) option"
  pa_os :: "(string \<times> string option) option"
  pa_device_type :: "string option"
  pa_device_vendor :: "string option"
  pa_device_model :: "string option"

record http_head =
  hh_method :: string
  hh_url :: string
  hh_ip :: "string option"
  hh_user_agent :: "string option"
  hh_accept_language :: "string option"
  hh_cf_country :: "string option"
  hh_cf_ray :: "string option"
  hh_request_id :: "string list"

record request_context =
  rc_id :: string
  rc_ip :: "string option"
  rc_user_agent :: "string option"
  rc_accept_language :: "string option"
  rc_country :: "string option"
  rc_cf_ray :: "string option"
  rc_browser :: "json option"
  rc_os :: "json option"
  rc_device :: "json option"
  rc_method :: string
  rc_path :: string

text \<open>\<open>/^[A-Za-z0-9._~-]{1,200}$/\<close>.\<close>

definition safe_id_char :: "char \<Rightarrow> bool" where
  "safe_id_char c \<longleftrightarrow> lower_letter (lower_char c) \<or> digit c \<or> c \<in> set ''._~-''"

definition SAFE_REQUEST_ID :: "string \<Rightarrow> bool" where
  "SAFE_REQUEST_ID s \<longleftrightarrow> s \<noteq> [] \<and> length s \<le> 200 \<and> list_all safe_id_char s"

text \<open>The id a request already has, the values of its header, and a fresh UUID.  The second component is what the
  request carries from then on.\<close>

definition resolveRequestId :: "string option \<Rightarrow> string list \<Rightarrow> string \<Rightarrow> string \<times> string option" where
  "resolveRequestId alreadyResolved header fresh =
     (case alreadyResolved of
        Some i \<Rightarrow> (i, Some i)
      | None \<Rightarrow>
          (let resolved = (case header of
                 candidate # _ \<Rightarrow> if SAFE_REQUEST_ID candidate then candidate else fresh
               | [] \<Rightarrow> fresh)
           in (resolved, Some resolved)))"

text \<open>An object of texts; a field that is \<open>undefined\<close> is not there.\<close>

definition object_of :: "(string \<times> string option) list \<Rightarrow> json" where
  "object_of entries = JObj (List.map_filter (\<lambda>(k, v). map_option (\<lambda>t. (k, JStr t)) v) entries)"

definition named_version :: "string \<times> string option \<Rightarrow> json option" where
  "named_version p =
     (if fst p = [] then None else Some (object_of [(''name'', Some (fst p)), (''version'', snd p)]))"

text \<open>The \<open>setup\<close> of the context.\<close>

definition setup_context ::
  "bool \<Rightarrow> (string \<Rightarrow> parsed_agent) \<Rightarrow> http_head \<Rightarrow> string \<Rightarrow> request_context" where
  "setup_context trustCloudflareHeaders parse head requestId =
     (let agent = (if truthy (hh_user_agent head) then hh_user_agent head else None);
          parsed = map_option parse agent;
          header = (\<lambda>v. if truthy v then v else None)
      in \<lparr>rc_id = requestId, rc_ip = hh_ip head, rc_user_agent = agent,
          rc_accept_language = header (hh_accept_language head),
          rc_country = (if trustCloudflareHeaders then header (hh_cf_country head) else None),
          rc_cf_ray = (if trustCloudflareHeaders then header (hh_cf_ray head) else None),
          rc_browser = Option.bind parsed (\<lambda>p. Option.bind (pa_browser p) named_version),
          rc_os = Option.bind parsed (\<lambda>p. Option.bind (pa_os p) named_version),
          rc_device = Option.bind parsed (\<lambda>p.
            if truthy (pa_device_type p) \<or> truthy (pa_device_vendor p) \<or> truthy (pa_device_model p)
            then Some (object_of [(''type'', pa_device_type p), (''vendor'', pa_device_vendor p),
                                  (''model'', pa_device_model p)])
            else None),
          rc_method = hh_method head, rc_path = redactUrlSecrets (hh_url head)\<rparr>)"

section \<open>Writing\<close>

definition stash :: "request_context \<Rightarrow> (string \<times> json option) list" where
  "stash ctx =
     [(''ip'', map_option JStr (rc_ip ctx)), (''userAgent'', map_option JStr (rc_user_agent ctx)),
      (''acceptLanguage'', map_option JStr (rc_accept_language ctx)), (''country'', map_option JStr (rc_country ctx)),
      (''cfRay'', map_option JStr (rc_cf_ray ctx)), (''browser'', rc_browser ctx), (''os'', rc_os ctx),
      (''device'', rc_device ctx), (''requestId'', Some (JStr (rc_id ctx))),
      (''method'', Some (JStr (rc_method ctx))), (''path'', Some (JStr (rc_path ctx)))]"

fun with_content :: "string \<times> json option \<Rightarrow> (string \<times> json) option" where
  "with_content (k, None) = None"
| "with_content (k, Some JNull) = None"
| "with_content (k, Some (JStr [])) = None"
| "with_content (k, Some v) = Some (k, v)"

text \<open>\<open>{ ...object, key: value }\<close>: a key that is there keeps its place.\<close>

definition spread :: "(string \<times> json) list \<Rightarrow> string \<Rightarrow> json \<Rightarrow> (string \<times> json) list" where
  "spread entries k v =
     (if k \<in> fst ` set entries then map (\<lambda>(k', v'). (k', if k' = k then v else v')) entries
      else entries @ [(k, v)])"

type_synonym json_object = "(string \<times> json) list"

definition mergeRequestContext :: "request_context option \<Rightarrow> json_object option \<Rightarrow> json_object option" where
  "mergeRequestContext cls metadata =
     (case cls of
        None \<Rightarrow> metadata
      | Some ctx \<Rightarrow>
          (let request = List.map_filter with_content (stash ctx)
           in if request = [] then metadata
              else Some (spread (case metadata of None \<Rightarrow> [] | Some m \<Rightarrow> m) ''request'' (JObj request))))"

record audit_row =
  al_id :: ident
  al_created_at :: time
  al_action :: string
  al_actor_id :: "ident option"
  al_target_user_id :: "ident option"
  al_metadata :: "json_object option"

text \<open>\<open>writable\<close>: whether the insert succeeds; a failure is swallowed and answered with none.\<close>

definition record_entry ::
  "bool \<Rightarrow> request_context option \<Rightarrow> ident \<Rightarrow> time \<Rightarrow> string \<Rightarrow> ident option \<Rightarrow> ident option
   \<Rightarrow> json_object option \<Rightarrow> audit_row list \<Rightarrow> ident option \<times> audit_row list" where
  "record_entry writable cls newId now act actorId targetUserId metadata rows =
     (if writable
      then (Some newId, rows @ [\<lparr>al_id = newId, al_created_at = now, al_action = act, al_actor_id = actorId,
              al_target_user_id = targetUserId, al_metadata = mergeRequestContext cls metadata\<rparr>])
      else (None, rows))"

section \<open>Filters\<close>

text \<open>An inclusive range, and the range with the bound a scope adds.\<close>

record date_filter =
  df_gte :: "time option"
  df_lte :: "time option"
  df_lt :: "time option"

definition no_bounds :: date_filter where
  "no_bounds = \<lparr>df_gte = None, df_lte = None, df_lt = None\<rparr>"

definition buildDateRangeFilter :: "time option \<Rightarrow> time option \<Rightarrow> date_filter option" where
  "buildDateRangeFilter from_time to_time =
     (let filter = no_bounds\<lparr>df_gte := from_time, df_lte := to_time\<rparr>
      in if filter = no_bounds then None else Some filter)"

datatype time_scope = UPCOMING | PAST | ALL_TIME

definition buildTimeScopeFilter ::
  "time option \<Rightarrow> time option \<Rightarrow> time_scope option \<Rightarrow> time \<Rightarrow> date_filter option" where
  "buildTimeScopeFilter from_time to_time scope now =
     (let filter = (case buildDateRangeFilter from_time to_time of None \<Rightarrow> no_bounds | Some f \<Rightarrow> f);
          scoped = (case scope of
              Some UPCOMING \<Rightarrow> filter\<lparr>df_gte := Some (case df_gte filter of
                  Some g \<Rightarrow> if g > now then g else now | None \<Rightarrow> now)\<rparr>
            | Some PAST \<Rightarrow> (if (case df_lte filter of None \<Rightarrow> True | Some l \<Rightarrow> l > now)
                            then filter\<lparr>df_lt := Some now, df_lte := None\<rparr> else filter)
            | _ \<Rightarrow> filter)
      in if scoped = no_bounds then None else Some scoped)"

definition in_range :: "date_filter option \<Rightarrow> time \<Rightarrow> bool" where
  "in_range f t \<longleftrightarrow> (case f of None \<Rightarrow> True
     | Some d \<Rightarrow> (\<forall>g \<in> set_option (df_gte d). g \<le> t) \<and> (\<forall>l \<in> set_option (df_lte d). t \<le> l) \<and>
         (\<forall>l \<in> set_option (df_lt d). t < l))"

datatype sort_order = ASC | DESC

record audit_query =
  aq_page :: nat
  aq_per_page :: nat
  aq_search :: "string option"
  aq_sort_by :: "string option"
  aq_sort_order :: "sort_order option"
  aq_action :: "string option"
  aq_actor_id :: "string option"
  aq_target_user_id :: "string option"
  aq_start :: "time option"
  aq_end :: "time option"

definition buildOrderBy ::
  "string option \<Rightarrow> sort_order option \<Rightarrow> string list \<Rightarrow> string \<Rightarrow> sort_order \<Rightarrow> exn + string \<times> sort_order" where
  "buildOrderBy sortBy sortOrder allowedColumns defaultColumn defaultOrder =
     (if (case sortBy of None \<Rightarrow> False | Some requested \<Rightarrow> requested \<notin> set allowedColumns)
      then Inl (badRequest (''sortBy must be one of: '' @ join_with '', '' allowedColumns))
      else Inr (case sortBy of None \<Rightarrow> defaultColumn | Some requested \<Rightarrow> requested,
                case sortOrder of None \<Rightarrow> defaultOrder | Some ord \<Rightarrow> ord))"

text \<open>\<open>ILIKE\<close>: percent matches any text, underscore any character, a backslash takes the next character
  literally.\<close>

function ilike :: "string \<Rightarrow> string \<Rightarrow> bool" where
  "ilike [] t = (t = [])"
| "ilike (p # ps) [] = (p = CHR ''%'' \<and> ilike ps [])"
| "ilike (p # ps) (c # t) =
     (if p = CHR ''%'' then ilike ps (c # t) \<or> ilike (p # ps) t
      else if p = CHR ''_'' then ilike ps t
      else if p = CHR 0x5C \<and> ps \<noteq> [] then lower_char (hd ps) = lower_char c \<and> ilike (tl ps) t
      else lower_char p = lower_char c \<and> ilike ps t)"
  by pat_completeness auto
termination by (relation "measure (\<lambda>(p, t). length p + length t)") auto

definition contains_insensitive :: "string \<Rightarrow> string \<Rightarrow> bool" where
  "contains_insensitive term s \<longleftrightarrow> sublist (to_lower_case term) (to_lower_case s)"

datatype audit_clause =
    ActionContains string
  | ActorIn "ident list"
  | TargetIn "ident list"
  | IdIn "ident list"

record audit_where =
  aw_actor_id :: "ident option"
  aw_target_user_id :: "ident option"
  aw_created_at :: "date_filter option"
  aw_action :: "string option"
  aw_or :: "audit_clause list option"

definition no_where :: audit_where where
  "no_where = \<lparr>aw_actor_id = None, aw_target_user_id = None, aw_created_at = None, aw_action = None, aw_or = None\<rparr>"

definition findUserIdsMatchingEmail :: "string \<Rightarrow> user_row list \<Rightarrow> ident list" where
  "findUserIdsMatchingEmail term us = map u_id (filter (\<lambda>u. contains_insensitive term (u_email u)) us)"

text \<open>\<open>render\<close>: the text of a stored JSON value.\<close>

definition findAuditLogIdsMatchingMetadata :: "(json_object \<Rightarrow> string) \<Rightarrow> string \<Rightarrow> audit_row list \<Rightarrow> ident list" where
  "findAuditLogIdsMatchingMetadata render term rows =
     (let pattern = ''%'' @ term @ ''%''
      in map al_id (filter (\<lambda>r. case al_metadata r of None \<Rightarrow> False | Some m \<Rightarrow> ilike pattern (render m)) rows))"

definition buildFilter ::
  "(json_object \<Rightarrow> string) \<Rightarrow> audit_query \<Rightarrow> user_row list \<Rightarrow> audit_row list \<Rightarrow> audit_where option" where
  "buildFilter render query us rows =
     (let base = no_where\<lparr>aw_actor_id := (if truthy (aq_actor_id query) then aq_actor_id query else None),
                     aw_target_user_id := (if truthy (aq_target_user_id query) then aq_target_user_id query else None),
                     aw_created_at := buildDateRangeFilter (aq_start query) (aq_end query)\<rparr>;
          full = (if truthy (aq_action query) then base\<lparr>aw_action := aq_action query\<rparr>
            else if truthy (aq_search query) then
              (let term = the (aq_search query);
                   matchingUserIds = findUserIdsMatchingEmail term us;
                   matchingAuditLogIds = findAuditLogIdsMatchingMetadata render term rows
               in base\<lparr>aw_or := Some ([ActionContains term] @
                    (if matchingUserIds \<noteq> [] then [ActorIn matchingUserIds, TargetIn matchingUserIds] else []) @
                    (if matchingAuditLogIds \<noteq> [] then [IdIn matchingAuditLogIds] else []))\<rparr>)
            else base)
      in if full = no_where then None else Some full)"

fun clause_selects :: "audit_clause \<Rightarrow> audit_row \<Rightarrow> bool" where
  "clause_selects (ActionContains term) r = contains_insensitive term (al_action r)"
| "clause_selects (ActorIn ids) r = (case al_actor_id r of None \<Rightarrow> False | Some i \<Rightarrow> i \<in> set ids)"
| "clause_selects (TargetIn ids) r = (case al_target_user_id r of None \<Rightarrow> False | Some i \<Rightarrow> i \<in> set ids)"
| "clause_selects (IdIn ids) r = (al_id r \<in> set ids)"

definition where_selects :: "audit_where option \<Rightarrow> audit_row \<Rightarrow> bool" where
  "where_selects w r = (case w of None \<Rightarrow> True
     | Some f \<Rightarrow> (\<forall>i \<in> set_option (aw_actor_id f). al_actor_id r = Some i) \<and>
         (\<forall>i \<in> set_option (aw_target_user_id f). al_target_user_id r = Some i) \<and>
         in_range (aw_created_at f) (al_created_at r) \<and>
         (\<forall>a \<in> set_option (aw_action f). al_action r = a) \<and>
         (case aw_or f of None \<Rightarrow> True | Some clauses \<Rightarrow> list_ex (\<lambda>c. clause_selects c r) clauses))"

section \<open>Reading\<close>

record user_ref =
  ur_id :: ident
  ur_email :: string
  ur_first_name :: string
  ur_last_name :: string
  ur_roles :: "string list"

type_synonym hydrated_row = "audit_row \<times> user_ref option \<times> user_ref option"

definition user_ref_of :: "world \<Rightarrow> user_row \<Rightarrow> user_ref" where
  "user_ref_of w user =
     \<lparr>ur_id = u_id user, ur_email = u_email user, ur_first_name = u_first_name user, ur_last_name = u_last_name user,
      ur_roles = map r_name (List.map_filter (\<lambda>(u, role). if u = u_id user then find_role w role else None)
        (user_roles w))\<rparr>"

definition hydrateUserRefs :: "world \<Rightarrow> audit_row list \<Rightarrow> hydrated_row list" where
  "hydrateUserRefs w rows =
     (let referencedUserIds = filter (\<lambda>i. i \<noteq> []) (concat (map (\<lambda>r.
            (case al_actor_id r of None \<Rightarrow> [] | Some i \<Rightarrow> [i]) @
            (case al_target_user_id r of None \<Rightarrow> [] | Some i \<Rightarrow> [i])) rows))
      in if referencedUserIds = [] then map (\<lambda>r. (r, None, None)) rows
         else
           (let userById = map_of (map (\<lambda>u. (u_id u, user_ref_of w u))
                  (filter (\<lambda>u. u_id u \<in> set referencedUserIds) (users w)));
                ref = (\<lambda>i. if truthy i then userById (the i) else None)
            in map (\<lambda>r. (r, ref (al_actor_id r), ref (al_target_user_id r))) rows))"

record page_meta =
  pm_page :: nat
  pm_per_page :: nat
  pm_total :: nat
  pm_total_pages :: nat

definition AUDIT_LOG_SORTABLE_COLUMNS :: "string list" where
  "AUDIT_LOG_SORTABLE_COLUMNS = [''createdAt'', ''action'']"

text \<open>\<open>ordered\<close>: the rows in the order of a column.\<close>

definition findPaginated ::
  "(json_object \<Rightarrow> string) \<Rightarrow> (string \<times> sort_order \<Rightarrow> audit_row list \<Rightarrow> audit_row list) \<Rightarrow> audit_query \<Rightarrow> world
   \<Rightarrow> audit_row list \<Rightarrow> exn + hydrated_row list \<times> page_meta" where
  "findPaginated render ordered query w rows =
     (let page = aq_page query;
          perPage = aq_per_page query;
          selected = filter (where_selects (buildFilter render query (users w) rows)) rows
      in bindE (buildOrderBy (aq_sort_by query) (aq_sort_order query) AUDIT_LOG_SORTABLE_COLUMNS ''createdAt'' DESC)
           (\<lambda>orderBy.
         Inr (hydrateUserRefs w (take perPage (drop ((page - 1) * perPage) (ordered orderBy selected))),
              \<lparr>pm_page = page, pm_per_page = perPage, pm_total = length selected,
               pm_total_pages = (length selected + perPage - 1) div perPage\<rparr>)))"

definition findById :: "ident \<Rightarrow> world \<Rightarrow> audit_row list \<Rightarrow> exn + hydrated_row" where
  "findById i w rows =
     bindE (requireE (find (\<lambda>r. al_id r = i) rows) (resourceNotFound ''Audit log'' None)) (\<lambda>row.
     (case hydrateUserRefs w [row] of
        [] \<Rightarrow> Inl (JsError (''Audit log '' @ i @ '' was found but lost during hydration''))
      | hydrated # _ \<Rightarrow> Inr hydrated))"

text \<open>What an audit entry can be trusted for, and what a reader of the log sees: the envelope comes from the server, the
  pages of a query are its rows once each, a search is what it says for terms without wildcards, and the two time
  scopes divide a range.\<close>

section \<open>The envelope\<close>

definition content :: "json option \<Rightarrow> json option" where
  "content v = (case v of None \<Rightarrow> None | Some JNull \<Rightarrow> None | Some (JStr []) \<Rightarrow> None | Some j \<Rightarrow> Some j)"

lemma with_content: "with_content p = map_option (Pair (fst p)) (content (snd p))"
  by (cases p rule: with_content.cases) (simp_all add: content_def)

lemma map_of_with_content:
  "distinct (map fst xs) \<Longrightarrow>
   map_of (List.map_filter with_content xs) k = Option.bind (map_of xs k) content"
proof (induction xs arbitrary: k)
  case (Cons p xs)
  have absent: "map_of xs (fst p) = None" using Cons.prems by (simp add: map_of_eq_None_iff)
  then have none: "map_of (List.map_filter with_content xs) (fst p) = None"
    using Cons.IH [of "fst p"] Cons.prems by simp
  show ?case
    using Cons none absent
    by (cases "content (snd p)"; cases "k = fst p") (simp_all add: map_filter_simps with_content [of p])
qed (simp add: map_filter_simps)

lemma stash_keys: "distinct (map fst (stash ctx))"
  by (simp add: stash_def)

lemma map_of_keep: "map_of (map (\<lambda>(k', v'). (k', if k' = k then v else v')) xs) x =
    map_option (\<lambda>v'. if x = k then v else v') (map_of xs x)"
  by (induction xs) auto

lemma map_of_spread: "map_of (spread xs k v) x = (if x = k then Some v else map_of xs x)"
proof (cases "k \<in> fst ` set xs")
  case True
  then obtain v' where "map_of xs k = Some v'" by (metis map_of_eq_None_iff not_Some_eq)
  with True show ?thesis by (auto simp: spread_def map_of_keep option.map_ident)
next
  case False
  then have "map_of xs k = None" by (simp add: map_of_eq_None_iff)
  with False show ?thesis by (auto simp: spread_def map_add_def split: option.split)
qed

lemma resolved_id_safe: "SAFE_REQUEST_ID fresh \<Longrightarrow> SAFE_REQUEST_ID (fst (resolveRequestId None header fresh))"
  by (auto simp: resolveRequestId_def Let_def split: list.split)

text \<open>The id is resolved once: whoever asks later gets the same one.\<close>

lemma request_id_resolved_once:
  "resolveRequestId (snd (resolveRequestId r header fresh)) header' fresh' =
     (fst (resolveRequestId r header fresh), snd (resolveRequestId r header fresh))"
  by (auto simp: resolveRequestId_def Let_def split: option.split)

text \<open>C9: an entry written during a request carries under \<open>request\<close> what the server saw and nothing the caller
  passed: the id is short and plain, the path has its secrets redacted, and what only Cloudflare can vouch for is
  there only when its headers are trusted.  Every other key of the entry is the caller's.\<close>

theorem audit_envelope_is_vouched:
  assumes "SAFE_REQUEST_ID fresh"
    and "ctx = setup_context trust parse head (fst (resolveRequestId None (hh_request_id head) fresh))"
  shows "\<exists>m request i. mergeRequestContext (Some ctx) metadata = Some m \<and> map_of m ''request'' = Some (JObj request) \<and>
    map_of request ''requestId'' = Some (JStr i) \<and> SAFE_REQUEST_ID i \<and>
    map_of request ''path'' =
      (if redactUrlSecrets (hh_url head) = [] then None else Some (JStr (redactUrlSecrets (hh_url head)))) \<and>
    map_of request ''ip'' = Option.bind (hh_ip head) (\<lambda>a. if a = [] then None else Some (JStr a)) \<and>
    (trust \<or> map_of request ''country'' = None \<and> map_of request ''cfRay'' = None) \<and>
    (\<forall>k. map_of m k = (if k = ''request'' then Some (JObj request) else Option.bind metadata (\<lambda>given. map_of given k)))"
proof -
  let ?i = "fst (resolveRequestId None (hh_request_id head) fresh)"
  let ?request = "List.map_filter with_content (stash ctx)"
  let ?m = "spread (case metadata of None \<Rightarrow> [] | Some m \<Rightarrow> m) ''request'' (JObj ?request)"
  have i: "SAFE_REQUEST_ID ?i" by (rule resolved_id_safe [OF assms(1)])
  then have ne: "?i \<noteq> []" by (auto simp: SAFE_REQUEST_ID_def)
  have look: "map_of ?request k = Option.bind (map_of (stash ctx) k) content" for k
    by (rule map_of_with_content [OF stash_keys])
  have id: "map_of ?request ''requestId'' = Some (JStr ?i)"
    unfolding look using ne by (simp add: stash_def assms(2) setup_context_def Let_def content_def split: list.split)
  then have "?request \<noteq> []" by auto
  then have "mergeRequestContext (Some ctx) metadata = Some ?m" by (simp add: mergeRequestContext_def Let_def)
  moreover have "map_of ?m k =
      (if k = ''request'' then Some (JObj ?request) else Option.bind metadata (\<lambda>given. map_of given k))" for k
    by (cases metadata) (simp_all add: map_of_spread)
  moreover have "map_of ?request ''path'' =
      (if redactUrlSecrets (hh_url head) = [] then None else Some (JStr (redactUrlSecrets (hh_url head))))"
    unfolding look
    by (auto simp: stash_def assms(2) setup_context_def Let_def content_def split: list.split)
  moreover have "map_of ?request ''ip'' = Option.bind (hh_ip head) (\<lambda>a. if a = [] then None else Some (JStr a))"
    unfolding look
    by (cases "hh_ip head") (auto simp: stash_def assms(2) setup_context_def Let_def content_def split: list.split)
  moreover have "trust \<or> map_of ?request ''country'' = None \<and> map_of ?request ''cfRay'' = None"
    unfolding look by (simp add: stash_def assms(2) setup_context_def Let_def content_def)
  ultimately show ?thesis using id i by (intro exI [of _ ?m] exI [of _ ?request] exI [of _ ?i]) simp
qed

section \<open>Search\<close>

lemma ilike_percent: "ilike (CHR ''%'' # p) s \<longleftrightarrow> (\<exists>u v. s = u @ v \<and> ilike p v)"
proof (induction s)
  case (Cons c s)
  show ?case (is "?l \<longleftrightarrow> ?r")
  proof
    assume ?l
    then consider "ilike p (c # s)" | "ilike (CHR ''%'' # p) s" by auto
    then show ?r
    proof cases
      case 1
      then have "c # s = [] @ (c # s) \<and> ilike p (c # s)" by simp
      then show ?thesis by blast
    next
      case 2
      then obtain u v where "s = u @ v" "ilike p v" using Cons.IH by blast
      then show ?thesis by (intro exI [of _ "c # u"] exI [of _ v]) simp
    qed
  next
    assume ?r
    then obtain u v where uv: "c # s = u @ v" "ilike p v" by blast
    show ?l
    proof (cases u)
      case Nil
      with uv have "ilike p (c # s)" by simp
      then show ?thesis by simp
    next
      case (Cons d u')
      with uv have "\<exists>u v. s = u @ v \<and> ilike p v" by auto
      with Cons.IH show ?thesis by simp
    qed
  qed
qed simp

definition no_wildcards :: "string \<Rightarrow> bool" where
  "no_wildcards term \<longleftrightarrow> list_all (\<lambda>c. c \<notin> {CHR ''%'', CHR ''_'', CHR 0x5C}) term"

lemma ilike_plain:
  "no_wildcards p \<Longrightarrow> ilike (p @ q) s \<longleftrightarrow> (\<exists>u v. s = u @ v \<and> to_lower_case u = to_lower_case p \<and> ilike q v)"
proof (induction p arbitrary: s)
  case Nil
  then show ?case by (auto simp: to_lower_case_def)
next
  case (Cons d p)
  then have d: "d \<noteq> CHR ''%''" "d \<noteq> CHR ''_''" "d \<noteq> CHR 0x5C" and p: "no_wildcards p"
    by (simp_all add: no_wildcards_def)
  show ?case
  proof (cases s)
    case Nil
    with d show ?thesis by (auto simp: to_lower_case_def)
  next
    case s: (Cons c s')
    have "ilike ((d # p) @ q) s \<longleftrightarrow> lower_char d = lower_char c \<and>
        (\<exists>u v. s' = u @ v \<and> to_lower_case u = to_lower_case p \<and> ilike q v)"
      using d Cons.IH [OF p] by (simp add: s)
    also have "\<dots> \<longleftrightarrow> (\<exists>u v. s = u @ v \<and> to_lower_case u = to_lower_case (d # p) \<and> ilike q v)"
      (is "?l \<longleftrightarrow> ?r")
    proof
      assume ?l
      then obtain u v where "lower_char d = lower_char c" "s' = u @ v" "to_lower_case u = to_lower_case p" "ilike q v"
        by blast
      then show ?r by (intro exI [of _ "c # u"] exI [of _ v]) (simp add: s to_lower_case_def)
    next
      assume ?r
      then obtain u v where uv: "s = u @ v" "to_lower_case u = to_lower_case (d # p)" "ilike q v" by blast
      then obtain u' where "u = c # u'" using s by (cases u) (simp_all add: to_lower_case_def)
      with uv show ?l by (auto simp: s to_lower_case_def)
    qed
    finally show ?thesis .
  qed
qed

lemma split_mapped:
  assumes "map f xs = a @ b"
  obtains u v where "xs = u @ v" "map f u = a" "map f v = b"
proof (rule that [of "take (length a) xs" "drop (length a) xs"])
  show "map f (take (length a) xs) = a" "map f (drop (length a) xs) = b"
    by (simp_all add: take_map [symmetric] drop_map [symmetric] assms)
qed simp

lemma ilike_contains:
  assumes "no_wildcards term"
  shows "ilike (''%'' @ term @ ''%'') s \<longleftrightarrow> contains_insensitive term s"
proof -
  have any: "ilike ''%'' v" for v using ilike_percent [of "[]" v] by simp
  have "ilike (''%'' @ term @ ''%'') s \<longleftrightarrow> (\<exists>u v w. s = u @ v @ w \<and> to_lower_case v = to_lower_case term)"
    using ilike_percent [of "term @ ''%''" s] ilike_plain [OF assms, of "''%''"] any by auto
  also have "\<dots> \<longleftrightarrow> sublist (to_lower_case term) (to_lower_case s)" (is "?l \<longleftrightarrow> ?r")
  proof
    assume ?l
    then obtain u v w where "s = u @ v @ w" "to_lower_case v = to_lower_case term" by blast
    then have "to_lower_case s = to_lower_case u @ to_lower_case term @ to_lower_case w"
      by (simp add: to_lower_case_def)
    then show ?r unfolding sublist_def by blast
  next
    assume ?r
    then obtain a b where "map lower_char s = a @ to_lower_case term @ b"
      by (auto simp: to_lower_case_def sublist_def)
    then obtain u rest where u: "s = u @ rest" "map lower_char u = a" "map lower_char rest = to_lower_case term @ b"
      by (rule split_mapped)
    from u(3) obtain v w where v: "rest = v @ w" "map lower_char v = to_lower_case term" "map lower_char w = b"
      by (rule split_mapped)
    then show ?l using u(1) by (intro exI [of _ u] exI [of _ v] exI [of _ w]) (simp add: to_lower_case_def)
  qed
  finally show ?thesis unfolding contains_insensitive_def .
qed

text \<open>A search answers the entries whose action, or whose text, or the address of one of whose parties contains the
  term, the addresses of closed accounts included.\<close>

lemma search_exact:
  assumes "distinct (map al_id rows)" and "r \<in> set rows" and "no_wildcards term" and "term \<noteq> []"
    and "query = \<lparr>aq_page = 1, aq_per_page = n, aq_search = Some term, aq_sort_by = None, aq_sort_order = None,
       aq_action = None, aq_actor_id = None, aq_target_user_id = None, aq_start = None, aq_end = None\<rparr>"
  shows "where_selects (buildFilter render query us rows) r \<longleftrightarrow>
    contains_insensitive term (al_action r) \<or>
    (\<exists>u \<in> set us. (al_actor_id r = Some (u_id u) \<or> al_target_user_id r = Some (u_id u)) \<and>
       contains_insensitive term (u_email u)) \<or>
    (\<exists>m. al_metadata r = Some m \<and> contains_insensitive term (render m))"
proof -
  let ?users = "findUserIdsMatchingEmail term us" and ?ids = "findAuditLogIdsMatchingMetadata render term rows"
  have ids: "al_id r \<in> set ?ids \<longleftrightarrow> (\<exists>m. al_metadata r = Some m \<and> contains_insensitive term (render m))"
  proof
    assume "al_id r \<in> set ?ids"
    then obtain x where x: "x \<in> set rows" "al_id x = al_id r"
      "\<exists>m. al_metadata x = Some m \<and> ilike (''%'' @ term @ ''%'') (render m)"
      by (auto simp: findAuditLogIdsMatchingMetadata_def Let_def split: option.splits)
    from distinct_key [OF assms(1) x(1) assms(2) x(2)] x(3)
    show "\<exists>m. al_metadata r = Some m \<and> contains_insensitive term (render m)"
      unfolding ilike_contains [OF assms(3)] by simp
  next
    assume "\<exists>m. al_metadata r = Some m \<and> contains_insensitive term (render m)"
    then have "\<exists>m. al_metadata r = Some m \<and> ilike (''%'' @ term @ ''%'') (render m)"
      unfolding ilike_contains [OF assms(3)] .
    then show "al_id r \<in> set ?ids"
      using assms(2) by (auto simp: findAuditLogIdsMatchingMetadata_def Let_def image_iff)
  qed
  have us: "set ?users = {u_id u | u. u \<in> set us \<and> contains_insensitive term (u_email u)}"
    by (auto simp: findUserIdsMatchingEmail_def)
  have f: "buildFilter render query us rows = Some (no_where\<lparr>aw_or := Some ([ActionContains term] @
      (if ?users \<noteq> [] then [ActorIn ?users, TargetIn ?users] else []) @ (if ?ids \<noteq> [] then [IdIn ?ids] else []))\<rparr>)"
    using assms(4)
    by (simp add: assms(5) buildFilter_def truthy_def buildDateRangeFilter_def no_bounds_def no_where_def Let_def)
  have "where_selects (buildFilter render query us rows) r \<longleftrightarrow> contains_insensitive term (al_action r) \<or>
      (\<exists>i \<in> set ?users. al_actor_id r = Some i \<or> al_target_user_id r = Some i) \<or> al_id r \<in> set ?ids"
    unfolding f where_selects_def
    by (auto simp: no_where_def in_range_def split: option.splits)
  then show ?thesis unfolding ids us by auto
qed

text \<open>With an underscore in it a term finds entries that do not contain it.\<close>

lemma underscore_finds_other_entries:
  assumes "al_metadata r = Some m" and "render m = ''order axb''"
  shows "al_id r \<in> set (findAuditLogIdsMatchingMetadata render ''a_b'' [r]) \<and>
    \<not> contains_insensitive ''a_b'' (render m)"
proof
  have "ilike ''%a_b%'' ''order axb''" by code_simp
  then show "al_id r \<in> set (findAuditLogIdsMatchingMetadata render ''a_b'' [r])"
    using assms by (simp add: findAuditLogIdsMatchingMetadata_def Let_def)
  have "CHR ''_'' \<notin> set (to_lower_case ''order axb'')" "CHR ''_'' \<in> set (to_lower_case ''a_b'')" by code_simp+
  then show "\<not> contains_insensitive ''a_b'' (render m)"
    unfolding contains_insensitive_def assms(2) by (auto dest: set_mono_sublist)
qed

section \<open>Pages\<close>

lemma hydrate_rows: "map fst (hydrateUserRefs w rows) = rows"
  by (simp add: hydrateUserRefs_def Let_def comp_def)

lemma concat_pages:
  "0 < n \<Longrightarrow> concat (map (\<lambda>p. take n (drop (p * n) xs)) [0..<k]) = take (k * n) xs"
proof (induction k)
  case (Suc k)
  have "concat (map (\<lambda>p. take n (drop (p * n) xs)) [0..<Suc k]) = take (k * n) xs @ take n (drop (k * n) xs)"
    using Suc by simp
  also have "\<dots> = take (Suc k * n) xs" by (simp only: take_add [symmetric] mult_Suc add.commute)
  finally show ?case .
qed simp

lemma ceiling_pages: "0 < (n::nat) \<Longrightarrow> l \<le> ((l + n - 1) div n) * n"
  using dividend_less_div_times [of n "l + n - 1"] by linarith

lemma filter_ignores_page [simp]: "buildFilter render (query\<lparr>aq_page := p\<rparr>) us rows = buildFilter render query us rows"
  by (simp add: buildFilter_def Let_def)

text \<open>What an order of the rows is: every row once.\<close>

definition orders_rows :: "(string \<times> sort_order \<Rightarrow> audit_row list \<Rightarrow> audit_row list) \<Rightarrow> bool" where
  "orders_rows ordered \<longleftrightarrow> (\<forall>orderBy rows. mset (ordered orderBy rows) = mset rows)"

text \<open>Walking the pages of a query, from the first to the last the metadata announces, shows every entry the filter
  selects exactly once, in the order asked for.\<close>

theorem pages_cover_the_query:
  assumes "orders_rows ordered" and "0 < aq_per_page query"
    and "buildOrderBy (aq_sort_by query) (aq_sort_order query) AUDIT_LOG_SORTABLE_COLUMNS ''createdAt'' DESC = Inr orderBy"
  shows "\<exists>pages total. (\<forall>p. \<exists>meta.
      findPaginated render ordered (query\<lparr>aq_page := Suc p\<rparr>) w rows = Inr (pages p, meta) \<and> pm_total_pages meta = total) \<and>
    concat (map (\<lambda>p. map fst (pages p)) [0..<total]) =
      ordered orderBy (filter (where_selects (buildFilter render query (users w) rows)) rows) \<and>
    mset (concat (map (\<lambda>p. map fst (pages p)) [0..<total])) =
      mset (filter (where_selects (buildFilter render query (users w) rows)) rows)"
proof -
  let ?selected = "filter (where_selects (buildFilter render query (users w) rows)) rows"
  let ?n = "aq_per_page query"
  let ?total = "(length ?selected + ?n - 1) div ?n"
  let ?pages = "\<lambda>p. hydrateUserRefs w (take ?n (drop (p * ?n) (ordered orderBy ?selected)))"
  have page: "findPaginated render ordered (query\<lparr>aq_page := Suc p\<rparr>) w rows = Inr (?pages p,
      \<lparr>pm_page = Suc p, pm_per_page = ?n, pm_total = length ?selected, pm_total_pages = ?total\<rparr>)" for p
    using assms(3) by (simp add: findPaginated_def Let_def)
  have perm: "mset (ordered orderBy ?selected) = mset ?selected"
    using assms(1) unfolding orders_rows_def by blast
  then have "length (ordered orderBy ?selected) = length ?selected" by (rule mset_eq_length)
  moreover have "length ?selected \<le> ?total * ?n" by (rule ceiling_pages [OF assms(2)])
  ultimately have all: "concat (map (\<lambda>p. map fst (?pages p)) [0..<?total]) = ordered orderBy ?selected"
    unfolding hydrate_rows concat_pages [OF assms(2)] by simp
  show ?thesis
  proof (intro exI conjI allI)
    show "findPaginated render ordered (query\<lparr>aq_page := Suc p\<rparr>) w rows = Inr (?pages p,
        \<lparr>pm_page = Suc p, pm_per_page = ?n, pm_total = length ?selected, pm_total_pages = ?total\<rparr>)" for p
      by (rule page)
    show "concat (map (\<lambda>p. map fst (?pages p)) [0..<?total]) = ordered orderBy ?selected" by (rule all)
    show "mset (concat (map (\<lambda>p. map fst (?pages p)) [0..<?total])) = mset ?selected" unfolding all by (rule perm)
  qed simp
qed

section \<open>Time scopes\<close>

text \<open>An instant of a range is upcoming or past, and not both, unless the range ends at this very instant.\<close>

lemma scopes_divide:
  assumes "to_time \<noteq> Some now"
  shows "in_range (buildTimeScopeFilter from_time to_time (Some PAST) now) t \<longleftrightarrow>
    in_range (buildDateRangeFilter from_time to_time) t \<and>
    \<not> in_range (buildTimeScopeFilter from_time to_time (Some UPCOMING) now) t"
  using assms
  by (cases from_time; cases to_time)
    (auto simp: buildTimeScopeFilter_def buildDateRangeFilter_def no_bounds_def in_range_def Let_def)

text \<open>There the instant is counted by both.\<close>

lemma boundary_counted_twice:
  "in_range (buildTimeScopeFilter None (Some now) (Some PAST) now) now \<and>
   in_range (buildTimeScopeFilter None (Some now) (Some UPCOMING) now) now"
  by (simp add: buildTimeScopeFilter_def buildDateRangeFilter_def no_bounds_def in_range_def Let_def)

end
