(* ===== verification/Mail_Templates.thy ===== *)
theory Mail_Templates
  imports Errors "HOL-Library.Sublist"
begin

text \<open>
  \<open>src/src/common/email/template-engine.ts\<close>: the templates, their subjects, the rendering, and the plain text made of
  an HTML body.

  Handlebars' \<open>compile\<close> and the reading of a file are arguments, and so is \<open>String.fromCharCode\<close>, since a character of
  the model is one of the first 256 (the dash of the error message is written as two hyphens).
\<close>

section \<open>Replacing\<close>

text \<open>\<open>String.prototype.replace\<close> with a global expression, as a matcher: at the start of a text it answers how many
  characters it takes and what replaces them.\<close>

type_synonym matcher = "string \<Rightarrow> (nat \<times> string) option"

function replaceAll :: "matcher \<Rightarrow> string \<Rightarrow> string" where
  "replaceAll m [] = []"
| "replaceAll m (c # cs) =
     (case m (c # cs) of
        None \<Rightarrow> c # replaceAll m cs
      | Some (n, r) \<Rightarrow> r @ replaceAll m (drop (n - 1) cs))"
  by pat_completeness auto
termination by (relation "measure (\<lambda>(m, s). length s)") auto

definition literal :: "string \<Rightarrow> string \<Rightarrow> matcher" where
  "literal pat r = (\<lambda>s. if take (length pat) s = pat then Some (length pat, r) else None)"

definition starts_with :: "string \<Rightarrow> string \<Rightarrow> bool" where
  "starts_with pat s \<longleftrightarrow> to_lower_case (take (length pat) s) = pat"

text \<open>The index just after the first occurrence of a pattern, in any case.\<close>

fun after_first :: "string \<Rightarrow> string \<Rightarrow> nat option" where
  "after_first pat [] = (if pat = [] then Some 0 else None)"
| "after_first pat (c # cs) =
     (if starts_with pat (c # cs) then Some (length pat) else map_option Suc (after_first pat cs))"

text \<open>\<open>/<(style|script)[\s\S]*?<\/\1>/gi\<close>.\<close>

definition invisible_block :: matcher where
  "invisible_block = (\<lambda>s.
     case find (\<lambda>tag. starts_with (''<'' @ tag) s) [''style'', ''script''] of
       None \<Rightarrow> None
     | Some tag \<Rightarrow> map_option (\<lambda>n. (Suc (length tag) + n, []))
         (after_first (''</'' @ tag @ ''>'') (drop (Suc (length tag)) s)))"

definition newline :: string where
  "newline = [CHR 0x0A]"

text \<open>\<open>/<br\s*\/?>/gi\<close>.\<close>

definition line_break :: matcher where
  "line_break = (\<lambda>s.
     if starts_with ''<br'' s
     then (let gap = takeWhile white_space (drop 3 s);
               rest = drop (3 + length gap) s
           in if take 1 rest = ''>'' then Some (4 + length gap, newline)
              else if take 2 rest = ''/>'' then Some (5 + length gap, newline) else None)
     else None)"

text \<open>\<open>/<\/(p|div|h[1-6]|li)>/gi\<close>.\<close>

definition BLOCK_ENDS :: "string list" where
  "BLOCK_ENDS = [''</p>'', ''</div>'', ''</h1>'', ''</h2>'', ''</h3>'', ''</h4>'', ''</h5>'', ''</h6>'', ''</li>'']"

definition block_end :: matcher where
  "block_end = (\<lambda>s. map_option (\<lambda>pat. (length pat, newline @ newline)) (find (\<lambda>pat. starts_with pat s) BLOCK_ENDS))"

text \<open>\<open>/<[^>]+>/g\<close>.\<close>

definition tag :: matcher where
  "tag = (\<lambda>s. case s of
       [] \<Rightarrow> None
     | c # cs \<Rightarrow>
         (let inside = takeWhile (\<lambda>x. x \<noteq> CHR ''>'') cs
          in if c = CHR ''<'' \<and> inside \<noteq> [] \<and> length inside < length cs then Some (length inside + 2, []) else None))"

definition hex_digit :: "char \<Rightarrow> bool" where
  "hex_digit c \<longleftrightarrow> digit c \<or> lower_char c \<in> set ''abcdef''"

definition hex_value :: "char \<Rightarrow> nat" where
  "hex_value c = (if digit c then digit_value c else of_char (lower_char c) - 87)"

definition parse_hex :: "string \<Rightarrow> nat" where
  "parse_hex s = foldl (\<lambda>n c. n * 16 + hex_value c) 0 s"

text \<open>\<open>/&#x([0-9a-f]+);/gi\<close> and \<open>/&#(\d+);/g\<close>.\<close>

definition hex_entity :: "(nat \<Rightarrow> char) \<Rightarrow> matcher" where
  "hex_entity fromCharCode = (\<lambda>s. case s of
       a # b # x # rest \<Rightarrow>
         (let hex = takeWhile hex_digit rest
          in if a = CHR ''&'' \<and> b = CHR ''#'' \<and> lower_char x = CHR ''x'' \<and> hex \<noteq> [] \<and>
                take 1 (drop (length hex) rest) = '';''
             then Some (length hex + 4, [fromCharCode (parse_hex hex)]) else None)
     | _ \<Rightarrow> None)"

definition decimal_entity :: "(nat \<Rightarrow> char) \<Rightarrow> matcher" where
  "decimal_entity fromCharCode = (\<lambda>s. case s of
       a # b # rest \<Rightarrow>
         (let dec = takeWhile digit rest
          in if a = CHR ''&'' \<and> b = CHR ''#'' \<and> dec \<noteq> [] \<and> take 1 (drop (length dec) rest) = '';''
             then Some (length dec + 3, [fromCharCode (parse_decimal dec)]) else None)
     | _ \<Rightarrow> None)"

text \<open>\<open>/\n{3,}/g\<close>.\<close>

definition many_newlines :: matcher where
  "many_newlines = (\<lambda>s.
     let run = takeWhile (\<lambda>c. c = CHR 0x0A) s
     in if 3 \<le> length run then Some (length run, newline @ newline) else None)"

definition htmlToText :: "(nat \<Rightarrow> char) \<Rightarrow> string \<Rightarrow> string" where
  "htmlToText fromCharCode html =
     trim (foldl (\<lambda>s m. replaceAll m s) html
       [invisible_block, line_break, block_end, tag,
        literal ''&nbsp;'' '' '', literal ''&amp;'' ''&'', literal ''&lt;'' ''<'', literal ''&gt;'' ''>'',
        literal ''&quot;'' [CHR 0x22], literal ''&apos;'' [CHR 0x27],
        hex_entity fromCharCode, decimal_entity fromCharCode, many_newlines])"

section \<open>The engine\<close>

type_synonym template_vars = "string \<rightharpoonup> string"

record compiled_template =
  cp_html :: "template_vars \<Rightarrow> string"
  cp_text :: "(template_vars \<Rightarrow> string) option"

definition TEMPLATE_KEYS :: "string list" where
  "TEMPLATE_KEYS = [''email-verification-link'', ''password-reset-link'', ''password-changed-notification'',
     ''sign-up-account-exists'', ''email-changed-notification'', ''workspace-invitation'']"

definition TEMPLATE_SUBJECTS :: "string \<Rightarrow> template_vars \<Rightarrow> string option" where
  "TEMPLATE_SUBJECTS key vars =
     (if key = ''email-verification-link'' then Some ''Verify your email''
      else if key = ''password-reset-link'' then Some ''Reset your password''
      else if key = ''password-changed-notification'' then Some ''Your password was changed''
      else if key = ''sign-up-account-exists'' then Some ''You already have an account''
      else if key = ''email-changed-notification'' then Some ''Your email address was changed''
      else if key = ''workspace-invitation''
      then Some (''Join '' @ (case vars ''workspaceName'' of None \<Rightarrow> ''undefined'' | Some n \<Rightarrow> n))
      else None)"

text \<open>\<open>/^(.+)\.(html|text)\.hbs$/\<close>, the first group.\<close>

definition template_key :: "string \<Rightarrow> string option" where
  "template_key file =
     (let n = length file - 9; key = take n file; suffix = drop n file
      in if 9 < length file \<and> suffix \<in> {''.html.hbs'', ''.text.hbs''} then Some key else None)"

definition load_templates ::
  "(string \<Rightarrow> template_vars \<Rightarrow> string) \<Rightarrow> (string \<rightharpoonup> string) \<Rightarrow> string list \<Rightarrow> (string \<rightharpoonup> compiled_template)" where
  "load_templates compile read files =
     (\<lambda>key. if key \<in> set (List.map_filter template_key files)
        then (case read (key @ ''.html.hbs'') of
                None \<Rightarrow> None
              | Some html \<Rightarrow> Some \<lparr>cp_html = compile html, cp_text = map_option compile (read (key @ ''.text.hbs''))\<rparr>)
        else None)"

record rendered =
  rd_subject :: string
  rd_html :: string
  rd_text :: string

definition render_template ::
  "(nat \<Rightarrow> char) \<Rightarrow> (string \<rightharpoonup> compiled_template) \<Rightarrow> string \<Rightarrow> template_vars \<Rightarrow> exn + rendered" where
  "render_template fromCharCode compiled key vars =
     (case compiled key of
        None \<Rightarrow> Inl (JsError (''Unknown email template: '' @ [CHR 0x22] @ key @ [CHR 0x22] @
          '' -- did you add '' @ key @ ''.html.hbs to the templates directory?''))
      | Some t \<Rightarrow>
          (let subj = (case TEMPLATE_SUBJECTS key vars of None \<Rightarrow> ''undefined'' | Some s \<Rightarrow> s);
               html = trim (cp_html t vars);
               plain = (case cp_text t of Some f \<Rightarrow> trim (f vars) | None \<Rightarrow> htmlToText fromCharCode html)
           in Inr \<lparr>rd_subject = trim subj, rd_html = html, rd_text = plain\<rparr>))"

section \<open>Every template renders\<close>

lemma template_key_html: "key \<noteq> [] \<Longrightarrow> template_key (key @ ''.html.hbs'') = Some key"
  by (simp add: template_key_def Let_def)

lemma loaded_iff:
  assumes "key \<noteq> []" and "\<And>f. read f \<noteq> None \<longleftrightarrow> f \<in> set files"
  shows "load_templates compile read files key \<noteq> None \<longleftrightarrow> key @ ''.html.hbs'' \<in> set files"
proof -
  have "key \<in> set (List.map_filter template_key files)" if "key @ ''.html.hbs'' \<in> set files"
    using that template_key_html [OF assms(1)] by (force simp: map_filter_def)
  then show ?thesis
    using assms(2) [of "key @ ''.html.hbs''"] by (auto simp: load_templates_def split: option.splits)
qed

text \<open>A message is rendered exactly when its HTML template is in the directory, whatever else is there.\<close>

lemma rendered_iff_html_present:
  assumes "key \<in> set TEMPLATE_KEYS" and "\<And>f. read f \<noteq> None \<longleftrightarrow> f \<in> set files"
  shows "(\<exists>message. render_template fromCharCode (load_templates compile read files) key vars = Inr message) \<longleftrightarrow>
    key @ ''.html.hbs'' \<in> set files"
proof -
  have "key \<noteq> []" using assms(1) by (auto simp: TEMPLATE_KEYS_def)
  from loaded_iff [OF this assms(2), of compile] show ?thesis
    by (auto simp: render_template_def Let_def split: option.splits)
qed

text \<open>The plain text of a message: a value that Handlebars escaped into the HTML body reads the same in the text made of
  that body, unless it contains a semicolon.\<close>

section \<open>Replacing at entities only\<close>

lemma replaceAll_idle: "(\<And>t. suffix t s \<Longrightarrow> m t = None) \<Longrightarrow> replaceAll m s = s"
  by (induction s) (auto simp: suffix_Cons)

text \<open>A matcher of entities: an ampersand, a name, a semicolon.\<close>

definition entity_matcher :: "matcher \<Rightarrow> bool" where
  "entity_matcher m \<longleftrightarrow> (\<forall>s n r. m s = Some (n, r) \<longrightarrow>
     (\<exists>name rest. s = ''&'' @ name @ '';'' @ rest \<and> CHR ''&'' \<notin> set name \<and> CHR '';'' \<notin> set name))"

definition entity :: "string \<Rightarrow> bool" where
  "entity u \<longleftrightarrow> (\<exists>name. u = ''&'' @ name @ '';'' \<and> CHR ''&'' \<notin> set name \<and> CHR '';'' \<notin> set name)"

text \<open>What a character of the value stands as: itself, or its entity.\<close>

definition unit_of :: "(char \<Rightarrow> string) \<Rightarrow> char \<Rightarrow> bool" where
  "unit_of e c \<longleftrightarrow> e c = [c] \<and> c \<noteq> CHR '';'' \<or> entity (e c)"

lemma entity_headed: "entity u \<Longrightarrow> \<exists>us. u = CHR ''&'' # us \<and> CHR ''&'' \<notin> set us"
  by (auto simp: entity_def)

lemma no_false_entity:
  assumes "\<forall>c \<in> set v. unit_of e c" and "CHR ''&'' \<notin> set name" and "CHR '';'' \<notin> set name"
  shows "concat (map e v) \<noteq> name @ '';'' @ rest"
  using assms
proof (induction name arbitrary: v)
  case Nil
  show ?case
  proof (cases v)
    case v: (Cons c v')
    with Nil(1) have "e c = [c] \<and> c \<noteq> CHR '';'' \<or> entity (e c)" by (simp add: unit_of_def)
    then show ?thesis
    proof
      assume "entity (e c)"
      then obtain us where "e c = CHR ''&'' # us" using entity_headed by blast
      then show ?thesis by (simp add: v)
    qed (simp add: v)
  qed simp
next
  case (Cons a name)
  show ?case
  proof (cases v)
    case v: (Cons c v')
    from Cons.prems(1) v consider "e c = [c]" "c \<noteq> CHR '';''" | us where "e c = CHR ''&'' # us"
      by (auto simp: unit_of_def dest: entity_headed)
    then show ?thesis
    proof cases
      case 1
      have "concat (map e v') \<noteq> name @ '';'' @ rest"
        using Cons.IH [of v'] Cons.prems v by simp
      with 1 v show ?thesis by auto
    next
      case 2
      with v Cons.prems(2) show ?thesis by auto
    qed
  qed simp
qed

lemma replaceAll_skip:
  assumes "entity_matcher m" and "CHR ''&'' \<notin> set xs"
  shows "replaceAll m (xs @ ys) = xs @ replaceAll m ys"
  using assms(2)
proof (induction xs)
  case (Cons c xs)
  have "m (c # xs @ ys) = None"
  proof (rule ccontr)
    assume "m (c # xs @ ys) \<noteq> None"
    then obtain n r where "m (c # xs @ ys) = Some (n, r)" by auto
    with assms(1) Cons.prems show False unfolding entity_matcher_def by fastforce
  qed
  with Cons show ?case by simp
qed simp

text \<open>One pass over a value of which some characters are escaped: it undoes the entities it matches.\<close>

lemma pass_units:
  assumes "entity_matcher m" and "\<forall>c \<in> set v. unit_of e c"
    and "\<forall>c \<in> set v. e c = [c] \<and> e' c = [c] \<or> entity (e c) \<and>
      (e' c = [c] \<and> (\<forall>rest. m (e c @ rest) = Some (length (e c), [c])) \<or> e' c = e c \<and> (\<forall>rest. m (e c @ rest) = None))"
  shows "replaceAll m (concat (map e v)) = concat (map e' v)"
  using assms(2,3)
proof (induction v)
  case (Cons c v)
  then have IH: "replaceAll m (concat (map e v)) = concat (map e' v)" by simp
  let ?rest = "concat (map e v)"
  from Cons.prems(2) consider "e c = [c]" "e' c = [c]"
    | "entity (e c)" "e' c = [c]" "\<forall>rest. m (e c @ rest) = Some (length (e c), [c])"
    | "entity (e c)" "e' c = e c" "\<forall>rest. m (e c @ rest) = None" by auto
  then show ?case
  proof cases
    case 1
    have "m (c # ?rest) = None"
    proof (rule ccontr)
      assume "m (c # ?rest) \<noteq> None"
      then obtain n r where "m (c # ?rest) = Some (n, r)" by auto
      then obtain name rest where "c # ?rest = ''&'' @ name @ '';'' @ rest" "CHR ''&'' \<notin> set name" "CHR '';'' \<notin> set name"
        using assms(1) unfolding entity_matcher_def by blast
      then show False using no_false_entity [of v e name rest] Cons.prems(1) by simp
    qed
    with 1 IH show ?thesis by simp
  next
    case 2
    obtain us where us: "e c = CHR ''&'' # us" using entity_headed [OF 2(1)] by blast
    have "m (CHR ''&'' # us @ ?rest) = Some (Suc (length us), [c])" using 2(3) us by simp
    then show ?thesis using 2(2) IH us by simp
  next
    case 3
    obtain us where us: "e c = CHR ''&'' # us" "CHR ''&'' \<notin> set us" using entity_headed [OF 3(1)] by blast
    have "m (CHR ''&'' # us @ ?rest) = None" using 3(3) us by simp
    then show ?thesis using 3(2) IH us replaceAll_skip [OF assms(1) us(2)] by simp
  qed
qed simp

section \<open>The matchers\<close>

lemma literal_entity:
  assumes "CHR ''&'' \<notin> set name" and "CHR '';'' \<notin> set name" and "pat = ''&'' @ name @ '';''"
  shows "entity_matcher (literal pat r)"
  unfolding entity_matcher_def
proof (intro allI impI)
  fix s n r'
  assume "literal pat r s = Some (n, r')"
  then have "take (length pat) s = pat" by (auto simp: literal_def split: if_splits)
  then have "s = pat @ drop (length pat) s" by (metis append_take_drop_id)
  then have "s = ''&'' @ name @ '';'' @ drop (length pat) s" unfolding assms(3) by simp
  with assms(1,2) show "\<exists>name rest. s = ''&'' @ name @ '';'' @ rest \<and> CHR ''&'' \<notin> set name \<and> CHR '';'' \<notin> set name"
    by blast
qed

lemma split_run:
  assumes "take 1 (drop (length (takeWhile P xs)) xs) = [d]"
  shows "xs = takeWhile P xs @ [d] @ drop (Suc (length (takeWhile P xs))) xs"
proof -
  have "xs = takeWhile P xs @ drop (length (takeWhile P xs)) xs"
    by (metis append_take_drop_id takeWhile_eq_take)
  moreover have "drop (length (takeWhile P xs)) xs = [d] @ drop 1 (drop (length (takeWhile P xs)) xs)"
    using assms by (metis append_take_drop_id)
  ultimately show ?thesis by simp
qed

lemma run_free: "\<not> P d \<Longrightarrow> d \<notin> set (takeWhile P xs)"
  by (auto dest: set_takeWhileD)

lemma marks: "\<not> hex_digit (CHR ''&'')" "\<not> hex_digit (CHR '';'')" "\<not> digit (CHR ''&'')" "\<not> digit (CHR '';'')"
  "lower_char (CHR ''&'') \<noteq> CHR ''x''" "lower_char (CHR '';'') \<noteq> CHR ''x''"
  by code_simp+

lemma hex_entity_matches: "entity_matcher (hex_entity f)"
  unfolding entity_matcher_def
proof (intro allI impI)
  fix s n r
  assume "hex_entity f s = Some (n, r)"
  then obtain x rest where s: "s = CHR ''&'' # CHR ''#'' # x # rest" "lower_char x = CHR ''x''"
    and run: "take 1 (drop (length (takeWhile hex_digit rest)) rest) = '';''"
    by (auto simp: hex_entity_def Let_def split: list.splits if_splits)
  have "s = ''&'' @ (CHR ''#'' # x # takeWhile hex_digit rest) @ '';'' @ drop (Suc (length (takeWhile hex_digit rest))) rest"
    using split_run [OF run] s(1) by simp
  moreover have "CHR ''&'' \<notin> set (CHR ''#'' # x # takeWhile hex_digit rest)"
    "CHR '';'' \<notin> set (CHR ''#'' # x # takeWhile hex_digit rest)"
    using s(2) marks run_free [of hex_digit] by auto
  ultimately show "\<exists>name rest. s = ''&'' @ name @ '';'' @ rest \<and> CHR ''&'' \<notin> set name \<and> CHR '';'' \<notin> set name"
    by blast
qed

lemma decimal_entity_matches: "entity_matcher (decimal_entity f)"
  unfolding entity_matcher_def
proof (intro allI impI)
  fix s n r
  assume "decimal_entity f s = Some (n, r)"
  then obtain rest where s: "s = CHR ''&'' # CHR ''#'' # rest"
    and run: "take 1 (drop (length (takeWhile digit rest)) rest) = '';''"
    by (auto simp: decimal_entity_def Let_def split: list.splits if_splits)
  have "s = ''&'' @ (CHR ''#'' # takeWhile digit rest) @ '';'' @ drop (Suc (length (takeWhile digit rest))) rest"
    using split_run [OF run] s by simp
  moreover have "CHR ''&'' \<notin> set (CHR ''#'' # takeWhile digit rest)" "CHR '';'' \<notin> set (CHR ''#'' # takeWhile digit rest)"
    using marks run_free [of digit] by auto
  ultimately show "\<exists>name rest. s = ''&'' @ name @ '';'' @ rest \<and> CHR ''&'' \<notin> set name \<and> CHR '';'' \<notin> set name"
    by blast
qed

section \<open>The escape of Handlebars\<close>

text \<open>Documented behaviour: seven characters are escaped, the others stand for themselves.\<close>

definition SPECIALS :: "string" where
  "SPECIALS = [CHR ''&'', CHR ''<'', CHR ''>'', CHR 0x22, CHR 0x27, CHR 0x60, CHR ''='']"

definition escapes_as_documented :: "(char \<Rightarrow> string) \<Rightarrow> bool" where
  "escapes_as_documented esc \<longleftrightarrow>
     esc (CHR ''&'') = ''&amp;'' \<and> esc (CHR ''<'') = ''&lt;'' \<and> esc (CHR ''>'') = ''&gt;'' \<and>
     esc (CHR 0x22) = ''&quot;'' \<and> esc (CHR 0x27) = ''&#x27;'' \<and> esc (CHR 0x60) = ''&#x60;'' \<and>
     esc (CHR ''='') = ''&#x3D;'' \<and> (\<forall>c. c \<notin> set SPECIALS \<longrightarrow> esc c = [c])"

text \<open>The value when the characters of \<open>done_chars\<close> stand for themselves again.\<close>

definition partly :: "(char \<Rightarrow> string) \<Rightarrow> char set \<Rightarrow> char \<Rightarrow> string" where
  "partly esc plain c = (if c \<in> plain then [c] else esc c)"

lemma entities:
  "entity ''&amp;''" "entity ''&lt;''" "entity ''&gt;''" "entity ''&quot;''" "entity ''&#x27;''" "entity ''&#x60;''"
  "entity ''&#x3D;''"
  unfolding entity_def
  by (rule exI [of _ "''amp''"], simp) (rule exI [of _ "''lt''"], simp, rule exI [of _ "''gt''"], simp,
    rule exI [of _ "''quot''"], simp, rule exI [of _ "''#x27''"], simp, rule exI [of _ "''#x60''"], simp,
    rule exI [of _ "''#x3D''"], simp)

lemma escaped_as:
  assumes "escapes_as_documented esc"
  shows "esc (CHR ''&'') = ''&amp;''" and "esc (CHR ''<'') = ''&lt;''" and "esc (CHR ''>'') = ''&gt;''"
    and "esc (CHR 0x22) = ''&quot;''" and "esc (CHR 0x27) = ''&#x27;''" and "esc (CHR 0x60) = ''&#x60;''"
    and "esc (CHR ''='') = ''&#x3D;''"
  using assms unfolding escapes_as_documented_def by iprover+

lemma unescaped: "escapes_as_documented esc \<Longrightarrow> c \<notin> set SPECIALS \<Longrightarrow> esc c = [c]"
  unfolding escapes_as_documented_def by (elim conjE) (erule allE [of _ c], erule mp)

lemma special_cases:
  assumes "c \<in> set SPECIALS"
  shows "c = CHR ''&'' \<or> c = CHR ''<'' \<or> c = CHR ''>'' \<or> c = CHR 0x22 \<or> c = CHR 0x27 \<or> c = CHR 0x60 \<or> c = CHR ''=''"
  using assms by (simp add: SPECIALS_def)

lemma escaped_entity:
  assumes "escapes_as_documented esc" and "c \<in> set SPECIALS"
  shows "entity (esc c)" and "CHR ''<'' \<notin> set (esc c)"
  using special_cases [OF assms(2)] by (elim disjE; simp only: escaped_as [OF assms(1)] entities; simp)+

lemma unit_partly:
  assumes "escapes_as_documented esc" and "c \<noteq> CHR '';''"
  shows "unit_of (partly esc plain) c"
proof (cases "c \<in> set SPECIALS")
  case True
  with escaped_entity [OF assms(1)] show ?thesis
    using assms(2) by (simp add: unit_of_def partly_def)
next
  case False
  with unescaped [OF assms(1)] show ?thesis
    using assms(2) by (simp add: unit_of_def partly_def)
qed

section \<open>The passes\<close>

lemma pass:
  assumes "escapes_as_documented esc" and "CHR '';'' \<notin> set v" and "entity_matcher m"
    and "\<And>c. c \<in> set SPECIALS \<Longrightarrow> c \<in> plain \<and> c \<in> plain' \<or> c \<notin> plain \<and>
      (c \<in> plain' \<and> (\<forall>rest. m (esc c @ rest) = Some (length (esc c), [c])) \<or>
       c \<notin> plain' \<and> (\<forall>rest. m (esc c @ rest) = None))"
  shows "replaceAll m (concat (map (partly esc plain) v)) = concat (map (partly esc plain') v)"
proof (rule pass_units [OF assms(3)])
  show "\<forall>c \<in> set v. unit_of (partly esc plain) c"
  proof
    fix c
    assume "c \<in> set v"
    with assms(2) have "c \<noteq> CHR '';''" by auto
    then show "unit_of (partly esc plain) c" by (rule unit_partly [OF assms(1)])
  qed
  show "\<forall>c \<in> set v. partly esc plain c = [c] \<and> partly esc plain' c = [c] \<or> entity (partly esc plain c) \<and>
      (partly esc plain' c = [c] \<and> (\<forall>rest. m (partly esc plain c @ rest) = Some (length (partly esc plain c), [c])) \<or>
       partly esc plain' c = partly esc plain c \<and> (\<forall>rest. m (partly esc plain c @ rest) = None))"
  proof
    fix c
    assume c: "c \<in> set v"
    show "partly esc plain c = [c] \<and> partly esc plain' c = [c] \<or> entity (partly esc plain c) \<and>
      (partly esc plain' c = [c] \<and> (\<forall>rest. m (partly esc plain c @ rest) = Some (length (partly esc plain c), [c])) \<or>
       partly esc plain' c = partly esc plain c \<and> (\<forall>rest. m (partly esc plain c @ rest) = None))"
    proof (cases "c \<in> set SPECIALS")
      case False
      then show ?thesis by (simp add: partly_def unescaped [OF assms(1)])
    next
      case True
      then have "entity (esc c)" by (rule escaped_entity [OF assms(1)])
      with assms(4) [OF True] show ?thesis by (auto simp: partly_def)
    qed
  qed
qed

definition step_ok :: "matcher \<Rightarrow> char set \<Rightarrow> char set \<Rightarrow> char \<Rightarrow> string \<Rightarrow> bool" where
  "step_ok m plain plain' c u \<longleftrightarrow> c \<in> plain \<and> c \<in> plain' \<or> c \<notin> plain \<and>
     (c \<in> plain' \<and> (\<forall>rest. m (u @ rest) = Some (length u, [c])) \<or> c \<notin> plain' \<and> (\<forall>rest. m (u @ rest) = None))"

lemma pass_table:
  assumes "escapes_as_documented esc" and "CHR '';'' \<notin> set v" and "entity_matcher m"
    and "step_ok m plain plain' (CHR ''&'') ''&amp;''" and "step_ok m plain plain' (CHR ''<'') ''&lt;''"
    and "step_ok m plain plain' (CHR ''>'') ''&gt;''" and "step_ok m plain plain' (CHR 0x22) ''&quot;''"
    and "step_ok m plain plain' (CHR 0x27) ''&#x27;''" and "step_ok m plain plain' (CHR 0x60) ''&#x60;''"
    and "step_ok m plain plain' (CHR ''='') ''&#x3D;''"
  shows "replaceAll m (concat (map (partly esc plain) v)) = concat (map (partly esc plain') v)"
proof (rule pass [OF assms(1-3)])
  fix c
  assume "c \<in> set SPECIALS"
  then have "step_ok m plain plain' c (esc c)"
    by (elim disjE [OF special_cases] disjE) (simp_all only: escaped_as [OF assms(1)] assms(4-10))
  then show "c \<in> plain \<and> c \<in> plain' \<or> c \<notin> plain \<and>
      (c \<in> plain' \<and> (\<forall>rest. m (esc c @ rest) = Some (length (esc c), [c])) \<or>
       c \<notin> plain' \<and> (\<forall>rest. m (esc c @ rest) = None))"
    unfolding step_ok_def .
qed

lemma pass_nbsp:
  assumes "escapes_as_documented esc" and "CHR '';'' \<notin> set v"
  shows "replaceAll (literal ''&nbsp;'' '' '') (concat (map (partly esc {}) v)) = concat (map (partly esc {}) v)"
  by (rule pass_table [OF assms literal_entity [of "''nbsp''"]]) (simp_all add: step_ok_def literal_def)

lemma pass_amp:
  assumes "escapes_as_documented esc" and "CHR '';'' \<notin> set v"
  shows "replaceAll (literal ''&amp;'' ''&'') (concat (map (partly esc {}) v)) = concat (map (partly esc {CHR ''&''}) v)"
  by (rule pass_table [OF assms literal_entity [of "''amp''"]]) (simp_all add: step_ok_def literal_def)

lemma pass_lt:
  assumes "escapes_as_documented esc" and "CHR '';'' \<notin> set v"
  shows "replaceAll (literal ''&lt;'' ''<'') (concat (map (partly esc {CHR ''&''}) v)) = concat (map (partly esc {CHR ''&'', CHR ''<''}) v)"
  by (rule pass_table [OF assms literal_entity [of "''lt''"]]) (simp_all add: step_ok_def literal_def)

lemma pass_gt:
  assumes "escapes_as_documented esc" and "CHR '';'' \<notin> set v"
  shows "replaceAll (literal ''&gt;'' ''>'') (concat (map (partly esc {CHR ''&'', CHR ''<''}) v)) = concat (map (partly esc {CHR ''&'', CHR ''<'', CHR ''>''}) v)"
  by (rule pass_table [OF assms literal_entity [of "''gt''"]]) (simp_all add: step_ok_def literal_def)

lemma pass_quot:
  assumes "escapes_as_documented esc" and "CHR '';'' \<notin> set v"
  shows "replaceAll (literal ''&quot;'' [CHR 0x22]) (concat (map (partly esc {CHR ''&'', CHR ''<'', CHR ''>''}) v)) = concat (map (partly esc {CHR ''&'', CHR ''<'', CHR ''>'', CHR 0x22}) v)"
  by (rule pass_table [OF assms literal_entity [of "''quot''"]]) (simp_all add: step_ok_def literal_def)

lemma pass_apos:
  assumes "escapes_as_documented esc" and "CHR '';'' \<notin> set v"
  shows "replaceAll (literal ''&apos;'' [CHR 0x27]) (concat (map (partly esc {CHR ''&'', CHR ''<'', CHR ''>'', CHR 0x22}) v)) = concat (map (partly esc {CHR ''&'', CHR ''<'', CHR ''>'', CHR 0x22}) v)"
  by (rule pass_table [OF assms literal_entity [of "''apos''"]]) (simp_all add: step_ok_def literal_def)

lemma hex_digits: "hex_digit (CHR ''2'')" "hex_digit (CHR ''7'')" "hex_digit (CHR ''6'')" "hex_digit (CHR ''0'')"
  "hex_digit (CHR ''3'')" "hex_digit (CHR ''D'')" "parse_hex ''27'' = 39" "parse_hex ''60'' = 96" "parse_hex ''3D'' = 61"
  "lower_char (CHR ''x'') = CHR ''x''"
  by code_simp+

lemma pass_hex:
  assumes "escapes_as_documented esc" and "CHR '';'' \<notin> set v" and "\<And>c. fromCharCode (of_char c) = c"
  shows "replaceAll (hex_entity fromCharCode) (concat (map (partly esc {CHR ''&'', CHR ''<'', CHR ''>'', CHR 0x22}) v)) =
    concat (map (partly esc (set SPECIALS)) v)"
proof -
  have code: "fromCharCode 39 = CHR 0x27" "fromCharCode 96 = CHR 0x60" "fromCharCode 61 = CHR ''=''"
    using assms(3) [of "CHR 0x27"] assms(3) [of "CHR 0x60"] assms(3) [of "CHR ''=''"] by simp_all
  show ?thesis
    by (rule pass_table [OF assms(1,2) hex_entity_matches])
      (simp_all add: step_ok_def SPECIALS_def hex_entity_def hex_digits marks code)
qed

section \<open>Values without markup\<close>

lemma lower_angle: "lower_char x = CHR ''<'' \<Longrightarrow> x = CHR ''<''"
proof (rule ccontr)
  assume low: "lower_char x = CHR ''<''" and "x \<noteq> CHR ''<''"
  then have n: "65 \<le> (of_char x :: nat)" "(of_char x :: nat) \<le> 90" "char_of ((of_char x :: nat) + 32) = CHR ''<''"
    by (auto simp: lower_char_def Let_def split: if_splits)
  have "(of_char (char_of ((of_char x :: nat) + 32) :: char) :: nat) = of_char x + 32"
    using n(1,2) by (simp add: of_char_of)
  with n show False by simp
qed

lemma starts_angle: "starts_with (CHR ''<'' # p) s \<Longrightarrow> CHR ''<'' \<in> set s"
  by (cases s) (auto simp: starts_with_def to_lower_case_def dest: lower_angle)

lemma no_markup:
  assumes "CHR ''<'' \<notin> set s"
  shows "invisible_block s = None" and "line_break s = None" and "block_end s = None" and "tag s = None"
proof -
  have no: "\<not> starts_with (CHR ''<'' # p) s" for p using starts_angle assms by blast
  then show "invisible_block s = None" "line_break s = None"
    by (simp_all add: invisible_block_def line_break_def)
  show "block_end s = None" using no by (simp add: block_end_def BLOCK_ENDS_def)
  show "tag s = None" using assms by (cases s) (auto simp: tag_def)
qed

lemma markup_idle:
  assumes "CHR ''<'' \<notin> set s" and "m \<in> {invisible_block, line_break, block_end, tag}"
  shows "replaceAll m s = s"
proof (rule replaceAll_idle)
  fix t
  assume "suffix t s"
  then have "CHR ''<'' \<notin> set t" using assms(1) by (auto dest: set_mono_suffix)
  with assms(2) no_markup show "m t = None" by auto
qed

lemma escaped_no_markup: "escapes_as_documented esc \<Longrightarrow> CHR ''<'' \<notin> set (esc c)"
  by (cases "c \<in> set SPECIALS") (simp add: escaped_entity, auto simp: unescaped SPECIALS_def)

lemma decimal_idle: "CHR '';'' \<notin> set s \<Longrightarrow> replaceAll (decimal_entity f) s = s"
proof (rule replaceAll_idle)
  fix t
  assume "CHR '';'' \<notin> set s" "suffix t s"
  then have t: "CHR '';'' \<notin> set t" by (auto dest: set_mono_suffix)
  show "decimal_entity f t = None"
  proof (rule ccontr)
    assume "decimal_entity f t \<noteq> None"
    then obtain n r where "decimal_entity f t = Some (n, r)" by auto
    then obtain name rest where "t = ''&'' @ name @ '';'' @ rest"
      using decimal_entity_matches [of f] unfolding entity_matcher_def by blast
    with t show False by simp
  qed
qed

lemma newlines_idle: "CHR 0x0A \<notin> set s \<Longrightarrow> replaceAll many_newlines s = s"
proof (rule replaceAll_idle)
  fix t
  assume "CHR 0x0A \<notin> set s" "suffix t s"
  then have "CHR 0x0A \<notin> set t" by (auto dest: set_mono_suffix)
  then have "takeWhile (\<lambda>c. c = CHR 0x0A) t = []" by (cases t) auto
  then show "many_newlines t = None" by (simp add: many_newlines_def)
qed

text \<open>What Handlebars escaped reads the same in the plain text: a value of one line and without a semicolon comes
  out as it went in, whatever quotes, angle brackets, ampersands and equals signs it has.\<close>

theorem escaped_value_survives:
  assumes "escapes_as_documented esc" and "\<And>c. fromCharCode (of_char c) = c"
    and "CHR '';'' \<notin> set v" and "CHR 0x0A \<notin> set v"
  shows "htmlToText fromCharCode (concat (map esc v)) = trim v"
proof -
  have start: "concat (map esc v) = concat (map (partly esc {}) v)" by (simp add: partly_def [abs_def])
  have "CHR ''<'' \<notin> set (concat (map esc v))" using escaped_no_markup [OF assms(1)] by auto
  note idle = markup_idle [OF this, unfolded start]
  have "partly esc (set SPECIALS) c = [c]" for c
    using unescaped [OF assms(1)] by (simp add: partly_def)
  then have fin: "concat (map (partly esc (set SPECIALS)) v) = v" by (induction v) simp_all
  show ?thesis
    unfolding htmlToText_def start
    by (simp add: idle pass_nbsp [OF assms(1,3)] pass_amp [OF assms(1,3)] pass_lt [OF assms(1,3)]
        pass_gt [OF assms(1,3)] pass_quot [OF assms(1,3)] pass_apos [OF assms(1,3)] pass_hex [OF assms(1,3,2)] fin
        decimal_idle [OF assms(3)] newlines_idle [OF assms(4)])
qed

text \<open>The ampersand is decoded before the names that begin with one, so a value that spells an entity is decoded
  twice.\<close>

lemma entity_decoded_twice:
  assumes "escapes_as_documented esc"
  shows "concat (map esc ''&lt;'') = ''&amp;lt;'' \<and> htmlToText fromCharCode ''&amp;lt;'' = ''<''"
proof
  show "concat (map esc ''&lt;'') = ''&amp;lt;''"
    by (simp add: escaped_as [OF assms] unescaped [OF assms] SPECIALS_def)
  show "htmlToText fromCharCode ''&amp;lt;'' = ''<''" by code_simp
qed

end
