(* ===== verification/Boot_Checks.thy ===== *)
theory Boot_Checks
  imports Invitation_Machine Platform_Roles "HOL-Library.Char_ord" "HOL-Library.List_Lexorder"
begin

text \<open>
  What stops the application from starting: \<open>permission-catalog-integrity.service.ts\<close> and
  \<open>authorization-data-integrity.service.ts\<close> of \<open>src/src/modules/authorization\<close>.

  A \<open>groupBy\<close> answers one group for each key there is, in any order: here in the order of the rows.  The dash of
  the first message is written \<open>--\<close>.
\<close>

section \<open>The catalog and the database\<close>

definition missing_from :: "string list \<Rightarrow> string list \<Rightarrow> string list" where
  "missing_from there names = filter (\<lambda>name. name \<notin> set there) (remdups names)"

definition line_of :: "string list \<Rightarrow> string \<Rightarrow> string list" where
  "line_of names what =
     (if names \<noteq> [] then [decimal (length names) @ what @ join_with '', '' names] else [])"

definition assertCatalogMatchesDatabase :: "string list \<Rightarrow> string list \<Rightarrow> exn + unit" where
  "assertCatalogMatchesDatabase databasePermissionNames seededRoleNames =
     (let catalogPermissionNames = map permissionName PERMISSION_CATALOG;
          newline = [CHR 0x0A];
          failures =
            line_of (missing_from databasePermissionNames catalogPermissionNames)
              '' permission(s) defined in the catalog but missing from the database: '' @
            line_of (missing_from catalogPermissionNames databasePermissionNames)
              '' permission(s) in the database but not in the catalog: '' @
            line_of (missing_from seededRoleNames (map fst ROLE_DEFINITION_CATALOG))
              '' system role(s) missing from the database: ''
      in if failures \<noteq> []
         then Inl (JsError (''Authorization catalog does not match the database.'' @ newline @ ''  - '' @
                join_with (newline @ ''  - '') failures @ newline @
                ''Run `yarn rbac:sync` to project the catalog onto the database. '' @
                ''(Your deploy should already do this -- the `migrate` service runs it after '' @
                ''`prisma migrate deploy`.) The application will not start with a drifted catalog.''))
         else Inr ())"

definition bootCatalog :: "string \<Rightarrow> string list \<Rightarrow> string list \<Rightarrow> exn + unit" where
  "bootCatalog nodeEnv databasePermissionNames seededRoleNames =
     (if nodeEnv = ''test'' then Inr ()
      else assertCatalogMatchesDatabase databasePermissionNames seededRoleNames)"

section \<open>The stored assignments\<close>

datatype defect_kind =
    workspace_role_assigned_platform_wide
  | platform_role_in_membership
  | platform_role_in_invitation
  | unknown_membership_status
  | unknown_invitation_status

record defect =
  de_kind :: defect_kind
  de_count :: nat
  de_offenders :: "string list"

text \<open>The columns the check reads: the roles, the role of every assignment, and the roles and statuses of the
  memberships and the invitations.\<close>

record assignments =
  as_roles :: "role_row list"
  as_user_roles :: "ident list"
  as_memberships :: "(ident \<times> string) list"
  as_invitations :: "(ident \<times> string) list"

definition MEMBERSHIP_STATUSES :: "string list" where
  "MEMBERSHIP_STATUSES = [''active'', ''suspended'', ''left'']"

definition INVITATION_STATUSES :: "string list" where
  "INVITATION_STATUSES = [''pending'', ''accepted'', ''revoked'', ''expired'']"

definition groups_of :: "'k list \<Rightarrow> ('k \<times> nat) list" where
  "groups_of ks = map (\<lambda>k. (k, count_list ks k)) (remdups ks)"

text \<open>The rows whose role has the scope.\<close>

definition with_scope :: "role_row list \<Rightarrow> role_scope \<Rightarrow> ident list \<Rightarrow> ident list" where
  "with_scope rs scope roleIds =
     filter (\<lambda>i. case find (\<lambda>r. r_id r = i) rs of None \<Rightarrow> False | Some r \<Rightarrow> r_scope r = scope) roleIds"

definition total_count :: "('k \<times> nat) list \<Rightarrow> nat" where
  "total_count groups = sum_list (map snd groups)"

text \<open>A \<open>Map\<close> built from pairs keeps the last pair of a key.\<close>

definition nameById :: "role_row list \<Rightarrow> (ident \<times> nat) list \<Rightarrow> ident \<rightharpoonup> string" where
  "nameById rs groups =
     map_of (rev (map (\<lambda>r. (r_id r, r_name r)) (filter (\<lambda>r. r_id r \<in> fst ` set groups) rs)))"

definition collectRoleDefect :: "role_row list \<Rightarrow> defect_kind \<Rightarrow> (ident \<times> nat) list \<Rightarrow> defect list" where
  "collectRoleDefect rs kind groups =
     (if groups = [] then []
      else [\<lparr>de_kind = kind, de_count = total_count groups,
             de_offenders = sort (map (\<lambda>(i, _). case nameById rs groups i of None \<Rightarrow> i | Some n \<Rightarrow> n) groups)\<rparr>])"

definition collectStatusDefect :: "defect_kind \<Rightarrow> (string \<times> nat) list \<Rightarrow> defect list" where
  "collectStatusDefect kind groups =
     (if groups = [] then []
      else [\<lparr>de_kind = kind, de_count = total_count groups, de_offenders = sort (map fst groups)\<rparr>])"

definition findDefects :: "assignments \<Rightarrow> defect list" where
  "findDefects a =
     collectRoleDefect (as_roles a) workspace_role_assigned_platform_wide
       (groups_of (with_scope (as_roles a) WORKSPACE (as_user_roles a))) @
     collectRoleDefect (as_roles a) platform_role_in_membership
       (groups_of (with_scope (as_roles a) PLATFORM (map fst (as_memberships a)))) @
     collectRoleDefect (as_roles a) platform_role_in_invitation
       (groups_of (with_scope (as_roles a) PLATFORM (map fst (as_invitations a)))) @
     collectStatusDefect unknown_membership_status
       (groups_of (filter (\<lambda>s. s \<notin> set MEMBERSHIP_STATUSES) (map snd (as_memberships a)))) @
     collectStatusDefect unknown_invitation_status
       (groups_of (filter (\<lambda>s. s \<notin> set INVITATION_STATUSES) (map snd (as_invitations a))))"

fun DEFECT_DESCRIPTIONS :: "defect_kind \<Rightarrow> string" where
  "DEFECT_DESCRIPTIONS workspace_role_assigned_platform_wide =
     ''WORKSPACE-scoped role(s) assigned platform-wide in `user_roles`''"
| "DEFECT_DESCRIPTIONS platform_role_in_membership = ''PLATFORM-scoped role(s) attached to a workspace membership''"
| "DEFECT_DESCRIPTIONS platform_role_in_invitation = ''PLATFORM-scoped role(s) attached to a workspace invitation''"
| "DEFECT_DESCRIPTIONS unknown_membership_status =
     ''workspace membership(s) carrying a status outside `WorkspaceMembershipStatus`''"
| "DEFECT_DESCRIPTIONS unknown_invitation_status =
     ''workspace invitation(s) carrying a status outside `WorkspaceInvitationStatus`''"

definition describeDefect :: "defect \<Rightarrow> string" where
  "describeDefect d =
     decimal (de_count d) @ '' '' @ DEFECT_DESCRIPTIONS (de_kind d) @ '': '' @ join_with '', '' (de_offenders d)"

definition assertStoredAssignmentsAreCoherent :: "assignments \<Rightarrow> exn + unit" where
  "assertStoredAssignmentsAreCoherent a =
     (let defects = findDefects a;
          newline = [CHR 0x0A]
      in if defects \<noteq> []
         then Inl (JsError (''Stored authorization state is not coherent. The application will not '' @
                ''start; these rows grant nothing at runtime (AbilityFactory fails '' @
                ''closed on them) but they should not exist.'' @ newline @ ''  - '' @
                join_with (newline @ ''  - '') (map describeDefect defects)))
         else Inr ())"

definition bootAssignments :: "string \<Rightarrow> assignments \<Rightarrow> exn + unit" where
  "bootAssignments nodeEnv a = (if nodeEnv = ''test'' then Inr () else assertStoredAssignmentsAreCoherent a)"

section \<open>What a process that starts can rely on\<close>

lemma missing_from_Nil: "missing_from there names = [] \<longleftrightarrow> set names \<subseteq> set there"
  by (auto simp: missing_from_def filter_empty_conv)

lemma line_of_Nil [simp]: "line_of names what = [] \<longleftrightarrow> names = []"
  by (simp add: line_of_def)

text \<open>Outside of tests the application starts exactly when the database has the permissions of the catalog and no
  others, and all its roles.\<close>

theorem boots_iff_projected:
  assumes "nodeEnv \<noteq> ''test''"
  shows "bootCatalog nodeEnv databasePermissionNames seededRoleNames = Inr () \<longleftrightarrow>
    set databasePermissionNames = permissionName ` set PERMISSION_CATALOG \<and>
    fst ` set ROLE_DEFINITION_CATALOG \<subseteq> set seededRoleNames"
proof -
  have "bootCatalog nodeEnv databasePermissionNames seededRoleNames = Inr () \<longleftrightarrow>
      permissionName ` set PERMISSION_CATALOG \<subseteq> set databasePermissionNames \<and>
      set databasePermissionNames \<subseteq> permissionName ` set PERMISSION_CATALOG \<and>
      fst ` set ROLE_DEFINITION_CATALOG \<subseteq> set seededRoleNames"
    unfolding bootCatalog_def assertCatalogMatchesDatabase_def Let_def if_not_P [OF assms]
    by (simp only: split: if_splits) (simp add: missing_from_Nil)
  then show ?thesis by (iprover intro: subset_antisym dest: equalityD1 equalityD2)
qed

lemma groups_of_Nil [simp]: "groups_of ks = [] \<longleftrightarrow> ks = []"
  by (simp add: groups_of_def)

lemma groups_of_keys: "fst ` set (groups_of ks) = set ks"
  by (force simp: groups_of_def)

lemma collectRoleDefect_Nil: "collectRoleDefect rs kind groups = [] \<longleftrightarrow> groups = []"
  by (simp add: collectRoleDefect_def)

lemma collectStatusDefect_Nil: "collectStatusDefect kind groups = [] \<longleftrightarrow> groups = []"
  by (simp add: collectStatusDefect_def)

lemma total_count_groups: "total_count (groups_of ks) = length ks"
  by (simp add: total_count_def groups_of_def comp_def sum_list_distinct_conv_sum_set sum_count_set)

text \<open>Outside of tests the application starts exactly when no assignment has a role of the other kind and every status
  is one the code knows.\<close>

lemma coherent_iff:
  "assertStoredAssignmentsAreCoherent a = Inr () \<longleftrightarrow>
    with_scope (as_roles a) WORKSPACE (as_user_roles a) = [] \<and>
    with_scope (as_roles a) PLATFORM (map fst (as_memberships a)) = [] \<and>
    with_scope (as_roles a) PLATFORM (map fst (as_invitations a)) = [] \<and>
    snd ` set (as_memberships a) \<subseteq> set MEMBERSHIP_STATUSES \<and>
    snd ` set (as_invitations a) \<subseteq> set INVITATION_STATUSES"
proof -
  have "assertStoredAssignmentsAreCoherent a = Inr () \<longleftrightarrow> findDefects a = []"
    unfolding assertStoredAssignmentsAreCoherent_def Let_def by simp
  moreover have "filter (\<lambda>s. s \<notin> set known) (map snd rows) = [] \<longleftrightarrow> snd ` set rows \<subseteq> set known"
    for known :: "string list" and rows :: "(ident \<times> string) list"
    by (auto simp: filter_empty_conv)
  ultimately show ?thesis
    unfolding findDefects_def append_is_Nil_conv collectRoleDefect_Nil collectStatusDefect_Nil groups_of_Nil by simp
qed

lemma nameById_of_row:
  assumes "r \<in> set rs" "r_id r \<in> fst ` set groups"
  shows "\<exists>n. nameById rs groups (r_id r) = Some n \<and> n \<in> r_name ` set rs"
proof -
  let ?pairs = "rev (map (\<lambda>r. (r_id r, r_name r)) (filter (\<lambda>r. r_id r \<in> fst ` set groups) rs))"
  have "(r_id r, r_name r) \<in> set ?pairs" using assms by simp
  then obtain n where n: "map_of ?pairs (r_id r) = Some n"
    using weak_map_of_SomeI [of "r_id r" "r_name r" ?pairs] by blast
  moreover from map_of_SomeD [OF n] have "n \<in> r_name ` set rs" by fastforce
  ultimately show ?thesis by (simp add: nameById_def)
qed

lemma role_defect_is_named:
  assumes "d \<in> set (collectRoleDefect rs kind (groups_of (with_scope rs scope ids)))"
  shows "set (de_offenders d) \<subseteq> r_name ` set rs"
proof
  fix x
  let ?groups = "groups_of (with_scope rs scope ids)"
  assume "x \<in> set (de_offenders d)"
  with assms obtain i k where i: "(i, k) \<in> set ?groups"
    and x: "x = (case nameById rs ?groups i of None \<Rightarrow> i | Some n \<Rightarrow> n)"
    by (auto simp: collectRoleDefect_def simp del: groups_of_Nil split: if_splits)
  from i have key: "i \<in> fst ` set ?groups" by force
  then have "i \<in> set (with_scope rs scope ids)" by (simp only: groups_of_keys)
  then obtain r where r: "find (\<lambda>r. r_id r = i) rs = Some r"
    by (auto simp: with_scope_def split: option.splits)
  from find_SomeD [OF r] have "r \<in> set rs" "r_id r = i" by simp_all
  with nameById_of_row [of r rs ?groups] key show "x \<in> r_name ` set rs" by (auto simp: x)
qed

lemma status_defect_is_named:
  assumes "d \<in> set (collectStatusDefect kind (groups_of ks))"
  shows "set (de_offenders d) = set ks"
  using assms groups_of_keys [of ks] by (simp add: collectStatusDefect_def split: if_splits)

text \<open>A role is reported by its name: the check never falls back to an id, so no diagnostic names more than roles and
  statuses.\<close>

theorem diagnostics_name_roles_and_statuses:
  assumes "d \<in> set (findDefects a)"
  shows "set (de_offenders d) \<subseteq> r_name ` set (as_roles a) \<union> snd ` set (as_memberships a) \<union> snd ` set (as_invitations a)"
proof -
  from assms consider
      (role) kind scope ids where
        "d \<in> set (collectRoleDefect (as_roles a) kind (groups_of (with_scope (as_roles a) scope ids)))"
    | (membership) "d \<in> set (collectStatusDefect unknown_membership_status
        (groups_of (filter (\<lambda>s. s \<notin> set MEMBERSHIP_STATUSES) (map snd (as_memberships a)))))"
    | (invitation) "d \<in> set (collectStatusDefect unknown_invitation_status
        (groups_of (filter (\<lambda>s. s \<notin> set INVITATION_STATUSES) (map snd (as_invitations a)))))"
    unfolding findDefects_def set_append Un_iff by iprover
  then show ?thesis
  proof cases
    case role
    from role_defect_is_named [OF this] show ?thesis by blast
  next
    case membership
    from status_defect_is_named [OF this] show ?thesis by auto
  next
    case invitation
    from status_defect_is_named [OF this] show ?thesis by auto
  qed
qed

text \<open>Each defect reports how many rows it is about.\<close>

lemma counted_rows:
  "d \<in> set (collectRoleDefect rs kind (groups_of ids)) \<Longrightarrow> de_count d = length ids"
  "d' \<in> set (collectStatusDefect kind (groups_of ks)) \<Longrightarrow> de_count d' = length ks"
  by (simp_all add: collectRoleDefect_def collectStatusDefect_def total_count_groups split: if_splits)

section \<open>What the services write\<close>

fun invitation_status_value :: "invitation_status \<Rightarrow> string" where
  "invitation_status_value PENDING = ''pending''"
| "invitation_status_value ACCEPTED = ''accepted''"
| "invitation_status_value REVOKED = ''revoked''"
| "invitation_status_value EXPIRED = ''expired''"

text \<open>
  The check says of its defects that no code path should have been able to write them.  A step is a transaction that
  writes an assignment, a membership or an invitation; the role a service hands to its transaction was loaded before
  it, from a world with the same roles: only the projection of the catalog writes that table.
\<close>

definition columns_of :: "world \<Rightarrow> assignments" where
  "columns_of w =
     \<lparr>as_roles = roles w, as_user_roles = map snd (user_roles w),
      as_memberships = map (\<lambda>m. (m_role_id m, membership_status_value (m_status m))) (memberships w),
      as_invitations = map (\<lambda>i. (i_role_id i, invitation_status_value (i_status i))) (invitations w)\<rparr>"

inductive assignment_step :: "world \<Rightarrow> world \<Rightarrow> bool" where
  grant: "assign c uid roleId ab actor now w = Inr w' \<Longrightarrow> assignment_step w w'"
| withdraw_role: "revoke c uid roleId ab actor now w = Inr w' \<Longrightarrow> assignment_step w w'"
| found:
    "createWorkspaceTransaction dto actor now newId newMember w = Inr ((s, m), w') \<Longrightarrow> assignment_step w w'"
| add:
    "addTransaction ws uid role annotate notes actor now newId w = Inr ((m, j), w') \<Longrightarrow>
     loadAssignableRole roleId v = Inr role \<Longrightarrow> roles v = roles w \<Longrightarrow> assignment_step w w'"
| annotate: "updateMember c ws mid notes ab actor w = Inr (m, w') \<Longrightarrow> assignment_step w w'"
| change_role:
    "changeRoleTransaction ws mid uid role rank actor w = Inr (m, w') \<Longrightarrow>
     loadAssignableRole roleId v = Inr role \<Longrightarrow> roles v = roles w \<Longrightarrow> assignment_step w w'"
| change_status:
    "transitionTransaction ws mid uid rank actor options now w = Inr (m, w') \<Longrightarrow>
     options \<in> {suspend_options, reactivate_options, end_options t} \<Longrightarrow> assignment_step w w'"
| transfer:
    "transferTransaction ws mid uid ownerRole adminRole actor w = Inr (p, w') \<Longrightarrow>
     loadSeededWorkspaceRole WORKSPACE_OWNER v = Inr ownerRole \<Longrightarrow>
     loadSeededWorkspaceRole WORKSPACE_ADMIN v = Inr adminRole \<Longrightarrow> roles v = roles w \<Longrightarrow> assignment_step w w'"
| invite:
    "inviteTransaction ext ws email role existingUser token expiresAt actor now newId w = Inr (i, w') \<Longrightarrow>
     loadAssignableRole roleId v = Inr role \<Longrightarrow> roles v = roles w \<Longrightarrow> assignment_step w w'"
| withdraw_invitation: "revokeInvitation c ws iid ab actor now w = Inr w' \<Longrightarrow> assignment_step w w'"
| resend:
    "resendInvitation c ext days ws iid ab actor budget token now w = Inr (i, w') \<Longrightarrow> assignment_step w w'"
| accept: "acceptTransaction c loadAbility invitation actor now newId w = Inr (m, w') \<Longrightarrow> assignment_step w w'"
| erase: "gdprEraseTransaction uid hash now clk w = Inr (r, w') \<Longrightarrow> assignment_step w w'"
| elsewhere:
    "roles w' = roles w \<Longrightarrow> user_roles w' = user_roles w \<Longrightarrow> memberships w' = memberships w \<Longrightarrow>
     invitations w' = invitations w \<Longrightarrow> assignment_step w w'"

text \<open>The catalog is projected, the seeder has given out platform roles only, and there is no workspace yet.\<close>

definition projected :: "world \<Rightarrow> bool" where
  "projected w \<longleftrightarrow> distinct (map r_id (roles w)) \<and>
     (\<forall>r \<in> set (roles w). \<exists>rd. map_of ROLE_DEFINITION_CATALOG (r_name r) = Some rd \<and> r_scope r = rd_scope rd)"

definition role_in :: "world \<Rightarrow> role_scope \<Rightarrow> ident \<Rightarrow> bool" where
  "role_in w scope i \<longleftrightarrow> (\<exists>r. find_role w i = Some r \<and> r_scope r = scope)"

definition seeded :: "world \<Rightarrow> bool" where
  "seeded w \<longleftrightarrow> projected w \<and> (\<forall>(u, i) \<in> set (user_roles w). role_in w PLATFORM i) \<and>
     memberships w = [] \<and> invitations w = []"

definition well_roled :: "world \<Rightarrow> membership_row \<Rightarrow> bool" where
  "well_roled w m \<longleftrightarrow> role_in w WORKSPACE (m_role_id m) \<and> m_status m \<in> {ACTIVE, SUSPENDED, LEFT}"

definition well_assigned :: "world \<Rightarrow> bool" where
  "well_assigned w \<longleftrightarrow> projected w \<and> (\<forall>(u, i) \<in> set (user_roles w). role_in w PLATFORM i) \<and>
     (\<forall>m \<in> set (memberships w). well_roled w m) \<and>
     (\<forall>i \<in> set (invitations w). role_in w WORKSPACE (i_role_id i))"

lemma role_in_cong: "roles v = roles w \<Longrightarrow> role_in v = role_in w"
  by (simp add: fun_eq_iff role_in_def find_role_def)

text \<open>The common shape of the steps: the roles stay, and every row is still one for its table.\<close>

lemma well_assigned_rows:
  assumes "well_assigned w" and "roles v = roles w"
    and "\<forall>(u, i) \<in> set (user_roles v). role_in w PLATFORM i"
    and "\<forall>m \<in> set (memberships v). well_roled w m"
    and "\<forall>i \<in> set (invitations v). role_in w WORKSPACE (i_role_id i)"
  shows "well_assigned v"
  using assms role_in_cong [OF assms(2)]
  by (simp add: well_assigned_def well_roled_def projected_def)

lemma well_assigned_members:
  assumes "well_assigned w" and "roles v = roles w" and "user_roles v = user_roles w"
    and "settled_rows (invitations w) (invitations v)"
    and "\<forall>m \<in> set (memberships w). well_roled w m \<Longrightarrow> \<forall>m \<in> set (memberships v). well_roled w m"
  shows "well_assigned v"
proof (rule well_assigned_rows [OF assms(1,2)])
  show "\<forall>(u, i) \<in> set (user_roles v). role_in w PLATFORM i"
    using assms(1,3) by (simp add: well_assigned_def)
  show "\<forall>m \<in> set (memberships v). well_roled w m"
    using assms(1,5) by (simp add: well_assigned_def)
  have "map (snd \<circ> snd \<circ> snd \<circ> snd \<circ> invitation_key) (invitations v) =
      map (snd \<circ> snd \<circ> snd \<circ> snd \<circ> invitation_key) (invitations w)"
    using settled_keys [OF assms(4)] by (simp only: map_map [symmetric])
  then have "map i_role_id (invitations v) = map i_role_id (invitations w)"
    by (simp add: invitation_key_def comp_def)
  then have "i_role_id ` set (invitations v) = i_role_id ` set (invitations w)" by (metis set_map)
  then show "\<forall>i \<in> set (invitations v). role_in w WORKSPACE (i_role_id i)"
    using assms(1) by (simp add: well_assigned_def) (metis imageE imageI)
qed

lemma well_roled_update:
  assumes "\<forall>m \<in> set ms. well_roled w m" and "\<And>m. well_roled w m \<Longrightarrow> well_roled w (f m)"
  shows "\<forall>m \<in> set (update_where p f ms). well_roled w m"
  using assms by (auto simp: set_update_where)

lemma well_roled_set_membership:
  assumes "set_membership mid f v = Inr (m, w')" and "\<forall>m \<in> set (memberships v). well_roled w m"
    and "\<And>m. well_roled w m \<Longrightarrow> well_roled w (f m)"
  shows "\<forall>m \<in> set (memberships w'). well_roled w m"
  by (rule set_membership_Inr [OF assms(1)]) (simp, rule well_roled_update [OF assms(2,3)])

lemma set_membership_frame:
  assumes "set_membership mid f v = Inr (m, w')"
  shows "roles w' = roles v" and "user_roles w' = user_roles v" and "invitations w' = invitations v"
  by (rule set_membership_Inr [OF assms], simp)+

lemma loaded_role_in:
  "loadAssignableRole i v = Inr role \<Longrightarrow> roles v = roles w \<Longrightarrow> role_in w WORKSPACE (r_id role)"
  by (auto simp: loadAssignableRole_Inr role_in_def find_role_def dest: find_SomeD)

text \<open>The roles the services know by name are workspace roles in the catalog.\<close>

lemma seeded_role_in:
  assumes "projected w" and "loadSeededWorkspaceRole n v = Inr role" and "roles v = roles w"
    and "n \<in> {WORKSPACE_OWNER, WORKSPACE_ADMIN}"
  shows "role_in w WORKSPACE (r_id role)"
proof -
  have role: "role \<in> set (roles w)" "r_name role = n"
    using loadSeededWorkspaceRole_Inr [OF assms(2)] assms(3) by simp_all
  then obtain rd where "map_of ROLE_DEFINITION_CATALOG n = Some rd" "r_scope role = rd_scope rd"
    using assms(1) by (auto simp: projected_def)
  moreover have "map_of ROLE_DEFINITION_CATALOG WORKSPACE_OWNER = Some WORKSPACE_OWNER_definition"
    "map_of ROLE_DEFINITION_CATALOG WORKSPACE_ADMIN = Some WORKSPACE_ADMIN_definition"
    by code_simp+
  ultimately have "r_scope role = WORKSPACE"
    using assms(4) by (auto simp: WORKSPACE_OWNER_definition_def WORKSPACE_ADMIN_definition_def)
  moreover have "find_role w (r_id role) = Some role"
    using role(1) assms(1) by (simp add: find_role_def find_key projected_def)
  ultimately show ?thesis by (simp add: role_in_def)
qed

lemma well_roled_cong: "roles v = roles w \<Longrightarrow> well_roled v = well_roled w"
  using role_in_cong [of v w] by (simp add: fun_eq_iff well_roled_def)

lemma well_assigned_set_membership:
  assumes inv: "well_assigned w" and set: "set_membership mid f v = Inr (m, w')"
    and v: "roles v = roles w" "user_roles v = user_roles w" "settled_rows (invitations w) (invitations v)"
      "memberships v = memberships w"
    and f: "\<And>m. well_roled w m \<Longrightarrow> well_roled w (f m)"
  shows "well_assigned w'"
proof (rule well_assigned_members [OF inv])
  note frame = set_membership_frame [OF set]
  show "roles w' = roles w" "user_roles w' = user_roles w" "settled_rows (invitations w) (invitations w')"
    by (simp_all add: frame v)
  show "\<forall>m \<in> set (memberships w'). well_roled w m" if "\<forall>m \<in> set (memberships w). well_roled w m"
    using well_roled_set_membership [OF set _ f] that by (simp add: v)
qed

lemma well_assigned_enrolled:
  assumes inv: "well_assigned w" and v: "roles v = roles w" "user_roles v = user_roles w"
      "settled_rows (invitations w) (invitations v)" "memberships v = memberships w @ [m]"
    and m: "role_in w WORKSPACE (m_role_id m)" "m_status m = ACTIVE"
  shows "well_assigned v"
  by (rule well_assigned_members [OF inv v(1-3)]) (auto simp: v(4) well_roled_def m)

lemma well_assigned_found:
  assumes inv: "well_assigned w"
    and tx: "createWorkspaceTransaction dto actor now newId newMember w = Inr ((s, m), w')"
  shows "well_assigned w'"
proof -
  obtain role where role: "loadSeededWorkspaceRole WORKSPACE_OWNER w = Inr role"
    and m: "m_role_id m = r_id role" "m_status m = ACTIVE"
    and w': "roles w' = roles w" "user_roles w' = user_roles w" "invitations w' = invitations w"
      "memberships w' = memberships w @ [m]"
    using tx by (auto simp: createWorkspaceTransaction_def Let_def svc)
  have "role_in w WORKSPACE (m_role_id m)"
    using seeded_role_in [OF _ role refl] inv by (simp add: m well_assigned_def)
  then show ?thesis using w' m by (intro well_assigned_enrolled [OF inv, where m = m]) simp_all
qed

lemma well_assigned_add:
  assumes inv: "well_assigned w" and role: "role_in w WORKSPACE (r_id role)"
    and tx: "addTransaction ws uid role annotate notes actor now newId w = Inr ((m, j), w')"
  shows "well_assigned w'"
proof (cases "find_membership ws uid w")
  case None
  with tx have "m_role_id m = r_id role" "m_status m = ACTIVE" "roles w' = roles w" "user_roles w' = user_roles w"
    "invitations w' = invitations w" "memberships w' = memberships w @ [m]"
    by (auto simp: addTransaction_def Let_def svc)
  then show ?thesis using role by (intro well_assigned_enrolled [OF inv, where m = m]) simp_all
next
  case (Some x)
  with tx have "set_membership (m_id x)
      (\<lambda>m. m\<lparr>m_role_id := r_id role, m_status := ACTIVE, m_joined_at := now, m_ended_at := None,
              m_notes := (if annotate \<and> notes \<noteq> None then notes else m_notes m),
              m_updated_by := Some actor\<rparr>) w = Inr (m, w')"
    by (auto simp: addTransaction_def svc split: if_split_asm)
  then show ?thesis
    by (rule well_assigned_set_membership [OF inv]) (simp_all add: well_roled_def role)
qed

lemma well_assigned_change_role:
  assumes inv: "well_assigned w" and role: "role_in w WORKSPACE (r_id role)"
    and tx: "changeRoleTransaction ws mid uid role rank actor w = Inr (m, w')"
  shows "well_assigned w'"
proof -
  have "set_membership mid (\<lambda>m. m\<lparr>m_role_id := r_id role, m_updated_by := Some actor\<rparr>) w = Inr (m, w')"
    using tx by (auto simp: changeRoleTransaction_def Let_def svc split: if_splits)
  then show ?thesis
    by (rule well_assigned_set_membership [OF inv]) (simp_all add: well_roled_def role)
qed

lemma well_assigned_annotate:
  assumes inv: "well_assigned w" and tx: "updateMember c ws mid notes ab actor w = Inr (m, w')"
  shows "well_assigned w'"
proof -
  obtain v where set: "set_membership mid
      (\<lambda>m. m\<lparr>m_notes := (if notes = None then m_notes m else notes), m_updated_by := Some actor\<rparr>) w
      = Inr (m, v)"
    and w': "roles w' = roles v" "user_roles w' = user_roles v" "invitations w' = invitations v"
      "memberships w' = memberships v"
    using tx by (auto simp: updateMember_def bindE_Inr_iff intro: that)
  have "well_assigned v"
    by (rule well_assigned_set_membership [OF inv set]) (simp_all add: well_roled_def)
  then show ?thesis
    by (rule well_assigned_members) (simp_all add: w')
qed

lemma revokePending_user_roles [simp]:
  "user_roles (revokePendingInvitations ws u a t w) = user_roles w"
  by (simp add: revokePendingInvitations_def Let_def)

lemma well_assigned_change_status:
  assumes inv: "well_assigned w" and opts: "options \<in> {suspend_options, reactivate_options, end_options t}"
    and tx: "transitionTransaction ws mid uid rank actor options now w = Inr (m, w')"
  shows "well_assigned w'"
proof -
  obtain x :: membership_row where set: "set_membership mid
       (\<lambda>m. m\<lparr>m_status := to_to options,
          m_ended_at := (if to_ended_at options = None then m_ended_at m else to_ended_at options),
          m_updated_by := Some actor\<rparr>)
       (if to_to options \<noteq> ACTIVE then revokePendingInvitations ws (m_user_id x) actor now w else w)
       = Inr (m, w')"
    by (rule transition_Inr [OF tx]) (rule that, assumption)
  have "to_to options \<in> {ACTIVE, SUSPENDED, LEFT}"
    using opts by (auto simp: suspend_options_def reactivate_options_def end_options_def)
  then show ?thesis
    by (intro well_assigned_set_membership [OF inv set])
      (simp_all add: settled_revokePending well_roled_def)
qed

lemma well_assigned_transfer:
  assumes inv: "well_assigned w" and "role_in w WORKSPACE (r_id ownerRole)" "role_in w WORKSPACE (r_id adminRole)"
    and tx: "transferTransaction ws mid uid ownerRole adminRole actor w = Inr ((promoted, demoted), w')"
  shows "well_assigned w'"
proof -
  let ?own = "\<lambda>m :: membership_row. m\<lparr>m_role_id := r_id ownerRole, m_updated_by := Some actor\<rparr>"
  let ?admin = "\<lambda>m :: membership_row. m\<lparr>m_role_id := r_id adminRole, m_updated_by := Some actor\<rparr>"
  obtain p q where w': "w' = w\<lparr>memberships := update_where p ?own (update_where q ?admin (memberships w))\<rparr>"
    by (rule transfer_Inr [OF tx]) (rule that, assumption)
  show ?thesis
  proof (rule well_assigned_members [OF inv])
    assume "\<forall>m \<in> set (memberships w). well_roled w m"
    then have "\<forall>m \<in> set (update_where q ?admin (memberships w)). well_roled w m"
      by (rule well_roled_update) (simp add: assms(3) well_roled_def)
    then have "\<forall>m \<in> set (update_where p ?own (update_where q ?admin (memberships w))). well_roled w m"
      by (rule well_roled_update) (simp add: assms(2) well_roled_def)
    then show "\<forall>m \<in> set (memberships w'). well_roled w m" by (simp add: w')
  qed (simp_all add: w')
qed

text \<open>An acceptance loads the invited role again, so it takes no invitation at its word.\<close>

lemma inviter_loads_role:
  assumes "assertInviterMayStillAssign c loadAbility invitation w = Inr u"
  shows "role_in w WORKSPACE (i_role_id invitation)"
proof (cases "loadAssignableRole (i_role_id invitation) w")
  case (Inl e)
  then show ?thesis
    using assms by (auto simp: assertInviterMayStillAssign_def bindE_Inr_iff split: option.splits if_splits)
next
  case (Inr role)
  then show ?thesis by (simp add: loadAssignableRole_Inr role_in_def)
qed

lemma well_assigned_accept:
  assumes inv: "well_assigned w"
    and tx: "acceptTransaction c loadAbility invitation actor now newId w = Inr ((m, j), w')"
  shows "well_assigned w'"
proof -
  have role: "role_in w WORKSPACE (i_role_id invitation)"
    by (rule inviter_loads_role [OF accept_Inr(2) [OF tx]])
  show ?thesis
  proof (cases "find_membership (i_workspace_id invitation) actor w")
    case None
    with tx have "m_role_id m = i_role_id invitation" "m_status m = ACTIVE" "roles w' = roles w"
      "user_roles w' = user_roles w" "memberships w' = memberships w @ [m]"
      by (auto simp: acceptTransaction_def Let_def transaction_Inr)
    then show ?thesis
      using role settled_accept [OF tx] by (intro well_assigned_enrolled [OF inv, where m = m]) simp_all
  next
    case (Some x)
    with tx obtain v where set: "set_membership (m_id x)
        (\<lambda>m. m\<lparr>m_role_id := i_role_id invitation, m_status := ACTIVE, m_joined_at := now,
                m_ended_at := None, m_updated_by := Some actor\<rparr>) v = Inr (m, w')"
      and v: "roles v = roles w" "user_roles v = user_roles w" "memberships v = memberships w"
      by (auto simp: acceptTransaction_def Let_def transaction_Inr split: if_split_asm intro: that)
    have "settled_rows (invitations w) (invitations v)"
      using settled_accept [OF tx] by (simp add: set_membership_frame [OF set])
    then show ?thesis
      by (intro well_assigned_set_membership [OF inv set]) (simp_all add: v well_roled_def role)
  qed
qed

lemma well_assigned_grant:
  assumes inv: "well_assigned w" and tx: "assign c uid roleId ab actor now w = Inr w'"
  shows "well_assigned w'"
proof -
  obtain role where "find_role w roleId = Some role" "r_scope role = PLATFORM"
    and rows: "user_roles w' = (if (uid, roleId) \<in> set (user_roles w) then user_roles w
       else user_roles w @ [(uid, roleId)])" "roles w' = roles w"
    by (rule assign_Inr [OF tx]) (rule that, assumption+)
  then have "role_in w PLATFORM roleId" by (simp add: role_in_def)
  moreover have "memberships w' = memberships w" "invitations w' = invitations w"
    using tx by (auto simp: assign_def Let_def bindE_Inr_iff)
  ultimately show ?thesis
    using inv by (intro well_assigned_rows [OF inv rows(2)]) (auto simp: rows(1) well_assigned_def)
qed

lemma well_assigned_withdraw_role:
  assumes inv: "well_assigned w" and tx: "revoke c uid roleId ab actor now w = Inr w'"
  shows "well_assigned w'"
proof -
  have "roles w' = roles w" "set (user_roles w') \<subseteq> set (user_roles w)" "memberships w' = memberships w"
    "invitations w' = invitations w"
    using tx by (auto simp: revoke_def bindE_Inr_iff)
  then show ?thesis
    using inv by (intro well_assigned_rows [OF inv]) (auto simp: well_assigned_def)
qed

lemma well_assigned_invite:
  assumes inv: "well_assigned w" and role: "role_in w WORKSPACE (r_id role)"
    and tx: "inviteTransaction ext ws email role existingUser token expiresAt actor now newId w = Inr ((i, n), w')"
  shows "well_assigned w'"
proof -
  obtain rows where rows: "settled_rows (invitations w) rows" "invitations w' = rows @ [i]"
    by (rule invite_Inr [OF tx]) (rule that, assumption+)
  have i: "i_role_id i = r_id role" and w': "roles w' = roles w" "user_roles w' = user_roles w"
    "memberships w' = memberships w"
    using tx unfolding inviteTransaction_def Let_def throw_Inr by auto
  have "well_assigned (w\<lparr>invitations := rows\<rparr>)"
    by (rule well_assigned_members [OF inv]) (simp_all add: rows(1))
  then have "\<forall>j \<in> set rows. role_in w WORKSPACE (i_role_id j)"
    using role_in_cong [of "w\<lparr>invitations := rows\<rparr>" w] by (simp add: well_assigned_def)
  then show ?thesis
    using inv role by (intro well_assigned_rows [OF inv w'(1)]) (auto simp: rows(2) i w' well_assigned_def)
qed

lemma well_assigned_withdraw_invitation:
  assumes inv: "well_assigned w" and tx: "revokeInvitation c ws iid ab actor now w = Inr w'"
  shows "well_assigned w'"
proof -
  have "roles w' = roles w" "user_roles w' = user_roles w" "memberships w' = memberships w"
    using tx by (auto simp: revokeInvitation_def update_pending_def bindE_Inr_iff throw_Inr)
  then show ?thesis
    using settled_revoke [OF tx] by (intro well_assigned_members [OF inv]) simp_all
qed

lemma well_assigned_resend:
  assumes inv: "well_assigned w" and tx: "resendInvitation c ext days ws iid ab actor budget token now w = Inr (i, w')"
  shows "well_assigned w'"
proof -
  have "roles w' = roles w" "user_roles w' = user_roles w" "memberships w' = memberships w"
    using tx by (auto simp: resendInvitation_def update_pending_def queueInvitationEmail_def Let_def
        bindE_Inr_iff throw_Inr split: if_splits)
  then show ?thesis
    using settled_resend [OF tx] by (intro well_assigned_members [OF inv]) simp_all
qed

lemma well_assigned_erase:
  assumes inv: "well_assigned w" and tx: "gdprEraseTransaction uid hash now clk w = Inr (r, w')"
  shows "well_assigned w'"
proof -
  obtain x u w1 where w1: "closeSolelyOwnedWorkspaces uid uid (clk 2) w = (fst x, snd x, w1)"
    and ended: "endAllSessionsInTransaction uid (Some uid) (erased_row uid hash now) clk w1 = Inr (u, w')"
    using tx by (auto simp: gdprEraseTransaction_def bindE_Inr_iff split: prod.splits)
  have "roles w1 = roles w" "user_roles w1 = user_roles w" "memberships w1 = memberships w" "invitations w1 = invitations w"
    using w1 by (auto simp: closeSolelyOwnedWorkspaces_def Let_def split: if_splits)
  moreover have "roles w' = roles w1" "user_roles w' = user_roles w1" "memberships w' = memberships w1"
    "invitations w' = invitations w1"
    using ended by (auto simp: endAllSessionsInTransaction_def Let_def throw_Inr split: option.splits)
  ultimately show ?thesis by (intro well_assigned_members [OF inv]) simp_all
qed

lemma well_assigned_step: "assignment_step w w' \<Longrightarrow> well_assigned w \<Longrightarrow> well_assigned w'"
proof (induction rule: assignment_step.induct)
  case grant
  then show ?case by (blast intro: well_assigned_grant)
next
  case withdraw_role
  then show ?case by (blast intro: well_assigned_withdraw_role)
next
  case found
  then show ?case by (blast intro: well_assigned_found)
next
  case add
  then show ?case by (blast intro: well_assigned_add loaded_role_in)
next
  case annotate
  then show ?case by (blast intro: well_assigned_annotate)
next
  case change_role
  then show ?case by (blast intro: well_assigned_change_role loaded_role_in)
next
  case change_status
  show ?case by (rule well_assigned_change_status [OF change_status.prems change_status.hyps(2,1)])
next
  case (transfer ws mid uid ownerRole adminRole actor w p w' v)
  then have "projected w" by (simp add: well_assigned_def)
  then have "role_in w WORKSPACE (r_id ownerRole)" "role_in w WORKSPACE (r_id adminRole)"
    using seeded_role_in transfer.hyps(2-4) by blast+
  then show ?case
    using transfer by (cases p) (blast intro: well_assigned_transfer)
next
  case (invite ext ws email role existingUser token expiresAt actor now newId w i w' roleId v)
  then show ?case by (cases i) (blast intro: well_assigned_invite loaded_role_in)
next
  case withdraw_invitation
  then show ?case by (blast intro: well_assigned_withdraw_invitation)
next
  case resend
  then show ?case by (blast intro: well_assigned_resend)
next
  case (accept c loadAbility invitation actor now newId w m w')
  then show ?case by (cases m) (blast intro: well_assigned_accept)
next
  case erase
  then show ?case by (blast intro: well_assigned_erase)
next
  case (elsewhere w' w)
  show ?case
    by (rule well_assigned_members [OF elsewhere.prems elsewhere.hyps(1,2)])
      (simp_all only: elsewhere.hyps settled_refl)
qed

interpretation assignment: machine seeded assignment_step well_assigned
proof
  show "seeded w \<Longrightarrow> well_assigned w" for w
    by (simp add: seeded_def well_assigned_def)
  show "well_assigned w \<Longrightarrow> assignment_step w w' \<Longrightarrow> well_assigned w'" for w w'
    by (rule well_assigned_step)
qed

lemma well_assigned_coherent:
  assumes "well_assigned w"
  shows "assertStoredAssignmentsAreCoherent (columns_of w) = Inr ()"
proof -
  have none: "with_scope (roles w) scope ids = []"
    if "\<forall>i \<in> set ids. role_in w other i" "other \<noteq> scope" for scope other ids
    using that by (force simp: with_scope_def role_in_def find_role_def filter_empty_conv)
  have "with_scope (roles w) WORKSPACE (map snd (user_roles w)) = []"
    by (rule none [of _ PLATFORM]) (use assms in \<open>auto simp: well_assigned_def\<close>)
  moreover have "with_scope (roles w) PLATFORM (map m_role_id (memberships w)) = []"
    by (rule none [of _ WORKSPACE]) (use assms in \<open>auto simp: well_assigned_def well_roled_def\<close>)
  moreover have "with_scope (roles w) PLATFORM (map i_role_id (invitations w)) = []"
    by (rule none [of _ WORKSPACE]) (use assms in \<open>auto simp: well_assigned_def\<close>)
  moreover have "membership_status_value (m_status m) \<in> set MEMBERSHIP_STATUSES" if "m \<in> set (memberships w)" for m
    using that assms by (auto simp: well_assigned_def well_roled_def MEMBERSHIP_STATUSES_def)
  moreover have "invitation_status_value s \<in> set INVITATION_STATUSES" for s
    by (cases s) (simp_all add: INVITATION_STATUSES_def)
  ultimately show ?thesis
    unfolding coherent_iff columns_of_def by (simp add: comp_def image_subset_iff)
qed

text \<open>C10: After any sequence of grants of platform roles, workspace, membership and invitation transactions and
  erasures the application starts: the check of the stored assignments finds nothing.\<close>

theorem written_assignments_boot:
  assumes "reachable seeded assignment_step w"
  shows "bootAssignments nodeEnv (columns_of w) = Inr ()"
  using well_assigned_coherent [OF assignment.inv_reachable [OF assms]] by (simp add: bootAssignments_def)

end
