(* ===== verification/Signed_Urls.thy ===== *)
theory Signed_Urls
  imports World File_Names
begin

text \<open>
  Signed read URLs: \<open>signed-read-url-cache.service.ts\<close> and \<open>createSignedReadUrl\<close> of
  \<open>file-storage.service.ts\<close>, both under \<open>src/src/common/storage\<close>.  JSON and dates as text are the record
  \<open>url_codec\<close>; the answer of the storage adapter is an argument, \<open>Late\<close> when the timer of \<open>withTimeout\<close> fires first.

  A URL is a credential nobody can take back, so what matters is when it is served: before it expires, and for the
  object it was asked for.
\<close>

section \<open>Signing\<close>

record signed_url =
  su_url :: string
  su_expires_at :: time

datatype adapter_answer = Signed string | Failed exn | Late

definition withTimeout :: "adapter_answer \<Rightarrow> string \<Rightarrow> exn + string" where
  "withTimeout answer timeoutMessage =
     (case answer of Signed url \<Rightarrow> Inr url | Failed e \<Rightarrow> Inl e | Late \<Rightarrow> Inl (JsError timeoutMessage))"

text \<open>\<open>storage.signedUrlTtlSeconds\<close> and \<open>storage.requestTimeoutMs\<close>.\<close>

record storage_settings =
  ss_default_ttl_seconds :: rat
  ss_request_timeout_ms :: nat

text \<open>The expiry is stamped at \<open>now\<close>, before the adapter is asked.\<close>

definition createSignedReadUrl ::
  "storage_settings \<Rightarrow> (int \<Rightarrow> adapter_answer) \<Rightarrow> js_number option \<Rightarrow> time \<Rightarrow> exn + signed_url" where
  "createSignedReadUrl settings adapter ttlSeconds now =
     (let effectiveTtlSeconds = resolveSignedUrlTtlSeconds ttlSeconds (ss_default_ttl_seconds settings);
          expiresAt = now + effectiveTtlSeconds * 1000
      in bindE (withTimeout (adapter effectiveTtlSeconds)
                  (''Signing a read URL timed out after '' @ decimal (ss_request_timeout_ms settings) @ '' ms''))
           (\<lambda>url. Inr \<lparr>su_url = url, su_expires_at = expiresAt\<rparr>))"

section \<open>The cache\<close>

definition SIGNED_READ_URL_CACHE_PREFIX :: string where
  "SIGNED_READ_URL_CACHE_PREFIX = ''storage:signed-read-url:v1:''"

record url_codec =
  uc_stringify :: "json \<Rightarrow> string"
  uc_parse :: "string \<Rightarrow> json option"
  uc_to_iso :: "time \<Rightarrow> string"
  uc_date :: "string \<Rightarrow> time option"

definition url_entry :: "url_codec \<Rightarrow> signed_url \<Rightarrow> json" where
  "url_entry c signed =
     JObj [(''url'', JStr (su_url signed)), (''expiresAt'', JStr (uc_to_iso c (su_expires_at signed)))]"

text \<open>What \<open>JSON.stringify\<close> and \<open>toISOString\<close> write of an entry, \<open>JSON.parse\<close> and \<open>new Date\<close> read back.\<close>

definition writes_what_it_reads :: "url_codec \<Rightarrow> bool" where
  "writes_what_it_reads c \<longleftrightarrow>
     (\<forall>u. uc_parse c (uc_stringify c (url_entry c u)) = Some (url_entry c u) \<and> uc_stringify c (url_entry c u) \<noteq> []) \<and>
     (\<forall>t. uc_date c (uc_to_iso c t) = Some t)"

definition parseCached :: "url_codec \<Rightarrow> string \<Rightarrow> signed_url option" where
  "parseCached c value =
     (case uc_parse c value of
        None \<Rightarrow> None
      | Some parsed \<Rightarrow>
          (case (json_field ''url'' parsed, json_field ''expiresAt'' parsed) of
             (Some (JStr url), Some (JStr expires)) \<Rightarrow>
               (case uc_date c expires of
                  None \<Rightarrow> None
                | Some expiresAt \<Rightarrow> Some \<lparr>su_url = url, su_expires_at = expiresAt\<rparr>)
           | _ \<Rightarrow> None))"

definition cacheKey_of :: "string \<Rightarrow> string" where
  "cacheKey_of storageKey = SIGNED_READ_URL_CACHE_PREFIX @ storageKey"

definition readCachedUrl :: "url_codec \<Rightarrow> string \<Rightarrow> time \<Rightarrow> world \<Rightarrow> signed_url option" where
  "readCachedUrl c storageKey now w =
     (case redis_get w now (cacheKey_of storageKey) of
        Inr (Some cached) \<Rightarrow> (if cached \<noteq> [] then parseCached c cached else None)
      | _ \<Rightarrow> None)"

text \<open>The clock is read at \<open>now\<close>, and the write reaches Redis at \<open>landing\<close>.\<close>

definition storeSignedUrl ::
  "url_codec \<Rightarrow> string \<Rightarrow> signed_url \<Rightarrow> time \<Rightarrow> time \<Rightarrow> world \<Rightarrow> world" where
  "storeSignedUrl c storageKey signed now landing w =
     (let cacheTtlSeconds = (su_expires_at signed - now) div 2000
      in if 0 < cacheTtlSeconds \<and> redis_up w
         then redis_set_ex (cacheKey_of storageKey)
                (uc_stringify c (url_entry c signed)) cacheTtlSeconds landing w
         else w)"

definition signedReadUrlFor ::
  "url_codec \<Rightarrow> storage_settings \<Rightarrow> (int \<Rightarrow> adapter_answer) \<Rightarrow> string \<Rightarrow> clock \<Rightarrow> world \<Rightarrow> exn + signed_url \<times> world" where
  "signedReadUrlFor c settings adapter storageKey clk w =
     (case readCachedUrl c storageKey (clk 0) w of
        Some fromCache \<Rightarrow> Inr (fromCache, w)
      | None \<Rightarrow>
          bindE (createSignedReadUrl settings adapter None (clk 1)) (\<lambda>signed.
          Inr (signed, storeSignedUrl c storageKey signed (clk 2) (clk 3) w)))"

lemma parse_entry:
  "writes_what_it_reads c \<Longrightarrow>
   parseCached c (uc_stringify c (url_entry c u)) = Some u \<and> uc_stringify c (url_entry c u) \<noteq> []"
  by (simp add: parseCached_def writes_what_it_reads_def) (simp add: url_entry_def json_field_def)

section \<open>What a page is served\<close>

text \<open>
  The steps that touch the cache: a write of a freshly signed URL, whatever was read or written since the request
  began, and anything else, which may lose entries but writes none.  \<open>opens\<close> says which object a signature is for;
  \<open>slack\<close> is the longest a write takes to reach Redis after the clock was read.
\<close>

inductive url_step ::
  "url_codec \<Rightarrow> storage_settings \<Rightarrow> (string \<Rightarrow> string \<Rightarrow> bool) \<Rightarrow> int \<Rightarrow> world \<Rightarrow> world \<Rightarrow> bool"
  for c :: url_codec and settings :: storage_settings and opens :: "string \<Rightarrow> string \<Rightarrow> bool" and slack :: int where
  stored:
    "createSignedReadUrl settings adapter None begun = Inr signed \<Longrightarrow> opens storageKey (su_url signed) \<Longrightarrow>
     now \<le> landing \<Longrightarrow> landing \<le> now + slack \<Longrightarrow>
     url_step c settings opens slack w (storeSignedUrl c storageKey signed now landing w)"
| elsewhere:
    "(\<And>k. redis w' (cacheKey_of k) = redis w (cacheKey_of k) \<or> redis w' (cacheKey_of k) = None) \<Longrightarrow>
     url_step c settings opens slack w w'"

definition no_urls :: "world \<Rightarrow> bool" where
  "no_urls w \<longleftrightarrow> (\<forall>k. redis w (cacheKey_of k) = None)"

text \<open>An entry goes from Redis while the URL has half of what was left of its life when it was signed, less the
  time the write took.\<close>

definition entry_ok :: "url_codec \<Rightarrow> (string \<Rightarrow> string \<Rightarrow> bool) \<Rightarrow> int \<Rightarrow> string \<Rightarrow> string \<times> time option \<Rightarrow> bool" where
  "entry_ok c opens slack k e \<longleftrightarrow>
     (\<exists>(signed :: signed_url) gone now. e = (uc_stringify c (url_entry c signed), Some gone) \<and>
        opens k (su_url signed) \<and> 2000 \<le> su_expires_at signed - now \<and>
        su_expires_at signed - now \<le> 2 * (su_expires_at signed - gone + slack))"

definition cache_ok :: "url_codec \<Rightarrow> (string \<Rightarrow> string \<Rightarrow> bool) \<Rightarrow> int \<Rightarrow> world \<Rightarrow> bool" where
  "cache_ok c opens slack w \<longleftrightarrow> (\<forall>k e. redis w (cacheKey_of k) = Some e \<longrightarrow> entry_ok c opens slack k e)"

lemma cacheKey_inj [simp]: "cacheKey_of k = cacheKey_of k' \<longleftrightarrow> k = k'"
  by (simp add: cacheKey_of_def)

lemma stored_entry_ok:
  fixes signed :: signed_url
  assumes "opens k (su_url signed)" and "landing \<le> now + slack" and "0 < (su_expires_at signed - now) div 2000"
  shows "entry_ok c opens slack k
    (uc_stringify c (url_entry c signed), Some (landing + (su_expires_at signed - now) div 2000 * 1000))"
proof -
  define q where "q = (su_expires_at signed - now) div 2000"
  have q: "1 \<le> q" "q * 2000 \<le> su_expires_at signed - now"
    using assms(3) by (simp_all add: q_def)
  have "2000 \<le> su_expires_at signed - now" using q by linarith
  moreover have "su_expires_at signed - now \<le> 2 * (su_expires_at signed - (landing + q * 1000) + slack)"
    using q(2) assms(2) by presburger
  ultimately show ?thesis
    using assms(1) unfolding entry_ok_def q_def by blast
qed

lemma cache_ok_step:
  assumes "url_step c settings opens slack w w'" and "cache_ok c opens slack w"
  shows "cache_ok c opens slack w'"
  using assms(1)
proof cases
  case (stored adapter begun signed storageKey now landing)
  show ?thesis
  proof (cases "0 < (su_expires_at signed - now) div 2000 \<and> redis_up w")
    case True
    then show ?thesis
      using assms(2) stored_entry_ok [of opens storageKey signed landing now slack c, OF stored(3,5)]
      by (simp add: stored(1) cache_ok_def storeSignedUrl_def redis_set_ex_def Let_def)
  next
    case False
    then show ?thesis using assms(2) by (auto simp: stored(1) storeSignedUrl_def Let_def)
  qed
next
  case elsewhere
  then show ?thesis using assms(2) unfolding cache_ok_def by (metis option.distinct(1))
qed

interpretation url_cache: machine no_urls "url_step c settings opens slack" "cache_ok c opens slack"
  for c settings opens slack
proof
  show "no_urls w \<Longrightarrow> cache_ok c opens slack w" for w
    by (simp add: no_urls_def cache_ok_def)
  show "cache_ok c opens slack w \<Longrightarrow> url_step c settings opens slack w w' \<Longrightarrow> cache_ok c opens slack w'" for w w'
    by (rule cache_ok_step)
qed

lemma cached_url_ok:
  assumes "writes_what_it_reads c" and "cache_ok c opens slack w" and "readCachedUrl c k t w = Some u"
  shows "opens k (su_url u)"
    and "\<exists>now. 2000 \<le> su_expires_at u - now \<and> su_expires_at u - now < 2 * (su_expires_at u - t + slack)"
proof -
  obtain v T where e: "redis w (cacheKey_of k) = Some (v, T)" and live: "\<forall>x. T = Some x \<longrightarrow> t < x"
    and v: "parseCached c v = Some u"
    using assms(3)
    by (auto simp: readCachedUrl_def redis_get_def split: sum.splits option.splits if_splits prod.splits)
  from assms(2) e have "entry_ok c opens slack k (v, T)" by (simp add: cache_ok_def)
  then obtain signed :: signed_url and gone now where parts: "v = uc_stringify c (url_entry c signed)" "T = Some gone"
    "opens k (su_url signed)" "2000 \<le> su_expires_at signed - now"
    "su_expires_at signed - now \<le> 2 * (su_expires_at signed - gone + slack)"
    unfolding entry_ok_def prod.inject by blast
  have u: "u = signed" using v parse_entry [OF assms(1), of signed] by (simp add: parts(1))
  show "opens k (su_url u)" using parts(3) by (simp add: u)
  have "t < gone" using live parts(2) by simp
  then show "\<exists>now. 2000 \<le> su_expires_at u - now \<and> su_expires_at u - now < 2 * (su_expires_at u - t + slack)"
    using parts(4,5) by (intro exI [of _ now]) (simp add: u)
qed

text \<open>A URL from the cache opens the object it was asked for, and if writes reach Redis within a second it has not
  expired, however the requests interleave.\<close>

theorem cached_url_is_live:
  assumes "writes_what_it_reads c" and "reachable no_urls (url_step c settings opens slack) w" and "slack \<le> 1000"
    and "readCachedUrl c storageKey (clk 0) w = Some fromCache"
  shows "\<exists>w'. signedReadUrlFor c settings adapter storageKey clk w = Inr (fromCache, w') \<and>
    opens storageKey (su_url fromCache) \<and> clk 0 < su_expires_at fromCache"
  using cached_url_ok [OF assms(1) url_cache.inv_reachable [OF assms(2)] assms(4)] assms(3)
  by (auto simp: signedReadUrlFor_def assms(4))

text \<open>Whatever is asked for, the URL dies within the hour of its signature, and not before half a minute.\<close>

lemma signed_for_at_most_an_hour:
  "createSignedReadUrl settings adapter requested now = Inr signed \<Longrightarrow>
   now + 30000 \<le> su_expires_at signed \<and> su_expires_at signed \<le> now + 3600000"
  by (auto simp: createSignedReadUrl_def bindE_Inr_iff Let_def resolveSignedUrlTtlSeconds_def
      MINIMUM_SIGNED_URL_TTL_SECONDS_def MAXIMUM_SIGNED_URL_TTL_SECONDS_def)

section \<open>Short of half\<close>

text \<open>A URL stored at \<open>now\<close> is served until half of what was left of it has passed since the write landed.\<close>

lemma served_until:
  assumes "writes_what_it_reads c" and "redis_up w" and "2000 \<le> su_expires_at u - now"
    and "t < landing + (su_expires_at u - now) div 2000 * 1000"
  shows "readCachedUrl c k t (storeSignedUrl c k u now landing w) = Some u"
proof -
  have "0 < (su_expires_at u - now) div 2000" using assms(3) by linarith
  then show ?thesis
    using assms(2,4) parse_entry [OF assms(1), of u]
    by (simp add: readCachedUrl_def storeSignedUrl_def redis_get_def redis_set_ex_def Let_def)
qed

definition half_minute :: "string \<Rightarrow> signed_url" where
  "half_minute url = \<lparr>su_url = url, su_expires_at = 30000\<rparr>"

lemma half_minute_signed:
  "createSignedReadUrl \<lparr>ss_default_ttl_seconds = 30, ss_request_timeout_ms = 15000\<rparr> (\<lambda>_. Signed url) None 0 =
     Inr (half_minute url)"
  by (simp add: createSignedReadUrl_def resolveSignedUrlTtlSeconds_def withTimeout_def half_minute_def
      MINIMUM_SIGNED_URL_TTL_SECONDS_def MAXIMUM_SIGNED_URL_TTL_SECONDS_def)

text \<open>The service promises that a cached URL always has at least half its validity left when it is served.  A
  signature of ten seconds leaves less.\<close>

theorem served_below_half:
  assumes "writes_what_it_reads c" and "redis_up w"
  shows "readCachedUrl c k 19999 (storeSignedUrl c k (half_minute url) 10000 10000 w) = Some (half_minute url) \<and>
    2 * (su_expires_at (half_minute url) - 19999) < 30000"
  using served_until [OF assms, of "half_minute url" 10000 19999 10000 k] by (simp add: half_minute_def)

text \<open>A slow signature never leaves an entry that outlives its URL; a slow write does.\<close>

theorem slow_write_serves_expired:
  assumes "writes_what_it_reads c" and "redis_up w"
  shows "readCachedUrl c k 32000 (storeSignedUrl c k (half_minute url) 0 20000 w) = Some (half_minute url) \<and>
    su_expires_at (half_minute url) < 32000"
  using served_until [OF assms, of "half_minute url" 0 32000 20000 k] by (simp add: half_minute_def)

section \<open>A codec\<close>

definition plain_codec :: url_codec where
  "plain_codec =
     \<lparr>uc_stringify = (\<lambda>j. case (json_field ''expiresAt'' j, json_field ''url'' j) of
          (Some (JStr d), Some (JStr u)) \<Rightarrow> d @ CHR 0x0A # u | _ \<Rightarrow> []),
      uc_parse = (\<lambda>s. let d = takeWhile (\<lambda>c. c \<noteq> CHR 0x0A) s
         in Some (JObj [(''url'', JStr (drop (length d + 1) s)), (''expiresAt'', JStr d)])),
      uc_to_iso = (\<lambda>t. (if 0 \<le> t then CHR ''+'' else CHR ''-'') # replicate (nat \<bar>t\<bar>) (CHR ''i'')),
      uc_date = (\<lambda>s. case s of [] \<Rightarrow> None
         | c # cs \<Rightarrow> Some (if c = CHR ''+'' then int (length cs) else - int (length cs)))\<rparr>"

lemma plain_codec_reads: "writes_what_it_reads plain_codec"
proof -
  have free: "takeWhile (\<lambda>c. c \<noteq> CHR 0x0A) (d @ CHR 0x0A # u) = d" if "CHR 0x0A \<notin> set d" for d u :: string
    using that by (induction d) auto
  have "CHR 0x0A \<notin> set (uc_to_iso plain_codec t)" for t
    by (auto simp: plain_codec_def)
  then show ?thesis
    by (auto simp: writes_what_it_reads_def url_entry_def json_field_def free plain_codec_def Let_def)
qed

section \<open>A run\<close>

text \<open>A URL is signed for half a minute and stored; five seconds later the page gets it from the cache.\<close>

definition signing :: storage_settings where
  "signing = \<lparr>ss_default_ttl_seconds = 30, ss_request_timeout_ms = 15000\<rparr>"

definition signed_world :: "world \<Rightarrow> world" where
  "signed_world w = storeSignedUrl plain_codec ''k'' (half_minute ''u'') 0 0 w"

lemma signed_world_reachable:
  assumes "no_urls w"
  shows "reachable no_urls (url_step plain_codec signing (\<lambda>k u. k = ''k'' \<and> u = ''u'') 1000) (signed_world w)"
proof (rule reachable.next_step)
  show "reachable no_urls (url_step plain_codec signing (\<lambda>k u. k = ''k'' \<and> u = ''u'') 1000) w"
    by (rule reachable.start) (rule assms)
  have "createSignedReadUrl signing (\<lambda>_. Signed ''u'') None 0 = Inr (half_minute ''u'')"
    using half_minute_signed [of "''u''"] by (simp add: signing_def)
  then show "url_step plain_codec signing (\<lambda>k u. k = ''k'' \<and> u = ''u'') 1000 w (signed_world w)"
    unfolding signed_world_def by (rule url_step.stored) (simp_all add: half_minute_def)
qed

end
