(* ===== verification/Service_Witnesses.thy ===== *)
theory Service_Witnesses
  imports Account_Mail_Properties Row_Locks Samples Routes Ability_Witnesses Audit_Trail
    Mail_Templates Boot_Checks Ownership_Witnesses OAuth_Witnesses Signed_Urls
begin

text \<open>
  Witnesses of the deliveries, the profile picture and the row locks, of the guards, of the audit trail, of the
  plain text of a message, and of the boot check.
\<close>

definition n_delivery :: delivery where
  "n_delivery = \<lparr>dl_ext = sample_ext, dl_hmac = id, dl_ascii = id, dl_up = True, dl_still_up = True,
      dl_answer = Inr (), dl_now = 1000, dl_later = 1001, dl_token = ''t'', dl_sign = (\<lambda>_. ''j''), dl_encode = id,
      dl_with_params = (\<lambda>u ps. u @ concat (map snd ps)), dl_api_base_url = ''a'', dl_web_base_url = ''w'',
      dl_password_reset_url = ''r''\<rparr>"

definition n_user :: user_row where
  "n_user = (sample_user ''u'')\<lparr>u_email_verified_at := None\<rparr>"

definition n_state :: mail_state where
  "n_state = \<lparr>ms_world = sample_world\<lparr>users := [n_user]\<rparr>, ms_counters = Map.empty, ms_outbox = []\<rparr>"

lemma n_lower: "to_lower_case ''u'' = ''u''"
  by code_simp

lemma n_live: "find_live_user (ms_world n_state) ''u'' = Some n_user"
  by (simp add: n_state_def n_user_def find_live_user_def live_users_def sample_defs)

lemma n_by_email: "findByEmail (u_email n_user) (ms_world n_state) = Some n_user"
  by (simp add: n_state_def n_user_def findByEmail_def live_users_def sample_defs n_lower)

lemma n_delivered:
  assumes "fst (send n_state) = Inr ()"
  shows "fst (deliver_within_limit n_delivery EMAIL_VERIFICATION e send n_state) = Inr Sent"
    and "fst (deliver_within_limit n_delivery PASSWORD_RESET_MAIL e send n_state) = Inr Sent"
  using assms
  by (simp_all add: deliver_within_limit_def sendWithinLimit_def reserve_def counter_at_def sendReserved_def Let_def
      n_delivery_def n_state_def)

lemma mailed_reset_link_works_witness:
  "\<exists>s'. deliverPasswordReset n_delivery ''u'' n_state = (Inr Sent, s') \<and>
     ms_outbox s' = [reset_mail n_delivery n_user] \<and>
     (\<exists>u. u_id u = ''u'' \<and> resetChecks sample_ext ''u'' ''t'' 3601000 (ms_world s') = Inr u)"
proof -
  have "fst (mintAndSendPasswordReset n_delivery n_user n_state) = Inr ()"
    by (simp add: mintAndSendPasswordReset_def mintPasswordReset_def user_update_def send_template_def find_user_def
        user_conflict_def live_users_def n_state_def n_user_def n_delivery_def sample_defs)
  then have "fst (deliverPasswordReset n_delivery ''u'' n_state) = Inr Sent"
    using n_delivered(2) n_live by (simp add: deliverPasswordReset_def findByIdOrNull_def n_user_def sample_user_def)
  then obtain s' where s': "deliverPasswordReset n_delivery ''u'' n_state = (Inr Sent, s')"
    by (cases "deliverPasswordReset n_delivery ''u'' n_state") simp
  have "sha256_hex (dl_ext n_delivery) (dl_token n_delivery) \<noteq> []" by (simp add: n_delivery_def sample_ext_def)
  from mailed_reset_link_works [OF s' n_live n_by_email this, of 3601000]
  have "ms_outbox s' = [reset_mail n_delivery n_user] \<and>
     (\<exists>u. u_id u = ''u'' \<and> resetChecks sample_ext ''u'' ''t'' 3601000 (ms_world s') = Inr u)"
    by (simp add: n_delivery_def n_state_def n_user_def sample_user_def)
  with s' show ?thesis by blast
qed

lemma mailed_verification_link_is_bound_witness:
  "readVerification (Some (verification_payload n_user)) (sample_world\<lparr>users := [n_user\<lparr>u_email := ''v''\<rparr>]\<rparr>) =
     Inl invalidLink"
proof -
  have "fst (deliverEmailVerification n_delivery ''u'' n_state) = Inr Sent"
    using n_delivered(1) n_live
    by (simp add: deliverEmailVerification_def findByIdOrNull_def n_user_def sample_user_def send_template_def
        n_delivery_def)
  then obtain s' where s': "deliverEmailVerification n_delivery ''u'' n_state = (Inr Sent, s')"
    by (cases "deliverEmailVerification n_delivery ''u'' n_state") simp
  show ?thesis
    using mailed_verification_link_is_bound [OF s' n_live, of "sample_world\<lparr>users := [n_user\<lparr>u_email := ''v''\<rparr>]\<rparr>"]
    by (simp add: find_live_user_def live_users_def n_user_def sample_defs)
qed

section \<open>The picture\<close>

definition n_file :: "ident \<Rightarrow> file_status \<Rightarrow> time option \<Rightarrow> file_row" where
  "n_file i status expires = \<lparr>fa_id = i, fa_created_at = 0, fa_updated_at = 0, fa_uploaded_by = ''u'',
      fa_purpose = PROFILE_IMAGE, fa_status = status, fa_storage_key = i, fa_kind = IMAGE_KIND,
      fa_content_type = ''image/png'', fa_size_bytes = None, fa_width = None, fa_height = None, fa_file_name = [],
      fa_expires_at = expires, fa_attached_at = None, fa_delete_attempts = 0\<rparr>"

definition n_files :: file_world where
  "n_files = \<lparr>file_assets = [n_file ''a'' ATTACHED None, n_file ''b'' READY (Some 50)], objects = Map.empty\<rparr>"

definition n_world :: world where
  "n_world = sample_world\<lparr>users := [n_user\<lparr>u_profile_image := Some ''a''\<rparr>]\<rparr>"

lemma n_lower_b: "to_lower_case ''B'' = ''b''"
  by code_simp

lemma picture_is_swapped_witness:
  "\<exists>u w' fw'. setProfileImage ''u'' (Some ''B'') ''u'' 10 n_world n_files = Inr (u, w', fw') \<and>
     u_profile_image u = Some ''b'' \<and>
     \<not> (\<exists>r \<in> set (file_assets fw'). fa_id r = ''a'' \<and> fa_status r \<noteq> DELETING)"
proof -
  let ?old = "n_user\<lparr>u_profile_image := Some ''a''\<rparr>"
  have live: "find_live_user n_world ''u'' = Some ?old"
    by (simp add: n_world_def find_live_user_def live_users_def n_user_def sample_defs)
  have "\<exists>u w' fw'. setProfileImage ''u'' (Some ''B'') ''u'' 10 n_world n_files = Inr (u, w', fw')"
    by (simp add: setProfileImage_def live n_lower_b Let_def)
      (simp add: claimForAttachment_def update_files_def n_files_def n_file_def count_where_def user_update_def find_user_def user_conflict_def live_users_def n_world_def n_user_def
        sample_defs)
  then obtain u w' fw' where r: "setProfileImage ''u'' (Some ''B'') ''u'' 10 n_world n_files = Inr (u, w', fw')"
    by blast
  have "distinct (map fa_id (file_assets n_files))" "u_profile_image ?old \<noteq> Some []"
    by (simp_all add: n_files_def n_file_def)
  from picture_is_swapped [OF r this(1) live this(2)] r show ?thesis by (auto simp: n_lower_b)
qed

section \<open>A signed URL\<close>

lemma cached_url_is_live_witness:
  "\<exists>w'. signedReadUrlFor plain_codec signing (\<lambda>_. Signed ''other'') ''k'' (\<lambda>_. 5000) (signed_world empty_world) =
     Inr (half_minute ''u'', w') \<and> 5000 < su_expires_at (half_minute ''u'')"
proof -
  have w: "no_urls empty_world" "redis_up empty_world" by (simp_all add: no_urls_def empty_world_def)
  have "readCachedUrl plain_codec ''k'' 5000 (signed_world empty_world) = Some (half_minute ''u'')"
    unfolding signed_world_def
    by (rule served_until [OF plain_codec_reads w(2)]) (simp_all add: half_minute_def)
  from cached_url_is_live [OF plain_codec_reads signed_world_reachable [OF w(1)] order_refl, of "''k''" "\<lambda>_. 5000", OF this]
  show ?thesis by blast
qed

section \<open>Locks\<close>

definition w_calls :: "lock_call list" where
  "w_calls = [\<lparr>lc_users = [''u''], lc_workspaces = [''w''], lc_family_owner = None\<rparr>,
     \<lparr>lc_users = [''u''], lc_workspaces = [''w'', ''v'', ''w''], lc_family_owner = Some ''u''\<rparr>]"

lemma w_started: "starting (map prescribed_locks w_calls) =
    [\<lparr>rn_held = [], rn_todo = [(UserRow ''u'', ForUpdate), (WorkspaceRow ''w'', ForUpdate)]\<rparr>,
     \<lparr>rn_held = [], rn_todo = [(UserRow ''u'', ForUpdate), (WorkspaceRow ''v'', ForUpdate),
        (WorkspaceRow ''w'', ForUpdate), (TokenRows ''u'', ForUpdate)]\<rparr>]"
  by code_simp


text \<open>A request without a token, one with an account holder's token and one of the staff, with the properties of the
  guards applied to them.\<close>

definition r_bearer :: "string \<Rightarrow> string option" where
  "r_bearer header =
     (let scheme = takeWhile (\<lambda>c. \<not> white_space c) header;
          token = takeWhile (\<lambda>c. \<not> white_space c) (dropWhile white_space (dropWhile (\<lambda>c. \<not> white_space c) header))
      in if to_lower_case scheme = ''bearer'' \<and> token \<noteq> [] then Some token else None)"

definition r_claims :: jwt_payload where
  "r_claims = \<lparr>jp_sub = ''u'', jp_iat = Some 0, jp_exp = None, jp_jti = None, jp_purpose = None\<rparr>"

definition r_framework :: framework where
  "r_framework = \<lparr>fw_bearer = r_bearer, fw_verify = (\<lambda>token. if token = ''t'' then Some (r_claims, None) else None),
     fw_stock_tracker = id, fw_unauthorized = tokenMissing, fw_too_many = rateLimited None,
     fw_forbidden = tokenInvalid\<rparr>"

definition r_request :: "string option \<Rightarrow> request" where
  "r_request header = \<lparr>rq_ip = ''9'', rq_authorization = header, rq_body = None, rq_param_workspace_id = None,
     rq_body_workspace_id = None,
     rq_bot_check = \<lparr>bq_token_header = None, bq_form_field = None, bq_origin = None\<rparr>\<rparr>"

text \<open>The bot check switched off, and the MCP server of the OAuth witnesses.\<close>

definition r_env :: guard_env where
  "r_env = \<lparr>ge_keys = \<lparr>sk_web = None, sk_mobile = None\<rparr>, ge_reply = CallThrew ''x'', ge_later = 0, ge_mcp = o_cfg,
     ge_oidc = o_oidc, ge_metadata_url = ''m'', ge_rows = o_rows\<rparr>"

lemma no_space_in_scheme: "to_lower_case scheme = ''bearer'' \<Longrightarrow> list_all (\<lambda>c. \<not> white_space c) scheme"
proof -
  assume s: "to_lower_case scheme = ''bearer''"
  have "\<not> white_space c" if c: "c \<in> set scheme" for c
  proof
    assume w: "white_space c"
    then have "lower_char c = c" by (auto simp: lower_char_def white_space_def Let_def)
    moreover have "lower_char c \<in> set (to_lower_case scheme)" using c by (simp add: to_lower_case_def)
    ultimately have "c \<in> set ''bearer''" unfolding s by simp
    moreover have "list_all (\<lambda>c. \<not> white_space c) ''bearer''" by code_simp
    ultimately show False using w unfolding list_all_iff by blast
  qed
  then show ?thesis by (simp add: list_all_iff)
qed

lemma span_append:
  assumes "list_all P xs" and "ys = [] \<or> \<not> P (hd ys)"
  shows "takeWhile P (xs @ ys) = xs" and "dropWhile P (xs @ ys) = ys"
  using assms by (induction xs) (cases ys; simp)+

lemma r_reads: "reads_bearer r_framework"
  unfolding reads_bearer_def
proof (intro allI impI)
  fix scheme gap token rest
  assume s: "to_lower_case scheme = ''bearer''" and g: "gap \<noteq> []" "list_all white_space gap"
    and t: "token \<noteq> []" "list_all (\<lambda>c. \<not> white_space c) token" and rest: "rest = [] \<or> white_space (hd rest)"
  let ?header = "scheme @ gap @ token @ rest"
  have "gap @ token @ rest = [] \<or> \<not> \<not> white_space (hd (gap @ token @ rest))"
    using g by (cases gap) simp_all
  from span_append [OF no_space_in_scheme [OF s] this]
  have h: "takeWhile (\<lambda>c. \<not> white_space c) ?header = scheme"
    "dropWhile (\<lambda>c. \<not> white_space c) ?header = gap @ token @ rest" .
  have "token @ rest = [] \<or> \<not> white_space (hd (token @ rest))"
    using t by (cases token) simp_all
  from span_append(2) [OF g(2) this] have d: "dropWhile white_space (gap @ token @ rest) = token @ rest" .
  have "takeWhile (\<lambda>c. \<not> white_space c) (token @ rest) = token"
    using rest by (intro span_append(1) [OF t(2)]) simp
  then show "fw_bearer r_framework ?header = Some token"
    using s t by (simp add: r_framework_def r_bearer_def h d)
qed

lemma r_tracker:
  "getTracker r_framework UsersController UsersController_getAuthUser (r_request (Some ''Bearer t'')) = ''user:'' @ ''u''"
proof -
  have "bearer_token ''Bearer t'' = Some ''t''" by code_simp
  moreover have "\<not> isPublicRoute UsersController UsersController_getAuthUser" by code_simp
  ultimately show ?thesis
    by (simp add: getTracker_def resolveAuthenticatedUserId_def r_framework_def r_request_def r_claims_def
        isAccessTokenPayload_def truthy_def)
qed

lemma private_bucket_needs_verified_token_witness:
  "\<exists>token payload act. bearer_token ''Bearer t'' = Some token \<and> fw_verify r_framework token = Some (payload, act) \<and>
     jp_purpose payload = None \<and> (case act of Some a \<Rightarrow> a | None \<Rightarrow> jp_sub payload) = ''u''"
proof -
  from private_bucket_needs_verified_token [OF r_reads r_tracker, of 0 sample_world]
  obtain header token payload act where "rq_authorization (r_request (Some ''Bearer t'')) = Some header"
    "bearer_token header = Some token" "fw_verify r_framework token = Some (payload, act)" "jp_purpose payload = None"
    "''u'' = (case act of Some a \<Rightarrow> a | None \<Rightarrow> jp_sub payload)"
    by blast
  moreover from this(5) have "(case act of Some a \<Rightarrow> a | None \<Rightarrow> jp_sub payload) = ''u''" by (rule sym)
  ultimately show ?thesis by (auto simp: r_request_def)
qed

text \<open>Without a token the sign-in form is open, a profile is not, and neither is the MCP endpoint.\<close>

lemma anonymous_reach_witness:
  "(\<exists>user b' w'. pass_guards r_framework sample_casl (\<lambda>_. sample_grants) r_env (\<lambda>_. True) AuthController
     AuthController_login (r_request None) 0 closed_breaker sample_world = (Inr user, b', w')) \<and>
   (\<nexists>user b' w'. pass_guards r_framework sample_casl (\<lambda>_. sample_grants) r_env (\<lambda>_. True) UsersController
     UsersController_getAuthUser (r_request None) 0 closed_breaker sample_world = (Inr user, b', w')) \<and>
   (\<nexists>user b' w'. pass_guards r_framework sample_casl (\<lambda>_. sample_grants) r_env (\<lambda>_. True) McpController
     McpController_handle (r_request None) 0 closed_breaker sample_world = (Inr user, b', w'))"
proof -
  have no_token: "rq_authorization (r_request None) = None" by (simp add: r_request_def)
  have off: "\<exists>b' w'. canActivate_turnstile (ge_keys r_env) (rq_bot_check (r_request None)) (ge_reply r_env) 0
      (ge_later r_env) closed_breaker sample_world = (Inr (), b', w')"
    by (simp add: canActivate_turnstile_def isEnabled_def r_env_def)
  have in_budget: "case bucket r_framework AuthController AuthController_login (r_request None) of
      None \<Rightarrow> True | Some b \<Rightarrow> True"
    by (simp split: option.split)
  have "AuthController \<in> set app_controllers" "AuthController_login \<in> set (ct_handlers AuthController)"
    by (simp_all add: app_controllers_def AuthController_def)
  moreover have "route_name AuthController AuthController_login \<in> set anonymous_routes" by code_simp
  ultimately have login: "\<exists>user b' w'. pass_guards r_framework sample_casl (\<lambda>_. sample_grants) r_env (\<lambda>_. True)
      AuthController AuthController_login (r_request None) 0 closed_breaker sample_world = (Inr user, b', w')"
    using anonymous_reach [OF _ _ no_token, of AuthController AuthController_login r_framework sample_casl
        "\<lambda>_. sample_grants" r_env "\<lambda>_. True" 0 closed_breaker sample_world] off in_budget by blast
  have "UsersController \<in> set app_controllers" "UsersController_getAuthUser \<in> set (ct_handlers UsersController)"
    by (simp_all add: app_controllers_def UsersController_def)
  moreover have "route_name UsersController UsersController_getAuthUser \<notin> set anonymous_routes" by code_simp
  ultimately have profile: "\<nexists>user b' w'. pass_guards r_framework sample_casl (\<lambda>_. sample_grants) r_env (\<lambda>_. True)
      UsersController UsersController_getAuthUser (r_request None) 0 closed_breaker sample_world = (Inr user, b', w')"
    using anonymous_reach [OF _ _ no_token, of UsersController UsersController_getAuthUser] by blast
  have "McpController \<in> set app_controllers" "McpController_handle \<in> set (ct_handlers McpController)"
    by (simp_all add: app_controllers_def McpController_def)
  moreover have "route_name McpController McpController_handle \<notin> set anonymous_routes" by code_simp
  ultimately have "\<nexists>user b' w'. pass_guards r_framework sample_casl (\<lambda>_. sample_grants) r_env (\<lambda>_. True)
      McpController McpController_handle (r_request None) 0 closed_breaker sample_world = (Inr user, b', w')"
    using anonymous_reach [OF _ _ no_token, of McpController McpController_handle] by blast
  with login profile show ?thesis by (intro conjI)
qed

section \<open>Staff\<close>

definition r_grants :: authorization_grants where
  "r_grants = \<lparr>ag_platform = [\<lparr>pg_action = A_resetPassword, pg_subject = S_User, pg_scope = PLATFORM,
     pg_ownership = ANY\<rparr>], ag_memberships = []\<rparr>"

lemma r_created: "\<exists>ab. createForUser ''u'' r_grants = Inr ab"
proof -
  have "\<exists>xs. platform_rules ''u'' (map definition_grant AUTHENTICATED_USER_PERMISSIONS) = Inr xs"
    using authenticated_in_catalog catalog_grant_ok by (intro platform_rules_total) fastforce
  then show ?thesis by (auto simp: createForUser_def r_grants_def grant_def)
qed

definition r_required :: required_permission where
  "r_required = \<lparr>rp_action = A_resetPassword, rp_subject = S_User, rp_is_administrative = True,
     rp_is_denied_as_not_found = False\<rparr>"

lemma r_decide:
  assumes "createForUser ''u'' r_grants = Inr ab"
  shows "decide sample_casl ab ''u'' r_required None = Inr True"
proof -
  let ?r = "can_rule A_resetPassword S_User None"
  have "user_rule ''u'' r_grants ?r"
    by (simp add: user_rule_def Let_def staff_rule_def r_grants_def can_rule_def)
  then have r: "?r \<in> set ab" "relevant A_resetPassword S_User ?r"
    using ability_core [OF assms] by (simp_all add: relevant_def can_rule_def)
  have "can_type sample_casl ab A_resetPassword S_User"
    using casl_ability(1) [OF sample_casl_laws assms] r by blast
  moreover have "hasNonOwnerScopedRule sample_casl ab A_resetPassword S_User = Inr True"
    using casl_ability(3) [OF sample_casl_laws assms, of A_resetPassword S_User] r
    by (force simp: hasNonOwnerScopedRule_def isOwnableSubject_def resolveOwnerKey_def can_rule_def)
  ultimately show ?thesis
    by (simp add: decide_def Let_def r_required_def isTenantScopedSubject_def)
qed

lemma account_routes_are_for_staff_witness:
  "\<exists>user. fst (pass_guards r_framework sample_casl (\<lambda>_. r_grants) r_env (\<lambda>_. True) UsersController
     UsersController_updatePassword (r_request (Some ''Bearer t'')) 0 closed_breaker sample_world) = Inr user \<and>
   staff_over r_grants A_resetPassword S_User"
proof -
  let ?pass = "fst (pass_guards r_framework sample_casl (\<lambda>_. r_grants) r_env (\<lambda>_. True) UsersController
     UsersController_updatePassword (r_request (Some ''Bearer t'')) 0 closed_breaker sample_world)"
  obtain ab where ab: "createForUser ''u'' r_grants = Inr ab" using r_created by blast
  have m: "UsersController \<in> set app_controllers" "UsersController_updatePassword \<in> set (ct_handlers UsersController)"
    by (simp_all add: app_controllers_def UsersController_def)
  have d: "decl_of UsersController UsersController_updatePassword =
      \<lparr>hd_public = False, hd_authenticated_only = False, hd_required = Some r_required\<rparr>"
    by (simp add: decl_of_def getAllAndOverride_def UsersController_updatePassword_def UsersController_def
        decorator_defs r_required_def)
  have "fw_bearer r_framework (''Bearer'' @ '' '' @ ''t'' @ '''') = Some ''t''"
    using r_reads [unfolded reads_bearer_def, rule_format, of "''Bearer''" "'' ''" "''t''" "''''"] by code_simp
  then have b: "fw_bearer r_framework ''Bearer t'' = Some ''t''" by simp
  have "validate r_claims 0 sample_world = Inr \<lparr>au_id = ''u'', au_email = ''u'', au_jti = None, au_exp = None\<rparr>"
    by (simp add: validate_def r_claims_def isAccessTokenPayload_def findByIdOrNull_def find_live_user_def
        live_users_def blocklisted_def truthy_def sample_defs)
  moreover have "\<not> isPublicRoute UsersController UsersController_updatePassword" by code_simp
  moreover have "resolveWorkspaceId \<lparr>gr_user = Some ''u'', gr_param_workspace_id = None, gr_body_workspace_id = None\<rparr> = None"
    by (simp add: resolveWorkspaceId_def)
  moreover have "route_guards UsersController UsersController_updatePassword = []" by code_simp
  ultimately have "?pass = Inr (Some \<lparr>au_id = ''u'', au_email = ''u'', au_jti = None, au_exp = None\<rparr>)"
    using ab r_decide [OF ab] b
    by (simp add: pass_guards_def pass_global_guards_def jwtAuthGuard_def d canActivate_def r_request_def
        r_framework_def split: option.split)
  moreover have "names_an_account UsersController UsersController_updatePassword"
    by (simp add: names_an_account_def UsersController_def UsersController_updatePassword_def)
  moreover have "getAllAndOverride de_required UsersController UsersController_updatePassword = Some r_required"
    using d by (simp add: decl_of_def)
  ultimately show ?thesis
    using account_routes_are_for_staff [OF sample_casl_laws m, of r_framework "\<lambda>_. r_grants" r_env "\<lambda>_. True"
        "r_request (Some ''Bearer t'')" 0 closed_breaker sample_world]
    by (auto simp: r_required_def)
qed

text \<open>A request, and a log of three entries, with the properties of the audit trail applied to them.\<close>

definition a_head :: http_head where
  "a_head = \<lparr>hh_method = ''GET'', hh_url = ''/x?token=s'', hh_ip = Some ''9'', hh_user_agent = None,
     hh_accept_language = None, hh_cf_country = Some ''US'', hh_cf_ray = None, hh_request_id = [''<'', ''b'']\<rparr>"

lemma audit_envelope_is_vouched_witness:
  "\<exists>m request. mergeRequestContext
       (Some (setup_context False (\<lambda>_. undefined) a_head (fst (resolveRequestId None (hh_request_id a_head) ''f''))))
       (Some [(''request'', JNull), (''k'', JInt 1)]) = Some m \<and>
     map_of m ''request'' = Some (JObj request) \<and> map_of m ''k'' = Some (JInt 1) \<and> map_of request ''country'' = None"
proof -
  have "SAFE_REQUEST_ID ''f''" by code_simp
  from audit_envelope_is_vouched [OF this refl, of False "\<lambda>_. undefined" a_head "Some [(''request'', JNull), (''k'', JInt 1)]"]
  obtain m request where "mergeRequestContext
       (Some (setup_context False (\<lambda>_. undefined) a_head (fst (resolveRequestId None (hh_request_id a_head) ''f''))))
       (Some [(''request'', JNull), (''k'', JInt 1)]) = Some m"
    "map_of m ''request'' = Some (JObj request)" "map_of request ''country'' = None"
    "\<forall>k. map_of m k = (if k = ''request'' then Some (JObj request)
       else Option.bind (Some [(''request'', JNull), (''k'', JInt 1)]) (\<lambda>given. map_of given k))"
    by blast
  then show ?thesis by (intro exI [of _ m] exI [of _ request]) (simp add: spec [of _ "''k''"])
qed

definition a_row :: "ident \<Rightarrow> string \<Rightarrow> audit_row" where
  "a_row i act = \<lparr>al_id = i, al_created_at = 0, al_action = act, al_actor_id = Some ''u'', al_target_user_id = None,
     al_metadata = None\<rparr>"

definition a_query :: audit_query where
  "a_query = \<lparr>aq_page = 1, aq_per_page = 1, aq_search = None, aq_sort_by = None, aq_sort_order = None,
     aq_action = Some ''x'', aq_actor_id = None, aq_target_user_id = None, aq_start = None, aq_end = None\<rparr>"

lemma pages_cover_the_query_witness:
  "\<exists>pages total. mset (concat (map (\<lambda>p. map fst (pages p)) [0..<total])) = {#a_row ''1'' ''x'', a_row ''3'' ''x''#} \<and>
     (\<exists>meta. findPaginated (\<lambda>_. []) (\<lambda>_ rows. rows) (a_query\<lparr>aq_page := Suc 1\<rparr>) sample_world
        [a_row ''1'' ''x'', a_row ''2'' ''y'', a_row ''3'' ''x''] = Inr (pages (1::nat), meta))"
proof -
  let ?rows = "[a_row ''1'' ''x'', a_row ''2'' ''y'', a_row ''3'' ''x'']"
  have o: "orders_rows (\<lambda>_ rows. rows)" by (simp add: orders_rows_def)
  have p: "0 < aq_per_page a_query" by (simp add: a_query_def)
  have b: "buildOrderBy (aq_sort_by a_query) (aq_sort_order a_query) AUDIT_LOG_SORTABLE_COLUMNS ''createdAt'' DESC =
      Inr (''createdAt'', DESC)"
    by (simp add: buildOrderBy_def a_query_def)
  have sel: "filter (where_selects (buildFilter (\<lambda>_. []) a_query (users sample_world) ?rows)) ?rows =
      [a_row ''1'' ''x'', a_row ''3'' ''x'']"
    by (simp add: buildFilter_def a_query_def truthy_def buildDateRangeFilter_def no_where_def no_bounds_def
        where_selects_def in_range_def a_row_def)
  from pages_cover_the_query [OF o p b, of "\<lambda>_. []" sample_world ?rows]
  obtain pages total where pages: "\<forall>p. \<exists>meta. findPaginated (\<lambda>_. []) (\<lambda>_ rows. rows) (a_query\<lparr>aq_page := Suc p\<rparr>)
      sample_world ?rows = Inr (pages p, meta) \<and> pm_total_pages meta = total"
    and all: "mset (concat (map (\<lambda>p. map fst (pages p)) [0..<total])) = mset [a_row ''1'' ''x'', a_row ''3'' ''x'']"
    unfolding sel by (elim exE conjE) (rule that)
  have "\<exists>meta. findPaginated (\<lambda>_. []) (\<lambda>_ rows. rows) (a_query\<lparr>aq_page := Suc 1\<rparr>) sample_world ?rows =
      Inr (pages 1, meta)"
    using spec [OF pages, of 1] by blast
  moreover have "mset (concat (map (\<lambda>p. map fst (pages p)) [0..<total])) = {#a_row ''1'' ''x'', a_row ''3'' ''x''#}"
    unfolding all by simp
  ultimately show ?thesis by (intro exI [of _ pages] exI [of _ total]) (rule conjI)
qed

section \<open>Messages\<close>

definition m_escape :: "char \<Rightarrow> string" where
  "m_escape c = (case map_of [(CHR ''&'', ''&amp;''), (CHR ''<'', ''&lt;''), (CHR ''>'', ''&gt;''), (CHR 0x22, ''&quot;''),
     (CHR 0x27, ''&#x27;''), (CHR 0x60, ''&#x60;''), (CHR ''='', ''&#x3D;'')] c of None \<Rightarrow> [c] | Some e \<Rightarrow> e)"

lemma m_escape_documented: "escapes_as_documented m_escape"
  by (simp add: escapes_as_documented_def m_escape_def SPECIALS_def)

lemma escaped_value_survives_witness: "htmlToText char_of (concat (map m_escape ''a<b>=&'')) = ''a<b>=&''"
proof -
  have "trim ''a<b>=&'' = ''a<b>=&''" by code_simp
  moreover have "char_of (of_char c :: nat) = c" for c :: char by simp
  ultimately show ?thesis using escaped_value_survives [OF m_escape_documented, of char_of "''a<b>=&''"] by simp
qed

section \<open>The boot check\<close>

lemma founder_joins:
  "createWorkspaceTransaction dto actor now newId newMember w = Inr ((s, m), w') \<Longrightarrow>
   memberships w' = memberships w @ [m]"
  by (auto simp: createWorkspaceTransaction_def Let_def bindE_Inr_iff)

lemma written_assignments_boot_witness:
  "memberships founded_world \<noteq> [] \<and> bootAssignments ''production'' (columns_of founded_world) = Inr ()"
proof -
  obtain s m where found: "createWorkspaceTransaction founding_dto ''u'' 5 ''s'' ''mu'' founding_world = Inr ((s, m), founded_world)"
    using founded by blast
  have "map_of ROLE_DEFINITION_CATALOG WORKSPACE_OWNER = Some WORKSPACE_OWNER_definition"
    "map_of ROLE_DEFINITION_CATALOG WORKSPACE_ADMIN = Some WORKSPACE_ADMIN_definition"
    "map_of ROLE_DEFINITION_CATALOG WORKSPACE_STAFF = Some WORKSPACE_STAFF_definition"
    by code_simp+
  then have "projected founding_world"
    by (simp add: projected_def founding_world_def roster_world_def sample_role_def
        WORKSPACE_OWNER_definition_def WORKSPACE_ADMIN_definition_def WORKSPACE_STAFF_definition_def)
  then have "seeded founding_world"
    by (simp add: seeded_def founding_world_def roster_world_def empty_world_def)
  then have "reachable seeded assignment_step founding_world" by (rule reachable.start)
  then have "reachable seeded assignment_step founded_world"
    by (rule reachable.next_step) (rule assignment_step.found [OF found])
  moreover have "memberships founded_world \<noteq> []"
    using founder_joins [OF found] by simp
  ultimately show ?thesis using written_assignments_boot [of founded_world "''production''"] by simp
qed

end
