(* ===== verification/Spec2Isabelle.thy ===== *)
theory Spec2Isabelle
  imports Session_Witnesses Access_Witnesses Ability_Witnesses Catalog_Properties Ownership_Witnesses
    Invitation_Witnesses Credential_Witnesses File_Witnesses Guard_Witnesses Http_Witnesses Queue_Witnesses
    Config_Witnesses OAuth_Witnesses Service_Witnesses Signed_Urls Errors
begin

text \<open>
  A model of the NestJS API in this repository: the rules its services enforce, as definitions that read
  like the TypeScript they stand for, and the properties that make them correct.

  \<^bold>\<open>How the code is modelled.\<close>  A service method is a function on explicit state that returns
  \<open>Inl exception\<close> or \<open>Inr result\<close>; every guard, early return and throw of the source is a branch of
  it.  The database is the record \<open>world\<close> of theory \<open>World\<close> (the tables of \<open>src/prisma/schema.prisma\<close> as
  lists of rows, the audit log, the queued jobs and the Redis keys); components with tables of their own
  (files, releases, device tokens, send-limit counters) have a record of their own.  A transaction is one
  function, so it is atomic; what a request does before, between and after its transactions are separate
  functions, so that other requests can run in between.  Instants are milliseconds as \<open>int\<close>, text is
  \<open>string\<close>, except for uploaded file names, which are lists of Unicode code points.  Third-party code is
  an argument: bcrypt, the JWT library, SHA-256 and HMAC (\<open>ext\<close> and plain functions), the CASL rule
  engine (\<open>casl\<close>, with its documented behaviour on granting rules in \<open>casl_laws\<close>), the JSON codec of the
  grants cache, \<open>sharp\<close>, type detection, Unicode normalisation, the object store's and siteverify's
  answers, and the clock.

  \<^bold>\<open>Theories and sources.\<close>  Paths are under \<open>src/src\<close>.
  \<^item> \<open>Service_Prelude\<close>: the error monad, tables, text functions, and the locale \<open>machine\<close> (initial states,
    steps, an invariant) that every state machine of the development instantiates.
  \<^item> \<open>Errors\<close>: \<open>common/errors\<close>.  \<open>World\<close>: the tables, audit log, jobs and Redis.
  \<^item> \<open>Sessions\<close>, \<open>Session_Machine\<close>, \<open>Session_Properties\<close>: \<open>modules/auth/refresh-token.service.ts\<close>,
    \<open>common/util/session-cutoff.util.ts\<close>.  \<open>Access\<close>: \<open>modules/auth/auth.service.ts\<close>, the JWT strategy, access
    tokens and password hashing.
  \<^item> \<open>Catalog\<close>, \<open>Catalog_Properties\<close>: \<open>common/authorization/permission-catalog.ts\<close>.  \<open>Ability\<close>,
    \<open>Ability_Properties\<close>: the ability factory, scoped queries and the permissions guard.  \<open>Grants_Cache\<close>:
    \<open>modules/authorization/permission-loader.service.ts\<close>, with a machine of loads, late fills and invalidations
    that bounds how old served grants are.
  \<^item> \<open>Ownership\<close>, \<open>Workspaces\<close>, \<open>Memberships\<close>, \<open>Accounts\<close>, then \<open>Ownership_Steps\<close>, \<open>Ownership_Machine\<close>
    and \<open>Ownership_Properties\<close>: \<open>modules/workspaces\<close> and the account life cycle of
    \<open>modules/users/users.service.ts\<close>.  \<open>Invitations\<close>, \<open>Invitation_Machine\<close>, \<open>Invitation_Properties\<close>:
    \<open>modules/workspaces/invitations\<close>.  \<open>Platform_Roles\<close>: \<open>modules/roles\<close>.
  \<^item> \<open>Credentials\<close>, \<open>Credential_Properties\<close>: passwords, email and phone of \<open>users.service.ts\<close>.
  \<^item> \<open>File_Names\<close>, \<open>File_Name_Properties\<close>, \<open>Files\<close>, \<open>File_Machine\<close>, \<open>File_Properties\<close>, \<open>File_Outcomes\<close>,
    \<open>File_Cleanup\<close>: \<open>modules/files\<close> and the name, header, object-key and signed-URL utilities.
  \<^item> \<open>Turnstile\<close>, \<open>Turnstile_Properties\<close>: \<open>common/turnstile\<close>.  \<open>Send_Limits\<close>:
    \<open>common/send-limit\<close>.  \<open>Concurrency_Limit\<close>: \<open>common/util/concurrency-limit.util.ts\<close>.
  \<^item> \<open>Redaction\<close>: \<open>common/util/redact-url-secrets.util.ts\<close>.  \<open>Exception_Filter\<close>, \<open>Exception_Properties\<close>:
    \<open>common/filters/global-exception.filter.ts\<close>.
  \<^item> \<open>App_Versions\<close>: \<open>modules/app-versions\<close>.  \<open>Device_Tokens\<close>: \<open>modules/device-tokens\<close>.
  \<^item> \<open>Queue_Registry\<close>, \<open>Queue_Producer\<close>, \<open>Queue_Processor\<close>, \<open>Queue_Properties\<close>,
    \<open>Queue_Run_Properties\<close>: \<open>common/queue\<close>, \<open>common/util/queue-job-id.util.ts\<close>,
    \<open>common/util/error-message.util.ts\<close> and \<open>modules/queue-admin\<close>.  BullMQ is the record \<open>bull\<close> with its documented
    behaviour in \<open>bull_laws\<close>.
  \<^item> \<open>Env_Schema\<close>, \<open>Env_Variables\<close>, \<open>Configuration\<close>, \<open>Config_Properties\<close>, \<open>Config_Defaults\<close>: \<open>config\<close>, \<open>common/redis/redis-connection.ts\<close> and the utilities they use.  The schema is
    data; Joi is assumed to accept only what conforms to it (\<open>joi_laws\<close>), and the URL parser and \<open>isIP\<close> are fields of
    \<open>platform\<close>.
  \<^item> \<open>OAuth_Store\<close>, \<open>OAuth_Provider\<close>, \<open>OAuth_Interactions\<close>, \<open>OAuth_Store_Properties\<close>,
    \<open>OAuth_Properties\<close>: \<open>modules/mcp-oauth\<close>, \<open>modules/mcp/guards\<close>, \<open>common/util/oauth-keys.util.ts\<close> and
    \<open>login-throttle.util.ts\<close>.  \<open>oidc-provider\<close> is the record \<open>oidc_library\<close>, of which only
    \<open>reads_through_adapter\<close> is assumed; the locale \<open>one_time\<close> is the contract of a credential redeemed once, and
    \<open>session_gate\<close> that of an account check, interpreted on the REST strategy and on the MCP rule.
  \<^item> \<open>Account_Mail\<close>, \<open>Account_Mail_Properties\<close>: the deliveries of \<open>users.service.ts\<close> with the
    messages of \<open>common/email/email.service.ts\<close> and the jobs of \<open>modules/users/jobs\<close>, and the profile picture.
  \<^item> \<open>Row_Locks\<close>: the lock functions of \<open>common/util/row-lock.util.ts\<close>, the order their header
    prescribes, and two transactions whose foreign keys leave it.  The other locks of writes are not modelled.
  \<^item> \<open>Request_Pipeline\<close>, \<open>Routes\<close>: the decorators, the global guards of \<open>app.module.ts\<close>, the guards a
    route adds (the bot check of \<open>Turnstile\<close>, the MCP guard of \<open>OAuth_Provider\<close>) and the boot check of the routes; the routes of every controller with their decorators.  Passport and the JWT library are the
    record \<open>framework\<close>, with passport's documented reading of a header in \<open>reads_bearer\<close>.
  \<^item> \<open>Audit_Trail\<close>: \<open>common/audit\<close>, the request context of \<open>app.module.ts\<close>, \<open>request-id.util.ts\<close>,
    \<open>modules/audit-logs\<close>, and the ordering and date filters it uses.
  \<^item> \<open>Mail_Templates\<close>: \<open>common/email/template-engine.ts\<close>.  Handlebars is a function from a template's text
    and its variables, with its escaping in \<open>escapes_as_documented\<close>; regular expressions are matchers at the head.
  \<^item> \<open>Boot_Checks\<close>: the two services that refuse to start on a drifted catalog or on incoherent assignments, and
    the step relation of everything that writes an assignment, over which the second never fires.
  \<^item> \<open>Signed_Urls\<close>: \<open>common/storage/signed-read-url-cache.service.ts\<close> and the signing of
    \<open>file-storage.service.ts\<close>; the storage adapter's answer is an argument, and a write to Redis lands within
    \<open>slack\<close> milliseconds.
  \<^item> \<open>Samples\<close> and the \<open>*_Witnesses\<close> theories: concrete data, and every property with hypotheses applied to
    it.

  \<^bold>\<open>What the lemmas show.\<close>  The machines (refresh tokens, workspace ownership, invitations, files,
  releases, the grants cache, the limiter, the breaker's history) have an invariant and a proof that every step
  keeps it; the properties follow from the invariant in every reachable state, hence for every interleaving of
  requests the steps allow.  One step of the ownership machine can break its invariant, an account update on a
  stale read (\<open>stale_deactivation\<close>); its property says so.  The other components have lemmas that invert each operation (what it checked and what it
  changed when it returns), from which their properties follow.

  \<^bold>\<open>Bounds.\<close>  Loops of the code are bounded by data: the cleanup by its batch of 200 rows and
  its limit of five failures in a row.  No definition runs on fuel a caller could lack.

  \<^bold>\<open>Where the code and its comments part.\<close>  Some lemmas describe runs the code does not rule out:
  \<open>whole_second_token_survives\<close>, \<open>same_second_login_survives\<close>, \<open>stale_fill_survives_invalidation\<close>,
  \<open>stale_update_strands_workspace\<close>, \<open>reset_link_redeemed_twice\<close>, \<open>orphaned_object_possible\<close>,
  \<open>one_blip_opens_breaker\<close>, \<open>refused_attempts_use_budget\<close>, \<open>limit_exceeded\<close>, \<open>overlapping_updates_break_train\<close>,
  \<open>composite_unique_names_first\<close>,
  \<open>operator_cancels_finished_job\<close>, \<open>redaction_keeps_password_tail\<close>, \<open>validated_number_read_differently\<close>,
  \<open>rest_admits_unverified_address\<close>, \<open>invitation_deadlocks_with_addition\<close>, \<open>two_decisions_pass_audit\<close>,
  \<open>trailing_word_loses_bucket\<close>, \<open>sign_in_budget_per_address\<close>, \<open>underscore_finds_other_entries\<close>,
  \<open>boundary_counted_twice\<close>, \<open>entity_decoded_twice\<close>,
  \<open>served_below_half\<close>, \<open>slow_write_serves_expired\<close>,
  \<open>not_found_message_repeats_url\<close>, \<open>local_reset_link_accepted\<close>.

  \<^bold>\<open>Not modelled.\<close>  The validation decorators of the DTOs (interpreted by class-validator) and the
  controllers' delegation to the services, paginated listings other than the audit log's, process start-up,
  health checks, telemetry and logging configuration, provider adapters for email, SMS and object storage,
  Prisma itself and the seeders, the HTML of the OAuth pages, the counters of the throttle, and the tools of
  the MCP endpoint.
\<close>

end
